(* ===== verification/Moazez_Prelude.thy ===== *)
theory Moazez_Prelude
  imports Complex_Main "HOL-Library.Multiset" "HOL-Library.AList"
begin

text \<open>
  Shared vocabulary of the development.

  \<^item> \<open>js_exception\<close> and \<open>'a result\<close>: what a TypeScript function can throw or return
    (\<open>src/src/common/exceptions/domain-exception.ts\<close>).
  \<^item> ASCII strings with \<open>trim\<close>, \<open>toLowerCase\<close>, \<open>toUpperCase\<close>.
  \<^item> \<open>Array.prototype.sort\<close> (\<open>js_sort\<close>, stable), with the locale \<open>comparator\<close> for the
    comparison callbacks that are total preorders.
  \<^item> insertion-ordered \<open>Map\<close> (\<open>jm_get\<close>, \<open>jm_set\<close>) and \<open>[...new Set(xs)]\<close> (\<open>js_unique\<close>).
  \<^item> \<open>js_number\<close>: the values of type \<open>number\<close> that validation code has to tell apart.

  A \<open>Date\<close> is its \<open>getTime()\<close>, an \<open>int\<close> of milliseconds since the epoch.
\<close>

named_theorems result_simps \<open>how the result monad computes\<close>
named_theorems sort_simps \<open>multiset, set and length of sorted arrays\<close>

section \<open>Exceptions and results\<close>

text \<open>Values that the source puts into the \<open>details\<close> object of an exception, a JSON column or a
  query. \<open>DInherited k\<close> is the member \<open>k\<close> of \<open>Object.prototype\<close>.\<close>

datatype detail =
    DStr string
  | DInt int
  | DNum rat
  | DNums "rat list"
  | DBool bool
  | DDate int
  | DStrs "string list"
  | DNull
  | DUndefined
  | DInherited string

datatype js_exception =
    DomainException (exn_code: string) (exn_message: string) (exn_httpStatus: int)
      (exn_details: "(string \<times> detail) list")
  | JsError (error_message: string)
  | PrismaError (prisma_code: string)

type_synonym 'a result = "js_exception + 'a"

definition ValidationDomainException :: "string \<Rightarrow> (string \<times> detail) list \<Rightarrow> js_exception" where
  "ValidationDomainException msg details = DomainException ''validation.failed'' msg 400 details"

definition NotFoundDomainException :: "string \<Rightarrow> (string \<times> detail) list \<Rightarrow> js_exception" where
  "NotFoundDomainException msg details = DomainException ''not_found'' msg 404 details"

definition detail_of_str_option :: "string option \<Rightarrow> detail" where
  "detail_of_str_option s = (case s of None \<Rightarrow> DNull | Some x \<Rightarrow> DStr x)"

definition detail_of_int_option :: "int option \<Rightarrow> detail" where
  "detail_of_int_option n = (case n of None \<Rightarrow> DNull | Some x \<Rightarrow> DInt x)"

definition detail_of_date_option :: "int option \<Rightarrow> detail" where
  "detail_of_date_option d = (case d of None \<Rightarrow> DNull | Some t \<Rightarrow> DDate t)"

text \<open>An object of a JSON column: its keys and values in order.\<close>

type_synonym json_object = "(string \<times> detail) list"

text \<open>The row a request requires, or the exception it raises without it.\<close>

definition found :: "js_exception \<Rightarrow> 'a option \<Rightarrow> 'a result" where
  "found e x = (case x of None \<Rightarrow> Inl e | Some y \<Rightarrow> Inr y)"

text \<open>Sequencing: an exception of the first computation skips the second.\<close>

fun andThen :: "'a result \<Rightarrow> ('a \<Rightarrow> 'b result) \<Rightarrow> 'b result" where
  "andThen (Inl e) f = Inl e"
| "andThen (Inr x) f = f x"

lemma andThen_eq_Inr [result_simps]:
  "andThen m f = Inr y \<longleftrightarrow> (\<exists>x. m = Inr x \<and> f x = Inr y)"
  by (cases m) auto

lemma andThen_eq_Inl [result_simps]:
  "andThen m f = Inl e \<longleftrightarrow> m = Inl e \<or> (\<exists>x. m = Inr x \<and> f x = Inl e)"
  by (cases m) auto

lemma andThen_Inr_right [simp]: "andThen m Inr = m"
  by (cases m) auto

lemma andThen_assoc: "andThen (andThen m f) g = andThen m (\<lambda>x. andThen (f x) g)"
  by (cases m) auto

text \<open>\<open>xs.map(f)\<close> and \<open>xs.filter(p)\<close> for callbacks that may throw: the callback runs on the
  elements from left to right, and the first exception ends the traversal.\<close>

fun mapR :: "('a \<Rightarrow> 'b result) \<Rightarrow> 'a list \<Rightarrow> 'b list result" where
  "mapR f [] = Inr []"
| "mapR f (x # xs) = andThen (f x) (\<lambda>y. andThen (mapR f xs) (\<lambda>ys. Inr (y # ys)))"

fun filterR :: "('a \<Rightarrow> bool result) \<Rightarrow> 'a list \<Rightarrow> 'a list result" where
  "filterR p [] = Inr []"
| "filterR p (x # xs) =
     andThen (p x) (\<lambda>b. andThen (filterR p xs) (\<lambda>ys. Inr (if b then x # ys else ys)))"

lemma mapR_Inr_iff: "mapR f xs = Inr ys \<longleftrightarrow> list_all2 (\<lambda>x y. f x = Inr y) xs ys"
  by (induction xs arbitrary: ys) (auto simp: andThen_eq_Inr list_all2_Cons1)

lemma mapR_total: "(\<And>x. x \<in> set xs \<Longrightarrow> \<exists>y. f x = Inr y) \<Longrightarrow> \<exists>ys. mapR f xs = Inr ys"
proof (induction xs)
  case Nil
  then show ?case by simp
next
  case (Cons x xs)
  from Cons.prems obtain y where y: "f x = Inr y" by auto
  from Cons.IH Cons.prems obtain ys where "mapR f xs = Inr ys" by auto
  with y show ?case by simp
qed

lemma mapR_Inr_map: "(\<And>x. x \<in> set xs \<Longrightarrow> f x = Inr (g x)) \<Longrightarrow> mapR f xs = Inr (map g xs)"
  by (induction xs) auto

lemma mapR_InrD: "mapR f xs = Inr ys \<Longrightarrow> x \<in> set xs \<Longrightarrow> \<exists>y \<in> set ys. f x = Inr y"
  by (induction xs arbitrary: ys) (auto simp: andThen_eq_Inr)

lemma mapR_Inr_length: "mapR f xs = Inr ys \<Longrightarrow> length ys = length xs"
  by (simp add: mapR_Inr_iff list_all2_lengthD)

lemma filterR_Inr_filter:
  "(\<And>x. x \<in> set xs \<Longrightarrow> p x = Inr (q x)) \<Longrightarrow> filterR p xs = Inr (filter q xs)"
  by (induction xs) auto

lemma filterR_InrD:
  "filterR p xs = Inr ys \<Longrightarrow> set ys = {x \<in> set xs. p x = Inr True} \<and> (\<forall>x \<in> set xs. \<exists>b. p x = Inr b)"
  by (induction xs arbitrary: ys) (auto simp: andThen_eq_Inr split: if_splits)

section \<open>Strings\<close>

text \<open>The ECMAScript white space and line terminators below 128.\<close>

definition js_space :: "char \<Rightarrow> bool" where
  "js_space c \<longleftrightarrow> of_char c \<in> {9, 10, 11, 12, 13, 32 :: nat}"

definition js_trim :: "string \<Rightarrow> string" where
  "js_trim s = rev (dropWhile js_space (rev (dropWhile js_space s)))"

definition char_lower :: "char \<Rightarrow> char" where
  "char_lower c =
     (let n = of_char c :: nat in if 65 \<le> n \<and> n \<le> 90 then char_of (n + 32) else c)"

definition char_upper :: "char \<Rightarrow> char" where
  "char_upper c =
     (let n = of_char c :: nat in if 97 \<le> n \<and> n \<le> 122 then char_of (n - 32) else c)"

definition toLowerCase :: "string \<Rightarrow> string" where
  "toLowerCase s = map char_lower s"

definition toUpperCase :: "string \<Rightarrow> string" where
  "toUpperCase s = map char_upper s"

text \<open>\<open>normalizeNullableText\<close>: the trimmed text, or null when nothing is left. Several modules
  of the source carry a copy; \<open>None\<close> stands for both \<open>undefined\<close> and \<open>null\<close>.\<close>

definition trimmed_or_null :: "string option \<Rightarrow> string option" where
  "trimmed_or_null v =
     (case v of None \<Rightarrow> None
      | Some s \<Rightarrow> (let t = js_trim s in if 0 < length t then Some t else None))"

definition char_digit :: "char \<Rightarrow> bool" where
  "char_digit c \<longleftrightarrow> 48 \<le> (of_char c :: nat) \<and> (of_char c :: nat) \<le> 57"

definition digit_value :: "char \<Rightarrow> int" where
  "digit_value c = int (of_char c) - 48"

text \<open>\<open>Number(text)\<close> for a text of decimal digits.\<close>

definition decimal_value :: "string \<Rightarrow> int" where
  "decimal_value ds = foldl (\<lambda>n d. n * 10 + digit_value d) 0 ds"

text \<open>\<open>String(n)\<close> for an integer and \<open>parts.join(separator)\<close>.\<close>

fun nat_to_string :: "nat \<Rightarrow> string" where
  "nat_to_string n =
     (if n < 10 then [char_of (48 + n)] else nat_to_string (n div 10) @ [char_of (48 + n mod 10)])"

declare nat_to_string.simps [simp del]

definition int_to_string :: "int \<Rightarrow> string" where
  "int_to_string n = (if n < 0 then CHR ''-'' # nat_to_string (nat (- n)) else nat_to_string (nat n))"

fun js_join :: "string \<Rightarrow> string list \<Rightarrow> string" where
  "js_join sep [] = []"
| "js_join sep [x] = x"
| "js_join sep (x # y # xs) = x @ sep @ js_join sep (y # xs)"

text \<open>Truthiness of a \<open>string | null | undefined\<close>.\<close>

definition truthy :: "string option \<Rightarrow> bool" where
  "truthy v = (case v of None \<Rightarrow> False | Some s \<Rightarrow> s \<noteq> [])"

lemma truthy_simps [simp]: "truthy None = False" "truthy (Some s) = (s \<noteq> [])"
  by (simp_all add: truthy_def)

lemma dropWhile_none: "(\<And>x. x \<in> set xs \<Longrightarrow> \<not> P x) \<Longrightarrow> dropWhile P xs = xs"
  by (cases xs) auto

lemma dropWhile_rev_dropWhile:
  "dropWhile P (rev (dropWhile P (rev (dropWhile P xs)))) = rev (dropWhile P (rev (dropWhile P xs)))"
proof -
  have "dropWhile P (rev (dropWhile P (rev ys))) = rev (dropWhile P (rev ys))"
    if ys: "ys = [] \<or> \<not> P (hd ys)" for ys
  proof (cases ys)
    case (Cons y zs)
    with ys have y: "\<not> P y" by simp
    have "dropWhile P (rev zs @ [y]) = dropWhile P (rev zs) @ [y]"
      using y by (induction "rev zs" arbitrary: zs) (auto simp: dropWhile_append)
    with Cons y show ?thesis by simp
  qed simp
  moreover have "dropWhile P xs = [] \<or> \<not> P (hd (dropWhile P xs))"
    by (cases "dropWhile P xs") (auto dest: dropWhile_eq_Cons_conv [THEN iffD1])
  ultimately show ?thesis by blast
qed

lemma js_trim_idem [simp]: "js_trim (js_trim s) = js_trim s"
  by (simp add: js_trim_def dropWhile_rev_dropWhile)

lemma js_trim_no_space:
  assumes "\<forall>c \<in> set s. \<not> js_space c"
  shows "js_trim s = s"
proof -
  have "dropWhile js_space s = s" "dropWhile js_space (rev s) = rev s"
    using assms by (auto intro!: dropWhile_none)
  then show ?thesis by (simp add: js_trim_def)
qed

lemma trimmed_or_null_idem [simp]: "trimmed_or_null (trimmed_or_null v) = trimmed_or_null v"
  by (auto simp: trimmed_or_null_def Let_def split: option.split)

lemma trimmed_or_null_SomeD:
  "trimmed_or_null v = Some t \<Longrightarrow> t \<noteq> [] \<and> js_trim t = t \<and> (\<exists>s. v = Some s \<and> t = js_trim s)"
  by (auto simp: trimmed_or_null_def Let_def split: option.splits if_splits)

section \<open>Arrays: sort and Set spread\<close>

text \<open>
  \<open>Array.prototype.sort\<close> with a comparison callback. ECMAScript requires a stable sort for a
  consistent callback, which determines the result; insertion sort computes it.
\<close>

fun insert_by :: "('a \<Rightarrow> 'a \<Rightarrow> int) \<Rightarrow> 'a \<Rightarrow> 'a list \<Rightarrow> 'a list" where
  "insert_by cmp x [] = [x]"
| "insert_by cmp x (y # ys) = (if 0 < cmp x y then y # insert_by cmp x ys else x # y # ys)"

fun js_sort :: "('a \<Rightarrow> 'a \<Rightarrow> int) \<Rightarrow> 'a list \<Rightarrow> 'a list" where
  "js_sort cmp [] = []"
| "js_sort cmp (x # xs) = insert_by cmp x (js_sort cmp xs)"

text \<open>The callback idiom \<open>a || b\<close>: the second comparison decides when the first gives 0.\<close>

definition cmp_or :: "int \<Rightarrow> int \<Rightarrow> int" where
  "cmp_or a b = (if a \<noteq> 0 then a else b)"

lemma mset_insert_by [sort_simps]: "mset (insert_by cmp x xs) = {#x#} + mset xs"
  by (induction xs) auto

lemma mset_js_sort [sort_simps]: "mset (js_sort cmp xs) = mset xs"
  by (induction xs) (auto simp: mset_insert_by)

lemma set_js_sort [simp]: "set (js_sort cmp xs) = set xs"
  by (metis mset_js_sort set_mset_mset)

lemma length_js_sort [simp]: "length (js_sort cmp xs) = length xs"
  by (metis mset_js_sort size_mset)

lemma set_insert_by [simp]: "set (insert_by cmp x xs) = insert x (set xs)"
  by (induction xs) auto

lemma distinct_js_sort [simp]: "distinct (js_sort cmp xs) = distinct xs"
  by (metis mset_js_sort mset_eq_imp_distinct_iff)

lemma js_sort_Nil_iff [simp]: "js_sort cmp xs = [] \<longleftrightarrow> xs = []"
  by (metis length_js_sort length_0_conv)

text \<open>
  The contract of a consistent comparison callback: its sign is antisymmetric and "not after" is
  transitive. Under it the array is sorted and equal elements keep their order.
\<close>

locale comparator =
  fixes cmp :: "'a \<Rightarrow> 'a \<Rightarrow> int"
  assumes antisym: "0 < cmp x y \<longleftrightarrow> cmp y x < 0"
    and trans: "cmp x y \<le> 0 \<Longrightarrow> cmp y z \<le> 0 \<Longrightarrow> cmp x z \<le> 0"
begin

lemma refl: "cmp x x = 0"
  using antisym [of x x] by linarith

lemma total: "cmp x y \<le> 0 \<or> cmp y x \<le> 0"
  using antisym [of x y] by linarith

lemma sym: "cmp x y = 0 \<longleftrightarrow> cmp y x = 0"
  using antisym [of x y] antisym [of y x] by linarith

lemma sorted_insert_by:
  "sorted_wrt (\<lambda>x y. cmp x y \<le> 0) xs \<Longrightarrow> sorted_wrt (\<lambda>x y. cmp x y \<le> 0) (insert_by cmp x xs)"
proof (induction xs)
  case Nil
  then show ?case by simp
next
  case (Cons y ys)
  show ?case
  proof (cases "0 < cmp x y")
    case True
    then have "cmp y x \<le> 0" using antisym [of x y] by linarith
    with Cons True show ?thesis by auto
  next
    case False
    with Cons.prems show ?thesis by (auto intro: trans [of x y])
  qed
qed

lemma sorted_js_sort: "sorted_wrt (\<lambda>x y. cmp x y \<le> 0) (js_sort cmp xs)"
  by (induction xs) (auto intro: sorted_insert_by)

lemma eq_trans: "cmp x y = 0 \<Longrightarrow> cmp y z = 0 \<Longrightarrow> cmp x z = 0"
  using trans [of x y z] trans [of z y x] sym [of x y] sym [of y z]
    antisym [of x z] antisym [of z x] by auto

lemma filter_insert_by:
  "filter (\<lambda>y. cmp z y = 0) (insert_by cmp x xs) =
     (if cmp z x = 0 then x # filter (\<lambda>y. cmp z y = 0) xs else filter (\<lambda>y. cmp z y = 0) xs)"
proof (induction xs)
  case Nil
  then show ?case by simp
next
  case (Cons y ys)
  have "cmp z y \<noteq> 0" if "0 < cmp x y" "cmp z x = 0"
    using that eq_trans [of x z y] sym [of x z] by linarith
  with Cons show ?case by auto
qed

text \<open>Stability: the elements that compare equal to \<open>z\<close> stay in their original order.\<close>

lemma stable_js_sort: "filter (\<lambda>y. cmp z y = 0) (js_sort cmp xs) = filter (\<lambda>y. cmp z y = 0) xs"
  by (induction xs) (simp_all add: filter_insert_by)

lemma hd_js_sort_least: "xs \<noteq> [] \<Longrightarrow> y \<in> set xs \<Longrightarrow> cmp (hd (js_sort cmp xs)) y \<le> 0"
proof -
  assume ne: "xs \<noteq> []" and y: "y \<in> set xs"
  obtain h t where ht: "js_sort cmp xs = h # t"
    using ne by (metis js_sort_Nil_iff neq_Nil_conv)
  have "y = h \<or> y \<in> set t"
    using y set_js_sort [of cmp xs] ht by auto
  then show ?thesis
    using sorted_js_sort [of xs] ht refl [of h] by auto
qed

end

text \<open>How the callbacks of the source are built: numeric difference, a key, a lexicographic chain.\<close>

lemma comparator_diff: "comparator (\<lambda>x y. f x - f y)"
  by unfold_locales auto

lemma comparator_diff_desc: "comparator (\<lambda>x y. f y - f x)"
  by unfold_locales auto

lemma comparator_key: "comparator c \<Longrightarrow> comparator (\<lambda>x y. c (k x) (k y))"
  unfolding comparator_def by blast

lemma comparator_lex:
  assumes a: "comparator a" and b: "comparator b"
  shows "comparator (\<lambda>x y. cmp_or (a x y) (b x y))"
proof
  fix x y z
  show "0 < cmp_or (a x y) (b x y) \<longleftrightarrow> cmp_or (a y x) (b y x) < 0"
    using comparator.antisym [OF a, of x y] comparator.antisym [OF b, of x y]
      comparator.sym [OF a, of x y] by (auto simp: cmp_or_def)
  assume le: "cmp_or (a x y) (b x y) \<le> 0" "cmp_or (a y z) (b y z) \<le> 0"
  then have axy: "a x y \<le> 0" and ayz: "a y z \<le> 0"
    by (auto simp: cmp_or_def split: if_splits)
  have axz: "a x z \<le> 0" using comparator.trans [OF a axy ayz] .
  show "cmp_or (a x z) (b x z) \<le> 0"
  proof (cases "a x z = 0")
    case True
    then have "a z x = 0" using comparator.sym [OF a] by blast
    then have "a y x \<le> 0" "a z y \<le> 0"
      using comparator.trans [OF a ayz, of x] comparator.trans [OF a _ axy, of z] by simp_all
    then have "a x y = 0" "a y z = 0"
      using axy ayz comparator.antisym [OF a, of x y] comparator.antisym [OF a, of y x]
        comparator.antisym [OF a, of y z] comparator.antisym [OF a, of z y] by linarith+
    with le True show ?thesis
      using comparator.trans [OF b, of x y z] by (simp add: cmp_or_def)
  qed (use axz in \<open>simp add: cmp_or_def\<close>)
qed

lemmas comparator_intros = comparator_lex comparator_diff comparator_diff_desc comparator_key

text \<open>\<open>Array.prototype.sort\<close> without a callback compares strings by code units.\<close>

fun string_compare :: "string \<Rightarrow> string \<Rightarrow> int" where
  "string_compare [] [] = 0"
| "string_compare [] (d # ds) = - 1"
| "string_compare (c # cs) [] = 1"
| "string_compare (c # cs) (d # ds) =
     (let m = of_char c :: int; n = of_char d in if m \<noteq> n then m - n else string_compare cs ds)"

lemma string_compare_antisym: "0 < string_compare s t \<longleftrightarrow> string_compare t s < 0"
  by (induction s t rule: string_compare.induct) (auto simp: Let_def)

lemma string_compare_trans:
  "string_compare s t \<le> 0 \<Longrightarrow> string_compare t u \<le> 0 \<Longrightarrow> string_compare s u \<le> 0"
proof (induction s t arbitrary: u rule: string_compare.induct)
  case (1 u)
  then show ?case by simp
next
  case (2 d ds u)
  then show ?case by (cases u) simp_all
next
  case (3 c cs u)
  then show ?case by simp
next
  case (4 c cs d ds u)
  then show ?case by (cases u) (auto simp: Let_def split: if_splits)
qed

interpretation code_unit_order: comparator string_compare
  by unfold_locales (fact string_compare_antisym, fact string_compare_trans)

lemma string_compare_eq_0: "string_compare s t = 0 \<longleftrightarrow> s = t"
  by (induction s t rule: string_compare.induct) (auto simp: Let_def)

text \<open>
  A finite value of type \<open>number\<close> that validation code has to inspect is a rational (every
  finite double is one); \<open>Number.isInteger\<close> and the sign of a difference are all the code uses.
\<close>

definition number_isInteger :: "rat \<Rightarrow> bool" where
  "number_isInteger r \<longleftrightarrow> of_int \<lfloor>r\<rfloor> = r"

definition number_compare :: "'a::linorder \<Rightarrow> 'a \<Rightarrow> int" where
  "number_compare x y = (if x < y then - 1 else if y < x then 1 else 0)"

interpretation number_order: comparator "number_compare :: 'a::linorder \<Rightarrow> 'a \<Rightarrow> int"
  by unfold_locales (auto simp: number_compare_def split: if_splits)

lemma number_isInteger_of_int [simp]: "number_isInteger (of_int n)"
  by (simp add: number_isInteger_def)

lemma number_isInteger_Ints: "number_isInteger r \<longleftrightarrow> r \<in> \<int>"
  unfolding number_isInteger_def by (metis Ints_cases Ints_of_int floor_of_int)

text \<open>\<open>[...new Set(xs)]\<close>: the first occurrence of every value, in order.\<close>

fun js_unique :: "'a list \<Rightarrow> 'a list" where
  "js_unique [] = []"
| "js_unique (x # xs) = x # filter (\<lambda>y. y \<noteq> x) (js_unique xs)"

lemma set_js_unique [simp]: "set (js_unique xs) = set xs"
  by (induction xs) auto

lemma distinct_js_unique [simp]: "distinct (js_unique xs)"
  by (induction xs) auto

lemma js_unique_Nil_iff [simp]: "js_unique xs = [] \<longleftrightarrow> xs = []"
  by (cases xs) auto

lemma js_unique_distinct: "distinct xs \<Longrightarrow> js_unique xs = xs"
  by (induction xs) (auto simp: filter_id_conv)

section \<open>Map objects\<close>

text \<open>A JavaScript \<open>Map\<close> keeps its keys in insertion order; \<open>set\<close> on a present key keeps the
  key's place. \<open>AList.update\<close> does both.\<close>

type_synonym ('k, 'v) js_map = "('k \<times> 'v) list"

abbreviation jm_get :: "('k, 'v) js_map \<Rightarrow> 'k \<Rightarrow> 'v option" where
  "jm_get m k \<equiv> map_of m k"

abbreviation jm_set :: "'k \<Rightarrow> 'v \<Rightarrow> ('k, 'v) js_map \<Rightarrow> ('k, 'v) js_map" where
  "jm_set \<equiv> AList.update"

definition jm_values :: "('k, 'v) js_map \<Rightarrow> 'v list" where
  "jm_values m = map snd m"

text \<open>\<open>m.get(k) ?? d\<close>\<close>

definition get_or :: "('k, 'v) js_map \<Rightarrow> 'k \<Rightarrow> 'v \<Rightarrow> 'v" where
  "get_or m k d = (case jm_get m k of None \<Rightarrow> d | Some v \<Rightarrow> v)"

text \<open>\<open>new Map(entries)\<close>: a later entry for a key overwrites the value.\<close>

definition jm_of_entries :: "('k \<times> 'v) list \<Rightarrow> ('k, 'v) js_map" where
  "jm_of_entries es = fold (\<lambda>(k, v). jm_set k v) es []"

lemma get_or_set [simp]: "get_or (jm_set k v m) k' d = (if k' = k then v else get_or m k' d)"
  by (simp add: get_or_def update_conv')

lemma get_or_empty [simp]: "get_or [] k d = d"
  by (simp add: get_or_def)

text \<open>The counting idiom \<open>counts.set(key, (counts.get(key) ?? 0) + 1)\<close> over an array.\<close>

definition count_by :: "('a \<Rightarrow> 'k) \<Rightarrow> 'a list \<Rightarrow> ('k, int) js_map" where
  "count_by key xs = foldl (\<lambda>m x. jm_set (key x) (get_or m (key x) 0 + 1) m) [] xs"

lemma count_by_gen:
  "get_or (foldl (\<lambda>m x. jm_set (key x) (get_or m (key x) 0 + 1) m) m xs) k 0 =
     get_or m k 0 + int (length (filter (\<lambda>x. key x = k) xs))"
  by (induction xs arbitrary: m) auto

lemma get_or_count_by: "get_or (count_by key xs) k 0 = int (length (filter (\<lambda>x. key x = k) xs))"
  by (simp add: count_by_def count_by_gen)

lemma jm_get_fold_update:
  "jm_get (fold (\<lambda>(k, v). jm_set k v) es m) = map_of m ++ map_of (rev es)"
  by (induction es arbitrary: m) (auto simp: update_conv' map_add_def fun_eq_iff split: option.splits)

lemma jm_get_of_entries: "jm_get (jm_of_entries es) = map_of (rev es)"
  by (simp add: jm_of_entries_def jm_get_fold_update)

end
