(* ===== verification/Timetable_Time.thy ===== *)
theory Timetable_Time
  imports Moazez_Prelude
begin

text \<open>
  Wall-clock times of timetable periods, the active-days and scope policy of a timetable
  configuration, and the room policy
  (\<open>timetable-time.ts\<close>, \<open>timetable-policy.ts\<close>, \<open>timetable-room-scheduling.ts\<close>,
  \<open>room-scheduling.policy.ts\<close>).
  The lemmas show that \<open>parseTimetableTime\<close> accepts exactly the 1440 texts \<open>HH:mm\<close> and reads
  each as its minute of the day, that an accepted range is a non-empty interval of the day, and
  that the half-open overlap test is intersection of the two intervals.
\<close>

section \<open>Exceptions\<close>

definition TimetableInvalidTimeRangeException :: "(string \<times> detail) list \<Rightarrow> js_exception" where
  "TimetableInvalidTimeRangeException details =
     DomainException ''academics.timetable.invalid_time_range''
       ''Timetable period time range is invalid'' 422 details"

definition TimetablePeriodOverlapException :: "(string \<times> detail) list \<Rightarrow> js_exception" where
  "TimetablePeriodOverlapException details =
     DomainException ''academics.timetable.period_overlap''
       ''Timetable period overlaps another period'' 409 details"

definition TimetableClosedTermException :: "(string \<times> detail) list \<Rightarrow> js_exception" where
  "TimetableClosedTermException details =
     DomainException ''academics.timetable.closed_term''
       ''Term is closed for timetable changes'' 409 details"

definition TimetablePublishedLockedException :: "(string \<times> detail) list \<Rightarrow> js_exception" where
  "TimetablePublishedLockedException details =
     DomainException ''academics.timetable.published_locked''
       ''Published timetable config cannot be changed directly'' 409 details"

definition TimetableRoomNotFoundException :: "(string \<times> detail) list \<Rightarrow> js_exception" where
  "TimetableRoomNotFoundException details =
     DomainException ''academics.timetable.room_not_found'' ''Timetable room was not found'' 404 details"

definition TimetableRoomInactiveException :: "(string \<times> detail) list \<Rightarrow> js_exception" where
  "TimetableRoomInactiveException details =
     DomainException ''academics.timetable.room_inactive''
       ''Room is not available for timetable scheduling'' 422 details"

definition TimetableRoomCapacityInsufficientException :: "(string \<times> detail) list \<Rightarrow> js_exception" where
  "TimetableRoomCapacityInsufficientException details =
     DomainException ''academics.timetable.room_capacity_insufficient''
       ''Room capacity is insufficient for this classroom'' 422 details"

section \<open>Times of day\<close>

record TimetableMinuteRange =
  startMinute :: int
  endMinute :: int

record TimetableTimeRange = TimetableMinuteRange +
  startTime :: string
  endTime :: string

definition timetableTimeRangesOverlap ::
  "'a TimetableMinuteRange_scheme \<Rightarrow> 'b TimetableMinuteRange_scheme \<Rightarrow> bool" where
  "timetableTimeRangesOverlap first second \<longleftrightarrow>
     startMinute first < endMinute second \<and> startMinute second < endMinute first"

text \<open>The regular expression \<^verbatim>\<open>^([01]\d|2[0-3]):([0-5]\d)$\<close> with its two groups.\<close>

definition hour_group :: "char \<Rightarrow> char \<Rightarrow> bool" where
  "hour_group h1 h2 \<longleftrightarrow>
     (h1 = CHR ''0'' \<or> h1 = CHR ''1'') \<and> char_digit h2 \<or>
     h1 = CHR ''2'' \<and> (h2 = CHR ''0'' \<or> h2 = CHR ''1'' \<or> h2 = CHR ''2'' \<or> h2 = CHR ''3'')"

definition minute_group :: "char \<Rightarrow> char \<Rightarrow> bool" where
  "minute_group m1 m2 \<longleftrightarrow> char_digit m1 \<and> digit_value m1 \<le> 5 \<and> char_digit m2"

fun TIME_PATTERN :: "string \<Rightarrow> (string \<times> string) option" where
  "TIME_PATTERN [h1, h2, c, m1, m2] =
     (if hour_group h1 h2 \<and> c = CHR '':'' \<and> minute_group m1 m2
      then Some ([h1, h2], [m1, m2]) else None)"
| "TIME_PATTERN _ = None"

fun_cases TIME_PATTERN_SomeD: "TIME_PATTERN value = Some g"

definition parseTimetableTime :: "string \<Rightarrow> string \<Rightarrow> int result" where
  "parseTimetableTime value field =
     (case TIME_PATTERN value of
        None \<Rightarrow> Inl (TimetableInvalidTimeRangeException
                  [(''field'', DStr field), (''value'', DStr value), (''expectedFormat'', DStr ''HH:mm'')])
      | Some (h, m) \<Rightarrow> Inr (decimal_value h * 60 + decimal_value m))"

definition validateTimetableTimeRange :: "string \<Rightarrow> string \<Rightarrow> TimetableTimeRange result" where
  "validateTimetableTimeRange st en =
     andThen (parseTimetableTime st ''startTime'') (\<lambda>s.
     andThen (parseTimetableTime en ''endTime'') (\<lambda>e.
       if s \<ge> e
       then Inl (TimetableInvalidTimeRangeException [(''startTime'', DStr st), (''endTime'', DStr en)])
       else Inr \<lparr>startMinute = s, endMinute = e, startTime = st, endTime = en\<rparr>))"

text \<open>The periods \<open>assertNoPeriodOverlap\<close> compares with.\<close>

record ExistingPeriod =
  ep_id :: string
  ep_startTime :: string
  ep_endTime :: string
  ep_periodIndex :: int

text \<open>\<open>Array.prototype.find\<close> with a callback that may throw.\<close>

fun findR :: "('a \<Rightarrow> bool result) \<Rightarrow> 'a list \<Rightarrow> 'a option result" where
  "findR p [] = Inr None"
| "findR p (x # xs) = andThen (p x) (\<lambda>b. if b then Inr (Some x) else findR p xs)"

definition assertNoPeriodOverlap ::
  "TimetableTimeRange \<Rightarrow> string option \<Rightarrow> ExistingPeriod list \<Rightarrow> unit result" where
  "assertNoPeriodOverlap candidate periodId existing =
     andThen
       (findR (\<lambda>p.
          andThen (parseTimetableTime (ep_startTime p) ''startTime'') (\<lambda>s.
          andThen (parseTimetableTime (ep_endTime p) ''endTime'') (\<lambda>e.
            Inr (timetableTimeRangesOverlap candidate \<lparr>startMinute = s, endMinute = e\<rparr>))))
        (filter (\<lambda>p. Some (ep_id p) \<noteq> periodId) existing))
       (\<lambda>overlap. case overlap of
          None \<Rightarrow> Inr ()
        | Some p \<Rightarrow> Inl (TimetablePeriodOverlapException
            [(''conflictingPeriodId'', DStr (ep_id p)),
             (''conflictingPeriodIndex'', DInt (ep_periodIndex p)),
             (''startTime'', DStr (startTime candidate)), (''endTime'', DStr (endTime candidate))]))"

subsection \<open>The text of a minute of the day\<close>

definition two_digits :: "nat \<Rightarrow> string" where
  "two_digits n = [char_of (48 + n div 10), char_of (48 + n mod 10)]"

definition render_time :: "nat \<Rightarrow> string" where
  "render_time m = two_digits (m div 60) @ '':'' @ two_digits (m mod 60)"

lemma char_digit_char_of [simp]: "(d::nat) < 10 \<Longrightarrow> char_digit (char_of (48 + d))"
  by (simp add: char_digit_def of_char_of)

lemma digit_value_char_of [simp]: "(d::nat) < 10 \<Longrightarrow> digit_value (char_of (48 + d)) = int d"
  by (simp add: digit_value_def of_char_of)

lemma char_digitE:
  assumes "char_digit c"
  obtains d :: nat where "d < 10" "c = char_of (48 + d)"
proof (rule that)
  let ?d = "of_char c - 48 :: nat"
  show "?d < 10" using assms by (auto simp: char_digit_def)
  show "c = char_of (48 + ?d)" using assms by (simp add: char_digit_def)
qed

lemma decimal_value_two [simp]: "decimal_value [a, b] = digit_value a * 10 + digit_value b"
  by (simp add: decimal_value_def)

lemma int_div_mod: "int (n div k) * int k + int (n mod k) = int n"
  by (metis div_mult_mod_eq of_nat_add of_nat_mult)

lemma decimal_value_two_digits:
  assumes "n < 100"
  shows "decimal_value (two_digits n) = int n"
proof -
  have "n div 10 < 10" using assms by simp
  then have "decimal_value (two_digits n) = int (n div 10) * 10 + int (n mod 10)"
    by (simp add: two_digits_def)
  then show ?thesis using int_div_mod [of n 10] by simp
qed

lemma char_of_digits:
  "char_of (48::nat) = CHR ''0''" "char_of (49::nat) = CHR ''1''"
  "char_of (50::nat) = CHR ''2''" "char_of (51::nat) = CHR ''3''"
  by code_simp+

lemma hour_group_two_digits:
  assumes "(h::nat) < 24"
  shows "hour_group (char_of (48 + h div 10)) (char_of (48 + h mod 10))"
proof -
  define q r where "q = h div 10" and "r = h mod 10"
  have "q * 10 + r < 24" and r: "r < 10" using assms by (simp_all add: q_def r_def)
  then have "q = 0 \<or> q = 1 \<or> q = 2 \<and> (r = 0 \<or> r = 1 \<or> r = 2 \<or> r = 3)" by linarith
  with r show ?thesis by (auto simp: hour_group_def char_of_digits simp flip: q_def r_def)
qed

lemma minute_group_two_digits:
  assumes "(m::nat) < 60"
  shows "minute_group (char_of (48 + m div 10)) (char_of (48 + m mod 10))"
proof -
  have "m div 10 < 6" using assms by simp
  then show ?thesis by (simp add: minute_group_def)
qed

lemma TIME_PATTERN_render:
  "m < 1440 \<Longrightarrow> TIME_PATTERN (render_time m) = Some (two_digits (m div 60), two_digits (m mod 60))"
  using hour_group_two_digits [of "m div 60"] minute_group_two_digits [of "m mod 60"]
  by (simp add: render_time_def two_digits_def)

lemma parse_render_time: "m < 1440 \<Longrightarrow> parseTimetableTime (render_time m) field = Inr (int m)"
  using decimal_value_two_digits [of "m div 60"] decimal_value_two_digits [of "m mod 60"]
    int_div_mod [of m 60]
  by (simp add: parseTimetableTime_def TIME_PATTERN_render)

lemma hour_groupE:
  assumes "hour_group h1 h2"
  obtains a b :: nat where "h1 = char_of (48 + a)" "h2 = char_of (48 + b)" "b < 10" "10 * a + b < 24"
proof -
  have dig: "char_digit h1" "char_digit h2"
    using assms by (auto simp: hour_group_def char_digit_def)
  obtain a :: nat where a: "a < 10" "h1 = char_of (48 + a)" using dig(1) by (rule char_digitE)
  obtain b :: nat where b: "b < 10" "h2 = char_of (48 + b)" using dig(2) by (rule char_digitE)
  have "digit_value h1 \<le> 1 \<or> digit_value h1 = 2 \<and> digit_value h2 \<le> 3"
    using assms by (auto simp: hour_group_def digit_value_def)
  then have "10 * a + b < 24" using a b by auto
  with a b show thesis by (intro that) auto
qed

lemma TIME_PATTERN_SomeE:
  assumes "TIME_PATTERN value = Some (h, m)"
  obtains n where "n < 1440" "value = render_time n"
proof -
  from assms obtain h1 h2 m1 m2 where v: "value = [h1, h2, CHR '':'', m1, m2]"
    and hh: "hour_group h1 h2" and mm: "minute_group m1 m2"
    by (auto elim!: TIME_PATTERN_SomeD split: if_splits)
  obtain a b :: nat where ab: "h1 = char_of (48 + a)" "h2 = char_of (48 + b)" "b < 10" "10 * a + b < 24"
    using hh by (rule hour_groupE)
  obtain c :: nat where c: "c < 10" "m1 = char_of (48 + c)"
    using mm char_digitE unfolding minute_group_def by metis
  obtain d :: nat where d: "d < 10" "m2 = char_of (48 + d)"
    using mm char_digitE unfolding minute_group_def by metis
  have "c < 6" using mm c by (simp add: minute_group_def)
  then have m60: "10 * c + d < 60" using d by simp
  let ?n = "(10 * a + b) * 60 + (10 * c + d)"
  have "?n div 60 = 10 * a + b" "?n mod 60 = 10 * c + d"
    using m60 mod_mult_self3 [of "10 * a + b" 60 "10 * c + d"] by simp_all
  then have "render_time ?n = two_digits (10 * a + b) @ '':'' @ two_digits (10 * c + d)"
    by (simp only: render_time_def)
  then have "value = render_time ?n"
    using v ab c d by (simp add: two_digits_def)
  moreover have "?n < 1440" using ab m60 by simp
  ultimately show thesis by (intro that)
qed

lemma parseTimetableTime_InrD:
  assumes "parseTimetableTime value field = Inr k"
  shows "0 \<le> k \<and> k < 1440 \<and> value = render_time (nat k)"
proof -
  from assms obtain h m where "TIME_PATTERN value = Some (h, m)"
    by (auto simp: parseTimetableTime_def split: option.splits)
  then obtain n where n: "n < 1440" "value = render_time n" by (rule TIME_PATTERN_SomeE)
  with assms parse_render_time [OF n(1), of field] have "k = int n" by simp
  with n show ?thesis by simp
qed

lemma validateTimetableTimeRange_InrD:
  assumes "validateTimetableTimeRange st en = Inr r"
  shows "0 \<le> startMinute r \<and> startMinute r < endMinute r \<and> endMinute r < 1440 \<and>
    startTime r = st \<and> endTime r = en \<and>
    parseTimetableTime st ''startTime'' = Inr (startMinute r) \<and>
    parseTimetableTime en ''endTime'' = Inr (endMinute r)"
  using assms
  by (auto simp: validateTimetableTimeRange_def andThen_eq_Inr split: if_splits
      dest: parseTimetableTime_InrD)

text \<open>Two accepted ranges overlap exactly when they share a minute of the day.\<close>

lemma overlap_iff_common_minute:
  assumes "startMinute a < endMinute a" "startMinute b < endMinute b"
  shows "timetableTimeRangesOverlap a b \<longleftrightarrow>
    {startMinute a ..< endMinute a} \<inter> {startMinute b ..< endMinute b} \<noteq> {}"
proof
  assume "timetableTimeRangesOverlap a b"
  then have "max (startMinute a) (startMinute b)
      \<in> {startMinute a ..< endMinute a} \<inter> {startMinute b ..< endMinute b}"
    using assms by (auto simp: timetableTimeRangesOverlap_def)
  then show "{startMinute a ..< endMinute a} \<inter> {startMinute b ..< endMinute b} \<noteq> {}" by blast
qed (auto simp: timetableTimeRangesOverlap_def)

lemma timetableTimeRangesOverlap_sym:
  "timetableTimeRangesOverlap a b \<longleftrightarrow> timetableTimeRangesOverlap b a"
  by (auto simp: timetableTimeRangesOverlap_def)

lemma findR_None_iff: "findR p xs = Inr None \<longleftrightarrow> (\<forall>x \<in> set xs. p x = Inr False)"
  by (induction xs) (auto simp: andThen_eq_Inr)

section \<open>Properties\<close>

text \<open>Parsing and rendering are inverse: \<open>parseTimetableTime\<close> accepts exactly the 1440 texts
  \<open>HH:mm\<close> of the minutes of a day and returns that minute.\<close>

theorem parse_time_exact:
  "parseTimetableTime s field = Inr k \<longleftrightarrow> 0 \<le> k \<and> k < 1440 \<and> s = render_time (nat k)"
  using parseTimetableTime_InrD [of s field k] parse_render_time [of "nat k" field] by auto

text \<open>\<open>assertNoPeriodOverlap\<close> is exact: for a validated candidate and stored periods with valid
  times it succeeds if and only if the candidate shares no minute of the day with any stored period
  other than the one being edited.\<close>

theorem period_overlap_exact:
  assumes "validateTimetableTimeRange st en = Inr c"
    and valid: "\<forall>p \<in> set existing. \<exists>r. validateTimetableTimeRange (ep_startTime p) (ep_endTime p) = Inr r"
  shows "assertNoPeriodOverlap c periodId existing = Inr () \<longleftrightarrow>
    (\<forall>p \<in> set existing. \<forall>r. Some (ep_id p) \<noteq> periodId \<longrightarrow>
       validateTimetableTimeRange (ep_startTime p) (ep_endTime p) = Inr r \<longrightarrow>
       {startMinute c ..< endMinute c} \<inter> {startMinute r ..< endMinute r} = {})"
proof -
  let ?test = "\<lambda>p. andThen (parseTimetableTime (ep_startTime p) ''startTime'') (\<lambda>s.
          andThen (parseTimetableTime (ep_endTime p) ''endTime'') (\<lambda>e.
            Inr (timetableTimeRangesOverlap c \<lparr>startMinute = s, endMinute = e\<rparr>)))"
  have test: "?test p = Inr False \<longleftrightarrow> (\<forall>r. validateTimetableTimeRange (ep_startTime p) (ep_endTime p) = Inr r \<longrightarrow>
       {startMinute c ..< endMinute c} \<inter> {startMinute r ..< endMinute r} = {})" if p: "p \<in> set existing" for p
  proof -
    obtain r where r: "validateTimetableTimeRange (ep_startTime p) (ep_endTime p) = Inr r"
      using valid p by blast
    note vc = validateTimetableTimeRange_InrD [OF assms(1)] and vr = validateTimetableTimeRange_InrD [OF r]
    have "?test p = Inr (timetableTimeRangesOverlap c \<lparr>startMinute = startMinute r, endMinute = endMinute r\<rparr>)"
      using vr by simp
    also have "timetableTimeRangesOverlap c \<lparr>startMinute = startMinute r, endMinute = endMinute r\<rparr> \<longleftrightarrow>
        timetableTimeRangesOverlap c r" by (simp add: timetableTimeRangesOverlap_def)
    finally show ?thesis using overlap_iff_common_minute [of c r] vc vr r by auto
  qed
  have "assertNoPeriodOverlap c periodId existing = Inr () \<longleftrightarrow>
      findR ?test (filter (\<lambda>p. Some (ep_id p) \<noteq> periodId) existing) = Inr None"
    by (auto simp: assertNoPeriodOverlap_def andThen_eq_Inr split: option.splits)
  then show ?thesis unfolding findR_None_iff using test by auto
qed

theorem period_overlap_exact_witness:
  "\<exists>c. validateTimetableTimeRange ''08:00'' ''08:45'' = Inr c \<and>
     assertNoPeriodOverlap c None
       [\<lparr>ep_id = ''p2'', ep_startTime = ''08:45'', ep_endTime = ''09:30'', ep_periodIndex = 2\<rparr>] = Inr ()"
proof -
  let ?ex = "[\<lparr>ep_id = ''p2'', ep_startTime = ''08:45'', ep_endTime = ''09:30'', ep_periodIndex = 2\<rparr>]"
  have c: "validateTimetableTimeRange ''08:00'' ''08:45'' =
      Inr \<lparr>startMinute = 480, endMinute = 525, startTime = ''08:00'', endTime = ''08:45''\<rparr>" by code_simp
  have r: "validateTimetableTimeRange ''08:45'' ''09:30'' =
      Inr \<lparr>startMinute = 525, endMinute = 570, startTime = ''08:45'', endTime = ''09:30''\<rparr>" by code_simp
  have "\<forall>p \<in> set ?ex. \<exists>r. validateTimetableTimeRange (ep_startTime p) (ep_endTime p) = Inr r"
    using r by simp
  from period_overlap_exact [OF c this, of None] c r show ?thesis by auto
qed

end
