(* ===== verification/Timetable_Policy.thy ===== *)
theory Timetable_Policy
  imports Timetable_Time
begin

text \<open>
  The policy functions of a timetable configuration (\<open>timetable-policy.ts\<close>), the room policy
  (\<open>room-scheduling.policy.ts\<close>, \<open>timetable-room-scheduling.ts\<close>) and the choice of the timetable
  that is in force for a classroom (\<open>effective-timetable-resolver.ts\<close>).
  The lemmas give the resolver an abstract specification: the published, active configuration of
  the narrowest scope that contains the classroom, an error when two tie, null when there is none.
\<close>

section \<open>Active days and guards\<close>

datatype TimetableConfigStatus = Config_DRAFT | Config_ACTIVE | Config_ARCHIVED

datatype TimetableScopeType = Scope_TERM | Scope_STAGE | Scope_GRADE | Scope_SECTION | Scope_CLASSROOM

datatype TimetablePublicationStatus =
  Publication_DRAFT | Publication_PUBLISHED | Publication_SUPERSEDED | Publication_ARCHIVED

fun TimetableConfigStatus_name :: "TimetableConfigStatus \<Rightarrow> string" where
  "TimetableConfigStatus_name Config_DRAFT = ''DRAFT''"
| "TimetableConfigStatus_name Config_ACTIVE = ''ACTIVE''"
| "TimetableConfigStatus_name Config_ARCHIVED = ''ARCHIVED''"

fun TimetableScopeType_name :: "TimetableScopeType \<Rightarrow> string" where
  "TimetableScopeType_name Scope_TERM = ''TERM''"
| "TimetableScopeType_name Scope_STAGE = ''STAGE''"
| "TimetableScopeType_name Scope_GRADE = ''GRADE''"
| "TimetableScopeType_name Scope_SECTION = ''SECTION''"
| "TimetableScopeType_name Scope_CLASSROOM = ''CLASSROOM''"

definition DEFAULT_TIMETABLE_ACTIVE_DAYS :: "rat list" where
  "DEFAULT_TIMETABLE_ACTIVE_DAYS = [0, 1, 2, 3, 4]"

definition valid_day :: "rat \<Rightarrow> bool" where
  "valid_day d \<longleftrightarrow> \<not> (\<not> number_isInteger d \<or> d < 0 \<or> 6 < d)"

definition normalizeActiveDays :: "rat list option \<Rightarrow> rat list result" where
  "normalizeActiveDays input =
     (let days = (case input of None \<Rightarrow> DEFAULT_TIMETABLE_ACTIVE_DAYS | Some ds \<Rightarrow> ds);
          unique = js_sort number_compare (js_unique days)
      in if length unique = 0 \<or> (\<exists>d \<in> set unique. \<not> valid_day d)
         then Inl (ValidationDomainException ''Timetable active days are invalid''
                [(''field'', DStr ''activeDays''),
                 (''activeDays'', case input of None \<Rightarrow> DUndefined | Some ds \<Rightarrow> DNums ds)])
         else Inr unique)"

definition assertWeekStartDayIsValid :: "rat \<Rightarrow> unit result" where
  "assertWeekStartDayIsValid d =
     (if \<not> number_isInteger d \<or> d < 0 \<or> d > 6
      then Inl (ValidationDomainException ''Timetable week start day is invalid''
             [(''field'', DStr ''weekStartDay''), (''weekStartDay'', DNum d)])
      else Inr ())"

definition assertTermWritable :: "string \<Rightarrow> bool \<Rightarrow> unit result" where
  "assertTermWritable term_id isActive =
     (if \<not> isActive then Inl (TimetableClosedTermException [(''termId'', DStr term_id)]) else Inr ())"

definition assertConfigMutable :: "string \<Rightarrow> TimetableConfigStatus \<Rightarrow> unit result" where
  "assertConfigMutable config_id status =
     (if status \<noteq> Config_DRAFT
      then Inl (TimetablePublishedLockedException
             [(''timetableConfigId'', DStr config_id), (''status'', DStr (TimetableConfigStatus_name status))])
      else Inr ())"

section \<open>Scope\<close>

record EffectiveTimetableClassroom =
  room_classroomId :: string
  room_sectionId :: string
  room_gradeId :: string
  room_stageId :: string

record EffectiveTimetablePublication =
  pub_status :: TimetablePublicationStatus
  pub_revision :: int

record EffectiveTimetableConfigCandidate =
  cand_id :: string
  cand_schoolId :: string
  cand_academicYearId :: string
  cand_termId :: string
  cand_status :: TimetableConfigStatus
  cand_scopeType :: TimetableScopeType
  cand_stageId :: "string option"
  cand_gradeId :: "string option"
  cand_sectionId :: "string option"
  cand_classroomId :: "string option"
  cand_publications :: "EffectiveTimetablePublication list"

record EffectiveTimetableContext =
  ctx_schoolId :: string
  ctx_academicYearId :: string
  ctx_termId :: string
  ctx_classroom :: EffectiveTimetableClassroom

definition classroomMatchesTimetableConfigScope ::
  "EffectiveTimetableConfigCandidate \<Rightarrow> EffectiveTimetableClassroom \<Rightarrow> bool" where
  "classroomMatchesTimetableConfigScope config classroom \<longleftrightarrow>
     (if cand_scopeType config = Scope_TERM then True
      else
        (cand_scopeType config = Scope_STAGE \<and> Some (room_stageId classroom) = cand_stageId config) \<or>
        (cand_scopeType config = Scope_GRADE \<and> Some (room_gradeId classroom) = cand_gradeId config) \<or>
        (cand_scopeType config = Scope_SECTION \<and> Some (room_sectionId classroom) = cand_sectionId config) \<or>
        (cand_scopeType config = Scope_CLASSROOM \<and>
           Some (room_classroomId classroom) = cand_classroomId config))"

fun TIMETABLE_SCOPE_PRECEDENCE :: "TimetableScopeType \<Rightarrow> int" where
  "TIMETABLE_SCOPE_PRECEDENCE Scope_TERM = 1"
| "TIMETABLE_SCOPE_PRECEDENCE Scope_STAGE = 2"
| "TIMETABLE_SCOPE_PRECEDENCE Scope_GRADE = 3"
| "TIMETABLE_SCOPE_PRECEDENCE Scope_SECTION = 4"
| "TIMETABLE_SCOPE_PRECEDENCE Scope_CLASSROOM = 5"

section \<open>The effective timetable\<close>

text \<open>\<open>publications.reduce(...)\<close> keeps the first publication of the highest revision.\<close>

definition latestPublication ::
  "EffectiveTimetablePublication list \<Rightarrow> EffectiveTimetablePublication option" where
  "latestPublication publications =
     foldl (\<lambda>latest publication.
        case latest of None \<Rightarrow> Some publication
        | Some l \<Rightarrow> if pub_revision publication > pub_revision l then Some publication else latest)
       None publications"

definition applicable_config ::
  "EffectiveTimetableContext \<Rightarrow> EffectiveTimetableConfigCandidate \<Rightarrow> bool" where
  "applicable_config context candidate \<longleftrightarrow>
     cand_schoolId candidate = ctx_schoolId context \<and>
     cand_academicYearId candidate = ctx_academicYearId context \<and>
     cand_termId candidate = ctx_termId context \<and>
     cand_status candidate = Config_ACTIVE \<and>
     map_option pub_status (latestPublication (cand_publications candidate)) =
       Some Publication_PUBLISHED \<and>
     classroomMatchesTimetableConfigScope candidate (ctx_classroom context)"

text \<open>\<open>Math.max(...values)\<close> of a non-empty array.\<close>

definition math_max :: "int list \<Rightarrow> int" where
  "math_max xs = fold max (tl xs) (hd xs)"

definition ambiguous_timetable_message ::
  "EffectiveTimetableContext \<Rightarrow> EffectiveTimetableConfigCandidate \<Rightarrow> string" where
  "ambiguous_timetable_message context winner =
     ''Effective timetable resolution is ambiguous for classroom '' @
     room_classroomId (ctx_classroom context) @ '', term '' @ ctx_termId context @
     '', and scope '' @ TimetableScopeType_name (cand_scopeType winner)"

definition resolve_effective_timetable ::
  "EffectiveTimetableConfigCandidate list \<Rightarrow> EffectiveTimetableContext \<Rightarrow>
   EffectiveTimetableConfigCandidate option result" where
  "resolve_effective_timetable candidates context =
     (let applicable = filter (applicable_config context) candidates
      in if length applicable = 0 then Inr None
         else
           let highestPrecedence =
                 math_max (map (\<lambda>c. TIMETABLE_SCOPE_PRECEDENCE (cand_scopeType c)) applicable);
               winners =
                 filter (\<lambda>c. TIMETABLE_SCOPE_PRECEDENCE (cand_scopeType c) = highestPrecedence) applicable
           in if length winners \<noteq> 1
              then Inl (JsError (ambiguous_timetable_message context (winners ! 0)))
              else Inr (Some (winners ! 0)))"

section \<open>Rooms\<close>

record SchedulingRoom =
  sroom_id :: string
  sroom_isActive :: bool
  sroom_capacity :: "int option"

record SchedulingClassroom =
  sclass_id :: string
  sclass_capacity :: "int option"

datatype RoomSchedulingEligibility =
  Eligible | Room_not_found | Room_inactive | Room_capacity_insufficient

definition isRoomSchedulable :: "SchedulingRoom \<Rightarrow> bool" where
  "isRoomSchedulable room = sroom_isActive room"

definition isRoomCapacityCompatible :: "SchedulingRoom \<Rightarrow> SchedulingClassroom \<Rightarrow> bool" where
  "isRoomCapacityCompatible room classroom =
     (case (sroom_capacity room, sclass_capacity classroom) of
        (Some r, Some c) \<Rightarrow> r \<ge> c
      | _ \<Rightarrow> True)"

definition evaluate_room :: "SchedulingRoom option \<Rightarrow> SchedulingClassroom \<Rightarrow> RoomSchedulingEligibility" where
  "evaluate_room room classroom =
     (case room of
        None \<Rightarrow> Room_not_found
      | Some r \<Rightarrow>
          if \<not> isRoomSchedulable r then Room_inactive
          else if \<not> isRoomCapacityCompatible r classroom then Room_capacity_insufficient
          else Eligible)"

definition evaluateTimetableRoomScheduling ::
  "SchedulingRoom option \<Rightarrow> SchedulingClassroom \<Rightarrow> RoomSchedulingEligibility" where
  "evaluateTimetableRoomScheduling room classroom = evaluate_room room classroom"

definition room_details :: "SchedulingRoom option \<Rightarrow> (string \<times> detail) list" where
  "room_details room = (case room of None \<Rightarrow> [] | Some r \<Rightarrow> [(''roomId'', DStr (sroom_id r))])"

definition assertTimetableRoomScheduling ::
  "SchedulingRoom option \<Rightarrow> SchedulingClassroom \<Rightarrow> (string \<times> detail) list \<Rightarrow> unit result" where
  "assertTimetableRoomScheduling room classroom extraDetails =
     (case evaluateTimetableRoomScheduling room classroom of
        Eligible \<Rightarrow> Inr ()
      | Room_not_found \<Rightarrow> Inl (TimetableRoomNotFoundException
            (AList.merge extraDetails
               [(''roomId'', case room of Some r \<Rightarrow> DStr (sroom_id r)
                            | None \<Rightarrow> get_or extraDetails ''roomId'' DUndefined)]))
      | Room_inactive \<Rightarrow> Inl (TimetableRoomInactiveException
            (AList.merge extraDetails (room_details room)))
      | Room_capacity_insufficient \<Rightarrow> Inl (TimetableRoomCapacityInsufficientException
            (AList.merge extraDetails
               (room_details room @
                [(''roomCapacity'', detail_of_int_option (Option.bind room sroom_capacity)),
                 (''classroomId'', DStr (sclass_id classroom)),
                 (''classroomCapacity'', detail_of_int_option (sclass_capacity classroom))]))))"

section \<open>Lemmas\<close>

lemma math_max_Max: "xs \<noteq> [] \<Longrightarrow> math_max xs = Max (set xs)"
  by (cases xs) (simp_all add: math_max_def Max.set_eq_fold [symmetric])

lemma valid_day_iff: "valid_day d \<longleftrightarrow> (\<exists>n::int. 0 \<le> n \<and> n \<le> 6 \<and> d = of_int n)"
  by (auto simp: valid_day_def number_isInteger_Ints elim!: Ints_cases)

lemma normalizeActiveDays_InrD:
  assumes "normalizeActiveDays input = Inr ds"
  shows "ds \<noteq> [] \<and> sorted_wrt (<) ds \<and>
    set ds = set (case input of None \<Rightarrow> DEFAULT_TIMETABLE_ACTIVE_DAYS | Some xs \<Rightarrow> xs) \<and>
    set ds \<subseteq> of_int ` {0..6}"
proof -
  let ?days = "case input of None \<Rightarrow> DEFAULT_TIMETABLE_ACTIVE_DAYS | Some xs \<Rightarrow> xs"
  have ds: "ds = js_sort number_compare (js_unique ?days)" and ne: "ds \<noteq> []"
    and valid: "\<forall>d \<in> set ds. valid_day d"
    using assms by (auto simp: normalizeActiveDays_def Let_def split: if_splits)
  have "sorted_wrt (\<lambda>x y. number_compare x y \<le> 0) ds"
    unfolding ds by (rule number_order.sorted_js_sort)
  moreover have "distinct ds" by (simp add: ds)
  ultimately have "sorted_wrt (<) ds"
    by (induction ds) (auto simp: number_compare_def less_le not_less split: if_splits)
  then show ?thesis using ne valid by (auto simp: ds valid_day_iff)
qed

lemma foldl_latest:
  "foldl (\<lambda>latest p. case latest of None \<Rightarrow> Some p
      | Some l \<Rightarrow> if pub_revision p > pub_revision l then Some p else latest) (Some l) ps = Some r \<Longrightarrow>
   r \<in> insert l (set ps) \<and> (\<forall>p \<in> insert l (set ps). pub_revision p \<le> pub_revision r)"
proof (induction ps arbitrary: l)
  case Nil
  then show ?case by simp
next
  case (Cons p ps)
  show ?case
  proof (cases "pub_revision p > pub_revision l")
    case True
    with Cons.prems Cons.IH [of p] show ?thesis by auto
  next
    case False
    with Cons.prems Cons.IH [of l] show ?thesis by auto
  qed
qed

lemma latestPublication_SomeD:
  "latestPublication ps = Some r \<Longrightarrow> r \<in> set ps \<and> (\<forall>p \<in> set ps. pub_revision p \<le> pub_revision r)"
  by (cases ps) (auto simp: latestPublication_def dest: foldl_latest)

abbreviation scope_rank :: "EffectiveTimetableConfigCandidate \<Rightarrow> int" where
  "scope_rank c \<equiv> TIMETABLE_SCOPE_PRECEDENCE (cand_scopeType c)"

lemma winners_top:
  fixes rank :: "'a \<Rightarrow> int"
  assumes ne: "xs \<noteq> []"
  shows "filter (\<lambda>c. rank c = math_max (map rank xs)) xs =
    filter (\<lambda>c. \<forall>d \<in> set xs. rank d \<le> rank c) xs"
proof (rule filter_cong)
  fix x
  assume x: "x \<in> set xs"
  have max: "math_max (map rank xs) = Max (rank ` set xs)"
    using ne by (simp add: math_max_Max)
  show "(rank x = math_max (map rank xs)) = (\<forall>d \<in> set xs. rank d \<le> rank x)"
    unfolding max using x by (auto simp: eq_Max_iff intro: Max_eqI [symmetric])
qed simp

lemma single_winner_iff:
  fixes rank :: "'a \<Rightarrow> int"
  defines "topmost \<equiv> \<lambda>xs c. \<forall>d \<in> set xs. rank d \<le> rank c"
  shows "filter (topmost xs) xs = [w] \<longleftrightarrow>
    (\<exists>us vs. xs = us @ w # vs \<and> (\<forall>d \<in> set us \<union> set vs. rank d < rank w))"
proof
  assume "filter (topmost xs) xs = [w]"
  from filter_eq_ConsD [OF this] obtain us vs where xs: "xs = us @ w # vs"
    and nu: "\<forall>u \<in> set us. \<not> topmost xs u" and w: "topmost xs w" and "[] = filter (topmost xs) vs"
    by (elim exE conjE)
  then have nv: "\<forall>u \<in> set vs. \<not> topmost xs u" using filter_empty_conv [of "topmost xs" vs] by simp
  have "rank d < rank w" if "d \<in> set us \<union> set vs" for d
  proof -
    have "\<not> topmost xs d" using that nu nv by blast
    then obtain e where e: "e \<in> set xs" "rank d < rank e" by (auto simp: topmost_def not_le)
    moreover have "rank e \<le> rank w" using w e(1) by (simp add: topmost_def)
    ultimately show ?thesis by linarith
  qed
  with xs show "\<exists>us vs. xs = us @ w # vs \<and> (\<forall>d \<in> set us \<union> set vs. rank d < rank w)" by blast
next
  assume "\<exists>us vs. xs = us @ w # vs \<and> (\<forall>d \<in> set us \<union> set vs. rank d < rank w)"
  then obtain us vs where xs: "xs = us @ w # vs" and lt: "\<forall>d \<in> set us \<union> set vs. rank d < rank w"
    by blast
  have "\<not> topmost xs u" if "u \<in> set us \<union> set vs" for u
  proof -
    have "rank u < rank w" "w \<in> set xs" using lt that xs by auto
    then show ?thesis unfolding topmost_def by (metis not_le)
  qed
  then have "filter (topmost xs) us = []" "filter (topmost xs) vs = []" by (simp_all add: filter_empty_conv)
  moreover have "topmost xs w" using lt unfolding topmost_def xs by (auto intro: less_imp_le)
  ultimately show "filter (topmost xs) xs = [w]" unfolding xs by simp
qed

lemma filter_eq_appendD:
  "filter P xs = us @ vs \<Longrightarrow> \<exists>as bs. xs = as @ bs \<and> filter P as = us \<and> filter P bs = vs"
proof (induction us arbitrary: xs)
  case Nil
  then show ?case by (intro exI [of _ "[]"] exI [of _ xs]) auto
next
  case (Cons u us)
  from Cons.prems have "filter P xs = u # (us @ vs)" by simp
  from filter_eq_ConsD [OF this] obtain cs ds where xs: "xs = cs @ u # ds"
    and cs: "\<forall>c \<in> set cs. \<not> P c" "P u" and ds: "filter P ds = us @ vs" by (metis (full_types))
  from Cons.IH [OF ds] obtain as bs where "ds = as @ bs" "filter P as = us" "filter P bs = vs" by blast
  with xs cs show ?case by (intro exI [of _ "cs @ u # as"] exI [of _ bs]) auto
qed

lemma filter_split_iff:
  "(\<exists>us vs. filter P xs = us @ w # vs \<and> (\<forall>d \<in> set us \<union> set vs. Q d)) \<longleftrightarrow>
   (\<exists>us vs. xs = us @ w # vs \<and> P w \<and> (\<forall>d \<in> set us \<union> set vs. P d \<longrightarrow> Q d))" (is "?l \<longleftrightarrow> ?r")
proof
  assume ?l
  then obtain us vs where f: "filter P xs = us @ w # vs" and q: "\<forall>d \<in> set us \<union> set vs. Q d" by blast
  from filter_eq_appendD [OF f] obtain as bs where xs: "xs = as @ bs" and fa: "filter P as = us"
    and fb: "filter P bs = w # vs" by blast
  from filter_eq_ConsD [OF fb] obtain cs ds where bs: "bs = cs @ w # ds"
    and nc: "\<forall>u \<in> set cs. \<not> P u" and w: "P w" and fd: "vs = filter P ds" by blast
  have "xs = (as @ cs) @ w # ds" using xs bs by simp
  moreover have "\<forall>d \<in> set (as @ cs) \<union> set ds. P d \<longrightarrow> Q d" using q fa fd nc by auto
  ultimately show ?r using w by blast
next
  assume ?r
  then obtain us vs where "xs = us @ w # vs" "P w" "\<forall>d \<in> set us \<union> set vs. P d \<longrightarrow> Q d" by blast
  then show ?l by (intro exI [of _ "filter P us"] exI [of _ "filter P vs"]) auto
qed

lemma resolve_Some_iff:
  "resolve_effective_timetable cs ctx = Inr (Some w) \<longleftrightarrow>
     (\<exists>us vs. cs = us @ w # vs \<and> applicable_config ctx w \<and>
        (\<forall>d \<in> set us \<union> set vs. applicable_config ctx d \<longrightarrow> scope_rank d < scope_rank w))"
proof -
  let ?a = "filter (applicable_config ctx) cs"
  have "resolve_effective_timetable cs ctx = Inr (Some w) \<longleftrightarrow>
      ?a \<noteq> [] \<and> filter (\<lambda>c. scope_rank c = math_max (map scope_rank ?a)) ?a = [w]"
    by (auto simp: resolve_effective_timetable_def Let_def length_Suc_conv)
  also have "\<dots> \<longleftrightarrow> filter (\<lambda>c. \<forall>d \<in> set ?a. scope_rank d \<le> scope_rank c) ?a = [w]"
    by (cases "?a = []") (simp, simp only: winners_top not_False_eq_True simp_thms)
  also have "\<dots> \<longleftrightarrow> (\<exists>us vs. ?a = us @ w # vs \<and> (\<forall>d \<in> set us \<union> set vs. scope_rank d < scope_rank w))"
    by (rule single_winner_iff)
  finally show ?thesis by (simp only: filter_split_iff)
qed

lemma resolve_None_iff:
  "resolve_effective_timetable cs ctx = Inr None \<longleftrightarrow> (\<forall>c \<in> set cs. \<not> applicable_config ctx c)"
  by (auto simp: resolve_effective_timetable_def Let_def filter_empty_conv)

section \<open>Properties\<close>

lemma normalizeActiveDays_InrI:
  assumes "days = (case input of None \<Rightarrow> DEFAULT_TIMETABLE_ACTIVE_DAYS | Some xs \<Rightarrow> xs)"
    and "days \<noteq> []" "set days \<subseteq> of_int ` {0..6}"
  shows "\<exists>ds. normalizeActiveDays input = Inr ds"
proof -
  have "\<forall>d \<in> set days. valid_day d" using assms(3) by (auto simp: valid_day_iff)
  then show ?thesis using assms(1,2) by (auto simp: normalizeActiveDays_def Let_def)
qed

text \<open>\<open>normalizeActiveDays\<close> succeeds exactly for a non-empty array of week days 0 to 6 (the default
  Sunday to Thursday when it is absent), and then returns the same days in strictly ascending order.\<close>

theorem active_days_exact:
  "normalizeActiveDays input = Inr ds \<longleftrightarrow>
     (let days = (case input of None \<Rightarrow> DEFAULT_TIMETABLE_ACTIVE_DAYS | Some xs \<Rightarrow> xs)
      in days \<noteq> [] \<and> set days \<subseteq> of_int ` {0..6} \<and> set ds = set days \<and> sorted_wrt (<) ds)"
proof -
  let ?days = "case input of None \<Rightarrow> DEFAULT_TIMETABLE_ACTIVE_DAYS | Some xs \<Rightarrow> xs"
  have "normalizeActiveDays input = Inr ds"
    if days: "?days \<noteq> []" "set ?days \<subseteq> of_int ` {0..6}" "set ds = set ?days" "sorted_wrt (<) ds"
  proof -
    obtain es where es: "normalizeActiveDays input = Inr es"
      using normalizeActiveDays_InrI [OF refl days(1,2)] by blast
    with normalizeActiveDays_InrD have "sorted_wrt (<) es" "set es = set ?days" by blast+
    then have "es = ds" using days(3,4) strict_sorted_equal by blast
    with es show ?thesis by simp
  qed
  moreover have "?days \<noteq> [] \<and> set ?days \<subseteq> of_int ` {0..6} \<and> set ds = set ?days \<and> sorted_wrt (<) ds"
    if "normalizeActiveDays input = Inr ds"
    using normalizeActiveDays_InrD [OF that] by (metis empty_iff list.set(1) set_empty)
  ultimately show ?thesis unfolding Let_def by blast
qed


definition example_config :: "string \<Rightarrow> TimetableScopeType \<Rightarrow> EffectiveTimetableConfigCandidate" where
  "example_config i scope =
     \<lparr>cand_id = i, cand_schoolId = ''s'', cand_academicYearId = ''y'', cand_termId = ''t'',
      cand_status = Config_ACTIVE, cand_scopeType = scope, cand_stageId = Some ''st'',
      cand_gradeId = Some ''g'', cand_sectionId = None, cand_classroomId = None,
      cand_publications = [\<lparr>pub_status = Publication_PUBLISHED, pub_revision = 1\<rparr>]\<rparr>"

definition example_context :: EffectiveTimetableContext where
  "example_context =
     \<lparr>ctx_schoolId = ''s'', ctx_academicYearId = ''y'', ctx_termId = ''t'',
      ctx_classroom = \<lparr>room_classroomId = ''c'', room_sectionId = ''sec'', room_gradeId = ''g'',
        room_stageId = ''st''\<rparr>\<rparr>"


end
