(* ===== verification/Timetable_Conflicts.thy ===== *)
theory Timetable_Conflicts
  imports Timetable_Policy
begin

text \<open>
  Interval conflicts between timetable entries (\<open>timetable-conflicts.ts\<close>).
  \<open>findTimetableIntervalConflicts\<close> is shown to report a pair exactly when the two sources meet in
  school, term and day, overlap in time and share a classroom, a teacher or a room; the abstract
  relation is \<open>clash\<close>.
\<close>

section \<open>Data\<close>

datatype TimetableEntryStatus = Entry_DRAFT | Entry_ACTIVE | Entry_CANCELLED

datatype TimetableConflictType = Type_TEACHER | Type_ROOM | Type_CLASSROOM_SLOT | Type_PERIOD_OVERLAP

datatype TimetableConflictSeverity = Severity_BLOCKING | Severity_WARNING

datatype TimetableConflictStatus = Conflict_OPEN | Conflict_RESOLVED | Conflict_IGNORED

datatype TimetableIntervalConflictKind = Kind_classroom | Kind_teacher | Kind_room

record TimetableIntervalConflictSource =
  identity :: string
  src_schoolId :: string
  src_termId :: string
  src_timetableConfigId :: string
  src_entryId :: "string option"
  src_proposedIndex :: "int option"
  src_classroomId :: string
  src_teacherUserId :: string
  src_roomId :: "string option"
  src_dayOfWeek :: int
  src_periodId :: string
  src_startTime :: string
  src_endTime :: string

record TimetableIntervalConflictPair =
  pair_kind :: TimetableIntervalConflictKind
  pair_first :: TimetableIntervalConflictSource
  pair_second :: TimetableIntervalConflictSource

record ComputedTimetableConflict =
  cc_id :: string
  cc_conflictType :: TimetableConflictType
  cc_severity :: TimetableConflictSeverity
  cc_status :: TimetableConflictStatus
  cc_dayOfWeek :: "int option"
  cc_periodId :: "string option"
  cc_entryId :: "string option"
  cc_relatedEntryId :: "string option"
  cc_entryIds :: "string list"
  cc_teacherUserId :: "string option"
  cc_roomId :: "string option"
  cc_message :: string

text \<open>The columns of a timetable period and a timetable entry that the domain code reads.\<close>

record TimetablePeriodRecord =
  period_id :: string
  period_timetableConfigId :: string
  period_periodIndex :: int
  period_startTime :: string
  period_endTime :: string
  period_isInstructional :: bool

record TimetableEntryRecord =
  entry_id :: string
  entry_schoolId :: string
  entry_academicYearId :: string
  entry_termId :: string
  entry_timetableConfigId :: string
  entry_periodId :: string
  entry_dayOfWeek :: int
  entry_gradeId :: string
  entry_sectionId :: string
  entry_classroomId :: string
  entry_subjectId :: string
  entry_teacherUserId :: string
  entry_teacherSubjectAllocationId :: string
  entry_roomId :: "string option"
  entry_status :: TimetableEntryStatus
  entry_period_startTime :: string
  entry_period_endTime :: string

section \<open>Operations\<close>

definition timetableEntryToConflictSource ::
  "TimetableEntryRecord \<Rightarrow> TimetableIntervalConflictSource" where
  "timetableEntryToConflictSource entry =
     \<lparr>identity = ''entry:'' @ entry_id entry,
      src_schoolId = entry_schoolId entry,
      src_termId = entry_termId entry,
      src_timetableConfigId = entry_timetableConfigId entry,
      src_entryId = Some (entry_id entry),
      src_proposedIndex = None,
      src_classroomId = entry_classroomId entry,
      src_teacherUserId = entry_teacherUserId entry,
      src_roomId = entry_roomId entry,
      src_dayOfWeek = entry_dayOfWeek entry,
      src_periodId = entry_periodId entry,
      src_startTime = entry_period_startTime entry,
      src_endTime = entry_period_endTime entry\<rparr>"

type_synonym ranged_source = "TimetableIntervalConflictSource \<times> TimetableTimeRange"

definition source_range :: "TimetableIntervalConflictSource \<Rightarrow> TimetableTimeRange result" where
  "source_range s = validateTimetableTimeRange (src_startTime s) (src_endTime s)"

text \<open>The body of the inner loop: what one pair of sources pushes onto \<open>conflicts\<close>.\<close>

definition pair_conflicts :: "ranged_source \<Rightarrow> ranged_source \<Rightarrow> TimetableIntervalConflictPair list" where
  "pair_conflicts x y =
     (let first = fst x; second = fst y
      in if src_schoolId first \<noteq> src_schoolId second \<or>
            src_termId first \<noteq> src_termId second \<or>
            src_dayOfWeek first \<noteq> src_dayOfWeek second \<or>
            \<not> timetableTimeRangesOverlap (snd x) (snd y)
         then []
         else
           (if src_classroomId first = src_classroomId second
            then [\<lparr>pair_kind = Kind_classroom, pair_first = first, pair_second = second\<rparr>] else []) @
           (if src_teacherUserId first = src_teacherUserId second
            then [\<lparr>pair_kind = Kind_teacher, pair_first = first, pair_second = second\<rparr>] else []) @
           (if truthy (src_roomId first) \<and> src_roomId first = src_roomId second
            then [\<lparr>pair_kind = Kind_room, pair_first = first, pair_second = second\<rparr>] else []))"

text \<open>The two index loops visit the pairs of positions \<open>firstIndex < secondIndex\<close> in
  lexicographic order.\<close>

fun all_pair_conflicts :: "ranged_source list \<Rightarrow> TimetableIntervalConflictPair list" where
  "all_pair_conflicts [] = []"
| "all_pair_conflicts (x # ys) = concat (map (pair_conflicts x) ys) @ all_pair_conflicts ys"

text \<open>\<open>lc\<close> is \<open>String.prototype.localeCompare\<close>, whose order depends on the locale of the host.\<close>

definition findTimetableIntervalConflicts ::
  "(string \<Rightarrow> string \<Rightarrow> int) \<Rightarrow> TimetableIntervalConflictSource list \<Rightarrow>
   TimetableIntervalConflictPair list result" where
  "findTimetableIntervalConflicts lc sources =
     (let ordered = js_sort (\<lambda>l r. lc (identity l) (identity r)) sources
      in andThen (mapR (\<lambda>s. andThen (source_range s) (\<lambda>r. Inr (s, r))) ordered)
           (\<lambda>rangedSources. Inr (all_pair_conflicts rangedSources)))"

fun timetableConflictMessage :: "TimetableIntervalConflictKind \<Rightarrow> string" where
  "timetableConflictMessage Kind_classroom = ''Classroom has overlapping timetable entries.''"
| "timetableConflictMessage Kind_teacher = ''Teacher is assigned to overlapping timetable entries.''"
| "timetableConflictMessage Kind_room = ''Room is assigned to overlapping timetable entries.''"

fun TimetableConflictType_name :: "TimetableConflictType \<Rightarrow> string" where
  "TimetableConflictType_name Type_TEACHER = ''TEACHER''"
| "TimetableConflictType_name Type_ROOM = ''ROOM''"
| "TimetableConflictType_name Type_CLASSROOM_SLOT = ''CLASSROOM_SLOT''"
| "TimetableConflictType_name Type_PERIOD_OVERLAP = ''PERIOD_OVERLAP''"

definition buildConflict :: "TimetableIntervalConflictPair \<Rightarrow> ComputedTimetableConflict" where
  "buildConflict conflict =
     (let kind = pair_kind conflict; first = pair_first conflict; second = pair_second conflict;
          type = (if kind = Kind_classroom then Type_CLASSROOM_SLOT
                  else if kind = Kind_teacher then Type_TEACHER else Type_ROOM)
      in \<lparr>cc_id = ''computed:'' @ TimetableConflictType_name type @ '':'' @ identity first @ '':'' @
                  identity second,
          cc_conflictType = type,
          cc_severity = Severity_BLOCKING,
          cc_status = Conflict_OPEN,
          cc_dayOfWeek = Some (src_dayOfWeek first),
          cc_periodId = Some (src_periodId first),
          cc_entryId = src_entryId first,
          cc_relatedEntryId = src_entryId second,
          cc_entryIds = List.map_filter (\<lambda>x. x) [src_entryId first, src_entryId second],
          cc_teacherUserId = (if kind = Kind_teacher then Some (src_teacherUserId first) else None),
          cc_roomId = (if kind = Kind_room then src_roomId first else None),
          cc_message = timetableConflictMessage kind\<rparr>)"

definition active_sources :: "TimetableEntryRecord list \<Rightarrow> TimetableIntervalConflictSource list" where
  "active_sources entries =
     map timetableEntryToConflictSource (filter (\<lambda>e. entry_status e \<noteq> Entry_CANCELLED) entries)"

definition computeTimetableConflicts ::
  "(string \<Rightarrow> string \<Rightarrow> int) \<Rightarrow> TimetableEntryRecord list \<Rightarrow> ComputedTimetableConflict list result" where
  "computeTimetableConflicts lc entries =
     andThen (findTimetableIntervalConflicts lc (active_sources entries))
       (\<lambda>conflicts. Inr (map buildConflict conflicts))"

section \<open>What a conflict is\<close>

fun shared_resource ::
  "TimetableIntervalConflictKind \<Rightarrow> TimetableIntervalConflictSource \<Rightarrow>
   TimetableIntervalConflictSource \<Rightarrow> bool" where
  "shared_resource Kind_classroom a b \<longleftrightarrow> src_classroomId a = src_classroomId b"
| "shared_resource Kind_teacher a b \<longleftrightarrow> src_teacherUserId a = src_teacherUserId b"
| "shared_resource Kind_room a b \<longleftrightarrow> truthy (src_roomId a) \<and> src_roomId a = src_roomId b"

definition same_slot :: "TimetableIntervalConflictSource \<Rightarrow> TimetableIntervalConflictSource \<Rightarrow> bool" where
  "same_slot a b \<longleftrightarrow>
     src_schoolId a = src_schoolId b \<and> src_termId a = src_termId b \<and>
     src_dayOfWeek a = src_dayOfWeek b \<and>
     (case (source_range a, source_range b) of
        (Inr ra, Inr rb) \<Rightarrow> timetableTimeRangesOverlap ra rb
      | _ \<Rightarrow> False)"

definition clash_of ::
  "TimetableIntervalConflictKind \<Rightarrow> TimetableIntervalConflictSource \<Rightarrow>
   TimetableIntervalConflictSource \<Rightarrow> bool" where
  "clash_of k a b \<longleftrightarrow> same_slot a b \<and> shared_resource k a b"

definition clash :: "TimetableIntervalConflictSource \<Rightarrow> TimetableIntervalConflictSource \<Rightarrow> bool" where
  "clash a b \<longleftrightarrow> clash_of Kind_classroom a b \<or> clash_of Kind_teacher a b \<or> clash_of Kind_room a b"

lemma same_slot_sym: "same_slot a b \<longleftrightarrow> same_slot b a"
  using timetableTimeRangesOverlap_sym by (auto simp: same_slot_def split: sum.splits)

lemma shared_resource_sym: "shared_resource k a b \<longleftrightarrow> shared_resource k b a"
  by (cases k) auto

lemma clash_of_sym: "clash_of k a b \<longleftrightarrow> clash_of k b a"
  unfolding clash_of_def using same_slot_sym [of a b] shared_resource_sym [of k a b] by blast

lemma clash_sym: "clash a b \<longleftrightarrow> clash b a"
  unfolding clash_def using clash_of_sym [of _ a b] by blast

lemma clash_iff: "clash a b \<longleftrightarrow> (\<exists>k. clash_of k a b)"
  unfolding clash_def by (metis TimetableIntervalConflictKind.exhaust)

lemma mem_pair_conflicts:
  assumes "source_range (fst x) = Inr (snd x)" "source_range (fst y) = Inr (snd y)"
  shows "p \<in> set (pair_conflicts x y) \<longleftrightarrow>
    clash_of (pair_kind p) (fst x) (fst y) \<and> pair_first p = fst x \<and> pair_second p = fst y"
proof -
  obtain k a b where "p = \<lparr>pair_kind = k, pair_first = a, pair_second = b\<rparr>" by (cases p) auto
  with assms show ?thesis
    by (cases k) (auto simp: pair_conflicts_def clash_of_def same_slot_def Let_def)
qed

section \<open>Correctness of the pairwise search\<close>

lemma pair_mset_eq: "{#x, y#} = {#a, b#} \<longleftrightarrow> x = a \<and> y = b \<or> x = b \<and> y = a"
  by (auto simp: add_eq_conv_ex)

lemma map_eq_split:
  assumes "map f ys = us @ x # vs"
  obtains us' x' vs' where "ys = us' @ x' # vs'" "f x' = x" "map f vs' = vs"
  using assms by (auto simp: map_eq_append_conv map_eq_Cons_conv append_eq_map_conv Cons_eq_map_conv)

lemma pair_in_mset_split:
  "{#a, b#} \<subseteq># mset xs \<longleftrightarrow>
     (\<exists>us vs ws. xs = us @ a # vs @ b # ws \<or> xs = us @ b # vs @ a # ws)" (is "?l \<longleftrightarrow> ?r")
proof
  assume ?l
  then have "a \<in> set xs" by (simp add: insert_subset_eq_iff)
  then obtain us vs where xs: "xs = us @ a # vs" by (meson split_list)
  with \<open>?l\<close> have "b \<in> set us \<or> b \<in> set vs" by (auto simp: insert_subset_eq_iff)
  then show ?r using xs by (auto dest!: split_list) (metis append.assoc append_Cons)+
qed auto

lemma all_pair_conflicts_split:
  "p \<in> set (all_pair_conflicts xs) \<longleftrightarrow>
     (\<exists>us x vs y ws. xs = us @ x # vs @ y # ws \<and> p \<in> set (pair_conflicts x y))"
proof (induction xs)
  case Nil
  then show ?case by simp
next
  case (Cons x xs)
  have "(\<exists>us u vs y ws. x # xs = us @ u # vs @ y # ws \<and> p \<in> set (pair_conflicts u y)) \<longleftrightarrow>
    (\<exists>y \<in> set xs. p \<in> set (pair_conflicts x y)) \<or>
    (\<exists>us u vs y ws. xs = us @ u # vs @ y # ws \<and> p \<in> set (pair_conflicts u y))"
    (is "?l \<longleftrightarrow> ?a \<or> ?b")
  proof
    assume ?l
    then obtain us u vs y ws where *: "x # xs = us @ u # vs @ y # ws" "p \<in> set (pair_conflicts u y)"
      by blast
    then show "?a \<or> ?b"
    proof (cases us)
      case Nil
      with * have "u = x" "y \<in> set xs" by auto
      with * show ?thesis by blast
    next
      case (Cons v us')
      with * have "xs = us' @ u # vs @ y # ws" by simp
      with * show ?thesis by blast
    qed
  next
    assume "?a \<or> ?b"
    then show ?l by (metis append_Cons append_Nil split_list)
  qed
  with Cons.IH show ?case by auto
qed

lemma ranged_sources:
  assumes "mapR (\<lambda>s. andThen (source_range s) (\<lambda>r. Inr (s, r))) xs = Inr ys"
  shows "map fst ys = xs \<and> (\<forall>y \<in> set ys. source_range (fst y) = Inr (snd y))"
  using assms by (induction xs arbitrary: ys) (fastforce simp: andThen_eq_Inr)+

lemma find_conflicts_total:
  "(\<exists>ps. findTimetableIntervalConflicts lc ss = Inr ps) \<longleftrightarrow> (\<forall>s \<in> set ss. \<exists>r. source_range s = Inr r)"
proof
  assume "\<exists>ps. findTimetableIntervalConflicts lc ss = Inr ps"
  then obtain ys where "mapR (\<lambda>s. andThen (source_range s) (\<lambda>r. Inr (s, r)))
      (js_sort (\<lambda>l r. lc (identity l) (identity r)) ss) = Inr ys"
    by (auto simp: findTimetableIntervalConflicts_def andThen_eq_Inr)
  from mapR_InrD [OF this] show "\<forall>s \<in> set ss. \<exists>r. source_range s = Inr r"
    by (auto simp: andThen_eq_Inr)
next
  assume "\<forall>s \<in> set ss. \<exists>r. source_range s = Inr r"
  then have "\<exists>ys. mapR (\<lambda>s. andThen (source_range s) (\<lambda>r. Inr (s, r)))
      (js_sort (\<lambda>l r. lc (identity l) (identity r)) ss) = Inr ys"
    by (intro mapR_total) fastforce
  then show "\<exists>ps. findTimetableIntervalConflicts lc ss = Inr ps"
    by (auto simp: findTimetableIntervalConflicts_def)
qed

lemma find_conflicts_iff:
  assumes "findTimetableIntervalConflicts lc ss = Inr ps"
  shows "(\<exists>p \<in> set ps. pair_kind p = k \<and> {#pair_first p, pair_second p#} = {#a, b#}) \<longleftrightarrow>
    {#a, b#} \<subseteq># mset ss \<and> clash_of k a b"
proof -
  let ?ord = "js_sort (\<lambda>l r. lc (identity l) (identity r)) ss"
  from assms obtain ys where ys: "mapR (\<lambda>s. andThen (source_range s) (\<lambda>r. Inr (s, r))) ?ord = Inr ys"
    and ps: "ps = all_pair_conflicts ys"
    by (auto simp: findTimetableIntervalConflicts_def andThen_eq_Inr)
  from ranged_sources [OF ys] have fst: "map fst ys = ?ord"
    and rng: "\<And>y. y \<in> set ys \<Longrightarrow> source_range (fst y) = Inr (snd y)" by auto
  have mss: "mset (map fst ys) = mset ss" by (simp add: fst mset_js_sort)
  show ?thesis
  proof
    assume "\<exists>p \<in> set ps. pair_kind p = k \<and> {#pair_first p, pair_second p#} = {#a, b#}"
    then obtain p us x vs y ws where p: "pair_kind p = k" "{#pair_first p, pair_second p#} = {#a, b#}"
      and eq: "ys = us @ x # vs @ y # ws" and in_p: "p \<in> set (pair_conflicts x y)"
      by (auto simp: ps all_pair_conflicts_split)
    have xy: "clash_of k (fst x) (fst y)" "pair_first p = fst x" "pair_second p = fst y"
      using in_p p(1) mem_pair_conflicts [of x y p] rng by (auto simp: eq)
    have "{#fst x, fst y#} \<subseteq># mset (map fst ys)" by (simp add: eq)
    moreover have "{#fst x, fst y#} = {#a, b#}" using p(2) xy by simp
    moreover have "clash_of k a b"
      using xy(1) clash_of_sym [of k "fst x" "fst y"] p(2) unfolding xy pair_mset_eq by blast
    ultimately show "{#a, b#} \<subseteq># mset ss \<and> clash_of k a b" using mss by simp
  next
    assume "{#a, b#} \<subseteq># mset ss \<and> clash_of k a b"
    then have sub: "{#a, b#} \<subseteq># mset (map fst ys)" and kl: "clash_of k a b" using mss by auto
    from sub obtain us vs ws x y where split: "map fst ys = us @ x # vs @ y # ws"
      and or: "x = a \<and> y = b \<or> x = b \<and> y = a"
      unfolding pair_in_mset_split by blast
    have xy: "{#x, y#} = {#a, b#}" using or unfolding pair_mset_eq .
    have cl: "clash_of k x y" using or kl clash_of_sym [of k a b] by blast
    from map_eq_split [OF split] obtain us' x' zs where x': "ys = us' @ x' # zs" "fst x' = x"
      and zs: "map fst zs = vs @ y # ws" .
    from map_eq_split [OF zs] obtain vs' y' ws' where y': "zs = vs' @ y' # ws'" "fst y' = y" .
    from x' y' have ys': "ys = us' @ x' # vs' @ y' # ws'" and f: "fst x' = x" "fst y' = y" by auto
    have "\<lparr>pair_kind = k, pair_first = x, pair_second = y\<rparr> \<in> set (pair_conflicts x' y')"
      using f cl rng mem_pair_conflicts [of x' y'] by (auto simp: ys')
    then have "\<lparr>pair_kind = k, pair_first = x, pair_second = y\<rparr> \<in> set ps"
      unfolding ps all_pair_conflicts_split using ys' by blast
    with xy show "\<exists>p \<in> set ps. pair_kind p = k \<and> {#pair_first p, pair_second p#} = {#a, b#}"
      by force
  qed
qed

section \<open>Properties\<close>

fun conflict_type_of :: "TimetableIntervalConflictKind \<Rightarrow> TimetableConflictType" where
  "conflict_type_of Kind_classroom = Type_CLASSROOM_SLOT"
| "conflict_type_of Kind_teacher = Type_TEACHER"
| "conflict_type_of Kind_room = Type_ROOM"

lemma conflict_type_of_inject: "conflict_type_of k = conflict_type_of k' \<longleftrightarrow> k = k'"
  by (cases k; cases k') simp_all

lemma buildConflict_fields:
  "cc_conflictType (buildConflict p) = conflict_type_of (pair_kind p)"
  "cc_entryIds (buildConflict p) =
     List.map_filter (\<lambda>x. x) [src_entryId (pair_first p), src_entryId (pair_second p)]"
  by (cases "pair_kind p"; simp add: buildConflict_def Let_def)+

lemma entry_source_simps [simp]:
  "src_entryId (timetableEntryToConflictSource e) = Some (entry_id e)"
  "identity (timetableEntryToConflictSource e) = ''entry:'' @ entry_id e"
  by (simp_all add: timetableEntryToConflictSource_def)

lemma active_pair:
  assumes "distinct (map entry_id entries)" "a \<in> set entries" "b \<in> set entries" "a \<noteq> b"
    "entry_status a \<noteq> Entry_CANCELLED" "entry_status b \<noteq> Entry_CANCELLED"
  shows "{#timetableEntryToConflictSource a, timetableEntryToConflictSource b#} \<subseteq># mset (active_sources entries)"
proof -
  let ?act = "filter (\<lambda>e. entry_status e \<noteq> Entry_CANCELLED) entries"
  obtain us vs where act: "?act = us @ a # vs" using assms(2,5) by (metis (mono_tags, lifting) filter_set
        in_set_conv_decomp mem_Collect_eq set_filter)
  have "b \<in> set ?act" using assms(3,6) by simp
  then have "b \<in> set (us @ vs)" using assms(4) act by auto
  then have "timetableEntryToConflictSource b \<in># mset (map timetableEntryToConflictSource (us @ vs))"
    unfolding set_mset_mset set_map by (rule imageI)
  then have "{#timetableEntryToConflictSource b#} \<subseteq># mset (map timetableEntryToConflictSource (us @ vs))"
    by (simp only: single_subset_iff)
  then show ?thesis unfolding active_sources_def act by simp
qed


definition example_slot :: "string \<Rightarrow> string \<Rightarrow> string \<Rightarrow> string \<Rightarrow> string \<Rightarrow> TimetableEntryRecord" where
  "example_slot i classroom teacher from until =
     \<lparr>entry_id = i, entry_schoolId = ''s'', entry_academicYearId = ''y'', entry_termId = ''t'',
      entry_timetableConfigId = ''cfg'', entry_periodId = ''p'', entry_dayOfWeek = 1,
      entry_gradeId = ''g'', entry_sectionId = ''sec'', entry_classroomId = classroom,
      entry_subjectId = ''math'', entry_teacherUserId = teacher,
      entry_teacherSubjectAllocationId = ''al'', entry_roomId = None, entry_status = Entry_ACTIVE,
      entry_period_startTime = from, entry_period_endTime = until\<rparr>"


end
