(* ===== verification/Timetable_Demand.thy ===== *)
theory Timetable_Demand
  imports Timetable_Conflicts
begin

text \<open>
  Weekly teaching demand (\<open>canonical-timetable-demand.ts\<close>): one demand per active subject
  allocation and classroom of its grade, with the teacher allocations that can serve it, reconciled
  with the entries already scheduled.
\<close>

section \<open>Data\<close>

datatype CanonicalTimetableDemandStatus =
  COMPLETE | UNDER_SCHEDULED | OVER_SCHEDULED | MISSING_TEACHER_ALLOCATION

record TimetableSubjectAllocationRecord =
  sa_id :: string
  sa_schoolId :: string
  sa_academicYearId :: string
  sa_termId :: string
  sa_gradeId :: string
  sa_subjectId :: string
  sa_weeklyHours :: int
  sa_deletedAt :: "int option"

record TimetableClassroomRecord =
  class_id :: string
  class_schoolId :: string
  class_sectionId :: string
  class_section_gradeId :: string

record TimetableTeacherAllocationRecord =
  ta_id :: string
  ta_schoolId :: string
  ta_teacherUserId :: string
  ta_subjectId :: string
  ta_classroomId :: string
  ta_termId :: string

record CanonicalTimetableDemand =
  dm_schoolId :: string
  dm_academicYearId :: string
  dm_termId :: string
  dm_gradeId :: string
  dm_classroomId :: string
  dm_subjectId :: string
  dm_requiredWeeklySlots :: int
  dm_teacherSubjectAllocationIds :: "string list"
  dm_subjectAllocation :: TimetableSubjectAllocationRecord
  dm_classroom :: TimetableClassroomRecord

record ReconciledTimetableDemand = CanonicalTimetableDemand +
  dm_scheduledWeeklySlots :: int
  dm_remainingWeeklySlots :: int
  dm_status :: CanonicalTimetableDemandStatus

section \<open>Operations\<close>

definition demandKey :: "string \<Rightarrow> string \<Rightarrow> string \<Rightarrow> string \<Rightarrow> string" where
  "demandKey schoolId termId classroomId subjectId =
     schoolId @ '':'' @ termId @ '':'' @ classroomId @ '':'' @ subjectId"

definition canonicalTimetableDemandKey :: "string \<Rightarrow> string \<Rightarrow> string \<Rightarrow> string \<Rightarrow> string" where
  "canonicalTimetableDemandKey = demandKey"

abbreviation key_of_demand :: "'a CanonicalTimetableDemand_scheme \<Rightarrow> string" where
  "key_of_demand d \<equiv> demandKey (dm_schoolId d) (dm_termId d) (dm_classroomId d) (dm_subjectId d)"

abbreviation key_of_entry :: "TimetableEntryRecord \<Rightarrow> string" where
  "key_of_entry e \<equiv>
     demandKey (entry_schoolId e) (entry_termId e) (entry_classroomId e) (entry_subjectId e)"

text \<open>\<open>allocation != null && allocation.weeklyHours > 0\<close>\<close>

definition isActiveCurriculumRequirement :: "TimetableSubjectAllocationRecord option \<Rightarrow> bool" where
  "isActiveCurriculumRequirement allocation =
     (case allocation of None \<Rightarrow> False | Some a \<Rightarrow> sa_weeklyHours a > 0)"

definition groupBy :: "('a \<Rightarrow> string) \<Rightarrow> 'a list \<Rightarrow> (string, 'a list) js_map" where
  "groupBy getKey items =
     foldl (\<lambda>groups item.
        let key = getKey item in jm_set key (get_or groups key [] @ [item]) groups) [] items"

definition buildCanonicalTimetableDemand ::
  "(string \<Rightarrow> string \<Rightarrow> int) \<Rightarrow> TimetableSubjectAllocationRecord list \<Rightarrow>
   TimetableClassroomRecord list \<Rightarrow> TimetableTeacherAllocationRecord list \<Rightarrow>
   CanonicalTimetableDemand list" where
  "buildCanonicalTimetableDemand lc subjectAllocations classrooms teacherAllocations =
     (let classroomsByGrade = groupBy class_section_gradeId classrooms;
          teachersByClassSubject =
            groupBy (\<lambda>a. ta_classroomId a @ '':'' @ ta_subjectId a) teacherAllocations;
          demand =
            concat (map (\<lambda>allocation.
              if sa_deletedAt allocation \<noteq> None \<or> \<not> isActiveCurriculumRequirement (Some allocation)
              then []
              else
                concat (map (\<lambda>classroom.
                  if class_schoolId classroom \<noteq> sa_schoolId allocation then []
                  else
                    let teacherSubjectAllocationIds =
                          js_sort string_compare
                            (map ta_id
                              (filter (\<lambda>t. ta_schoolId t = sa_schoolId allocation \<and>
                                           ta_termId t = sa_termId allocation)
                                (get_or teachersByClassSubject
                                   (class_id classroom @ '':'' @ sa_subjectId allocation) [])))
                    in [\<lparr>dm_schoolId = sa_schoolId allocation,
                         dm_academicYearId = sa_academicYearId allocation,
                         dm_termId = sa_termId allocation,
                         dm_gradeId = sa_gradeId allocation,
                         dm_classroomId = class_id classroom,
                         dm_subjectId = sa_subjectId allocation,
                         dm_requiredWeeklySlots = sa_weeklyHours allocation,
                         dm_teacherSubjectAllocationIds = teacherSubjectAllocationIds,
                         dm_subjectAllocation = allocation,
                         dm_classroom = classroom\<rparr>])
                  (get_or classroomsByGrade (sa_gradeId allocation) [])))
              subjectAllocations)
      in js_sort (\<lambda>l r. lc (key_of_demand l) (key_of_demand r)) demand)"

definition reconcileStatus :: "CanonicalTimetableDemand \<Rightarrow> int \<Rightarrow> CanonicalTimetableDemandStatus" where
  "reconcileStatus demand scheduled =
     (if length (dm_teacherSubjectAllocationIds demand) = 0 then MISSING_TEACHER_ALLOCATION
      else if scheduled < dm_requiredWeeklySlots demand then UNDER_SCHEDULED
      else if scheduled > dm_requiredWeeklySlots demand then OVER_SCHEDULED
      else COMPLETE)"

definition reconcileCanonicalTimetableDemand ::
  "CanonicalTimetableDemand list \<Rightarrow> TimetableEntryRecord list \<Rightarrow> ReconciledTimetableDemand list" where
  "reconcileCanonicalTimetableDemand demand entries =
     (let scheduledByDemand =
            foldl (\<lambda>m entry.
               if entry_status entry = Entry_CANCELLED then m
               else let key = key_of_entry entry in jm_set key (get_or m key 0 + 1) m) [] entries
      in map (\<lambda>item.
           let scheduled = get_or scheduledByDemand (key_of_demand item) 0
           in CanonicalTimetableDemand.extend item
                (ReconciledTimetableDemand.fields scheduled
                   (max (dm_requiredWeeklySlots item - scheduled) 0)
                   (reconcileStatus item scheduled))) demand)"

section \<open>Lemmas\<close>

lemma get_or_groupBy_gen:
  "get_or (foldl (\<lambda>groups item.
      let key = getKey item in jm_set key (get_or groups key [] @ [item]) groups) m items) k [] =
   get_or m k [] @ filter (\<lambda>x. getKey x = k) items"
  by (induction items arbitrary: m) (auto simp: Let_def)

lemma get_or_groupBy [simp]: "get_or (groupBy getKey items) k [] = filter (\<lambda>x. getKey x = k) items"
  by (simp add: groupBy_def get_or_groupBy_gen)

text \<open>The key of a scheduled entry, counted over the entries that are not cancelled.\<close>

definition scheduled_slots :: "TimetableEntryRecord list \<Rightarrow> string \<Rightarrow> int" where
  "scheduled_slots entries key =
     int (length (filter (\<lambda>e. entry_status e \<noteq> Entry_CANCELLED \<and> key_of_entry e = key) entries))"

lemma scheduled_by_demand_gen:
  "get_or (foldl (\<lambda>m entry.
      if entry_status entry = Entry_CANCELLED then m
      else let key = key_of_entry entry in jm_set key (get_or m key 0 + 1) m) m entries) k 0 =
   get_or m k 0 + scheduled_slots entries k"
  by (induction entries arbitrary: m) (auto simp: Let_def scheduled_slots_def)

lemma reconcile_map:
  "reconcileCanonicalTimetableDemand demand entries =
     map (\<lambda>item.
        let scheduled = scheduled_slots entries (key_of_demand item)
        in CanonicalTimetableDemand.extend item
             (ReconciledTimetableDemand.fields scheduled
                (max (dm_requiredWeeklySlots item - scheduled) 0) (reconcileStatus item scheduled)))
      demand"
  by (simp add: reconcileCanonicalTimetableDemand_def Let_def scheduled_by_demand_gen)

lemma colon_free_pair_inject:
  assumes "CHR '':'' \<notin> set a" "CHR '':'' \<notin> set c"
  shows "a @ '':'' @ b = c @ '':'' @ d \<longleftrightarrow> a = c \<and> b = d"
  using assms
proof (induction a arbitrary: c)
  case Nil
  then show ?case by (cases c) auto
next
  case (Cons x a)
  then show ?case by (cases c) auto
qed

lemma demandKey_inject:
  assumes "CHR '':'' \<notin> set s" "CHR '':'' \<notin> set s'" "CHR '':'' \<notin> set t" "CHR '':'' \<notin> set t'"
    "CHR '':'' \<notin> set c" "CHR '':'' \<notin> set c'"
  shows "demandKey s t c j = demandKey s' t' c' j' \<longleftrightarrow> s = s' \<and> t = t' \<and> c = c' \<and> j = j'"
  using assms by (simp add: demandKey_def colon_free_pair_inject [simplified])

text \<open>The demand of one allocation and classroom, with the teacher allocations found by comparing
  ids instead of the concatenated Map key.\<close>

definition serves ::
  "TimetableSubjectAllocationRecord \<Rightarrow> TimetableClassroomRecord \<Rightarrow> TimetableTeacherAllocationRecord \<Rightarrow> bool" where
  "serves allocation classroom t \<longleftrightarrow>
     ta_classroomId t = class_id classroom \<and> ta_subjectId t = sa_subjectId allocation \<and>
     ta_schoolId t = sa_schoolId allocation \<and> ta_termId t = sa_termId allocation"

definition demanded :: "TimetableSubjectAllocationRecord \<Rightarrow> TimetableClassroomRecord \<Rightarrow> bool" where
  "demanded allocation classroom \<longleftrightarrow>
     sa_deletedAt allocation = None \<and> sa_weeklyHours allocation > 0 \<and>
     class_section_gradeId classroom = sa_gradeId allocation \<and>
     class_schoolId classroom = sa_schoolId allocation"

definition demand_of ::
  "TimetableTeacherAllocationRecord list \<Rightarrow> TimetableSubjectAllocationRecord \<Rightarrow>
   TimetableClassroomRecord \<Rightarrow> CanonicalTimetableDemand" where
  "demand_of teacherAllocations allocation classroom =
     \<lparr>dm_schoolId = sa_schoolId allocation, dm_academicYearId = sa_academicYearId allocation,
      dm_termId = sa_termId allocation, dm_gradeId = sa_gradeId allocation,
      dm_classroomId = class_id classroom, dm_subjectId = sa_subjectId allocation,
      dm_requiredWeeklySlots = sa_weeklyHours allocation,
      dm_teacherSubjectAllocationIds =
        js_sort string_compare (map ta_id (filter (serves allocation classroom) teacherAllocations)),
      dm_subjectAllocation = allocation, dm_classroom = classroom\<rparr>"

lemma serving_allocations:
  assumes "\<forall>t \<in> set ts. CHR '':'' \<notin> set (ta_classroomId t)" "CHR '':'' \<notin> set (class_id cl)"
  shows "filter (\<lambda>t. ta_schoolId t = sa_schoolId al \<and> ta_termId t = sa_termId al)
      (filter (\<lambda>t. ta_classroomId t @ '':'' @ ta_subjectId t = class_id cl @ '':'' @ sa_subjectId al) ts) =
    filter (serves al cl) ts"
  using assms colon_free_pair_inject [of _ "class_id cl"]
  by (auto simp: serves_def intro!: filter_cong)

lemma buildCanonicalTimetableDemand_eq:
  assumes "\<forall>t \<in> set ts. CHR '':'' \<notin> set (ta_classroomId t)"
    and "\<forall>c \<in> set cls. CHR '':'' \<notin> set (class_id c)"
  shows "buildCanonicalTimetableDemand lc sas cls ts =
    js_sort (\<lambda>l r. lc (key_of_demand l) (key_of_demand r))
      (concat (map (\<lambda>al. map (demand_of ts al) (filter (demanded al) cls)) sas))"
proof -
  have "concat (map (\<lambda>cl. if class_schoolId cl \<noteq> sa_schoolId al then []
          else [demand_of ts al cl]) (filter (\<lambda>c. class_section_gradeId c = sa_gradeId al) cls')) =
        map (demand_of ts al)
          (filter (\<lambda>c. class_section_gradeId c = sa_gradeId al \<and> class_schoolId c = sa_schoolId al) cls')"
    for al cls' by (induction cls') auto
  moreover have "concat (map (\<lambda>cl. if class_schoolId cl \<noteq> sa_schoolId al then []
         else let ids = js_sort string_compare (map ta_id
                (filter (\<lambda>t. ta_schoolId t = sa_schoolId al \<and> ta_termId t = sa_termId al)
                   (filter (\<lambda>t. ta_classroomId t @ '':'' @ ta_subjectId t =
                                class_id cl @ '':'' @ sa_subjectId al) ts)))
              in [\<lparr>dm_schoolId = sa_schoolId al, dm_academicYearId = sa_academicYearId al,
                   dm_termId = sa_termId al, dm_gradeId = sa_gradeId al,
                   dm_classroomId = class_id cl, dm_subjectId = sa_subjectId al,
                   dm_requiredWeeklySlots = sa_weeklyHours al,
                   dm_teacherSubjectAllocationIds = ids,
                   dm_subjectAllocation = al, dm_classroom = cl\<rparr>])
        (filter (\<lambda>c. class_section_gradeId c = sa_gradeId al) cls)) =
      concat (map (\<lambda>cl. if class_schoolId cl \<noteq> sa_schoolId al then [] else [demand_of ts al cl])
        (filter (\<lambda>c. class_section_gradeId c = sa_gradeId al) cls))" for al
    using assms
    by (intro arg_cong [where f = concat] map_cong refl)
      (simp add: serving_allocations [unfolded append_Cons append_Nil] demand_of_def del: filter_filter)
  ultimately show ?thesis
    unfolding buildCanonicalTimetableDemand_def Let_def get_or_groupBy
    by (intro arg_cong [where f = "js_sort _"] arg_cong [where f = concat] map_cong refl)
      (auto simp: isActiveCurriculumRequirement_def demanded_def intro!: arg_cong [where f = "map _"]
        filter_cong)
qed

section \<open>Properties\<close>

text \<open>C23. The canonical demand is exactly one item per active subject allocation (not deleted, positive
  weekly hours) and classroom of its grade and school, each with the sorted ids of the teacher
  allocations for that classroom, subject, school and term, provided the ids contain no colon.\<close>

theorem canonical_demand_exact:
  assumes "\<forall>t \<in> set ts. CHR '':'' \<notin> set (ta_classroomId t)"
    and "\<forall>c \<in> set cls. CHR '':'' \<notin> set (class_id c)"
  shows "mset (buildCanonicalTimetableDemand lc sas cls ts) =
    mset (concat (map (\<lambda>al. map (demand_of ts al) (filter (demanded al) cls)) sas))"
  unfolding buildCanonicalTimetableDemand_eq [OF assms] mset_js_sort ..

theorem canonical_demand_exact_witness:
  "mset (buildCanonicalTimetableDemand string_compare
     [\<lparr>sa_id = ''sa'', sa_schoolId = ''s'', sa_academicYearId = ''y'', sa_termId = ''t'',
       sa_gradeId = ''g'', sa_subjectId = ''math'', sa_weeklyHours = 4, sa_deletedAt = None\<rparr>]
     [\<lparr>class_id = ''c1'', class_schoolId = ''s'', class_sectionId = ''x'', class_section_gradeId = ''g''\<rparr>] []) =
   {#demand_of []
      \<lparr>sa_id = ''sa'', sa_schoolId = ''s'', sa_academicYearId = ''y'', sa_termId = ''t'',
       sa_gradeId = ''g'', sa_subjectId = ''math'', sa_weeklyHours = 4, sa_deletedAt = None\<rparr>
      \<lparr>class_id = ''c1'', class_schoolId = ''s'', class_sectionId = ''x'', class_section_gradeId = ''g''\<rparr>#}"
  by (subst canonical_demand_exact) (simp_all add: demanded_def)

text \<open>Reconciliation keeps the demand and adds the number of its entries that are not cancelled, the
  slots still missing (never negative), and the status: missing teacher allocation first, then under-,
  over- and exactly scheduled.\<close>

theorem reconcile_exact:
  assumes "r \<in> set (reconcileCanonicalTimetableDemand demand entries)"
  shows "CanonicalTimetableDemand.truncate r \<in> set demand \<and>
    dm_scheduledWeeklySlots r = scheduled_slots entries (key_of_demand r) \<and>
    0 \<le> dm_remainingWeeklySlots r \<and>
    (dm_scheduledWeeklySlots r \<le> dm_requiredWeeklySlots r \<longrightarrow>
       dm_scheduledWeeklySlots r + dm_remainingWeeklySlots r = dm_requiredWeeklySlots r) \<and>
    (dm_status r = COMPLETE \<longleftrightarrow> dm_teacherSubjectAllocationIds r \<noteq> [] \<and>
       dm_scheduledWeeklySlots r = dm_requiredWeeklySlots r) \<and>
    (dm_status r = MISSING_TEACHER_ALLOCATION \<longleftrightarrow> dm_teacherSubjectAllocationIds r = [])"
proof -
  from assms obtain d where d: "d \<in> set demand" and r: "r = CanonicalTimetableDemand.extend d
      (ReconciledTimetableDemand.fields (scheduled_slots entries (key_of_demand d))
        (max (dm_requiredWeeklySlots d - scheduled_slots entries (key_of_demand d)) 0)
        (reconcileStatus d (scheduled_slots entries (key_of_demand d))))"
    by (auto simp: reconcile_map Let_def)
  have trunc: "CanonicalTimetableDemand.truncate r = d"
    by (cases d) (simp add: r CanonicalTimetableDemand.defs ReconciledTimetableDemand.defs)
  show ?thesis
    unfolding trunc using d
    by (simp add: r CanonicalTimetableDemand.defs ReconciledTimetableDemand.defs reconcileStatus_def)
qed

theorem reconcile_exact_witness:
  "dm_scheduledWeeklySlots (hd (reconcileCanonicalTimetableDemand
      [demand_of [] \<lparr>sa_id = ''sa'', sa_schoolId = ''s'', sa_academicYearId = ''y'', sa_termId = ''t'',
         sa_gradeId = ''g'', sa_subjectId = ''math'', sa_weeklyHours = 4, sa_deletedAt = None\<rparr>
       \<lparr>class_id = ''c1'', class_schoolId = ''s'', class_sectionId = ''x'', class_section_gradeId = ''g''\<rparr>]
      [example_slot ''1'' ''c1'' ''u'' ''08:00'' ''08:45''])) = 1"
proof -
  let ?d = "demand_of [] \<lparr>sa_id = ''sa'', sa_schoolId = ''s'', sa_academicYearId = ''y'', sa_termId = ''t'',
      sa_gradeId = ''g'', sa_subjectId = ''math'', sa_weeklyHours = 4, sa_deletedAt = None\<rparr>
    \<lparr>class_id = ''c1'', class_schoolId = ''s'', class_sectionId = ''x'', class_section_gradeId = ''g''\<rparr>"
  let ?es = "[example_slot ''1'' ''c1'' ''u'' ''08:00'' ''08:45'']"
  let ?r = "hd (reconcileCanonicalTimetableDemand [?d] ?es)"
  have "?r \<in> set (reconcileCanonicalTimetableDemand [?d] ?es)"
    by (rule hd_in_set) (simp add: reconcile_map)
  from reconcile_exact [OF this] have "dm_scheduledWeeklySlots ?r = scheduled_slots ?es (key_of_demand ?r)"
    by blast
  also have "\<dots> = 1" by code_simp
  finally show ?thesis .
qed

end
