(* ===== verification/Timetable_Generator.thy ===== *)
theory Timetable_Generator
  imports Timetable_Demand
begin

text \<open>
  The timetable generator (\<open>timetable-generator.ts\<close>): a depth-first branch-and-bound search that
  places the remaining weekly slots of every demand on active days and instructional periods, under
  a node budget. The search state (\<open>searchNodesVisited\<close>, \<open>searchBudgetExhausted\<close>,
  \<open>bestProposals\<close>) is passed explicitly; exceptions come from the time ranges it parses.
\<close>

section \<open>Data\<close>

definition MAX_TIMETABLE_GENERATION_SEARCH_NODES :: int where
  "MAX_TIMETABLE_GENERATION_SEARCH_NODES = 50000"

datatype TimetableGenerationUnresolvedCode =
  Missing_teacher_allocation | No_feasible_slot | Existing_over_scheduled | Search_budget_exhausted

fun unresolved_code_name :: "TimetableGenerationUnresolvedCode \<Rightarrow> string" where
  "unresolved_code_name Missing_teacher_allocation = ''missing_teacher_allocation''"
| "unresolved_code_name No_feasible_slot = ''no_feasible_slot''"
| "unresolved_code_name Existing_over_scheduled = ''existing_over_scheduled''"
| "unresolved_code_name Search_budget_exhausted = ''search_budget_exhausted''"

record TimetableGenerationUnresolved =
  un_code :: TimetableGenerationUnresolvedCode
  un_classroomId :: "string option"
  un_subjectId :: "string option"
  un_requiredWeeklySlots :: "int option"
  un_scheduledWeeklySlots :: "int option"
  un_remainingWeeklySlots :: int

record TimetableGenerationProposal =
  pr_proposedIndex :: int
  pr_schoolId :: string
  pr_academicYearId :: string
  pr_termId :: string
  pr_timetableConfigId :: string
  pr_periodId :: string
  pr_dayOfWeek :: int
  pr_gradeId :: string
  pr_sectionId :: string
  pr_classroomId :: string
  pr_subjectId :: string
  pr_teacherUserId :: string
  pr_teacherSubjectAllocationId :: string
  pr_roomId :: unit
  pr_period :: TimetablePeriodRecord

record TimetableGenerationPlan =
  plan_proposals :: "TimetableGenerationProposal list"
  plan_unresolved :: "TimetableGenerationUnresolved list"
  plan_searchNodesVisited :: int
  plan_searchBudgetExhausted :: bool

record GenerationTask =
  task_demand :: ReconciledTimetableDemand
  task_unitIndex :: int
  task_candidates :: "TimetableGenerationProposal list"

record SearchState =
  searchNodesVisited :: int
  searchBudgetExhausted :: bool
  bestProposals :: "TimetableGenerationProposal list"

abbreviation key_of_proposal :: "TimetableGenerationProposal \<Rightarrow> string" where
  "key_of_proposal p \<equiv>
     canonicalTimetableDemandKey (pr_schoolId p) (pr_termId p) (pr_classroomId p) (pr_subjectId p)"

abbreviation key_of_task :: "GenerationTask \<Rightarrow> string" where
  "key_of_task t \<equiv>
     canonicalTimetableDemandKey (dm_schoolId (task_demand t)) (dm_termId (task_demand t))
       (dm_classroomId (task_demand t)) (dm_subjectId (task_demand t))"

section \<open>Helpers\<close>

definition proposalToConflictSource ::
  "TimetableGenerationProposal \<Rightarrow> TimetableIntervalConflictSource" where
  "proposalToConflictSource proposal =
     \<lparr>identity = js_join '':''
        [''proposed'', pr_classroomId proposal, pr_subjectId proposal,
         int_to_string (pr_dayOfWeek proposal), pr_periodId proposal,
         pr_teacherSubjectAllocationId proposal, int_to_string (pr_proposedIndex proposal)],
      src_schoolId = pr_schoolId proposal,
      src_termId = pr_termId proposal,
      src_timetableConfigId = pr_timetableConfigId proposal,
      src_entryId = None,
      src_proposedIndex = Some (pr_proposedIndex proposal),
      src_classroomId = pr_classroomId proposal,
      src_teacherUserId = pr_teacherUserId proposal,
      src_roomId = None,
      src_dayOfWeek = pr_dayOfWeek proposal,
      src_periodId = pr_periodId proposal,
      src_startTime = period_startTime (pr_period proposal),
      src_endTime = period_endTime (pr_period proposal)\<rparr>"

definition relevant_source ::
  "TimetableIntervalConflictSource \<Rightarrow> TimetableIntervalConflictSource \<Rightarrow> bool" where
  "relevant_source candidate source \<longleftrightarrow>
     src_schoolId source = src_schoolId candidate \<and>
     src_termId source = src_termId candidate \<and>
     src_dayOfWeek source = src_dayOfWeek candidate \<and>
     (src_classroomId source = src_classroomId candidate \<or>
      src_teacherUserId source = src_teacherUserId candidate \<or>
      src_roomId candidate \<noteq> None \<and> src_roomId source = src_roomId candidate)"

definition candidateConflicts ::
  "(string \<Rightarrow> string \<Rightarrow> int) \<Rightarrow> TimetableIntervalConflictSource \<Rightarrow>
   TimetableIntervalConflictSource list \<Rightarrow> bool result" where
  "candidateConflicts lc candidate fixedSources =
     (let relevantSources = filter (relevant_source candidate) fixedSources
      in andThen (findTimetableIntervalConflicts lc (candidate # relevantSources))
           (\<lambda>conflicts. Inr (list_ex (\<lambda>conflict.
              identity (pair_first conflict) = identity candidate \<or>
              identity (pair_second conflict) = identity candidate) conflicts)))"

definition compareGenerationTasks ::
  "(string \<Rightarrow> string \<Rightarrow> int) \<Rightarrow> GenerationTask \<Rightarrow> GenerationTask \<Rightarrow> int" where
  "compareGenerationTasks lc left right =
     cmp_or (int (length (dm_teacherSubjectAllocationIds (task_demand left))) -
             int (length (dm_teacherSubjectAllocationIds (task_demand right))))
    (cmp_or (int (length (task_candidates left)) - int (length (task_candidates right)))
    (cmp_or (dm_remainingWeeklySlots (task_demand right) - dm_remainingWeeklySlots (task_demand left))
    (cmp_or (lc (dm_classroomId (task_demand left)) (dm_classroomId (task_demand right)))
    (cmp_or (lc (dm_subjectId (task_demand left)) (dm_subjectId (task_demand right)))
       (task_unitIndex left - task_unitIndex right)))))"

definition compareCandidates ::
  "(string \<Rightarrow> string \<Rightarrow> int) \<Rightarrow> (string, int) js_map \<Rightarrow> (string, int) js_map \<Rightarrow>
   TimetableGenerationProposal \<Rightarrow> TimetableGenerationProposal \<Rightarrow> int" where
  "compareCandidates lc existingWorkload proposalWorkload left right =
     (let leftWorkload = get_or existingWorkload (pr_teacherUserId left) 0 +
                         get_or proposalWorkload (pr_teacherUserId left) 0;
          rightWorkload = get_or existingWorkload (pr_teacherUserId right) 0 +
                          get_or proposalWorkload (pr_teacherUserId right) 0
      in cmp_or (leftWorkload - rightWorkload)
        (cmp_or (lc (pr_teacherUserId left) (pr_teacherUserId right))
        (cmp_or (lc (pr_teacherSubjectAllocationId left) (pr_teacherSubjectAllocationId right))
        (cmp_or (pr_dayOfWeek left - pr_dayOfWeek right)
        (cmp_or (period_periodIndex (pr_period left) - period_periodIndex (pr_period right))
           (lc (pr_periodId left) (pr_periodId right)))))))"

definition compareDemandIdentity ::
  "(string \<Rightarrow> string \<Rightarrow> int) \<Rightarrow> ReconciledTimetableDemand \<Rightarrow> ReconciledTimetableDemand \<Rightarrow> int" where
  "compareDemandIdentity lc left right =
     cmp_or (lc (dm_classroomId left) (dm_classroomId right))
       (lc (dm_subjectId left) (dm_subjectId right))"

definition unresolvedFor ::
  "ReconciledTimetableDemand \<Rightarrow> TimetableGenerationUnresolvedCode \<Rightarrow> int \<Rightarrow>
   TimetableGenerationUnresolved" where
  "unresolvedFor demand code remainingWeeklySlots =
     \<lparr>un_code = code,
      un_classroomId = Some (dm_classroomId demand),
      un_subjectId = Some (dm_subjectId demand),
      un_requiredWeeklySlots = Some (dm_requiredWeeklySlots demand),
      un_scheduledWeeklySlots = Some (dm_scheduledWeeklySlots demand),
      un_remainingWeeklySlots = remainingWeeklySlots\<rparr>"

definition budgetExhaustedPlan :: "int \<Rightarrow> TimetableGenerationPlan" where
  "budgetExhaustedPlan nodes =
     \<lparr>plan_proposals = [],
      plan_unresolved =
        [\<lparr>un_code = Search_budget_exhausted, un_classroomId = None, un_subjectId = None,
          un_requiredWeeklySlots = None, un_scheduledWeeklySlots = None,
          un_remainingWeeklySlots = 0\<rparr>],
      plan_searchNodesVisited = nodes,
      plan_searchBudgetExhausted = True\<rparr>"

definition str_or_empty :: "string option \<Rightarrow> string" where
  "str_or_empty v = (case v of None \<Rightarrow> [] | Some s \<Rightarrow> s)"

definition compareUnresolved ::
  "(string \<Rightarrow> string \<Rightarrow> int) \<Rightarrow> TimetableGenerationUnresolved \<Rightarrow> TimetableGenerationUnresolved \<Rightarrow> int" where
  "compareUnresolved lc left right =
     cmp_or (lc (unresolved_code_name (un_code left)) (unresolved_code_name (un_code right)))
    (cmp_or (lc (str_or_empty (un_classroomId left)) (str_or_empty (un_classroomId right)))
       (lc (str_or_empty (un_subjectId left)) (str_or_empty (un_subjectId right))))"

definition uniqueDemandTasks ::
  "(string \<Rightarrow> string \<Rightarrow> int) \<Rightarrow> GenerationTask list \<Rightarrow> GenerationTask list" where
  "uniqueDemandTasks lc tasks =
     js_sort (\<lambda>l r. compareDemandIdentity lc (task_demand l) (task_demand r))
       (jm_values (jm_of_entries (map (\<lambda>task. (key_of_task task, task)) tasks)))"

definition countBy :: "('a \<Rightarrow> string) \<Rightarrow> 'a list \<Rightarrow> (string, int) js_map" where
  "countBy keyFor items = count_by keyFor items"

section \<open>Candidates and tasks\<close>

definition candidate_for ::
  "string \<Rightarrow> ReconciledTimetableDemand \<Rightarrow> TimetableTeacherAllocationRecord \<Rightarrow> int \<Rightarrow>
   TimetablePeriodRecord \<Rightarrow> TimetableGenerationProposal" where
  "candidate_for timetableConfigId demand allocation dayOfWeek period =
     \<lparr>pr_proposedIndex = 0,
      pr_schoolId = dm_schoolId demand,
      pr_academicYearId = dm_academicYearId demand,
      pr_termId = dm_termId demand,
      pr_timetableConfigId = timetableConfigId,
      pr_periodId = period_id period,
      pr_dayOfWeek = dayOfWeek,
      pr_gradeId = dm_gradeId demand,
      pr_sectionId = class_sectionId (dm_classroom demand),
      pr_classroomId = dm_classroomId demand,
      pr_subjectId = dm_subjectId demand,
      pr_teacherUserId = ta_teacherUserId allocation,
      pr_teacherSubjectAllocationId = ta_id allocation,
      pr_roomId = (),
      pr_period = period\<rparr>"

definition allocation_serves_demand ::
  "ReconciledTimetableDemand \<Rightarrow> TimetableTeacherAllocationRecord \<Rightarrow> bool" where
  "allocation_serves_demand demand allocation \<longleftrightarrow>
     ta_schoolId allocation = dm_schoolId demand \<and>
     ta_termId allocation = dm_termId demand \<and>
     ta_classroomId allocation = dm_classroomId demand \<and>
     ta_subjectId allocation = dm_subjectId demand"

text \<open>The three nested loops, before the conflict test of their body.\<close>

definition raw_candidates ::
  "string \<Rightarrow> int list \<Rightarrow> ReconciledTimetableDemand \<Rightarrow> TimetablePeriodRecord list \<Rightarrow>
   (string, TimetableTeacherAllocationRecord) js_map \<Rightarrow> TimetableGenerationProposal list" where
  "raw_candidates timetableConfigId activeDays demand periods allocationsById =
     concat (map (\<lambda>allocationId.
       case jm_get allocationsById allocationId of
         None \<Rightarrow> []
       | Some allocation \<Rightarrow>
           if \<not> allocation_serves_demand demand allocation then []
           else concat (map (\<lambda>dayOfWeek.
                  map (candidate_for timetableConfigId demand allocation dayOfWeek) periods)
                activeDays))
       (js_sort string_compare (dm_teacherSubjectAllocationIds demand)))"

definition not_conflicting ::
  "(string \<Rightarrow> string \<Rightarrow> int) \<Rightarrow> TimetableIntervalConflictSource list \<Rightarrow>
   TimetableGenerationProposal \<Rightarrow> bool result" where
  "not_conflicting lc fixedSources candidate =
     andThen (candidateConflicts lc (proposalToConflictSource candidate) fixedSources)
       (\<lambda>b. Inr (\<not> b))"

definition buildDemandCandidates ::
  "(string \<Rightarrow> string \<Rightarrow> int) \<Rightarrow> string \<Rightarrow> int list \<Rightarrow> ReconciledTimetableDemand \<Rightarrow>
   TimetablePeriodRecord list \<Rightarrow> (string, TimetableTeacherAllocationRecord) js_map \<Rightarrow>
   TimetableIntervalConflictSource list \<Rightarrow> (string, int) js_map \<Rightarrow>
   TimetableGenerationProposal list result" where
  "buildDemandCandidates lc timetableConfigId activeDays demand periods allocationsById
       existingSources existingTeacherWorkload =
     andThen
       (filterR (not_conflicting lc existingSources)
          (raw_candidates timetableConfigId activeDays demand periods allocationsById))
       (\<lambda>candidates. Inr (js_sort (compareCandidates lc existingTeacherWorkload []) candidates))"

text \<open>The loop over the sorted demand: the entries it pushes onto \<open>unresolved\<close> and \<open>tasks\<close>.
  \<open>candidatesOf\<close> is the call of \<open>buildDemandCandidates\<close>.\<close>

fun demand_loop ::
  "(ReconciledTimetableDemand \<Rightarrow> TimetableGenerationProposal list result) \<Rightarrow>
   ReconciledTimetableDemand list \<Rightarrow>
   (TimetableGenerationUnresolved list \<times> GenerationTask list) result" where
  "demand_loop candidatesOf [] = Inr ([], [])"
| "demand_loop candidatesOf (demand # ds) =
     (if dm_scheduledWeeklySlots demand > dm_requiredWeeklySlots demand then
        andThen (demand_loop candidatesOf ds) (\<lambda>(unresolved, tasks).
          Inr (unresolvedFor demand Existing_over_scheduled 0 # unresolved, tasks))
      else if length (dm_teacherSubjectAllocationIds demand) = 0 then
        andThen (demand_loop candidatesOf ds) (\<lambda>(unresolved, tasks).
          Inr (unresolvedFor demand Missing_teacher_allocation (dm_remainingWeeklySlots demand)
                 # unresolved, tasks))
      else if dm_remainingWeeklySlots demand = 0 then demand_loop candidatesOf ds
      else
        andThen (candidatesOf demand) (\<lambda>candidates.
        andThen (demand_loop candidatesOf ds) (\<lambda>(unresolved, tasks).
          Inr (unresolved,
               map (\<lambda>unitIndex. \<lparr>task_demand = demand, task_unitIndex = unitIndex,
                                 task_candidates = candidates\<rparr>)
                 (map int [0..<nat (dm_remainingWeeklySlots demand)]) @ tasks))))"

section \<open>Search\<close>

text \<open>\<open>for (const candidate of candidates) \{ body; if (stop) return; \}\<close>: the flag tells the caller
  that the loop returned.\<close>

fun for_candidates ::
  "('c \<Rightarrow> 's \<Rightarrow> 's result) \<Rightarrow> ('s \<Rightarrow> bool) \<Rightarrow> 'c list \<Rightarrow> 's \<Rightarrow> (bool \<times> 's) result" where
  "for_candidates body stop [] st = Inr (False, st)"
| "for_candidates body stop (c # cs) st =
     andThen (body c st) (\<lambda>st'. if stop st' then Inr (True, st') else for_candidates body stop cs st')"

definition search_done :: "nat \<Rightarrow> SearchState \<Rightarrow> bool" where
  "search_done taskCount st \<longleftrightarrow> length (bestProposals st) = taskCount \<or> searchBudgetExhausted st"

definition visit :: "SearchState \<Rightarrow> SearchState" where
  "visit st = st\<lparr>searchNodesVisited := searchNodesVisited st + 1\<rparr>"

definition place ::
  "TimetableGenerationProposal \<Rightarrow> TimetableGenerationProposal list \<Rightarrow> TimetableGenerationProposal list" where
  "place candidate proposals = proposals @ [candidate\<lparr>pr_proposedIndex := int (length proposals)\<rparr>]"

text \<open>The recursive closure \<open>search\<close>. The index \<open>taskIndex\<close> is represented by the tasks that are
  still to place (\<open>tasks.slice(taskIndex)\<close>), and \<open>taskCount\<close> is \<open>tasks.length\<close>.\<close>

primrec search ::
  "(string \<Rightarrow> string \<Rightarrow> int) \<Rightarrow> int \<Rightarrow> TimetableIntervalConflictSource list \<Rightarrow> (string, int) js_map \<Rightarrow>
   nat \<Rightarrow> GenerationTask list \<Rightarrow> TimetableGenerationProposal list \<Rightarrow>
   TimetableIntervalConflictSource list \<Rightarrow> SearchState \<Rightarrow> SearchState result" where
  "search lc budget existingSources existingTeacherWorkload taskCount [] proposals proposalSources st =
     (if search_done taskCount st then Inr st
      else if searchNodesVisited st \<ge> budget then Inr (st\<lparr>searchBudgetExhausted := True\<rparr>)
      else
        let st1 = visit st
        in Inr (if length proposals > length (bestProposals st1)
                then st1\<lparr>bestProposals := proposals\<rparr> else st1))"
| "search lc budget existingSources existingTeacherWorkload taskCount (task # rest)
       proposals proposalSources st =
     (if search_done taskCount st then Inr st
      else if searchNodesVisited st \<ge> budget then Inr (st\<lparr>searchBudgetExhausted := True\<rparr>)
      else
        let st1 = visit st
        in if length proposals + length (task # rest) \<le> length (bestProposals st1) then Inr st1
           else
             let proposalWorkload = countBy src_teacherUserId proposalSources
             in andThen
                  (filterR (not_conflicting lc (existingSources @ proposalSources))
                     (task_candidates task)) (\<lambda>feasible.
                let candidates =
                      js_sort (compareCandidates lc existingTeacherWorkload proposalWorkload) feasible
                in andThen
                     (for_candidates
                        (\<lambda>candidate st2.
                           search lc budget existingSources existingTeacherWorkload taskCount rest
                             (place candidate proposals)
                             (proposalSources @
                                [proposalToConflictSource
                                   (candidate\<lparr>pr_proposedIndex := int (length proposals)\<rparr>)])
                             st2)
                        (search_done taskCount) candidates st1) (\<lambda>(returned, st3).
                   if returned then Inr st3
                   else search lc budget existingSources existingTeacherWorkload taskCount rest
                          proposals proposalSources st3)))"

section \<open>The plan\<close>

record GenerationInput =
  in_timetableConfigId :: string
  in_activeDays :: "int list"
  in_demand :: "ReconciledTimetableDemand list"
  in_periods :: "TimetablePeriodRecord list"
  in_teacherAllocations :: "TimetableTeacherAllocationRecord list"
  in_existingTermEntries :: "TimetableEntryRecord list"
  in_searchNodeBudget :: "int option"

definition generation_periods ::
  "(string \<Rightarrow> string \<Rightarrow> int) \<Rightarrow> GenerationInput \<Rightarrow> TimetablePeriodRecord list result" where
  "generation_periods lc input =
     andThen
       (mapR (\<lambda>period.
          andThen (validateTimetableTimeRange (period_startTime period) (period_endTime period))
            (\<lambda>_. Inr period))
          (filter (\<lambda>period. period_timetableConfigId period = in_timetableConfigId input \<and>
                            period_isInstructional period) (in_periods input)))
       (\<lambda>periods. Inr (js_sort (\<lambda>left right.
          cmp_or (period_periodIndex left - period_periodIndex right)
            (lc (period_id left) (period_id right))) periods))"

definition no_feasible_slot_unresolved ::
  "(string, int) js_map \<Rightarrow> GenerationTask list \<Rightarrow> TimetableGenerationUnresolved list" where
  "no_feasible_slot_unresolved plannedByDemand taskGroups =
     concat (map (\<lambda>taskGroup.
       let planned = get_or plannedByDemand (key_of_task taskGroup) 0;
           remaining = dm_remainingWeeklySlots (task_demand taskGroup)
       in if planned < remaining
          then [unresolvedFor (task_demand taskGroup) No_feasible_slot (remaining - planned)]
          else []) taskGroups)"

definition generation_tasks ::
  "(string \<Rightarrow> string \<Rightarrow> int) \<Rightarrow> GenerationInput \<Rightarrow>
   (TimetableGenerationUnresolved list \<times> GenerationTask list) result" where
  "generation_tasks lc input =
     andThen (generation_periods lc input) (\<lambda>periods.
       let activeDays = js_sort (\<lambda>left right. left - right) (js_unique (in_activeDays input));
           allocationsById = jm_of_entries (map (\<lambda>a. (ta_id a, a)) (in_teacherAllocations input));
           existingSources = active_sources (in_existingTermEntries input);
           existingTeacherWorkload = countBy src_teacherUserId existingSources
       in andThen
            (demand_loop
               (\<lambda>demand. buildDemandCandidates lc (in_timetableConfigId input) activeDays demand
                  periods allocationsById existingSources existingTeacherWorkload)
               (js_sort (compareDemandIdentity lc) (in_demand input))) (\<lambda>(unresolved, tasks).
            Inr (unresolved, js_sort (compareGenerationTasks lc) tasks)))"

definition reindexed :: "TimetableGenerationProposal list \<Rightarrow> TimetableGenerationProposal list" where
  "reindexed proposals =
     map (\<lambda>(i, p). p\<lparr>pr_proposedIndex := int i\<rparr>) (List.enumerate 0 proposals)"

definition initial_search :: SearchState where
  "initial_search = \<lparr>searchNodesVisited = 0, searchBudgetExhausted = False, bestProposals = []\<rparr>"

definition buildTimetableGenerationPlan ::
  "(string \<Rightarrow> string \<Rightarrow> int) \<Rightarrow> GenerationInput \<Rightarrow> TimetableGenerationPlan result" where
  "buildTimetableGenerationPlan lc input =
     (let searchNodeBudget = (case in_searchNodeBudget input of
            None \<Rightarrow> MAX_TIMETABLE_GENERATION_SEARCH_NODES | Some n \<Rightarrow> n)
      in andThen (generation_tasks lc input) (\<lambda>(unresolved, tasks).
         if int (length tasks) > searchNodeBudget
         then Inr (budgetExhaustedPlan searchNodeBudget)
         else
           let existingSources = active_sources (in_existingTermEntries input)
           in andThen
                (search lc searchNodeBudget existingSources
                   (countBy src_teacherUserId existingSources) (length tasks) tasks [] []
                   initial_search) (\<lambda>st.
              if searchBudgetExhausted st \<and> length (bestProposals st) \<noteq> length tasks
              then Inr (budgetExhaustedPlan (searchNodesVisited st))
              else
                let plannedByDemand = countBy key_of_proposal (bestProposals st)
                in Inr \<lparr>plan_proposals = reindexed (bestProposals st),
                        plan_unresolved =
                          js_sort (compareUnresolved lc)
                            (unresolved @
                             no_feasible_slot_unresolved plannedByDemand (uniqueDemandTasks lc tasks)),
                        plan_searchNodesVisited = searchNodesVisited st,
                        plan_searchBudgetExhausted = False\<rparr>)))"

section \<open>Conflicts of a candidate\<close>

lemma identity_proposal: "\<exists>r. identity (proposalToConflictSource p) = ''proposed:'' @ r"
  by (simp add: proposalToConflictSource_def)

lemma clash_proposedIndex [simp]:
  "clash (proposalToConflictSource (p\<lparr>pr_proposedIndex := i\<rparr>)) s \<longleftrightarrow> clash (proposalToConflictSource p) s"
  "clash s (proposalToConflictSource (p\<lparr>pr_proposedIndex := i\<rparr>)) \<longleftrightarrow> clash s (proposalToConflictSource p)"
  by (simp_all add: clash_def clash_of_def same_slot_def source_range_def proposalToConflictSource_def)

lemma clash_relevant: "clash c s \<Longrightarrow> relevant_source c s"
  by (auto simp: clash_def clash_of_def same_slot_def relevant_source_def truthy_def
      split: option.splits)

lemma candidateConflicts_False:
  assumes "candidateConflicts lc c fixed = Inr False" "s \<in> set fixed"
  shows "\<not> clash c s"
proof
  assume cl: "clash c s"
  let ?rel = "filter (relevant_source c) fixed"
  from assms(1) obtain ps where ps: "findTimetableIntervalConflicts lc (c # ?rel) = Inr ps"
    and none: "\<forall>p \<in> set ps. identity (pair_first p) \<noteq> identity c \<and> identity (pair_second p) \<noteq> identity c"
    by (auto simp: candidateConflicts_def Let_def andThen_eq_Inr list_ex_iff)
  from cl obtain k where k: "clash_of k c s" by (auto simp: clash_iff)
  have "s \<in> set ?rel" using assms(2) clash_relevant [OF cl] by simp
  then have "{#c, s#} \<subseteq># mset (c # ?rel)"
    by (simp only: mset.simps mset_subset_eq_add_mset_cancel) (simp add: mset_subset_eq_single)
  with find_conflicts_iff [OF ps, of k c s] k obtain p where
    "p \<in> set ps" "{#pair_first p, pair_second p#} = {#c, s#}" by auto
  with none show False by (metis pair_mset_eq)
qed

lemma candidateConflicts_True:
  assumes "candidateConflicts lc c fixed = Inr True"
    and others: "\<And>s s'. {#s, s'#} \<subseteq># mset fixed \<Longrightarrow> clash s s' \<Longrightarrow> identity s \<noteq> identity c"
  shows "\<exists>s \<in> set fixed. clash c s"
proof -
  let ?rel = "filter (relevant_source c) fixed"
  from assms(1) obtain ps p where ps: "findTimetableIntervalConflicts lc (c # ?rel) = Inr ps"
    and p: "p \<in> set ps" "identity (pair_first p) = identity c \<or> identity (pair_second p) = identity c"
    by (auto simp: candidateConflicts_def Let_def andThen_eq_Inr list_ex_iff)
  define a b where "a = pair_first p" and "b = pair_second p"
  have sub: "{#a, b#} \<subseteq># add_mset c (mset ?rel)" and kl: "clash_of (pair_kind p) a b"
    using find_conflicts_iff [OF ps, of "pair_kind p" a b] p(1) by (auto simp: a_def b_def)
  have ab: "clash a b" "clash b a" using kl clash_sym by (auto simp: clash_iff)
  have "\<not> {#a, b#} \<subseteq># mset ?rel"
  proof
    assume "{#a, b#} \<subseteq># mset ?rel"
    then have "{#a, b#} \<subseteq># mset fixed" "{#b, a#} \<subseteq># mset fixed"
      by (metis add_mset_commute mset_filter multiset_filter_subset subset_mset.order_trans)+
    with others ab p(2) show False by (auto simp: a_def b_def)
  qed
  then have "c \<in># {#a, b#}"
    using sub by (metis add_mset_add_single diff_single_trivial subset_eq_diff_conv)
  then consider "a = c" | "b = c" by auto
  then show ?thesis
  proof cases
    case 1
    with sub have "b \<in> set ?rel" by (simp add: mset_subset_eq_single)
    with 1 ab show ?thesis by auto
  next
    case 2
    with sub have "{#a#} \<subseteq># mset ?rel" by (simp add: add_mset_commute [of a b])
    with 2 ab show ?thesis by auto
  qed
qed

lemma candidateConflicts_total:
  assumes "\<exists>r. source_range c = Inr r" "\<forall>s \<in> set fixed. \<exists>r. source_range s = Inr r"
  shows "\<exists>b. candidateConflicts lc c fixed = Inr b"
proof -
  have "\<exists>ps. findTimetableIntervalConflicts lc (c # filter (relevant_source c) fixed) = Inr ps"
    unfolding find_conflicts_total using assms by auto
  then show ?thesis by (auto simp: candidateConflicts_def)
qed

section \<open>Search space\<close>

text \<open>\<open>feasible\<close>: no proposal meets an existing source or an earlier proposal.\<close>

definition feasible ::
  "TimetableIntervalConflictSource list \<Rightarrow> TimetableGenerationProposal list \<Rightarrow> bool" where
  "feasible existing ps \<longleftrightarrow>
     (\<forall>p \<in> set ps. \<forall>s \<in> set existing. \<not> clash (proposalToConflictSource p) s) \<and>
     sorted_wrt (\<lambda>p q. \<not> clash (proposalToConflictSource p) (proposalToConflictSource q)) ps"

text \<open>\<open>completion tasks ps qs\<close>: \<open>qs\<close> extends \<open>ps\<close> by giving each of the tasks, in order, one of
  its candidates or nothing. This is the search space.\<close>

inductive completion ::
  "GenerationTask list \<Rightarrow> TimetableGenerationProposal list \<Rightarrow> TimetableGenerationProposal list \<Rightarrow> bool" where
  completion_done: "completion [] ps ps"
| completion_skip: "completion rest ps qs \<Longrightarrow> completion (task # rest) ps qs"
| completion_place: "c \<in> set (task_candidates task) \<Longrightarrow> completion rest (place c ps) qs \<Longrightarrow>
    completion (task # rest) ps qs"

inductive_cases completion_NilE: "completion [] ps qs"
inductive_cases completion_ConsE: "completion (task # rest) ps qs"

lemma length_place [simp]: "length (place c ps) = Suc (length ps)"
  by (simp add: place_def)

lemma completion_prefix: "completion ts ps qs \<Longrightarrow> \<exists>rs. qs = ps @ rs"
  by (induction rule: completion.induct) (auto simp: place_def)

lemma completion_length: "completion ts ps qs \<Longrightarrow> length qs \<le> length ps + length ts"
  by (induction rule: completion.induct) auto

lemma feasible_append: "feasible ex (ps @ rs) \<Longrightarrow> feasible ex ps"
  by (auto simp: feasible_def sorted_wrt_append)

lemma feasible_place:
  "feasible ex (place c ps) \<longleftrightarrow>
     feasible ex ps \<and> (\<forall>s \<in> set (ex @ map proposalToConflictSource ps). \<not> clash (proposalToConflictSource c) s)"
  using clash_sym by (auto simp: feasible_def place_def sorted_wrt_append)

lemma completion_feasible: "completion ts ps qs \<Longrightarrow> feasible ex qs \<Longrightarrow> feasible ex ps"
  using completion_prefix feasible_append by blast

definition entry_sources :: "TimetableIntervalConflictSource list \<Rightarrow> bool" where
  "entry_sources ex \<longleftrightarrow> (\<forall>s \<in> set ex. \<exists>r. identity s = ''entry:'' @ r)"

lemma entry_sources_active [simp]: "entry_sources (active_sources entries)"
  by (auto simp: entry_sources_def active_sources_def timetableEntryToConflictSource_def)

lemma sorted_wrt_pair_mset:
  assumes "sorted_wrt R xs" "{#a, b#} \<subseteq># mset xs"
  shows "R a b \<or> R b a"
  using assms unfolding pair_in_mset_split by (auto simp: sorted_wrt_append)

lemma clash_in_feasible:
  assumes "feasible ex ps" "{#s, s'#} \<subseteq># mset (ex @ map proposalToConflictSource ps)" "clash s s'"
  shows "s \<in> set ex"
proof (rule ccontr)
  let ?ps = "map proposalToConflictSource ps" and ?new = "\<lambda>x. x \<notin> set ex"
  assume s: "s \<notin> set ex"
  have "sorted_wrt (\<lambda>a b. \<not> clash a b) ?ps"
    using assms(1) by (simp add: feasible_def sorted_wrt_map)
  then have np: "\<not> {#s, s'#} \<subseteq># mset ?ps"
    using sorted_wrt_pair_mset [of _ ?ps s s'] assms(3) clash_sym [of s s'] by auto
  have "s \<in># mset (ex @ ?ps)"
    using assms(2) by (rule mset_subset_eqD) simp
  then have "s \<in> proposalToConflictSource ` set ps" using s by auto
  then have s': "s' \<notin> set ex"
    using assms(1,3) unfolding feasible_def by blast
  have "filter_mset ?new {#s, s'#} \<subseteq># filter_mset ?new (mset (ex @ ?ps))"
    by (rule multiset_filter_mono [OF assms(2)])
  also have "filter_mset ?new (mset (ex @ ?ps)) = filter_mset ?new (mset ?ps)"
    by simp
  also have "\<dots> \<subseteq># mset ?ps" by (rule multiset_filter_subset)
  finally show False using np s s' by simp
qed

lemma not_conflicting_iff:
  assumes "entry_sources ex" "feasible ex ps"
    and "not_conflicting lc (ex @ map proposalToConflictSource ps) c = Inr b"
  shows "b \<longleftrightarrow> feasible ex (place c ps)"
proof -
  let ?c = "proposalToConflictSource c" and ?fixed = "ex @ map proposalToConflictSource ps"
  have cc: "candidateConflicts lc ?c ?fixed = Inr (\<not> b)"
    using assms(3) by (auto simp: not_conflicting_def andThen_eq_Inr)
  show ?thesis
  proof
    assume b
    with cc have "\<And>s. s \<in> set ?fixed \<Longrightarrow> \<not> clash ?c s"
      using candidateConflicts_False by simp
    then show "feasible ex (place c ps)" using assms(2) unfolding feasible_place by blast
  next
    assume fe: "feasible ex (place c ps)"
    show b
    proof (rule ccontr)
      assume "\<not> b"
      have "identity s \<noteq> identity ?c" if "{#s, s'#} \<subseteq># mset ?fixed" "clash s s'" for s s'
      proof -
        have "s \<in> set ex" using clash_in_feasible [OF assms(2) that] .
        then show ?thesis
          using assms(1) identity_proposal [of c] by (auto simp: entry_sources_def)
      qed
      then have "\<exists>s \<in> set ?fixed. clash ?c s"
        using candidateConflicts_True [of lc ?c ?fixed] cc \<open>\<not> b\<close> by simp
      with fe show False unfolding feasible_place by blast
    qed
  qed
qed

section \<open>Correctness of the search\<close>

text \<open>A relation between the states before and after that is reflexive, transitive and holds of
  every run of the body holds of the loop.\<close>

lemma for_candidates_rel:
  assumes "for_candidates body stop cs st = Inr (r, st')" "reflp R" "transp R"
    and "\<And>c s s'. c \<in> set cs \<Longrightarrow> body c s = Inr s' \<Longrightarrow> R s s'"
  shows "R st st'"
  using assms(1,4)
proof (induction cs arbitrary: st)
  case Nil
  then show ?case using reflpD [OF assms(2)] by simp
next
  case (Cons c cs)
  from Cons.prems(1) obtain s1 where s1: "body c st = Inr s1"
    and rest: "(if stop s1 then Inr (True, s1) else for_candidates body stop cs s1) = Inr (r, st')"
    by (auto simp: andThen_eq_Inr)
  have "R s1 st'"
  proof (cases "stop s1")
    case True
    then show ?thesis using rest reflpD [OF assms(2)] by simp
  next
    case False
    then have "for_candidates body stop cs s1 = Inr (r, st')" using rest by simp
    then show ?thesis by (rule Cons.IH) (rule Cons.prems(2), auto)
  qed
  moreover have "R st s1" by (rule Cons.prems(2) [OF _ s1]) simp
  ultimately show ?case using transpD [OF assms(3)] by blast
qed

text \<open>A loop that runs to its end ran the body on every candidate, and the state after each run is
  related to the final one.\<close>

lemma for_candidates_all:
  assumes "for_candidates body stop cs st = Inr (False, st')" "c \<in> set cs" "reflp R" "transp R"
    and "\<And>c s s'. c \<in> set cs \<Longrightarrow> body c s = Inr s' \<Longrightarrow> R s s'"
  shows "\<exists>s1 s2. body c s1 = Inr s2 \<and> R st s1 \<and> R s2 st'"
  using assms(1,2,5)
proof (induction cs arbitrary: st)
  case Nil
  then show ?case by simp
next
  case (Cons d cs)
  from Cons.prems(1) obtain s1 where s1: "body d st = Inr s1"
    and rest: "for_candidates body stop cs s1 = Inr (False, st')"
    by (auto simp: andThen_eq_Inr split: if_splits)
  have bodies: "R s s'" if "c \<in> set cs" "body c s = Inr s'" for c s s'
    by (rule Cons.prems(3) [OF _ that(2)]) (simp add: that(1))
  have d: "R st s1" by (rule Cons.prems(3) [OF _ s1]) simp
  show ?case
  proof (cases "c = d")
    case True
    have "R s1 st'" by (rule for_candidates_rel [OF rest assms(3,4) bodies])
    then show ?thesis using True s1 reflpD [OF assms(3)] by blast
  next
    case False
    then have "c \<in> set cs" using Cons.prems(2) by simp
    have "\<exists>t1 t2. body c t1 = Inr t2 \<and> R s1 t1 \<and> R t2 st'"
      by (rule Cons.IH [OF rest \<open>c \<in> set cs\<close>]) (rule bodies)
    then obtain t1 t2 where "body c t1 = Inr t2" "R s1 t1" "R t2 st'" by blast
    with d show ?thesis using transpD [OF assms(4)] by blast
  qed
qed

lemma for_candidates_stop: "for_candidates body stop cs st = Inr (r, st') \<Longrightarrow> r \<Longrightarrow> stop st'"
  by (induction cs arbitrary: st) (auto simp: andThen_eq_Inr split: if_splits)

text \<open>What a run of \<open>search\<close> does to the state, whatever the tasks: the best solution never gets
  shorter, the counter stays within the budget, and the exhausted flag is only raised there.\<close>

definition progress :: "int \<Rightarrow> SearchState \<Rightarrow> SearchState \<Rightarrow> bool" where
  "progress budget st st' \<longleftrightarrow>
     length (bestProposals st) \<le> length (bestProposals st') \<and>
     searchNodesVisited st \<le> searchNodesVisited st' \<and>
     (searchBudgetExhausted st \<longrightarrow> searchBudgetExhausted st') \<and>
     (searchNodesVisited st \<le> budget \<longrightarrow> searchNodesVisited st' \<le> budget) \<and>
     (searchBudgetExhausted st' \<longrightarrow> searchBudgetExhausted st \<or> budget \<le> searchNodesVisited st')"

lemma reflp_progress: "reflp (progress budget)"
  by (simp add: reflp_def progress_def)

lemma transp_progress: "transp (progress budget)"
  by (auto simp: transp_def progress_def)

lemmas progress_trans = transpD [OF transp_progress]

lemma progress_visit: "searchNodesVisited st < budget \<Longrightarrow> progress budget st (visit st)"
  by (simp add: progress_def visit_def)

lemma search_progress:
  "search lc budget ex w n ts ps srcs st = Inr st' \<Longrightarrow> progress budget st st'"
proof (induction ts arbitrary: ps srcs st st')
  case Nil
  then show ?case by (auto simp: progress_def visit_def Let_def split: if_splits)
next
  case (Cons t ts)
  show ?case
  proof (cases "search_done n st \<or> budget \<le> searchNodesVisited st \<or>
      length ps + length (t # ts) \<le> length (bestProposals st)")
    case True
    with Cons.prems show ?thesis by (auto simp: progress_def visit_def Let_def split: if_splits)
  next
    case False
    with Cons.prems obtain cs r st3 where
      loop: "for_candidates (\<lambda>c. search lc budget ex w n ts (place c ps)
          (srcs @ [proposalToConflictSource (c\<lparr>pr_proposedIndex := int (length ps)\<rparr>)]))
        (search_done n) cs (visit st) = Inr (r, st3)"
      and rest: "(if r then Inr st3 else search lc budget ex w n ts ps srcs st3) = Inr st'"
      by (auto simp: Let_def andThen_eq_Inr visit_def split: if_splits)
    have "progress budget st (visit st)" using False by (simp add: progress_visit)
    moreover have "progress budget (visit st) st3"
      by (rule for_candidates_rel [OF loop reflp_progress transp_progress]) (rule Cons.IH)
    moreover have "progress budget st3 st'"
      using rest Cons.IH reflpD [OF reflp_progress] by (auto split: if_splits)
    ultimately show ?thesis by (blast intro: progress_trans)
  qed
qed

text \<open>One unfolding of \<open>search\<close> past its guards: the loop over the candidates that keep the
  proposals feasible, then the run without a proposal for the task.\<close>

definition expands :: "int \<Rightarrow> nat \<Rightarrow> GenerationTask list \<Rightarrow> TimetableGenerationProposal list \<Rightarrow> SearchState \<Rightarrow> bool" where
  "expands budget n ts ps st \<longleftrightarrow>
     \<not> search_done n st \<and> searchNodesVisited st < budget \<and>
     length (bestProposals st) < length ps + length ts"

lemma search_expand:
  assumes run: "search lc budget ex w n (t # ts) ps (map proposalToConflictSource ps) st = Inr st'"
    and ex: "expands budget n (t # ts) ps st" and entries: "entry_sources ex" and fe: "feasible ex ps"
  obtains cs r st3 where
    "set cs = {c \<in> set (task_candidates t). feasible ex (place c ps)}"
    "for_candidates (\<lambda>c. search lc budget ex w n ts (place c ps)
       (map proposalToConflictSource (place c ps))) (search_done n) cs (visit st) = Inr (r, st3)"
    "if r then st' = st3
     else search lc budget ex w n ts ps (map proposalToConflictSource ps) st3 = Inr st'"
proof -
  let ?srcs = "map proposalToConflictSource ps"
  let ?cmp = "compareCandidates lc w (countBy src_teacherUserId ?srcs)"
  let ?body = "\<lambda>c. search lc budget ex w n ts (place c ps) (map proposalToConflictSource (place c ps))"
  have guards: "search_done n st = False" "(budget \<le> searchNodesVisited st) = False"
    "(length ps + length (t # ts) \<le> length (bestProposals (visit st))) = False"
    using ex by (simp_all add: expands_def visit_def)
  let ?rest = "\<lambda>(r, st3). if r then Inr st3 else search lc budget ex w n ts ps ?srcs st3"
  have unf: "search lc budget ex w n (t # ts) ps ?srcs st =
      andThen (filterR (not_conflicting lc (ex @ ?srcs)) (task_candidates t)) (\<lambda>fs.
      andThen (for_candidates ?body (search_done n) (js_sort ?cmp fs) (visit st)) ?rest)"
    unfolding search.simps Let_def guards if_False
    by (simp only: place_def map_append list.map)
  obtain fs where
    fs: "filterR (not_conflicting lc (ex @ ?srcs)) (task_candidates t) = Inr fs"
    and body: "andThen (for_candidates ?body (search_done n) (js_sort ?cmp fs) (visit st)) ?rest = Inr st'"
    using andThen_eq_Inr [THEN iffD1, OF trans [OF unf [symmetric] run]] by (elim exE conjE)
  obtain x where x: "for_candidates ?body (search_done n) (js_sort ?cmp fs) (visit st) = Inr x"
    and "?rest x = Inr st'"
    using andThen_eq_Inr [THEN iffD1, OF body] by (elim exE conjE)
  then obtain r st3 where
    loop: "for_candidates ?body (search_done n) (js_sort ?cmp fs) (visit st) = Inr (r, st3)"
    and rest: "(if r then Inr st3 else search lc budget ex w n ts ps ?srcs st3) = Inr st'"
    by (cases x) (simp only: prod.case)
  have "not_conflicting lc (ex @ ?srcs) c = Inr True \<longleftrightarrow> feasible ex (place c ps)"
    if c: "c \<in> set (task_candidates t)" for c
  proof -
    obtain b where b: "not_conflicting lc (ex @ ?srcs) c = Inr b"
      using bspec [OF conjunct2 [OF filterR_InrD [OF fs]] c] by (elim exE)
    with not_conflicting_iff [OF entries fe b] show ?thesis by simp
  qed
  then have fs': "set fs = {c \<in> set (task_candidates t). feasible ex (place c ps)}"
    using conjunct1 [OF filterR_InrD [OF fs]] by auto
  have rest': "if r then st' = st3 else search lc budget ex w n ts ps ?srcs st3 = Inr st'"
    using rest by (cases r) auto
  show ?thesis by (rule that [OF _ loop rest']) (simp only: set_js_sort fs')
qed

text \<open>Safety: the best solution is one of the search space and feasible.\<close>

lemma search_sound:
  assumes "search lc budget ex w n ts ps (map proposalToConflictSource ps) st = Inr st'"
    and "entry_sources ex" "feasible ex ps"
  shows "bestProposals st' = bestProposals st \<or>
    completion ts ps (bestProposals st') \<and> feasible ex (bestProposals st')"
  using assms(1,3)
proof (induction ts arbitrary: ps st st')
  case Nil
  then show ?case by (auto simp: visit_def Let_def intro: completion_done split: if_splits)
next
  case (Cons t ts)
  show ?case
  proof (cases "expands budget n (t # ts) ps st")
    case False
    then show ?thesis using Cons.prems(1)
      by (auto simp: expands_def visit_def Let_def split: if_splits)
  next
    case True
    from search_expand [OF Cons.prems(1) True assms(2) Cons.prems(2)] obtain cs r st3 where
      cs: "set cs = {c \<in> set (task_candidates t). feasible ex (place c ps)}"
      and loop: "for_candidates (\<lambda>c. search lc budget ex w n ts (place c ps)
        (map proposalToConflictSource (place c ps))) (search_done n) cs (visit st) = Inr (r, st3)"
      and rest: "if r then st' = st3
        else search lc budget ex w n ts ps (map proposalToConflictSource ps) st3 = Inr st'" .
    let ?R = "\<lambda>s s'. bestProposals s' = bestProposals s \<or>
      completion (t # ts) ps (bestProposals s') \<and> feasible ex (bestProposals s')"
    have "?R (visit st) st3"
    proof (rule for_candidates_rel [OF loop])
      show "reflp ?R" by (simp add: reflp_def)
      show "transp ?R" by (auto simp: transp_def)
      fix c s s'
      assume c: "c \<in> set cs"
        and "search lc budget ex w n ts (place c ps) (map proposalToConflictSource (place c ps)) s = Inr s'"
      then show "?R s s'" using Cons.IH [of "place c ps" s s'] cs by (auto intro: completion_place)
    qed
    moreover have "?R st3 st'"
    proof (cases r)
      case False
      with rest Cons.IH [of ps st3 st'] Cons.prems(2) show ?thesis by (auto intro: completion_skip)
    qed (use rest in simp)
    ultimately show ?thesis by (auto simp: visit_def)
  qed
qed

text \<open>Optimality: unless the budget runs out, no feasible member of the search space is longer.\<close>

lemma search_optimal:
  assumes "search lc budget ex w n ts ps (map proposalToConflictSource ps) st = Inr st'"
    and "entry_sources ex" and "\<not> searchBudgetExhausted st'"
    and "length ps + length ts \<le> n" and "completion ts ps qs" "feasible ex qs"
  shows "length qs \<le> length (bestProposals st')"
  using assms(1,3-)
proof (induction ts arbitrary: ps st st')
  case Nil
  then show ?case
    by (auto simp: search_done_def visit_def Let_def elim!: completion_NilE split: if_splits)
next
  case (Cons t ts)
  have fe: "feasible ex ps" using Cons.prems(4,5) completion_feasible by blast
  have len: "length qs \<le> length ps + length (t # ts)" using completion_length [OF Cons.prems(4)] .
  show ?case
  proof (cases "expands budget n (t # ts) ps st")
    case False
    then show ?thesis using Cons.prems(1-3) len
      by (auto simp: expands_def search_done_def visit_def Let_def split: if_splits)
  next
    case True
    from search_expand [OF Cons.prems(1) True assms(2) fe] obtain cs r st3 where
      cs: "set cs = {c \<in> set (task_candidates t). feasible ex (place c ps)}"
      and loop: "for_candidates (\<lambda>c. search lc budget ex w n ts (place c ps)
        (map proposalToConflictSource (place c ps))) (search_done n) cs (visit st) = Inr (r, st3)"
      and rest: "if r then st' = st3
        else search lc budget ex w n ts ps (map proposalToConflictSource ps) st3 = Inr st'" .
    show ?thesis
    proof (cases r)
      case True
      with loop have "search_done n st3" by (rule for_candidates_stop)
      then show ?thesis using True rest Cons.prems(2,3) len by (auto simp: search_done_def)
    next
      case False
      then have skip: "search lc budget ex w n ts ps (map proposalToConflictSource ps) st3 = Inr st'"
        using rest by simp
      consider "completion ts ps qs"
        | c where "c \<in> set (task_candidates t)" "completion ts (place c ps) qs"
        using Cons.prems(4) by (rule completion_ConsE)
      then show ?thesis
      proof cases
        case 1
        show ?thesis
          by (rule Cons.IH [OF skip Cons.prems(2) _ 1 Cons.prems(5)]) (use Cons.prems(3) in simp)
      next
        case (2 c)
        have c: "c \<in> set cs" using 2 cs completion_feasible Cons.prems(5) by blast
        have "\<exists>s1 s2. search lc budget ex w n ts (place c ps)
            (map proposalToConflictSource (place c ps)) s1 = Inr s2 \<and>
            progress budget (visit st) s1 \<and> progress budget s2 st3"
          by (rule for_candidates_all [OF loop [unfolded eq_False [THEN iffD2, OF False]] c
                reflp_progress transp_progress]) (rule search_progress)
        then obtain s1 s2 where
          run: "search lc budget ex w n ts (place c ps) (map proposalToConflictSource (place c ps)) s1 = Inr s2"
          and p: "progress budget s2 st3" by blast
        have p': "progress budget s2 st'" using p search_progress [OF skip] progress_trans by blast
        then have "\<not> searchBudgetExhausted s2" using Cons.prems(2) by (auto simp: progress_def)
        then have "length qs \<le> length (bestProposals s2)"
          using Cons.IH [OF run] 2 Cons.prems(3,5) by simp
        then show ?thesis using p' by (simp add: progress_def)
      qed
    qed
  qed
qed

text \<open>Totality: with well-formed times the search always returns.\<close>

definition timed :: "TimetableGenerationProposal \<Rightarrow> bool" where
  "timed p \<longleftrightarrow> (\<exists>r. source_range (proposalToConflictSource p) = Inr r)"

lemma timed_index [simp]: "timed (p\<lparr>pr_proposedIndex := i\<rparr>) = timed p"
  by (simp add: timed_def source_range_def proposalToConflictSource_def)

lemma not_conflicting_total:
  assumes "timed c" "\<forall>s \<in> set fixed. \<exists>r. source_range s = Inr r"
  shows "\<exists>b. not_conflicting lc fixed c = Inr b"
proof -
  obtain b where "candidateConflicts lc (proposalToConflictSource c) fixed = Inr b"
    using candidateConflicts_total assms by (metis timed_def)
  then have "not_conflicting lc fixed c = Inr (\<not> b)" by (simp add: not_conflicting_def)
  then show ?thesis by blast
qed

lemma filterR_total: "(\<And>x. x \<in> set xs \<Longrightarrow> \<exists>b. p x = Inr b) \<Longrightarrow> \<exists>ys. filterR p xs = Inr ys"
proof (induction xs)
  case Nil
  then show ?case by simp
next
  case (Cons x xs)
  from Cons.prems obtain b where b: "p x = Inr b" by auto
  from Cons.IH Cons.prems obtain ys where "filterR p xs = Inr ys" by auto
  with b show ?case by simp
qed

lemma for_candidates_total:
  assumes "\<And>c s. c \<in> set cs \<Longrightarrow> \<exists>s'. body c s = Inr s'"
  shows "\<exists>r st'. for_candidates body stop cs st = Inr (r, st')"
  using assms
proof (induction cs arbitrary: st)
  case Nil
  show ?case by (simp add: ex_bool_eq)
next
  case (Cons c cs)
  obtain s1 where "body c st = Inr s1" using Cons.prems [of c st] by auto
  moreover have "\<exists>r st'. for_candidates body stop cs s1 = Inr (r, st')"
    by (rule Cons.IH) (rule Cons.prems, simp)
  ultimately show ?case by auto
qed

lemma search_total:
  assumes "\<forall>s \<in> set ex. \<exists>r. source_range s = Inr r"
    and "\<forall>t \<in> set ts. \<forall>c \<in> set (task_candidates t). timed c" "\<forall>s \<in> set srcs. \<exists>r. source_range s = Inr r"
  shows "\<exists>st'. search lc budget ex w n ts ps srcs st = Inr st'"
  using assms(2,3)
proof (induction ts arbitrary: ps srcs st)
  case Nil
  then show ?case by (simp add: Let_def)
next
  case (Cons t ts)
  obtain fs where fs: "filterR (not_conflicting lc (ex @ srcs)) (task_candidates t) = Inr fs"
    using filterR_total [of "task_candidates t"] not_conflicting_total [of _ "ex @ srcs"]
      assms(1) Cons.prems by (metis UnE list.set_intros(1) set_append)
  have sub: "\<And>c. c \<in> set fs \<Longrightarrow> timed c" using filterR_InrD [OF fs] Cons.prems(1) by auto
  let ?cmp = "compareCandidates lc w (countBy src_teacherUserId srcs)"
  have "\<exists>r st3. for_candidates (\<lambda>c. search lc budget ex w n ts (place c ps)
      (srcs @ [proposalToConflictSource (c\<lparr>pr_proposedIndex := int (length ps)\<rparr>)]))
      (search_done n) (js_sort ?cmp fs) (visit st) = Inr (r, st3)"
  proof (rule for_candidates_total)
    fix c s
    assume "c \<in> set (js_sort ?cmp fs)"
    then have "timed (c\<lparr>pr_proposedIndex := int (length ps)\<rparr>)" using sub by simp
    then show "\<exists>s'. search lc budget ex w n ts (place c ps)
        (srcs @ [proposalToConflictSource (c\<lparr>pr_proposedIndex := int (length ps)\<rparr>)]) s = Inr s'"
      using Cons by (intro Cons.IH) (auto simp: timed_def)
  qed
  then obtain r st3 where loop: "for_candidates (\<lambda>c. search lc budget ex w n ts (place c ps)
      (srcs @ [proposalToConflictSource (c\<lparr>pr_proposedIndex := int (length ps)\<rparr>)]))
      (search_done n) (js_sort ?cmp fs) (visit st) = Inr (r, st3)" by blast
  have "\<exists>st'. search lc budget ex w n ts ps srcs st3 = Inr st'" using Cons by simp
  then show ?case using fs loop by (cases r) (simp_all add: Let_def)
qed

end
