(* ===== verification/Timetable_Plan.thy ===== *)
theory Timetable_Plan
  imports Timetable_Generator
begin

text \<open>
  What the generated plan guarantees: its proposals are a valid assignment (legal slots, no clash
  with the existing timetable or with each other, no demand exceeded), a longest one unless the
  node budget ran out, and together with the unresolved entries they account for every remaining
  weekly slot.
\<close>

section \<open>Specification\<close>

text \<open>A proposal the generator may make: some demand that is not over-scheduled, one of its teacher
  allocations, an active day and an instructional period of the configuration.\<close>

definition legal_proposal :: "GenerationInput \<Rightarrow> TimetableGenerationProposal \<Rightarrow> bool" where
  "legal_proposal input p \<longleftrightarrow>
     (\<exists>d \<in> set (in_demand input). \<exists>a \<in> set (in_teacherAllocations input).
      \<exists>day \<in> set (in_activeDays input). \<exists>period \<in> set (in_periods input).
        dm_scheduledWeeklySlots d \<le> dm_requiredWeeklySlots d \<and>
        ta_id a \<in> set (dm_teacherSubjectAllocationIds d) \<and> allocation_serves_demand d a \<and>
        period_timetableConfigId period = in_timetableConfigId input \<and> period_isInstructional period \<and>
        p = (candidate_for (in_timetableConfigId input) d a day period)
              \<lparr>pr_proposedIndex := pr_proposedIndex p\<rparr>)"

definition planned_slots ::
  "TimetableGenerationProposal list \<Rightarrow> ReconciledTimetableDemand \<Rightarrow> int" where
  "planned_slots ps d = int (length (filter (\<lambda>p. key_of_proposal p = key_of_demand d) ps))"

definition valid_assignment :: "GenerationInput \<Rightarrow> TimetableGenerationProposal list \<Rightarrow> bool" where
  "valid_assignment input ps \<longleftrightarrow>
     (\<forall>p \<in> set ps. legal_proposal input p) \<and>
     feasible (active_sources (in_existingTermEntries input)) ps \<and>
     (\<forall>d \<in> set (in_demand input). planned_slots ps d \<le> max 0 (dm_remainingWeeklySlots d))"

definition plan_budget :: "GenerationInput \<Rightarrow> int" where
  "plan_budget input = (case in_searchNodeBudget input of
     None \<Rightarrow> MAX_TIMETABLE_GENERATION_SEARCH_NODES | Some n \<Rightarrow> n)"

abbreviation plan_search ::
  "(string \<Rightarrow> string \<Rightarrow> int) \<Rightarrow> GenerationInput \<Rightarrow> GenerationTask list \<Rightarrow> SearchState result" where
  "plan_search lc input tasks \<equiv>
     search lc (plan_budget input) (active_sources (in_existingTermEntries input))
       (countBy src_teacherUserId (active_sources (in_existingTermEntries input)))
       (length tasks) tasks [] [] initial_search"

section \<open>The two outcomes\<close>

lemma plan_InrE:
  assumes "buildTimetableGenerationPlan lc input = Inr plan"
  obtains (too_many) unresolved tasks where
    "generation_tasks lc input = Inr (unresolved, tasks)"
    "plan = budgetExhaustedPlan (plan_budget input)"
  | (exhausted) unresolved tasks st where
    "generation_tasks lc input = Inr (unresolved, tasks)" "int (length tasks) \<le> plan_budget input"
    "plan_search lc input tasks = Inr st" "searchBudgetExhausted st"
    "plan = budgetExhaustedPlan (searchNodesVisited st)"
  | (found) unresolved tasks st where
    "generation_tasks lc input = Inr (unresolved, tasks)" "int (length tasks) \<le> plan_budget input"
    "plan_search lc input tasks = Inr st"
    "searchBudgetExhausted st \<Longrightarrow> length (bestProposals st) = length tasks"
    "plan = \<lparr>plan_proposals = reindexed (bestProposals st),
       plan_unresolved = js_sort (compareUnresolved lc) (unresolved @
         no_feasible_slot_unresolved (countBy key_of_proposal (bestProposals st))
           (uniqueDemandTasks lc tasks)),
       plan_searchNodesVisited = searchNodesVisited st, plan_searchBudgetExhausted = False\<rparr>"
proof -
  from assms obtain unresolved tasks where gt: "generation_tasks lc input = Inr (unresolved, tasks)"
    by (auto simp: buildTimetableGenerationPlan_def Let_def andThen_eq_Inr)
  show ?thesis
  proof (cases "int (length tasks) > plan_budget input")
    case True
    with assms gt have "plan = budgetExhaustedPlan (plan_budget input)"
      by (simp add: buildTimetableGenerationPlan_def plan_budget_def Let_def)
    with gt show ?thesis by (rule too_many)
  next
    case False
    with assms gt obtain st where st: "plan_search lc input tasks = Inr st"
      by (auto simp: buildTimetableGenerationPlan_def plan_budget_def [symmetric] Let_def andThen_eq_Inr)
    show ?thesis
    proof (cases "searchBudgetExhausted st \<and> length (bestProposals st) \<noteq> length tasks")
      case True
      with assms gt st False have "plan = budgetExhaustedPlan (searchNodesVisited st)"
        by (simp add: buildTimetableGenerationPlan_def plan_budget_def [symmetric] Let_def)
      with gt False st True show ?thesis by (intro exhausted) simp_all
    next
      case no: False
      with assms gt st False show ?thesis
        by (intro found [OF gt _ st])
          (auto simp: buildTimetableGenerationPlan_def plan_budget_def [symmetric] Let_def)
    qed
  qed
qed

section \<open>Tasks\<close>

lemma demand_loop_task:
  assumes "demand_loop f ds = Inr (un, ts)" "t \<in> set ts"
  shows "task_demand t \<in> set ds \<and> f (task_demand t) = Inr (task_candidates t) \<and>
    dm_scheduledWeeklySlots (task_demand t) \<le> dm_requiredWeeklySlots (task_demand t) \<and>
    dm_teacherSubjectAllocationIds (task_demand t) \<noteq> []"
  using assms
proof (induction ds arbitrary: un ts)
  case Nil
  then show ?case by simp
next
  case (Cons d ds)
  from Cons.prems(1) obtain un' ts' where *: "demand_loop f ds = Inr (un', ts')"
    and ts: "t \<in> set ts' \<or> task_demand t = d \<and> f d = Inr (task_candidates t) \<and>
      dm_scheduledWeeklySlots d \<le> dm_requiredWeeklySlots d \<and> dm_teacherSubjectAllocationIds d \<noteq> []"
    using Cons.prems(2) by (fastforce simp: andThen_eq_Inr split: if_splits)
  with Cons.IH [OF *] show ?case by auto
qed

definition has_tasks :: "ReconciledTimetableDemand \<Rightarrow> bool" where
  "has_tasks d \<longleftrightarrow> dm_scheduledWeeklySlots d \<le> dm_requiredWeeklySlots d \<and>
     dm_teacherSubjectAllocationIds d \<noteq> []"

text \<open>How often a demand occurs among the tasks: once per remaining slot.\<close>

lemma demand_loop_count:
  assumes "demand_loop f ds = Inr (un, ts)" "distinct (map key_of_demand ds)" "d \<in> set ds"
  shows "length (filter (\<lambda>t. key_of_task t = key_of_demand d) ts) =
    (if has_tasks d then nat (dm_remainingWeeklySlots d) else 0)"
  using assms
proof (induction ds arbitrary: un ts)
  case Nil
  then show ?case by simp
next
  case (Cons e ds)
  define own where "own = (if has_tasks e then
      map (\<lambda>i. \<lparr>task_demand = e, task_unitIndex = i,
        task_candidates = (case f e of Inr cs \<Rightarrow> cs | Inl _ \<Rightarrow> [])\<rparr>)
      (map int [0..<nat (dm_remainingWeeklySlots e)]) else [])"
  from Cons.prems(1) obtain un' ts' where *: "demand_loop f ds = Inr (un', ts')" and ts: "ts = own @ ts'"
    by (auto simp: andThen_eq_Inr own_def has_tasks_def split: if_splits)
  have own: "length (filter (\<lambda>t. key_of_task t = k) own) =
      (if has_tasks e \<and> k = key_of_demand e then nat (dm_remainingWeeklySlots e) else 0)" for k
    by (auto simp: own_def canonicalTimetableDemandKey_def filter_empty_conv)
  have none: "filter (\<lambda>t. key_of_task t = key_of_demand e) ts' = []"
  proof -
    have "key_of_demand (task_demand t) \<in> key_of_demand ` set ds" if "t \<in> set ts'" for t
      using demand_loop_task [OF * that] by blast
    moreover have "key_of_demand e \<notin> key_of_demand ` set ds" using Cons.prems(2) by simp
    ultimately have "key_of_demand (task_demand t) \<noteq> key_of_demand e" if "t \<in> set ts'" for t
      using that by metis
    then show ?thesis unfolding filter_empty_conv canonicalTimetableDemandKey_def by blast
  qed
  show ?case
  proof (cases "d = e")
    case True
    then show ?thesis using own none by (simp add: ts)
  next
    case False
    then have d: "d \<in> set ds" using Cons.prems(3) by simp
    then have "key_of_demand d \<in> key_of_demand ` set ds" by (rule imageI)
    then have "key_of_demand d \<noteq> key_of_demand e" using Cons.prems(2) by auto
    then show ?thesis using own Cons.IH [OF * _ d] Cons.prems(2) by (simp add: ts)
  qed
qed

text \<open>The entries the loop reports itself, summed for one classroom and subject.\<close>

definition unresolved_slots ::
  "TimetableGenerationUnresolved list \<Rightarrow> ReconciledTimetableDemand \<Rightarrow> int" where
  "unresolved_slots us d =
     sum_list (map un_remainingWeeklySlots
       (filter (\<lambda>u. un_classroomId u = Some (dm_classroomId d) \<and>
                    un_subjectId u = Some (dm_subjectId d)) us))"

lemma unresolved_slots_simps [simp]:
  "unresolved_slots [] d = 0"
  "unresolved_slots (u # us) d =
     (if un_classroomId u = Some (dm_classroomId d) \<and> un_subjectId u = Some (dm_subjectId d)
      then un_remainingWeeklySlots u else 0) + unresolved_slots us d"
  "unresolved_slots (us @ vs) d = unresolved_slots us d + unresolved_slots vs d"
  by (simp_all add: unresolved_slots_def)

lemma sum_list_filter_mset:
  "sum_list (map f (filter P xs)) = sum_mset (image_mset f (filter_mset P (mset xs)))"
  by (simp only: mset_filter [symmetric] mset_map [symmetric] sum_mset_sum_list)

lemma unresolved_slots_sort [simp]: "unresolved_slots (js_sort c us) d = unresolved_slots us d"
  unfolding unresolved_slots_def sum_list_filter_mset mset_js_sort ..

abbreviation slot_owner :: "ReconciledTimetableDemand \<Rightarrow> string \<times> string" where
  "slot_owner d \<equiv> (dm_classroomId d, dm_subjectId d)"

lemma demand_loop_unresolved_other:
  "demand_loop f ds = Inr (un, ts) \<Longrightarrow> slot_owner d \<notin> slot_owner ` set ds \<Longrightarrow> unresolved_slots un d = 0"
  by (induction ds arbitrary: un ts)
    (auto simp: andThen_eq_Inr unresolvedFor_def image_iff split: if_splits)

lemma demand_loop_unresolved:
  assumes "demand_loop f ds = Inr (un, ts)" "distinct (map slot_owner ds)" "d \<in> set ds"
    and "dm_scheduledWeeklySlots d \<le> dm_requiredWeeklySlots d"
  shows "unresolved_slots un d = (if has_tasks d then 0 else dm_remainingWeeklySlots d)"
  using assms(1-3)
proof (induction ds arbitrary: un ts)
  case Nil
  then show ?case by simp
next
  case (Cons e ds)
  from Cons.prems(1) obtain un' ts' where *: "demand_loop f ds = Inr (un', ts')"
    and un: "unresolved_slots un d = unresolved_slots un' d +
      (if slot_owner d = slot_owner e \<and> dm_scheduledWeeklySlots e \<le> dm_requiredWeeklySlots e \<and>
          dm_teacherSubjectAllocationIds e = [] then dm_remainingWeeklySlots e else 0)"
    by (auto simp: andThen_eq_Inr unresolvedFor_def split: if_splits)
  show ?case
  proof (cases "d = e")
    case True
    have "unresolved_slots un' d = 0"
      using demand_loop_unresolved_other [OF *] Cons.prems(2) True by auto
    then show ?thesis using un True assms(4) by (simp add: has_tasks_def)
  next
    case False
    then have d: "d \<in> set ds" using Cons.prems(3) by simp
    then have "slot_owner d \<in> slot_owner ` set ds" by (rule imageI)
    then have "slot_owner d \<noteq> slot_owner e" using Cons.prems(2) by auto
    then have "unresolved_slots un d = unresolved_slots un' d" using un by auto
    then show ?thesis using d Cons.IH [OF *] Cons.prems(2) by simp
  qed
qed

section \<open>Candidates\<close>

lemma mapR_check: "mapR (\<lambda>p. andThen (f p) (\<lambda>_. Inr p)) xs = Inr ys \<Longrightarrow> ys = xs"
  by (induction xs arbitrary: ys) (auto simp: andThen_eq_Inr)

lemma generation_periods_set:
  assumes "generation_periods lc input = Inr periods"
  shows "set periods = {p \<in> set (in_periods input).
    period_timetableConfigId p = in_timetableConfigId input \<and> period_isInstructional p}"
  using assms by (auto simp: generation_periods_def andThen_eq_Inr dest!: mapR_check)

lemma mem_raw_candidates:
  "c \<in> set (raw_candidates cfg days d periods alloc) \<longleftrightarrow>
     (\<exists>i \<in> set (dm_teacherSubjectAllocationIds d). \<exists>a day period.
        jm_get alloc i = Some a \<and> allocation_serves_demand d a \<and> day \<in> set days \<and>
        period \<in> set periods \<and> c = candidate_for cfg d a day period)"
proof -
  have "c \<in> set (case jm_get alloc i of None \<Rightarrow> []
       | Some a \<Rightarrow> if \<not> allocation_serves_demand d a then []
           else concat (map (\<lambda>day. map (candidate_for cfg d a day) periods) days)) \<longleftrightarrow>
     (\<exists>a day period. jm_get alloc i = Some a \<and> allocation_serves_demand d a \<and> day \<in> set days \<and>
        period \<in> set periods \<and> c = candidate_for cfg d a day period)" for i
    by (cases "jm_get alloc i") auto
  then show ?thesis by (simp add: raw_candidates_def)
qed

lemma mem_buildDemandCandidates:
  assumes "buildDemandCandidates lc cfg days d periods alloc ex w = Inr cs" "entry_sources ex"
  shows "c \<in> set cs \<longleftrightarrow> c \<in> set (raw_candidates cfg days d periods alloc) \<and>
    (\<forall>s \<in> set ex. \<not> clash (proposalToConflictSource c) s)"
proof -
  from assms(1) obtain fs where fs: "filterR (not_conflicting lc ex)
      (raw_candidates cfg days d periods alloc) = Inr fs" and cs: "set cs = set fs"
    by (auto simp: buildDemandCandidates_def andThen_eq_Inr)
  have "not_conflicting lc ex c = Inr True \<longleftrightarrow> (\<forall>s \<in> set ex. \<not> clash (proposalToConflictSource c) s)"
    if "\<exists>b. not_conflicting lc ex c = Inr b" for c
  proof -
    from that obtain b where b: "not_conflicting lc ex c = Inr b" ..
    have "feasible ex []" by (simp add: feasible_def)
    with not_conflicting_iff [OF assms(2), of "[]" lc c b] b show ?thesis
      by (simp add: feasible_place)
  qed
  with filterR_InrD [OF fs] cs show ?thesis by auto
qed

definition allocation_map :: "GenerationInput \<Rightarrow> (string, TimetableTeacherAllocationRecord) js_map" where
  "allocation_map input = jm_of_entries (map (\<lambda>a. (ta_id a, a)) (in_teacherAllocations input))"

lemma allocation_mapD: "jm_get (allocation_map input) i = Some a \<Longrightarrow>
    a \<in> set (in_teacherAllocations input) \<and> ta_id a = i"
  by (auto simp: allocation_map_def jm_get_of_entries dest!: map_of_SomeD)

lemma allocation_map_distinct:
  assumes "distinct (map ta_id (in_teacherAllocations input))" "a \<in> set (in_teacherAllocations input)"
  shows "jm_get (allocation_map input) (ta_id a) = Some a"
  unfolding allocation_map_def jm_get_of_entries
  using assms by (intro map_of_is_SomeI) (auto simp: rev_map [symmetric] o_def distinct_rev)

text \<open>What \<open>generation_tasks\<close> returns, without the loops that compute it.\<close>

lemma generation_tasksE:
  assumes "generation_tasks lc input = Inr (un, tasks)"
  obtains f periods ts where
    "generation_periods lc input = Inr periods"
    "demand_loop f (js_sort (compareDemandIdentity lc) (in_demand input)) = Inr (un, ts)"
    "tasks = js_sort (compareGenerationTasks lc) ts"
    "\<And>d cs. f d = Inr cs \<Longrightarrow> set cs =
       {c \<in> set (raw_candidates (in_timetableConfigId input)
            (js_sort (\<lambda>l r. l - r) (js_unique (in_activeDays input))) d periods (allocation_map input)).
        \<forall>s \<in> set (active_sources (in_existingTermEntries input)).
          \<not> clash (proposalToConflictSource c) s}"
proof -
  let ?ex = "active_sources (in_existingTermEntries input)"
  let ?days = "js_sort (\<lambda>l r. l - r) (js_unique (in_activeDays input))"
  from assms obtain periods where p: "generation_periods lc input = Inr periods"
    by (auto simp: generation_tasks_def andThen_eq_Inr)
  let ?f = "\<lambda>d. buildDemandCandidates lc (in_timetableConfigId input) ?days d periods
    (allocation_map input) ?ex (countBy src_teacherUserId ?ex)"
  from assms p obtain ts where "demand_loop ?f (js_sort (compareDemandIdentity lc) (in_demand input)) = Inr (un, ts)"
    "tasks = js_sort (compareGenerationTasks lc) ts"
    by (auto simp: generation_tasks_def Let_def andThen_eq_Inr allocation_map_def)
  moreover have "set cs = {c \<in> set (raw_candidates (in_timetableConfigId input) ?days d periods
      (allocation_map input)). \<forall>s \<in> set ?ex. \<not> clash (proposalToConflictSource c) s}"
    if "?f d = Inr cs" for d cs
    using mem_buildDemandCandidates [OF that] by auto
  ultimately show ?thesis using that [OF p, of ?f ts] by blast
qed

lemma task_facts:
  assumes "generation_tasks lc input = Inr (un, tasks)" "t \<in> set tasks"
  shows "task_demand t \<in> set (in_demand input)" "has_tasks (task_demand t)"
    and "\<And>c. c \<in> set (task_candidates t) \<Longrightarrow> legal_proposal input c"
    and "\<And>c. c \<in> set (task_candidates t) \<Longrightarrow> key_of_proposal c = key_of_task t"
proof -
  from assms(1) obtain f periods ts where
    per: "generation_periods lc input = Inr periods"
    and loop: "demand_loop f (js_sort (compareDemandIdentity lc) (in_demand input)) = Inr (un, ts)"
    and ts: "tasks = js_sort (compareGenerationTasks lc) ts"
    and f: "\<And>d cs. f d = Inr cs \<Longrightarrow> set cs =
       {c \<in> set (raw_candidates (in_timetableConfigId input)
            (js_sort (\<lambda>l r. l - r) (js_unique (in_activeDays input))) d periods (allocation_map input)).
        \<forall>s \<in> set (active_sources (in_existingTermEntries input)).
          \<not> clash (proposalToConflictSource c) s}"
    by (rule generation_tasksE) blast
  have t: "t \<in> set ts" using assms(2) ts by simp
  note * = demand_loop_task [OF loop t]
  show "task_demand t \<in> set (in_demand input)" "has_tasks (task_demand t)"
    using * by (auto simp: has_tasks_def)
  fix c
  assume c: "c \<in> set (task_candidates t)"
  have "f (task_demand t) = Inr (task_candidates t)" using * by simp
  from c [unfolded f [OF this]] obtain i a day period where
    i: "i \<in> set (dm_teacherSubjectAllocationIds (task_demand t))"
    and a: "jm_get (allocation_map input) i = Some a" "allocation_serves_demand (task_demand t) a"
    and day: "day \<in> set (js_sort (\<lambda>l r. l - r) (js_unique (in_activeDays input)))"
    and period: "period \<in> set periods"
    and c: "c = candidate_for (in_timetableConfigId input) (task_demand t) a day period"
    by (simp only: mem_Collect_eq mem_raw_candidates) (elim conjE bexE exE)
  show "key_of_proposal c = key_of_task t" by (simp add: c candidate_for_def)
  have eq: "c = (candidate_for (in_timetableConfigId input) (task_demand t) a day period)
      \<lparr>pr_proposedIndex := pr_proposedIndex c\<rparr>" by (simp add: c)
  show "legal_proposal input c"
    unfolding legal_proposal_def
    by (rule bexI [of _ "task_demand t"], rule bexI [of _ a], rule bexI [of _ day],
        rule bexI [of _ period], intro conjI, insert i a day period eq * allocation_mapD [OF a(1)]
        generation_periods_set [OF per]) simp_all
qed

section \<open>Assignments up to order and index\<close>

definition unindexed :: "TimetableGenerationProposal \<Rightarrow> TimetableGenerationProposal" where
  "unindexed p = p\<lparr>pr_proposedIndex := 0\<rparr>"

lemma unindexed_simps [simp]:
  "unindexed (p\<lparr>pr_proposedIndex := i\<rparr>) = unindexed p"
  "key_of_proposal (unindexed p) = key_of_proposal p"
  "clash (proposalToConflictSource (unindexed p)) s = clash (proposalToConflictSource p) s"
  "clash s (proposalToConflictSource (unindexed p)) = clash s (proposalToConflictSource p)"
  by (simp_all add: unindexed_def)

lemma eq_up_to_index: "p = x\<lparr>pr_proposedIndex := pr_proposedIndex p\<rparr> \<longleftrightarrow> unindexed p = unindexed x"
  by (cases p; cases x) (simp add: unindexed_def)

lemma legal_unindexed [simp]: "legal_proposal input (unindexed p) = legal_proposal input p"
  unfolding legal_proposal_def eq_up_to_index by (simp add: unindexed_def)

lemma map_unindexed_reindexed [simp]: "map unindexed (reindexed ps) = map unindexed ps"
proof -
  have "map unindexed (map (\<lambda>(i, p). p\<lparr>pr_proposedIndex := int i\<rparr>) (List.enumerate n ps)) =
      map unindexed ps" for n
    by (induction ps arbitrary: n) auto
  then show ?thesis by (simp add: reindexed_def)
qed

lemma length_reindexed [simp]: "length (reindexed ps) = length ps"
  by (simp add: reindexed_def)

lemma sorted_wrt_sym_mset:
  assumes "\<And>a b. R a b \<longleftrightarrow> R b a"
  shows "sorted_wrt R xs \<longleftrightarrow> (\<forall>a b. {#a, b#} \<subseteq># mset xs \<longrightarrow> R a b)"
proof
  assume "sorted_wrt R xs"
  then show "\<forall>a b. {#a, b#} \<subseteq># mset xs \<longrightarrow> R a b"
    using sorted_wrt_pair_mset [of R xs] iffD1 [OF assms] by blast
next
  assume "\<forall>a b. {#a, b#} \<subseteq># mset xs \<longrightarrow> R a b"
  then show "sorted_wrt R xs"
  proof (induction xs)
    case (Cons x xs)
    have "R x y" if "y \<in> set xs" for y
    proof -
      have "{#y#} \<subseteq># mset xs" using that by simp
      then have "{#x, y#} \<subseteq># mset (x # xs)" by simp
      then show ?thesis using Cons.prems by blast
    qed
    moreover have "\<forall>a b. {#a, b#} \<subseteq># mset xs \<longrightarrow> R a b"
    proof (intro allI impI)
      fix a b assume "{#a, b#} \<subseteq># mset xs"
      then have "{#a, b#} \<subseteq># mset (x # xs)"
        by (rule subset_mset.order_trans) simp
      then show "R a b" using Cons.prems by blast
    qed
    ultimately show ?case using Cons.IH by simp
  qed simp
qed

lemma feasible_unindexed:
  "feasible ex ps \<longleftrightarrow>
     (\<forall>p \<in> set (map unindexed ps). \<forall>s \<in> set ex. \<not> clash (proposalToConflictSource p) s) \<and>
     sorted_wrt (\<lambda>p q. \<not> clash (proposalToConflictSource p) (proposalToConflictSource q)) (map unindexed ps)"
  by (simp add: feasible_def sorted_wrt_map)

lemma feasible_mset:
  assumes "mset (map unindexed ps) = mset (map unindexed qs)" "feasible ex ps"
  shows "feasible ex qs"
proof -
  have sym: "(\<not> clash (proposalToConflictSource a) (proposalToConflictSource b)) \<longleftrightarrow>
      (\<not> clash (proposalToConflictSource b) (proposalToConflictSource a))" for a b
    using clash_sym by blast
  have "set (map unindexed qs) = set (map unindexed ps)" using assms(1) mset_eq_setD by metis
  with assms show ?thesis
    unfolding feasible_unindexed sorted_wrt_sym_mset [of "\<lambda>p q. \<not> clash (proposalToConflictSource p)
      (proposalToConflictSource q)", OF sym] by simp
qed

lemma planned_slots_unindexed:
  "planned_slots ps d = int (size (filter_mset (\<lambda>p. key_of_proposal p = key_of_demand d) (mset (map unindexed ps))))"
proof -
  have "length (filter (\<lambda>p. key_of_proposal p = key_of_demand d) (map unindexed ps)) =
      length (filter (\<lambda>p. key_of_proposal p = key_of_demand d) ps)"
    by (simp add: filter_map o_def)
  then show ?thesis unfolding planned_slots_def mset_filter [symmetric] size_mset by simp
qed

lemma valid_assignment_mset:
  assumes "mset (map unindexed ps) = mset (map unindexed qs)" "valid_assignment input ps"
  shows "valid_assignment input qs"
proof -
  have "unindexed ` set qs = unindexed ` set ps" using assms(1) mset_eq_setD by (metis set_map)
  then have "\<forall>p \<in> set qs. legal_proposal input p"
    using assms(2) unfolding valid_assignment_def by (metis image_iff legal_unindexed)
  with assms feasible_mset [OF assms(1)] show ?thesis
    unfolding valid_assignment_def planned_slots_unindexed by simp
qed

section \<open>Selections from the tasks\<close>

lemma completion_self: "completion ts ps ps"
  by (induction ts) (auto intro: completion_done completion_skip)

lemma completion_legal:
  assumes "completion ts ps qs" "\<forall>t \<in> set ts. \<forall>c \<in> set (task_candidates t). legal_proposal input c"
    "\<forall>p \<in> set ps. legal_proposal input p"
  shows "\<forall>q \<in> set qs. legal_proposal input q"
  using assms
proof (induction rule: completion.induct)
  case (completion_place c task rest ps qs)
  have "legal_proposal input (c\<lparr>pr_proposedIndex := int (length ps)\<rparr>)"
    using completion_place.hyps(1) completion_place.prems(1)
    by (metis legal_unindexed list.set_intros(1) unindexed_simps(1))
  with completion_place show ?case by (auto simp: place_def)
qed auto

lemma completion_count:
  assumes "completion ts ps qs" "\<forall>t \<in> set ts. \<forall>c \<in> set (task_candidates t). key_of_proposal c = key_of_task t"
  shows "length (filter (\<lambda>p. key_of_proposal p = k) qs) \<le>
    length (filter (\<lambda>p. key_of_proposal p = k) ps) + length (filter (\<lambda>t. key_of_task t = k) ts)"
  using assms
  by (induction rule: completion.induct) (auto simp: place_def split: if_splits)

lemma completion_exists:
  assumes "\<forall>t \<in> set ts. \<forall>q \<in> set qs. key_of_proposal q = key_of_task t \<longrightarrow>
      unindexed q \<in> unindexed ` set (task_candidates t)"
    and "\<forall>k. length (filter (\<lambda>q. key_of_proposal q = k) qs) \<le> length (filter (\<lambda>t. key_of_task t = k) ts)"
  shows "\<exists>rs. completion ts ps (ps @ rs) \<and> mset (map unindexed rs) = mset (map unindexed qs)"
  using assms
proof (induction ts arbitrary: ps qs)
  case Nil
  have "qs = []"
  proof (rule ccontr)
    assume "qs \<noteq> []"
    then obtain q qs' where "qs = q # qs'" by (cases qs) auto
    then show False using spec [OF Nil.prems(2), of "key_of_proposal q"] by simp
  qed
  then show ?case using completion_self [of "[]" ps] by simp
next
  case (Cons t ts)
  show ?case
  proof (cases "\<exists>q \<in> set qs. key_of_proposal q = key_of_task t")
    case True
    then obtain q where q: "q \<in> set qs" "key_of_proposal q = key_of_task t" ..
    obtain us vs where qs: "qs = us @ q # vs" using q(1) by (meson split_list)
    obtain c where c: "c \<in> set (task_candidates t)" "unindexed q = unindexed c"
      using Cons.prems(1) q by auto
    have "length (filter (\<lambda>q. key_of_proposal q = k) (us @ vs)) \<le> length (filter (\<lambda>t. key_of_task t = k) ts)"
      for k using spec [OF Cons.prems(2), of k] q(2) by (auto simp: qs split: if_splits)
    then obtain rs where rs: "completion ts (place c ps) (place c ps @ rs)"
      "mset (map unindexed rs) = mset (map unindexed (us @ vs))"
      using Cons.IH [of "us @ vs" "place c ps"] Cons.prems(1) by (auto simp: qs)
    let ?r = "c\<lparr>pr_proposedIndex := int (length ps)\<rparr>"
    have "completion (t # ts) ps (ps @ ?r # rs)"
      using completion_place [OF c(1) rs(1)] by (simp add: place_def)
    moreover have "mset (map unindexed (?r # rs)) = mset (map unindexed qs)"
      using rs(2) c(2) by (simp add: qs)
    ultimately show ?thesis by blast
  next
    case False
    then have none: "filter (\<lambda>q. key_of_proposal q = key_of_task t) qs = []"
      by (auto simp: filter_empty_conv)
    have "length (filter (\<lambda>q. key_of_proposal q = k) qs) \<le> length (filter (\<lambda>t. key_of_task t = k) ts)" for k
      using spec [OF Cons.prems(2), of k] none by (cases "k = key_of_task t") auto
    with Cons.IH [of qs ps] Cons.prems(1) obtain rs where
      "completion ts ps (ps @ rs)" "mset (map unindexed rs) = mset (map unindexed qs)" by auto
    then show ?thesis by (blast intro: completion_skip)
  qed
qed

section \<open>Guarantees\<close>

lemma best_selection:
  assumes "plan_search lc input tasks = Inr st"
  shows "completion tasks [] (bestProposals st)"
    and "feasible (active_sources (in_existingTermEntries input)) (bestProposals st)"
proof -
  let ?ex = "active_sources (in_existingTermEntries input)"
  have nil: "feasible ?ex []" by (simp add: feasible_def)
  have init: "bestProposals initial_search = []" by (simp add: initial_search_def)
  from search_sound [where ps = "[]" and st = initial_search and st' = st] assms nil init
  have "bestProposals st = [] \<or> completion tasks [] (bestProposals st) \<and> feasible ?ex (bestProposals st)"
    by fastforce
  with nil completion_self show "completion tasks [] (bestProposals st)" "feasible ?ex (bestProposals st)"
    by auto
qed

lemma task_count:
  assumes "generation_tasks lc input = Inr (un, tasks)"
    and "distinct (map key_of_demand (in_demand input))" "d \<in> set (in_demand input)"
  shows "length (filter (\<lambda>t. key_of_task t = key_of_demand d) tasks) =
    (if has_tasks d then nat (dm_remainingWeeklySlots d) else 0)"
proof -
  from assms(1) obtain f ts where
    loop: "demand_loop f (js_sort (compareDemandIdentity lc) (in_demand input)) = Inr (un, ts)"
    and tasks: "tasks = js_sort (compareGenerationTasks lc) ts"
    by (rule generation_tasksE)
  have "mset (map key_of_demand (js_sort (compareDemandIdentity lc) (in_demand input))) =
      mset (map key_of_demand (in_demand input))" by (simp add: mset_js_sort)
  then have "distinct (map key_of_demand (js_sort (compareDemandIdentity lc) (in_demand input)))"
    using assms(2) mset_eq_imp_distinct_iff by blast
  from demand_loop_count [OF loop this, of d] assms(3)
  have "length (filter (\<lambda>t. key_of_task t = key_of_demand d) ts) =
    (if has_tasks d then nat (dm_remainingWeeklySlots d) else 0)" by simp
  moreover have "length (filter P tasks) = length (filter P ts)" for P
    by (metis mset_filter mset_js_sort size_mset tasks)
  ultimately show ?thesis by simp
qed

lemma planned_le_remaining:
  assumes "generation_tasks lc input = Inr (un, tasks)" "completion tasks [] qs"
    and "distinct (map key_of_demand (in_demand input))" "d \<in> set (in_demand input)"
  shows "planned_slots qs d \<le> (if has_tasks d then max 0 (dm_remainingWeeklySlots d) else 0)"
  using completion_count [OF assms(2), of "key_of_demand d"] task_facts(4) [OF assms(1)]
    task_count [OF assms(1,3,4)]
  by (auto simp: planned_slots_def split: if_splits)

lemma completion_valid:
  assumes "generation_tasks lc input = Inr (un, tasks)" "completion tasks [] qs"
    and "feasible (active_sources (in_existingTermEntries input)) qs"
    and "distinct (map key_of_demand (in_demand input))"
  shows "valid_assignment input qs"
  unfolding valid_assignment_def
proof (intro conjI ballI)
  fix p assume "p \<in> set qs"
  then show "legal_proposal input p"
    using completion_legal [OF assms(2)] task_facts(3) [OF assms(1)] by auto
next
  fix d assume "d \<in> set (in_demand input)"
  from planned_le_remaining [OF assms(1,2,4) this]
  show "planned_slots qs d \<le> max 0 (dm_remainingWeeklySlots d)" by (auto split: if_splits)
qed (rule assms(3))

text \<open>A legal proposal is, up to its index, one of the raw candidates of its demand.\<close>

lemma legal_candidate:
  assumes "legal_proposal input q" and ids: "distinct (map ta_id (in_teacherAllocations input))"
    and per: "generation_periods lc input = Inr periods"
  shows "\<exists>d \<in> set (in_demand input). has_tasks d \<and> key_of_proposal q = key_of_demand d \<and>
    (\<exists>c \<in> set (raw_candidates (in_timetableConfigId input)
       (js_sort (\<lambda>l r. l - r) (js_unique (in_activeDays input))) d periods (allocation_map input)).
      unindexed q = unindexed c)"
proof -
  from assms(1) obtain d a day period where d: "d \<in> set (in_demand input)"
    and a: "a \<in> set (in_teacherAllocations input)" "ta_id a \<in> set (dm_teacherSubjectAllocationIds d)"
      "allocation_serves_demand d a"
    and day: "day \<in> set (in_activeDays input)" and period: "period \<in> set periods"
    and ok: "dm_scheduledWeeklySlots d \<le> dm_requiredWeeklySlots d"
    and eq: "unindexed q = unindexed (candidate_for (in_timetableConfigId input) d a day period)"
    unfolding legal_proposal_def eq_up_to_index generation_periods_set [OF per] by blast
  let ?c = "candidate_for (in_timetableConfigId input) d a day period"
  have "?c \<in> set (raw_candidates (in_timetableConfigId input)
      (js_sort (\<lambda>l r. l - r) (js_unique (in_activeDays input))) d periods (allocation_map input))"
    unfolding mem_raw_candidates using a day period allocation_map_distinct [OF ids a(1)] by auto
  moreover have "has_tasks d" using a(2) ok by (auto simp: has_tasks_def)
  moreover have "key_of_proposal q = key_of_demand d"
    using arg_cong [OF eq, of key_of_proposal]
    by (simp add: candidate_for_def canonicalTimetableDemandKey_def unindexed_def)
  ultimately show ?thesis using d eq by blast
qed

lemma distinct_map_inject: "distinct (map f xs) \<Longrightarrow> x \<in> set xs \<Longrightarrow> y \<in> set xs \<Longrightarrow> f x = f y \<Longrightarrow> x = y"
  by (simp add: distinct_map inj_on_def)

lemma filter_ConsD: "filter P xs = y # ys \<Longrightarrow> y \<in> set xs \<and> P y"
  by (induction xs) (auto split: if_splits)

text \<open>Every valid assignment is, up to order and index, a selection from the tasks.\<close>

lemma valid_completion:
  assumes gt: "generation_tasks lc input = Inr (un, tasks)" and valid: "valid_assignment input qs"
    and keys: "distinct (map key_of_demand (in_demand input))"
    and ids: "distinct (map ta_id (in_teacherAllocations input))"
  shows "\<exists>rs. completion tasks [] rs \<and> mset (map unindexed rs) = mset (map unindexed qs)"
proof -
  from gt obtain f periods ts where
    per: "generation_periods lc input = Inr periods"
    and loop: "demand_loop f (js_sort (compareDemandIdentity lc) (in_demand input)) = Inr (un, ts)"
    and ts: "tasks = js_sort (compareGenerationTasks lc) ts"
    and f: "\<And>d cs. f d = Inr cs \<Longrightarrow> set cs =
       {c \<in> set (raw_candidates (in_timetableConfigId input)
            (js_sort (\<lambda>l r. l - r) (js_unique (in_activeDays input))) d periods (allocation_map input)).
        \<forall>s \<in> set (active_sources (in_existingTermEntries input)).
          \<not> clash (proposalToConflictSource c) s}"
    by (rule generation_tasksE) blast
  have legal: "legal_proposal input q" if "q \<in> set qs" for q
    using valid that by (simp add: valid_assignment_def)
  have "unindexed q \<in> unindexed ` set (task_candidates t)"
    if t: "t \<in> set tasks" and q: "q \<in> set qs" and k: "key_of_proposal q = key_of_task t" for t q
  proof -
    from legal_candidate [OF legal [OF q] ids per] obtain d c where
      d: "d \<in> set (in_demand input)" "key_of_proposal q = key_of_demand d" and
      c: "c \<in> set (raw_candidates (in_timetableConfigId input)
         (js_sort (\<lambda>l r. l - r) (js_unique (in_activeDays input))) d periods (allocation_map input))"
        "unindexed q = unindexed c" by blast
    have td: "task_demand t \<in> set (in_demand input)" "f (task_demand t) = Inr (task_candidates t)"
      using demand_loop_task [OF loop, of t] t ts by simp_all
    have "key_of_demand d = key_of_demand (task_demand t)"
      using k d(2) by (simp add: canonicalTimetableDemandKey_def)
    then have dt: "d = task_demand t" by (rule distinct_map_inject [OF keys d(1) td(1)])
    have "\<not> clash (proposalToConflictSource c) s"
      if "s \<in> set (active_sources (in_existingTermEntries input))" for s
    proof -
      have "\<not> clash (proposalToConflictSource q) s"
        using valid q that by (simp add: valid_assignment_def feasible_def)
      then show ?thesis using arg_cong [OF c(2), of "\<lambda>p. clash (proposalToConflictSource p) s"] by simp
    qed
    with f [OF td(2)] c dt show ?thesis by auto
  qed
  moreover have "length (filter (\<lambda>q. key_of_proposal q = k) qs) \<le> length (filter (\<lambda>t. key_of_task t = k) tasks)" for k
  proof (cases "filter (\<lambda>q. key_of_proposal q = k) qs")
    case (Cons q qs')
    from filter_ConsD [OF Cons] have q: "q \<in> set qs" "key_of_proposal q = k" by (rule conjunct1, rule conjunct2)
    from legal_candidate [OF legal [OF q(1)] ids per] q(2) obtain d where
      d: "d \<in> set (in_demand input)" "has_tasks d" "k = key_of_demand d" by auto
    have "planned_slots qs d \<le> max 0 (dm_remainingWeeklySlots d)"
      using valid d(1) by (simp add: valid_assignment_def)
    then show ?thesis using task_count [OF gt keys d(1)] d(2,3) by (simp add: planned_slots_def)
  qed simp
  ultimately show ?thesis using completion_exists [of tasks qs "[]", unfolded append_Nil] by blast
qed

section \<open>Accounting\<close>

lemma map_fst_jm_of_entries: "distinct (map fst (jm_of_entries es)) \<and> fst ` set (jm_of_entries es) = fst ` set es"
proof -
  have "distinct (map fst m) \<Longrightarrow> distinct (map fst (fold (\<lambda>(k, v). jm_set k v) es m)) \<and>
      fst ` set (fold (\<lambda>(k, v). jm_set k v) es m) = fst ` set m \<union> fst ` set es" for m
  proof (induction es arbitrary: m)
    case (Cons e es)
    obtain k v where e: "e = (k, v)" by (cases e)
    have "distinct (map fst (jm_set k v m))" using Cons.prems by (rule distinct_update)
    from Cons.IH [OF this] show ?case by (simp add: e dom_update)
  qed simp
  from this [of "[]"] show ?thesis by (simp add: jm_of_entries_def)
qed

lemma uniqueDemandTasks_keys:
  "distinct (map key_of_task (uniqueDemandTasks lc tasks))"
  "key_of_task ` set (uniqueDemandTasks lc tasks) = key_of_task ` set tasks"
  "set (uniqueDemandTasks lc tasks) \<subseteq> set tasks"
proof -
  let ?m = "jm_of_entries (map (\<lambda>t. (key_of_task t, t)) tasks)"
  have entry: "k = key_of_task t \<and> t \<in> set tasks" if "(k, t) \<in> set ?m" for k t
  proof -
    have "jm_get ?m k = Some t"
      by (rule map_of_is_SomeI [OF conjunct1 [OF map_fst_jm_of_entries] that])
    then show ?thesis unfolding jm_get_of_entries by (auto dest!: map_of_SomeD)
  qed
  have keys: "map key_of_task (jm_values ?m) = map fst ?m"
    using entry by (auto simp: jm_values_def)
  have ms: "mset (uniqueDemandTasks lc tasks) = mset (jm_values ?m)"
    by (simp add: uniqueDemandTasks_def mset_js_sort)
  then have "mset (map key_of_task (uniqueDemandTasks lc tasks)) = mset (map fst ?m)"
    by (simp only: mset_map keys [symmetric])
  then show "distinct (map key_of_task (uniqueDemandTasks lc tasks))"
    using conjunct1 [OF map_fst_jm_of_entries] by (subst mset_eq_imp_distinct_iff)
  have set: "set (uniqueDemandTasks lc tasks) = set (jm_values ?m)" using ms mset_eq_setD by blast
  then show "set (uniqueDemandTasks lc tasks) \<subseteq> set tasks"
    using entry by (auto simp: jm_values_def)
  have "key_of_task ` set (uniqueDemandTasks lc tasks) = set (map fst ?m)"
    unfolding set keys [symmetric] by simp
  then show "key_of_task ` set (uniqueDemandTasks lc tasks) = key_of_task ` set tasks"
    using map_fst_jm_of_entries [of "map (\<lambda>t. (key_of_task t, t)) tasks"] by (simp add: image_image)
qed

lemma sum_list_all_zero: "\<forall>x \<in> set xs. x = 0 \<Longrightarrow> sum_list xs = (0::int)"
  by (induction xs) auto

lemma no_feasible_sum:
  "unresolved_slots (no_feasible_slot_unresolved (countBy key_of_proposal ps) gs) d =
     sum_list (map (\<lambda>g. max 0 (dm_remainingWeeklySlots (task_demand g) - planned_slots ps (task_demand g)))
       (filter (\<lambda>g. slot_owner (task_demand g) = slot_owner d) gs))"
  by (induction gs)
    (auto simp: no_feasible_slot_unresolved_def Let_def unresolvedFor_def planned_slots_def countBy_def
      get_or_count_by canonicalTimetableDemandKey_def)

text \<open>The entries for a demand with tasks: what is left of it after the planned slots.\<close>

lemma no_feasible_account:
  assumes gt: "generation_tasks lc input = Inr (un, tasks)" and d: "d \<in> set (in_demand input)"
    and keys: "distinct (map key_of_demand (in_demand input))"
    and owners: "distinct (map slot_owner (in_demand input))"
    and planned: "0 \<le> planned_slots ps d"
      "planned_slots ps d \<le> (if has_tasks d then max 0 (dm_remainingWeeklySlots d) else 0)"
  shows "unresolved_slots (no_feasible_slot_unresolved (countBy key_of_proposal ps)
      (uniqueDemandTasks lc tasks)) d =
    (if has_tasks d then max 0 (dm_remainingWeeklySlots d) - planned_slots ps d else 0)"
proof -
  let ?gs = "uniqueDemandTasks lc tasks"
  have gd: "task_demand g \<in> set (in_demand input)" "has_tasks (task_demand g)" if "g \<in> set ?gs" for g
    using task_facts(1,2) [OF gt] uniqueDemandTasks_keys(3) that by blast+
  have own: "slot_owner (task_demand g) = slot_owner d \<longleftrightarrow> task_demand g = d" if "g \<in> set ?gs" for g
    using distinct_map_inject [OF owners gd(1) [OF that] d] by blast
  have key: "key_of_task g = key_of_demand d \<longleftrightarrow> task_demand g = d" if "g \<in> set ?gs" for g
    using distinct_map_inject [OF keys gd(1) [OF that] d]
    by (auto simp: canonicalTimetableDemandKey_def)
  show ?thesis
  proof (cases "has_tasks d \<and> 0 < dm_remainingWeeklySlots d")
    case True
    then have "filter (\<lambda>t. key_of_task t = key_of_demand d) tasks \<noteq> []"
      using task_count [OF gt keys d] by (metis length_0_conv nat_0_iff not_le)
    then obtain t where t: "t \<in> set tasks" "key_of_task t = key_of_demand d"
      unfolding filter_empty_conv by blast
    have "key_of_demand d \<in> key_of_task ` set ?gs"
      unfolding uniqueDemandTasks_keys(2) using t(1) by (rule rev_image_eqI) (simp only: t(2))
    then obtain g where g: "g \<in> set ?gs" "key_of_task g = key_of_demand d" by auto
    then obtain us vs where split: "?gs = us @ g # vs" by (meson split_list)
    have gt': "task_demand g = d" using key g by blast
    have rest: "filter (\<lambda>h. slot_owner (task_demand h) = slot_owner d) us = []"
      "filter (\<lambda>h. slot_owner (task_demand h) = slot_owner d) vs = []"
      using uniqueDemandTasks_keys(1) [of lc tasks] own gt'
      by (auto simp: split filter_empty_conv image_iff canonicalTimetableDemandKey_def)
    show ?thesis
      unfolding no_feasible_sum using True planned rest by (simp add: split gt')
  next
    case False
    have "unresolved_slots (no_feasible_slot_unresolved (countBy key_of_proposal ps) ?gs) d = 0"
    proof (cases "has_tasks d")
      case True
      then have "max 0 (dm_remainingWeeklySlots d - planned_slots ps d) = 0"
        using False planned by simp
      then have "\<forall>x \<in> set (map (\<lambda>g. max 0 (dm_remainingWeeklySlots (task_demand g) -
          planned_slots ps (task_demand g))) (filter (\<lambda>g. slot_owner (task_demand g) = slot_owner d) ?gs)). x = 0"
        using own by auto
      then show ?thesis unfolding no_feasible_sum by (rule sum_list_all_zero)
    next
      case no: False
      then have "filter (\<lambda>g. slot_owner (task_demand g) = slot_owner d) ?gs = []"
        using own gd(2) by (metis (mono_tags, lifting) filter_False)
      then show ?thesis unfolding no_feasible_sum by simp
    qed
    then show ?thesis using False planned by auto
  qed
qed

text \<open>An over-scheduled demand is always reported.\<close>

lemma demand_loop_over_scheduled:
  "demand_loop f ds = Inr (un, ts) \<Longrightarrow> d \<in> set ds \<Longrightarrow>
    dm_requiredWeeklySlots d < dm_scheduledWeeklySlots d \<Longrightarrow> un \<noteq> []"
  by (induction ds arbitrary: un ts) (auto simp: andThen_eq_Inr split: if_splits)

lemma over_scheduled_unresolved:
  assumes "buildTimetableGenerationPlan lc input = Inr plan" "d \<in> set (in_demand input)"
    "dm_requiredWeeklySlots d < dm_scheduledWeeklySlots d"
  shows "plan_unresolved plan \<noteq> []"
proof (cases rule: plan_InrE [OF assms(1)])
  case (3 unresolved tasks st)
  from 3(1) obtain f ts where
    "demand_loop f (js_sort (compareDemandIdentity lc) (in_demand input)) = Inr (unresolved, ts)"
    by (rule generation_tasksE)
  then have "unresolved \<noteq> []" using demand_loop_over_scheduled assms(2,3) by simp
  then show ?thesis using 3(5) by simp
qed (simp_all add: budgetExhaustedPlan_def)

section \<open>Properties\<close>

text \<open>A school with one demand of two weekly slots, a teacher who is already busy in the first of two
  periods, and one active day: the input of the witnesses below.\<close>

definition example_period :: "string \<Rightarrow> int \<Rightarrow> string \<Rightarrow> string \<Rightarrow> TimetablePeriodRecord" where
  "example_period pid i from until =
     \<lparr>period_id = pid, period_timetableConfigId = ''cfg'', period_periodIndex = i,
      period_startTime = from, period_endTime = until, period_isInstructional = True\<rparr>"

definition example_entry :: TimetableEntryRecord where
  "example_entry =
     \<lparr>entry_id = ''e1'', entry_schoolId = ''s'', entry_academicYearId = ''y'', entry_termId = ''t'',
      entry_timetableConfigId = ''cfg'', entry_periodId = ''p1'', entry_dayOfWeek = 0,
      entry_gradeId = ''g'', entry_sectionId = ''sec'', entry_classroomId = ''c2'',
      entry_subjectId = ''math'', entry_teacherUserId = ''u'', entry_teacherSubjectAllocationId = ''a2'',
      entry_roomId = None, entry_status = Entry_ACTIVE, entry_period_startTime = ''08:00'',
      entry_period_endTime = ''08:45''\<rparr>"

definition example_demand :: ReconciledTimetableDemand where
  "example_demand =
     \<lparr>dm_schoolId = ''s'', dm_academicYearId = ''y'', dm_termId = ''t'', dm_gradeId = ''g'',
      dm_classroomId = ''c1'', dm_subjectId = ''math'', dm_requiredWeeklySlots = 2,
      dm_teacherSubjectAllocationIds = [''a1''],
      dm_subjectAllocation = \<lparr>sa_id = ''sa'', sa_schoolId = ''s'', sa_academicYearId = ''y'',
        sa_termId = ''t'', sa_gradeId = ''g'', sa_subjectId = ''math'', sa_weeklyHours = 2,
        sa_deletedAt = None\<rparr>,
      dm_classroom = \<lparr>class_id = ''c1'', class_schoolId = ''s'', class_sectionId = ''sec'',
        class_section_gradeId = ''g''\<rparr>,
      dm_scheduledWeeklySlots = 0, dm_remainingWeeklySlots = 2, dm_status = UNDER_SCHEDULED\<rparr>"

definition example_input :: GenerationInput where
  "example_input =
     \<lparr>in_timetableConfigId = ''cfg'', in_activeDays = [0], in_demand = [example_demand],
      in_periods = [example_period ''p1'' 1 ''08:00'' ''08:45'', example_period ''p2'' 2 ''08:45'' ''09:30''],
      in_teacherAllocations = [\<lparr>ta_id = ''a1'', ta_schoolId = ''s'', ta_teacherUserId = ''u'',
        ta_subjectId = ''math'', ta_classroomId = ''c1'', ta_termId = ''t''\<rparr>],
      in_existingTermEntries = [example_entry], in_searchNodeBudget = None\<rparr>"

lemma example_plan:
  "\<exists>plan. buildTimetableGenerationPlan string_compare example_input = Inr plan \<and>
     map pr_periodId (plan_proposals plan) = [''p2''] \<and> \<not> plan_searchBudgetExhausted plan \<and>
     plan_searchNodesVisited plan = 4"
proof -
  have "case buildTimetableGenerationPlan string_compare example_input of
      Inr plan \<Rightarrow> map pr_periodId (plan_proposals plan) = [''p2''] \<and> \<not> plan_searchBudgetExhausted plan \<and>
        plan_searchNodesVisited plan = 4
    | Inl _ \<Rightarrow> False" by code_simp
  then show ?thesis by (auto split: sum.splits)
qed

lemma example_distinct:
  "distinct (map key_of_demand (in_demand example_input))"
  "distinct (map slot_owner (in_demand example_input))"
  "distinct (map ta_id (in_teacherAllocations example_input))"
  by (simp_all add: example_input_def)

lemma budgetExhaustedPlan_simps [simp]:
  "plan_proposals (budgetExhaustedPlan n) = []"
  "plan_searchNodesVisited (budgetExhaustedPlan n) = n"
  "plan_searchBudgetExhausted (budgetExhaustedPlan n)"
  by (simp_all add: budgetExhaustedPlan_def)

lemma valid_assignment_Nil: "valid_assignment input []"
  by (simp add: valid_assignment_def feasible_def planned_slots_def)

text \<open>C2. The proposals of a generated plan are conflict free: none of them clashes (same school, term
  and day, overlapping time, shared classroom, teacher or room) with an entry of the term that is not
  cancelled, and no two of them clash with each other.\<close>

theorem plan_conflict_free:
  assumes "buildTimetableGenerationPlan lc input = Inr plan"
  shows "(\<forall>p \<in> set (plan_proposals plan). \<forall>e \<in> set (in_existingTermEntries input).
            entry_status e \<noteq> Entry_CANCELLED \<longrightarrow>
            \<not> clash (proposalToConflictSource p) (timetableEntryToConflictSource e)) \<and>
         (\<forall>i j. i < j \<and> j < length (plan_proposals plan) \<longrightarrow>
            \<not> clash (proposalToConflictSource (plan_proposals plan ! i))
                    (proposalToConflictSource (plan_proposals plan ! j)))"
proof -
  have "feasible (active_sources (in_existingTermEntries input)) (plan_proposals plan)"
  proof (cases rule: plan_InrE [OF assms])
    case (3 unresolved tasks st)
    then show ?thesis using best_selection(2) [of lc input tasks st]
      by (simp add: feasible_mset [of "bestProposals st" "reindexed (bestProposals st)"])
  qed (simp_all add: feasible_def)
  then show ?thesis
    unfolding feasible_def active_sources_def sorted_wrt_iff_nth_less by auto
qed

theorem plan_conflict_free_witness:
  "\<exists>plan. buildTimetableGenerationPlan string_compare example_input = Inr plan \<and>
     (\<forall>p \<in> set (plan_proposals plan).
        \<not> clash (proposalToConflictSource p) (timetableEntryToConflictSource example_entry))"
proof -
  obtain plan where plan: "buildTimetableGenerationPlan string_compare example_input = Inr plan"
    using example_plan by blast
  have "example_entry \<in> set (in_existingTermEntries example_input)" "entry_status example_entry \<noteq> Entry_CANCELLED"
    by (simp_all add: example_input_def example_entry_def)
  with plan_conflict_free [OF plan] plan show ?thesis by blast
qed

text \<open>C19. With one demand per demand key, the proposals form a valid assignment: each of them places a
  demand that is not over-scheduled with a teacher allocation that serves it, on an active day and an
  instructional period of the configuration, and no demand gets more slots than it has remaining.\<close>

theorem plan_valid:
  assumes "buildTimetableGenerationPlan lc input = Inr plan"
    and "distinct (map key_of_demand (in_demand input))"
  shows "valid_assignment input (plan_proposals plan)"
proof (cases rule: plan_InrE [OF assms(1)])
  case (3 unresolved tasks st)
  have "valid_assignment input (bestProposals st)"
    using completion_valid [OF 3(1) best_selection [OF 3(3)] assms(2)] .
  then show ?thesis
    using 3(5) valid_assignment_mset [of "bestProposals st" "reindexed (bestProposals st)"] by simp
qed (simp_all add: valid_assignment_Nil)

theorem plan_valid_witness:
  "\<exists>plan. buildTimetableGenerationPlan string_compare example_input = Inr plan \<and>
     length (plan_proposals plan) = 1 \<and> valid_assignment example_input (plan_proposals plan)"
proof -
  obtain plan where plan: "buildTimetableGenerationPlan string_compare example_input = Inr plan"
    and one: "map pr_periodId (plan_proposals plan) = [''p2'']"
    using example_plan by (elim exE conjE)
  have len: "length (plan_proposals plan) = 1" using arg_cong [OF one, of length] by simp
  show ?thesis by (intro exI [of _ plan] conjI plan len plan_valid [OF plan example_distinct(1)])
qed

text \<open>C3. The branch-and-bound search is optimal: unless the node budget ran out, no valid assignment
  of the remaining slots has more proposals than the generated plan.\<close>

theorem plan_maximum:
  assumes plan: "buildTimetableGenerationPlan lc input = Inr plan"
    and "\<not> plan_searchBudgetExhausted plan"
    and keys: "distinct (map key_of_demand (in_demand input))"
    and ids: "distinct (map ta_id (in_teacherAllocations input))"
    and valid: "valid_assignment input qs"
  shows "length qs \<le> length (plan_proposals plan)"
proof (cases rule: plan_InrE [OF plan])
  case (3 unresolved tasks st)
  from valid_completion [OF 3(1) valid keys ids] obtain rs where
    rs: "completion tasks [] rs" "mset (map unindexed rs) = mset (map unindexed qs)" by blast
  have len: "length rs = length qs" using arg_cong [OF rs(2), of size] by simp
  have fe: "feasible (active_sources (in_existingTermEntries input)) rs"
    using feasible_mset [OF rs(2) [symmetric]] valid by (simp add: valid_assignment_def)
  have "length rs \<le> length (bestProposals st)"
  proof (cases "searchBudgetExhausted st")
    case True
    then show ?thesis using 3(4) completion_length [OF rs(1)] by simp
  next
    case False
    have run: "search lc (plan_budget input) (active_sources (in_existingTermEntries input))
        (countBy src_teacherUserId (active_sources (in_existingTermEntries input))) (length tasks) tasks
        [] (map proposalToConflictSource []) initial_search = Inr st" using 3(3) by simp
    show ?thesis by (rule search_optimal [OF run _ False _ rs(1) fe]) simp_all
  qed
  then show ?thesis using len 3(5) by simp
qed (use assms(2) in simp_all)

theorem plan_maximum_witness:
  "\<exists>plan. buildTimetableGenerationPlan string_compare example_input = Inr plan \<and>
     length [candidate_for ''cfg'' example_demand (hd (in_teacherAllocations example_input)) 0
               (example_period ''p2'' 2 ''08:45'' ''09:30'')] \<le> length (plan_proposals plan)"
proof -
  obtain plan where plan: "buildTimetableGenerationPlan string_compare example_input = Inr plan"
    and no: "\<not> plan_searchBudgetExhausted plan"
    using example_plan by blast
  have "valid_assignment example_input
      [candidate_for ''cfg'' example_demand (hd (in_teacherAllocations example_input)) 0
         (example_period ''p2'' 2 ''08:45'' ''09:30'')]" by code_simp
  from plan_maximum [OF plan no example_distinct(1,3) this] plan show ?thesis by blast
qed

lemma plan_account:
  assumes plan: "buildTimetableGenerationPlan lc input = Inr plan"
    and "\<not> plan_searchBudgetExhausted plan"
    and keys: "distinct (map key_of_demand (in_demand input))"
    and owners: "distinct (map slot_owner (in_demand input))"
    and d: "d \<in> set (in_demand input)" "dm_scheduledWeeklySlots d \<le> dm_requiredWeeklySlots d"
      "0 \<le> dm_remainingWeeklySlots d"
  shows "planned_slots (plan_proposals plan) d + unresolved_slots (plan_unresolved plan) d =
    dm_remainingWeeklySlots d"
proof (cases rule: plan_InrE [OF plan])
  case (3 unresolved tasks st)
  let ?best = "bestProposals st"
  have planned: "0 \<le> planned_slots ?best d" by (simp add: planned_slots_def)
  note le = planned_le_remaining [OF 3(1) best_selection(1) [OF 3(3)] keys d(1)]
  from 3(1) obtain f ts where
    loop: "demand_loop f (js_sort (compareDemandIdentity lc) (in_demand input)) = Inr (unresolved, ts)"
    by (rule generation_tasksE)
  have "mset (map slot_owner (js_sort (compareDemandIdentity lc) (in_demand input))) =
      mset (map slot_owner (in_demand input))" by (simp add: mset_js_sort)
  then have "distinct (map slot_owner (js_sort (compareDemandIdentity lc) (in_demand input)))"
    using owners mset_eq_imp_distinct_iff by blast
  then have "unresolved_slots unresolved d = (if has_tasks d then 0 else dm_remainingWeeklySlots d)"
    using demand_loop_unresolved [OF loop] d by simp
  moreover have "planned_slots (reindexed ?best) d = planned_slots ?best d"
    by (simp add: planned_slots_unindexed del: mset_map)
  ultimately show ?thesis
    using no_feasible_account [OF 3(1) d(1) keys owners planned le] 3(5) d(3) planned le by auto
qed (use assms(2) in simp_all)

text \<open>Unless the node budget ran out, the plan accounts for every remaining weekly slot: for each
  demand that is not over-scheduled, the slots planned for it and the slots reported as unresolved for
  its classroom and subject add up to its remaining slots.\<close>

theorem plan_accounts:
  assumes plan: "buildTimetableGenerationPlan lc input = Inr plan"
    and "\<not> plan_searchBudgetExhausted plan"
    and keys: "distinct (map key_of_demand (in_demand input))"
    and owners: "distinct (map slot_owner (in_demand input))"
    and d: "d \<in> set (in_demand input)" "dm_scheduledWeeklySlots d \<le> dm_requiredWeeklySlots d"
      "0 \<le> dm_remainingWeeklySlots d"
  shows "planned_slots (plan_proposals plan) d + unresolved_slots (plan_unresolved plan) d =
    dm_remainingWeeklySlots d"
  by (rule plan_account [OF assms])

theorem plan_accounts_witness:
  "\<exists>plan. buildTimetableGenerationPlan string_compare example_input = Inr plan \<and>
     planned_slots (plan_proposals plan) example_demand +
     unresolved_slots (plan_unresolved plan) example_demand = 2"
proof -
  obtain plan where plan: "buildTimetableGenerationPlan string_compare example_input = Inr plan"
    and no: "\<not> plan_searchBudgetExhausted plan"
    using example_plan by blast
  have "example_demand \<in> set (in_demand example_input)" by (simp add: example_input_def)
  from plan_accounts [OF plan no example_distinct(1,2) this] plan show ?thesis
    by (auto simp: example_demand_def)
qed

text \<open>C20. The search respects its node budget, and a plan that ran out of budget proposes nothing and
  reports exactly the budget as visited nodes.\<close>

theorem plan_within_budget:
  assumes "buildTimetableGenerationPlan lc input = Inr plan"
  shows "plan_searchNodesVisited plan \<le> plan_budget input \<and>
    (plan_searchBudgetExhausted plan \<longrightarrow>
       plan_proposals plan = [] \<and> plan_searchNodesVisited plan = plan_budget input)"
proof -
  have prog: "searchNodesVisited st \<le> plan_budget input \<and>
      (searchBudgetExhausted st \<longrightarrow> plan_budget input \<le> searchNodesVisited st)"
    if "plan_search lc input tasks = Inr st" "int (length tasks) \<le> plan_budget input" for tasks st
    using search_progress [OF that(1)] that(2) by (auto simp: progress_def initial_search_def)
  show ?thesis
    by (cases rule: plan_InrE [OF assms]) (auto dest!: prog)
qed

theorem plan_within_budget_witness:
  "\<exists>plan. buildTimetableGenerationPlan string_compare example_input = Inr plan \<and>
     plan_searchNodesVisited plan \<le> 50000"
proof -
  obtain plan where plan: "buildTimetableGenerationPlan string_compare example_input = Inr plan"
    using example_plan by blast
  have "plan_budget example_input = 50000"
    by (simp add: plan_budget_def example_input_def MAX_TIMETABLE_GENERATION_SEARCH_NODES_def)
  with plan_within_budget [OF plan] plan show ?thesis by auto
qed

lemma demand_loop_total:
  assumes "\<And>d. d \<in> set ds \<Longrightarrow> \<exists>cs. f d = Inr cs"
  shows "\<exists>un ts. demand_loop f ds = Inr (un, ts)"
  using assms
proof (induction ds)
  case (Cons d ds)
  obtain un ts where "demand_loop f ds = Inr (un, ts)" using Cons.IH Cons.prems by force
  moreover obtain cs where "f d = Inr cs" using Cons.prems [of d] by auto
  ultimately show ?case by simp
qed simp

lemma legal_timed:
  assumes "legal_proposal input c"
    and "\<And>p. p \<in> set (in_periods input) \<Longrightarrow> period_timetableConfigId p = in_timetableConfigId input \<Longrightarrow>
      period_isInstructional p \<Longrightarrow> \<exists>r. validateTimetableTimeRange (period_startTime p) (period_endTime p) = Inr r"
  shows "timed c"
proof -
  from assms(1) obtain period where p: "period \<in> set (in_periods input)"
    "period_timetableConfigId period = in_timetableConfigId input" "period_isInstructional period"
    and c: "pr_period c = period"
    unfolding legal_proposal_def by (metis TimetableGenerationProposal.update_convs(1)
        TimetableGenerationProposal.select_convs(15) candidate_for_def)
  from assms(2) [OF p] show ?thesis
    by (simp add: timed_def source_range_def proposalToConflictSource_def c)
qed

lemma generation_tasks_total:
  assumes periods: "\<And>p. p \<in> set (in_periods input) \<Longrightarrow>
      period_timetableConfigId p = in_timetableConfigId input \<Longrightarrow> period_isInstructional p \<Longrightarrow>
      \<exists>r. validateTimetableTimeRange (period_startTime p) (period_endTime p) = Inr r"
    and entries: "\<forall>s \<in> set (active_sources (in_existingTermEntries input)). \<exists>r. source_range s = Inr r"
  shows "\<exists>un tasks. generation_tasks lc input = Inr (un, tasks)"
proof -
  let ?ps = "filter (\<lambda>p. period_timetableConfigId p = in_timetableConfigId input \<and>
    period_isInstructional p) (in_periods input)"
  have "\<exists>ys. mapR (\<lambda>p. andThen (validateTimetableTimeRange (period_startTime p) (period_endTime p))
      (\<lambda>_. Inr p)) ?ps = Inr ys"
    by (rule mapR_total) (use periods in \<open>force simp: andThen_eq_Inr\<close>)
  then obtain qs where per: "generation_periods lc input = Inr qs"
    by (auto simp: generation_periods_def)
  have cands: "\<exists>cs. buildDemandCandidates lc (in_timetableConfigId input) days d qs alloc
      (active_sources (in_existingTermEntries input)) w = Inr cs" for days d alloc w
  proof -
    have "timed c" if "c \<in> set (raw_candidates (in_timetableConfigId input) days d qs alloc)" for c
    proof -
      from that obtain a day p where "p \<in> set qs" "c = candidate_for (in_timetableConfigId input) d a day p"
        unfolding mem_raw_candidates by blast
      then show ?thesis using periods [of p] generation_periods_set [OF per]
        by (auto simp: timed_def source_range_def proposalToConflictSource_def candidate_for_def)
    qed
    then have "\<exists>fs. filterR (not_conflicting lc (active_sources (in_existingTermEntries input)))
        (raw_candidates (in_timetableConfigId input) days d qs alloc) = Inr fs"
      by (intro filterR_total not_conflicting_total entries)
    then show ?thesis by (auto simp: buildDemandCandidates_def)
  qed
  have "\<exists>un ts. demand_loop (\<lambda>d. buildDemandCandidates lc (in_timetableConfigId input)
      (js_sort (\<lambda>l r. l - r) (js_unique (in_activeDays input))) d qs
      (jm_of_entries (map (\<lambda>a. (ta_id a, a)) (in_teacherAllocations input)))
      (active_sources (in_existingTermEntries input))
      (countBy src_teacherUserId (active_sources (in_existingTermEntries input))))
      (js_sort (compareDemandIdentity lc) (in_demand input)) = Inr (un, ts)"
    by (rule demand_loop_total) (rule cands)
  then show ?thesis by (auto simp: generation_tasks_def per Let_def)
qed

text \<open>C21. Generation always returns a plan when the times are well formed: if every instructional period
  of the configuration and every entry that is not cancelled has a valid start and end time, the search
  ends without an exception.\<close>

theorem plan_returns:
  assumes periods: "\<forall>p \<in> set (in_periods input).
      period_timetableConfigId p = in_timetableConfigId input \<and> period_isInstructional p \<longrightarrow>
      (\<exists>r. validateTimetableTimeRange (period_startTime p) (period_endTime p) = Inr r)"
    and entries: "\<forall>e \<in> set (in_existingTermEntries input). entry_status e \<noteq> Entry_CANCELLED \<longrightarrow>
      (\<exists>r. validateTimetableTimeRange (entry_period_startTime e) (entry_period_endTime e) = Inr r)"
  shows "\<exists>plan. buildTimetableGenerationPlan lc input = Inr plan"
proof -
  have ex: "\<forall>s \<in> set (active_sources (in_existingTermEntries input)). \<exists>r. source_range s = Inr r"
    using entries by (auto simp: active_sources_def source_range_def timetableEntryToConflictSource_def)
  obtain un tasks where gt: "generation_tasks lc input = Inr (un, tasks)"
    using generation_tasks_total [OF _ ex] periods by blast
  have "\<forall>t \<in> set tasks. \<forall>c \<in> set (task_candidates t). timed c"
    using task_facts(3) [OF gt] legal_timed periods by blast
  then obtain st where "plan_search lc input tasks = Inr st"
    using search_total [OF ex] by fastforce
  with gt show ?thesis
    by (simp add: buildTimetableGenerationPlan_def plan_budget_def [symmetric] Let_def)
qed

theorem plan_returns_witness:
  "\<exists>plan. buildTimetableGenerationPlan string_compare example_input = Inr plan"
proof (rule plan_returns)
  have "\<not> isl (validateTimetableTimeRange ''08:00'' ''08:45'')"
    "\<not> isl (validateTimetableTimeRange ''08:45'' ''09:30'')" by code_simp+
  then have "\<exists>r. validateTimetableTimeRange ''08:00'' ''08:45'' = Inr r"
    "\<exists>r. validateTimetableTimeRange ''08:45'' ''09:30'' = Inr r"
    by (metis sum.collapse(2))+
  then show "\<forall>p \<in> set (in_periods example_input).
      period_timetableConfigId p = in_timetableConfigId example_input \<and> period_isInstructional p \<longrightarrow>
      (\<exists>r. validateTimetableTimeRange (period_startTime p) (period_endTime p) = Inr r)"
    "\<forall>e \<in> set (in_existingTermEntries example_input). entry_status e \<noteq> Entry_CANCELLED \<longrightarrow>
      (\<exists>r. validateTimetableTimeRange (entry_period_startTime e) (entry_period_endTime e) = Inr r)"
    by (simp_all add: example_input_def example_period_def example_entry_def)
qed

end
