(* ===== verification/Tenant_Scope.thy ===== *)
theory Tenant_Scope
  imports Moazez_Prelude
begin

text \<open>
  Multi-tenancy: the request context (\<open>src/src/common/context/request-context.ts\<close>) and the Prisma
  extension that adds the school and the soft-delete filter to every query
  (\<open>src/src/infrastructure/database/school-scope.extension.ts\<close>).

  A row is a function from column names to values. A \<open>where\<close> object is an association list from
  keys to the predicates its members stand for; Prisma documents that all members of a \<open>where\<close>
  object must hold (\<open>matches\<close>), and that \<open>AND\<close> holds when every listed object does. Spreading
  objects overwrites a key that occurs twice, which is why \<open>mergeWhere\<close> looks for collisions.
\<close>

section \<open>Request context\<close>

record RequestActor =
  actor_id :: string
  actor_userType :: string

record ActiveMembership =
  am_membershipId :: string
  am_schoolId :: "string option"
  am_organizationId :: string
  am_roleId :: string
  am_permissions :: "string list"

record ScopeBypassFlags =
  bypassSchoolScope :: bool
  includeSoftDeleted :: bool

record RequestContext =
  rc_requestId :: string
  rc_actor :: "RequestActor option"
  rc_activeMembership :: "ActiveMembership option"
  rc_bypass :: ScopeBypassFlags

definition createRequestContext :: "string \<Rightarrow> RequestContext" where
  "createRequestContext requestId =
     \<lparr>rc_requestId = requestId, rc_actor = None, rc_activeMembership = None,
      rc_bypass = \<lparr>bypassSchoolScope = False, includeSoftDeleted = False\<rparr>\<rparr>"

text \<open>The setters act on the stored context, if there is one.\<close>

definition setActor :: "RequestActor \<Rightarrow> RequestContext option \<Rightarrow> RequestContext option" where
  "setActor actor = map_option (\<lambda>ctx. ctx\<lparr>rc_actor := Some actor\<rparr>)"

definition setActiveMembership :: "ActiveMembership \<Rightarrow> RequestContext option \<Rightarrow> RequestContext option" where
  "setActiveMembership membership = map_option (\<lambda>ctx. ctx\<lparr>rc_activeMembership := Some membership\<rparr>)"

section \<open>Models and operations\<close>

definition EXCLUDED_FROM_SCHOOL_SCOPE :: "string list" where
  "EXCLUDED_FROM_SCHOOL_SCOPE =
     [''Organization'', ''School'', ''Permission'', ''Session'', ''AuditLog'', ''User'',
      ''RolePermission'']"

definition SCHOOL_SCOPED_MODELS :: "string list" where
  "SCHOOL_SCOPED_MODELS =
     [''Membership'', ''Role'', ''File'', ''FileUploadSession'', ''SchoolAssessmentMediaPolicy'',
      ''AssessmentAnswerUploadIntent'', ''AssessmentAnswerMediaClaim'', ''Attachment'',
      ''ImportJob'', ''SchoolEntitlement'', ''SchoolFeatureControl'', ''SchoolProfile'',
      ''SecuritySetting'', ''SchoolLoginSettings'', ''SchoolEmailConnection'',
      ''SchoolEmailTemplate'', ''SchoolEmailDeliveryBatch'', ''SchoolEmailDeliveryRecipient'',
      ''NotificationTemplate'', ''NotificationTemplateChannelState'', ''IntegrationConnection'',
      ''BackupJob'', ''DismissalSettings'', ''DismissalGate'', ''DismissalStaffAssignment'',
      ''DismissalRequest'', ''DismissalRequestEvent'', ''Lead'', ''Application'',
      ''AdmissionWorkflowPolicy'', ''ApplicationDocument'', ''PlacementTest'', ''Interview'',
      ''AdmissionDecision'', ''Student'', ''Guardian'', ''StudentGuardian'', ''Enrollment'',
      ''StudentBulkRegistrationBatch'', ''StudentBulkRegistrationRow'', ''StudentCredentialBatch'',
      ''StudentCredentialRow'', ''StudentDocument'', ''StudentMedicalProfile'', ''StudentNote'',
      ''AcademicContent'', ''AcademicContentTarget'', ''AcademicContentAsset'',
      ''AcademicContentLink'', ''AcademicContentTag'', ''AcademicContentRevision'',
      ''AcademicContentRevisionTarget'', ''AcademicContentRevisionAsset'',
      ''AcademicContentRevisionLink'', ''AcademicContentRevisionTag'',
      ''AcademicContentPreparationDetail'', ''AcademicContentPreparationTemplate'',
      ''AcademicContentWeeklyPlanDetail'', ''AcademicContentGuardianNoteDetail'',
      ''AcademicContentSubjectResourceDetail'', ''AcademicContentOnlineSessionDetail'',
      ''AcademicContentWeeklyPlanHomeworkReference'',
      ''AcademicContentWeeklyPlanAssessmentReference'', ''AcademicContentFilePolicy'',
      ''AcademicContentWorkflowPolicy'', ''AcademicContentNotificationPolicy'',
      ''AcademicContentApproval'', ''AcademicContentPublication'',
      ''AcademicContentEngagementEvent'', ''AcademicContentEngagementAdmission'',
      ''AcademicContentAcknowledgement'', ''AcademicContentAudienceRecipient'',
      ''AcademicContentAudienceRecipientTarget'', ''AcademicYear'', ''Term'', ''Stage'', ''Grade'',
      ''Section'', ''Classroom'', ''Subject'', ''SubjectAllocation'', ''TeacherSubjectAllocation'',
      ''TeacherProfile'', ''Room'', ''AcademicCalendarEvent'', ''Curriculum'', ''CurriculumUnit'',
      ''CurriculumLesson'', ''LessonContentItem'', ''LessonPlan'', ''LessonPlanItem'',
      ''TimetableConfig'', ''TimetablePeriod'', ''TimetableEntry'', ''TimetablePublication'',
      ''TimetableConflict'', ''AttendancePolicy'', ''AttendanceSession'', ''AttendanceEntry'',
      ''AttendanceExcuseRequest'', ''AttendanceExcuseRequestSession'', ''GradeAssessment'',
      ''GradeAssessmentQuestion'', ''GradeAssessmentQuestionOption'', ''GradeSubmission'',
      ''GradeSubmissionAnswer'', ''GradeSubmissionAnswerOption'', ''GradeItem'', ''GradeRule'',
      ''HomeworkAssignment'', ''HomeworkTarget'', ''HomeworkSubmission'',
      ''HomeworkSubmissionAnswer'', ''HomeworkSubmissionAttachment'', ''HomeworkQuestion'',
      ''HomeworkQuestionAsset'', ''HomeworkQuestionGroup'', ''HomeworkQuestionGroupAsset'',
      ''GradeAssessmentQuestionGroup'', ''GradeAssessmentQuestionGroupAsset'',
      ''GradeAssessmentQuestionAsset'', ''GradeAssessmentAsset'', ''HomeworkAnswerAsset'',
      ''GradeSubmissionAnswerAsset'', ''HomeworkQuestionOption'', ''HomeworkAssignmentAttachment'',
      ''ReinforcementTask'', ''ReinforcementTaskTarget'', ''ReinforcementAssignment'',
      ''ReinforcementTaskStage'', ''ReinforcementSubmission'', ''ReinforcementReview'',
      ''ReinforcementTaskTemplate'', ''ReinforcementTaskTemplateStage'', ''XpPolicy'',
      ''XpLedger'', ''RewardCatalogItem'', ''RewardRedemption'', ''HeroBadge'', ''HeroMission'',
      ''HeroMissionObjective'', ''HeroMissionProgress'', ''HeroMissionObjectiveProgress'',
      ''HeroStudentBadge'', ''HeroJourneyEvent'', ''BehaviorCategory'', ''BehaviorRecord'',
      ''BehaviorPointLedger'', ''CommunicationPolicy'', ''CommunicationConversation'',
      ''CommunicationConversationParticipant'', ''CommunicationConversationInvite'',
      ''CommunicationConversationJoinRequest'', ''CommunicationMessage'',
      ''CommunicationMessageRead'', ''CommunicationMessageDelivery'',
      ''CommunicationMessageReaction'', ''CommunicationMessageAttachment'',
      ''CommunicationMessageReport'', ''CommunicationModerationAction'',
      ''CommunicationUserBlock'', ''CommunicationUserRestriction'', ''CommunicationAnnouncement'',
      ''CommunicationAnnouncementAudience'', ''CommunicationAnnouncementRead'',
      ''CommunicationAnnouncementAttachment'', ''CommunicationNotification'',
      ''CommunicationNotificationDelivery'', ''CommunicationNotificationPushAttempt'',
      ''CommunicationNotificationPreference'', ''AppDeviceToken'', ''DashboardTodo'']"

definition SOFT_DELETE_MODELS :: "string list" where
  "SOFT_DELETE_MODELS =
     [''HomeworkQuestionAsset'', ''HomeworkQuestionGroup'', ''HomeworkQuestionGroupAsset'',
      ''GradeAssessmentQuestionGroup'', ''GradeAssessmentQuestionGroupAsset'',
      ''GradeAssessmentQuestionAsset'', ''GradeAssessmentAsset'', ''HomeworkAnswerAsset'',
      ''GradeSubmissionAnswerAsset'', ''Organization'', ''School'', ''User'', ''TeacherProfile'',
      ''Membership'', ''Role'', ''File'', ''Lead'', ''Application'', ''Student'', ''Guardian'',
      ''Enrollment'', ''AcademicContent'', ''AcademicContentPreparationTemplate'',
      ''AcademicContentAsset'', ''AcademicYear'', ''Term'', ''Stage'', ''Grade'', ''Section'',
      ''Classroom'', ''Subject'', ''SubjectAllocation'', ''Room'', ''AcademicCalendarEvent'',
      ''Curriculum'', ''CurriculumUnit'', ''CurriculumLesson'', ''LessonContentItem'',
      ''LessonPlan'', ''LessonPlanItem'', ''AttendancePolicy'', ''AttendanceSession'',
      ''AttendanceExcuseRequest'', ''GradeAssessment'', ''GradeAssessmentQuestion'',
      ''GradeAssessmentQuestionOption'', ''HomeworkAssignment'', ''HomeworkSubmissionAnswer'',
      ''HomeworkSubmissionAttachment'', ''HomeworkQuestion'', ''HomeworkQuestionOption'',
      ''HomeworkAssignmentAttachment'', ''ReinforcementTask'', ''ReinforcementTaskStage'',
      ''ReinforcementTaskTemplate'', ''ReinforcementTaskTemplateStage'', ''XpPolicy'',
      ''RewardCatalogItem'', ''HeroBadge'', ''HeroMission'', ''HeroMissionObjective'',
      ''BehaviorCategory'', ''BehaviorRecord'', ''CommunicationConversation'',
      ''CommunicationMessageAttachment'', ''DismissalGate'', ''DismissalStaffAssignment'',
      ''DismissalRequest'', ''DashboardTodo'']"

definition READ_OPERATIONS :: "string list" where
  "READ_OPERATIONS =
     [''findUnique'', ''findUniqueOrThrow'', ''findFirst'', ''findFirstOrThrow'', ''findMany'',
      ''count'', ''aggregate'', ''groupBy'']"

definition MUTATION_OPERATIONS :: "string list" where
  "MUTATION_OPERATIONS =
     [''update'', ''updateMany'', ''delete'', ''deleteMany'']"

section \<open>Query arguments\<close>

type_synonym row = "string \<Rightarrow> detail"
type_synonym AnyWhere = "(string, row \<Rightarrow> bool) js_map"

record 'a AnyArgs =
  args_where :: "AnyWhere option"
  args_rest :: 'a

definition matches :: "AnyWhere \<Rightarrow> row \<Rightarrow> bool" where
  "matches w r = list_all (\<lambda>(k, p). p r) w"

definition matches_args :: "'a AnyArgs \<Rightarrow> row \<Rightarrow> bool" where
  "matches_args args r = (case args_where args of None \<Rightarrow> True | Some w \<Rightarrow> matches w r)"

definition mergeWhere :: "AnyWhere option \<Rightarrow> AnyWhere \<Rightarrow> AnyWhere" where
  "mergeWhere base add =
     (case base of
        None \<Rightarrow> add
      | Some b \<Rightarrow>
          if length b = 0 then add
          else
            let hasKeyCollision = list_ex (\<lambda>key. key \<in> set (map fst b)) (map fst add)
            in if \<not> hasKeyCollision then fold (\<lambda>(k, v). jm_set k v) add b
               else [(''AND'', \<lambda>r. matches b r \<and> matches add r)])"

definition injectSchoolScope :: "'a AnyArgs \<Rightarrow> string \<Rightarrow> 'a AnyArgs" where
  "injectSchoolScope args schoolId =
     args\<lparr>args_where := Some (mergeWhere (args_where args) [(''schoolId'', \<lambda>r. r ''schoolId'' = DStr schoolId)])\<rparr>"

definition injectSoftDeleteFilter :: "'a AnyArgs \<Rightarrow> 'a AnyArgs" where
  "injectSoftDeleteFilter args =
     args\<lparr>args_where := Some (mergeWhere (args_where args) [(''deletedAt'', \<lambda>r. r ''deletedAt'' = DNull)])\<rparr>"

text \<open>\<open>ctx.activeMembership?.schoolId\<close>\<close>

definition active_school :: "RequestContext \<Rightarrow> string option" where
  "active_school ctx = Option.bind (rc_activeMembership ctx) am_schoolId"

text \<open>The arguments \<open>schoolScopeExtension\<close> hands on to \<open>query\<close>.\<close>

definition schoolScopeExtension ::
  "RequestContext option \<Rightarrow> string \<Rightarrow> string \<Rightarrow> 'a AnyArgs \<Rightarrow> 'a AnyArgs" where
  "schoolScopeExtension ctx model operation args =
     (let isRead = operation \<in> set READ_OPERATIONS;
          isMutation = operation \<in> set MUTATION_OPERATIONS
      in if \<not> isRead \<and> \<not> isMutation then args
         else
           let scoped =
                 (case ctx of
                    None \<Rightarrow> args
                  | Some c \<Rightarrow>
                      if \<not> bypassSchoolScope (rc_bypass c) \<and> truthy (active_school c) \<and>
                         model \<in> set SCHOOL_SCOPED_MODELS \<and> model \<notin> set EXCLUDED_FROM_SCHOOL_SCOPE
                      then injectSchoolScope args (the (active_school c))
                      else args);
               includeDeleted = (case ctx of None \<Rightarrow> False | Some c \<Rightarrow> includeSoftDeleted (rc_bypass c))
           in if \<not> includeDeleted \<and> isRead \<and> model \<in> set SOFT_DELETE_MODELS
              then injectSoftDeleteFilter scoped
              else scoped)"

section \<open>Bypass flags across asynchronous calls\<close>

text \<open>
  \<open>withBypassSchoolScope\<close> (and, with the other flag, \<open>withSoftDeleted\<close>) saves the flag, sets it,
  awaits its callback and restores the saved value. Between the two halves other calls of the same
  request run, so a request is a sequence of enter and exit events of numbered calls.
\<close>

datatype bypass_event = Enter nat | Exit nat

record bypass_state =
  flag :: bool
  previous :: "nat \<Rightarrow> bool"

fun bypass_step :: "bypass_event \<Rightarrow> bypass_state \<Rightarrow> bypass_state" where
  "bypass_step (Enter call) st = st\<lparr>flag := True, previous := (previous st)(call := flag st)\<rparr>"
| "bypass_step (Exit call) st = st\<lparr>flag := previous st call\<rparr>"

definition bypass_run :: "bypass_event list \<Rightarrow> bypass_state \<Rightarrow> bypass_state" where
  "bypass_run events st = fold bypass_step events st"

fun event_call :: "bypass_event \<Rightarrow> nat" where
  "event_call (Enter call) = call"
| "event_call (Exit call) = call"

text \<open>Properly nested calls, as sequential awaits produce them.\<close>

inductive nested :: "bypass_event list \<Rightarrow> bool" where
  nested_Nil: "nested []"
| nested_call: "nested es \<Longrightarrow> call \<notin> event_call ` set es \<Longrightarrow> nested (Enter call # es @ [Exit call])"
| nested_seq: "nested es \<Longrightarrow> nested fs \<Longrightarrow> nested (es @ fs)"

section \<open>Lemmas\<close>

lemma matches_simps [simp]:
  "matches [] r" "matches ((k, p) # w) r \<longleftrightarrow> p r \<and> matches w r"
  "matches (w @ v) r \<longleftrightarrow> matches w r \<and> matches v r"
  by (simp_all add: matches_def)

lemma matches_update: "k \<notin> fst ` set w \<Longrightarrow> matches (jm_set k p w) r \<longleftrightarrow> matches w r \<and> p r"
  by (induction w) (auto split: if_splits)

lemma mergeWhere_matches:
  "matches (mergeWhere base [(k, p)]) r \<longleftrightarrow> (case base of None \<Rightarrow> True | Some b \<Rightarrow> matches b r) \<and> p r"
  by (auto simp: mergeWhere_def matches_update split: option.splits)

lemma injectSchoolScope_matches:
  "matches_args (injectSchoolScope args s) r \<longleftrightarrow> matches_args args r \<and> r ''schoolId'' = DStr s"
  by (simp add: matches_args_def injectSchoolScope_def mergeWhere_matches)

lemma injectSoftDeleteFilter_matches:
  "matches_args (injectSoftDeleteFilter args) r \<longleftrightarrow> matches_args args r \<and> r ''deletedAt'' = DNull"
  by (simp add: matches_args_def injectSoftDeleteFilter_def mergeWhere_matches)

lemma scoped_not_excluded: "model \<in> set SCHOOL_SCOPED_MODELS \<Longrightarrow> model \<notin> set EXCLUDED_FROM_SCHOOL_SCOPE"
proof -
  have "\<forall>m \<in> set SCHOOL_SCOPED_MODELS. m \<notin> set EXCLUDED_FROM_SCHOOL_SCOPE" by code_simp
  then show "model \<in> set SCHOOL_SCOPED_MODELS \<Longrightarrow> model \<notin> set EXCLUDED_FROM_SCHOOL_SCOPE" by blast
qed

lemma nested_previous:
  "nested es \<Longrightarrow> call \<notin> event_call ` set es \<Longrightarrow> previous (bypass_run es st) call = previous st call"
proof -
  have "call \<notin> event_call ` set es \<Longrightarrow> previous (fold bypass_step es st) call = previous st call" for es st
  proof (induction es arbitrary: st)
    case (Cons e es)
    then show ?case by (cases e) auto
  qed simp
  then show "call \<notin> event_call ` set es \<Longrightarrow> previous (bypass_run es st) call = previous st call"
    by (simp add: bypass_run_def)
qed

lemma nested_flag: "nested es \<Longrightarrow> flag (bypass_run es st) = flag st"
proof (induction es arbitrary: st rule: nested.induct)
  case (nested_call es call)
  let ?mid = "bypass_run es (bypass_step (Enter call) st)"
  have "previous ?mid call = flag st"
    using nested_previous [OF nested_call.hyps] by simp
  then show ?case by (simp add: bypass_run_def)
qed (simp_all add: bypass_run_def)

section \<open>Properties\<close>

text \<open>C9. Tenant isolation: for a request with an active school and no bypass, every read, update and
  delete on a school-scoped model is restricted to exactly the rows that satisfy the caller's own
  conditions, belong to that school and, for reads of a soft-deletable model without opt-out, are not
  deleted. No \<open>where\<close> of the caller, not even one that names another school, can widen it.\<close>

theorem tenant_isolation:
  assumes "active_school ctx = Some school" "school \<noteq> []" "\<not> bypassSchoolScope (rc_bypass ctx)"
    and "model \<in> set SCHOOL_SCOPED_MODELS"
    and op: "operation \<in> set READ_OPERATIONS \<union> set MUTATION_OPERATIONS"
  shows "matches_args (schoolScopeExtension (Some ctx) model operation args) r \<longleftrightarrow>
    matches_args args r \<and> r ''schoolId'' = DStr school \<and>
    (operation \<in> set READ_OPERATIONS \<and> model \<in> set SOFT_DELETE_MODELS \<and>
       \<not> includeSoftDeleted (rc_bypass ctx) \<longrightarrow> r ''deletedAt'' = DNull)"
proof -
  have "operation \<in> set READ_OPERATIONS \<or> operation \<in> set MUTATION_OPERATIONS" using op by blast
  then show ?thesis
    using assms(1-4) scoped_not_excluded [OF assms(4)]
    by (auto simp: schoolScopeExtension_def Let_def injectSchoolScope_matches
        injectSoftDeleteFilter_matches)
qed

definition example_scope :: RequestContext where
  "example_scope = (createRequestContext ''r'')\<lparr>rc_activeMembership := Some
     \<lparr>am_membershipId = ''m'', am_schoolId = Some ''A'', am_organizationId = ''o'', am_roleId = ''role'',
      am_permissions = []\<rparr>\<rparr>"

theorem tenant_isolation_witness:
  "\<not> matches_args (schoolScopeExtension (Some example_scope) ''Student'' ''findMany''
        \<lparr>args_where = Some [(''schoolId'', \<lambda>r. r ''schoolId'' = DStr ''B'')], args_rest = ()\<rparr>)
      ((\<lambda>_. DNull)(''schoolId'' := DStr ''B''))"
proof -
  have act: "active_school example_scope = Some ''A''" "\<not> bypassSchoolScope (rc_bypass example_scope)"
    by (simp_all add: example_scope_def active_school_def createRequestContext_def)
  have mem: "''Student'' \<in> set SCHOOL_SCOPED_MODELS" by code_simp
  have op: "''findMany'' \<in> set READ_OPERATIONS \<union> set MUTATION_OPERATIONS" by code_simp
  have ne: "''A'' \<noteq> ([] :: string)" "''B'' \<noteq> ''A''" by simp_all
  show ?thesis
    unfolding tenant_isolation [OF act(1) ne(1) act(2) mem op] using ne(2) by simp
qed

text \<open>A write through the scoped client is not protected by the soft-delete filter: an update or
  delete reaches a deleted row whenever the caller's conditions do.\<close>

theorem mutation_reaches_deleted_rows:
  assumes "operation \<in> set MUTATION_OPERATIONS"
  shows "matches_args (schoolScopeExtension ctx model operation args) r \<longleftrightarrow>
    matches_args args r \<and>
    (case ctx of None \<Rightarrow> True
     | Some c \<Rightarrow> \<not> bypassSchoolScope (rc_bypass c) \<and> truthy (active_school c) \<and>
         model \<in> set SCHOOL_SCOPED_MODELS \<longrightarrow> r ''schoolId'' = DStr (the (active_school c)))"
proof -
  have "\<forall>op \<in> set MUTATION_OPERATIONS. op \<notin> set READ_OPERATIONS" by code_simp
  then show ?thesis
    using assms scoped_not_excluded [of model]
    by (auto simp: schoolScopeExtension_def Let_def injectSchoolScope_matches split: option.split)
qed

theorem mutation_reaches_deleted_rows_witness:
  "matches_args (schoolScopeExtension (Some example_scope) ''Student'' ''updateMany''
        \<lparr>args_where = None, args_rest = ()\<rparr>)
      ((\<lambda>_. DNull)(''schoolId'' := DStr ''A'', ''deletedAt'' := DDate 5))"
proof -
  have "''updateMany'' \<in> set MUTATION_OPERATIONS" by code_simp
  then show ?thesis
    by (subst mutation_reaches_deleted_rows)
      (simp_all add: matches_args_def example_scope_def active_school_def createRequestContext_def)
qed

text \<open>Calls of \<open>withBypassSchoolScope\<close> that are properly nested leave the flag as they found it.\<close>

theorem nested_bypass_restores:
  assumes "nested es"
  shows "flag (bypass_run es st) = flag st"
  using assms by (rule nested_flag)

theorem nested_bypass_restores_witness:
  "flag (bypass_run [Enter 1, Enter 2, Exit 2, Exit 1] \<lparr>flag = False, previous = (\<lambda>_. False)\<rparr>) = False"
proof -
  have "nested (Enter 2 # [] @ [Exit 2])" by (rule nested_call [OF nested_Nil]) simp
  then have "nested (Enter 1 # (Enter 2 # [] @ [Exit 2]) @ [Exit 1])" by (rule nested_call) simp
  from nested_bypass_restores [OF this] show ?thesis by simp
qed

text \<open>C25. Two overlapping calls (as \<open>Promise.all\<close> starts them) where the first to enter also finishes
  first leave the bypass flag set after both have finished, whatever it was before: the second call has
  saved the value the first one set.\<close>

theorem overlapping_bypass_leaks:
  assumes "a \<noteq> b"
  shows "flag (bypass_run [Enter a, Enter b, Exit a, Exit b] st)"
  using assms by (simp add: bypass_run_def)

theorem overlapping_bypass_leaks_witness:
  "flag (bypass_run [Enter 1, Enter 2, Exit 1, Exit 2] \<lparr>flag = False, previous = (\<lambda>_. False)\<rparr>)"
  using overlapping_bypass_leaks [of 1 2] by simp

end
