(* ===== verification/Enum_Values.thy ===== *)
theory Enum_Values
  imports Moazez_Prelude
begin

text \<open>
  Normalisation of enum values, of which several domain modules carry the same copy
  (\<open>normalizeEnumValue\<close>): trim, look up an alias, then try the upper-cased text. An alias table is an
  object literal, so the lookup \<open>aliases[key]\<close> also finds what the literal inherits from
  \<open>Object.prototype\<close>; a value of type \<open>js_value\<close> is therefore a string or an inherited member.
\<close>

datatype js_value = JStr string | JInherited string

definition js_truthy :: "js_value \<Rightarrow> bool" where
  "js_truthy v = (case v of JStr s \<Rightarrow> s \<noteq> [] | JInherited _ \<Rightarrow> True)"

definition js_String :: "js_value \<Rightarrow> string" where
  "js_String v =
     (case v of
        JStr s \<Rightarrow> s
      | JInherited k \<Rightarrow>
          if k = ''__proto__'' then ''[object Object]''
          else if k = ''constructor'' then ''function Object() { [native code] }''
          else ''function '' @ k @ ''() { [native code] }'')"

definition detail_of_js_value :: "js_value \<Rightarrow> detail" where
  "detail_of_js_value v = (case v of JStr s \<Rightarrow> DStr s | JInherited k \<Rightarrow> DInherited k)"

text \<open>The names every object literal inherits.\<close>

definition object_prototype_keys :: "string list" where
  "object_prototype_keys =
     [''constructor'', ''__defineGetter__'', ''__defineSetter__'', ''hasOwnProperty'',
      ''__lookupGetter__'', ''__lookupSetter__'', ''isPrototypeOf'', ''propertyIsEnumerable'',
      ''toString'', ''valueOf'', ''__proto__'', ''toLocaleString'']"

definition alias_get :: "(string \<times> string) list \<Rightarrow> string \<Rightarrow> js_value option" where
  "alias_get aliases key =
     (case map_of aliases key of
        Some v \<Rightarrow> Some (JStr v)
      | None \<Rightarrow> if key \<in> set object_prototype_keys then Some (JInherited key) else None)"

text \<open>\<open>normalized.replace(/[-\s]/g, '_').toLowerCase()\<close> and \<open>aliasKey.replace(/_/g, '')\<close>\<close>

definition alias_key :: "string \<Rightarrow> string" where
  "alias_key s = toLowerCase (map (\<lambda>c. if c = CHR ''-'' \<or> js_space c then CHR ''_'' else c) s)"

definition without_underscores :: "string \<Rightarrow> string" where
  "without_underscores s = filter (\<lambda>c. c \<noteq> CHR ''_'') s"

definition normalizeNullableText :: "js_value option \<Rightarrow> string option" where
  "normalizeNullableText v = trimmed_or_null (map_option js_String v)"

definition normalizeEnumValue ::
  "js_value option \<Rightarrow> (string \<times> string) list \<Rightarrow> string list \<Rightarrow> string \<Rightarrow>
   ((string \<times> detail) list \<Rightarrow> js_exception) option \<Rightarrow> js_value result" where
  "normalizeEnumValue input aliases values field invalidException =
     (case normalizeNullableText input of
        None \<Rightarrow> Inl (ValidationDomainException ''Enum value is required'' [(''field'', DStr field)])
      | Some normalized \<Rightarrow>
          let aliasKey = alias_key normalized;
              alias = (case alias_get aliases aliasKey of
                         Some v \<Rightarrow> Some v
                       | None \<Rightarrow> alias_get aliases (without_underscores aliasKey))
          in if (case alias of None \<Rightarrow> False | Some v \<Rightarrow> js_truthy v) then Inr (the alias)
             else
               let enumValue = toUpperCase normalized
               in if enumValue \<in> set values then Inr (JStr enumValue)
                  else
                    let details = [(''field'', DStr field),
                                   (''value'', case input of None \<Rightarrow> DNull | Some v \<Rightarrow> detail_of_js_value v)]
                    in Inl (case invalidException of
                              Some f \<Rightarrow> f details
                            | None \<Rightarrow> ValidationDomainException ''Enum value is invalid'' details))"

section \<open>Lemmas\<close>

text \<open>Of the inherited names only two consist of characters that survive lower-casing.\<close>

lemma lower_inherited:
  "toLowerCase s \<in> set object_prototype_keys \<Longrightarrow> toLowerCase s = ''constructor'' \<or> toLowerCase s = ''__proto__''"
proof -
  have idem: "toLowerCase (toLowerCase s) = toLowerCase s"
    by (auto simp: toLowerCase_def char_lower_def Let_def)
  have "\<forall>k \<in> set object_prototype_keys. toLowerCase k = k \<longrightarrow> k = ''constructor'' \<or> k = ''__proto__''"
    by code_simp
  with idem show "toLowerCase s \<in> set object_prototype_keys \<Longrightarrow> ?thesis" by blast
qed

lemma without_underscores_lower:
  "toLowerCase (without_underscores (toLowerCase s)) = without_underscores (toLowerCase s)"
  by (induction s) (auto simp: toLowerCase_def without_underscores_def char_lower_def Let_def)

text \<open>The result is an enum value of the table or the list, or one of the two inherited members.\<close>

lemma normalizeEnumValue_InrD:
  assumes "normalizeEnumValue input aliases values field exc = Inr v"
  shows "(\<exists>s. v = JStr s \<and> s \<in> snd ` set aliases \<union> set values) \<or>
    v = JInherited ''constructor'' \<or> v = JInherited ''__proto__''"
proof -
  have get: "(\<exists>s. w = JStr s \<and> s \<in> snd ` set aliases) \<or> w = JInherited ''constructor'' \<or> w = JInherited ''__proto__''"
    if "alias_get aliases k = Some w" "toLowerCase k = k" for k w
    using that lower_inherited [of k]
    by (force simp: alias_get_def image_iff split: option.splits if_splits dest!: map_of_SomeD)
  have idem: "toLowerCase (alias_key s) = alias_key s" for s
    by (auto simp: alias_key_def toLowerCase_def char_lower_def Let_def)
  from assms obtain n where n: "normalizeNullableText input = Some n"
    by (auto simp: normalizeEnumValue_def split: option.splits)
  have low: "toLowerCase (without_underscores (alias_key n)) = without_underscores (alias_key n)"
    using without_underscores_lower unfolding alias_key_def by blast
  show ?thesis
    using assms n get [OF _ idem] get [OF _ low]
    by (fastforce simp: normalizeEnumValue_def Let_def split: option.splits if_splits)
qed

end
