(* ===== verification/Reward_Domain.thy ===== *)
theory Reward_Domain
  imports Enum_Values
begin

text \<open>
  Domain rules of reward redemptions
  (\<open>src/src/modules/reinforcement/rewards/domain/reward-redemptions-domain.ts\<close>): exceptions, enum
  normalisation, guards of the state machine, eligibility snapshots.
\<close>

section \<open>Enums\<close>

datatype RewardRedemptionStatus = REQUESTED | APPROVED | REJECTED | FULFILLED | CANCELLED

fun redemption_status_name :: "RewardRedemptionStatus \<Rightarrow> string" where
  "redemption_status_name REQUESTED = ''REQUESTED''"
| "redemption_status_name APPROVED = ''APPROVED''"
| "redemption_status_name REJECTED = ''REJECTED''"
| "redemption_status_name FULFILLED = ''FULFILLED''"
| "redemption_status_name CANCELLED = ''CANCELLED''"

datatype RewardCatalogItemStatus = Item_DRAFT | Item_PUBLISHED | Item_ARCHIVED

fun catalog_status_name :: "RewardCatalogItemStatus \<Rightarrow> string" where
  "catalog_status_name Item_DRAFT = ''DRAFT''"
| "catalog_status_name Item_PUBLISHED = ''PUBLISHED''"
| "catalog_status_name Item_ARCHIVED = ''ARCHIVED''"

section \<open>Exceptions\<close>

definition RewardNotPublishedException :: "(string \<times> detail) list \<Rightarrow> js_exception" where
  "RewardNotPublishedException details = DomainException ''reinforcement.reward.not_published''
     ''Reward catalog item must be published first'' 409 details"

definition RewardArchivedForRequestException :: "(string \<times> detail) list \<Rightarrow> js_exception" where
  "RewardArchivedForRequestException details = DomainException ''reinforcement.reward.archived''
     ''Reward catalog item is archived'' 409 details"

definition RewardOutOfStockException :: "(string \<times> detail) list \<Rightarrow> js_exception" where
  "RewardOutOfStockException details = DomainException ''reinforcement.reward.out_of_stock''
     ''Reward catalog item is out of stock'' 409 details"

definition RewardInsufficientXpException :: "(string \<times> detail) list \<Rightarrow> js_exception" where
  "RewardInsufficientXpException details = DomainException ''reinforcement.reward.insufficient_xp''
     ''Student does not meet the XP eligibility requirement'' 422 details"

definition RewardDuplicateRedemptionException :: "(string \<times> detail) list \<Rightarrow> js_exception" where
  "RewardDuplicateRedemptionException details =
     DomainException ''reinforcement.reward.duplicate_redemption''
     ''Student already has an open redemption for this reward'' 409 details"

definition RewardInvalidStatusTransitionException :: "(string \<times> detail) list \<Rightarrow> js_exception" where
  "RewardInvalidStatusTransitionException details =
     DomainException ''reinforcement.reward.invalid_status_transition''
     ''Reward status transition is invalid'' 409 details"

definition RewardRedemptionNotRequestedException :: "(string \<times> detail) list \<Rightarrow> js_exception" where
  "RewardRedemptionNotRequestedException details =
     DomainException ''reinforcement.redemption.not_requested''
     ''Reward redemption must be requested first'' 409 details"

definition RewardRedemptionNotApprovedException :: "(string \<times> detail) list \<Rightarrow> js_exception" where
  "RewardRedemptionNotApprovedException details =
     DomainException ''reinforcement.redemption.not_approved''
     ''Reward redemption must be approved first'' 409 details"

definition RewardRedemptionTerminalException :: "(string \<times> detail) list \<Rightarrow> js_exception" where
  "RewardRedemptionTerminalException details = DomainException ''reinforcement.redemption.terminal''
     ''Reward redemption is already in a terminal state'' 409 details"

definition RewardRedemptionInvalidSourceException :: "(string \<times> detail) list \<Rightarrow> js_exception" where
  "RewardRedemptionInvalidSourceException details =
     DomainException ''reinforcement.redemption.invalid_source''
     ''Reward redemption request source is invalid'' 422 details"

section \<open>Normalisation\<close>

definition STATUS_ALIASES :: "(string \<times> string) list" where
  "STATUS_ALIASES =
     [(''requested'', ''REQUESTED''), (''approved'', ''APPROVED''), (''rejected'', ''REJECTED''),
      (''fulfilled'', ''FULFILLED''), (''cancelled'', ''CANCELLED''), (''canceled'', ''CANCELLED'')]"

definition REQUEST_SOURCE_ALIASES :: "(string \<times> string) list" where
  "REQUEST_SOURCE_ALIASES =
     [(''dashboard'', ''DASHBOARD''), (''teacher'', ''TEACHER''), (''student_app'', ''STUDENT_APP''),
      (''studentapp'', ''STUDENT_APP''), (''parent_app'', ''PARENT_APP''),
      (''parentapp'', ''PARENT_APP''), (''system'', ''SYSTEM'')]"

definition normalizeRewardRedemptionStatus :: "js_value option \<Rightarrow> js_value result" where
  "normalizeRewardRedemptionStatus input =
     normalizeEnumValue input STATUS_ALIASES
       [''REQUESTED'', ''APPROVED'', ''REJECTED'', ''FULFILLED'', ''CANCELLED''] ''status'' None"

definition normalizeRewardRedemptionRequestSource ::
  "js_value option \<Rightarrow> js_value \<Rightarrow> js_value result" where
  "normalizeRewardRedemptionRequestSource input fallback =
     (case normalizeNullableText input of
        None \<Rightarrow> Inr fallback
      | Some normalized \<Rightarrow>
          normalizeEnumValue (Some (JStr normalized)) REQUEST_SOURCE_ALIASES
            [''DASHBOARD'', ''TEACHER'', ''STUDENT_APP'', ''PARENT_APP'', ''SYSTEM''] ''requestSource''
            (Some RewardRedemptionInvalidSourceException))"

definition normalizeCatalogStatus :: "js_value option \<Rightarrow> js_value result" where
  "normalizeCatalogStatus input =
     normalizeEnumValue input
       [(''draft'', ''DRAFT''), (''published'', ''PUBLISHED''), (''archived'', ''ARCHIVED'')]
       [''DRAFT'', ''PUBLISHED'', ''ARCHIVED''] ''catalogItemStatus'' None"

section \<open>Guards\<close>

definition assertRewardRequestable ::
  "string \<Rightarrow> js_value \<Rightarrow> int option \<Rightarrow> unit result" where
  "assertRewardRequestable itemId itemStatus deletedAt =
     andThen (normalizeCatalogStatus (Some itemStatus)) (\<lambda>status.
       if deletedAt \<noteq> None \<or> status = JStr ''ARCHIVED''
       then Inl (RewardArchivedForRequestException [(''catalogItemId'', DStr itemId)])
       else if status \<noteq> JStr ''PUBLISHED''
       then Inl (RewardNotPublishedException
              [(''catalogItemId'', DStr itemId), (''status'', detail_of_js_value status)])
       else Inr ())"

definition assertRewardStockAvailableForRequest ::
  "string \<Rightarrow> bool \<Rightarrow> int option \<Rightarrow> unit result" where
  "assertRewardStockAvailableForRequest itemId isUnlimited stockRemaining =
     (if isUnlimited then Inr ()
      else if (case stockRemaining of None \<Rightarrow> 0 | Some n \<Rightarrow> n) \<le> 0
      then Inl (RewardOutOfStockException
             [(''catalogItemId'', DStr itemId), (''stockRemaining'', detail_of_int_option stockRemaining)])
      else Inr ())"

definition assertApprovalStockAvailable :: "string \<Rightarrow> bool \<Rightarrow> int option \<Rightarrow> unit result" where
  "assertApprovalStockAvailable itemId isUnlimited stockRemaining =
     assertRewardStockAvailableForRequest itemId isUnlimited stockRemaining"

definition assertRewardEligibility ::
  "string \<Rightarrow> string \<Rightarrow> int option \<Rightarrow> int \<Rightarrow> unit result" where
  "assertRewardEligibility catalogItemId studentId minTotalXp totalEarnedXp =
     (case minTotalXp of
        None \<Rightarrow> Inr ()
      | Some m \<Rightarrow>
          if totalEarnedXp < m
          then Inl (RewardInsufficientXpException
                 [(''catalogItemId'', DStr catalogItemId), (''studentId'', DStr studentId),
                  (''minTotalXp'', DInt m), (''totalEarnedXp'', DInt totalEarnedXp)])
          else Inr ())"

definition isRedemptionOpen :: "js_value \<Rightarrow> bool result" where
  "isRedemptionOpen status =
     andThen (normalizeRewardRedemptionStatus (Some status)) (\<lambda>normalized.
       Inr (normalized \<in> {JStr ''REQUESTED'', JStr ''APPROVED''}))"

definition isRedemptionTerminal :: "js_value \<Rightarrow> bool result" where
  "isRedemptionTerminal status =
     andThen (normalizeRewardRedemptionStatus (Some status)) (\<lambda>normalized.
       Inr (normalized \<in> {JStr ''REJECTED'', JStr ''FULFILLED'', JStr ''CANCELLED''}))"

text \<open>The common shape of the four guards: terminal first, then the expected status.\<close>

definition assertRedemptionIn ::
  "string \<Rightarrow> ((string \<times> detail) list \<Rightarrow> js_exception) \<Rightarrow> (string \<times> detail) list \<Rightarrow> string \<Rightarrow>
   js_value \<Rightarrow> unit result" where
  "assertRedemptionIn expected exception extra redemptionId status =
     andThen (normalizeRewardRedemptionStatus (Some status)) (\<lambda>normalized.
     andThen (isRedemptionTerminal normalized) (\<lambda>terminal.
       let details = [(''redemptionId'', DStr redemptionId), (''status'', detail_of_js_value normalized)]
       in if terminal then Inl (RewardRedemptionTerminalException details)
          else if normalized \<noteq> JStr expected then Inl (exception (details @ extra))
          else Inr ()))"

definition assertRedemptionCancellable :: "string \<Rightarrow> js_value \<Rightarrow> unit result" where
  "assertRedemptionCancellable = assertRedemptionIn ''REQUESTED'' RewardRedemptionNotRequestedException []"

definition assertRedemptionApprovable :: "string \<Rightarrow> js_value \<Rightarrow> unit result" where
  "assertRedemptionApprovable = assertRedemptionIn ''REQUESTED'' RewardInvalidStatusTransitionException
     [(''expectedStatus'', DStr ''REQUESTED'')]"

definition assertRedemptionRejectable :: "string \<Rightarrow> js_value \<Rightarrow> unit result" where
  "assertRedemptionRejectable = assertRedemptionIn ''REQUESTED'' RewardInvalidStatusTransitionException
     [(''expectedStatus'', DStr ''REQUESTED'')]"

definition assertRedemptionFulfillable :: "string \<Rightarrow> js_value \<Rightarrow> unit result" where
  "assertRedemptionFulfillable = assertRedemptionIn ''APPROVED'' RewardRedemptionNotApprovedException []"

definition assertRewardStillRequestableForApproval ::
  "string \<Rightarrow> js_value \<Rightarrow> int option \<Rightarrow> bool \<Rightarrow> int option \<Rightarrow> unit result" where
  "assertRewardStillRequestableForApproval itemId status deletedAt isUnlimited stockRemaining =
     andThen (assertRewardRequestable itemId status deletedAt) (\<lambda>_.
       assertApprovalStockAvailable itemId isUnlimited stockRemaining)"

section \<open>Snapshots\<close>

text \<open>\<open>value.toLowerCase()\<close>: an inherited member has no such method.\<close>

definition js_toLowerCase :: "js_value \<Rightarrow> string result" where
  "js_toLowerCase v =
     (case v of JStr s \<Rightarrow> Inr (toLowerCase s)
      | JInherited _ \<Rightarrow> Inl (JsError ''normalizeCatalogStatus(...).toLowerCase is not a function''))"

definition buildEligibilitySnapshot ::
  "js_value \<Rightarrow> int option \<Rightarrow> int \<Rightarrow> bool \<Rightarrow> int option \<Rightarrow> json_object result" where
  "buildEligibilitySnapshot catalogItemStatus minTotalXp totalEarnedXp isUnlimited stockRemaining =
     (let stockAvailable = isUnlimited \<or> (case stockRemaining of None \<Rightarrow> 0 | Some n \<Rightarrow> n) > 0;
          eligible = (case minTotalXp of None \<Rightarrow> True | Some m \<Rightarrow> totalEarnedXp \<ge> m)
      in andThen (normalizeCatalogStatus (Some catalogItemStatus)) (\<lambda>status.
         andThen (js_toLowerCase status) (\<lambda>lower.
           Inr [(''minTotalXp'', detail_of_int_option minTotalXp),
                (''totalEarnedXp'', DInt (max 0 totalEarnedXp)),
                (''eligible'', DBool eligible),
                (''stockAvailable'', DBool stockAvailable),
                (''isUnlimited'', DBool isUnlimited),
                (''stockRemaining'', detail_of_int_option stockRemaining),
                (''catalogItemStatus'', DStr lower)])))"

definition deriveStockAfterApproval :: "bool \<Rightarrow> int option \<Rightarrow> int option" where
  "deriveStockAfterApproval isUnlimited stockRemaining =
     (if isUnlimited then stockRemaining
      else Some (max 0 ((case stockRemaining of None \<Rightarrow> 0 | Some n \<Rightarrow> n) - 1)))"

definition buildApprovalEligibilitySnapshot ::
  "json_object option \<Rightarrow> js_value \<Rightarrow> int option \<Rightarrow> int \<Rightarrow> bool \<Rightarrow> int option \<Rightarrow> int option \<Rightarrow> int \<Rightarrow>
   json_object result" where
  "buildApprovalEligibilitySnapshot previousSnapshot catalogItemStatus minTotalXp totalEarnedXp
       isUnlimited stockRemainingBeforeApproval stockRemainingAfterApproval approvedAt =
     andThen (normalizeCatalogStatus (Some catalogItemStatus)) (\<lambda>status.
     andThen (js_toLowerCase status) (\<lambda>lower.
       Inr (fold (\<lambda>(k, v). jm_set k v)
              [(''minTotalXp'', detail_of_int_option minTotalXp),
               (''totalEarnedXp'', DInt (max 0 totalEarnedXp)),
               (''eligible'', DBool True),
               (''stockAvailable'', DBool True),
               (''isUnlimited'', DBool isUnlimited),
               (''stockRemaining'', detail_of_int_option stockRemainingAfterApproval),
               (''stockRemainingBeforeApproval'', detail_of_int_option stockRemainingBeforeApproval),
               (''stockRemainingAfterApproval'', detail_of_int_option stockRemainingAfterApproval),
               (''catalogItemStatus'', DStr lower),
               (''approvedAt'', DDate approvedAt)]
              (case previousSnapshot of None \<Rightarrow> [] | Some s \<Rightarrow> s))))"

definition getCount :: "(string, int) js_map \<Rightarrow> string \<Rightarrow> int" where
  "getCount counts status =
     (case jm_get counts status of
        Some n \<Rightarrow> n
      | None \<Rightarrow> get_or counts (toLowerCase status) 0)"

definition summarizeRedemptionStatusCounts :: "(string, int) js_map \<Rightarrow> (string \<times> int) list" where
  "summarizeRedemptionStatusCounts counts =
     [(''requested'', getCount counts ''REQUESTED''), (''approved'', getCount counts ''APPROVED''),
      (''rejected'', getCount counts ''REJECTED''), (''fulfilled'', getCount counts ''FULFILLED''),
      (''cancelled'', getCount counts ''CANCELLED'')]"

definition assertRedemptionRequestedDateRange :: "int option \<Rightarrow> int option \<Rightarrow> unit result" where
  "assertRedemptionRequestedDateRange requestedFrom requestedTo =
     (case (requestedFrom, requestedTo) of
        (Some f, Some t) \<Rightarrow>
          if f > t
          then Inl (ValidationDomainException ''Requested date range is invalid''
                 [(''field'', DStr ''requestedFrom''), (''requestedFrom'', DDate f), (''requestedTo'', DDate t)])
          else Inr ()
      | _ \<Rightarrow> Inr ())"

definition isUniqueConstraintError :: "js_exception \<Rightarrow> bool" where
  "isUniqueConstraintError error =
     (case error of
        PrismaError code \<Rightarrow> code = ''P2002''
      | DomainException code _ _ _ \<Rightarrow> code = ''P2002''
      | JsError _ \<Rightarrow> False)"

section \<open>Lemmas\<close>

text \<open>A status read from the database is normalised to itself.\<close>

lemma normalize_status_name [simp]:
  "normalizeRewardRedemptionStatus (Some (JStr (redemption_status_name st))) =
     Inr (JStr (redemption_status_name st))"
proof -
  have "normalizeRewardRedemptionStatus (Some (JStr (redemption_status_name REQUESTED))) = Inr (JStr ''REQUESTED'')"
    "normalizeRewardRedemptionStatus (Some (JStr (redemption_status_name APPROVED))) = Inr (JStr ''APPROVED'')"
    "normalizeRewardRedemptionStatus (Some (JStr (redemption_status_name REJECTED))) = Inr (JStr ''REJECTED'')"
    "normalizeRewardRedemptionStatus (Some (JStr (redemption_status_name FULFILLED))) = Inr (JStr ''FULFILLED'')"
    "normalizeRewardRedemptionStatus (Some (JStr (redemption_status_name CANCELLED))) = Inr (JStr ''CANCELLED'')"
    by code_simp+
  then show ?thesis by (cases st) simp_all
qed

lemma normalize_catalog_name [simp]:
  "normalizeCatalogStatus (Some (JStr (catalog_status_name st))) = Inr (JStr (catalog_status_name st))"
proof -
  have "normalizeCatalogStatus (Some (JStr (catalog_status_name Item_DRAFT))) = Inr (JStr ''DRAFT'')"
    "normalizeCatalogStatus (Some (JStr (catalog_status_name Item_PUBLISHED))) = Inr (JStr ''PUBLISHED'')"
    "normalizeCatalogStatus (Some (JStr (catalog_status_name Item_ARCHIVED))) = Inr (JStr ''ARCHIVED'')"
    by code_simp+
  then show ?thesis by (cases st) simp_all
qed

definition terminal_status :: "RewardRedemptionStatus \<Rightarrow> bool" where
  "terminal_status st \<longleftrightarrow> st = REJECTED \<or> st = FULFILLED \<or> st = CANCELLED"

lemma isRedemptionTerminal_name [simp]:
  "isRedemptionTerminal (JStr (redemption_status_name st)) = Inr (terminal_status st)"
  by (cases st) (simp_all add: isRedemptionTerminal_def terminal_status_def del: redemption_status_name.simps,
      simp_all)

lemma redemption_status_name_inject: "redemption_status_name a = redemption_status_name b \<longleftrightarrow> a = b"
  by (cases a; cases b) simp_all

lemma assertRedemptionIn_ok:
  "assertRedemptionIn (redemption_status_name expected) exn extra rid (JStr (redemption_status_name st)) = Inr () \<longleftrightarrow>
     \<not> terminal_status st \<and> st = expected"
  by (auto simp: assertRedemptionIn_def Let_def redemption_status_name_inject
      simp del: redemption_status_name.simps)

end
