(* ===== verification/School_Tables.thy ===== *)
theory School_Tables
  imports Tenant_Scope
begin

text \<open>
  What the stores of the components share: reads and conditional updates of a table as the Prisma client
  documents them, the rows several components refer to, and the exceptions of a request without a caller
  or an active school (\<open>src/src/modules/iam/auth/domain/auth.exceptions.ts\<close>).
\<close>

section \<open>Queries\<close>

text \<open>\<open>findFirst\<close> without an order, and \<open>updateMany\<close>, which returns the number of rows it changed.\<close>

definition findFirst :: "('r \<Rightarrow> bool) \<Rightarrow> 'r list \<Rightarrow> 'r option" where
  "findFirst p rows = List.find p rows"

definition updateMany :: "('r \<Rightarrow> bool) \<Rightarrow> ('r \<Rightarrow> 'r) \<Rightarrow> 'r list \<Rightarrow> nat \<times> 'r list" where
  "updateMany p f rows = (length (filter p rows), map (\<lambda>r. if p r then f r else r) rows)"

section \<open>Shared rows\<close>

record StudentRow =
  student_id :: string
  student_schoolId :: string
  student_deletedAt :: "int option"

record AcademicYearRow =
  year_id :: string
  year_schoolId :: string
  year_deletedAt :: "int option"

section \<open>Missing caller or school\<close>

definition TokenInvalidException :: js_exception where
  "TokenInvalidException = DomainException ''auth.token.invalid'' ''Invalid or malformed token'' 401 []"

definition ScopeMissingException :: js_exception where
  "ScopeMissingException =
     DomainException ''auth.scope.missing'' ''Active scope is required for this action'' 403 []"

section \<open>Lemmas\<close>

lemma updateMany_some:
  "updateMany p f rows = (n, rows') \<Longrightarrow> n \<noteq> 0 \<Longrightarrow> (\<exists>r \<in> set rows. p r) \<and> rows' = map (\<lambda>r. if p r then f r else r) rows"
  by (auto simp: updateMany_def filter_empty_conv)

lemma findFirst_SomeD: "findFirst p xs = Some x \<Longrightarrow> x \<in> set xs \<and> p x"
  unfolding findFirst_def by (metis find_Some_iff nth_mem)

lemma updateMany_pos: "r \<in> set rows \<Longrightarrow> p r \<Longrightarrow> \<exists>n rows'. updateMany p f rows = (Suc n, rows') \<and> f r \<in> set rows'"
  unfolding updateMany_def by (cases "filter p rows") (force simp: filter_empty_conv)+

lemma findFirst_ex: "x \<in> set xs \<Longrightarrow> p x \<Longrightarrow> \<exists>y. findFirst p xs = Some y"
  unfolding findFirst_def by (metis find_None_iff not_None_eq)

end
