(* ===== verification/Reinforcement_Context.thy ===== *)
theory Reinforcement_Context
  imports School_Tables
begin

text \<open>
  What the reinforcement modules share: the caller of a request
  (\<open>src/src/modules/reinforcement/reinforcement-context.ts\<close>) and the input of an audit log entry.
\<close>

section \<open>Scope\<close>

record ReinforcementScope =
  scope_actorId :: string
  scope_userType :: string
  scope_organizationId :: string
  scope_schoolId :: string
  scope_roleId :: string

definition requireReinforcementScope :: "RequestContext option \<Rightarrow> ReinforcementScope result" where
  "requireReinforcementScope context =
     (case Option.bind context rc_actor of
        None \<Rightarrow> Inl TokenInvalidException
      | Some actor \<Rightarrow>
          (case Option.bind context rc_activeMembership of
             None \<Rightarrow> Inl ScopeMissingException
           | Some m \<Rightarrow>
               if \<not> truthy (am_schoolId m) then Inl ScopeMissingException
               else Inr \<lparr>scope_actorId = actor_id actor, scope_userType = actor_userType actor,
                         scope_organizationId = am_organizationId m,
                         scope_schoolId = the (am_schoolId m), scope_roleId = am_roleId m\<rparr>))"

section \<open>Audit log\<close>

record RewardAuditLogInput =
  au_actorId :: string
  au_userType :: string
  au_organizationId :: string
  au_schoolId :: string
  au_module :: string
  au_action :: string
  au_resourceType :: string
  au_resourceId :: "string option"
  au_outcome :: string
  au_before :: "json_object option"
  au_after :: "json_object option"

end
