(* ===== verification/Reward_Store.thy ===== *)
theory Reward_Store
  imports Reward_Domain Reinforcement_Context
begin

text \<open>
  The reward redemption tables and their transactions
  (\<open>infrastructure/reward-redemptions.repository.ts\<close>), and the requests that prepare them
  (\<open>application/reward-redemptions.use-cases.ts\<close>).

  Every repository method that writes runs in one database transaction; an exception rolls it back, so
  a method is a function from the database to an exception or a result with the new database. Reads go
  through the scoped client: they see the rows of the caller's school, without soft-deleted ones for
  the models that have \<open>deletedAt\<close> (see \<open>Tenant_Scope\<close>). A request reads first and opens its
  transaction later, on a database other requests may have changed in between.
\<close>

section \<open>Tables\<close>

record RewardCatalogItem =
  item_id :: string
  item_schoolId :: string
  item_academicYearId :: "string option"
  item_termId :: "string option"
  item_status :: RewardCatalogItemStatus
  item_minTotalXp :: "int option"
  item_isUnlimited :: bool
  item_stockRemaining :: "int option"
  item_deletedAt :: "int option"

record RewardRedemption =
  rr_id :: string
  rr_schoolId :: string
  rr_catalogItemId :: string
  rr_studentId :: string
  rr_enrollmentId :: "string option"
  rr_academicYearId :: "string option"
  rr_termId :: "string option"
  rr_status :: RewardRedemptionStatus
  rr_requestSource :: string
  rr_requestedById :: string
  rr_requestedAt :: int
  rr_requestNoteEn :: "string option"
  rr_requestNoteAr :: "string option"
  rr_reviewedById :: "string option"
  rr_reviewedAt :: "int option"
  rr_reviewNoteEn :: "string option"
  rr_reviewNoteAr :: "string option"
  rr_fulfilledById :: "string option"
  rr_fulfilledAt :: "int option"
  rr_fulfillmentNoteEn :: "string option"
  rr_fulfillmentNoteAr :: "string option"
  rr_cancelledById :: "string option"
  rr_cancelledAt :: "int option"
  rr_cancellationReasonEn :: "string option"
  rr_cancellationReasonAr :: "string option"
  rr_eligibilitySnapshot :: "json_object option"
  rr_metadata :: "json_object option"

record EnrollmentRow =
  enr_id :: string
  enr_schoolId :: string
  enr_studentId :: string
  enr_academicYearId :: string
  enr_termId :: "string option"
  enr_active :: bool
  enr_enrolledAt :: int
  enr_deletedAt :: "int option"

record TermRow =
  term_id :: string
  term_schoolId :: string
  term_academicYearId :: string
  term_deletedAt :: "int option"

record XpLedgerRow =
  xpl_schoolId :: string
  xpl_studentId :: string
  xpl_amount :: int

record RewardDb =
  rdb_items :: "RewardCatalogItem list"
  rdb_redemptions :: "RewardRedemption list"
  rdb_students :: "StudentRow list"
  rdb_enrollments :: "EnrollmentRow list"
  rdb_years :: "AcademicYearRow list"
  rdb_terms :: "TermRow list"
  rdb_xpLedger :: "XpLedgerRow list"
  rdb_audit :: "RewardAuditLogInput list"

text \<open>\<open>metadata?: Record<string, unknown> | null\<close>: absent, null or an object.\<close>

type_synonym metadata_input = "json_object option option"

section \<open>Queries\<close>

definition findRedemptionById :: "string \<Rightarrow> string \<Rightarrow> RewardDb \<Rightarrow> RewardRedemption option" where
  "findRedemptionById school redemptionId db =
     findFirst (\<lambda>r. rr_id r = redemptionId \<and> rr_schoolId r = school) (rdb_redemptions db)"

definition findCatalogItemForRedemption :: "string \<Rightarrow> string \<Rightarrow> RewardDb \<Rightarrow> RewardCatalogItem option" where
  "findCatalogItemForRedemption school catalogItemId db =
     findFirst (\<lambda>i. item_id i = catalogItemId \<and> item_schoolId i = school \<and> item_deletedAt i = None)
       (rdb_items db)"

definition findCatalogItemForReview :: "string \<Rightarrow> string \<Rightarrow> RewardDb \<Rightarrow> RewardCatalogItem option" where
  "findCatalogItemForReview school catalogItemId db =
     findFirst (\<lambda>i. item_id i = catalogItemId \<and> item_schoolId i = school) (rdb_items db)"

definition findStudent :: "string \<Rightarrow> string \<Rightarrow> RewardDb \<Rightarrow> StudentRow option" where
  "findStudent school studentId db =
     findFirst (\<lambda>s. student_id s = studentId \<and> student_schoolId s = school \<and> student_deletedAt s = None)
       (rdb_students db)"

definition findEnrollmentForStudent :: "string \<Rightarrow> string \<Rightarrow> string \<Rightarrow> RewardDb \<Rightarrow> EnrollmentRow option" where
  "findEnrollmentForStudent school enrollmentId studentId db =
     findFirst (\<lambda>e. enr_id e = enrollmentId \<and> enr_studentId e = studentId \<and> enr_schoolId e = school \<and>
                    enr_deletedAt e = None) (rdb_enrollments db)"

definition resolveActiveEnrollmentForStudent ::
  "string \<Rightarrow> string \<Rightarrow> string option \<Rightarrow> string option \<Rightarrow> RewardDb \<Rightarrow> EnrollmentRow option" where
  "resolveActiveEnrollmentForStudent school studentId academicYearId termId db =
     (case js_sort (\<lambda>a b. cmp_or (enr_enrolledAt b - enr_enrolledAt a) (string_compare (enr_id a) (enr_id b)))
             (filter (\<lambda>e. enr_studentId e = studentId \<and> enr_active e \<and> enr_schoolId e = school \<and>
                          enr_deletedAt e = None \<and>
                          (truthy academicYearId \<longrightarrow> Some (enr_academicYearId e) = academicYearId) \<and>
                          (truthy termId \<longrightarrow> enr_termId e = termId)) (rdb_enrollments db)) of
        [] \<Rightarrow> None
      | e # _ \<Rightarrow> Some e)"

definition findAcademicYear :: "string \<Rightarrow> string \<Rightarrow> RewardDb \<Rightarrow> AcademicYearRow option" where
  "findAcademicYear school academicYearId db =
     findFirst (\<lambda>y. year_id y = academicYearId \<and> year_schoolId y = school \<and> year_deletedAt y = None)
       (rdb_years db)"

definition findTerm :: "string \<Rightarrow> string \<Rightarrow> RewardDb \<Rightarrow> TermRow option" where
  "findTerm school termId db =
     findFirst (\<lambda>t. term_id t = termId \<and> term_schoolId t = school \<and> term_deletedAt t = None) (rdb_terms db)"

definition open_status :: "RewardRedemptionStatus \<Rightarrow> bool" where
  "open_status st \<longleftrightarrow> st = REQUESTED \<or> st = APPROVED"

definition findOpenRedemption :: "string \<Rightarrow> string \<Rightarrow> string \<Rightarrow> RewardDb \<Rightarrow> RewardRedemption option" where
  "findOpenRedemption school catalogItemId studentId db =
     (case js_sort (\<lambda>a b. cmp_or (rr_requestedAt b - rr_requestedAt a) (string_compare (rr_id a) (rr_id b)))
             (filter (\<lambda>r. rr_catalogItemId r = catalogItemId \<and> rr_studentId r = studentId \<and>
                          open_status (rr_status r) \<and> rr_schoolId r = school) (rdb_redemptions db)) of
        [] \<Rightarrow> None
      | r # _ \<Rightarrow> Some r)"

definition calculateStudentTotalEarnedXp :: "string \<Rightarrow> string \<Rightarrow> RewardDb \<Rightarrow> int" where
  "calculateStudentTotalEarnedXp school studentId db =
     max 0 (sum_list (map xpl_amount
       (filter (\<lambda>x. xpl_studentId x = studentId \<and> xpl_amount x > 0 \<and> xpl_schoolId x = school)
          (rdb_xpLedger db))))"

section \<open>Transactions\<close>

record CreateRewardRedemptionInput =
  cr_schoolId :: string
  cr_catalogItemId :: string
  cr_studentId :: string
  cr_enrollmentId :: "string option"
  cr_academicYearId :: "string option"
  cr_termId :: "string option"
  cr_status :: RewardRedemptionStatus
  cr_requestSource :: js_value
  cr_requestedById :: string
  cr_requestedAt :: int
  cr_requestNoteEn :: "string option"
  cr_requestNoteAr :: "string option"
  cr_eligibilitySnapshot :: json_object
  cr_metadata :: metadata_input
  cr_audit :: RewardAuditLogInput

record CancelRewardRedemptionInput =
  cn_schoolId :: string
  cn_redemptionId :: string
  cn_cancelledById :: string
  cn_cancelledAt :: int
  cn_cancellationReasonEn :: "string option"
  cn_cancellationReasonAr :: "string option"
  cn_metadata :: metadata_input
  cn_audit :: RewardAuditLogInput

record ApproveRewardRedemptionInput =
  ap_schoolId :: string
  ap_redemptionId :: string
  ap_catalogItemId :: string
  ap_reviewedById :: string
  ap_reviewedAt :: int
  ap_reviewNoteEn :: "string option"
  ap_reviewNoteAr :: "string option"
  ap_metadata :: metadata_input
  ap_previousEligibilitySnapshot :: json_object
  ap_totalEarnedXp :: int
  ap_audit :: RewardAuditLogInput

record RejectRewardRedemptionInput =
  rj_schoolId :: string
  rj_redemptionId :: string
  rj_reviewedById :: string
  rj_reviewedAt :: int
  rj_reviewNoteEn :: "string option"
  rj_reviewNoteAr :: "string option"
  rj_metadata :: metadata_input
  rj_audit :: RewardAuditLogInput

record FulfillRewardRedemptionInput =
  ff_schoolId :: string
  ff_redemptionId :: string
  ff_fulfilledById :: string
  ff_fulfilledAt :: int
  ff_fulfillmentNoteEn :: "string option"
  ff_fulfillmentNoteAr :: "string option"
  ff_metadata :: metadata_input
  ff_audit :: RewardAuditLogInput

definition findRedemptionInTransaction :: "RewardDb \<Rightarrow> string \<Rightarrow> string \<Rightarrow> RewardRedemption result" where
  "findRedemptionInTransaction db schoolId redemptionId =
     (case findFirst (\<lambda>r. rr_id r = redemptionId \<and> rr_schoolId r = schoolId) (rdb_redemptions db) of
        None \<Rightarrow> Inl (JsError ''Reward redemption mutation result was not found'')
      | Some r \<Rightarrow> Inr r)"

definition createAuditLogInTransaction :: "RewardAuditLogInput \<Rightarrow> RewardDb \<Rightarrow> RewardDb" where
  "createAuditLogInTransaction entry db = db\<lparr>rdb_audit := rdb_audit db @ [entry]\<rparr>"

text \<open>\<open>metadata\<close> after an update: unchanged when the input is undefined.\<close>

definition updated_metadata :: "metadata_input \<Rightarrow> json_object option \<Rightarrow> json_object option" where
  "updated_metadata input old = (case input of None \<Rightarrow> old | Some m \<Rightarrow> m)"

text \<open>The constraints of the table: the primary key, and the partial unique index
  \<open>reward_redemptions_one_open_per_student_item\<close> on school, item and student for the open statuses.\<close>

definition violates_unique :: "RewardRedemption \<Rightarrow> RewardRedemption list \<Rightarrow> bool" where
  "violates_unique new rows \<longleftrightarrow>
     (\<exists>r \<in> set rows. rr_id r = rr_id new \<or>
        open_status (rr_status new) \<and> open_status (rr_status r) \<and> rr_schoolId r = rr_schoolId new \<and>
        rr_catalogItemId r = rr_catalogItemId new \<and> rr_studentId r = rr_studentId new)"

text \<open>\<open>newId\<close> is the id the database generates.\<close>

definition createRedemption ::
  "string \<Rightarrow> CreateRewardRedemptionInput \<Rightarrow> RewardDb \<Rightarrow> (RewardRedemption \<times> RewardDb) result" where
  "createRedemption newId input db =
     (case cr_requestSource input of
        JInherited _ \<Rightarrow> Inl (JsError ''PrismaClientValidationError'')
      | JStr source \<Rightarrow>
          let row = \<lparr>rr_id = newId, rr_schoolId = cr_schoolId input,
                     rr_catalogItemId = cr_catalogItemId input, rr_studentId = cr_studentId input,
                     rr_enrollmentId = cr_enrollmentId input,
                     rr_academicYearId = cr_academicYearId input, rr_termId = cr_termId input,
                     rr_status = cr_status input, rr_requestSource = source,
                     rr_requestedById = cr_requestedById input,
                     rr_requestedAt = cr_requestedAt input,
                     rr_requestNoteEn = cr_requestNoteEn input,
                     rr_requestNoteAr = cr_requestNoteAr input,
                     rr_reviewedById = None, rr_reviewedAt = None, rr_reviewNoteEn = None,
                     rr_reviewNoteAr = None, rr_fulfilledById = None, rr_fulfilledAt = None,
                     rr_fulfillmentNoteEn = None, rr_fulfillmentNoteAr = None,
                     rr_cancelledById = None, rr_cancelledAt = None,
                     rr_cancellationReasonEn = None, rr_cancellationReasonAr = None,
                     rr_eligibilitySnapshot = Some (cr_eligibilitySnapshot input),
                     rr_metadata = updated_metadata (cr_metadata input) None\<rparr>
          in if violates_unique row (rdb_redemptions db) then Inl (PrismaError ''P2002'')
             else
               let db1 = createAuditLogInTransaction ((cr_audit input)\<lparr>au_resourceId := Some newId\<rparr>)
                           (db\<lparr>rdb_redemptions := rdb_redemptions db @ [row]\<rparr>)
               in andThen (findRedemptionInTransaction db1 (cr_schoolId input) newId) (\<lambda>r. Inr (r, db1)))"

text \<open>The selection \<open>\{ id, schoolId, status \}\<close> of the conditional updates.\<close>

definition redemption_selected ::
  "string \<Rightarrow> string \<Rightarrow> RewardRedemptionStatus \<Rightarrow> RewardRedemption \<Rightarrow> bool" where
  "redemption_selected redemptionId schoolId status r \<longleftrightarrow>
     rr_id r = redemptionId \<and> rr_schoolId r = schoolId \<and> rr_status r = status"

definition cancelRedemption ::
  "CancelRewardRedemptionInput \<Rightarrow> RewardDb \<Rightarrow> (RewardRedemption \<times> RewardDb) result" where
  "cancelRedemption input db =
     (let (count, rows) =
            updateMany (redemption_selected (cn_redemptionId input) (cn_schoolId input) REQUESTED)
              (\<lambda>r. r\<lparr>rr_status := CANCELLED, rr_cancelledAt := Some (cn_cancelledAt input),
                    rr_cancelledById := Some (cn_cancelledById input),
                    rr_cancellationReasonEn := cn_cancellationReasonEn input,
                    rr_cancellationReasonAr := cn_cancellationReasonAr input,
                    rr_metadata := updated_metadata (cn_metadata input) (rr_metadata r)\<rparr>)
              (rdb_redemptions db)
      in if count = 0
         then Inl (RewardRedemptionNotRequestedException [(''redemptionId'', DStr (cn_redemptionId input))])
         else
           let db1 = createAuditLogInTransaction (cn_audit input) (db\<lparr>rdb_redemptions := rows\<rparr>)
           in andThen (findRedemptionInTransaction db1 (cn_schoolId input) (cn_redemptionId input))
                (\<lambda>r. Inr (r, db1)))"

definition rejectRedemption ::
  "RejectRewardRedemptionInput \<Rightarrow> RewardDb \<Rightarrow> (RewardRedemption \<times> RewardDb) result" where
  "rejectRedemption input db =
     (let (count, rows) =
            updateMany (redemption_selected (rj_redemptionId input) (rj_schoolId input) REQUESTED)
              (\<lambda>r. r\<lparr>rr_status := REJECTED, rr_reviewedAt := Some (rj_reviewedAt input),
                    rr_reviewedById := Some (rj_reviewedById input),
                    rr_reviewNoteEn := rj_reviewNoteEn input,
                    rr_reviewNoteAr := rj_reviewNoteAr input,
                    rr_metadata := updated_metadata (rj_metadata input) (rr_metadata r)\<rparr>)
              (rdb_redemptions db)
      in if count = 0
         then Inl (RewardInvalidStatusTransitionException
                [(''redemptionId'', DStr (rj_redemptionId input)), (''expectedStatus'', DStr ''REQUESTED'')])
         else
           let db1 = createAuditLogInTransaction (rj_audit input) (db\<lparr>rdb_redemptions := rows\<rparr>)
           in andThen (findRedemptionInTransaction db1 (rj_schoolId input) (rj_redemptionId input))
                (\<lambda>r. Inr (r, db1)))"

definition fulfillRedemption ::
  "FulfillRewardRedemptionInput \<Rightarrow> RewardDb \<Rightarrow> (RewardRedemption \<times> RewardDb) result" where
  "fulfillRedemption input db =
     (let (count, rows) =
            updateMany (redemption_selected (ff_redemptionId input) (ff_schoolId input) APPROVED)
              (\<lambda>r. r\<lparr>rr_status := FULFILLED, rr_fulfilledAt := Some (ff_fulfilledAt input),
                    rr_fulfilledById := Some (ff_fulfilledById input),
                    rr_fulfillmentNoteEn := ff_fulfillmentNoteEn input,
                    rr_fulfillmentNoteAr := ff_fulfillmentNoteAr input,
                    rr_metadata := updated_metadata (ff_metadata input) (rr_metadata r)\<rparr>)
              (rdb_redemptions db)
      in if count = 0
         then Inl (RewardRedemptionNotApprovedException [(''redemptionId'', DStr (ff_redemptionId input))])
         else
           let db1 = createAuditLogInTransaction (ff_audit input) (db\<lparr>rdb_redemptions := rows\<rparr>)
           in andThen (findRedemptionInTransaction db1 (ff_schoolId input) (ff_redemptionId input))
                (\<lambda>r. Inr (r, db1)))"

definition stock_selected :: "string \<Rightarrow> string \<Rightarrow> RewardCatalogItem \<Rightarrow> bool" where
  "stock_selected catalogItemId schoolId i \<longleftrightarrow>
     item_id i = catalogItemId \<and> item_schoolId i = schoolId \<and> item_status i = Item_PUBLISHED \<and>
     item_deletedAt i = None \<and> \<not> item_isUnlimited i \<and>
     (case item_stockRemaining i of None \<Rightarrow> False | Some n \<Rightarrow> n > 0)"

definition decrement_stock :: "RewardCatalogItem \<Rightarrow> RewardCatalogItem" where
  "decrement_stock i = i\<lparr>item_stockRemaining := map_option (\<lambda>n. n - 1) (item_stockRemaining i)\<rparr>"

text \<open>The conditional decrement of a limited item: the new item rows and the stock after it.\<close>

definition decrement_item_stock ::
  "string \<Rightarrow> RewardCatalogItem \<Rightarrow> RewardCatalogItem list \<Rightarrow> (RewardCatalogItem list \<times> int option) result" where
  "decrement_item_stock schoolId catalogItem items =
     (if item_isUnlimited catalogItem then Inr (items, item_stockRemaining catalogItem)
      else
        let (count, rows) = updateMany (stock_selected (item_id catalogItem) schoolId) decrement_stock items
        in if count = 0
           then Inl (RewardOutOfStockException
                  [(''catalogItemId'', DStr (item_id catalogItem)),
                   (''stockRemaining'', detail_of_int_option (item_stockRemaining catalogItem))])
           else Inr (rows, Option.bind
                  (findFirst (\<lambda>i. item_id i = item_id catalogItem \<and> item_schoolId i = schoolId) rows)
                  item_stockRemaining))"

text \<open>The end of the approval transaction, after the stock and the snapshot.\<close>

definition approve_redemption_row ::
  "ApproveRewardRedemptionInput \<Rightarrow> RewardCatalogItem \<Rightarrow> RewardCatalogItem list \<Rightarrow> int option \<Rightarrow>
   json_object \<Rightarrow> RewardDb \<Rightarrow> (RewardRedemption \<times> RewardDb) result" where
  "approve_redemption_row input catalogItem items after snapshot db =
     (let (count, rows) =
            updateMany (redemption_selected (ap_redemptionId input) (ap_schoolId input) REQUESTED)
              (\<lambda>r. r\<lparr>rr_status := APPROVED, rr_reviewedAt := Some (ap_reviewedAt input),
                    rr_reviewedById := Some (ap_reviewedById input),
                    rr_reviewNoteEn := ap_reviewNoteEn input,
                    rr_reviewNoteAr := ap_reviewNoteAr input,
                    rr_eligibilitySnapshot := Some snapshot,
                    rr_metadata := updated_metadata (ap_metadata input) (rr_metadata r)\<rparr>)
              (rdb_redemptions db)
      in if count = 0
         then Inl (RewardInvalidStatusTransitionException
                [(''redemptionId'', DStr (ap_redemptionId input)), (''expectedStatus'', DStr ''REQUESTED'')])
         else
           let entry = (ap_audit input)\<lparr>au_after := Some (fold (\<lambda>(k, v). jm_set k v)
                  [(''minTotalXp'', get_or snapshot ''minTotalXp'' DUndefined),
                   (''totalEarnedXp'', get_or snapshot ''totalEarnedXp'' DUndefined),
                   (''stockRemainingBeforeApproval'', detail_of_int_option (item_stockRemaining catalogItem)),
                   (''stockRemainingAfterApproval'', detail_of_int_option after),
                   (''isUnlimited'', DBool (item_isUnlimited catalogItem))]
                  (case au_after (ap_audit input) of None \<Rightarrow> [] | Some a \<Rightarrow> a))\<rparr>;
               db1 = createAuditLogInTransaction entry (db\<lparr>rdb_items := items, rdb_redemptions := rows\<rparr>)
           in andThen (findRedemptionInTransaction db1 (ap_schoolId input) (ap_redemptionId input))
                (\<lambda>r. Inr (r, db1)))"

definition approveRedemptionWithStockDecrement ::
  "ApproveRewardRedemptionInput \<Rightarrow> RewardDb \<Rightarrow> (RewardRedemption \<times> RewardDb) result" where
  "approveRedemptionWithStockDecrement input db =
     (case findFirst (\<lambda>i. item_id i = ap_catalogItemId input \<and> item_schoolId i = ap_schoolId input)
             (rdb_items db) of
        None \<Rightarrow> Inl (RewardInvalidStatusTransitionException
                  [(''redemptionId'', DStr (ap_redemptionId input)),
                   (''catalogItemId'', DStr (ap_catalogItemId input))])
      | Some catalogItem \<Rightarrow>
          andThen (assertRewardStillRequestableForApproval (item_id catalogItem)
                     (JStr (catalog_status_name (item_status catalogItem))) (item_deletedAt catalogItem)
                     (item_isUnlimited catalogItem) (item_stockRemaining catalogItem)) (\<lambda>_.
          andThen (decrement_item_stock (ap_schoolId input) catalogItem (rdb_items db)) (\<lambda>(items, after).
          andThen (buildApprovalEligibilitySnapshot (Some (ap_previousEligibilitySnapshot input))
                     (JStr (catalog_status_name (item_status catalogItem))) (item_minTotalXp catalogItem)
                     (ap_totalEarnedXp input) (item_isUnlimited catalogItem)
                     (item_stockRemaining catalogItem) after (ap_reviewedAt input)) (\<lambda>snapshot.
            approve_redemption_row input catalogItem items after snapshot db))))"

end
