(* ===== verification/Reward_Requests.thy ===== *)
theory Reward_Requests
  imports Reward_Store
begin

text \<open>
  The use cases of reward redemptions (\<open>application/reward-redemptions.use-cases.ts\<close>). Each of them
  is split where it hands over to the repository: the first half reads, checks and builds the input of
  the transaction (\<open>prepare\<close>), the second half is the transaction itself.
\<close>

section \<open>Audit entries\<close>

definition readSnapshotRecord :: "RewardRedemption \<Rightarrow> json_object" where
  "readSnapshotRecord redemption =
     (case rr_eligibilitySnapshot redemption of None \<Rightarrow> [] | Some s \<Rightarrow> s)"

definition readSnapshotNumber :: "RewardRedemption \<Rightarrow> string \<Rightarrow> detail" where
  "readSnapshotNumber redemption key =
     (case jm_get (readSnapshotRecord redemption) key of
        Some (DInt n) \<Rightarrow> DInt n
      | Some (DNum r) \<Rightarrow> DNum r
      | _ \<Rightarrow> DNull)"

definition readSnapshotBoolean :: "RewardRedemption \<Rightarrow> string \<Rightarrow> detail" where
  "readSnapshotBoolean redemption key =
     (case jm_get (readSnapshotRecord redemption) key of
        Some (DBool b) \<Rightarrow> DBool b
      | _ \<Rightarrow> DNull)"

text \<open>The fields the five audit builders share.\<close>

definition reward_audit ::
  "ReinforcementScope \<Rightarrow> string \<Rightarrow> string option \<Rightarrow> json_object option \<Rightarrow> json_object \<Rightarrow>
   RewardAuditLogInput" where
  "reward_audit scope action resourceId before after =
     \<lparr>au_actorId = scope_actorId scope, au_userType = scope_userType scope,
      au_organizationId = scope_organizationId scope, au_schoolId = scope_schoolId scope,
      au_module = ''reinforcement.rewards'', au_action = ''reinforcement.reward.redemption.'' @ action,
      au_resourceType = ''reward_redemption'', au_resourceId = resourceId, au_outcome = ''SUCCESS'',
      au_before = before, au_after = Some after\<rparr>"

definition buildRewardRedemptionRequestAuditEntry ::
  "ReinforcementScope \<Rightarrow> RewardCatalogItem \<Rightarrow> string \<Rightarrow> string option \<Rightarrow> js_value \<Rightarrow> json_object \<Rightarrow>
   RewardAuditLogInput" where
  "buildRewardRedemptionRequestAuditEntry scope catalogItem studentId enrollmentId requestSource snapshot =
     reward_audit scope ''request'' None None
       [(''catalogItemId'', DStr (item_id catalogItem)), (''studentId'', DStr studentId),
        (''enrollmentId'', detail_of_str_option enrollmentId), (''status'', DStr ''REQUESTED''),
        (''requestSource'', detail_of_js_value requestSource),
        (''minTotalXp'', get_or snapshot ''minTotalXp'' DUndefined),
        (''totalEarnedXp'', get_or snapshot ''totalEarnedXp'' DUndefined),
        (''eligible'', get_or snapshot ''eligible'' DUndefined),
        (''isUnlimited'', get_or snapshot ''isUnlimited'' DUndefined),
        (''stockRemaining'', get_or snapshot ''stockRemaining'' DUndefined)]"

definition buildRewardRedemptionCancelAuditEntry ::
  "ReinforcementScope \<Rightarrow> RewardRedemption \<Rightarrow> string \<Rightarrow> int \<Rightarrow> RewardAuditLogInput" where
  "buildRewardRedemptionCancelAuditEntry scope existing cancelledById cancelledAt =
     reward_audit scope ''cancel'' (Some (rr_id existing))
       (Some [(''status'', DStr (redemption_status_name (rr_status existing))),
              (''cancelledAt'', detail_of_date_option (rr_cancelledAt existing)),
              (''cancelledById'', detail_of_str_option (rr_cancelledById existing))])
       [(''catalogItemId'', DStr (rr_catalogItemId existing)), (''studentId'', DStr (rr_studentId existing)),
        (''enrollmentId'', detail_of_str_option (rr_enrollmentId existing)),
        (''beforeStatus'', DStr (redemption_status_name (rr_status existing))),
        (''afterStatus'', DStr ''CANCELLED''), (''cancelledById'', DStr cancelledById),
        (''cancelledAt'', DDate cancelledAt), (''requestSource'', DStr (rr_requestSource existing)),
        (''minTotalXp'', readSnapshotNumber existing ''minTotalXp''),
        (''totalEarnedXp'', readSnapshotNumber existing ''totalEarnedXp''),
        (''eligible'', readSnapshotBoolean existing ''eligible''),
        (''isUnlimited'', readSnapshotBoolean existing ''isUnlimited''),
        (''stockRemaining'', readSnapshotNumber existing ''stockRemaining'')]"

text \<open>\<open>Boolean(noteEn || noteAr)\<close>\<close>

definition note_present :: "string option \<Rightarrow> string option \<Rightarrow> detail" where
  "note_present en ar = DBool (truthy en \<or> truthy ar)"

definition buildRewardRedemptionApproveAuditEntry ::
  "ReinforcementScope \<Rightarrow> RewardRedemption \<Rightarrow> RewardCatalogItem \<Rightarrow> int \<Rightarrow> string \<Rightarrow> int \<Rightarrow> string option \<Rightarrow>
   string option \<Rightarrow> int option \<Rightarrow> RewardAuditLogInput" where
  "buildRewardRedemptionApproveAuditEntry scope existing catalogItem totalEarnedXp reviewedById reviewedAt
       reviewNoteEn reviewNoteAr stockRemainingAfterApproval =
     reward_audit scope ''approve'' (Some (rr_id existing))
       (Some [(''status'', DStr (redemption_status_name (rr_status existing))),
              (''reviewedAt'', detail_of_date_option (rr_reviewedAt existing)),
              (''reviewedById'', detail_of_str_option (rr_reviewedById existing))])
       [(''catalogItemId'', DStr (rr_catalogItemId existing)), (''studentId'', DStr (rr_studentId existing)),
        (''enrollmentId'', detail_of_str_option (rr_enrollmentId existing)),
        (''beforeStatus'', DStr (redemption_status_name (rr_status existing))),
        (''afterStatus'', DStr ''APPROVED''), (''reviewedById'', DStr reviewedById),
        (''reviewedAt'', DDate reviewedAt),
        (''catalogItemStatus'', DStr (catalog_status_name (item_status catalogItem))),
        (''minTotalXp'', detail_of_int_option (item_minTotalXp catalogItem)),
        (''totalEarnedXp'', DInt totalEarnedXp), (''eligible'', DBool True),
        (''stockRemainingBeforeApproval'', detail_of_int_option (item_stockRemaining catalogItem)),
        (''stockRemainingAfterApproval'', detail_of_int_option stockRemainingAfterApproval),
        (''isUnlimited'', DBool (item_isUnlimited catalogItem)),
        (''reviewNotePresent'', note_present reviewNoteEn reviewNoteAr)]"

definition buildRewardRedemptionRejectAuditEntry ::
  "ReinforcementScope \<Rightarrow> RewardRedemption \<Rightarrow> string \<Rightarrow> int \<Rightarrow> string option \<Rightarrow> string option \<Rightarrow>
   RewardAuditLogInput" where
  "buildRewardRedemptionRejectAuditEntry scope existing reviewedById reviewedAt reviewNoteEn reviewNoteAr =
     reward_audit scope ''reject'' (Some (rr_id existing))
       (Some [(''status'', DStr (redemption_status_name (rr_status existing))),
              (''reviewedAt'', detail_of_date_option (rr_reviewedAt existing)),
              (''reviewedById'', detail_of_str_option (rr_reviewedById existing))])
       [(''catalogItemId'', DStr (rr_catalogItemId existing)), (''studentId'', DStr (rr_studentId existing)),
        (''enrollmentId'', detail_of_str_option (rr_enrollmentId existing)),
        (''beforeStatus'', DStr (redemption_status_name (rr_status existing))),
        (''afterStatus'', DStr ''REJECTED''), (''reviewedById'', DStr reviewedById),
        (''reviewedAt'', DDate reviewedAt), (''requestSource'', DStr (rr_requestSource existing)),
        (''reviewNotePresent'', note_present reviewNoteEn reviewNoteAr)]"

definition buildRewardRedemptionFulfillAuditEntry ::
  "ReinforcementScope \<Rightarrow> RewardRedemption \<Rightarrow> string \<Rightarrow> int \<Rightarrow> string option \<Rightarrow> string option \<Rightarrow>
   RewardAuditLogInput" where
  "buildRewardRedemptionFulfillAuditEntry scope existing fulfilledById fulfilledAt noteEn noteAr =
     reward_audit scope ''fulfill'' (Some (rr_id existing))
       (Some [(''status'', DStr (redemption_status_name (rr_status existing))),
              (''fulfilledAt'', detail_of_date_option (rr_fulfilledAt existing)),
              (''fulfilledById'', detail_of_str_option (rr_fulfilledById existing))])
       [(''catalogItemId'', DStr (rr_catalogItemId existing)), (''studentId'', DStr (rr_studentId existing)),
        (''enrollmentId'', detail_of_str_option (rr_enrollmentId existing)),
        (''beforeStatus'', DStr (redemption_status_name (rr_status existing))),
        (''afterStatus'', DStr ''FULFILLED''), (''fulfilledById'', DStr fulfilledById),
        (''fulfilledAt'', DDate fulfilledAt), (''requestSource'', DStr (rr_requestSource existing)),
        (''minTotalXp'', readSnapshotNumber existing ''minTotalXp''),
        (''totalEarnedXp'', readSnapshotNumber existing ''totalEarnedXp''),
        (''stockRemainingBeforeApproval'', readSnapshotNumber existing ''stockRemainingBeforeApproval''),
        (''stockRemainingAfterApproval'', readSnapshotNumber existing ''stockRemainingAfterApproval''),
        (''isUnlimited'', readSnapshotBoolean existing ''isUnlimited''),
        (''fulfillmentNotePresent'', note_present noteEn noteAr)]"

section \<open>Academic context\<close>

definition validateAcademicContext ::
  "string \<Rightarrow> string option \<Rightarrow> string option \<Rightarrow> RewardDb \<Rightarrow> (string option \<times> string option) result" where
  "validateAcademicContext school academicYearId termId db =
     (let academicYear = (if truthy academicYearId then findAcademicYear school (the academicYearId) db else None);
          trm = (if truthy termId then findTerm school (the termId) db else None)
      in if truthy academicYearId \<and> academicYear = None
         then Inl (NotFoundDomainException ''Academic year not found''
                [(''academicYearId'', detail_of_str_option academicYearId)])
         else if truthy termId \<and> trm = None
         then Inl (NotFoundDomainException ''Term not found'' [(''termId'', detail_of_str_option termId)])
         else if truthy academicYearId \<and> (case trm of None \<Rightarrow> False
                   | Some t \<Rightarrow> Some (term_academicYearId t) \<noteq> academicYearId)
         then Inl (NotFoundDomainException ''Term not found''
                [(''academicYearId'', detail_of_str_option academicYearId),
                 (''termId'', detail_of_str_option termId)])
         else Inr (if academicYearId \<noteq> None then academicYearId else map_option term_academicYearId trm,
                   termId))"

record CreateRewardRedemptionDto =
  dto_catalogItemId :: string
  dto_studentId :: string
  dto_enrollmentId :: "string option"
  dto_academicYearId :: "string option"
  dto_termId :: "string option"
  dto_requestSource :: "string option"
  dto_requestNoteEn :: "string option"
  dto_requestNoteAr :: "string option"
  dto_metadata :: metadata_input

definition resolveCreateContext ::
  "string \<Rightarrow> CreateRewardRedemptionDto \<Rightarrow> RewardCatalogItem \<Rightarrow> RewardDb \<Rightarrow>
   (EnrollmentRow option \<times> string option \<times> string option) result" where
  "resolveCreateContext school command catalogItem db =
     (let academicYearId = (if dto_academicYearId command \<noteq> None then dto_academicYearId command
                            else item_academicYearId catalogItem);
          termId = (if dto_termId command \<noteq> None then dto_termId command else item_termId catalogItem);
          enrollment =
            (if truthy (dto_enrollmentId command)
             then findEnrollmentForStudent school (the (dto_enrollmentId command)) (dto_studentId command) db
             else resolveActiveEnrollmentForStudent school (dto_studentId command) academicYearId termId db)
      in if truthy (dto_enrollmentId command) \<and> enrollment = None
         then Inl (NotFoundDomainException ''Enrollment not found''
                [(''enrollmentId'', detail_of_str_option (dto_enrollmentId command)),
                 (''studentId'', DStr (dto_studentId command))])
         else if (case enrollment of None \<Rightarrow> False
                  | Some e \<Rightarrow> truthy academicYearId \<and> Some (enr_academicYearId e) \<noteq> academicYearId)
         then Inl (NotFoundDomainException ''Enrollment not found''
                [(''enrollmentId'', DStr (enr_id (the enrollment))),
                 (''academicYearId'', detail_of_str_option academicYearId)])
         else if (case enrollment of None \<Rightarrow> False | Some e \<Rightarrow> truthy termId \<and> enr_termId e \<noteq> termId)
         then Inl (NotFoundDomainException ''Enrollment not found''
                [(''enrollmentId'', DStr (enr_id (the enrollment))), (''termId'', detail_of_str_option termId)])
         else
           let academicYearId1 = (case enrollment of None \<Rightarrow> academicYearId
                 | Some e \<Rightarrow> if academicYearId \<noteq> None then academicYearId else Some (enr_academicYearId e));
               termId1 = (case enrollment of None \<Rightarrow> termId
                 | Some e \<Rightarrow> if termId \<noteq> None then termId else enr_termId e)
           in andThen (validateAcademicContext school academicYearId1 termId1 db) (\<lambda>(yearId, tId).
                if truthy (item_academicYearId catalogItem) \<and> item_academicYearId catalogItem \<noteq> yearId
                then Inl (NotFoundDomainException ''Reward catalog item not found''
                       [(''catalogItemId'', DStr (item_id catalogItem)),
                        (''academicYearId'', detail_of_str_option yearId)])
                else if truthy (item_termId catalogItem) \<and> item_termId catalogItem \<noteq> tId
                then Inl (NotFoundDomainException ''Reward catalog item not found''
                       [(''catalogItemId'', DStr (item_id catalogItem)), (''termId'', detail_of_str_option tId)])
                else Inr (enrollment, yearId, tId)))"

section \<open>Requests\<close>

definition redemption_not_found :: "string \<Rightarrow> js_exception" where
  "redemption_not_found redemptionId =
     NotFoundDomainException ''Reward redemption not found'' [(''redemptionId'', DStr redemptionId)]"

definition requireCatalogItem :: "string \<Rightarrow> string \<Rightarrow> RewardDb \<Rightarrow> RewardCatalogItem result" where
  "requireCatalogItem school catalogItemId db =
     (case findCatalogItemForRedemption school catalogItemId db of
        None \<Rightarrow> Inl (NotFoundDomainException ''Reward catalog item not found''
                  [(''catalogItemId'', DStr catalogItemId)])
      | Some i \<Rightarrow> Inr i)"

definition CreateRewardRedemptionUseCase_prepare ::
  "RequestContext option \<Rightarrow> int \<Rightarrow> CreateRewardRedemptionDto \<Rightarrow> RewardDb \<Rightarrow>
   CreateRewardRedemptionInput result" where
  "CreateRewardRedemptionUseCase_prepare context now command db =
     andThen (requireReinforcementScope context) (\<lambda>scope.
     let school = scope_schoolId scope in
     andThen (requireCatalogItem school (dto_catalogItemId command) db) (\<lambda>catalogItem.
     let status = JStr (catalog_status_name (item_status catalogItem)) in
     andThen (assertRewardRequestable (item_id catalogItem) status (item_deletedAt catalogItem)) (\<lambda>_.
     andThen (assertRewardStockAvailableForRequest (item_id catalogItem) (item_isUnlimited catalogItem)
                (item_stockRemaining catalogItem)) (\<lambda>_.
     if findStudent school (dto_studentId command) db = None
     then Inl (NotFoundDomainException ''Student not found'' [(''studentId'', DStr (dto_studentId command))])
     else
       andThen (resolveCreateContext school command catalogItem db) (\<lambda>(enrollment, yearId, tId).
       let totalEarnedXp = calculateStudentTotalEarnedXp school (dto_studentId command) db in
       andThen (assertRewardEligibility (item_id catalogItem) (dto_studentId command)
                  (item_minTotalXp catalogItem) totalEarnedXp) (\<lambda>_.
       case findOpenRedemption school (item_id catalogItem) (dto_studentId command) db of
         Some openRedemption \<Rightarrow> Inl (RewardDuplicateRedemptionException
             [(''catalogItemId'', DStr (item_id catalogItem)), (''studentId'', DStr (dto_studentId command)),
              (''existingRedemptionId'', DStr (rr_id openRedemption))])
       | None \<Rightarrow>
           andThen (normalizeRewardRedemptionRequestSource (map_option JStr (dto_requestSource command))
                      (JStr ''DASHBOARD'')) (\<lambda>requestSource.
           andThen (buildEligibilitySnapshot status (item_minTotalXp catalogItem) totalEarnedXp
                      (item_isUnlimited catalogItem) (item_stockRemaining catalogItem)) (\<lambda>snapshot.
             Inr \<lparr>cr_schoolId = school, cr_catalogItemId = item_id catalogItem,
                  cr_studentId = dto_studentId command, cr_enrollmentId = map_option enr_id enrollment,
                  cr_academicYearId = yearId, cr_termId = tId, cr_status = REQUESTED,
                  cr_requestSource = requestSource, cr_requestedById = scope_actorId scope,
                  cr_requestedAt = now, cr_requestNoteEn = trimmed_or_null (dto_requestNoteEn command),
                  cr_requestNoteAr = trimmed_or_null (dto_requestNoteAr command),
                  cr_eligibilitySnapshot = snapshot, cr_metadata = dto_metadata command,
                  cr_audit = buildRewardRedemptionRequestAuditEntry scope catalogItem
                    (dto_studentId command) (map_option enr_id enrollment) requestSource snapshot\<rparr>))))))))"

text \<open>The transaction of a create request, with the \<open>catch\<close> around it.\<close>

definition CreateRewardRedemptionUseCase_commit ::
  "string \<Rightarrow> CreateRewardRedemptionInput \<Rightarrow> RewardDb \<Rightarrow> (RewardRedemption \<times> RewardDb) result" where
  "CreateRewardRedemptionUseCase_commit newId input db =
     (case createRedemption newId input db of
        Inl error \<Rightarrow>
          if isUniqueConstraintError error
          then Inl (RewardDuplicateRedemptionException
                 [(''catalogItemId'', DStr (cr_catalogItemId input)),
                  (''studentId'', DStr (cr_studentId input))])
          else Inl error
      | Inr r \<Rightarrow> Inr r)"

record ReviewDto =
  rv_noteEn :: "string option"
  rv_noteAr :: "string option"
  rv_metadata :: metadata_input

definition ApproveRewardRedemptionUseCase_prepare ::
  "RequestContext option \<Rightarrow> int \<Rightarrow> string \<Rightarrow> ReviewDto \<Rightarrow> RewardDb \<Rightarrow> ApproveRewardRedemptionInput result" where
  "ApproveRewardRedemptionUseCase_prepare context now redemptionId command db =
     andThen (requireReinforcementScope context) (\<lambda>scope.
     case findRedemptionById (scope_schoolId scope) redemptionId db of
       None \<Rightarrow> Inl (redemption_not_found redemptionId)
     | Some existing \<Rightarrow>
         andThen (assertRedemptionApprovable (rr_id existing)
                    (JStr (redemption_status_name (rr_status existing)))) (\<lambda>_.
         case findCatalogItemForReview (scope_schoolId scope) (rr_catalogItemId existing) db of
           None \<Rightarrow> Inl (NotFoundDomainException ''Reward catalog item not found''
                      [(''catalogItemId'', DStr (rr_catalogItemId existing))])
         | Some catalogItem \<Rightarrow>
             andThen (assertRewardStillRequestableForApproval (item_id catalogItem)
                        (JStr (catalog_status_name (item_status catalogItem))) (item_deletedAt catalogItem)
                        (item_isUnlimited catalogItem) (item_stockRemaining catalogItem)) (\<lambda>_.
             let totalEarnedXp = calculateStudentTotalEarnedXp (scope_schoolId scope) (rr_studentId existing) db in
             andThen (assertRewardEligibility (item_id catalogItem) (rr_studentId existing)
                        (item_minTotalXp catalogItem) totalEarnedXp) (\<lambda>_.
               let noteEn = trimmed_or_null (rv_noteEn command); noteAr = trimmed_or_null (rv_noteAr command);
                   after = deriveStockAfterApproval (item_isUnlimited catalogItem)
                             (item_stockRemaining catalogItem)
               in Inr \<lparr>ap_schoolId = scope_schoolId scope, ap_redemptionId = rr_id existing,
                       ap_catalogItemId = item_id catalogItem, ap_reviewedById = scope_actorId scope,
                       ap_reviewedAt = now, ap_reviewNoteEn = noteEn, ap_reviewNoteAr = noteAr,
                       ap_metadata = rv_metadata command,
                       ap_previousEligibilitySnapshot = readSnapshotRecord existing,
                       ap_totalEarnedXp = totalEarnedXp,
                       ap_audit = buildRewardRedemptionApproveAuditEntry scope existing catalogItem
                         totalEarnedXp (scope_actorId scope) now noteEn noteAr after\<rparr>))))"

definition RejectRewardRedemptionUseCase_prepare ::
  "RequestContext option \<Rightarrow> int \<Rightarrow> string \<Rightarrow> ReviewDto \<Rightarrow> RewardDb \<Rightarrow> RejectRewardRedemptionInput result" where
  "RejectRewardRedemptionUseCase_prepare context now redemptionId command db =
     andThen (requireReinforcementScope context) (\<lambda>scope.
     case findRedemptionById (scope_schoolId scope) redemptionId db of
       None \<Rightarrow> Inl (redemption_not_found redemptionId)
     | Some existing \<Rightarrow>
         andThen (assertRedemptionRejectable (rr_id existing)
                    (JStr (redemption_status_name (rr_status existing)))) (\<lambda>_.
         let noteEn = trimmed_or_null (rv_noteEn command); noteAr = trimmed_or_null (rv_noteAr command)
         in Inr \<lparr>rj_schoolId = scope_schoolId scope, rj_redemptionId = rr_id existing,
                 rj_reviewedById = scope_actorId scope, rj_reviewedAt = now,
                 rj_reviewNoteEn = noteEn, rj_reviewNoteAr = noteAr, rj_metadata = rv_metadata command,
                 rj_audit = buildRewardRedemptionRejectAuditEntry scope existing (scope_actorId scope)
                   now noteEn noteAr\<rparr>))"

definition FulfillRewardRedemptionUseCase_prepare ::
  "RequestContext option \<Rightarrow> int \<Rightarrow> string \<Rightarrow> ReviewDto \<Rightarrow> RewardDb \<Rightarrow> FulfillRewardRedemptionInput result" where
  "FulfillRewardRedemptionUseCase_prepare context now redemptionId command db =
     andThen (requireReinforcementScope context) (\<lambda>scope.
     case findRedemptionById (scope_schoolId scope) redemptionId db of
       None \<Rightarrow> Inl (redemption_not_found redemptionId)
     | Some existing \<Rightarrow>
         andThen (assertRedemptionFulfillable (rr_id existing)
                    (JStr (redemption_status_name (rr_status existing)))) (\<lambda>_.
         let noteEn = trimmed_or_null (rv_noteEn command); noteAr = trimmed_or_null (rv_noteAr command)
         in Inr \<lparr>ff_schoolId = scope_schoolId scope, ff_redemptionId = rr_id existing,
                 ff_fulfilledById = scope_actorId scope, ff_fulfilledAt = now,
                 ff_fulfillmentNoteEn = noteEn, ff_fulfillmentNoteAr = noteAr,
                 ff_metadata = rv_metadata command,
                 ff_audit = buildRewardRedemptionFulfillAuditEntry scope existing (scope_actorId scope)
                   now noteEn noteAr\<rparr>))"

definition CancelRewardRedemptionUseCase_prepare ::
  "RequestContext option \<Rightarrow> int \<Rightarrow> string \<Rightarrow> ReviewDto \<Rightarrow> RewardDb \<Rightarrow> CancelRewardRedemptionInput result" where
  "CancelRewardRedemptionUseCase_prepare context now redemptionId command db =
     andThen (requireReinforcementScope context) (\<lambda>scope.
     case findRedemptionById (scope_schoolId scope) redemptionId db of
       None \<Rightarrow> Inl (redemption_not_found redemptionId)
     | Some existing \<Rightarrow>
         andThen (assertRedemptionCancellable (rr_id existing)
                    (JStr (redemption_status_name (rr_status existing)))) (\<lambda>_.
         Inr \<lparr>cn_schoolId = scope_schoolId scope, cn_redemptionId = rr_id existing,
              cn_cancelledById = scope_actorId scope, cn_cancelledAt = now,
              cn_cancellationReasonEn = trimmed_or_null (rv_noteEn command),
              cn_cancellationReasonAr = trimmed_or_null (rv_noteAr command),
              cn_metadata = rv_metadata command,
              cn_audit = buildRewardRedemptionCancelAuditEntry scope existing (scope_actorId scope) now\<rparr>))"

section \<open>Interleaved requests\<close>

datatype request =
    Create CreateRewardRedemptionDto
  | Approve string ReviewDto
  | Reject string ReviewDto
  | Fulfill string ReviewDto
  | Cancel string ReviewDto

text \<open>A request between its reads and its transaction.\<close>

datatype pending =
    PCreate CreateRewardRedemptionInput
  | PApprove ApproveRewardRedemptionInput
  | PReject RejectRewardRedemptionInput
  | PFulfill FulfillRewardRedemptionInput
  | PCancel CancelRewardRedemptionInput

definition mapResult :: "('a \<Rightarrow> 'b) \<Rightarrow> 'a result \<Rightarrow> 'b result" where
  "mapResult f r = andThen r (\<lambda>x. Inr (f x))"

fun prepare :: "RequestContext option \<Rightarrow> int \<Rightarrow> request \<Rightarrow> RewardDb \<Rightarrow> pending result" where
  "prepare context now (Create command) db =
     mapResult PCreate (CreateRewardRedemptionUseCase_prepare context now command db)"
| "prepare context now (Approve rid command) db =
     mapResult PApprove (ApproveRewardRedemptionUseCase_prepare context now rid command db)"
| "prepare context now (Reject rid command) db =
     mapResult PReject (RejectRewardRedemptionUseCase_prepare context now rid command db)"
| "prepare context now (Fulfill rid command) db =
     mapResult PFulfill (FulfillRewardRedemptionUseCase_prepare context now rid command db)"
| "prepare context now (Cancel rid command) db =
     mapResult PCancel (CancelRewardRedemptionUseCase_prepare context now rid command db)"

fun commit :: "string \<Rightarrow> pending \<Rightarrow> RewardDb \<Rightarrow> (RewardRedemption \<times> RewardDb) result" where
  "commit newId (PCreate input) db = CreateRewardRedemptionUseCase_commit newId input db"
| "commit newId (PApprove input) db = approveRedemptionWithStockDecrement input db"
| "commit newId (PReject input) db = rejectRedemption input db"
| "commit newId (PFulfill input) db = fulfillRedemption input db"
| "commit newId (PCancel input) db = cancelRedemption input db"

record RewardSystem =
  sys_db :: RewardDb
  sys_pending :: "pending list"

inductive reward_step :: "RewardSystem \<Rightarrow> RewardSystem \<Rightarrow> bool" where
  step_prepare: "prepare context now req (sys_db s) = Inr p \<Longrightarrow>
    reward_step s (s\<lparr>sys_pending := sys_pending s @ [p]\<rparr>)"
| step_commit: "p \<in> set (sys_pending s) \<Longrightarrow> commit newId p (sys_db s) = Inr (r, db') \<Longrightarrow>
    reward_step s (s\<lparr>sys_db := db', sys_pending := remove1 p (sys_pending s)\<rparr>)"
| step_rollback: "p \<in> set (sys_pending s) \<Longrightarrow> commit newId p (sys_db s) = Inl e \<Longrightarrow>
    reward_step s (s\<lparr>sys_pending := remove1 p (sys_pending s)\<rparr>)"

inductive_cases reward_stepE: "reward_step s s'"

abbreviation reward_reachable :: "RewardSystem \<Rightarrow> RewardSystem \<Rightarrow> bool" where
  "reward_reachable \<equiv> reward_step\<^sup>*\<^sup>*"

end
