(* ===== verification/Lifecycle.thy ===== *)
theory Lifecycle
  imports Moazez_Prelude
begin

text \<open>
  Interface of the state machines of the backend: a relation of allowed status changes and a rank that
  every change increases. Its clients are the lifecycles of reward redemptions and of
  excuse requests.
\<close>

locale lifecycle =
  fixes move :: "'s \<Rightarrow> 's \<Rightarrow> bool" and rank :: "'s \<Rightarrow> nat" and top_rank :: nat
  assumes move_rank: "move a b \<Longrightarrow> rank a < rank b"
    and rank_bound: "rank a \<le> top_rank"
begin

lemma moves_rank: "move\<^sup>+\<^sup>+ a b \<Longrightarrow> rank a < rank b"
  by (induction rule: tranclp_induct) (auto dest: move_rank)

text \<open>A status is never reached again, and a status of the highest rank is final.\<close>

lemma no_return: "\<not> move\<^sup>+\<^sup>+ a a"
  using moves_rank by blast

lemma top_final: "rank a = top_rank \<Longrightarrow> \<not> move a b"
  using move_rank rank_bound by (metis leD)

lemma top_absorbing: "move\<^sup>*\<^sup>* a b \<Longrightarrow> rank a = top_rank \<Longrightarrow> b = a"
  using top_final by (metis converse_rtranclpE)

text \<open>A run of changes is no longer than the highest rank.\<close>

lemma run_length:
  assumes "\<forall>i < n. move (f i) (f (Suc i))"
  shows "n + rank (f 0) \<le> rank (f n)"
  using assms
proof (induction n)
  case (Suc n)
  then have "n + rank (f 0) \<le> rank (f n)" "rank (f n) < rank (f (Suc n))" by (auto intro: move_rank)
  then show ?case by simp
qed simp

lemma run_bounded:
  assumes "\<forall>i < n. move (f i) (f (Suc i))"
  shows "n \<le> top_rank"
  using run_length [OF assms] rank_bound [of "f n"] by linarith

end

end
