(* ===== verification/Reward_Invariants.thy ===== *)
theory Reward_Invariants
  imports Reward_Requests Lifecycle
begin

text \<open>
  What holds of the reward tables whatever the interleaving of requests: the redemption lifecycle, the
  stock of limited items, and one open redemption per student and item.
\<close>

section \<open>The lifecycle of a redemption\<close>

definition redemption_move :: "RewardRedemptionStatus \<Rightarrow> RewardRedemptionStatus \<Rightarrow> bool" where
  "redemption_move a b \<longleftrightarrow>
     (a, b) \<in> {(REQUESTED, APPROVED), (REQUESTED, REJECTED), (REQUESTED, CANCELLED), (APPROVED, FULFILLED)}"

fun redemption_rank :: "RewardRedemptionStatus \<Rightarrow> nat" where
  "redemption_rank REQUESTED = 0"
| "redemption_rank APPROVED = 1"
| "redemption_rank _ = 2"

interpretation redemption_lc: lifecycle redemption_move redemption_rank 2
proof
  fix a b :: RewardRedemptionStatus
  show "redemption_move a b \<Longrightarrow> redemption_rank a < redemption_rank b" by (auto simp: redemption_move_def)
  show "redemption_rank a \<le> 2" by (cases a) simp_all
qed

lemma terminal_rank: "terminal_status st \<longleftrightarrow> redemption_rank st = 2"
  by (cases st) (simp_all add: terminal_status_def)

section \<open>What a transaction does\<close>

text \<open>The columns no transaction changes.\<close>

definition core :: "RewardRedemption \<Rightarrow> string \<times> string \<times> string \<times> string" where
  "core r = (rr_id r, rr_schoolId r, rr_catalogItemId r, rr_studentId r)"

definition row_update ::
  "string \<Rightarrow> string \<Rightarrow> RewardRedemptionStatus \<Rightarrow> RewardRedemptionStatus \<Rightarrow>
   RewardRedemption list \<Rightarrow> RewardRedemption list \<Rightarrow> bool" where
  "row_update rid school from to rows rows' \<longleftrightarrow>
     redemption_move from to \<and> (\<exists>r \<in> set rows. redemption_selected rid school from r) \<and>
     (\<exists>f. (\<forall>r. core (f r) = core r \<and> rr_status (f r) = to) \<and>
        rows' = map (\<lambda>r. if redemption_selected rid school from r then f r else r) rows)"

definition stock_update :: "string \<Rightarrow> string \<Rightarrow> RewardCatalogItem list \<Rightarrow> RewardCatalogItem list \<Rightarrow> bool" where
  "stock_update iid school items items' \<longleftrightarrow>
     (\<exists>i \<in> set items. item_id i = iid \<and> item_schoolId i = school \<and> item_isUnlimited i) \<and> items' = items \<or>
     (\<exists>i \<in> set items. stock_selected iid school i) \<and>
     items' = map (\<lambda>i. if stock_selected iid school i then decrement_stock i else i) items"

lemma row_updateI:
  assumes "updateMany (redemption_selected rid school from) f rows = (n, rows')" "0 < n"
    and "\<And>r. core (f r) = core r" "\<And>r. rr_status (f r) = to" "redemption_move from to"
  shows "row_update rid school from to rows rows'"
  using updateMany_some [OF assms(1)] assms(2-) unfolding row_update_def by auto

lemma cancel_effect:
  assumes "cancelRedemption input db = Inr (r, db')"
  shows "rdb_items db' = rdb_items db \<and> row_update (cn_redemptionId input) (cn_schoolId input)
    REQUESTED CANCELLED (rdb_redemptions db) (rdb_redemptions db')"
  using assms unfolding cancelRedemption_def
  by (auto simp: Let_def andThen_eq_Inr createAuditLogInTransaction_def core_def redemption_move_def
      split: prod.splits if_splits intro!: row_updateI)

lemma reject_effect:
  assumes "rejectRedemption input db = Inr (r, db')"
  shows "rdb_items db' = rdb_items db \<and> row_update (rj_redemptionId input) (rj_schoolId input)
    REQUESTED REJECTED (rdb_redemptions db) (rdb_redemptions db')"
  using assms unfolding rejectRedemption_def
  by (auto simp: Let_def andThen_eq_Inr createAuditLogInTransaction_def core_def redemption_move_def
      split: prod.splits if_splits intro!: row_updateI)

lemma fulfill_effect:
  assumes "fulfillRedemption input db = Inr (r, db')"
  shows "rdb_items db' = rdb_items db \<and> row_update (ff_redemptionId input) (ff_schoolId input)
    APPROVED FULFILLED (rdb_redemptions db) (rdb_redemptions db')"
  using assms unfolding fulfillRedemption_def
  by (auto simp: Let_def andThen_eq_Inr createAuditLogInTransaction_def core_def redemption_move_def
      split: prod.splits if_splits intro!: row_updateI)

lemma decrement_effect:
  assumes "decrement_item_stock school i items = Inr (items', after)"
    and "i \<in> set items" "item_schoolId i = school"
  shows "stock_update (item_id i) school items items'"
  using assms unfolding decrement_item_stock_def stock_update_def
  by (auto simp: Let_def split: prod.splits if_splits dest!: updateMany_some)

lemma approve_row_effect:
  assumes "approve_redemption_row input i items after snap db = Inr (r, db')"
  shows "rdb_items db' = items \<and> row_update (ap_redemptionId input) (ap_schoolId input)
    REQUESTED APPROVED (rdb_redemptions db) (rdb_redemptions db')"
  using assms unfolding approve_redemption_row_def
  by (auto simp: Let_def andThen_eq_Inr createAuditLogInTransaction_def core_def redemption_move_def
      split: prod.splits if_splits intro!: row_updateI)

lemma approve_effect:
  assumes "approveRedemptionWithStockDecrement input db = Inr (r, db')"
  shows "row_update (ap_redemptionId input) (ap_schoolId input) REQUESTED APPROVED
      (rdb_redemptions db) (rdb_redemptions db') \<and>
    stock_update (ap_catalogItemId input) (ap_schoolId input) (rdb_items db) (rdb_items db')"
proof -
  from assms obtain i items after snap where i: "findFirst (\<lambda>i. item_id i = ap_catalogItemId input \<and>
      item_schoolId i = ap_schoolId input) (rdb_items db) = Some i"
    and dec: "decrement_item_stock (ap_schoolId input) i (rdb_items db) = Inr (items, after)"
    and row: "approve_redemption_row input i items after snap db = Inr (r, db')"
    by (auto simp: approveRedemptionWithStockDecrement_def andThen_eq_Inr split: option.splits)
  show ?thesis
    using findFirst_SomeD [OF i] decrement_effect [OF dec] approve_row_effect [OF row] by auto
qed

lemma create_effect:
  assumes "CreateRewardRedemptionUseCase_commit newId input db = Inr (r, db')"
  shows "\<exists>row. rdb_redemptions db' = rdb_redemptions db @ [row] \<and> rdb_items db' = rdb_items db \<and>
    rr_status row = cr_status input \<and> \<not> violates_unique row (rdb_redemptions db)"
proof -
  from assms have "createRedemption newId input db = Inr (r, db')"
    by (auto simp: CreateRewardRedemptionUseCase_commit_def split: sum.splits if_splits)
  then show ?thesis
    by (auto simp: createRedemption_def Let_def andThen_eq_Inr createAuditLogInTransaction_def
        split: js_value.splits if_splits)
qed

section \<open>Rows and stock\<close>

definition one_open :: "RewardRedemption list \<Rightarrow> bool" where
  "one_open rows \<longleftrightarrow> (\<forall>r \<in> set rows. \<forall>q \<in> set rows.
     open_status (rr_status r) \<and> open_status (rr_status q) \<and> rr_schoolId r = rr_schoolId q \<and>
     rr_catalogItemId r = rr_catalogItemId q \<and> rr_studentId r = rr_studentId q \<longrightarrow> r = q)"

definition tables_ok :: "RewardDb \<Rightarrow> bool" where
  "tables_ok db \<longleftrightarrow>
     distinct (map rr_id (rdb_redemptions db)) \<and> distinct (map item_id (rdb_items db)) \<and>
     one_open (rdb_redemptions db) \<and>
     (\<forall>i \<in> set (rdb_items db). \<forall>n. item_stockRemaining i = Some n \<longrightarrow> 0 \<le> n)"

lemma row_update_split:
  assumes "row_update rid school from to rows rows'" "distinct (map rr_id rows)"
  obtains us r vs r' where "rows = us @ r # vs" "rows' = us @ r' # vs" "core r' = core r"
    "rr_id r = rid" "rr_schoolId r = school" "rr_status r = from" "rr_status r' = to" "redemption_move from to"
proof -
  from assms(1) obtain f r where f: "\<And>r. core (f r) = core r" "\<And>r. rr_status (f r) = to"
    and rows': "rows' = map (\<lambda>r. if redemption_selected rid school from r then f r else r) rows"
    and r: "r \<in> set rows" "redemption_selected rid school from r" and mv: "redemption_move from to"
    unfolding row_update_def by blast
  from r(1) obtain us vs where rows: "rows = us @ r # vs" by (meson split_list)
  have "rr_id x \<noteq> rid" if "x \<in> set us \<union> set vs" for x
  proof -
    have "rr_id x \<in> rr_id ` (set us \<union> set vs)" using that by (rule imageI)
    moreover have "rr_id r \<notin> rr_id ` (set us \<union> set vs)" using assms(2) by (auto simp: rows)
    ultimately show ?thesis using r(2) by (auto simp: redemption_selected_def)
  qed
  then have "map (\<lambda>r. if redemption_selected rid school from r then f r else r) us = us"
    "map (\<lambda>r. if redemption_selected rid school from r then f r else r) vs = vs"
    by (auto simp: redemption_selected_def intro!: map_idI)
  then have "rows' = us @ f r # vs" using r(2) by (simp add: rows rows')
  with rows f r(2) mv show ?thesis by (intro that [of us r vs "f r"]) (auto simp: redemption_selected_def)
qed

lemma move_from_open: "redemption_move a b \<Longrightarrow> open_status a"
  by (auto simp: redemption_move_def open_status_def)

lemma row_update_ids: "row_update rid school from to rows rows' \<Longrightarrow> map core rows' = map core rows"
  by (auto simp: row_update_def)

lemma core_ids: "map core rows' = map core rows \<Longrightarrow> map rr_id rows' = map rr_id rows"
proof -
  assume "map core rows' = map core rows"
  then have "map (fst \<circ> core) rows' = map (fst \<circ> core) rows" by (metis map_map)
  then show ?thesis by (simp add: core_def o_def)
qed

lemma row_update_one_open:
  assumes "row_update rid school from to rows rows'" "one_open rows"
  shows "one_open rows'"
proof -
  from assms(1) obtain f where f: "\<And>r. core (f r) = core r" "\<And>r. rr_status (f r) = to"
    and rows': "rows' = map (\<lambda>r. if redemption_selected rid school from r then f r else r) rows"
    and mv: "redemption_move from to" unfolding row_update_def by blast
  let ?g = "\<lambda>r. if redemption_selected rid school from r then f r else r"
  have core: "core (?g r) = core r" for r using f by simp
  have opn: "open_status (rr_status (?g r)) \<Longrightarrow> open_status (rr_status r)" for r
    using move_from_open [OF mv] by (auto simp: redemption_selected_def split: if_splits)
  show ?thesis unfolding one_open_def
  proof (intro ballI impI)
    fix x y assume "x \<in> set rows'" "y \<in> set rows'"
    then obtain r q where r: "r \<in> set rows" "x = ?g r" and q: "q \<in> set rows" "y = ?g q"
      unfolding rows' by auto
    assume same: "open_status (rr_status x) \<and> open_status (rr_status y) \<and> rr_schoolId x = rr_schoolId y \<and>
      rr_catalogItemId x = rr_catalogItemId y \<and> rr_studentId x = rr_studentId y"
    then have "open_status (rr_status r)" "open_status (rr_status q)"
      using opn [of r] opn [of q] unfolding r(2) q(2) by blast+
    moreover have "rr_schoolId r = rr_schoolId q" "rr_catalogItemId r = rr_catalogItemId q"
      "rr_studentId r = rr_studentId q"
      using same core [of r] core [of q] unfolding r(2) q(2) core_def by simp_all
    ultimately have "r = q" using assms(2) r(1) q(1) unfolding one_open_def by blast
    then show "x = y" using r q by simp
  qed
qed

lemma create_one_open:
  assumes "one_open rows" "\<not> violates_unique row rows"
  shows "one_open (rows @ [row])"
  using assms unfolding one_open_def violates_unique_def by auto

lemma stock_update_items:
  assumes "stock_update iid school items items'"
  shows "map item_id items' = map item_id items"
    and "(\<forall>i \<in> set items. \<forall>n. item_stockRemaining i = Some n \<longrightarrow> 0 \<le> n) \<Longrightarrow>
     (\<forall>i \<in> set items'. \<forall>n. item_stockRemaining i = Some n \<longrightarrow> 0 \<le> n)"
  using assms by (auto simp: stock_update_def decrement_stock_def stock_selected_def split: option.splits)

lemma commit_tables_ok:
  assumes "commit newId p db = Inr (r, db')" "tables_ok db"
  shows "tables_ok db'"
proof -
  have upd: "tables_ok db'" if "rdb_items db' = rdb_items db"
    "row_update rid school a b (rdb_redemptions db) (rdb_redemptions db')" for rid school a b
    using that assms(2) row_update_one_open [OF that(2)] core_ids [OF row_update_ids [OF that(2)]]
    by (simp add: tables_ok_def)
  show ?thesis
  proof (cases p)
    case (PCreate input)
    with assms(1) create_effect [of newId input db r db'] obtain row where
      "rdb_redemptions db' = rdb_redemptions db @ [row]" "rdb_items db' = rdb_items db"
      "\<not> violates_unique row (rdb_redemptions db)" by auto
    then show ?thesis using assms(2) create_one_open
      by (auto simp: tables_ok_def violates_unique_def)
  next
    case (PApprove input)
    with assms(1) approve_effect [of input db r db']
    have row: "row_update (ap_redemptionId input) (ap_schoolId input) REQUESTED APPROVED
        (rdb_redemptions db) (rdb_redemptions db')"
      and st: "stock_update (ap_catalogItemId input) (ap_schoolId input) (rdb_items db) (rdb_items db')" by auto
    show ?thesis
      using assms(2) row_update_one_open [OF row] core_ids [OF row_update_ids [OF row]]
        stock_update_items [OF st] by (simp add: tables_ok_def)
  next
    case (PReject input)
    with assms(1) reject_effect [of input db r db'] show ?thesis using upd by auto
  next
    case (PFulfill input)
    with assms(1) fulfill_effect [of input db r db'] show ?thesis using upd by auto
  next
    case (PCancel input)
    with assms(1) cancel_effect [of input db r db'] show ?thesis using upd by auto
  qed
qed

section \<open>Conservation of stock\<close>

definition granted :: "RewardRedemption list \<Rightarrow> string \<Rightarrow> string \<Rightarrow> int" where
  "granted rows school iid =
     int (length (filter (\<lambda>r. rr_schoolId r = school \<and> rr_catalogItemId r = iid \<and>
       (rr_status r = APPROVED \<or> rr_status r = FULFILLED)) rows))"

definition stock_value :: "RewardCatalogItem \<Rightarrow> int" where
  "stock_value i = (case item_stockRemaining i of None \<Rightarrow> 0 | Some n \<Rightarrow> n)"

definition stock_of :: "RewardCatalogItem list \<Rightarrow> string \<Rightarrow> string \<Rightarrow> int" where
  "stock_of items school iid =
     sum_list (map stock_value (filter (\<lambda>i. item_id i = iid \<and> item_schoolId i = school) items))"

definition limited_item :: "RewardCatalogItem list \<Rightarrow> string \<Rightarrow> string \<Rightarrow> bool" where
  "limited_item items school iid \<longleftrightarrow>
     (\<forall>i \<in> set items. item_id i = iid \<and> item_schoolId i = school \<longrightarrow> \<not> item_isUnlimited i)"

lemma granted_row_update:
  assumes "row_update rid school a b rows rows'" "distinct (map rr_id rows)"
    and "r \<in> set rows" "rr_id r = rid" "rr_schoolId r = school"
  shows "granted rows' sch iid = granted rows sch iid +
    (if b = APPROVED \<and> sch = school \<and> rr_catalogItemId r = iid then 1 else 0)"
proof -
  from row_update_split [OF assms(1,2)] obtain us q vs q' where rows: "rows = us @ q # vs"
    and rows': "rows' = us @ q' # vs" and core: "core q' = core q" "rr_id q = rid"
    and st: "rr_status q = a" "rr_status q' = b" and mv: "redemption_move a b" .
  have "q = r" using assms(2-4) core(2) by (auto simp: rows distinct_map dest: inj_onD)
  then show ?thesis
    using core st mv assms(5) by (auto simp: granted_def rows rows' core_def redemption_move_def)
qed

lemma stock_update_stock_of:
  assumes "stock_update jid school items items'" "distinct (map item_id items)" "limited_item items sch iid"
  shows "stock_of items' sch iid = stock_of items sch iid - (if sch = school \<and> iid = jid then 1 else 0)"
proof -
  from assms(1) consider "\<exists>i \<in> set items. item_id i = jid \<and> item_schoolId i = school \<and> item_isUnlimited i"
      "items' = items"
    | i where "i \<in> set items" "stock_selected jid school i"
      "items' = map (\<lambda>i. if stock_selected jid school i then decrement_stock i else i) items"
    unfolding stock_update_def by blast
  then show ?thesis
  proof cases
    case 1
    then have "\<not> (sch = school \<and> iid = jid)" using assms(3) by (auto simp: limited_item_def)
    with 1 show ?thesis by simp
  next
    case (2 i)
    obtain us vs where items: "items = us @ i # vs" using 2(1) by (meson split_list)
    have "item_id x \<noteq> jid" if "x \<in> set us \<union> set vs" for x
    proof -
      have "item_id x \<in> item_id ` (set us \<union> set vs)" using that by (rule imageI)
      moreover have "item_id i \<notin> item_id ` (set us \<union> set vs)" using assms(2) by (auto simp: items)
      ultimately show ?thesis using 2(2) by (auto simp: stock_selected_def)
    qed
    then have "map (\<lambda>i. if stock_selected jid school i then decrement_stock i else i) us = us"
      "map (\<lambda>i. if stock_selected jid school i then decrement_stock i else i) vs = vs"
      by (auto simp: stock_selected_def intro!: map_idI)
    then have items': "items' = us @ decrement_stock i # vs" using 2 by (simp add: items)
    have "stock_value (decrement_stock i) = stock_value i - 1" "item_id (decrement_stock i) = item_id i"
      "item_schoolId (decrement_stock i) = item_schoolId i" "item_id i = jid" "item_schoolId i = school"
      using 2(2) by (auto simp: decrement_stock_def stock_value_def stock_selected_def split: option.splits)
    then show ?thesis by (auto simp: stock_of_def items items')
  qed
qed

lemma stock_update_limited:
  "stock_update jid school items items' \<Longrightarrow> limited_item items sch iid \<Longrightarrow> limited_item items' sch iid"
  by (auto simp: stock_update_def limited_item_def decrement_stock_def)

text \<open>What a pending request still knows about the database it has read.\<close>

fun pending_ok :: "RewardDb \<Rightarrow> pending \<Rightarrow> bool" where
  "pending_ok db (PCreate input) \<longleftrightarrow> cr_status input = REQUESTED"
| "pending_ok db (PApprove input) \<longleftrightarrow>
     (\<exists>r \<in> set (rdb_redemptions db). rr_id r = ap_redemptionId input \<and>
        rr_schoolId r = ap_schoolId input \<and> rr_catalogItemId r = ap_catalogItemId input)"
| "pending_ok db _ \<longleftrightarrow> True"

lemma row_update_row:
  assumes "row_update rid school a b rows rows'" "distinct (map rr_id rows)"
  shows "\<exists>r \<in> set rows. rr_id r = rid \<and> rr_schoolId r = school"
  using assms unfolding row_update_def redemption_selected_def by blast

lemma move_balance:
  assumes "row_update rid school a b (rdb_redemptions db) (rdb_redemptions db')" "b \<noteq> APPROVED"
    "rdb_items db' = rdb_items db" "tables_ok db"
  shows "stock_of (rdb_items db') sch iid + granted (rdb_redemptions db') sch iid =
    stock_of (rdb_items db) sch iid + granted (rdb_redemptions db) sch iid"
proof -
  have d: "distinct (map rr_id (rdb_redemptions db))" using assms(4) by (simp add: tables_ok_def)
  obtain r where "r \<in> set (rdb_redemptions db)" "rr_id r = rid" "rr_schoolId r = school"
    using row_update_row [OF assms(1) d] by blast
  from granted_row_update [OF assms(1) d this] assms(2,3) show ?thesis by simp
qed

lemma commit_balance:
  assumes "commit newId p db = Inr (r, db')" "tables_ok db" "pending_ok db p"
    and lim: "limited_item (rdb_items db) sch iid"
  shows "limited_item (rdb_items db') sch iid \<and>
    stock_of (rdb_items db') sch iid + granted (rdb_redemptions db') sch iid =
    stock_of (rdb_items db) sch iid + granted (rdb_redemptions db) sch iid" (is ?goal)
proof (cases p)
  case (PCreate input)
  with assms(1,3) create_effect [of newId input db r db'] obtain row where
    "rdb_redemptions db' = rdb_redemptions db @ [row]" "rdb_items db' = rdb_items db"
    "rr_status row = REQUESTED" by auto
  then show ?thesis using lim by (simp add: granted_def)
next
  case (PApprove input)
  with assms(1) approve_effect [of input db r db']
  have row: "row_update (ap_redemptionId input) (ap_schoolId input) REQUESTED APPROVED
      (rdb_redemptions db) (rdb_redemptions db')"
    and st: "stock_update (ap_catalogItemId input) (ap_schoolId input) (rdb_items db) (rdb_items db')" by auto
  from assms(3) PApprove obtain q where q: "q \<in> set (rdb_redemptions db)" "rr_id q = ap_redemptionId input"
    "rr_schoolId q = ap_schoolId input" and item: "rr_catalogItemId q = ap_catalogItemId input" by auto
  have d: "distinct (map rr_id (rdb_redemptions db))" "distinct (map item_id (rdb_items db))"
    using assms(2) by (simp_all add: tables_ok_def)
  show ?thesis
    using stock_update_limited [OF st lim] stock_update_stock_of [OF st d(2) lim]
      granted_row_update [OF row d(1) q] item by auto
next
  case (PReject input)
  with assms(1) have "rejectRedemption input db = Inr (r, db')" by simp
  note eff = reject_effect [OF this]
  show ?thesis
    using move_balance [OF conjunct2 [OF eff] _ conjunct1 [OF eff] assms(2)] eff lim by simp
next
  case (PFulfill input)
  with assms(1) have "fulfillRedemption input db = Inr (r, db')" by simp
  note eff = fulfill_effect [OF this]
  show ?thesis
    using move_balance [OF conjunct2 [OF eff] _ conjunct1 [OF eff] assms(2)] eff lim by simp
next
  case (PCancel input)
  with assms(1) have "cancelRedemption input db = Inr (r, db')" by simp
  note eff = cancel_effect [OF this]
  show ?thesis
    using move_balance [OF conjunct2 [OF eff] _ conjunct1 [OF eff] assms(2)] eff lim by simp
qed

section \<open>The system\<close>

definition reward_inv :: "RewardSystem \<Rightarrow> bool" where
  "reward_inv s \<longleftrightarrow> tables_ok (sys_db s) \<and> (\<forall>p \<in> set (sys_pending s). pending_ok (sys_db s) p)"

lemma prepare_pending_ok: "prepare context now req db = Inr p \<Longrightarrow> pending_ok db p"
proof (cases req)
  case (Create command)
  moreover have "CreateRewardRedemptionUseCase_prepare context now command db = Inr input \<Longrightarrow>
      cr_status input = REQUESTED" for input
    by (auto simp: CreateRewardRedemptionUseCase_prepare_def Let_def andThen_eq_Inr split: if_splits option.splits)
  ultimately show "prepare context now req db = Inr p \<Longrightarrow> ?thesis"
    by (auto simp: mapResult_def andThen_eq_Inr)
next
  case (Approve rid command)
  moreover have "pending_ok db (PApprove input)"
    if "ApproveRewardRedemptionUseCase_prepare context now rid command db = Inr input" for input
  proof -
    from that obtain sc where sc: "requireReinforcementScope context = Inr sc"
      and row: "findRedemptionById (scope_schoolId sc) rid db \<noteq> None"
      by (cases "requireReinforcementScope context")
        (auto simp: ApproveRewardRedemptionUseCase_prepare_def split: option.splits)
    from row obtain x where x: "findRedemptionById (scope_schoolId sc) rid db = Some x" by blast
    with that sc obtain i where
      i: "findCatalogItemForReview (scope_schoolId sc) (rr_catalogItemId x) db = Some i"
      by (auto simp: ApproveRewardRedemptionUseCase_prepare_def andThen_eq_Inr split: option.splits)
    from i have "item_id i = rr_catalogItemId x"
      by (auto simp: findCatalogItemForReview_def dest: findFirst_SomeD)
    with that sc x i show ?thesis
      by (auto simp: ApproveRewardRedemptionUseCase_prepare_def andThen_eq_Inr Let_def findRedemptionById_def
          dest!: findFirst_SomeD)
  qed
  ultimately show "prepare context now req db = Inr p \<Longrightarrow> ?thesis"
    by (auto simp: mapResult_def andThen_eq_Inr simp del: pending_ok.simps)
qed (auto simp: mapResult_def andThen_eq_Inr)

lemma commit_rows:
  assumes "commit newId p db = Inr (r, db')" "distinct (map rr_id (rdb_redemptions db))" "q \<in> set (rdb_redemptions db)"
  shows "\<exists>q' \<in> set (rdb_redemptions db'). core q' = core q \<and>
    (q' = q \<or> redemption_move (rr_status q) (rr_status q'))"
proof -
  have upd: ?thesis if "row_update rid school a b (rdb_redemptions db) (rdb_redemptions db')" for rid school a b
    using row_update_split [OF that assms(2)] assms(3) by (metis (no_types, lifting) Un_iff insert_iff list.set(2) set_append)
  show ?thesis
  proof (cases p)
    case (PCreate input)
    with assms(1) create_effect [of newId input db r db'] assms(3) show ?thesis by auto
  next
    case (PApprove input)
    with assms(1) approve_effect [of input db r db'] show ?thesis using upd by auto
  next
    case (PReject input)
    with assms(1) reject_effect [of input db r db'] show ?thesis using upd by auto
  next
    case (PFulfill input)
    with assms(1) fulfill_effect [of input db r db'] show ?thesis using upd by auto
  next
    case (PCancel input)
    with assms(1) cancel_effect [of input db r db'] show ?thesis using upd by auto
  qed
qed

lemma commit_pending_ok:
  assumes "commit newId p db = Inr (r, db')" "tables_ok db" "pending_ok db q"
  shows "pending_ok db' q"
proof (cases q)
  case (PApprove input)
  with assms(3) obtain x where x: "x \<in> set (rdb_redemptions db)" "rr_id x = ap_redemptionId input"
    "rr_schoolId x = ap_schoolId input" "rr_catalogItemId x = ap_catalogItemId input" by auto
  have "distinct (map rr_id (rdb_redemptions db))" using assms(2) by (simp add: tables_ok_def)
  from commit_rows [OF assms(1) this x(1)] obtain y where "y \<in> set (rdb_redemptions db')" "core y = core x"
    by blast
  with x PApprove show ?thesis by (auto simp: core_def)
qed (use assms(3) in auto)

lemma step_inv:
  assumes "reward_step s s'" "reward_inv s"
  shows "reward_inv s'"
  using assms(1)
proof (cases rule: reward_step.cases)
  case (step_prepare ctx now req p)
  then show ?thesis using assms(2) prepare_pending_ok by (auto simp: reward_inv_def)
next
  case (step_commit p newId r db')
  have "\<forall>q \<in> set (remove1 p (sys_pending s)). pending_ok db' q"
    using assms(2) commit_pending_ok [OF step_commit(3)] by (auto simp: reward_inv_def dest: notin_set_remove1)
  then show ?thesis
    using step_commit commit_tables_ok [OF step_commit(3)] assms(2) by (simp add: reward_inv_def)
next
  case (step_rollback p newId e)
  then show ?thesis using assms(2) by (auto simp: reward_inv_def dest: notin_set_remove1)
qed

lemma reachable_inv: "reward_reachable s s' \<Longrightarrow> reward_inv s \<Longrightarrow> reward_inv s'"
  by (induction rule: rtranclp_induct) (auto intro: step_inv)

lemma step_balance:
  assumes "reward_step s s'" "reward_inv s" "limited_item (rdb_items (sys_db s)) sch iid"
  shows "limited_item (rdb_items (sys_db s')) sch iid \<and>
    stock_of (rdb_items (sys_db s')) sch iid + granted (rdb_redemptions (sys_db s')) sch iid =
    stock_of (rdb_items (sys_db s)) sch iid + granted (rdb_redemptions (sys_db s)) sch iid"
  using assms(1)
proof (cases rule: reward_step.cases)
  case (step_commit p newId r db')
  then show ?thesis using commit_balance [OF step_commit(3)] assms(2,3) by (simp add: reward_inv_def)
qed (use assms(3) in auto)

lemma reachable_balance:
  assumes "reward_reachable s s'" "reward_inv s" "limited_item (rdb_items (sys_db s)) sch iid"
  shows "limited_item (rdb_items (sys_db s')) sch iid \<and>
    stock_of (rdb_items (sys_db s')) sch iid + granted (rdb_redemptions (sys_db s')) sch iid =
    stock_of (rdb_items (sys_db s)) sch iid + granted (rdb_redemptions (sys_db s)) sch iid"
  using assms(1)
proof (induction rule: rtranclp_induct)
  case (step t u)
  from step_balance [OF step(2) reachable_inv [OF step(1) assms(2)]] step(3) show ?case by auto
qed (simp add: assms(3))

lemma stock_of_nonneg: "tables_ok db \<Longrightarrow> 0 \<le> stock_of (rdb_items db) sch iid"
  by (auto simp: stock_of_def tables_ok_def stock_value_def intro!: sum_list_nonneg split: option.splits)

lemma reachable_rows:
  assumes "reward_reachable s s'" "reward_inv s" "q \<in> set (rdb_redemptions (sys_db s))"
  shows "\<exists>q' \<in> set (rdb_redemptions (sys_db s')). core q' = core q \<and>
    redemption_move\<^sup>*\<^sup>* (rr_status q) (rr_status q') \<and> (rr_status q' = rr_status q \<longrightarrow> q' = q)"
  using assms(1)
proof (induction rule: rtranclp_induct)
  case base
  then show ?case using assms(3) by blast
next
  case (step t u)
  from step(3) obtain x where x: "x \<in> set (rdb_redemptions (sys_db t))" "core x = core q"
    "redemption_move\<^sup>*\<^sup>* (rr_status q) (rr_status x)" "rr_status x = rr_status q \<longrightarrow> x = q" by blast
  have inv: "reward_inv t" using reachable_inv step(1) assms(2) by blast
  from step(2) show ?case
  proof (cases rule: reward_step.cases)
    case (step_commit p newId r db')
    have "distinct (map rr_id (rdb_redemptions (sys_db t)))"
      using inv by (simp add: reward_inv_def tables_ok_def)
    from commit_rows [OF step_commit(3) this x(1)] obtain y where
      y: "y \<in> set (rdb_redemptions db')" "core y = core x" "y = x \<or> redemption_move (rr_status x) (rr_status y)"
      by blast
    have "rr_status y = rr_status q \<longrightarrow> y = q"
    proof
      assume eq: "rr_status y = rr_status q"
      have "\<not> redemption_move (rr_status x) (rr_status y)"
        using x(3) redemption_lc.no_return [of "rr_status q"] eq by (metis rtranclp_into_tranclp1)
      then show "y = q" using y(3) x(4) eq by auto
    qed
    then show ?thesis using x y step_commit(1) by (auto intro: rtranclp.rtrancl_into_rtrancl)
  qed (use x in auto)
qed

end
