(* ===== verification/Reward_Theorems.thy ===== *)
theory Reward_Theorems
  imports Reward_Invariants
begin

text \<open>
  The guarantees of the reward component: what holds in every state any interleaving of requests can
  reach, when an approval succeeds, and what a request has been checked against.
\<close>

section \<open>A use case run without interruption\<close>

definition execute ::
  "RequestContext option \<Rightarrow> int \<Rightarrow> string \<Rightarrow> request \<Rightarrow> RewardDb \<Rightarrow> (RewardRedemption \<times> RewardDb) result" where
  "execute ctx now newId req db = andThen (prepare ctx now req db) (\<lambda>p. commit newId p db)"

definition idle :: "RewardDb \<Rightarrow> RewardSystem" where
  "idle db = \<lparr>sys_db = db, sys_pending = []\<rparr>"

lemma idle_simps [simp]: "sys_db (idle db) = db" "sys_pending (idle db) = []"
  by (simp_all add: idle_def)

lemma idle_inv [simp]: "reward_inv (idle db) = tables_ok db"
  by (simp add: reward_inv_def)

lemma execute_reachable:
  assumes "execute ctx now newId req db = Inr (r, db')"
  shows "reward_reachable (idle db) (idle db')"
proof -
  from assms obtain p where p: "prepare ctx now req db = Inr p" "commit newId p db = Inr (r, db')"
    by (auto simp: execute_def andThen_eq_Inr)
  let ?m = "\<lparr>sys_db = db, sys_pending = [p]\<rparr>"
  have "reward_step (idle db) ?m"
    using reward_step.step_prepare [of ctx now req "idle db" p] p(1) by (simp add: idle_def)
  moreover have "reward_step ?m (idle db')"
    using reward_step.step_commit [of p ?m newId r db'] p(2) by (simp add: idle_def)
  ultimately show ?thesis by simp
qed

section \<open>A school with one limited reward\<close>

definition example_item :: RewardCatalogItem where
  "example_item = \<lparr>item_id = ''i'', item_schoolId = ''s'', item_academicYearId = None, item_termId = None,
     item_status = Item_PUBLISHED, item_minTotalXp = Some 10, item_isUnlimited = False,
     item_stockRemaining = Some 1, item_deletedAt = None\<rparr>"

definition example_db :: RewardDb where
  "example_db = \<lparr>rdb_items = [example_item], rdb_redemptions = [],
     rdb_students = [\<lparr>student_id = ''x'', student_schoolId = ''s'', student_deletedAt = None\<rparr>],
     rdb_enrollments = [], rdb_years = [], rdb_terms = [],
     rdb_xpLedger = [\<lparr>xpl_schoolId = ''s'', xpl_studentId = ''x'', xpl_amount = 25\<rparr>], rdb_audit = []\<rparr>"

definition example_caller :: "RequestContext option" where
  "example_caller = Some \<lparr>rc_requestId = ''q'',
     rc_actor = Some \<lparr>actor_id = ''a'', actor_userType = ''SCHOOL_USER''\<rparr>,
     rc_activeMembership = Some \<lparr>am_membershipId = ''m'', am_schoolId = Some ''s'', am_organizationId = ''o'',
       am_roleId = ''r'', am_permissions = []\<rparr>,
     rc_bypass = \<lparr>bypassSchoolScope = False, includeSoftDeleted = False\<rparr>\<rparr>"

definition example_create :: CreateRewardRedemptionDto where
  "example_create = \<lparr>dto_catalogItemId = ''i'', dto_studentId = ''x'', dto_enrollmentId = None,
     dto_academicYearId = None, dto_termId = None, dto_requestSource = Some ''Student-App'',
     dto_requestNoteEn = None, dto_requestNoteAr = None, dto_metadata = None\<rparr>"

definition example_review :: ReviewDto where
  "example_review = \<lparr>rv_noteEn = Some '' ok '', rv_noteAr = None, rv_metadata = None\<rparr>"

definition result_db :: "(RewardRedemption \<times> RewardDb) result \<Rightarrow> RewardDb" where
  "result_db r = snd (projr r)"

definition requested_db :: RewardDb where
  "requested_db = result_db (execute example_caller 100 ''n'' (Create example_create) example_db)"

definition approved_db :: RewardDb where
  "approved_db = result_db (execute example_caller 200 ''n'' (Approve ''n'' example_review) requested_db)"

definition rejected_db :: RewardDb where
  "rejected_db = result_db (execute example_caller 200 ''n'' (Reject ''n'' example_review) requested_db)"

lemma result_db_reachable:
  assumes "case execute ctx now newId req db of Inl _ \<Rightarrow> False | Inr _ \<Rightarrow> True"
    and "db' = result_db (execute ctx now newId req db)"
  shows "reward_reachable (idle db) (idle db')"
  using assms by (cases "execute ctx now newId req db") (auto simp: result_db_def intro: execute_reachable)

lemma requested_reachable: "reward_reachable (idle example_db) (idle requested_db)"
  by (rule result_db_reachable [OF _ requested_db_def]) code_simp

lemma approved_reachable: "reward_reachable (idle requested_db) (idle approved_db)"
  by (rule result_db_reachable [OF _ approved_db_def]) code_simp

lemma rejected_reachable: "reward_reachable (idle requested_db) (idle rejected_db)"
  by (rule result_db_reachable [OF _ rejected_db_def]) code_simp

text \<open>The rows of the example, evaluated once.\<close>

definition brief :: "RewardDb \<Rightarrow> (string \<times> string \<times> string \<times> string \<times> RewardRedemptionStatus) list" where
  "brief db = map (\<lambda>r. (rr_id r, rr_schoolId r, rr_catalogItemId r, rr_studentId r, rr_status r)) (rdb_redemptions db)"

lemma requested_brief: "brief requested_db = [(''n'', ''s'', ''i'', ''x'', REQUESTED)]"
  by code_simp

lemma approved_brief: "brief approved_db = [(''n'', ''s'', ''i'', ''x'', APPROVED)]"
  by code_simp

lemma rejected_brief: "brief rejected_db = [(''n'', ''s'', ''i'', ''x'', REJECTED)]"
  by code_simp

lemma brief_single:
  assumes "brief db = [(a, b, c, d, st)]"
  obtains r where "rdb_redemptions db = [r]" "rr_id r = a" "rr_schoolId r = b" "rr_catalogItemId r = c"
    "rr_studentId r = d" "rr_status r = st"
  using assms by (auto simp: brief_def)

lemma example_tables: "tables_ok example_db"
  by (simp add: tables_ok_def example_db_def example_item_def one_open_def)

lemma requested_tables: "tables_ok requested_db"
  using reachable_inv [OF requested_reachable] example_tables by simp

section \<open>Stock\<close>



section \<open>One open redemption\<close>



section \<open>Lifecycle\<close>

text \<open>C10. A redemption row is never lost and only moves forward: in every later state there is a row with
  its id, school, item and student whose status is reached by allowed moves (requested to approved,
  rejected or cancelled, approved to fulfilled), and a rejected, fulfilled or cancelled row never changes
  again in any column.\<close>

theorem redemption_lifecycle:
  assumes "reward_reachable s s'" "reward_inv s" "q \<in> set (rdb_redemptions (sys_db s))"
  shows "(\<exists>q' \<in> set (rdb_redemptions (sys_db s')). core q' = core q \<and>
      redemption_move\<^sup>*\<^sup>* (rr_status q) (rr_status q')) \<and>
    (terminal_status (rr_status q) \<longrightarrow> q \<in> set (rdb_redemptions (sys_db s')))"
proof -
  from reachable_rows [OF assms] obtain q' where q': "q' \<in> set (rdb_redemptions (sys_db s'))" "core q' = core q"
    "redemption_move\<^sup>*\<^sup>* (rr_status q) (rr_status q')" "rr_status q' = rr_status q \<longrightarrow> q' = q" by blast
  then show ?thesis using redemption_lc.top_absorbing [OF q'(3)] terminal_rank by auto
qed

theorem redemption_lifecycle_witness:
  "hd (rdb_redemptions rejected_db) \<in> set (rdb_redemptions (sys_db (idle rejected_db))) \<and>
   (\<exists>q' \<in> set (rdb_redemptions rejected_db). core q' = core (hd (rdb_redemptions requested_db)) \<and>
     redemption_move\<^sup>*\<^sup>* (rr_status (hd (rdb_redemptions requested_db))) (rr_status q'))"
proof -
  obtain r where r: "rdb_redemptions rejected_db = [r]" "rr_status r = REJECTED"
    by (rule brief_single [OF rejected_brief])
  obtain q where q: "rdb_redemptions requested_db = [q]" by (rule brief_single [OF requested_brief])
  have "reward_inv (idle rejected_db)"
    using reachable_inv [OF rejected_reachable] requested_tables by simp
  then show ?thesis
    using redemption_lifecycle [of "idle rejected_db" "idle rejected_db" r]
      redemption_lifecycle [OF rejected_reachable, of q] requested_tables r q
    by (simp add: terminal_status_def)
qed

section \<open>Approval\<close>

definition approvable_item :: "RewardCatalogItem \<Rightarrow> bool" where
  "approvable_item i \<longleftrightarrow> item_status i = Item_PUBLISHED \<and> item_deletedAt i = None \<and>
     (item_isUnlimited i \<or> (\<exists>n. item_stockRemaining i = Some n \<and> 0 < n))"

lemma still_requestable_iff:
  "assertRewardStillRequestableForApproval (item_id i) (JStr (catalog_status_name (item_status i)))
     (item_deletedAt i) (item_isUnlimited i) (item_stockRemaining i) = Inr () \<longleftrightarrow> approvable_item i"
  by (cases "item_status i")
    (auto simp: assertRewardStillRequestableForApproval_def assertRewardRequestable_def
      assertApprovalStockAvailable_def assertRewardStockAvailableForRequest_def approvable_item_def
      normalize_catalog_name [of Item_DRAFT, simplified] normalize_catalog_name [of Item_PUBLISHED, simplified]
      normalize_catalog_name [of Item_ARCHIVED, simplified] split: option.splits if_splits)

lemma decrement_ok:
  assumes "i \<in> set items" "item_schoolId i = school" "approvable_item i"
  shows "\<exists>items' after. decrement_item_stock school i items = Inr (items', after)"
proof (cases "item_isUnlimited i")
  case False
  then have "stock_selected (item_id i) school i" using assms by (auto simp: stock_selected_def approvable_item_def)
  from updateMany_pos [of i items "stock_selected (item_id i) school" decrement_stock, OF assms(1) this] False
  show ?thesis by (fastforce simp: decrement_item_stock_def)
qed (simp add: decrement_item_stock_def)

lemma snapshot_ok:
  "\<exists>snap. buildApprovalEligibilitySnapshot prev (JStr (catalog_status_name st)) m t u b a tm = Inr snap"
  by (simp add: buildApprovalEligibilitySnapshot_def js_toLowerCase_def)

lemma approve_row_ok:
  assumes "r \<in> set (rdb_redemptions db)" "redemption_selected (ap_redemptionId input) (ap_schoolId input) REQUESTED r"
  shows "\<exists>q db'. approve_redemption_row input i items after snap db = Inr (q, db')"
proof -
  let ?f = "\<lambda>r. r\<lparr>rr_status := APPROVED, rr_reviewedAt := Some (ap_reviewedAt input),
    rr_reviewedById := Some (ap_reviewedById input), rr_reviewNoteEn := ap_reviewNoteEn input,
    rr_reviewNoteAr := ap_reviewNoteAr input, rr_eligibilitySnapshot := Some snap,
    rr_metadata := updated_metadata (ap_metadata input) (rr_metadata r)\<rparr>"
  from updateMany_pos [of r "rdb_redemptions db"
      "redemption_selected (ap_redemptionId input) (ap_schoolId input) REQUESTED" ?f, OF assms] obtain n rows where
    u: "updateMany (redemption_selected (ap_redemptionId input) (ap_schoolId input) REQUESTED) ?f
      (rdb_redemptions db) = (Suc n, rows)" and r: "?f r \<in> set rows" by blast
  from findFirst_ex [OF r, of "\<lambda>r. rr_id r = ap_redemptionId input \<and> rr_schoolId r = ap_schoolId input"] assms(2)
  obtain y where "findFirst (\<lambda>r. rr_id r = ap_redemptionId input \<and> rr_schoolId r = ap_schoolId input) rows = Some y"
    by (auto simp: redemption_selected_def)
  with u show ?thesis
    by (simp add: approve_redemption_row_def Let_def findRedemptionInTransaction_def createAuditLogInTransaction_def)
qed

text \<open>C12. An approval commits exactly when the item of the request is still published, not deleted and
  either unlimited or in stock, and the redemption is still requested: otherwise the transaction rolls
  back with an exception and neither stock nor redemption changes.\<close>

theorem approval_commits_iff:
  "(\<exists>r db'. approveRedemptionWithStockDecrement input db = Inr (r, db')) \<longleftrightarrow>
   (\<exists>i. findFirst (\<lambda>i. item_id i = ap_catalogItemId input \<and> item_schoolId i = ap_schoolId input) (rdb_items db) =
      Some i \<and> approvable_item i) \<and>
   (\<exists>r \<in> set (rdb_redemptions db). redemption_selected (ap_redemptionId input) (ap_schoolId input) REQUESTED r)"
  (is "?l \<longleftrightarrow> ?i \<and> ?r")
proof
  assume ?l
  then obtain r db' where ok: "approveRedemptionWithStockDecrement input db = Inr (r, db')" by blast
  have ?i using ok still_requestable_iff
    by (auto simp: approveRedemptionWithStockDecrement_def andThen_eq_Inr split: option.splits)
  moreover have ?r using approve_effect [OF ok] by (simp add: row_update_def)
  ultimately show "?i \<and> ?r" by simp
next
  assume "?i \<and> ?r"
  then obtain i r where i: "findFirst (\<lambda>i. item_id i = ap_catalogItemId input \<and>
      item_schoolId i = ap_schoolId input) (rdb_items db) = Some i" "approvable_item i"
    and r: "r \<in> set (rdb_redemptions db)"
      "redemption_selected (ap_redemptionId input) (ap_schoolId input) REQUESTED r" by blast
  have "i \<in> set (rdb_items db)" "item_schoolId i = ap_schoolId input" using findFirst_SomeD [OF i(1)] by auto
  from decrement_ok [OF this i(2)] obtain items after where
    dec: "decrement_item_stock (ap_schoolId input) i (rdb_items db) = Inr (items, after)" by blast
  show ?l
    using i(1) dec approve_row_ok [OF r] i(2) [folded still_requestable_iff]
      snapshot_ok [of "Some (ap_previousEligibilitySnapshot input)" "item_status i" "item_minTotalXp i"
        "ap_totalEarnedXp input" "item_isUnlimited i" "item_stockRemaining i" after "ap_reviewedAt input"]
    by (auto simp: approveRedemptionWithStockDecrement_def)
qed

text \<open>The requests that expect a redemption to be still requested.\<close>

fun reviews :: "string \<Rightarrow> pending \<Rightarrow> bool" where
  "reviews rid (PApprove input) \<longleftrightarrow> ap_redemptionId input = rid"
| "reviews rid (PReject input) \<longleftrightarrow> rj_redemptionId input = rid"
| "reviews rid (PCancel input) \<longleftrightarrow> cn_redemptionId input = rid"
| "reviews rid _ \<longleftrightarrow> False"

lemma reviews_row:
  assumes "commit newId p db = Inr (x, db')" "reviews rid p"
  shows "\<exists>y \<in> set (rdb_redemptions db). rr_id y = rid \<and> rr_status y = REQUESTED"
  using assms approve_effect [of _ db x db'] reject_effect [of _ db x db'] cancel_effect [of _ db x db']
  by (cases p) (force simp: row_update_def redemption_selected_def)+

text \<open>C13. Of two requests that review the same redemption only the first one takes effect: once an
  approval has committed, a second approval, a rejection and a cancellation prepared earlier against
  the same redemption all roll back.\<close>

theorem review_takes_effect_once:
  assumes "approveRedemptionWithStockDecrement input db = Inr (r, db')" "distinct (map rr_id (rdb_redemptions db))"
    and "reviews (ap_redemptionId input) p"
  shows "\<exists>e. commit newId p db' = Inl e"
proof (rule ccontr)
  assume "\<nexists>e. commit newId p db' = Inl e"
  then obtain x db'' where c: "commit newId p db' = Inr (x, db'')"
    by (metis prod.exhaust sumE)
  have row: "row_update (ap_redemptionId input) (ap_schoolId input) REQUESTED APPROVED
      (rdb_redemptions db) (rdb_redemptions db')" using approve_effect [OF assms(1)] by simp
  obtain us q vs q' where rows: "rdb_redemptions db = us @ q # vs" "rdb_redemptions db' = us @ q' # vs"
    and q: "core q' = core q" "rr_id q = ap_redemptionId input" "rr_status q' = APPROVED"
    using row_update_split [OF row assms(2)] by metis
  have none: "y = q'" if "y \<in> set (rdb_redemptions db')" "rr_id y = ap_redemptionId input" for y
    using that assms(2) q(2) by (auto simp: rows rev_image_eqI)
  from reviews_row [OF c assms(3)] obtain y where "y \<in> set (rdb_redemptions db')"
    "rr_id y = ap_redemptionId input" "rr_status y = REQUESTED" by blast
  with none q(3) show False by auto
qed

definition example_approval :: ApproveRewardRedemptionInput where
  "example_approval = projr (ApproveRewardRedemptionUseCase_prepare example_caller 200 ''n'' example_review requested_db)"

theorem review_takes_effect_once_witness: "\<exists>e. commit ''z'' (PApprove example_approval) approved_db = Inl e"
proof -
  have "case approveRedemptionWithStockDecrement example_approval requested_db of
      Inl _ \<Rightarrow> False | Inr (_, db') \<Rightarrow> db' = approved_db" by code_simp
  then obtain r where "approveRedemptionWithStockDecrement example_approval requested_db = Inr (r, approved_db)"
    by (auto split: sum.splits)
  from review_takes_effect_once [OF this, of "PApprove example_approval" "''z''"] show ?thesis
    using requested_tables by (simp add: tables_ok_def)
qed

section \<open>What a prepared request has been checked against\<close>

lemma eligibility_ok: "assertRewardEligibility item student m t = Inr () \<longleftrightarrow> (case m of None \<Rightarrow> True | Some n \<Rightarrow> n \<le> t)"
  by (auto simp: assertRewardEligibility_def split: option.splits)

lemma findOpenRedemption_None:
  assumes "findOpenRedemption school item student db = None" "r \<in> set (rdb_redemptions db)" "rr_schoolId r = school"
    "rr_catalogItemId r = item" "rr_studentId r = student"
  shows "\<not> open_status (rr_status r)"
proof -
  have "js_sort c (filter p xs) = [] \<Longrightarrow> x \<in> set xs \<Longrightarrow> \<not> p x" for c p and x :: RewardRedemption and xs
    by (metis filter_empty_conv set_empty set_js_sort)
  from this [OF _ assms(2)] assms show ?thesis
    by (fastforce simp: findOpenRedemption_def split: list.splits)
qed

text \<open>A create request reaches its transaction only for a published, undeleted item of the caller's
  own school that is unlimited or in stock, for a student of that school whose earned experience points
  reach the item's minimum, and who has no open redemption of it; it always asks for a requested
  redemption in the caller's school.\<close>

theorem create_request_checked:
  assumes "CreateRewardRedemptionUseCase_prepare ctx now command db = Inr input"
  shows "\<exists>scope i s. requireReinforcementScope ctx = Inr scope \<and> cr_schoolId input = scope_schoolId scope \<and>
    cr_status input = REQUESTED \<and> cr_requestedById input = scope_actorId scope \<and>
    i \<in> set (rdb_items db) \<and> item_id i = cr_catalogItemId input \<and> item_schoolId i = cr_schoolId input \<and>
    item_status i = Item_PUBLISHED \<and> item_deletedAt i = None \<and>
    (item_isUnlimited i \<or> (\<exists>n. item_stockRemaining i = Some n \<and> 0 < n)) \<and>
    s \<in> set (rdb_students db) \<and> student_id s = cr_studentId input \<and> student_schoolId s = cr_schoolId input \<and>
    student_deletedAt s = None \<and>
    (case item_minTotalXp i of None \<Rightarrow> True
     | Some n \<Rightarrow> n \<le> calculateStudentTotalEarnedXp (cr_schoolId input) (cr_studentId input) db) \<and>
    (\<forall>r \<in> set (rdb_redemptions db). rr_schoolId r = cr_schoolId input \<and>
      rr_catalogItemId r = cr_catalogItemId input \<and> rr_studentId r = cr_studentId input \<longrightarrow>
      \<not> open_status (rr_status r))"
proof -
  from assms obtain scope i ctxt where scope: "requireReinforcementScope ctx = Inr scope"
    and item: "requireCatalogItem (scope_schoolId scope) (dto_catalogItemId command) db = Inr i"
    and req: "assertRewardRequestable (item_id i) (JStr (catalog_status_name (item_status i))) (item_deletedAt i) = Inr ()"
    and stock: "assertRewardStockAvailableForRequest (item_id i) (item_isUnlimited i) (item_stockRemaining i) = Inr ()"
    and stu: "findStudent (scope_schoolId scope) (dto_studentId command) db \<noteq> None"
    and elig: "assertRewardEligibility (item_id i) (dto_studentId command) (item_minTotalXp i)
      (calculateStudentTotalEarnedXp (scope_schoolId scope) (dto_studentId command) db) = Inr ()"
    and opn: "findOpenRedemption (scope_schoolId scope) (item_id i) (dto_studentId command) db = None"
    and fields: "cr_schoolId input = scope_schoolId scope" "cr_catalogItemId input = item_id i"
      "cr_studentId input = dto_studentId command" "cr_status input = REQUESTED"
      "cr_requestedById input = scope_actorId scope"
    unfolding CreateRewardRedemptionUseCase_prepare_def Let_def
    by (auto simp: andThen_eq_Inr split: if_splits option.splits)
  have "assertRewardStillRequestableForApproval (item_id i) (JStr (catalog_status_name (item_status i)))
      (item_deletedAt i) (item_isUnlimited i) (item_stockRemaining i) = Inr ()"
    using req stock by (simp add: assertRewardStillRequestableForApproval_def assertApprovalStockAvailable_def)
  then have "approvable_item i" by (simp only: still_requestable_iff)
  moreover have "i \<in> set (rdb_items db)" "item_schoolId i = scope_schoolId scope"
    using item by (auto simp: requireCatalogItem_def findCatalogItemForRedemption_def
        split: option.splits dest!: findFirst_SomeD)
  moreover obtain s where "findStudent (scope_schoolId scope) (dto_studentId command) db = Some s" using stu by blast
  then have "s \<in> set (rdb_students db)" "student_id s = dto_studentId command"
    "student_schoolId s = scope_schoolId scope" "student_deletedAt s = None"
    by (auto simp: findStudent_def dest!: findFirst_SomeD)
  ultimately show ?thesis using scope elig fields findOpenRedemption_None [OF opn]
    unfolding approvable_item_def eligibility_ok
    by (intro exI [of _ scope] exI [of _ i] exI [of _ s]) (simp split: option.splits)
qed

theorem create_request_checked_witness:
  "case CreateRewardRedemptionUseCase_prepare example_caller 100 example_create example_db of
     Inl _ \<Rightarrow> False | Inr input \<Rightarrow> \<exists>i \<in> set (rdb_items example_db). item_id i = cr_catalogItemId input \<and>
       item_status i = Item_PUBLISHED"
proof -
  have "case CreateRewardRedemptionUseCase_prepare example_caller 100 example_create example_db of
     Inl _ \<Rightarrow> False | Inr input \<Rightarrow> True" by code_simp
  then show ?thesis using create_request_checked [of example_caller 100 example_create example_db]
    by (auto split: sum.splits)
qed

end
