(* ===== verification/Attendance_Policy.thy ===== *)
theory Attendance_Policy
  imports Moazez_Prelude
begin

text \<open>
  Attendance policies and what roll call derives from them: scopes and the choice of the effective policy
  (\<open>policies/domain/policy-scope.ts\<close>), the contract of a policy
  (\<open>policies/domain/policy-contract.validation.ts\<close>), the periods it allows
  (\<open>roll-call/domain/policy-period-selection.ts\<close>), its thresholds
  (\<open>roll-call/domain/entry-threshold-normalization.ts\<close>) and the key of a session
  (\<open>roll-call/domain/session-key.ts\<close>), all under \<open>src/src/modules/attendance\<close>.

  Dates are milliseconds since the epoch. \<open>null\<close> and \<open>undefined\<close> are one \<open>None\<close> where the code
  treats them alike.
\<close>

section \<open>Enums\<close>

datatype AttendanceScopeType = AScope_SCHOOL | AScope_STAGE | AScope_GRADE | AScope_SECTION | AScope_CLASSROOM

fun AttendanceScopeType_name :: "AttendanceScopeType \<Rightarrow> string" where
  "AttendanceScopeType_name AScope_SCHOOL = ''SCHOOL''"
| "AttendanceScopeType_name AScope_STAGE = ''STAGE''"
| "AttendanceScopeType_name AScope_GRADE = ''GRADE''"
| "AttendanceScopeType_name AScope_SECTION = ''SECTION''"
| "AttendanceScopeType_name AScope_CLASSROOM = ''CLASSROOM''"

datatype AttendanceStatus = PRESENT | ABSENT | LATE | EXCUSED | EARLY_LEAVE | UNMARKED

fun AttendanceStatus_name :: "AttendanceStatus \<Rightarrow> string" where
  "AttendanceStatus_name PRESENT = ''PRESENT''"
| "AttendanceStatus_name ABSENT = ''ABSENT''"
| "AttendanceStatus_name LATE = ''LATE''"
| "AttendanceStatus_name EXCUSED = ''EXCUSED''"
| "AttendanceStatus_name EARLY_LEAVE = ''EARLY_LEAVE''"
| "AttendanceStatus_name UNMARKED = ''UNMARKED''"

datatype AttendanceMode = Mode_DAILY | Mode_PERIOD

fun AttendanceMode_name :: "AttendanceMode \<Rightarrow> string" where
  "AttendanceMode_name Mode_DAILY = ''DAILY''"
| "AttendanceMode_name Mode_PERIOD = ''PERIOD''"

datatype AttendanceSessionStatus = Session_DRAFT | Session_SUBMITTED

fun AttendanceSessionStatus_name :: "AttendanceSessionStatus \<Rightarrow> string" where
  "AttendanceSessionStatus_name Session_DRAFT = ''DRAFT''"
| "AttendanceSessionStatus_name Session_SUBMITTED = ''SUBMITTED''"

datatype DailyComputationStrategy = Strategy_MANUAL | Strategy_DERIVED_FROM_PERIODS

section \<open>Scopes\<close>

record AttendanceScopeIds =
  ids_stageId :: "string option"
  ids_gradeId :: "string option"
  ids_sectionId :: "string option"
  ids_classroomId :: "string option"

record NormalizedAttendancePolicyScope = AttendanceScopeIds +
  ns_scopeType :: AttendanceScopeType
  ns_scopeKey :: string

record EffectiveScopeCandidate =
  cand_scopeType :: AttendanceScopeType
  cand_scopeKey :: string

definition ATTENDANCE_SCOPE_PRIORITY :: "AttendanceScopeType list" where
  "ATTENDANCE_SCOPE_PRIORITY = [AScope_CLASSROOM, AScope_SECTION, AScope_GRADE, AScope_STAGE, AScope_SCHOOL]"

text \<open>\<open>xs.indexOf(x)\<close>\<close>

definition indexOf :: "'a list \<Rightarrow> 'a \<Rightarrow> int" where
  "indexOf xs x = (if x \<in> set xs then int (length (takeWhile (\<lambda>y. y \<noteq> x) xs)) else - 1)"

definition scopePriority :: "AttendanceScopeType \<Rightarrow> int" where
  "scopePriority scopeType =
     (let index = indexOf ATTENDANCE_SCOPE_PRIORITY scopeType
      in if index = - 1 then int (length ATTENDANCE_SCOPE_PRIORITY) else index)"

definition requireScopeId :: "string \<Rightarrow> string option \<Rightarrow> AttendanceScopeType \<Rightarrow> string result" where
  "requireScopeId field scopeId scopeType =
     (if \<not> truthy scopeId
      then Inl (ValidationDomainException
             (AttendanceScopeType_name scopeType @ '' attendance policy scope requires '' @ field)
             [(''scopeType'', DStr (AttendanceScopeType_name scopeType)), (''field'', DStr field)])
      else Inr (the scopeId))"

definition buildScopeKey :: "AttendanceScopeType \<Rightarrow> 'a AttendanceScopeIds_scheme \<Rightarrow> string result" where
  "buildScopeKey scopeType ids =
     (case scopeType of
        AScope_SCHOOL \<Rightarrow> Inr ''school''
      | AScope_STAGE \<Rightarrow> andThen (requireScopeId ''stageId'' (ids_stageId ids) scopeType) (\<lambda>i. Inr (''stage:'' @ i))
      | AScope_GRADE \<Rightarrow> andThen (requireScopeId ''gradeId'' (ids_gradeId ids) scopeType) (\<lambda>i. Inr (''grade:'' @ i))
      | AScope_SECTION \<Rightarrow>
          andThen (requireScopeId ''sectionId'' (ids_sectionId ids) scopeType) (\<lambda>i. Inr (''section:'' @ i))
      | AScope_CLASSROOM \<Rightarrow>
          andThen (requireScopeId ''classroomId'' (ids_classroomId ids) scopeType) (\<lambda>i. Inr (''classroom:'' @ i)))"

definition validateNormalizedScope :: "NormalizedAttendancePolicyScope \<Rightarrow> unit result" where
  "validateNormalizedScope scope =
     (if ns_scopeType scope = AScope_SCHOOL \<and>
         (truthy (ids_stageId scope) \<or> truthy (ids_gradeId scope) \<or> truthy (ids_sectionId scope) \<or>
          truthy (ids_classroomId scope) \<or> ns_scopeKey scope \<noteq> ''school'')
      then Inl (ValidationDomainException ''School attendance policy scope must not include child scope ids''
             [(''scopeType'', DStr (AttendanceScopeType_name (ns_scopeType scope))),
              (''scopeKey'', DStr (ns_scopeKey scope))])
      else andThen (buildScopeKey (ns_scopeType scope) scope) (\<lambda>_. Inr ()))"

text \<open>One of the four conditional pushes of \<open>buildEffectiveScopeCandidates\<close>.\<close>

definition push_candidate ::
  "AttendanceScopeType \<Rightarrow> string option \<Rightarrow> NormalizedAttendancePolicyScope \<Rightarrow> EffectiveScopeCandidate list \<Rightarrow>
   EffectiveScopeCandidate list result" where
  "push_candidate scopeType scopeId scope candidates =
     (if truthy scopeId
      then andThen (buildScopeKey scopeType scope) (\<lambda>key.
             Inr (candidates @ [\<lparr>cand_scopeType = scopeType, cand_scopeKey = key\<rparr>]))
      else Inr candidates)"

definition buildEffectiveScopeCandidates ::
  "NormalizedAttendancePolicyScope \<Rightarrow> EffectiveScopeCandidate list result" where
  "buildEffectiveScopeCandidates scope =
     andThen (push_candidate AScope_CLASSROOM (ids_classroomId scope) scope []) (\<lambda>c1.
     andThen (push_candidate AScope_SECTION (ids_sectionId scope) scope c1) (\<lambda>c2.
     andThen (push_candidate AScope_GRADE (ids_gradeId scope) scope c2) (\<lambda>c3.
     andThen (push_candidate AScope_STAGE (ids_stageId scope) scope c3) (\<lambda>c4.
       Inr (c4 @ [\<lparr>cand_scopeType = AScope_SCHOOL, cand_scopeKey = ''school''\<rparr>])))))"

section \<open>The effective policy\<close>

record PolicyLike =
  pol_scopeType :: AttendanceScopeType
  pol_scopeKey :: string
  pol_effectiveFrom :: "int option"
  pol_effectiveTo :: "int option"
  pol_updatedAt :: int

definition policyMatchesEffectiveDate :: "'a PolicyLike_scheme \<Rightarrow> int option \<Rightarrow> bool" where
  "policyMatchesEffectiveDate policy date =
     (case date of
        None \<Rightarrow> True
      | Some d \<Rightarrow>
          if (case pol_effectiveFrom policy of None \<Rightarrow> False | Some f \<Rightarrow> f > d) then False
          else if (case pol_effectiveTo policy of None \<Rightarrow> False | Some t \<Rightarrow> t < d) then False
          else True)"

text \<open>The template literal \<open>scopeType:scopeKey\<close> that identifies a scope in the rank map.\<close>

definition scope_tag :: "AttendanceScopeType \<Rightarrow> string \<Rightarrow> string" where
  "scope_tag scopeType scopeKey = AttendanceScopeType_name scopeType @ '':'' @ scopeKey"

definition candidate_rank :: "EffectiveScopeCandidate list \<Rightarrow> (string, int) js_map" where
  "candidate_rank candidates =
     jm_of_entries (map (\<lambda>(index, c). (scope_tag (cand_scopeType c) (cand_scopeKey c), int index))
       (List.enumerate 0 candidates))"

definition compare_policies :: "(string, int) js_map \<Rightarrow> 'a PolicyLike_scheme \<Rightarrow> 'a PolicyLike_scheme \<Rightarrow> int" where
  "compare_policies ranks left right =
     (let leftRank = get_or ranks (scope_tag (pol_scopeType left) (pol_scopeKey left)) (scopePriority (pol_scopeType left));
          rightRank = get_or ranks (scope_tag (pol_scopeType right) (pol_scopeKey right)) (scopePriority (pol_scopeType right))
      in if leftRank \<noteq> rightRank then leftRank - rightRank else pol_updatedAt right - pol_updatedAt left)"

definition selectEffectivePolicy ::
  "'a PolicyLike_scheme list \<Rightarrow> EffectiveScopeCandidate list \<Rightarrow> int option \<Rightarrow> 'a PolicyLike_scheme option" where
  "selectEffectivePolicy policies candidates date =
     (let candidateRank = candidate_rank candidates;
          matching = filter (\<lambda>policy. jm_get candidateRank (scope_tag (pol_scopeType policy) (pol_scopeKey policy)) \<noteq> None)
            (filter (\<lambda>policy. policyMatchesEffectiveDate policy date) policies)
      in case js_sort (compare_policies candidateRank) matching of [] \<Rightarrow> None | policy # _ \<Rightarrow> Some policy)"

text \<open>\<open>date.toISOString().slice(0, 10)\<close> only feeds the details of the exception: the day is kept as a date.\<close>

definition validateEffectiveDateRange :: "int option \<Rightarrow> int option \<Rightarrow> unit result" where
  "validateEffectiveDateRange effectiveFrom effectiveTo =
     (case (effectiveFrom, effectiveTo) of
        (Some f, Some t) \<Rightarrow>
          if f > t
          then Inl (ValidationDomainException ''Policy effective start date must be before or equal to end date''
                 [(''effectiveFrom'', DDate f), (''effectiveTo'', DDate t)])
          else Inr ()
      | _ \<Rightarrow> Inr ())"

section \<open>The contract of a policy\<close>

text \<open>What a client may send for a list of period ids: nothing, something that is no array, or an array
  whose elements may be no strings (\<open>None\<close>).\<close>

datatype period_ids_input = Ids_absent | Ids_no_array | Ids_array "string option list"

definition selected_periods_error :: "string \<Rightarrow> (string \<times> detail) list \<Rightarrow> js_exception" where
  "selected_periods_error message details =
     ValidationDomainException message ((''field'', DStr ''selectedPeriodIds'') # details)"

definition normalize_period_id :: "nat \<times> string option \<Rightarrow> string result" where
  "normalize_period_id = (\<lambda>(index, periodId).
     case periodId of
       None \<Rightarrow> Inl (selected_periods_error ''Attendance policy selected period ids must be strings''
                 [(''index'', DInt (int index))])
     | Some s \<Rightarrow>
         if js_trim s = []
         then Inl (selected_periods_error ''Attendance policy selected period ids must not be empty''
                [(''index'', DInt (int index))])
         else Inr (js_trim s))"

definition normalizeSelectedPeriodIds :: "period_ids_input \<Rightarrow> string list result" where
  "normalizeSelectedPeriodIds input =
     (case input of
        Ids_absent \<Rightarrow> Inr []
      | Ids_no_array \<Rightarrow> Inl (selected_periods_error ''Attendance policy selected periods must be an array'' [])
      | Ids_array elements \<Rightarrow>
          andThen (mapR normalize_period_id (List.enumerate 0 elements)) (\<lambda>selectedPeriodIds.
            if length (js_unique selectedPeriodIds) \<noteq> length selectedPeriodIds
            then Inl (selected_periods_error ''Attendance policy selected period ids must not include duplicates'' [])
            else Inr selectedPeriodIds))"

text \<open>A nullable number of a patch: \<open>None\<close> is undefined, \<open>Some None\<close> is null.\<close>

definition normalizeNullableNonNegativeInteger :: "string \<Rightarrow> rat option option \<Rightarrow> rat option option result" where
  "normalizeNullableNonNegativeInteger field number =
     (case number of
        Some (Some n) \<Rightarrow>
          if \<not> number_isInteger n \<or> n < 0
          then Inl (ValidationDomainException ''Attendance policy numeric settings must be non-negative integers''
                 [(''field'', DStr field)])
          else Inr number
      | _ \<Rightarrow> Inr number)"

record AttendancePolicyAdvancedContractConfig =
  cfg_dailyComputationStrategy :: DailyComputationStrategy
  cfg_selectedPeriodIds :: "string list"
  cfg_lateThresholdMinutes :: "int option"
  cfg_earlyLeaveThresholdMinutes :: "int option"
  cfg_autoAbsentAfterMinutes :: "int option"
  cfg_absentIfMissedPeriodsCount :: "int option"

definition validateAdvancedPolicyContractConfig :: "AttendancePolicyAdvancedContractConfig \<Rightarrow> unit result" where
  "validateAdvancedPolicyContractConfig config =
     (if cfg_dailyComputationStrategy config \<noteq> Strategy_DERIVED_FROM_PERIODS then Inr ()
      else
        let missingFields =
              (if length (cfg_selectedPeriodIds config) = 0 then [''selectedPeriodIds''] else []) @
              (if cfg_absentIfMissedPeriodsCount config = None then [''absentIfMissedPeriodsCount''] else [])
        in if length missingFields > 0
           then Inl (ValidationDomainException
                  ''Derived period attendance policies require selected periods and missed period count''
                  [(''fields'', DStrs missingFields)])
           else Inr ())"

section \<open>Periods of a new session\<close>

record EffectivePolicyPeriodSelection =
  sel_id :: string
  sel_selectedPeriodIds :: "string list"

definition normalizeRollCallPeriodId :: "string option \<Rightarrow> string option" where
  "normalizeRollCallPeriodId periodId = trimmed_or_null periodId"

definition trimmed_period_ids :: "string list \<Rightarrow> string list" where
  "trimmed_period_ids selectedPeriodIds = filter (\<lambda>p. length p > 0) (map js_trim selectedPeriodIds)"

definition assertPeriodAllowedByEffectivePolicyForNewSession ::
  "AttendanceMode \<Rightarrow> string option \<Rightarrow> EffectivePolicyPeriodSelection option \<Rightarrow> unit result" where
  "assertPeriodAllowedByEffectivePolicyForNewSession mode period effectivePolicy =
     (case effectivePolicy of
        None \<Rightarrow> Inr ()
      | Some policy \<Rightarrow>
          if mode \<noteq> Mode_PERIOD then Inr ()
          else
            let selectedPeriodIds = trimmed_period_ids (sel_selectedPeriodIds policy)
            in if length selectedPeriodIds = 0 then Inr ()
               else
                 (case normalizeRollCallPeriodId period of
                    None \<Rightarrow> Inl (ValidationDomainException
                      ''Period attendance sessions require periodId when the effective policy selects periods''
                      [(''field'', DStr ''periodId''), (''mode'', DStr (AttendanceMode_name mode)),
                       (''policyId'', DStr (sel_id policy))])
                  | Some periodId \<Rightarrow>
                      if periodId \<notin> set selectedPeriodIds
                      then Inl (ValidationDomainException ''Period is not allowed by the effective attendance policy''
                             [(''field'', DStr ''periodId''), (''mode'', DStr (AttendanceMode_name mode)),
                              (''policyId'', DStr (sel_id policy)), (''periodId'', DStr periodId)])
                      else Inr ()))"

section \<open>Keys and guards of a session\<close>

definition AttendanceSessionAlreadySubmittedException :: "(string \<times> detail) list \<Rightarrow> js_exception" where
  "AttendanceSessionAlreadySubmittedException details =
     DomainException ''attendance.session.already_submitted'' ''Session is already submitted'' 409 details"

definition AttendanceSessionNotSubmittedException :: "(string \<times> detail) list \<Rightarrow> js_exception" where
  "AttendanceSessionNotSubmittedException details =
     DomainException ''attendance.session.not_submitted'' ''Session is not submitted'' 409 details"

definition normalizeAttendancePeriodKey :: "AttendanceMode \<Rightarrow> string option \<Rightarrow> string result" where
  "normalizeAttendancePeriodKey mode key =
     (if mode = Mode_DAILY then Inr ''daily''
      else
        case trimmed_or_null key of
          None \<Rightarrow> Inl (ValidationDomainException ''Period attendance sessions require periodKey''
                    [(''field'', DStr ''periodKey''), (''mode'', DStr (AttendanceMode_name mode))])
        | Some periodKey \<Rightarrow> Inr periodKey)"

definition assertDraftAttendanceSession :: "string \<Rightarrow> AttendanceSessionStatus \<Rightarrow> unit result" where
  "assertDraftAttendanceSession sessionId status =
     (if status \<noteq> Session_DRAFT
      then Inl (AttendanceSessionAlreadySubmittedException
             [(''sessionId'', DStr sessionId), (''status'', DStr (AttendanceSessionStatus_name status))])
      else Inr ())"

section \<open>Thresholds\<close>

record AttendanceEntryThresholdPolicy =
  thr_id :: string
  thr_lateThresholdMinutes :: "int option"
  thr_earlyLeaveThresholdMinutes :: "int option"

record DraftEntry =
  de_studentId :: string
  de_status :: AttendanceStatus
  de_lateMinutes :: "int option"
  de_earlyLeaveMinutes :: "int option"

definition threshold_triggered :: "int option \<Rightarrow> int option \<Rightarrow> bool" where
  "threshold_triggered threshold minutes =
     (case (threshold, minutes) of (Some t, Some m) \<Rightarrow> m > 0 \<and> m \<ge> t | _ \<Rightarrow> False)"

definition normalizeDraftEntryByPolicyThresholds ::
  "AttendanceEntryThresholdPolicy \<Rightarrow> 'a DraftEntry_scheme \<Rightarrow> 'a DraftEntry_scheme result" where
  "normalizeDraftEntryByPolicyThresholds policy entry =
     (if de_status entry \<noteq> PRESENT then Inr entry
      else
        let lateTriggered = threshold_triggered (thr_lateThresholdMinutes policy) (de_lateMinutes entry);
            earlyLeaveTriggered =
              threshold_triggered (thr_earlyLeaveThresholdMinutes policy) (de_earlyLeaveMinutes entry)
        in if lateTriggered \<and> earlyLeaveTriggered
           then Inl (ValidationDomainException ''Attendance entry cannot match both late and early-leave thresholds''
                  [(''field'', DStr ''status''), (''studentId'', DStr (de_studentId entry)),
                   (''lateMinutes'', detail_of_int_option (de_lateMinutes entry)),
                   (''earlyLeaveMinutes'', detail_of_int_option (de_earlyLeaveMinutes entry)),
                   (''lateThresholdMinutes'', detail_of_int_option (thr_lateThresholdMinutes policy)),
                   (''earlyLeaveThresholdMinutes'', detail_of_int_option (thr_earlyLeaveThresholdMinutes policy)),
                   (''reason'', DStr ''ambiguous_threshold_match'')])
           else if lateTriggered then Inr (entry\<lparr>de_status := LATE, de_earlyLeaveMinutes := None\<rparr>)
           else if earlyLeaveTriggered then Inr (entry\<lparr>de_status := EARLY_LEAVE, de_lateMinutes := None\<rparr>)
           else Inr entry)"

definition normalizeDraftEntriesByPolicyThresholds ::
  "'a DraftEntry_scheme list \<Rightarrow> AttendanceEntryThresholdPolicy option \<Rightarrow> 'a DraftEntry_scheme list result" where
  "normalizeDraftEntriesByPolicyThresholds entries policy =
     (case policy of
        None \<Rightarrow> Inr entries
      | Some p \<Rightarrow>
          if thr_lateThresholdMinutes p = None \<and> thr_earlyLeaveThresholdMinutes p = None then Inr entries
          else mapR (normalizeDraftEntryByPolicyThresholds p) entries)"

section \<open>The effective policy is the most specific one\<close>

text \<open>The scopes that contain a given scope, and the policies in force there on a date.\<close>

fun scope_covers :: "NormalizedAttendancePolicyScope \<Rightarrow> AttendanceScopeType \<Rightarrow> string \<Rightarrow> bool" where
  "scope_covers scope AScope_SCHOOL key \<longleftrightarrow> key = ''school''"
| "scope_covers scope AScope_STAGE key \<longleftrightarrow> truthy (ids_stageId scope) \<and> key = ''stage:'' @ the (ids_stageId scope)"
| "scope_covers scope AScope_GRADE key \<longleftrightarrow> truthy (ids_gradeId scope) \<and> key = ''grade:'' @ the (ids_gradeId scope)"
| "scope_covers scope AScope_SECTION key \<longleftrightarrow>
     truthy (ids_sectionId scope) \<and> key = ''section:'' @ the (ids_sectionId scope)"
| "scope_covers scope AScope_CLASSROOM key \<longleftrightarrow>
     truthy (ids_classroomId scope) \<and> key = ''classroom:'' @ the (ids_classroomId scope)"

definition in_force :: "NormalizedAttendancePolicyScope \<Rightarrow> int option \<Rightarrow> 'a PolicyLike_scheme \<Rightarrow> bool" where
  "in_force scope date p \<longleftrightarrow>
     scope_covers scope (pol_scopeType p) (pol_scopeKey p) \<and>
     (\<forall>d. date = Some d \<longrightarrow> (\<forall>f. pol_effectiveFrom p = Some f \<longrightarrow> f \<le> d) \<and> (\<forall>t. pol_effectiveTo p = Some t \<longrightarrow> d \<le> t))"

definition candidate_if :: "AttendanceScopeType \<Rightarrow> string \<Rightarrow> string option \<Rightarrow> EffectiveScopeCandidate list" where
  "candidate_if t prefix i =
     (if truthy i then [\<lparr>cand_scopeType = t, cand_scopeKey = prefix @ the i\<rparr>] else [])"

definition candidates_of :: "NormalizedAttendancePolicyScope \<Rightarrow> EffectiveScopeCandidate list" where
  "candidates_of scope =
     candidate_if AScope_CLASSROOM ''classroom:'' (ids_classroomId scope) @
     candidate_if AScope_SECTION ''section:'' (ids_sectionId scope) @
     candidate_if AScope_GRADE ''grade:'' (ids_gradeId scope) @
     candidate_if AScope_STAGE ''stage:'' (ids_stageId scope) @
     [\<lparr>cand_scopeType = AScope_SCHOOL, cand_scopeKey = ''school''\<rparr>]"

lemma buildEffectiveScopeCandidates_eq: "buildEffectiveScopeCandidates scope = Inr (candidates_of scope)"
  by (simp add: buildEffectiveScopeCandidates_def push_candidate_def buildScopeKey_def requireScopeId_def
      candidates_of_def candidate_if_def)

lemma scope_priorities [simp]:
  "scopePriority AScope_CLASSROOM = 0" "scopePriority AScope_SECTION = 1" "scopePriority AScope_GRADE = 2"
  "scopePriority AScope_STAGE = 3" "scopePriority AScope_SCHOOL = 4"
  by code_simp+

lemma scopePriority_inject: "scopePriority a = scopePriority b \<longleftrightarrow> a = b"
  by (cases a; cases b) simp_all

text \<open>The rank of a scope among the candidates counts the more specific ones.\<close>

definition rank_in :: "NormalizedAttendancePolicyScope \<Rightarrow> AttendanceScopeType \<Rightarrow> int" where
  "rank_in scope t =
     int (length (filter (\<lambda>c. scopePriority (cand_scopeType c) < scopePriority t) (candidates_of scope)))"

lemma scope_tag_inject [simp]: "scope_tag t k = scope_tag t' k' \<longleftrightarrow> t = t' \<and> k = k'"
  by (cases t; cases t') (simp_all add: scope_tag_def)

lemma scope_tag_same: "scope_tag t k = scope_tag t k' \<longleftrightarrow> k = k'"
  by simp

lemma scope_tag_other: "t \<noteq> t' \<Longrightarrow> scope_tag t k \<noteq> scope_tag t' k'"
  by simp

lemma candidate_rank_covers:
  "jm_get (candidate_rank (candidates_of scope)) (scope_tag t key) =
     (if scope_covers scope t key then Some (rank_in scope t) else None)"
  by (cases "truthy (ids_classroomId scope)"; cases "truthy (ids_sectionId scope)"; cases "truthy (ids_gradeId scope)";
      cases "truthy (ids_stageId scope)"; cases t)
    (simp_all add: candidate_rank_def jm_get_of_entries candidates_of_def candidate_if_def rank_in_def
      scope_tag_same scope_tag_other del: scope_tag_inject)

lemma rank_in_less:
  assumes "scope_covers scope t key" "scopePriority t < scopePriority t'"
  shows "rank_in scope t < rank_in scope t'"
  using assms by (cases t; cases t') (simp_all add: rank_in_def candidates_of_def candidate_if_def)

lemma policyMatches_iff:
  "scope_covers scope (pol_scopeType p) (pol_scopeKey p) \<and> policyMatchesEffectiveDate p date \<longleftrightarrow> in_force scope date p"
  by (auto simp: policyMatchesEffectiveDate_def in_force_def split: option.splits)

lemma compare_policies_comparator: "comparator (compare_policies ranks :: 'a PolicyLike_scheme \<Rightarrow> _)"
proof -
  define rank :: "'a PolicyLike_scheme \<Rightarrow> int" where
    "rank p = get_or ranks (scope_tag (pol_scopeType p) (pol_scopeKey p)) (scopePriority (pol_scopeType p))" for p
  have "compare_policies ranks = (\<lambda>l r. cmp_or (rank l - rank r) (pol_updatedAt r - pol_updatedAt l))"
    by (auto simp: compare_policies_def cmp_or_def Let_def fun_eq_iff rank_def)
  then show ?thesis by (simp add: comparator_lex comparator_diff comparator_diff_desc)
qed

lemma selectEffectivePolicy_eq:
  "selectEffectivePolicy policies (candidates_of scope) date =
     (case js_sort (compare_policies (candidate_rank (candidates_of scope))) (filter (in_force scope date) policies) of
        [] \<Rightarrow> None | p # _ \<Rightarrow> Some p)"
proof -
  have "filter (\<lambda>p. jm_get (candidate_rank (candidates_of scope)) (scope_tag (pol_scopeType p) (pol_scopeKey p)) \<noteq> None)
      (filter (\<lambda>p. policyMatchesEffectiveDate p date) policies) = filter (in_force scope date) policies"
    by (auto simp: candidate_rank_covers policyMatches_iff [symmetric] intro!: filter_cong)
  then show ?thesis by (simp only: selectEffectivePolicy_def Let_def)
qed

text \<open>C30. The effective attendance policy of a scope is found exactly when some policy is in force there on
  the date (its scope contains the scope and the date lies in its effective range), and it is then one in
  force whose scope is the most specific (classroom before section, grade, stage and school), the most
  recently updated of those.\<close>

theorem effective_policy_exact:
  "\<exists>candidates. buildEffectiveScopeCandidates scope = Inr candidates \<and>
     (case selectEffectivePolicy policies candidates date of
        None \<Rightarrow> (\<forall>p \<in> set policies. \<not> in_force scope date p)
      | Some p \<Rightarrow> p \<in> set policies \<and> in_force scope date p \<and>
          (\<forall>q \<in> set policies. in_force scope date q \<longrightarrow>
             scopePriority (pol_scopeType p) \<le> scopePriority (pol_scopeType q) \<and>
             (pol_scopeType q = pol_scopeType p \<longrightarrow> pol_updatedAt q \<le> pol_updatedAt p)))"
proof -
  let ?cmp = "compare_policies (candidate_rank (candidates_of scope))" and ?fs = "filter (in_force scope date) policies"
  have "case selectEffectivePolicy policies (candidates_of scope) date of
      None \<Rightarrow> (\<forall>p \<in> set policies. \<not> in_force scope date p)
    | Some p \<Rightarrow> p \<in> set policies \<and> in_force scope date p \<and>
        (\<forall>q \<in> set policies. in_force scope date q \<longrightarrow>
           scopePriority (pol_scopeType p) \<le> scopePriority (pol_scopeType q) \<and>
           (pol_scopeType q = pol_scopeType p \<longrightarrow> pol_updatedAt q \<le> pol_updatedAt p))"
  proof (cases "js_sort ?cmp ?fs")
    case Nil
    then show ?thesis by (simp add: selectEffectivePolicy_eq filter_empty_conv)
  next
    case (Cons p ps)
    have p: "p \<in> set policies" "in_force scope date p" using Cons set_js_sort [of ?cmp ?fs] by auto
    have "scopePriority (pol_scopeType p) \<le> scopePriority (pol_scopeType q) \<and>
        (pol_scopeType q = pol_scopeType p \<longrightarrow> pol_updatedAt q \<le> pol_updatedAt p)"
      if q: "q \<in> set policies" "in_force scope date q" for q
    proof -
      have le: "?cmp p q \<le> 0"
        using comparator.hd_js_sort_least [OF compare_policies_comparator, of ?fs q "candidate_rank (candidates_of scope)"]
          Cons q by (cases "?fs = []") auto
      have cov: "scope_covers scope (pol_scopeType p) (pol_scopeKey p)" "scope_covers scope (pol_scopeType q) (pol_scopeKey q)"
        using p q by (simp_all add: in_force_def)
      then have rank: "rank_in scope (pol_scopeType p) \<le> rank_in scope (pol_scopeType q)"
        "pol_scopeType q = pol_scopeType p \<longrightarrow> pol_updatedAt q \<le> pol_updatedAt p"
        using le by (auto simp: compare_policies_def Let_def get_or_def candidate_rank_covers split: if_splits)
      then have "\<not> scopePriority (pol_scopeType q) < scopePriority (pol_scopeType p)"
        using rank_in_less [OF cov(2), of "pol_scopeType p"] by auto
      then show ?thesis using rank(2) by simp
    qed
    then show ?thesis using p Cons by (simp add: selectEffectivePolicy_eq)
  qed
  then show ?thesis using buildEffectiveScopeCandidates_eq by blast
qed

definition example_policy :: "AttendanceScopeType \<Rightarrow> string \<Rightarrow> int \<Rightarrow> PolicyLike" where
  "example_policy t key updated = \<lparr>pol_scopeType = t, pol_scopeKey = key, pol_effectiveFrom = Some 0,
     pol_effectiveTo = None, pol_updatedAt = updated\<rparr>"

definition example_policies :: "PolicyLike list" where
  "example_policies = [example_policy AScope_SCHOOL ''school'' 9, example_policy AScope_GRADE ''grade:g'' 5,
     example_policy AScope_GRADE ''grade:g'' 7, example_policy AScope_GRADE ''grade:h'' 8]"

definition example_policy_scope :: NormalizedAttendancePolicyScope where
  "example_policy_scope = \<lparr>ids_stageId = Some ''st'', ids_gradeId = Some ''g'', ids_sectionId = None,
     ids_classroomId = None, ns_scopeType = AScope_GRADE, ns_scopeKey = ''grade:g''\<rparr>"

theorem effective_policy_exact_witness:
  "\<exists>p. selectEffectivePolicy example_policies (candidates_of example_policy_scope) (Some 3) = Some p \<and>
     scopePriority (pol_scopeType p) \<le> 2 \<and> 7 \<le> pol_updatedAt p"
proof -
  have sel: "selectEffectivePolicy example_policies (candidates_of example_policy_scope) (Some 3) =
      Some (example_policy AScope_GRADE ''grade:g'' 7)" by code_simp
  have "in_force example_policy_scope (Some 3) (example_policy AScope_GRADE ''grade:g'' 7)"
    by (simp add: in_force_def example_policy_def example_policy_scope_def truthy_def)
  then show ?thesis
    using effective_policy_exact [of example_policy_scope example_policies "Some 3"] sel
    by (auto simp: buildEffectiveScopeCandidates_eq example_policy_def)
qed

section \<open>Thresholds\<close>

definition ambiguous_entry :: "AttendanceEntryThresholdPolicy \<Rightarrow> 'a DraftEntry_scheme \<Rightarrow> bool" where
  "ambiguous_entry policy e \<longleftrightarrow> de_status e = PRESENT \<and>
     threshold_triggered (thr_lateThresholdMinutes policy) (de_lateMinutes e) \<and>
     threshold_triggered (thr_earlyLeaveThresholdMinutes policy) (de_earlyLeaveMinutes e)"

definition reclassified :: "AttendanceEntryThresholdPolicy \<Rightarrow> 'a DraftEntry_scheme \<Rightarrow> 'a DraftEntry_scheme" where
  "reclassified policy e =
     (if de_status e \<noteq> PRESENT then e
      else if threshold_triggered (thr_lateThresholdMinutes policy) (de_lateMinutes e)
      then e\<lparr>de_status := LATE, de_earlyLeaveMinutes := None\<rparr>
      else if threshold_triggered (thr_earlyLeaveThresholdMinutes policy) (de_earlyLeaveMinutes e)
      then e\<lparr>de_status := EARLY_LEAVE, de_lateMinutes := None\<rparr> else e)"

lemma normalizeDraftEntry_raises:
  "ambiguous_entry policy e \<Longrightarrow> \<exists>x. normalizeDraftEntryByPolicyThresholds policy e = Inl x"
  by (simp add: normalizeDraftEntryByPolicyThresholds_def ambiguous_entry_def)

lemma normalizeDraftEntry_ok:
  "\<not> ambiguous_entry policy e \<Longrightarrow> normalizeDraftEntryByPolicyThresholds policy e = Inr (reclassified policy e)"
  by (auto simp: normalizeDraftEntryByPolicyThresholds_def ambiguous_entry_def reclassified_def)

lemma threshold_absent: "\<not> threshold_triggered None m"
  by (simp add: threshold_triggered_def)

text \<open>Saving draft entries under a policy raises exactly when a student marked present has reached
  both the late and the early-leave threshold; otherwise every entry keeps its place, a present student who
  has reached one threshold becomes late or leaves early (and the other minutes are cleared), and nothing
  else changes.\<close>

theorem draft_thresholds_exact:
  "case normalizeDraftEntriesByPolicyThresholds entries (Some policy) of
     Inl _ \<Rightarrow> (\<exists>e \<in> set entries. ambiguous_entry policy e)
   | Inr saved \<Rightarrow> (\<nexists>e. e \<in> set entries \<and> ambiguous_entry policy e) \<and> saved = map (reclassified policy) entries"
proof (cases "\<exists>e \<in> set entries. ambiguous_entry policy e")
  case True
  then obtain e x where e: "e \<in> set entries" "normalizeDraftEntryByPolicyThresholds policy e = Inl x"
    using normalizeDraftEntry_raises by blast
  then have "\<exists>y. mapR (normalizeDraftEntryByPolicyThresholds policy) entries = Inl y"
    by (cases "mapR (normalizeDraftEntryByPolicyThresholds policy) entries") (auto dest: mapR_InrD)
  then show ?thesis using True threshold_absent
    by (auto simp: normalizeDraftEntriesByPolicyThresholds_def ambiguous_entry_def)
next
  case False
  then have "mapR (normalizeDraftEntryByPolicyThresholds policy) entries = Inr (map (reclassified policy) entries)"
    by (intro mapR_Inr_map normalizeDraftEntry_ok) blast
  moreover have "map (reclassified policy) entries = entries"
    if "thr_lateThresholdMinutes policy = None" "thr_earlyLeaveThresholdMinutes policy = None"
    using that by (auto simp: reclassified_def threshold_absent intro: map_idI)
  ultimately show ?thesis using False by (auto simp: normalizeDraftEntriesByPolicyThresholds_def)
qed

end
