(* ===== verification/Attendance_Entries.thy ===== *)
theory Attendance_Entries
  imports Attendance_Policy
begin

text \<open>
  Rules for single attendance entries: corrections of submitted entries
  (\<open>roll-call/domain/entry-correction.ts\<close>), incidents (\<open>absences/domain/attendance-incident.ts\<close>) and
  excuse requests (\<open>excuses/domain/excuse-validation.ts\<close>, \<open>excuse.exceptions.ts\<close>).

  Minutes are integers: the DTOs reject other numbers (\<open>IsInt\<close>) before the rules run, and the columns are
  integers. A property that the code probes with \<open>hasOwn\<close> is \<open>None\<close> when absent and \<open>Some v\<close> when
  present.
\<close>

section \<open>Corrections\<close>

record EntryCorrectionInput =
  ci_status :: AttendanceStatus
  ci_lateMinutes :: "int option option"
  ci_earlyLeaveMinutes :: "int option option"
  ci_excuseReason :: "string option"
  ci_note :: "string option option"
  ci_correctionReason :: "string option"

record ExistingEntryCorrectionValues =
  ec_status :: AttendanceStatus
  ec_lateMinutes :: "int option"
  ec_earlyLeaveMinutes :: "int option"
  ec_excuseReason :: "string option"
  ec_note :: "string option"

record NormalizedEntryCorrection = ExistingEntryCorrectionValues +
  nc_correctionReason :: string

definition assertSubmittedSessionForCorrection :: "string \<Rightarrow> AttendanceSessionStatus \<Rightarrow> unit result" where
  "assertSubmittedSessionForCorrection sessionId status =
     (if status \<noteq> Session_SUBMITTED
      then Inl (AttendanceSessionNotSubmittedException
             [(''sessionId'', DStr sessionId), (''status'', DStr (AttendanceSessionStatus_name status))])
      else Inr ())"

definition requirePositiveMinutes :: "int option option \<Rightarrow> string \<Rightarrow> int result" where
  "requirePositiveMinutes minutes field =
     (case minutes of
        Some (Some m) \<Rightarrow>
          if m \<le> 0
          then Inl (ValidationDomainException ''Attendance correction minutes must be positive'' [(''field'', DStr field)])
          else Inr m
      | _ \<Rightarrow> Inl (ValidationDomainException ''Attendance correction minutes must be positive'' [(''field'', DStr field)]))"

definition normalizeOptionalString :: "string option \<Rightarrow> string option" where
  "normalizeOptionalString s = trimmed_or_null s"

definition normalizeRequiredString :: "string option \<Rightarrow> string \<Rightarrow> string result" where
  "normalizeRequiredString s field =
     (case normalizeOptionalString s of
        None \<Rightarrow> Inl (ValidationDomainException ''Attendance correction reason is required'' [(''field'', DStr field)])
      | Some t \<Rightarrow> Inr t)"

definition normalizeEntryCorrection ::
  "EntryCorrectionInput \<Rightarrow> 'a ExistingEntryCorrectionValues_scheme \<Rightarrow> NormalizedEntryCorrection result" where
  "normalizeEntryCorrection input existing =
     (if ci_status input = UNMARKED
      then Inl (ValidationDomainException ''Submitted attendance entries cannot be corrected to UNMARKED''
             [(''field'', DStr ''status''), (''status'', DStr (AttendanceStatus_name (ci_status input)))])
      else
        andThen (normalizeRequiredString (ci_correctionReason input) ''correctionReason'') (\<lambda>correctionReason.
        let note = (case ci_note input of Some n \<Rightarrow> normalizeOptionalString n | None \<Rightarrow> ec_note existing);
            plain = \<lparr>ec_status = ci_status input, ec_lateMinutes = None, ec_earlyLeaveMinutes = None,
                     ec_excuseReason = None, ec_note = note, nc_correctionReason = correctionReason\<rparr>
        in case ci_status input of
             LATE \<Rightarrow> andThen (requirePositiveMinutes (ci_lateMinutes input) ''lateMinutes'') (\<lambda>m.
                       Inr (plain\<lparr>ec_lateMinutes := Some m\<rparr>))
           | EARLY_LEAVE \<Rightarrow> andThen (requirePositiveMinutes (ci_earlyLeaveMinutes input) ''earlyLeaveMinutes'') (\<lambda>m.
                       Inr (plain\<lparr>ec_earlyLeaveMinutes := Some m\<rparr>))
           | EXCUSED \<Rightarrow> Inr (plain\<lparr>
               ec_lateMinutes := (case ci_lateMinutes input of Some m \<Rightarrow> m | None \<Rightarrow> ec_lateMinutes existing),
               ec_earlyLeaveMinutes :=
                 (case ci_earlyLeaveMinutes input of Some m \<Rightarrow> m | None \<Rightarrow> ec_earlyLeaveMinutes existing),
               ec_excuseReason :=
                 (case normalizeOptionalString (ci_excuseReason input) of
                    Some s \<Rightarrow> Some s
                  | None \<Rightarrow> (case ec_excuseReason existing of Some s \<Rightarrow> Some s | None \<Rightarrow> Some correctionReason))\<rparr>)
           | _ \<Rightarrow> Inr plain))"

section \<open>Incidents\<close>

definition ATTENDANCE_INCIDENT_STATUSES :: "AttendanceStatus list" where
  "ATTENDANCE_INCIDENT_STATUSES = [ABSENT, LATE, EARLY_LEAVE, EXCUSED]"

record AttendanceIncidentSummaryInput =
  inc_status :: AttendanceStatus
  inc_studentId :: string

record AttendanceIncidentSummary =
  sum_totalIncidents :: int
  sum_absentCount :: int
  sum_lateCount :: int
  sum_earlyLeaveCount :: int
  sum_excusedCount :: int
  sum_affectedStudentsCount :: int

definition isAttendanceIncidentStatus :: "AttendanceStatus \<Rightarrow> bool" where
  "isAttendanceIncidentStatus status \<longleftrightarrow> status \<in> set ATTENDANCE_INCIDENT_STATUSES"

definition resolveAttendanceIncidentStatuses :: "AttendanceStatus option \<Rightarrow> AttendanceStatus list" where
  "resolveAttendanceIncidentStatuses status =
     (case status of
        None \<Rightarrow> ATTENDANCE_INCIDENT_STATUSES
      | Some s \<Rightarrow> if isAttendanceIncidentStatus s then [s] else [])"

definition assertAttendanceIncidentCanBeExcused :: "AttendanceStatus \<Rightarrow> unit result" where
  "assertAttendanceIncidentCanBeExcused status =
     (if status \<noteq> ABSENT \<and> status \<noteq> LATE \<and> status \<noteq> EARLY_LEAVE
      then Inl (ValidationDomainException ''Attendance incident cannot be marked excused from its current status''
             [(''status'', DStr (AttendanceStatus_name status))])
      else Inr ())"

definition assertAttendanceIncidentCanBecomeEarlyLeave :: "AttendanceStatus \<Rightarrow> unit result" where
  "assertAttendanceIncidentCanBecomeEarlyLeave status =
     (if status \<noteq> ABSENT \<and> status \<noteq> LATE \<and> status \<noteq> EARLY_LEAVE
      then Inl (ValidationDomainException
             ''Attendance incident cannot be corrected to early leave from its current status''
             [(''status'', DStr (AttendanceStatus_name status))])
      else Inr ())"

definition empty_incident_summary :: AttendanceIncidentSummary where
  "empty_incident_summary = \<lparr>sum_totalIncidents = 0, sum_absentCount = 0, sum_lateCount = 0,
     sum_earlyLeaveCount = 0, sum_excusedCount = 0, sum_affectedStudentsCount = 0\<rparr>"

text \<open>The loop of \<open>summarizeAttendanceIncidents\<close>: the set of affected students and the counters.\<close>

definition count_incident ::
  "AttendanceIncidentSummaryInput \<Rightarrow> string list \<times> AttendanceIncidentSummary \<Rightarrow> string list \<times> AttendanceIncidentSummary" where
  "count_incident incident = (\<lambda>(affected, summary).
     if \<not> isAttendanceIncidentStatus (inc_status incident) then (affected, summary)
     else
       let affected1 = (if inc_studentId incident \<in> set affected then affected else affected @ [inc_studentId incident]);
           summary1 = summary\<lparr>sum_totalIncidents := sum_totalIncidents summary + 1\<rparr>
       in (affected1,
           if inc_status incident = ABSENT then summary1\<lparr>sum_absentCount := sum_absentCount summary1 + 1\<rparr>
           else if inc_status incident = LATE then summary1\<lparr>sum_lateCount := sum_lateCount summary1 + 1\<rparr>
           else if inc_status incident = EARLY_LEAVE
           then summary1\<lparr>sum_earlyLeaveCount := sum_earlyLeaveCount summary1 + 1\<rparr>
           else if inc_status incident = EXCUSED then summary1\<lparr>sum_excusedCount := sum_excusedCount summary1 + 1\<rparr>
           else summary1))"

definition summarizeAttendanceIncidents :: "AttendanceIncidentSummaryInput list \<Rightarrow> AttendanceIncidentSummary" where
  "summarizeAttendanceIncidents incidents =
     (let (affected, summary) = fold count_incident incidents ([], empty_incident_summary)
      in summary\<lparr>sum_affectedStudentsCount := int (length affected)\<rparr>)"

section \<open>Excuse requests\<close>

datatype AttendanceExcuseType = Excuse_ABSENCE | Excuse_LATE | Excuse_EARLY_LEAVE

fun AttendanceExcuseType_name :: "AttendanceExcuseType \<Rightarrow> string" where
  "AttendanceExcuseType_name Excuse_ABSENCE = ''ABSENCE''"
| "AttendanceExcuseType_name Excuse_LATE = ''LATE''"
| "AttendanceExcuseType_name Excuse_EARLY_LEAVE = ''EARLY_LEAVE''"

datatype AttendanceExcuseStatus = Excuse_PENDING | Excuse_APPROVED | Excuse_REJECTED

fun AttendanceExcuseStatus_name :: "AttendanceExcuseStatus \<Rightarrow> string" where
  "AttendanceExcuseStatus_name Excuse_PENDING = ''PENDING''"
| "AttendanceExcuseStatus_name Excuse_APPROVED = ''APPROVED''"
| "AttendanceExcuseStatus_name Excuse_REJECTED = ''REJECTED''"

definition AttendanceExcuseInvalidDateRangeException :: "(string \<times> detail) list \<Rightarrow> js_exception" where
  "AttendanceExcuseInvalidDateRangeException details =
     DomainException ''attendance.excuse.invalid_date_range'' ''Invalid attendance excuse date range'' 422 details"

definition AttendanceExcuseAlreadyReviewedException :: "(string \<times> detail) list \<Rightarrow> js_exception" where
  "AttendanceExcuseAlreadyReviewedException details =
     DomainException ''attendance.excuse.already_reviewed'' ''Attendance excuse request is already reviewed'' 409 details"

definition AttendanceExcuseInvalidMinutesException :: "(string \<times> detail) list \<Rightarrow> js_exception" where
  "AttendanceExcuseInvalidMinutesException details =
     DomainException ''attendance.excuse.invalid_minutes'' ''Invalid attendance excuse minutes'' 422 details"

definition AttendanceExcuseInvalidPeriodSelectionException :: "(string \<times> detail) list \<Rightarrow> js_exception" where
  "AttendanceExcuseInvalidPeriodSelectionException details =
     DomainException ''attendance.excuse.invalid_period_selection''
       ''Invalid attendance excuse period selection'' 422 details"

definition AttendanceExcuseNoMatchingSubmittedEntryException :: "(string \<times> detail) list \<Rightarrow> js_exception" where
  "AttendanceExcuseNoMatchingSubmittedEntryException details =
     DomainException ''validation.failed'' ''No matching submitted attendance entry exists for this excuse'' 400 details"

definition AttendanceEntryRequiresExcuseAttachmentException :: "(string \<times> detail) list \<Rightarrow> js_exception" where
  "AttendanceEntryRequiresExcuseAttachmentException details =
     DomainException ''attendance.entry.requires_excuse_attachment''
       ''This policy requires an attachment for excuses'' 422 details"

record ExcuseTermRange =
  xt_id :: string
  xt_startDate :: int
  xt_endDate :: int
  xt_isActive :: bool

text \<open>\<open>string | Date\<close>: text still to parse, or a date.\<close>

datatype date_input = DateText string | DateValue int

record ExcuseValueInput =
  xv_type :: AttendanceExcuseType
  xv_dateFrom :: date_input
  xv_dateTo :: date_input
  xv_selectedPeriodKeys :: "string list"
  xv_lateMinutes :: "int option"
  xv_earlyLeaveMinutes :: "int option"
  xv_reasonAr :: "string option"
  xv_reasonEn :: "string option"

record NormalizedExcuseValues =
  nx_type :: AttendanceExcuseType
  nx_dateFrom :: int
  nx_dateTo :: int
  nx_selectedPeriodKeys :: "string list"
  nx_lateMinutes :: "int option"
  nx_earlyLeaveMinutes :: "int option"
  nx_reasonAr :: "string option"
  nx_reasonEn :: "string option"

definition resolveExcuseAcademicYearId :: "string option \<Rightarrow> string option \<Rightarrow> string result" where
  "resolveExcuseAcademicYearId academicYear yearId =
     (let academicYearId = (if academicYear \<noteq> None then academicYear else yearId)
      in if \<not> truthy academicYearId
         then Inl (ValidationDomainException ''Academic year is required'' [(''field'', DStr ''yearId'')])
         else Inr (the academicYearId))"

definition assertPendingExcuseRequest :: "string \<Rightarrow> AttendanceExcuseStatus \<Rightarrow> unit result" where
  "assertPendingExcuseRequest requestId status =
     (if status \<noteq> Excuse_PENDING
      then Inl (AttendanceExcuseAlreadyReviewedException
             [(''excuseRequestId'', DStr requestId), (''status'', DStr (AttendanceExcuseStatus_name status))])
      else Inr ())"

definition assertPendingForReview :: "string \<Rightarrow> AttendanceExcuseStatus \<Rightarrow> unit result" where
  "assertPendingForReview requestId status = assertPendingExcuseRequest requestId status"

definition assertExcuseTermWritable :: "'a ExcuseTermRange_scheme \<Rightarrow> unit result" where
  "assertExcuseTermWritable trm =
     (if \<not> xt_isActive trm
      then Inl (ValidationDomainException ''Attendance excuse requests cannot be changed in a closed term''
             [(''termId'', DStr (xt_id trm))])
      else Inr ())"

fun attendanceStatusForExcuseType :: "AttendanceExcuseType \<Rightarrow> AttendanceStatus" where
  "attendanceStatusForExcuseType Excuse_ABSENCE = ABSENT"
| "attendanceStatusForExcuseType Excuse_LATE = LATE"
| "attendanceStatusForExcuseType Excuse_EARLY_LEAVE = EARLY_LEAVE"

definition assertMatchingSubmittedEntriesExist :: "string \<Rightarrow> nat \<Rightarrow> unit result" where
  "assertMatchingSubmittedEntriesExist excuseRequestId matchingEntryCount =
     (if matchingEntryCount = 0
      then Inl (AttendanceExcuseNoMatchingSubmittedEntryException [(''excuseRequestId'', DStr excuseRequestId)])
      else Inr ())"

definition assertExcuseAttachmentRequirement :: "string \<Rightarrow> bool \<Rightarrow> nat \<Rightarrow> unit result" where
  "assertExcuseAttachmentRequirement excuseRequestId requiresAttachment attachmentCount =
     (if requiresAttachment \<and> attachmentCount = 0
      then Inl (AttendanceEntryRequiresExcuseAttachmentException [(''excuseRequestId'', DStr excuseRequestId)])
      else Inr ())"

definition normalizeReviewDecisionNote :: "string option \<Rightarrow> string option" where
  "normalizeReviewDecisionNote note = normalizeOptionalString note"

text \<open>The loop over the period keys: an empty one raises, a repeated one is dropped.\<close>

fun collect_period_keys :: "string list \<Rightarrow> string list \<Rightarrow> string list result" where
  "collect_period_keys [] normalized = Inr normalized"
| "collect_period_keys (key # keys) normalized =
     (let trimmed = js_trim key
      in if trimmed = []
         then Inl (AttendanceExcuseInvalidPeriodSelectionException [(''field'', DStr ''selectedPeriodKeys'')])
         else collect_period_keys keys (if trimmed \<in> set normalized then normalized else normalized @ [trimmed]))"

definition normalizeSelectedPeriodKeys :: "string list option \<Rightarrow> string list option \<Rightarrow> string list result" where
  "normalizeSelectedPeriodKeys selectedPeriodKeys selectedPeriodIds =
     (let raw = (case selectedPeriodKeys of Some ks \<Rightarrow> ks
                 | None \<Rightarrow> (case selectedPeriodIds of Some ks \<Rightarrow> ks | None \<Rightarrow> []))
      in collect_period_keys raw [])"

text \<open>\<open>new Date(text)\<close> is the parameter \<open>parse\<close>: \<open>None\<close> for an invalid date.\<close>

definition parseExcuseDate :: "(string \<Rightarrow> int option) \<Rightarrow> date_input \<Rightarrow> string \<Rightarrow> int result" where
  "parseExcuseDate parse input field =
     (case input of
        DateValue d \<Rightarrow> Inr d
      | DateText t \<Rightarrow>
          (case parse t of
             None \<Rightarrow> Inl (AttendanceExcuseInvalidDateRangeException [(''field'', DStr field)])
           | Some d \<Rightarrow> Inr d))"

definition validateExcuseDateRange :: "int \<Rightarrow> int \<Rightarrow> 'a ExcuseTermRange_scheme option \<Rightarrow> unit result" where
  "validateExcuseDateRange dateFrom dateTo trm =
     (if dateFrom > dateTo
      then Inl (AttendanceExcuseInvalidDateRangeException [(''dateFrom'', DDate dateFrom), (''dateTo'', DDate dateTo)])
      else
        case trm of
          None \<Rightarrow> Inr ()
        | Some t \<Rightarrow>
            if dateFrom < xt_startDate t \<or> dateTo > xt_endDate t
            then Inl (AttendanceExcuseInvalidDateRangeException
                   [(''termId'', DStr (xt_id t)), (''termStartDate'', DDate (xt_startDate t)),
                    (''termEndDate'', DDate (xt_endDate t)), (''dateFrom'', DDate dateFrom), (''dateTo'', DDate dateTo)])
            else Inr ())"

definition validateOptionalWholeMinutes :: "int option \<Rightarrow> string \<Rightarrow> unit result" where
  "validateOptionalWholeMinutes minutes field =
     (case minutes of
        None \<Rightarrow> Inr ()
      | Some m \<Rightarrow> if m < 0 then Inl (AttendanceExcuseInvalidMinutesException [(''field'', DStr field)]) else Inr ())"

definition no_minutes :: "int option \<Rightarrow> bool" where
  "no_minutes minutes = (case minutes of None \<Rightarrow> True | Some m \<Rightarrow> m = 0 \<or> m \<le> 0)"

definition validateExcuseMinutes :: "ExcuseValueInput \<Rightarrow> unit result" where
  "validateExcuseMinutes input =
     andThen (validateOptionalWholeMinutes (xv_lateMinutes input) ''lateMinutes'') (\<lambda>_.
     andThen (validateOptionalWholeMinutes (xv_earlyLeaveMinutes input) ''earlyLeaveMinutes'') (\<lambda>_.
       if xv_type input = Excuse_LATE \<and> no_minutes (xv_lateMinutes input)
       then Inl (AttendanceExcuseInvalidMinutesException
              [(''field'', DStr ''lateMinutes''), (''type'', DStr (AttendanceExcuseType_name (xv_type input)))])
       else if xv_type input = Excuse_EARLY_LEAVE \<and> no_minutes (xv_earlyLeaveMinutes input)
       then Inl (AttendanceExcuseInvalidMinutesException
              [(''field'', DStr ''earlyLeaveMinutes''), (''type'', DStr (AttendanceExcuseType_name (xv_type input)))])
       else Inr ()))"

definition validateExcusePeriodSelection :: "ExcuseValueInput \<Rightarrow> unit result" where
  "validateExcusePeriodSelection input =
     (if (xv_type input = Excuse_LATE \<or> xv_type input = Excuse_EARLY_LEAVE) \<and> length (xv_selectedPeriodKeys input) = 0
      then Inl (AttendanceExcuseInvalidPeriodSelectionException
             [(''field'', DStr ''selectedPeriodKeys''), (''type'', DStr (AttendanceExcuseType_name (xv_type input)))])
      else Inr ())"

definition validateAndNormalizeExcuseValues ::
  "(string \<Rightarrow> int option) \<Rightarrow> ExcuseValueInput \<Rightarrow> 'a ExcuseTermRange_scheme option \<Rightarrow> NormalizedExcuseValues result" where
  "validateAndNormalizeExcuseValues parse input trm =
     andThen (parseExcuseDate parse (xv_dateFrom input) ''dateFrom'') (\<lambda>dateFrom.
     andThen (parseExcuseDate parse (xv_dateTo input) ''dateTo'') (\<lambda>dateTo.
     andThen (validateExcuseDateRange dateFrom dateTo trm) (\<lambda>_.
     andThen (validateExcuseMinutes input) (\<lambda>_.
     andThen (validateExcusePeriodSelection input) (\<lambda>_.
       Inr \<lparr>nx_type = xv_type input, nx_dateFrom = dateFrom, nx_dateTo = dateTo,
            nx_selectedPeriodKeys = xv_selectedPeriodKeys input,
            nx_lateMinutes = (if xv_type input = Excuse_LATE then xv_lateMinutes input else None),
            nx_earlyLeaveMinutes = (if xv_type input = Excuse_EARLY_LEAVE then xv_earlyLeaveMinutes input else None),
            nx_reasonAr = normalizeOptionalString (xv_reasonAr input),
            nx_reasonEn = normalizeOptionalString (xv_reasonEn input)\<rparr>)))))"

section \<open>Consistency of corrected entries\<close>

definition positive_minutes :: "int option option \<Rightarrow> bool" where
  "positive_minutes minutes = (case minutes of Some (Some m) \<Rightarrow> 0 < m | _ \<Rightarrow> False)"

definition correction_rejected :: "EntryCorrectionInput \<Rightarrow> bool" where
  "correction_rejected input \<longleftrightarrow>
     ci_status input = UNMARKED \<or> trimmed_or_null (ci_correctionReason input) = None \<or>
     ci_status input = LATE \<and> \<not> positive_minutes (ci_lateMinutes input) \<or>
     ci_status input = EARLY_LEAVE \<and> \<not> positive_minutes (ci_earlyLeaveMinutes input)"

text \<open>Minutes and reason fit the status.\<close>

fun consistent_values :: "AttendanceStatus \<Rightarrow> int option \<Rightarrow> int option \<Rightarrow> string option \<Rightarrow> bool" where
  "consistent_values LATE late early reason \<longleftrightarrow> positive_minutes (Some late) \<and> early = None \<and> reason = None"
| "consistent_values EARLY_LEAVE late early reason \<longleftrightarrow> late = None \<and> positive_minutes (Some early) \<and> reason = None"
| "consistent_values EXCUSED late early reason \<longleftrightarrow> reason \<noteq> None"
| "consistent_values UNMARKED late early reason \<longleftrightarrow> False"
| "consistent_values _ late early reason \<longleftrightarrow> late = None \<and> early = None \<and> reason = None"

text \<open>A correction of a submitted entry is refused exactly when it would unmark the entry, has no
  reason, or asks for a late arrival or an early leave without positive minutes; an accepted one has the
  requested status, minutes and excuse reason that fit it, and the trimmed reason.\<close>

theorem entry_correction_exact:
  "case normalizeEntryCorrection input existing of
     Inl _ \<Rightarrow> correction_rejected input
   | Inr c \<Rightarrow> \<not> correction_rejected input \<and> ec_status c = ci_status input \<and>
       consistent_values (ec_status c) (ec_lateMinutes c) (ec_earlyLeaveMinutes c) (ec_excuseReason c) \<and>
       trimmed_or_null (ci_correctionReason input) = Some (nc_correctionReason c)"
proof (cases "trimmed_or_null (ci_correctionReason input)")
  case None
  then show ?thesis
    by (simp add: normalizeEntryCorrection_def correction_rejected_def normalizeRequiredString_def
        normalizeOptionalString_def)
next
  case (Some reason)
  then have reason: "normalizeRequiredString (ci_correctionReason input) field = Inr reason" for field
    by (simp add: normalizeRequiredString_def normalizeOptionalString_def)
  show ?thesis
    by (cases "ci_status input")
      (auto simp: normalizeEntryCorrection_def correction_rejected_def reason Some Let_def
        requirePositiveMinutes_def positive_minutes_def split: option.splits)
qed

end
