(* ===== verification/Attendance_Store.thy ===== *)
theory Attendance_Store
  imports Attendance_Entries School_Tables
begin

text \<open>
  The attendance tables and the database operations that change them
  (\<open>roll-call/infrastructure/attendance-roll-call.repository.ts\<close>,
  \<open>absences/infrastructure/attendance-absences.repository.ts\<close>,
  \<open>excuses/infrastructure/attendance-excuses.repository.ts\<close>).

  Rows carry the columns the rules read or write. Reads and scoped updates see the rows of the caller's
  school; reads also skip soft-deleted rows of the models that have \<open>deletedAt\<close> (see \<open>Tenant_Scope\<close>). An
  operation that throws after it has written keeps what it wrote, so an operation returns its result, which
  may be an exception, and the tables.
\<close>

section \<open>Tables\<close>

record AttTerm = ExcuseTermRange +
  at_schoolId :: string
  at_academicYearId :: string
  at_deletedAt :: "int option"

record AttSession = NormalizedAttendancePolicyScope +
  ses_id :: string
  ses_schoolId :: string
  ses_academicYearId :: string
  ses_termId :: string
  ses_date :: int
  ses_mode :: AttendanceMode
  ses_periodKey :: string
  ses_policyId :: "string option"
  ses_status :: AttendanceSessionStatus
  ses_submittedAt :: "int option"
  ses_submittedById :: "string option"
  ses_deletedAt :: "int option"

record AttEntry = ExistingEntryCorrectionValues +
  ent_id :: string
  ent_schoolId :: string
  ent_sessionId :: string
  ent_studentId :: string
  ent_enrollmentId :: "string option"
  ent_markedById :: "string option"
  ent_markedAt :: "int option"

record AttPolicy = AttendanceEntryThresholdPolicy +
  apl_schoolId :: string
  apl_requireExcuseAttachment :: bool
  apl_deletedAt :: "int option"

record ExcuseRequest =
  xr_id :: string
  xr_schoolId :: string
  xr_academicYearId :: string
  xr_termId :: string
  xr_studentId :: string
  xr_type :: AttendanceExcuseType
  xr_status :: AttendanceExcuseStatus
  xr_dateFrom :: int
  xr_dateTo :: int
  xr_selectedPeriodKeys :: "string list"
  xr_lateMinutes :: "int option"
  xr_earlyLeaveMinutes :: "int option"
  xr_reasonAr :: "string option"
  xr_reasonEn :: "string option"
  xr_decisionNote :: "string option"
  xr_decidedAt :: "int option"
  xr_decidedById :: "string option"
  xr_createdById :: "string option"
  xr_deletedAt :: "int option"

text \<open>An enrollment with its student and the classroom it belongs to, as the roster query joins them.\<close>

record RosterEnrollment =
  ro_id :: string
  ro_schoolId :: string
  ro_studentId :: string
  ro_academicYearId :: string
  ro_termId :: "string option"
  ro_active :: bool
  ro_deletedAt :: "int option"
  ro_studentActive :: bool
  ro_studentDeletedAt :: "int option"
  ro_classroomId :: string
  ro_sectionId :: string
  ro_gradeId :: string
  ro_stageId :: string
  ro_classroomDeletedAt :: "int option"
  ro_sectionDeletedAt :: "int option"
  ro_gradeDeletedAt :: "int option"
  ro_enrolledAt :: int

record AttachmentRow =
  atc_schoolId :: string
  atc_resourceType :: string
  atc_resourceId :: string

record ExcuseSessionLink =
  lnk_schoolId :: string
  lnk_requestId :: string
  lnk_sessionId :: string

text \<open>What \<open>AuthRepository.createAuditLog\<close> stores.\<close>

record AttendanceAudit =
  aa_actorId :: string
  aa_userType :: string
  aa_organizationId :: string
  aa_schoolId :: string
  aa_module :: string
  aa_action :: string
  aa_resourceType :: string
  aa_resourceId :: string
  aa_outcome :: string
  aa_before :: "(string \<times> detail) list option"
  aa_after :: "(string \<times> detail) list"

record AttendanceDb =
  adb_years :: "AcademicYearRow list"
  adb_terms :: "AttTerm list"
  adb_students :: "StudentRow list"
  adb_roster :: "RosterEnrollment list"
  adb_policies :: "AttPolicy list"
  adb_sessions :: "AttSession list"
  adb_entries :: "AttEntry list"
  adb_requests :: "ExcuseRequest list"
  adb_attachments :: "AttachmentRow list"
  adb_links :: "ExcuseSessionLink list"
  adb_audit :: "AttendanceAudit list"

section \<open>Reads\<close>

definition findAttendanceYear :: "string \<Rightarrow> string \<Rightarrow> AttendanceDb \<Rightarrow> AcademicYearRow option" where
  "findAttendanceYear school academicYearId db =
     findFirst (\<lambda>y. year_id y = academicYearId \<and> year_schoolId y = school \<and> year_deletedAt y = None) (adb_years db)"

definition findTermById :: "string \<Rightarrow> string \<Rightarrow> AttendanceDb \<Rightarrow> AttTerm option" where
  "findTermById school termId db =
     findFirst (\<lambda>t. xt_id t = termId \<and> at_schoolId t = school \<and> at_deletedAt t = None) (adb_terms db)"

definition validateStudent :: "string \<Rightarrow> string \<Rightarrow> AttendanceDb \<Rightarrow> StudentRow option" where
  "validateStudent school studentId db =
     findFirst (\<lambda>s. student_id s = studentId \<and> student_schoolId s = school \<and> student_deletedAt s = None)
       (adb_students db)"

definition findSessionById :: "string \<Rightarrow> string \<Rightarrow> AttendanceDb \<Rightarrow> AttSession option" where
  "findSessionById school sessionId db =
     findFirst (\<lambda>s. ses_id s = sessionId \<and> ses_schoolId s = school \<and> ses_deletedAt s = None) (adb_sessions db)"

text \<open>\<open>where: \{ id: x ?? undefined \}\<close>: an undefined member does not filter.\<close>

definition optional_filter :: "string option \<Rightarrow> string \<Rightarrow> bool" where
  "optional_filter wanted actual = (case wanted of None \<Rightarrow> True | Some w \<Rightarrow> actual = w)"

definition buildRosterClassroomWhere :: "'a NormalizedAttendancePolicyScope_scheme \<Rightarrow> RosterEnrollment \<Rightarrow> bool" where
  "buildRosterClassroomWhere scope e \<longleftrightarrow>
     ro_classroomDeletedAt e = None \<and>
     (case ns_scopeType scope of
        AScope_SCHOOL \<Rightarrow> True
      | AScope_STAGE \<Rightarrow> ro_sectionDeletedAt e = None \<and> ro_gradeDeletedAt e = None \<and>
                        optional_filter (ids_stageId scope) (ro_stageId e)
      | AScope_GRADE \<Rightarrow> ro_sectionDeletedAt e = None \<and> optional_filter (ids_gradeId scope) (ro_gradeId e)
      | AScope_SECTION \<Rightarrow> optional_filter (ids_sectionId scope) (ro_sectionId e)
      | AScope_CLASSROOM \<Rightarrow> optional_filter (ids_classroomId scope) (ro_classroomId e))"

definition listRosterStudents ::
  "string \<Rightarrow> string \<Rightarrow> string \<Rightarrow> 'a NormalizedAttendancePolicyScope_scheme \<Rightarrow> AttendanceDb \<Rightarrow> RosterEnrollment list" where
  "listRosterStudents school academicYearId termId scope db =
     js_sort (\<lambda>a b. cmp_or (string_compare (ro_classroomId a) (ro_classroomId b))
                      (cmp_or (ro_enrolledAt a - ro_enrolledAt b) (string_compare (ro_id a) (ro_id b))))
       (filter (\<lambda>e. ro_schoolId e = school \<and> ro_deletedAt e = None \<and> ro_academicYearId e = academicYearId \<and>
                    ro_active e \<and> (ro_termId e = Some termId \<or> ro_termId e = None) \<and> ro_studentActive e \<and>
                    ro_studentDeletedAt e = None \<and> buildRosterClassroomWhere scope e) (adb_roster db))"

definition findPolicyThresholdsById :: "string \<Rightarrow> string \<Rightarrow> AttendanceDb \<Rightarrow> AttendanceEntryThresholdPolicy option" where
  "findPolicyThresholdsById school policyId db =
     map_option AttendanceEntryThresholdPolicy.truncate
       (findFirst (\<lambda>p. thr_id p = policyId \<and> apl_schoolId p = school \<and> apl_deletedAt p = None) (adb_policies db))"

text \<open>The condition \<open>session: \{ status: SUBMITTED, deletedAt: null \}\<close> on an entry.\<close>

definition in_submitted_session :: "AttendanceDb \<Rightarrow> AttEntry \<Rightarrow> bool" where
  "in_submitted_session db e \<longleftrightarrow>
     (\<exists>s \<in> set (adb_sessions db). ses_id s = ent_sessionId e \<and> ses_schoolId s = ent_schoolId e \<and>
        ses_status s = Session_SUBMITTED \<and> ses_deletedAt s = None)"

definition findSessionEntryForCorrection ::
  "string \<Rightarrow> string \<Rightarrow> string \<Rightarrow> AttendanceDb \<Rightarrow> AttSession option \<times> AttEntry option" where
  "findSessionEntryForCorrection school sessionId studentId db =
     (case findSessionById school sessionId db of
        None \<Rightarrow> (None, None)
      | Some s \<Rightarrow> (Some s, findFirst (\<lambda>e. ent_sessionId e = ses_id s \<and> ent_studentId e = studentId \<and>
                                        ent_schoolId e = school) (adb_entries db)))"

definition findIncidentById :: "string \<Rightarrow> string \<Rightarrow> AttendanceDb \<Rightarrow> AttEntry option" where
  "findIncidentById school entryId db =
     findFirst (\<lambda>e. ent_id e = entryId \<and> ent_schoolId e = school \<and> in_submitted_session db e) (adb_entries db)"

definition findExcuseById :: "string \<Rightarrow> string \<Rightarrow> AttendanceDb \<Rightarrow> ExcuseRequest option" where
  "findExcuseById school excuseRequestId db =
     findFirst (\<lambda>r. xr_id r = excuseRequestId \<and> xr_schoolId r = school \<and> xr_deletedAt r = None) (adb_requests db)"

definition findMatchingSubmittedSessions :: "string \<Rightarrow> ExcuseRequest \<Rightarrow> AttendanceDb \<Rightarrow> AttSession list" where
  "findMatchingSubmittedSessions school request db =
     js_sort (\<lambda>a b. cmp_or (ses_date a - ses_date b)
                      (cmp_or (string_compare (ses_periodKey a) (ses_periodKey b)) (string_compare (ses_id a) (ses_id b))))
       (filter (\<lambda>s. ses_schoolId s = school \<and> ses_deletedAt s = None \<and>
                    ses_academicYearId s = xr_academicYearId request \<and> ses_termId s = xr_termId request \<and>
                    ses_status s = Session_SUBMITTED \<and> xr_dateFrom request \<le> ses_date s \<and>
                    ses_date s \<le> xr_dateTo request \<and>
                    (length (xr_selectedPeriodKeys request) > 0 \<longrightarrow>
                       ses_periodKey s \<in> set (xr_selectedPeriodKeys request))) (adb_sessions db))"

text \<open>The order of the result (by update time) only shows in the audit log.\<close>

definition findMatchingEntriesForExcuse ::
  "string \<Rightarrow> string list \<Rightarrow> string \<Rightarrow> AttendanceStatus \<Rightarrow> AttendanceDb \<Rightarrow> AttEntry list" where
  "findMatchingEntriesForExcuse school sessionIds studentId expectedStatus db =
     (if length sessionIds = 0 then []
      else filter (\<lambda>e. ent_schoolId e = school \<and> ent_sessionId e \<in> set sessionIds \<and>
                       ent_studentId e = studentId \<and> ec_status e = expectedStatus) (adb_entries db))"

definition ATTENDANCE_EXCUSE_ATTACHMENT_RESOURCE_TYPE :: string where
  "ATTENDANCE_EXCUSE_ATTACHMENT_RESOURCE_TYPE = ''attendance.excuse_request''"

definition countAttachmentsForExcuseRequest :: "string \<Rightarrow> string \<Rightarrow> AttendanceDb \<Rightarrow> nat" where
  "countAttachmentsForExcuseRequest school excuseRequestId db =
     length (filter (\<lambda>a. atc_schoolId a = school \<and>
       atc_resourceType a = ATTENDANCE_EXCUSE_ATTACHMENT_RESOURCE_TYPE \<and> atc_resourceId a = excuseRequestId)
       (adb_attachments db))"

section \<open>Roll-call writes\<close>

record RollCallEntryUpsertInput = DraftEntry +
  up_enrollmentId :: "string option"
  up_excuseReason :: "string option"
  up_note :: "string option"

record BulkUpsert =
  bu_schoolId :: string
  bu_sessionId :: string
  bu_markedById :: string
  bu_markedAt :: int
  bu_entries :: "RollCallEntryUpsertInput list"

definition upsert_values :: "BulkUpsert \<Rightarrow> RollCallEntryUpsertInput \<Rightarrow> AttEntry \<Rightarrow> AttEntry" where
  "upsert_values params entry e = e\<lparr>
     ec_status := de_status entry, ec_lateMinutes := de_lateMinutes entry,
     ec_earlyLeaveMinutes := de_earlyLeaveMinutes entry, ec_excuseReason := up_excuseReason entry,
     ec_note := up_note entry, ent_enrollmentId := up_enrollmentId entry,
     ent_markedById := Some (bu_markedById params), ent_markedAt := Some (bu_markedAt params)\<rparr>"

text \<open>One upsert on the unique key of school, session and student; \<open>newId\<close> is the id the database gives
  a new row.\<close>

definition same_key :: "BulkUpsert \<Rightarrow> RollCallEntryUpsertInput \<Rightarrow> AttEntry \<Rightarrow> bool" where
  "same_key params entry e \<longleftrightarrow> ent_schoolId e = bu_schoolId params \<and> ent_sessionId e = bu_sessionId params \<and>
     ent_studentId e = de_studentId entry"

definition upsert_entry :: "BulkUpsert \<Rightarrow> RollCallEntryUpsertInput \<times> string \<Rightarrow> AttEntry list \<Rightarrow> AttEntry list" where
  "upsert_entry params = (\<lambda>(entry, newId) rows.
     if \<exists>e \<in> set rows. same_key params entry e
     then map (\<lambda>e. if same_key params entry e then upsert_values params entry e else e) rows
     else rows @ [upsert_values params entry
       \<lparr>ec_status = UNMARKED, ec_lateMinutes = None, ec_earlyLeaveMinutes = None, ec_excuseReason = None,
        ec_note = None, ent_id = newId, ent_schoolId = bu_schoolId params, ent_sessionId = bu_sessionId params,
        ent_studentId = de_studentId entry, ent_enrollmentId = None, ent_markedById = None, ent_markedAt = None\<rparr>])"

definition bulkUpsertEntries :: "BulkUpsert \<Rightarrow> string list \<Rightarrow> AttendanceDb \<Rightarrow> AttendanceDb" where
  "bulkUpsertEntries params newIds db =
     db\<lparr>adb_entries := fold (upsert_entry params) (zip (bu_entries params) newIds) (adb_entries db)\<rparr>"

text \<open>\<open>attendanceSession.update\<close> by id and school: it throws P2025 when there is no such row.\<close>

definition update_session ::
  "string \<Rightarrow> string \<Rightarrow> (AttSession \<Rightarrow> AttSession) \<Rightarrow> AttendanceDb \<Rightarrow> string result \<times> AttendanceDb" where
  "update_session sessionId schoolId f db =
     (let (count, rows) = updateMany (\<lambda>s. ses_id s = sessionId \<and> ses_schoolId s = schoolId) f (adb_sessions db)
      in if count = 0 then (Inl (PrismaError ''P2025''), db) else (Inr sessionId, db\<lparr>adb_sessions := rows\<rparr>))"

definition submitSession ::
  "string \<Rightarrow> string \<Rightarrow> int \<Rightarrow> string \<Rightarrow> AttendanceDb \<Rightarrow> string result \<times> AttendanceDb" where
  "submitSession sessionId schoolId submittedAt submittedById =
     update_session sessionId schoolId (\<lambda>s. s\<lparr>ses_status := Session_SUBMITTED,
       ses_submittedAt := Some submittedAt, ses_submittedById := Some submittedById\<rparr>)"

definition unsubmitSession :: "string \<Rightarrow> string \<Rightarrow> AttendanceDb \<Rightarrow> string result \<times> AttendanceDb" where
  "unsubmitSession sessionId schoolId =
     update_session sessionId schoolId (\<lambda>s. s\<lparr>ses_status := Session_DRAFT,
       ses_submittedAt := None, ses_submittedById := None\<rparr>)"

definition corrected_entry :: "'a ExistingEntryCorrectionValues_scheme \<Rightarrow> string \<Rightarrow> int \<Rightarrow> AttEntry \<Rightarrow> AttEntry" where
  "corrected_entry correction markedById markedAt e = e\<lparr>
     ec_status := ec_status correction, ec_lateMinutes := ec_lateMinutes correction,
     ec_earlyLeaveMinutes := ec_earlyLeaveMinutes correction, ec_excuseReason := ec_excuseReason correction,
     ec_note := ec_note correction, ent_markedById := Some markedById, ent_markedAt := Some markedAt\<rparr>"

definition correctSubmittedEntry ::
  "string \<Rightarrow> string \<Rightarrow> string \<Rightarrow> string \<Rightarrow> NormalizedEntryCorrection \<Rightarrow> string \<Rightarrow> int \<Rightarrow> AttendanceDb \<Rightarrow>
   AttEntry option \<times> AttendanceDb" where
  "correctSubmittedEntry school entryId sessionId studentId correction markedById markedAt db =
     (let selected = (\<lambda>e. ent_id e = entryId \<and> ent_sessionId e = sessionId \<and> ent_studentId e = studentId \<and>
                          ent_schoolId e = school);
          (count, rows) = updateMany (\<lambda>e. selected e \<and> in_submitted_session db e)
            (corrected_entry correction markedById markedAt) (adb_entries db)
      in if count = 0 then (None, db)
         else (findFirst selected rows, db\<lparr>adb_entries := rows\<rparr>))"

definition correctIncidentEntry ::
  "string \<Rightarrow> string \<Rightarrow> NormalizedEntryCorrection \<Rightarrow> string \<Rightarrow> int \<Rightarrow> AttendanceDb \<Rightarrow> AttEntry option \<times> AttendanceDb" where
  "correctIncidentEntry school entryId correction markedById markedAt db =
     (let (count, rows) = updateMany (\<lambda>e. ent_id e = entryId \<and> ent_schoolId e = school \<and> in_submitted_session db e)
            (corrected_entry correction markedById markedAt) (adb_entries db);
          db1 = db\<lparr>adb_entries := rows\<rparr>
      in if count = 0 then (None, db) else (findIncidentById school entryId db1, db1))"

section \<open>Excuse writes\<close>

record CreateAttendanceExcuseRequestData =
  cx_schoolId :: string
  cx_academicYearId :: string
  cx_termId :: string
  cx_studentId :: string
  cx_createdById :: string
  cx_values :: NormalizedExcuseValues

definition create_excuse :: "string \<Rightarrow> CreateAttendanceExcuseRequestData \<Rightarrow> AttendanceDb \<Rightarrow> AttendanceDb" where
  "create_excuse newId data db =
     (let v = cx_values data in
      db\<lparr>adb_requests := adb_requests db @
        [\<lparr>xr_id = newId, xr_schoolId = cx_schoolId data, xr_academicYearId = cx_academicYearId data,
          xr_termId = cx_termId data, xr_studentId = cx_studentId data, xr_type = nx_type v,
          xr_status = Excuse_PENDING, xr_dateFrom = nx_dateFrom v, xr_dateTo = nx_dateTo v,
          xr_selectedPeriodKeys = nx_selectedPeriodKeys v, xr_lateMinutes = nx_lateMinutes v,
          xr_earlyLeaveMinutes = nx_earlyLeaveMinutes v, xr_reasonAr = nx_reasonAr v, xr_reasonEn = nx_reasonEn v,
          xr_decisionNote = None, xr_decidedAt = None, xr_decidedById = None,
          xr_createdById = Some (cx_createdById data), xr_deletedAt = None\<rparr>]\<rparr>)"

text \<open>\<open>updateMany\<close> on the id within the caller's school; the condition has no status.\<close>

definition update_requests ::
  "string \<Rightarrow> string \<Rightarrow> (ExcuseRequest \<Rightarrow> ExcuseRequest) \<Rightarrow> AttendanceDb \<Rightarrow> AttendanceDb" where
  "update_requests school excuseRequestId f db =
     db\<lparr>adb_requests := snd (updateMany (\<lambda>r. xr_id r = excuseRequestId \<and> xr_schoolId r = school) f (adb_requests db))\<rparr>"

definition findMutationResult :: "string \<Rightarrow> string \<Rightarrow> bool \<Rightarrow> AttendanceDb \<Rightarrow> ExcuseRequest result" where
  "findMutationResult school excuseRequestId withDeleted db =
     (case findFirst (\<lambda>r. xr_id r = excuseRequestId \<and> xr_schoolId r = school \<and>
                          (withDeleted \<or> xr_deletedAt r = None)) (adb_requests db) of
        None \<Rightarrow> Inl (JsError ''Updated attendance excuse request was not found'')
      | Some r \<Rightarrow> Inr r)"

definition set_excuse_values :: "NormalizedExcuseValues \<Rightarrow> ExcuseRequest \<Rightarrow> ExcuseRequest" where
  "set_excuse_values v r = r\<lparr>
     xr_type := nx_type v, xr_dateFrom := nx_dateFrom v, xr_dateTo := nx_dateTo v,
     xr_selectedPeriodKeys := nx_selectedPeriodKeys v, xr_lateMinutes := nx_lateMinutes v,
     xr_earlyLeaveMinutes := nx_earlyLeaveMinutes v, xr_reasonAr := nx_reasonAr v, xr_reasonEn := nx_reasonEn v\<rparr>"

definition update_excuse ::
  "string \<Rightarrow> string \<Rightarrow> NormalizedExcuseValues \<Rightarrow> AttendanceDb \<Rightarrow> ExcuseRequest result \<times> AttendanceDb" where
  "update_excuse school excuseRequestId data db =
     (let db1 = update_requests school excuseRequestId (set_excuse_values data) db
      in (findMutationResult school excuseRequestId False db1, db1))"

definition softDelete_excuse :: "string \<Rightarrow> string \<Rightarrow> int \<Rightarrow> AttendanceDb \<Rightarrow> ExcuseRequest result \<times> AttendanceDb" where
  "softDelete_excuse school excuseRequestId now db =
     (let db1 = update_requests school excuseRequestId (\<lambda>r. r\<lparr>xr_deletedAt := Some now\<rparr>) db
      in (findMutationResult school excuseRequestId True db1, db1))"

record ReviewAttendanceExcuseRequestData =
  rx_status :: AttendanceExcuseStatus
  rx_decidedById :: string
  rx_decidedAt :: int
  rx_decisionNote :: "string option"

definition set_review :: "ReviewAttendanceExcuseRequestData \<Rightarrow> ExcuseRequest \<Rightarrow> ExcuseRequest" where
  "set_review review r = r\<lparr>xr_status := rx_status review, xr_decidedById := Some (rx_decidedById review),
     xr_decidedAt := Some (rx_decidedAt review), xr_decisionNote := rx_decisionNote review\<rparr>"

definition rejectRequest ::
  "string \<Rightarrow> string \<Rightarrow> ReviewAttendanceExcuseRequestData \<Rightarrow> AttendanceDb \<Rightarrow> ExcuseRequest result \<times> AttendanceDb" where
  "rejectRequest school excuseRequestId review db =
     (let db1 = update_requests school excuseRequestId (set_review review) db
      in (findMutationResult school excuseRequestId False db1, db1))"

record ApproveExcuse =
  ax_excuseRequestId :: string
  ax_schoolId :: string
  ax_review :: ReviewAttendanceExcuseRequestData
  ax_affectedSessionIds :: "string list"
  ax_affectedEntryIds :: "string list"
  ax_studentId :: string
  ax_expectedStatus :: AttendanceStatus
  ax_excuseReason :: "string option"

definition excused_entry :: "ApproveExcuse \<Rightarrow> AttEntry \<Rightarrow> bool" where
  "excused_entry params e \<longleftrightarrow> ent_schoolId e = ax_schoolId params \<and> ent_id e \<in> set (ax_affectedEntryIds params) \<and>
     ent_sessionId e \<in> set (ax_affectedSessionIds params) \<and> ent_studentId e = ax_studentId params \<and>
     ec_status e = ax_expectedStatus params"

text \<open>\<open>createMany\<close> with \<open>skipDuplicates\<close>.\<close>

definition link_sessions :: "ApproveExcuse \<Rightarrow> ExcuseSessionLink list \<Rightarrow> ExcuseSessionLink list" where
  "link_sessions params links = fold (\<lambda>sessionId rows.
     let link = \<lparr>lnk_schoolId = ax_schoolId params, lnk_requestId = ax_excuseRequestId params, lnk_sessionId = sessionId\<rparr>
     in if link \<in> set rows then rows else rows @ [link]) (ax_affectedSessionIds params) links"

definition approveRequestAndApplyEntries :: "ApproveExcuse \<Rightarrow> AttendanceDb \<Rightarrow> ExcuseRequest result \<times> AttendanceDb" where
  "approveRequestAndApplyEntries params db =
     (let db1 = update_requests (ax_schoolId params) (ax_excuseRequestId params) (set_review (ax_review params)) db;
          db2 = db1\<lparr>adb_links := link_sessions params (adb_links db1),
                    adb_entries := snd (updateMany (excused_entry params)
                      (\<lambda>e. e\<lparr>ec_status := EXCUSED, ec_excuseReason := ax_excuseReason params\<rparr>) (adb_entries db1))\<rparr>
      in (case findExcuseById (ax_schoolId params) (ax_excuseRequestId params) db2 of
            None \<Rightarrow> Inl (JsError ''Approved attendance excuse request was not found'')
          | Some r \<Rightarrow> Inr r, db2))"

end
