(* ===== verification/Attendance_Requests.thy ===== *)
theory Attendance_Requests
  imports Attendance_Store
begin

text \<open>
  The use cases of roll call, incidents and excuse requests (\<open>roll-call/application\<close>,
  \<open>absences/application\<close>, \<open>excuses/application\<close>), each split where it writes: \<open>prepare\<close> reads and
  checks, \<open>commit\<close> runs the database operation and the audit log on the tables as they are then. The
  notification of guardians after a submission, whose failures the code swallows, is left out.
\<close>

section \<open>Scope and terms\<close>

record AttendanceScope =
  asc_actorId :: string
  asc_userType :: string
  asc_organizationId :: string
  asc_schoolId :: string
  asc_roleId :: string

definition requireAttendanceScope :: "RequestContext option \<Rightarrow> AttendanceScope result" where
  "requireAttendanceScope ctx =
     (case Option.bind ctx rc_actor of
        None \<Rightarrow> Inl TokenInvalidException
      | Some actor \<Rightarrow>
          (case Option.bind ctx rc_activeMembership of
             None \<Rightarrow> Inl ScopeMissingException
           | Some m \<Rightarrow>
               if \<not> truthy (am_schoolId m) then Inl ScopeMissingException
               else Inr \<lparr>asc_actorId = actor_id actor, asc_userType = actor_userType actor,
                         asc_organizationId = am_organizationId m,
                         asc_schoolId = the (am_schoolId m), asc_roleId = am_roleId m\<rparr>))"

definition require_some :: "js_exception \<Rightarrow> 'a option \<Rightarrow> 'a result" where
  "require_some e x = (case x of None \<Rightarrow> Inl e | Some y \<Rightarrow> Inr y)"

definition assertRollCallTermWritable :: "'a ExcuseTermRange_scheme \<Rightarrow> unit result" where
  "assertRollCallTermWritable trm =
     (if \<not> xt_isActive trm
      then Inl (ValidationDomainException ''Attendance sessions cannot be changed in a closed term''
             [(''termId'', DStr (xt_id trm))])
      else Inr ())"

text \<open>\<open>session.term\<close>, a required relation.\<close>

definition session_term :: "AttendanceDb \<Rightarrow> AttSession \<Rightarrow> AttTerm result" where
  "session_term db session =
     require_some (JsError ''Cannot read properties of undefined'')
       (findFirst (\<lambda>t. xt_id t = ses_termId session) (adb_terms db))"

definition assertRollCallSessionTermWritable :: "AttendanceDb \<Rightarrow> AttSession \<Rightarrow> unit result" where
  "assertRollCallSessionTermWritable db session = andThen (session_term db session) assertRollCallTermWritable"

definition session_not_found :: "string \<Rightarrow> js_exception" where
  "session_not_found sessionId =
     NotFoundDomainException ''Attendance session not found'' [(''sessionId'', DStr sessionId)]"

definition scopeFromSession :: "AttSession \<Rightarrow> NormalizedAttendancePolicyScope result" where
  "scopeFromSession session =
     (let scope = NormalizedAttendancePolicyScope.truncate session
      in andThen (validateNormalizedScope scope) (\<lambda>_. Inr scope))"

section \<open>Roll call\<close>

record SaveRollCallEntryDto =
  sd_studentId :: string
  sd_enrollmentId :: "string option"
  sd_status :: AttendanceStatus
  sd_lateMinutes :: "int option"
  sd_earlyLeaveMinutes :: "int option"
  sd_excuseReason :: "string option"
  sd_note :: "string option"

fun normalize_roster_entries ::
  "(string, RosterEnrollment) js_map \<Rightarrow> string list \<Rightarrow> SaveRollCallEntryDto list \<Rightarrow>
   RollCallEntryUpsertInput list result" where
  "normalize_roster_entries roster seen [] = Inr []"
| "normalize_roster_entries roster seen (entry # entries) =
     (if sd_studentId entry \<in> set seen
      then Inl (ValidationDomainException ''Attendance entries contain duplicate student ids''
             [(''studentId'', DStr (sd_studentId entry))])
      else
        case jm_get roster (sd_studentId entry) of
          None \<Rightarrow> Inl (NotFoundDomainException ''Student not found in attendance roster''
                    [(''studentId'', DStr (sd_studentId entry))])
        | Some enrollment \<Rightarrow>
            if truthy (sd_enrollmentId entry) \<and> sd_enrollmentId entry \<noteq> Some (ro_id enrollment)
            then Inl (NotFoundDomainException ''Enrollment not found in attendance roster''
                   [(''enrollmentId'', detail_of_str_option (sd_enrollmentId entry))])
            else
              andThen (normalize_roster_entries roster (seen @ [sd_studentId entry]) entries) (\<lambda>rest.
                Inr (\<lparr>de_studentId = sd_studentId entry, de_status = sd_status entry,
                      de_lateMinutes = sd_lateMinutes entry, de_earlyLeaveMinutes = sd_earlyLeaveMinutes entry,
                      up_enrollmentId = (case sd_enrollmentId entry of None \<Rightarrow> Some (ro_id enrollment) | Some i \<Rightarrow> Some i),
                      up_excuseReason = normalizeOptionalString (sd_excuseReason entry),
                      up_note = normalizeOptionalString (sd_note entry)\<rparr> # rest)))"

definition normalizeEntriesForRoster ::
  "SaveRollCallEntryDto list \<Rightarrow> RosterEnrollment list \<Rightarrow> RollCallEntryUpsertInput list result" where
  "normalizeEntriesForRoster entries roster =
     normalize_roster_entries (jm_of_entries (map (\<lambda>e. (ro_studentId e, e)) roster)) [] entries"

definition SaveRollCallEntriesUseCase_prepare ::
  "RequestContext option \<Rightarrow> int \<Rightarrow> string \<Rightarrow> SaveRollCallEntryDto list \<Rightarrow> AttendanceDb \<Rightarrow> BulkUpsert result" where
  "SaveRollCallEntriesUseCase_prepare ctx now sessionId entries db =
     andThen (requireAttendanceScope ctx) (\<lambda>scope.
     andThen (require_some (session_not_found sessionId) (findSessionById (asc_schoolId scope) sessionId db)) (\<lambda>session.
     andThen (assertRollCallSessionTermWritable db session) (\<lambda>_.
     andThen (assertDraftAttendanceSession (ses_id session) (ses_status session)) (\<lambda>_.
     andThen (scopeFromSession session) (\<lambda>rosterScope.
     andThen (normalizeEntriesForRoster entries
                (listRosterStudents (asc_schoolId scope) (ses_academicYearId session) (ses_termId session)
                   rosterScope db)) (\<lambda>normalized.
     let policy = (if truthy (ses_policyId session)
                   then findPolicyThresholdsById (asc_schoolId scope) (the (ses_policyId session)) db else None)
     in andThen (normalizeDraftEntriesByPolicyThresholds normalized policy) (\<lambda>upserts.
          Inr \<lparr>bu_schoolId = ses_schoolId session, bu_sessionId = ses_id session,
               bu_markedById = asc_actorId scope, bu_markedAt = now, bu_entries = upserts\<rparr>)))))))"

definition SubmitRollCallSessionUseCase_prepare ::
  "RequestContext option \<Rightarrow> string \<Rightarrow> AttendanceDb \<Rightarrow> (AttendanceScope \<times> AttSession) result" where
  "SubmitRollCallSessionUseCase_prepare ctx sessionId db =
     andThen (requireAttendanceScope ctx) (\<lambda>scope.
     andThen (require_some (session_not_found sessionId) (findSessionById (asc_schoolId scope) sessionId db)) (\<lambda>session.
     andThen (assertRollCallSessionTermWritable db session) (\<lambda>_.
       if ses_status session \<noteq> Session_DRAFT
       then Inl (AttendanceSessionAlreadySubmittedException
              [(''sessionId'', DStr (ses_id session)),
               (''status'', DStr (AttendanceSessionStatus_name (ses_status session)))])
       else Inr (scope, session))))"

definition UnsubmitRollCallSessionUseCase_prepare ::
  "RequestContext option \<Rightarrow> string \<Rightarrow> AttendanceDb \<Rightarrow> (AttendanceScope \<times> AttSession) result" where
  "UnsubmitRollCallSessionUseCase_prepare ctx sessionId db =
     andThen (requireAttendanceScope ctx) (\<lambda>scope.
     andThen (require_some (session_not_found sessionId) (findSessionById (asc_schoolId scope) sessionId db)) (\<lambda>session.
     andThen (assertRollCallSessionTermWritable db session) (\<lambda>_.
       if ses_status session \<noteq> Session_SUBMITTED
       then Inl (AttendanceSessionNotSubmittedException
              [(''sessionId'', DStr (ses_id session)),
               (''status'', DStr (AttendanceSessionStatus_name (ses_status session)))])
       else Inr (scope, session))))"

definition entry_not_found :: "(string \<times> detail) list \<Rightarrow> js_exception" where
  "entry_not_found details = NotFoundDomainException ''Attendance entry not found'' details"

definition CorrectAttendanceEntryUseCase_prepare ::
  "RequestContext option \<Rightarrow> string \<Rightarrow> string \<Rightarrow> EntryCorrectionInput \<Rightarrow> AttendanceDb \<Rightarrow>
   (AttendanceScope \<times> AttSession \<times> AttEntry \<times> NormalizedEntryCorrection) result" where
  "CorrectAttendanceEntryUseCase_prepare ctx sessionId studentId command db =
     andThen (requireAttendanceScope ctx) (\<lambda>scope.
     let (session, entry) = findSessionEntryForCorrection (asc_schoolId scope) sessionId studentId db in
     andThen (require_some (session_not_found sessionId) session) (\<lambda>session.
     andThen (assertRollCallSessionTermWritable db session) (\<lambda>_.
     andThen (assertSubmittedSessionForCorrection (ses_id session) (ses_status session)) (\<lambda>_.
     andThen (require_some (entry_not_found [(''sessionId'', DStr (ses_id session)), (''studentId'', DStr studentId)])
                entry) (\<lambda>entry.
     andThen (normalizeEntryCorrection command entry) (\<lambda>correction.
       Inr (scope, session, entry, correction)))))))"

section \<open>Incidents\<close>

definition incident_not_found :: "string \<Rightarrow> js_exception" where
  "incident_not_found entryId =
     NotFoundDomainException ''Attendance absence incident not found'' [(''entryId'', DStr entryId)]"

definition incident_session :: "AttendanceDb \<Rightarrow> AttEntry \<Rightarrow> AttSession result" where
  "incident_session db e =
     require_some (JsError ''Cannot read properties of undefined'')
       (findFirst (\<lambda>s. ses_id s = ent_sessionId e \<and> ses_schoolId s = ent_schoolId e) (adb_sessions db))"

text \<open>What the two incident use cases share: the target status, the guard on the current one and the
  correction they build differ.\<close>

definition incident_prepare ::
  "(AttendanceStatus \<Rightarrow> unit result) \<Rightarrow> EntryCorrectionInput \<Rightarrow> RequestContext option \<Rightarrow> string \<Rightarrow> AttendanceDb \<Rightarrow>
   (AttendanceScope \<times> AttEntry \<times> NormalizedEntryCorrection) result" where
  "incident_prepare guard input ctx entryId db =
     andThen (requireAttendanceScope ctx) (\<lambda>scope.
     andThen (require_some (incident_not_found entryId) (findIncidentById (asc_schoolId scope) entryId db)) (\<lambda>incident.
     andThen (incident_session db incident) (\<lambda>session.
     andThen (assertRollCallSessionTermWritable db session) (\<lambda>_.
     andThen (assertSubmittedSessionForCorrection (ses_id session) (ses_status session)) (\<lambda>_.
     andThen (guard (ec_status incident)) (\<lambda>_.
     andThen (normalizeEntryCorrection input incident) (\<lambda>correction.
       Inr (scope, incident, correction))))))))"

record IncidentDto =
  id_earlyLeaveMinutes :: "int option"
  id_excuseReason :: "string option"
  id_note :: "string option"
  id_correctionReason :: "string option"

definition MarkAttendanceAbsenceExcusedUseCase_prepare ::
  "RequestContext option \<Rightarrow> string \<Rightarrow> IncidentDto \<Rightarrow> AttendanceDb \<Rightarrow>
   (AttendanceScope \<times> AttEntry \<times> NormalizedEntryCorrection) result" where
  "MarkAttendanceAbsenceExcusedUseCase_prepare ctx entryId command db =
     incident_prepare assertAttendanceIncidentCanBeExcused
       \<lparr>ci_status = EXCUSED, ci_lateMinutes = None, ci_earlyLeaveMinutes = None,
        ci_excuseReason = id_excuseReason command, ci_note = Some (id_note command),
        ci_correctionReason = id_correctionReason command\<rparr> ctx entryId db"

definition CorrectAttendanceAbsenceEarlyLeaveUseCase_prepare ::
  "RequestContext option \<Rightarrow> string \<Rightarrow> IncidentDto \<Rightarrow> AttendanceDb \<Rightarrow>
   (AttendanceScope \<times> AttEntry \<times> NormalizedEntryCorrection) result" where
  "CorrectAttendanceAbsenceEarlyLeaveUseCase_prepare ctx entryId command db =
     incident_prepare assertAttendanceIncidentCanBecomeEarlyLeave
       \<lparr>ci_status = EARLY_LEAVE, ci_lateMinutes = None, ci_earlyLeaveMinutes = Some (id_earlyLeaveMinutes command),
        ci_excuseReason = None, ci_note = Some (id_note command),
        ci_correctionReason = id_correctionReason command\<rparr> ctx entryId db"

section \<open>Excuse requests\<close>

definition validateExcuseAcademicContext :: "string \<Rightarrow> string \<Rightarrow> string \<Rightarrow> AttendanceDb \<Rightarrow> AttTerm result" where
  "validateExcuseAcademicContext school academicYearId termId db =
     andThen (require_some (NotFoundDomainException ''Academic year not found'' [(''academicYearId'', DStr academicYearId)])
                (findAttendanceYear school academicYearId db)) (\<lambda>_.
       let missing = NotFoundDomainException ''Term not found''
             [(''academicYearId'', DStr academicYearId), (''termId'', DStr termId)]
       in case findTermById school termId db of
            None \<Rightarrow> Inl missing
          | Some t \<Rightarrow> if at_academicYearId t \<noteq> academicYearId then Inl missing else Inr t)"

definition validateExcuseStudent :: "string \<Rightarrow> string \<Rightarrow> AttendanceDb \<Rightarrow> unit result" where
  "validateExcuseStudent school studentId db =
     andThen (require_some (NotFoundDomainException ''Student not found'' [(''studentId'', DStr studentId)])
                (validateStudent school studentId db)) (\<lambda>_. Inr ())"

record CreateAttendanceExcuseRequestDto =
  cd_academicYearId :: "string option"
  cd_yearId :: "string option"
  cd_termId :: string
  cd_studentId :: string
  cd_type :: AttendanceExcuseType
  cd_dateFrom :: string
  cd_dateTo :: string
  cd_selectedPeriodKeys :: "string list option"
  cd_selectedPeriodIds :: "string list option"
  cd_lateMinutes :: "int option"
  cd_earlyLeaveMinutes :: "int option"
  cd_reasonAr :: "string option"
  cd_reasonEn :: "string option"

definition buildCreateExcuseRequestData ::
  "(string \<Rightarrow> int option) \<Rightarrow> AttendanceScope \<Rightarrow> string \<Rightarrow> CreateAttendanceExcuseRequestDto \<Rightarrow> AttTerm \<Rightarrow>
   CreateAttendanceExcuseRequestData result" where
  "buildCreateExcuseRequestData parse scope academicYearId command trm =
     andThen (assertExcuseTermWritable trm) (\<lambda>_.
     andThen (normalizeSelectedPeriodKeys (cd_selectedPeriodKeys command) (cd_selectedPeriodIds command)) (\<lambda>keys.
     andThen (validateAndNormalizeExcuseValues parse
                \<lparr>xv_type = cd_type command, xv_dateFrom = DateText (cd_dateFrom command),
                 xv_dateTo = DateText (cd_dateTo command), xv_selectedPeriodKeys = keys,
                 xv_lateMinutes = cd_lateMinutes command, xv_earlyLeaveMinutes = cd_earlyLeaveMinutes command,
                 xv_reasonAr = cd_reasonAr command, xv_reasonEn = cd_reasonEn command\<rparr> (Some trm)) (\<lambda>values.
       Inr \<lparr>cx_schoolId = asc_schoolId scope, cx_academicYearId = academicYearId, cx_termId = cd_termId command,
            cx_studentId = cd_studentId command, cx_createdById = asc_actorId scope, cx_values = values\<rparr>)))"

definition CreateAttendanceExcuseRequestUseCase_prepare ::
  "(string \<Rightarrow> int option) \<Rightarrow> RequestContext option \<Rightarrow> CreateAttendanceExcuseRequestDto \<Rightarrow> AttendanceDb \<Rightarrow>
   (AttendanceScope \<times> CreateAttendanceExcuseRequestData) result" where
  "CreateAttendanceExcuseRequestUseCase_prepare parse ctx command db =
     andThen (requireAttendanceScope ctx) (\<lambda>scope.
     andThen (resolveExcuseAcademicYearId (cd_academicYearId command) (cd_yearId command)) (\<lambda>academicYearId.
     andThen (validateExcuseAcademicContext (asc_schoolId scope) academicYearId (cd_termId command) db) (\<lambda>trm.
     andThen (validateExcuseStudent (asc_schoolId scope) (cd_studentId command) db) (\<lambda>_.
     andThen (buildCreateExcuseRequestData parse scope academicYearId command trm) (\<lambda>data.
       Inr (scope, data))))))"

definition excuse_not_found :: "string \<Rightarrow> js_exception" where
  "excuse_not_found excuseRequestId =
     NotFoundDomainException ''Attendance excuse request not found'' [(''excuseRequestId'', DStr excuseRequestId)]"

text \<open>The first steps of the four use cases on an existing request.\<close>

definition require_pending_excuse ::
  "RequestContext option \<Rightarrow> string \<Rightarrow> AttendanceDb \<Rightarrow> (AttendanceScope \<times> ExcuseRequest \<times> AttTerm) result" where
  "require_pending_excuse ctx excuseRequestId db =
     andThen (requireAttendanceScope ctx) (\<lambda>scope.
     andThen (require_some (excuse_not_found excuseRequestId)
                (findExcuseById (asc_schoolId scope) excuseRequestId db)) (\<lambda>existing.
     andThen (assertPendingForReview (xr_id existing) (xr_status existing)) (\<lambda>_.
     andThen (validateExcuseAcademicContext (asc_schoolId scope) (xr_academicYearId existing) (xr_termId existing) db)
       (\<lambda>trm. Inr (scope, existing, trm)))))"

record UpdateAttendanceExcuseRequestDto =
  ud_type :: "AttendanceExcuseType option"
  ud_dateFrom :: "string option"
  ud_dateTo :: "string option"
  ud_selectedPeriodKeys :: "string list option option"
  ud_selectedPeriodIds :: "string list option option"
  ud_lateMinutes :: "int option option"
  ud_earlyLeaveMinutes :: "int option option"
  ud_reasonAr :: "string option option"
  ud_reasonEn :: "string option option"

text \<open>\<open>hasOwn(command, k) ? command[k] : existing[k]\<close>\<close>

definition patched :: "'a option \<Rightarrow> 'a \<Rightarrow> 'a" where
  "patched patch old = (case patch of None \<Rightarrow> old | Some new \<Rightarrow> new)"

definition buildUpdateExcuseRequestData ::
  "(string \<Rightarrow> int option) \<Rightarrow> ExcuseRequest \<Rightarrow> UpdateAttendanceExcuseRequestDto \<Rightarrow> AttTerm \<Rightarrow>
   NormalizedExcuseValues result" where
  "buildUpdateExcuseRequestData parse existing command trm =
     andThen (assertExcuseTermWritable trm) (\<lambda>_.
     andThen (if ud_selectedPeriodKeys command \<noteq> None \<or> ud_selectedPeriodIds command \<noteq> None
              then normalizeSelectedPeriodKeys (patched (ud_selectedPeriodKeys command) None)
                     (patched (ud_selectedPeriodIds command) None)
              else Inr (xr_selectedPeriodKeys existing)) (\<lambda>keys.
       validateAndNormalizeExcuseValues parse
         \<lparr>xv_type = patched (ud_type command) (xr_type existing),
          xv_dateFrom = (case ud_dateFrom command of Some t \<Rightarrow> DateText t | None \<Rightarrow> DateValue (xr_dateFrom existing)),
          xv_dateTo = (case ud_dateTo command of Some t \<Rightarrow> DateText t | None \<Rightarrow> DateValue (xr_dateTo existing)),
          xv_selectedPeriodKeys = keys,
          xv_lateMinutes = patched (ud_lateMinutes command) (xr_lateMinutes existing),
          xv_earlyLeaveMinutes = patched (ud_earlyLeaveMinutes command) (xr_earlyLeaveMinutes existing),
          xv_reasonAr = patched (ud_reasonAr command) (xr_reasonAr existing),
          xv_reasonEn = patched (ud_reasonEn command) (xr_reasonEn existing)\<rparr> (Some trm)))"

definition UpdateAttendanceExcuseRequestUseCase_prepare ::
  "(string \<Rightarrow> int option) \<Rightarrow> RequestContext option \<Rightarrow> string \<Rightarrow> UpdateAttendanceExcuseRequestDto \<Rightarrow> AttendanceDb \<Rightarrow>
   (AttendanceScope \<times> ExcuseRequest \<times> NormalizedExcuseValues) result" where
  "UpdateAttendanceExcuseRequestUseCase_prepare parse ctx excuseRequestId command db =
     andThen (require_pending_excuse ctx excuseRequestId db) (\<lambda>(scope, existing, trm).
     andThen (buildUpdateExcuseRequestData parse existing command trm) (\<lambda>values.
       Inr (scope, existing, values)))"

definition DeleteAttendanceExcuseRequestUseCase_prepare ::
  "RequestContext option \<Rightarrow> string \<Rightarrow> AttendanceDb \<Rightarrow> (AttendanceScope \<times> ExcuseRequest) result" where
  "DeleteAttendanceExcuseRequestUseCase_prepare ctx excuseRequestId db =
     andThen (require_pending_excuse ctx excuseRequestId db) (\<lambda>(scope, existing, trm).
     andThen (assertExcuseTermWritable trm) (\<lambda>_. Inr (scope, existing)))"

definition buildExcuseApprovalReason :: "ExcuseRequest \<Rightarrow> string option \<Rightarrow> string option" where
  "buildExcuseApprovalReason request decisionNote =
     (case xr_reasonAr request of Some s \<Rightarrow> Some s
      | None \<Rightarrow> (case xr_reasonEn request of Some s \<Rightarrow> Some s | None \<Rightarrow> decisionNote))"

definition uniqueAffectedSessionIds :: "AttEntry list \<Rightarrow> string list" where
  "uniqueAffectedSessionIds entries = js_unique (map ent_sessionId entries)"

definition stored_values :: "ExcuseRequest \<Rightarrow> ExcuseValueInput" where
  "stored_values r =
     \<lparr>xv_type = xr_type r, xv_dateFrom = DateValue (xr_dateFrom r), xv_dateTo = DateValue (xr_dateTo r),
      xv_selectedPeriodKeys = xr_selectedPeriodKeys r, xv_lateMinutes = xr_lateMinutes r,
      xv_earlyLeaveMinutes = xr_earlyLeaveMinutes r, xv_reasonAr = xr_reasonAr r, xv_reasonEn = xr_reasonEn r\<rparr>"

text \<open>\<open>session.policy?.requireExcuseAttachment === true\<close>\<close>

definition session_requires_attachment :: "AttendanceDb \<Rightarrow> AttSession \<Rightarrow> bool" where
  "session_requires_attachment db session \<longleftrightarrow>
     (case ses_policyId session of
        None \<Rightarrow> False
      | Some pid \<Rightarrow> (case findFirst (\<lambda>p. thr_id p = pid) (adb_policies db) of
                       None \<Rightarrow> False | Some p \<Rightarrow> apl_requireExcuseAttachment p))"

text \<open>The entries an approval would excuse, and the parameters of its transaction.\<close>

definition matching_entries :: "string \<Rightarrow> ExcuseRequest \<Rightarrow> AttendanceDb \<Rightarrow> AttEntry list" where
  "matching_entries school request db =
     findMatchingEntriesForExcuse school (map ses_id (findMatchingSubmittedSessions school request db))
       (xr_studentId request) (attendanceStatusForExcuseType (xr_type request)) db"

definition approval_params ::
  "AttendanceScope \<Rightarrow> int \<Rightarrow> string option \<Rightarrow> ExcuseRequest \<Rightarrow> AttEntry list \<Rightarrow> ApproveExcuse" where
  "approval_params scope now decisionNote existing entries =
     \<lparr>ax_excuseRequestId = xr_id existing, ax_schoolId = asc_schoolId scope,
      ax_review = \<lparr>rx_status = Excuse_APPROVED, rx_decidedById = asc_actorId scope, rx_decidedAt = now,
                   rx_decisionNote = decisionNote\<rparr>,
      ax_affectedSessionIds = uniqueAffectedSessionIds entries, ax_affectedEntryIds = map ent_id entries,
      ax_studentId = xr_studentId existing, ax_expectedStatus = attendanceStatusForExcuseType (xr_type existing),
      ax_excuseReason = buildExcuseApprovalReason existing decisionNote\<rparr>"

definition ApproveAttendanceExcuseRequestUseCase_prepare ::
  "RequestContext option \<Rightarrow> int \<Rightarrow> string \<Rightarrow> string option \<Rightarrow> AttendanceDb \<Rightarrow>
   (AttendanceScope \<times> ExcuseRequest \<times> ApproveExcuse) result" where
  "ApproveAttendanceExcuseRequestUseCase_prepare ctx now excuseRequestId note db =
     andThen (require_pending_excuse ctx excuseRequestId db) (\<lambda>(scope, existing, trm).
     andThen (validateExcuseStudent (asc_schoolId scope) (xr_studentId existing) db) (\<lambda>_.
     andThen (validateAndNormalizeExcuseValues (\<lambda>_. None) (stored_values existing) (Some trm)) (\<lambda>_.
     let matchingSessions = findMatchingSubmittedSessions (asc_schoolId scope) existing db;
         matchingEntries = matching_entries (asc_schoolId scope) existing db
     in andThen (assertMatchingSubmittedEntriesExist (xr_id existing) (length matchingEntries)) (\<lambda>_.
        let requiresAttachment = list_ex (session_requires_attachment db)
              (filter (\<lambda>s. ses_id s \<in> set (uniqueAffectedSessionIds matchingEntries)) matchingSessions);
            attachmentCount = countAttachmentsForExcuseRequest (asc_schoolId scope) (xr_id existing) db
        in andThen (assertExcuseAttachmentRequirement (xr_id existing) requiresAttachment attachmentCount) (\<lambda>_.
             Inr (scope, existing,
               approval_params scope now (normalizeReviewDecisionNote note) existing matchingEntries))))))"

definition RejectAttendanceExcuseRequestUseCase_prepare ::
  "RequestContext option \<Rightarrow> int \<Rightarrow> string \<Rightarrow> string option \<Rightarrow> AttendanceDb \<Rightarrow>
   (AttendanceScope \<times> ExcuseRequest \<times> ReviewAttendanceExcuseRequestData) result" where
  "RejectAttendanceExcuseRequestUseCase_prepare ctx now excuseRequestId note db =
     andThen (require_pending_excuse ctx excuseRequestId db) (\<lambda>(scope, existing, trm).
     andThen (validateExcuseStudent (asc_schoolId scope) (xr_studentId existing) db) (\<lambda>_.
       Inr (scope, existing, \<lparr>rx_status = Excuse_REJECTED, rx_decidedById = asc_actorId scope,
              rx_decidedAt = now, rx_decisionNote = normalizeReviewDecisionNote note\<rparr>)))"

end
