(* ===== verification/Attendance_System.thy ===== *)
theory Attendance_System
  imports Attendance_Requests Lifecycle
begin

text \<open>
  Attendance requests in progress: the audit entries, the second half of every use case, and the
  interleaving of several requests.
\<close>

section \<open>Audit entries\<close>

definition attendance_audit ::
  "AttendanceScope \<Rightarrow> string \<Rightarrow> string \<Rightarrow> string \<Rightarrow> (string \<times> detail) list option \<Rightarrow> (string \<times> detail) list \<Rightarrow>
   AttendanceAudit" where
  "attendance_audit scope action resourceType resourceId before after =
     \<lparr>aa_actorId = asc_actorId scope, aa_userType = asc_userType scope,
      aa_organizationId = asc_organizationId scope, aa_schoolId = asc_schoolId scope, aa_module = ''attendance'',
      aa_action = action, aa_resourceType = resourceType, aa_resourceId = resourceId, aa_outcome = ''SUCCESS'',
      aa_before = before, aa_after = after\<rparr>"

definition summarizeSessionSubmission :: "AttSession \<Rightarrow> (string \<times> detail) list" where
  "summarizeSessionSubmission session =
     [(''status'', DStr (AttendanceSessionStatus_name (ses_status session))),
      (''submittedAt'', detail_of_date_option (ses_submittedAt session)),
      (''submittedById'', detail_of_str_option (ses_submittedById session))]"

definition summarizeEntryCorrectionState :: "AttEntry \<Rightarrow> (string \<times> detail) list" where
  "summarizeEntryCorrectionState entry =
     [(''status'', DStr (AttendanceStatus_name (ec_status entry))),
      (''lateMinutes'', detail_of_int_option (ec_lateMinutes entry)),
      (''earlyLeaveMinutes'', detail_of_int_option (ec_earlyLeaveMinutes entry)),
      (''excuseReason'', detail_of_str_option (ec_excuseReason entry)),
      (''note'', detail_of_str_option (ec_note entry)),
      (''markedById'', detail_of_str_option (ent_markedById entry)),
      (''markedAt'', detail_of_date_option (ent_markedAt entry))]"

definition linkedSessionIds :: "AttendanceDb \<Rightarrow> ExcuseRequest \<Rightarrow> string list" where
  "linkedSessionIds db r =
     map lnk_sessionId (filter (\<lambda>l. lnk_requestId l = xr_id r \<and> lnk_schoolId l = xr_schoolId r) (adb_links db))"

definition summarizeExcuseRequest :: "AttendanceDb \<Rightarrow> ExcuseRequest \<Rightarrow> (string \<times> detail) list" where
  "summarizeExcuseRequest db request =
     [(''status'', DStr (AttendanceExcuseStatus_name (xr_status request))),
      (''type'', DStr (AttendanceExcuseType_name (xr_type request))),
      (''dateFrom'', DDate (xr_dateFrom request)), (''dateTo'', DDate (xr_dateTo request)),
      (''selectedPeriodKeys'', DStrs (xr_selectedPeriodKeys request)),
      (''lateMinutes'', detail_of_int_option (xr_lateMinutes request)),
      (''earlyLeaveMinutes'', detail_of_int_option (xr_earlyLeaveMinutes request)),
      (''reasonAr'', detail_of_str_option (xr_reasonAr request)),
      (''reasonEn'', detail_of_str_option (xr_reasonEn request)),
      (''decisionNote'', detail_of_str_option (xr_decisionNote request)),
      (''decidedAt'', detail_of_date_option (xr_decidedAt request)),
      (''decidedById'', detail_of_str_option (xr_decidedById request)),
      (''linkedSessionIds'', DStrs (linkedSessionIds db request)),
      (''deletedAt'', detail_of_date_option (xr_deletedAt request))]"

definition buildExcuseAuditEntry ::
  "AttendanceScope \<Rightarrow> string \<Rightarrow> AttendanceDb \<Rightarrow> ExcuseRequest \<Rightarrow> (string \<times> detail) list option \<Rightarrow> AttendanceAudit" where
  "buildExcuseAuditEntry scope action db request before =
     attendance_audit scope action ''attendance_excuse_request'' (xr_id request) before (summarizeExcuseRequest db request)"

definition buildExcuseReviewAuditEntry ::
  "AttendanceScope \<Rightarrow> string \<Rightarrow> AttendanceDb \<Rightarrow> ExcuseRequest \<Rightarrow> (string \<times> detail) list \<Rightarrow> string list \<Rightarrow> string list \<Rightarrow>
   AttendanceAudit" where
  "buildExcuseReviewAuditEntry scope action db request before affectedSessionIds affectedEntryIds =
     attendance_audit scope action ''attendance_excuse_request'' (xr_id request) (Some before)
       (summarizeExcuseRequest db request @
        [(''affectedSessionIds'', DStrs affectedSessionIds), (''affectedEntryIds'', DStrs affectedEntryIds)])"

definition createAuditLog :: "AttendanceAudit \<Rightarrow> AttendanceDb \<Rightarrow> AttendanceDb" where
  "createAuditLog entry db = db\<lparr>adb_audit := adb_audit db @ [entry]\<rparr>"

section \<open>Requests and their second half\<close>

datatype att_request =
    SaveEntries string "SaveRollCallEntryDto list"
  | SubmitSession string
  | UnsubmitSession string
  | CorrectEntry string string EntryCorrectionInput
  | ExcuseIncident string IncidentDto
  | EarlyLeaveIncident string IncidentDto
  | CreateExcuse CreateAttendanceExcuseRequestDto
  | UpdateExcuse string UpdateAttendanceExcuseRequestDto
  | DeleteExcuse string
  | ApproveExcuseReq string "string option"
  | RejectExcuseReq string "string option"

text \<open>A request between its checks and its write. The summaries of the earlier row that go into the audit
  log were taken when it was read.\<close>

datatype att_pending =
    QSave BulkUpsert
  | QSubmit AttendanceScope AttSession int
  | QUnsubmit AttendanceScope AttSession
  | QCorrect AttendanceScope AttSession AttEntry NormalizedEntryCorrection int
  | QIncident string AttendanceScope AttEntry NormalizedEntryCorrection int
  | QCreate AttendanceScope CreateAttendanceExcuseRequestData
  | QUpdate AttendanceScope ExcuseRequest "(string \<times> detail) list" NormalizedExcuseValues
  | QDelete AttendanceScope ExcuseRequest "(string \<times> detail) list" int
  | QApprove AttendanceScope "(string \<times> detail) list" ApproveExcuse
  | QReject AttendanceScope ExcuseRequest "(string \<times> detail) list" ReviewAttendanceExcuseRequestData

fun att_prepare ::
  "(string \<Rightarrow> int option) \<Rightarrow> RequestContext option \<Rightarrow> int \<Rightarrow> att_request \<Rightarrow> AttendanceDb \<Rightarrow> att_pending result" where
  "att_prepare parse ctx now (SaveEntries sid entries) db =
     andThen (SaveRollCallEntriesUseCase_prepare ctx now sid entries db) (\<lambda>b. Inr (QSave b))"
| "att_prepare parse ctx now (SubmitSession sid) db =
     andThen (SubmitRollCallSessionUseCase_prepare ctx sid db) (\<lambda>(scope, s). Inr (QSubmit scope s now))"
| "att_prepare parse ctx now (UnsubmitSession sid) db =
     andThen (UnsubmitRollCallSessionUseCase_prepare ctx sid db) (\<lambda>(scope, s). Inr (QUnsubmit scope s))"
| "att_prepare parse ctx now (CorrectEntry sid student command) db =
     andThen (CorrectAttendanceEntryUseCase_prepare ctx sid student command db)
       (\<lambda>(scope, s, e, c). Inr (QCorrect scope s e c now))"
| "att_prepare parse ctx now (ExcuseIncident eid command) db =
     andThen (MarkAttendanceAbsenceExcusedUseCase_prepare ctx eid command db)
       (\<lambda>(scope, e, c). Inr (QIncident ''attendance.absences.excuse'' scope e c now))"
| "att_prepare parse ctx now (EarlyLeaveIncident eid command) db =
     andThen (CorrectAttendanceAbsenceEarlyLeaveUseCase_prepare ctx eid command db)
       (\<lambda>(scope, e, c). Inr (QIncident ''attendance.absences.early_leave'' scope e c now))"
| "att_prepare parse ctx now (CreateExcuse command) db =
     andThen (CreateAttendanceExcuseRequestUseCase_prepare parse ctx command db) (\<lambda>(scope, d). Inr (QCreate scope d))"
| "att_prepare parse ctx now (UpdateExcuse rid command) db =
     andThen (UpdateAttendanceExcuseRequestUseCase_prepare parse ctx rid command db)
       (\<lambda>(scope, r, v). Inr (QUpdate scope r (summarizeExcuseRequest db r) v))"
| "att_prepare parse ctx now (DeleteExcuse rid) db =
     andThen (DeleteAttendanceExcuseRequestUseCase_prepare ctx rid db)
       (\<lambda>(scope, r). Inr (QDelete scope r (summarizeExcuseRequest db r) now))"
| "att_prepare parse ctx now (ApproveExcuseReq rid note) db =
     andThen (ApproveAttendanceExcuseRequestUseCase_prepare ctx now rid note db)
       (\<lambda>(scope, r, a). Inr (QApprove scope (summarizeExcuseRequest db r) a))"
| "att_prepare parse ctx now (RejectExcuseReq rid note) db =
     andThen (RejectAttendanceExcuseRequestUseCase_prepare ctx now rid note db)
       (\<lambda>(scope, r, v). Inr (QReject scope r (summarizeExcuseRequest db r) v))"

text \<open>An audit entry follows a successful write.\<close>

definition audited ::
  "('r \<Rightarrow> AttendanceDb \<Rightarrow> AttendanceAudit) \<Rightarrow> 'r result \<times> AttendanceDb \<Rightarrow> unit result \<times> AttendanceDb" where
  "audited entry = (\<lambda>(r, db). case r of Inl e \<Rightarrow> (Inl e, db) | Inr x \<Rightarrow> (Inr (), createAuditLog (entry x db) db))"

definition session_audit :: "AttendanceScope \<Rightarrow> string \<Rightarrow> AttSession \<Rightarrow> string \<Rightarrow> AttendanceDb \<Rightarrow> AttendanceAudit" where
  "session_audit scope action before sid db =
     attendance_audit scope action ''attendance_session'' sid (Some (summarizeSessionSubmission before))
       (case findFirst (\<lambda>s. ses_id s = sid) (adb_sessions db) of None \<Rightarrow> [] | Some s \<Rightarrow> summarizeSessionSubmission s)"

definition correction_audit ::
  "AttendanceScope \<Rightarrow> AttEntry \<Rightarrow> NormalizedEntryCorrection \<Rightarrow> (string \<times> detail) list \<Rightarrow> AttEntry \<Rightarrow> AttendanceDb \<Rightarrow>
   AttendanceAudit" where
  "correction_audit scope before correction extra corrected db =
     attendance_audit scope ''attendance.entry.correct'' ''attendance_entry'' (ent_id corrected)
       (Some (summarizeEntryCorrectionState before))
       (summarizeEntryCorrectionState corrected @ [(''correctionReason'', DStr (nc_correctionReason correction))] @ extra)"

fun att_commit :: "string list \<Rightarrow> att_pending \<Rightarrow> AttendanceDb \<Rightarrow> unit result \<times> AttendanceDb" where
  "att_commit newIds (QSave params) db = (Inr (), bulkUpsertEntries params newIds db)"
| "att_commit newIds (QSubmit scope session now) db =
     audited (session_audit scope ''attendance.session.submit'' session)
       (submitSession (ses_id session) (ses_schoolId session) now (asc_actorId scope) db)"
| "att_commit newIds (QUnsubmit scope session) db =
     audited (session_audit scope ''attendance.session.unsubmit'' session)
       (unsubmitSession (ses_id session) (ses_schoolId session) db)"
| "att_commit newIds (QCorrect scope session entry correction now) db =
     (let (corrected, db1) = correctSubmittedEntry (asc_schoolId scope) (ent_id entry) (ses_id session)
            (ent_studentId entry) correction (asc_actorId scope) now db
      in audited (correction_audit scope entry correction [])
           (require_some (entry_not_found [(''entryId'', DStr (ent_id entry)), (''sessionId'', DStr (ses_id session)),
              (''studentId'', DStr (ent_studentId entry))]) corrected, db1))"
| "att_commit newIds (QIncident origin scope incident correction now) db =
     (let (corrected, db1) = correctIncidentEntry (asc_schoolId scope) (ent_id incident) correction (asc_actorId scope) now db
      in audited (correction_audit scope incident correction [(''correctionSource'', DStr origin)])
           (require_some (incident_not_found (ent_id incident)) corrected, db1))"
| "att_commit newIds (QCreate scope data) db =
     (let db1 = create_excuse (hd newIds) data db
      in audited (\<lambda>r d. buildExcuseAuditEntry scope ''attendance.excuse_request.create'' d r None)
           (Inr (last (adb_requests db1)), db1))"
| "att_commit newIds (QUpdate scope existing before data) db =
     audited (\<lambda>r d. buildExcuseAuditEntry scope ''attendance.excuse_request.update'' d r (Some before))
       (update_excuse (asc_schoolId scope) (xr_id existing) data db)"
| "att_commit newIds (QDelete scope existing before now) db =
     audited (\<lambda>r d. buildExcuseAuditEntry scope ''attendance.excuse_request.cancel'' d r (Some before))
       (softDelete_excuse (asc_schoolId scope) (xr_id existing) now db)"
| "att_commit newIds (QApprove scope before params) db =
     audited (\<lambda>r d. buildExcuseReviewAuditEntry scope ''attendance.excuse.approve'' d r before
         (ax_affectedSessionIds params) (ax_affectedEntryIds params))
       (approveRequestAndApplyEntries params db)"
| "att_commit newIds (QReject scope existing before review) db =
     audited (\<lambda>r d. buildExcuseReviewAuditEntry scope ''attendance.excuse.reject'' d r before [] [])
       (rejectRequest (asc_schoolId scope) (xr_id existing) review db)"

text \<open>A use case that no other request interrupts.\<close>

definition att_execute ::
  "(string \<Rightarrow> int option) \<Rightarrow> RequestContext option \<Rightarrow> int \<Rightarrow> string list \<Rightarrow> att_request \<Rightarrow> AttendanceDb \<Rightarrow>
   unit result \<times> AttendanceDb" where
  "att_execute parse ctx now newIds req db =
     (case att_prepare parse ctx now req db of Inl e \<Rightarrow> (Inl e, db) | Inr p \<Rightarrow> att_commit newIds p db)"

section \<open>Interleaving\<close>

record AttendanceSystem =
  asys_db :: AttendanceDb
  asys_pending :: "att_pending list"

inductive att_step :: "(string \<Rightarrow> int option) \<Rightarrow> AttendanceSystem \<Rightarrow> AttendanceSystem \<Rightarrow> bool" for parse where
  att_begin: "att_prepare parse ctx now req (asys_db s) = Inr p \<Longrightarrow>
    att_step parse s (s\<lparr>asys_pending := asys_pending s @ [p]\<rparr>)"
| att_finish: "p \<in> set (asys_pending s) \<Longrightarrow> att_commit newIds p (asys_db s) = (r, db') \<Longrightarrow>
    att_step parse s (s\<lparr>asys_db := db', asys_pending := remove1 p (asys_pending s)\<rparr>)"

inductive_cases att_stepE: "att_step parse s s'"

section \<open>One entry per student\<close>

abbreviation entry_key :: "AttEntry \<Rightarrow> string \<times> string \<times> string" where
  "entry_key e \<equiv> (ent_schoolId e, ent_sessionId e, ent_studentId e)"

definition one_entry :: "AttendanceDb \<Rightarrow> bool" where
  "one_entry db \<longleftrightarrow> distinct (map entry_key (adb_entries db))"

lemma upsert_keeps_keys:
  assumes "distinct (map entry_key rows)"
  shows "distinct (map entry_key (upsert_entry params x rows))"
proof -
  obtain entry i where x: "x = (entry, i)" by (cases x)
  have upd: "entry_key (upsert_values params entry e) = entry_key e" for e by (simp add: upsert_values_def)
  show ?thesis
  proof (cases "\<exists>e \<in> set rows. same_key params entry e")
    case True
    then have "map entry_key (upsert_entry params x rows) = map entry_key rows"
      by (auto simp: upsert_entry_def x upsert_values_def)
    then show ?thesis using assms by simp
  next
    case False
    then show ?thesis using assms by (auto simp: upsert_entry_def x upsert_values_def same_key_def)
  qed
qed

lemma fold_upsert_keys: "distinct (map entry_key rows) \<Longrightarrow> distinct (map entry_key (fold (upsert_entry params) xs rows))"
  by (induction xs arbitrary: rows) (simp_all add: upsert_keeps_keys)

lemma audited_tables [simp]:
  "adb_entries (snd (audited f x)) = adb_entries (snd x)" "adb_requests (snd (audited f x)) = adb_requests (snd x)"
  "adb_sessions (snd (audited f x)) = adb_sessions (snd x)"
  by (cases x; cases "fst x"; simp add: audited_def createAuditLog_def)+

lemma correction_keys: "map entry_key (adb_entries (snd (correctSubmittedEntry school i s st c m n db))) = map entry_key (adb_entries db)"
  by (auto simp: correctSubmittedEntry_def updateMany_def Let_def corrected_entry_def)

lemma incident_keys: "map entry_key (adb_entries (snd (correctIncidentEntry school i c m n db))) = map entry_key (adb_entries db)"
  by (auto simp: correctIncidentEntry_def updateMany_def Let_def corrected_entry_def)

lemma approve_keys: "map entry_key (adb_entries (snd (approveRequestAndApplyEntries params db))) = map entry_key (adb_entries db)"
  by (auto simp: approveRequestAndApplyEntries_def updateMany_def Let_def update_requests_def)

lemma commit_one_entry:
  assumes "one_entry db"
  shows "one_entry (snd (att_commit newIds p db))"
proof (cases p)
  case (QSave params)
  then show ?thesis using assms fold_upsert_keys by (simp add: one_entry_def bulkUpsertEntries_def)
next
  case (QCorrect scope session entry correction now)
  then show ?thesis
    using assms correction_keys [of "asc_schoolId scope" "ent_id entry" "ses_id session" "ent_studentId entry"
        correction "asc_actorId scope" now db]
    by (simp add: one_entry_def case_prod_beta)
next
  case (QIncident origin scope incident correction now)
  then show ?thesis
    using assms incident_keys [of "asc_schoolId scope" "ent_id incident" correction "asc_actorId scope" now db]
    by (simp add: one_entry_def case_prod_beta)
next
  case (QApprove scope before params)
  then show ?thesis using assms by (simp add: one_entry_def approve_keys)
qed (use assms in \<open>auto simp: one_entry_def submitSession_def unsubmitSession_def update_session_def create_excuse_def
    update_excuse_def softDelete_excuse_def rejectRequest_def update_requests_def Let_def split: prod.splits\<close>)

lemma reachable_one_entry:
  assumes "(att_step parse)\<^sup>*\<^sup>* s s'" "one_entry (asys_db s)"
  shows "one_entry (asys_db s')"
  using assms
proof (induction rule: rtranclp_induct)
  case (step t u)
  then have "one_entry (asys_db t)" by simp
  with step(2) show ?case
  proof (cases rule: att_step.cases)
    case (att_finish p newIds r db')
    then show ?thesis using commit_one_entry [OF \<open>one_entry (asys_db t)\<close>, of newIds p] by simp
  qed simp
qed

end
