(* ===== verification/Attendance_Theorems.thy ===== *)
theory Attendance_Theorems
  imports Attendance_System
begin

text \<open>
  The guarantees of the attendance component, for requests in isolation and for requests that interleave.
\<close>

section \<open>An example\<close>

text \<open>A school with one student, a submitted session in which the student was absent with an excuse request
  pending for it, and a draft session.\<close>

definition school_session :: "string \<Rightarrow> int \<Rightarrow> AttendanceSessionStatus \<Rightarrow> AttSession" where
  "school_session i d st = \<lparr>ids_stageId = None, ids_gradeId = None, ids_sectionId = None, ids_classroomId = None,
     ns_scopeType = AScope_SCHOOL, ns_scopeKey = ''school'', ses_id = i, ses_schoolId = ''s'',
     ses_academicYearId = ''y'', ses_termId = ''t'', ses_date = d, ses_mode = Mode_DAILY, ses_periodKey = ''daily'',
     ses_policyId = None, ses_status = st, ses_submittedAt = None, ses_submittedById = None, ses_deletedAt = None\<rparr>"

definition roll_call_db :: AttendanceDb where
  "roll_call_db = \<lparr>adb_years = [\<lparr>year_id = ''y'', year_schoolId = ''s'', year_deletedAt = None\<rparr>],
     adb_terms = [\<lparr>xt_id = ''t'', xt_startDate = 0, xt_endDate = 1000000000, xt_isActive = True,
                   at_schoolId = ''s'', at_academicYearId = ''y'', at_deletedAt = None\<rparr>],
     adb_students = [\<lparr>student_id = ''x'', student_schoolId = ''s'', student_deletedAt = None\<rparr>],
     adb_roster = [\<lparr>ro_id = ''e'', ro_schoolId = ''s'', ro_studentId = ''x'', ro_academicYearId = ''y'', ro_termId = None,
                    ro_active = True, ro_deletedAt = None, ro_studentActive = True, ro_studentDeletedAt = None,
                    ro_classroomId = ''c'', ro_sectionId = ''n'', ro_gradeId = ''g'', ro_stageId = ''p'',
                    ro_classroomDeletedAt = None, ro_sectionDeletedAt = None, ro_gradeDeletedAt = None, ro_enrolledAt = 0\<rparr>],
     adb_policies = [],
     adb_sessions = [school_session ''a'' 86400000 Session_SUBMITTED, school_session ''b'' 172800000 Session_DRAFT],
     adb_entries = [\<lparr>ec_status = ABSENT, ec_lateMinutes = None, ec_earlyLeaveMinutes = None, ec_excuseReason = None,
                     ec_note = None, ent_id = ''1'', ent_schoolId = ''s'', ent_sessionId = ''a'', ent_studentId = ''x'',
                     ent_enrollmentId = Some ''e'', ent_markedById = None, ent_markedAt = None\<rparr>],
     adb_requests = [\<lparr>xr_id = ''r'', xr_schoolId = ''s'', xr_academicYearId = ''y'', xr_termId = ''t'', xr_studentId = ''x'',
                      xr_type = Excuse_ABSENCE, xr_status = Excuse_PENDING, xr_dateFrom = 86400000, xr_dateTo = 86400000,
                      xr_selectedPeriodKeys = [], xr_lateMinutes = None, xr_earlyLeaveMinutes = None, xr_reasonAr = None,
                      xr_reasonEn = Some ''ill'', xr_decisionNote = None, xr_decidedAt = None, xr_decidedById = None,
                      xr_createdById = None, xr_deletedAt = None\<rparr>],
     adb_attachments = [], adb_links = [], adb_audit = []\<rparr>"

definition roll_call_caller :: "RequestContext option" where
  "roll_call_caller = Some \<lparr>rc_requestId = ''q'', rc_actor = Some \<lparr>actor_id = ''u'', actor_userType = ''STAFF''\<rparr>,
     rc_activeMembership = Some \<lparr>am_membershipId = ''m'', am_schoolId = Some ''s'', am_organizationId = ''o'',
       am_roleId = ''k'', am_permissions = []\<rparr>,
     rc_bypass = \<lparr>bypassSchoolScope = False, includeSoftDeleted = False\<rparr>\<rparr>"

definition pending_of :: "att_request \<Rightarrow> att_pending" where
  "pending_of req = projr (att_prepare (\<lambda>_. None) roll_call_caller 7 req roll_call_db)"

abbreviation example_prepared :: "att_request \<Rightarrow> bool" where
  "example_prepared req \<equiv> att_prepare (\<lambda>_. None) roll_call_caller 7 req roll_call_db = Inr (pending_of req)"

definition absent_again :: "SaveRollCallEntryDto list" where
  "absent_again = [\<lparr>sd_studentId = ''x'', sd_enrollmentId = None, sd_status = ABSENT, sd_lateMinutes = None,
     sd_earlyLeaveMinutes = None, sd_excuseReason = None, sd_note = None\<rparr>]"

lemma is_Inr_projr: "\<not> isl x \<Longrightarrow> x = Inr (projr x)"
  by (cases x) simp_all

lemma example_approve: "example_prepared (ApproveExcuseReq ''r'' None)"
  unfolding pending_of_def by (rule is_Inr_projr) code_simp

lemma example_reject: "example_prepared (RejectExcuseReq ''r'' None)"
  unfolding pending_of_def by (rule is_Inr_projr) code_simp

lemma example_save: "example_prepared (SaveEntries ''b'' absent_again)"
  unfolding pending_of_def by (rule is_Inr_projr) code_simp

lemma example_submit: "example_prepared (SubmitSession ''b'')"
  unfolding pending_of_def by (rule is_Inr_projr) code_simp

lemma roll_call_ids: "distinct (map xr_id (adb_requests roll_call_db))" "distinct (map ses_id (adb_sessions roll_call_db))"
  "one_entry roll_call_db"
  by (simp_all add: roll_call_db_def school_session_def one_entry_def)

section \<open>Excuse requests in isolation\<close>

definition excuse_move :: "AttendanceExcuseStatus \<Rightarrow> AttendanceExcuseStatus \<Rightarrow> bool" where
  "excuse_move a b \<longleftrightarrow> a = Excuse_PENDING \<and> b \<noteq> Excuse_PENDING"

fun excuse_rank :: "AttendanceExcuseStatus \<Rightarrow> nat" where
  "excuse_rank Excuse_PENDING = 0"
| "excuse_rank _ = 1"

interpretation excuse_lc: lifecycle excuse_move excuse_rank 1
proof
  fix a b :: AttendanceExcuseStatus
  show "excuse_move a b \<Longrightarrow> excuse_rank a < excuse_rank b" by (cases b) (simp_all add: excuse_move_def)
  show "excuse_rank a \<le> 1" by (cases a) simp_all
qed

text \<open>The update a pending request makes to the table of excuse requests: school, id and the new row.\<close>

fun request_update :: "att_pending \<Rightarrow> (string \<times> string \<times> (ExcuseRequest \<Rightarrow> ExcuseRequest)) option" where
  "request_update (QUpdate scope r before data) = Some (asc_schoolId scope, xr_id r, set_excuse_values data)"
| "request_update (QDelete scope r before now) = Some (asc_schoolId scope, xr_id r, (\<lambda>r. r\<lparr>xr_deletedAt := Some now\<rparr>))"
| "request_update (QApprove scope before a) = Some (ax_schoolId a, ax_excuseRequestId a, set_review (ax_review a))"
| "request_update (QReject scope r before review) = Some (asc_schoolId scope, xr_id r, set_review review)"
| "request_update _ = None"

lemma commit_requests_update:
  "request_update p = Some (school, rid, f) \<Longrightarrow>
     adb_requests (snd (att_commit newIds p db)) =
       map (\<lambda>r. if xr_id r = rid \<and> xr_schoolId r = school then f r else r) (adb_requests db)"
  by (cases p)
    (auto simp: update_excuse_def softDelete_excuse_def rejectRequest_def update_requests_def updateMany_def
      approveRequestAndApplyEntries_def Let_def)

lemma commit_requests_keep:
  assumes "request_update p = None"
  shows "\<exists>new. adb_requests (snd (att_commit newIds p db)) = adb_requests db @ new \<and>
    (\<forall>r \<in> set new. xr_id r = hd newIds) \<and> length new \<le> 1"
  using assms
  by (cases p)
    (auto simp: bulkUpsertEntries_def submitSession_def unsubmitSession_def update_session_def Let_def create_excuse_def
      correctSubmittedEntry_def correctIncidentEntry_def updateMany_def split: prod.splits)

lemma require_pending_excuseD:
  assumes "require_pending_excuse ctx rid db = Inr (scope, r, t)"
  shows "requireAttendanceScope ctx = Inr scope \<and> r \<in> set (adb_requests db) \<and> xr_id r = rid \<and>
    xr_schoolId r = asc_schoolId scope \<and> xr_deletedAt r = None \<and> xr_status r = Excuse_PENDING"
  using assms
  by (auto simp: require_pending_excuse_def andThen_eq_Inr require_some_def findExcuseById_def
      assertPendingForReview_def assertPendingExcuseRequest_def split: option.splits if_splits dest!: findFirst_SomeD)

lemmas excuse_prepare_defs =
  UpdateAttendanceExcuseRequestUseCase_prepare_def DeleteAttendanceExcuseRequestUseCase_prepare_def
  RejectAttendanceExcuseRequestUseCase_prepare_def

text \<open>What the first half of an approval has established.\<close>

lemma approve_prepareD:
  assumes "ApproveAttendanceExcuseRequestUseCase_prepare ctx now rid note db = Inr (scope, r, a)"
  shows "(\<exists>t. require_pending_excuse ctx rid db = Inr (scope, r, t)) \<and> matching_entries (asc_schoolId scope) r db \<noteq> [] \<and>
    a = approval_params scope now (normalizeReviewDecisionNote note) r (matching_entries (asc_schoolId scope) r db)"
  using assms
  by (auto simp: ApproveAttendanceExcuseRequestUseCase_prepare_def andThen_eq_Inr Let_def
      assertMatchingSubmittedEntriesExist_def split: if_splits)

lemma prepare_request_update:
  assumes "att_prepare parse ctx now req db = Inr p" "request_update p = Some (school, rid, f)"
  shows "(\<exists>r \<in> set (adb_requests db). xr_id r = rid \<and> xr_schoolId r = school \<and> xr_status r = Excuse_PENDING) \<and>
    (\<forall>r. xr_id (f r) = xr_id r)"
proof (cases req)
  case (UpdateExcuse i command)
  with assms show ?thesis
    by (auto simp: excuse_prepare_defs andThen_eq_Inr set_excuse_values_def dest!: require_pending_excuseD)
next
  case (DeleteExcuse i)
  with assms show ?thesis by (auto simp: excuse_prepare_defs andThen_eq_Inr dest!: require_pending_excuseD)
next
  case (ApproveExcuseReq i n)
  with assms(1) obtain scope r a where a: "ApproveAttendanceExcuseRequestUseCase_prepare ctx now i n db = Inr (scope, r, a)"
    and p: "p = QApprove scope (summarizeExcuseRequest db r) a"
    by (auto simp: andThen_eq_Inr)
  from approve_prepareD [OF a] assms(2) show ?thesis
    by (auto simp: p approval_params_def set_review_def dest!: require_pending_excuseD)
next
  case (RejectExcuseReq i n)
  with assms show ?thesis
    by (auto simp: excuse_prepare_defs andThen_eq_Inr set_review_def dest!: require_pending_excuseD)
qed (use assms in \<open>auto simp: andThen_eq_Inr\<close>)

text \<open>One use case after the other; a new request gets an id that is not in use.\<close>

inductive att_isolated :: "(string \<Rightarrow> int option) \<Rightarrow> AttendanceDb \<Rightarrow> AttendanceDb \<Rightarrow> bool" for parse where
  isolated: "att_execute parse ctx now newIds req db = (r, db') \<Longrightarrow> hd newIds \<notin> xr_id ` set (adb_requests db) \<Longrightarrow>
    att_isolated parse db db'"

lemma isolated_requests:
  assumes "att_isolated parse db db'" "distinct (map xr_id (adb_requests db))"
  shows "distinct (map xr_id (adb_requests db')) \<and> (\<forall>r \<in> set (adb_requests db). \<exists>r' \<in> set (adb_requests db').
    xr_id r' = xr_id r \<and> (r' = r \<or> xr_status r = Excuse_PENDING))"
  using assms(1)
proof cases
  case (isolated ctx now newIds req r)
  show ?thesis
  proof (cases "att_prepare parse ctx now req db")
    case (Inl e)
    with isolated assms(2) show ?thesis by (auto simp: att_execute_def)
  next
    case (Inr p)
    with isolated have db': "db' = snd (att_commit newIds p db)" by (simp add: att_execute_def)
    show ?thesis
    proof (cases "request_update p")
      case None
      from commit_requests_keep [OF None, of newIds db] obtain new where
        new: "adb_requests db' = adb_requests db @ new" "\<forall>r \<in> set new. xr_id r = hd newIds" "length new \<le> 1"
        unfolding db' by blast
      then show ?thesis using assms(2) isolated(2) by (cases new) auto
    next
      case (Some u)
      then obtain school rid f where u: "request_update p = Some (school, rid, f)" by (cases u) auto
      from prepare_request_update [OF Inr u] obtain q where q: "q \<in> set (adb_requests db)" "xr_id q = rid"
        "xr_status q = Excuse_PENDING" and ids: "\<And>r. xr_id (f r) = xr_id r" by blast
      have rows: "adb_requests db' =
          map (\<lambda>r. if xr_id r = rid \<and> xr_schoolId r = school then f r else r) (adb_requests db)"
        unfolding db' by (rule commit_requests_update [OF u])
      have "map xr_id (adb_requests db') = map xr_id (adb_requests db)" by (simp add: rows ids)
      then have "distinct (map xr_id (adb_requests db'))" using assms(2) by simp
      moreover have same: "x = q" if "x \<in> set (adb_requests db)" "xr_id x = rid" for x
      proof -
        have "inj_on xr_id (set (adb_requests db))" using assms(2) by (simp add: distinct_map)
        from inj_onD [OF this _ that(1) q(1)] that(2) q(2) show ?thesis by simp
      qed
      have "\<exists>r' \<in> set (adb_requests db'). xr_id r' = xr_id x \<and> (r' = x \<or> xr_status x = Excuse_PENDING)"
        if x: "x \<in> set (adb_requests db)" for x
      proof -
        let ?x = "if xr_id x = rid \<and> xr_schoolId x = school then f x else x"
        have "?x \<in> set (adb_requests db')" unfolding rows set_map using x by (rule imageI)
        moreover have "?x = x \<or> xr_status x = Excuse_PENDING" using same [OF x] q(3) by (cases "xr_id x = rid") auto
        ultimately show ?thesis using ids [of x] by (intro bexI [of _ ?x]) simp_all
      qed
      ultimately show ?thesis by blast
    qed
  qed
qed

lemma isolated_run:
  assumes "(att_isolated parse)\<^sup>*\<^sup>* db db'" "distinct (map xr_id (adb_requests db))"
  shows "distinct (map xr_id (adb_requests db')) \<and> (\<forall>r \<in> set (adb_requests db). \<exists>r' \<in> set (adb_requests db').
    xr_id r' = xr_id r \<and> (r' = r \<or> xr_status r = Excuse_PENDING))"
  using assms
proof (induction rule: rtranclp_induct)
  case base
  then show ?case by blast
next
  case (step d e)
  then have d: "distinct (map xr_id (adb_requests d))" and old: "\<And>r. r \<in> set (adb_requests db) \<Longrightarrow>
    \<exists>r' \<in> set (adb_requests d). xr_id r' = xr_id r \<and> (r' = r \<or> xr_status r = Excuse_PENDING)" by blast+
  note new = isolated_requests [OF step(2) d]
  have "\<exists>r' \<in> set (adb_requests e). xr_id r' = xr_id r \<and> (r' = r \<or> xr_status r = Excuse_PENDING)"
    if "r \<in> set (adb_requests db)" for r
  proof -
    from old [OF that] obtain m where m: "m \<in> set (adb_requests d)" "xr_id m = xr_id r" "m = r \<or> xr_status r = Excuse_PENDING"
      by blast
    from new m(1) obtain r' where "r' \<in> set (adb_requests e)" "xr_id r' = xr_id m" "r' = m \<or> xr_status m = Excuse_PENDING"
      by blast
    with m show ?thesis by (intro bexI [of _ r']) auto
  qed
  with new show ?case by blast
qed

section \<open>What an approval writes\<close>

text \<open>The entries an excuse request covers: the student's entries with the status the excuse is for, in the
  submitted sessions of its year, term, dates and periods.\<close>

definition covered_session :: "ExcuseRequest \<Rightarrow> AttSession \<Rightarrow> bool" where
  "covered_session r s \<longleftrightarrow> ses_schoolId s = xr_schoolId r \<and> ses_deletedAt s = None \<and> ses_status s = Session_SUBMITTED \<and>
     ses_academicYearId s = xr_academicYearId r \<and> ses_termId s = xr_termId r \<and>
     ses_date s \<in> {xr_dateFrom r .. xr_dateTo r} \<and>
     (xr_selectedPeriodKeys r = [] \<or> ses_periodKey s \<in> set (xr_selectedPeriodKeys r))"

definition covered_entry :: "AttendanceDb \<Rightarrow> ExcuseRequest \<Rightarrow> AttEntry \<Rightarrow> bool" where
  "covered_entry db r e \<longleftrightarrow> ent_schoolId e = xr_schoolId r \<and> ent_studentId e = xr_studentId r \<and>
     ec_status e = attendanceStatusForExcuseType (xr_type r) \<and>
     (\<exists>s \<in> set (adb_sessions db). ses_id s = ent_sessionId e \<and> covered_session r s)"

lemma set_matching_sessions:
  "xr_schoolId r = school \<Longrightarrow>
     set (findMatchingSubmittedSessions school r db) = {s \<in> set (adb_sessions db). covered_session r s}"
  by (auto simp: findMatchingSubmittedSessions_def covered_session_def)

lemma set_matching_entries:
  assumes "xr_schoolId r = school"
  shows "set (matching_entries school r db) = {e \<in> set (adb_entries db). covered_entry db r e}"
proof -
  have "set (matching_entries school r db) = {e \<in> set (adb_entries db). ent_schoolId e = school \<and>
    ent_sessionId e \<in> ses_id ` set (findMatchingSubmittedSessions school r db) \<and> ent_studentId e = xr_studentId r \<and>
    ec_status e = attendanceStatusForExcuseType (xr_type r)}"
    by (auto simp: matching_entries_def findMatchingEntriesForExcuse_def)
  also have "\<dots> = {e \<in> set (adb_entries db). covered_entry db r e}"
    unfolding set_matching_sessions [OF assms] using assms by (auto simp: covered_entry_def image_iff)
  finally show ?thesis .
qed

lemma excused_entry_covered:
  assumes "xr_schoolId r = asc_schoolId scope" "e \<in> set (adb_entries db)"
  shows "excused_entry (approval_params scope now note r (matching_entries (asc_schoolId scope) r db)) e
    \<longleftrightarrow> covered_entry db r e"
proof -
  have "excused_entry (approval_params scope now note r (matching_entries (asc_schoolId scope) r db)) e \<longleftrightarrow>
    ent_schoolId e = xr_schoolId r \<and> ent_studentId e = xr_studentId r \<and>
    ec_status e = attendanceStatusForExcuseType (xr_type r) \<and>
    ent_id e \<in> ent_id ` {e \<in> set (adb_entries db). covered_entry db r e} \<and>
    ent_sessionId e \<in> ent_sessionId ` {e \<in> set (adb_entries db). covered_entry db r e}"
    using assms(1) set_matching_entries [OF assms(1), of db]
    by (auto simp: excused_entry_def approval_params_def uniqueAffectedSessionIds_def)
  also have "\<dots> \<longleftrightarrow> covered_entry db r e"
    using assms(2) by (auto simp: covered_entry_def)
  finally show ?thesis .
qed

lemma approve_entries:
  "adb_entries (snd (approveRequestAndApplyEntries a db)) = map (\<lambda>e. if excused_entry a e
     then e\<lparr>ec_status := EXCUSED, ec_excuseReason := ax_excuseReason a\<rparr> else e) (adb_entries db)"
  by (simp add: approveRequestAndApplyEntries_def updateMany_def update_requests_def Let_def)

lemma approve_executeD:
  assumes "att_prepare parse ctx now (ApproveExcuseReq rid note) db = Inr p"
  shows "\<exists>scope r t. require_pending_excuse ctx rid db = Inr (scope, r, t) \<and> matching_entries (asc_schoolId scope) r db \<noteq> [] \<and>
    p = QApprove scope (summarizeExcuseRequest db r)
      (approval_params scope now (normalizeReviewDecisionNote note) r (matching_entries (asc_schoolId scope) r db))"
  using assms by (auto simp: andThen_eq_Inr dest!: approve_prepareD)

text \<open>C26. An approval that succeeds excuses exactly the entries its request covers (the student's entries
  with the status the excuse is for, in undeleted submitted sessions of the request's school, year, term,
  dates and, when it names some, periods), gives them the request's reason, and touches no other entry and no
  session; there is at least one such entry, and the request is approved.\<close>

theorem excuse_approval_exact:
  assumes "att_execute parse ctx now newIds (ApproveExcuseReq rid note) db = (Inr (), db')"
  shows "\<exists>r \<in> set (adb_requests db). xr_id r = rid \<and> xr_status r = Excuse_PENDING \<and>
    (\<exists>e \<in> set (adb_entries db). covered_entry db r e) \<and>
    adb_entries db' = map (\<lambda>e. if covered_entry db r e
      then e\<lparr>ec_status := EXCUSED,
             ec_excuseReason := buildExcuseApprovalReason r (normalizeReviewDecisionNote note)\<rparr> else e) (adb_entries db) \<and>
    adb_sessions db' = adb_sessions db \<and>
    (\<exists>r' \<in> set (adb_requests db'). xr_id r' = rid \<and> xr_status r' = Excuse_APPROVED)"
proof -
  from assms(1) obtain p where prep: "att_prepare parse ctx now (ApproveExcuseReq rid note) db = Inr p"
    by (auto simp: att_execute_def split: sum.splits)
  from approve_executeD [OF prep] obtain scope r t where
    r: "require_pending_excuse ctx rid db = Inr (scope, r, t)" "matching_entries (asc_schoolId scope) r db \<noteq> []"
    and p: "p = QApprove scope (summarizeExcuseRequest db r)
      (approval_params scope now (normalizeReviewDecisionNote note) r (matching_entries (asc_schoolId scope) r db))"
    by blast
  define a where "a = approval_params scope now (normalizeReviewDecisionNote note) r (matching_entries (asc_schoolId scope) r db)"
  from require_pending_excuseD [OF r(1)] have row: "r \<in> set (adb_requests db)" "xr_id r = rid"
    "xr_schoolId r = asc_schoolId scope" "xr_status r = Excuse_PENDING" by auto
  have db': "db' = snd (att_commit newIds p db)" using assms(1) prep by (simp add: att_execute_def)
  have entries: "adb_entries db' = map (\<lambda>e. if excused_entry a e
      then e\<lparr>ec_status := EXCUSED, ec_excuseReason := ax_excuseReason a\<rparr> else e) (adb_entries db)"
    by (simp add: db' p a_def approve_entries)
  have "adb_sessions db' = adb_sessions db"
    by (simp add: db' p approveRequestAndApplyEntries_def update_requests_def Let_def)
  moreover have "\<exists>e \<in> set (adb_entries db). covered_entry db r e"
    using set_matching_entries [OF row(3), of db] r(2) by (cases "matching_entries (asc_schoolId scope) r db") auto
  moreover have "adb_entries db' = map (\<lambda>e. if covered_entry db r e
      then e\<lparr>ec_status := EXCUSED,
             ec_excuseReason := buildExcuseApprovalReason r (normalizeReviewDecisionNote note)\<rparr> else e) (adb_entries db)"
    unfolding entries
    using excused_entry_covered [OF row(3), of _ db now "normalizeReviewDecisionNote note"]
    by (intro map_cong refl) (simp add: a_def approval_params_def)
  moreover have "set_review (ax_review a) r \<in> set (adb_requests db')"
    unfolding db' p att_commit.simps audited_tables using row(1-3)
    by (force simp: approveRequestAndApplyEntries_def update_requests_def updateMany_def Let_def a_def approval_params_def)
  then have "\<exists>r' \<in> set (adb_requests db'). xr_id r' = rid \<and> xr_status r' = Excuse_APPROVED"
    using row(2) by (rule_tac bexI) (simp_all add: a_def approval_params_def set_review_def)
  ultimately show ?thesis using row by (rule_tac bexI [of _ r]) (intro conjI)
qed

definition approved_excuse_db :: AttendanceDb where
  "approved_excuse_db = snd (att_execute (\<lambda>_. None) roll_call_caller 7 [''z''] (ApproveExcuseReq ''r'' None) roll_call_db)"

lemma example_approved:
  "att_execute (\<lambda>_. None) roll_call_caller 7 [''z''] (ApproveExcuseReq ''r'' None) roll_call_db = (Inr (), approved_excuse_db)"
proof -
  have "fst (att_execute (\<lambda>_. None) roll_call_caller 7 [''z''] (ApproveExcuseReq ''r'' None) roll_call_db) = Inr ()" by code_simp
  then show ?thesis unfolding approved_excuse_db_def by (metis prod.collapse)
qed

theorem excuse_approval_exact_witness:
  "\<exists>r' \<in> set (adb_requests approved_excuse_db). xr_id r' = ''r'' \<and> xr_status r' = Excuse_APPROVED"
  using excuse_approval_exact [OF example_approved] by blast

text \<open>C27. When requests do not interleave, an excuse request keeps its row, moves at most once, from pending
  to approved or rejected, and once it is decided nothing changes any more: neither its decision nor its
  contents.\<close>

theorem excuse_decided_once:
  assumes "(att_isolated parse)\<^sup>*\<^sup>* db db'" "distinct (map xr_id (adb_requests db))" "r \<in> set (adb_requests db)"
  shows "\<exists>r' \<in> set (adb_requests db'). xr_id r' = xr_id r \<and> excuse_move\<^sup>*\<^sup>* (xr_status r) (xr_status r') \<and>
    (xr_status r \<noteq> Excuse_PENDING \<longrightarrow> r' = r)"
proof -
  from isolated_run [OF assms(1,2)] assms(3) obtain r' where
    r': "r' \<in> set (adb_requests db')" "xr_id r' = xr_id r" "r' = r \<or> xr_status r = Excuse_PENDING" by blast
  then have "excuse_move\<^sup>*\<^sup>* (xr_status r) (xr_status r')"
    by (cases "xr_status r' = Excuse_PENDING") (auto intro: r_into_rtranclp simp: excuse_move_def)
  with r' show ?thesis by blast
qed

theorem excuse_decided_once_witness:
  "\<exists>r' \<in> set (adb_requests approved_excuse_db). excuse_move\<^sup>*\<^sup>* Excuse_PENDING (xr_status r')"
proof -
  have "att_isolated (\<lambda>_. None) roll_call_db approved_excuse_db"
    using example_approved by (rule isolated) (simp add: roll_call_db_def)
  moreover obtain r where "r \<in> set (adb_requests roll_call_db)" "xr_status r = Excuse_PENDING"
    by (simp add: roll_call_db_def)
  ultimately show ?thesis
    using excuse_decided_once [OF r_into_rtranclp roll_call_ids(1)] by metis
qed

section \<open>Reviews that interleave\<close>

lemma reject_executeD:
  assumes "att_prepare parse ctx now (RejectExcuseReq rid note) db = Inr q"
  shows "\<exists>scope r t. require_pending_excuse ctx rid db = Inr (scope, r, t) \<and>
    q = QReject scope r (summarizeExcuseRequest db r) \<lparr>rx_status = Excuse_REJECTED, rx_decidedById = asc_actorId scope,
      rx_decidedAt = now, rx_decisionNote = normalizeReviewDecisionNote note\<rparr>"
  using assms by (auto simp: RejectAttendanceExcuseRequestUseCase_prepare_def andThen_eq_Inr)

text \<open>A review of a row that is in the table and not deleted succeeds, whatever the row's status is.\<close>

lemma findMutationResult_ex:
  assumes "r \<in> set (adb_requests db)" "xr_id r = rid" "xr_schoolId r = school" "xr_deletedAt r = None"
  shows "\<exists>r'. findMutationResult school rid False db = Inr r'"
  using assms findFirst_ex [of r "adb_requests db" "\<lambda>r. xr_id r = rid \<and> xr_schoolId r = school \<and> xr_deletedAt r = None"]
  by (auto simp: findMutationResult_def)

lemma commit_reject:
  assumes "r \<in> set (adb_requests db)" "xr_id r = xr_id q" "xr_schoolId r = asc_schoolId scope" "xr_deletedAt r = None"
  shows "fst (att_commit newIds (QReject scope q before review) db) = Inr ()"
    and "set_review review r \<in> set (adb_requests (snd (att_commit newIds (QReject scope q before review) db)))"
proof -
  define db1 where "db1 = update_requests (asc_schoolId scope) (xr_id q) (set_review review) db"
  have row: "set_review review r \<in> set (adb_requests db1)"
    using assms by (force simp: db1_def update_requests_def updateMany_def)
  then obtain r' where "findMutationResult (asc_schoolId scope) (xr_id q) False db1 = Inr r'"
    using findMutationResult_ex [OF row, of "xr_id q" "asc_schoolId scope"] assms by (auto simp: set_review_def)
  then show "fst (att_commit newIds (QReject scope q before review) db) = Inr ()"
    by (simp add: rejectRequest_def Let_def audited_def db1_def [symmetric])
  show "set_review review r \<in> set (adb_requests (snd (att_commit newIds (QReject scope q before review) db)))"
    using row by (simp add: rejectRequest_def Let_def db1_def)
qed

lemma commit_approve:
  assumes "r \<in> set (adb_requests db)" "xr_id r = ax_excuseRequestId a" "xr_schoolId r = ax_schoolId a" "xr_deletedAt r = None"
  shows "fst (att_commit newIds (QApprove scope before a) db) = Inr ()"
    and "set_review (ax_review a) r \<in> set (adb_requests (snd (att_commit newIds (QApprove scope before a) db)))"
proof -
  define db2 where "db2 = snd (approveRequestAndApplyEntries a db)"
  have row: "set_review (ax_review a) r \<in> set (adb_requests db2)"
    using assms by (force simp: db2_def approveRequestAndApplyEntries_def update_requests_def updateMany_def Let_def)
  then obtain r' where "findExcuseById (ax_schoolId a) (ax_excuseRequestId a) db2 = Some r'"
    unfolding findExcuseById_def using assms
      findFirst_ex [OF row, of "\<lambda>r. xr_id r = ax_excuseRequestId a \<and> xr_schoolId r = ax_schoolId a \<and> xr_deletedAt r = None"]
    by (auto simp: set_review_def)
  then have "fst (approveRequestAndApplyEntries a db) = Inr r'"
    by (simp add: db2_def approveRequestAndApplyEntries_def Let_def)
  then show "fst (att_commit newIds (QApprove scope before a) db) = Inr ()"
    by (cases "approveRequestAndApplyEntries a db") (simp add: audited_def)
  show "set_review (ax_review a) r \<in> set (adb_requests (snd (att_commit newIds (QApprove scope before a) db)))"
    using row by (simp add: db2_def)
qed

lemma excuse_status_not_excused: "attendanceStatusForExcuseType t \<noteq> EXCUSED"
  by (cases t) simp_all

text \<open>C29. A review is not guarded by the status when it writes: if an approval and a rejection of the same
  request by reviewers of one school have both passed their checks, both succeed. The request then ends
  rejected while the entries that the approval excused, at least one, stay excused.\<close>

theorem excuse_review_race:
  assumes approve: "att_prepare parse ctx now (ApproveExcuseReq rid note) db = Inr p"
    and reject: "att_prepare parse ctx' now' (RejectExcuseReq rid note') db = Inr q"
    and ids: "distinct (map xr_id (adb_requests db))"
    and run: "att_commit [] p db = (r1, db1)" "att_commit [] q db1 = (r2, db2)"
  shows "r1 = Inr () \<and> r2 = Inr () \<and>
    (\<exists>r \<in> set (adb_requests db2). xr_id r = rid \<and> xr_status r = Excuse_REJECTED) \<and>
    (\<exists>e \<in> set (adb_entries db). ec_status e \<noteq> EXCUSED \<and>
      (\<exists>e' \<in> set (adb_entries db2). ent_id e' = ent_id e \<and> entry_key e' = entry_key e \<and> ec_status e' = EXCUSED))"
proof -
  from approve_executeD [OF approve] obtain scope r t where
    r: "require_pending_excuse ctx rid db = Inr (scope, r, t)" "matching_entries (asc_schoolId scope) r db \<noteq> []"
    and p: "p = QApprove scope (summarizeExcuseRequest db r)
      (approval_params scope now (normalizeReviewDecisionNote note) r (matching_entries (asc_schoolId scope) r db))"
    by blast
  from reject_executeD [OF reject] obtain scope' r' t' where
    r': "require_pending_excuse ctx' rid db = Inr (scope', r', t')"
    and q: "q = QReject scope' r' (summarizeExcuseRequest db r') \<lparr>rx_status = Excuse_REJECTED,
      rx_decidedById = asc_actorId scope', rx_decidedAt = now', rx_decisionNote = normalizeReviewDecisionNote note'\<rparr>"
    by blast
  define a where "a = approval_params scope now (normalizeReviewDecisionNote note) r (matching_entries (asc_schoolId scope) r db)"
  have a: "ax_excuseRequestId a = xr_id r" "ax_schoolId a = asc_schoolId scope" by (simp_all add: a_def approval_params_def)
  from require_pending_excuseD [OF r(1)] have row: "r \<in> set (adb_requests db)" "xr_id r = rid"
    "xr_schoolId r = asc_schoolId scope" "xr_deletedAt r = None" by auto
  from require_pending_excuseD [OF r'] have row': "r' \<in> set (adb_requests db)" "xr_id r' = rid"
    "xr_schoolId r' = asc_schoolId scope'" by auto
  have "inj_on xr_id (set (adb_requests db))" using ids by (simp add: distinct_map)
  from inj_onD [OF this _ row'(1) row(1)] have same: "r' = r" using row(2) row'(2) by simp
  note runs = run(1) [unfolded p, folded a_def] run(2) [unfolded q]
  note c1 = commit_approve [OF row(1), of a "[]" scope "summarizeExcuseRequest db r"]
  have 1: "r1 = Inr ()" "set_review (ax_review a) r \<in> set (adb_requests db1)"
    using c1 row a by (simp_all add: runs del: att_commit.simps)
  define v where "v = \<lparr>rx_status = Excuse_REJECTED, rx_decidedById = asc_actorId scope', rx_decidedAt = now',
    rx_decisionNote = normalizeReviewDecisionNote note'\<rparr>"
  have run2: "att_commit [] (QReject scope' r' (summarizeExcuseRequest db r') v) db1 = (r2, db2)"
    using runs(2) by (simp only: v_def)
  have still: "xr_id (set_review (ax_review a) r) = xr_id r'" "xr_schoolId (set_review (ax_review a) r) = asc_schoolId scope'"
    "xr_deletedAt (set_review (ax_review a) r) = None" using row row' same by (simp_all add: set_review_def)
  note c2 = commit_reject [OF 1(2) still, where newIds = "[]" and before = "summarizeExcuseRequest db r'" and review = v,
      unfolded run2 fst_conv snd_conv]
  have 2: "\<exists>x \<in> set (adb_requests db2). xr_id x = rid \<and> xr_status x = Excuse_REJECTED"
    using row(2) by (intro bexI [OF _ c2(2)]) (simp add: v_def set_review_def)
  have "\<exists>e \<in> set (adb_entries db). covered_entry db r e"
    using set_matching_entries [OF row(3), of db] r(2) by (cases "matching_entries (asc_schoolId scope) r db") auto
  then obtain e where e: "e \<in> set (adb_entries db)" "covered_entry db r e" by blast
  have "excused_entry a e" unfolding a_def using excused_entry_covered [OF row(3) e(1)] e(2) by simp
  moreover have "adb_entries db1 = adb_entries (snd (approveRequestAndApplyEntries a db))"
    using arg_cong [OF runs(1), of "\<lambda>x. adb_entries (snd x)"] by simp
  moreover have "adb_entries db2 = adb_entries db1"
    using arg_cong [OF runs(2), of "\<lambda>x. adb_entries (snd x)"]
    by (simp add: rejectRequest_def update_requests_def Let_def)
  ultimately have "e\<lparr>ec_status := EXCUSED, ec_excuseReason := ax_excuseReason a\<rparr> \<in> set (adb_entries db2)"
    using e(1) by (force simp: approve_entries)
  then have "\<exists>e' \<in> set (adb_entries db2). ent_id e' = ent_id e \<and> entry_key e' = entry_key e \<and> ec_status e' = EXCUSED"
    by (rule bexI [rotated]) simp
  moreover have "ec_status e \<noteq> EXCUSED" using e(2) excuse_status_not_excused by (auto simp: covered_entry_def)
  ultimately show ?thesis using 1(1) c2(1) 2 e(1) by blast
qed

theorem excuse_review_race_witness:
  "\<exists>db1 db2. att_commit [] (pending_of (ApproveExcuseReq ''r'' None)) roll_call_db = (Inr (), db1) \<and>
     att_commit [] (pending_of (RejectExcuseReq ''r'' None)) db1 = (Inr (), db2) \<and>
     (\<exists>r \<in> set (adb_requests db2). xr_status r = Excuse_REJECTED) \<and>
     (\<exists>e \<in> set (adb_entries db2). ec_status e = EXCUSED)"
proof -
  obtain r1 db1 r2 db2 where run: "att_commit [] (pending_of (ApproveExcuseReq ''r'' None)) roll_call_db = (r1, db1)"
    "att_commit [] (pending_of (RejectExcuseReq ''r'' None)) db1 = (r2, db2)" by (metis prod.exhaust)
  from excuse_review_race [OF example_approve example_reject roll_call_ids(1) run] run show ?thesis by blast
qed

section \<open>Saving entries\<close>

lemma upsert_values_key [simp]: "entry_key (upsert_values params u e) = entry_key e"
  by (simp add: upsert_values_def)

lemma upsert_values_idem [simp]: "upsert_values params u (upsert_values params u e) = upsert_values params u e"
  by (simp add: upsert_values_def)

definition holds_values :: "BulkUpsert \<Rightarrow> RollCallEntryUpsertInput \<Rightarrow> AttEntry \<Rightarrow> bool" where
  "holds_values params u e \<longleftrightarrow> same_key params u e \<and> upsert_values params u e = e"

lemma holds_valuesD:
  assumes "holds_values params u e"
  shows "ent_sessionId e = bu_sessionId params" "ent_studentId e = de_studentId u"
    "ent_markedAt e = Some (bu_markedAt params)" "ec_status e = de_status u"
proof -
  have same: "upsert_values params u e = e" "same_key params u e" using assms by (simp_all add: holds_values_def)
  then show "ent_sessionId e = bu_sessionId params" "ent_studentId e = de_studentId u" by (simp_all add: same_key_def)
  have "ent_markedAt (upsert_values params u e) = Some (bu_markedAt params)" "ec_status (upsert_values params u e) = de_status u"
    by (simp_all add: upsert_values_def)
  then show "ent_markedAt e = Some (bu_markedAt params)" "ec_status e = de_status u" unfolding same(1) .
qed

lemma upsert_entry_holds: "\<exists>e \<in> set (upsert_entry params (u, i) rows). holds_values params u e"
proof (cases "\<exists>e \<in> set rows. same_key params u e")
  case True
  then obtain e where e: "e \<in> set rows" "same_key params u e" by blast
  then have "upsert_values params u e \<in> set (upsert_entry params (u, i) rows)" using True by (force simp: upsert_entry_def)
  moreover have "holds_values params u (upsert_values params u e)"
    using e(2) by (simp add: holds_values_def) (simp add: same_key_def upsert_values_def)
  ultimately show ?thesis by blast
next
  case False
  then show ?thesis by (simp add: upsert_entry_def holds_values_def) (simp add: same_key_def upsert_values_def)
qed

lemma upsert_entry_keeps:
  assumes "e \<in> set rows" "holds_values params u e" "de_studentId (fst x) \<noteq> de_studentId u"
  shows "e \<in> set (upsert_entry params x rows)"
  using assms by (cases x) (force simp: upsert_entry_def holds_values_def same_key_def)

lemma fold_upsert_keeps:
  assumes "e \<in> set rows" "holds_values params u e" "de_studentId u \<notin> de_studentId ` fst ` set xs"
  shows "e \<in> set (fold (upsert_entry params) xs rows)"
  using assms
proof (induction xs arbitrary: rows)
  case (Cons x xs)
  from Cons.prems(3) have "de_studentId (fst x) \<noteq> de_studentId u" by auto
  with Cons.prems have "e \<in> set (upsert_entry params x rows)" by (intro upsert_entry_keeps) auto
  then show ?case using Cons by simp
qed simp

lemma fold_upsert_holds:
  assumes "(u, i) \<in> set xs" "distinct (map (\<lambda>x. de_studentId (fst x)) xs)"
  shows "\<exists>e \<in> set (fold (upsert_entry params) xs rows). holds_values params u e"
  using assms
proof (induction xs arbitrary: rows)
  case (Cons x xs)
  show ?case
  proof (cases "x = (u, i)")
    case True
    from upsert_entry_holds [of params u i rows] obtain e where
      e: "e \<in> set (upsert_entry params x rows)" "holds_values params u e" unfolding True by blast
    moreover have "de_studentId u \<notin> de_studentId ` fst ` set xs" using Cons.prems(2) True by (auto simp: image_image)
    ultimately show ?thesis using fold_upsert_keeps by fastforce
  qed (use Cons in simp)
qed simp

text \<open>What reaches the database is one row per student sent, with the status sent unless the student was
  marked present (a threshold may turn a presence into late or early leave).\<close>

definition saved_as :: "SaveRollCallEntryDto \<Rightarrow> RollCallEntryUpsertInput \<Rightarrow> bool" where
  "saved_as d u \<longleftrightarrow> de_studentId u = sd_studentId d \<and> (sd_status d = PRESENT \<or> de_status u = sd_status d) \<and>
     up_excuseReason u = normalizeOptionalString (sd_excuseReason d) \<and> up_note u = normalizeOptionalString (sd_note d)"

lemma roster_normalized:
  assumes "normalize_roster_entries roster seen entries = Inr us"
  shows "distinct (map sd_studentId entries) \<and> sd_studentId ` set entries \<inter> set seen = {} \<and>
    list_all2 (\<lambda>d u. saved_as d u \<and> de_status u = sd_status d) entries us"
  using assms
proof (induction roster seen entries arbitrary: us rule: normalize_roster_entries.induct)
  case (2 roster seen entry entries)
  from 2(2) have fresh: "sd_studentId entry \<notin> set seen" by (auto split: if_splits)
  with 2(2) obtain enrollment where found: "jm_get roster (sd_studentId entry) = Some enrollment"
    by (auto split: option.splits)
  with 2(2) fresh have ok: "\<not> (truthy (sd_enrollmentId entry) \<and> sd_enrollmentId entry \<noteq> Some (ro_id enrollment))"
    by (auto split: if_splits)
  from 2(2) obtain rest where rest: "normalize_roster_entries roster (seen @ [sd_studentId entry]) entries = Inr rest"
    and us: "\<exists>u. us = u # rest \<and> saved_as entry u \<and> de_status u = sd_status entry"
    unfolding normalize_roster_entries.simps if_not_P [OF fresh] found option.case if_not_P [OF ok] andThen_eq_Inr
    by (auto simp: saved_as_def)
  from 2(1) [OF fresh found ok rest] fresh us show ?case by auto
qed simp

lemma thresholds_keep:
  assumes "normalizeDraftEntriesByPolicyThresholds us policy = Inr vs"
    and "list_all2 (\<lambda>d u. saved_as d u \<and> de_status u = sd_status d) entries us"
  shows "list_all2 saved_as entries vs"
proof -
  have one: "saved_as d v" if "normalizeDraftEntryByPolicyThresholds p u = Inr v" "saved_as d u" "de_status u = sd_status d"
    for p d u v
    using that by (auto simp: normalizeDraftEntryByPolicyThresholds_def saved_as_def Let_def split: if_splits)
  have map: "list_all2 saved_as entries vs" if "mapR (normalizeDraftEntryByPolicyThresholds p) us = Inr vs" for p
    using that assms(2)
  proof (induction us arbitrary: entries vs)
    case (Cons u us)
    then show ?case by (cases entries) (auto simp: andThen_eq_Inr one)
  qed simp
  show ?thesis using assms map
    by (auto simp: normalizeDraftEntriesByPolicyThresholds_def split: option.splits if_splits elim: list_all2_mono)
qed

lemma save_prepareD:
  assumes "SaveRollCallEntriesUseCase_prepare ctx now sid entries db = Inr b"
  shows "\<exists>scope session. requireAttendanceScope ctx = Inr scope \<and>
    findSessionById (asc_schoolId scope) sid db = Some session \<and> ses_status session = Session_DRAFT \<and>
    bu_schoolId b = ses_schoolId session \<and> bu_sessionId b = ses_id session \<and> bu_markedById b = asc_actorId scope \<and>
    bu_markedAt b = now \<and> list_all2 saved_as entries (bu_entries b) \<and> distinct (map sd_studentId entries)"
  using assms
  by (auto simp: SaveRollCallEntriesUseCase_prepare_def andThen_eq_Inr require_some_def Let_def
      normalizeEntriesForRoster_def assertDraftAttendanceSession_def split: option.splits if_splits
      dest!: roster_normalized intro!: thresholds_keep)

lemma submit_prepareD:
  assumes "SubmitRollCallSessionUseCase_prepare ctx sid db = Inr (scope, session)"
  shows "requireAttendanceScope ctx = Inr scope \<and> findSessionById (asc_schoolId scope) sid db = Some session"
  using assms by (auto simp: SubmitRollCallSessionUseCase_prepare_def andThen_eq_Inr require_some_def split: option.splits if_splits)

lemma findSessionByIdD:
  "findSessionById school sid db = Some s \<Longrightarrow> s \<in> set (adb_sessions db) \<and> ses_id s = sid \<and> ses_schoolId s = school"
  by (auto simp: findSessionById_def dest!: findFirst_SomeD)

lemma commit_submit:
  assumes "s \<in> set (adb_sessions db)"
  shows "fst (att_commit newIds (QSubmit scope s now) db) = Inr ()"
    and "\<exists>s' \<in> set (adb_sessions (snd (att_commit newIds (QSubmit scope s now) db))).
      ses_id s' = ses_id s \<and> ses_status s' = Session_SUBMITTED \<and> ses_submittedAt s' = Some now"
proof -
  let ?p = "\<lambda>x. ses_id x = ses_id s \<and> ses_schoolId x = ses_schoolId s"
  let ?f = "\<lambda>s. s\<lparr>ses_status := Session_SUBMITTED, ses_submittedAt := Some now, ses_submittedById := Some (asc_actorId scope)\<rparr>"
  obtain n rows where u: "updateMany ?p ?f (adb_sessions db) = (Suc n, rows)" "?f s \<in> set rows"
    using updateMany_pos [OF assms, of ?p ?f] by auto
  then show "fst (att_commit newIds (QSubmit scope s now) db) = Inr ()"
    by (simp add: submitSession_def update_session_def audited_def)
  show "\<exists>s' \<in> set (adb_sessions (snd (att_commit newIds (QSubmit scope s now) db))).
      ses_id s' = ses_id s \<and> ses_status s' = Session_SUBMITTED \<and> ses_submittedAt s' = Some now"
    using u by (auto simp: submitSession_def update_session_def intro!: bexI [of _ "?f s"])
qed

text \<open>Saving roll-call entries checks that the session is a draft when it reads it and not when it writes:
  if a save and a submission of the same session have both passed their checks, the save still succeeds after
  the submission, and the entries of the submitted session carry what was saved.\<close>

theorem saved_after_submission:
  assumes save: "att_prepare parse ctx now (SaveEntries sid entries) db = Inr p"
    and submit: "att_prepare parse ctx' now' (SubmitSession sid) db = Inr q"
    and ids: "distinct (map ses_id (adb_sessions db))"
    and run: "att_commit [] q db = (r1, db1)" "att_commit newIds p db1 = (r2, db2)"
    and d: "d \<in> set entries" "length entries \<le> length newIds"
  shows "r1 = Inr () \<and> r2 = Inr () \<and>
    (\<exists>s \<in> set (adb_sessions db2). ses_id s = sid \<and> ses_status s = Session_SUBMITTED \<and> ses_submittedAt s = Some now') \<and>
    (\<exists>e \<in> set (adb_entries db2). ent_sessionId e = sid \<and> ent_studentId e = sd_studentId d \<and>
      ent_markedAt e = Some now \<and> (sd_status d = PRESENT \<or> ec_status e = sd_status d))"
proof -
  from save obtain b where b: "SaveRollCallEntriesUseCase_prepare ctx now sid entries db = Inr b" and p: "p = QSave b"
    by (auto simp: andThen_eq_Inr)
  from submit obtain scope s where s: "SubmitRollCallSessionUseCase_prepare ctx' sid db = Inr (scope, s)"
    and q: "q = QSubmit scope s now'" by (auto simp: andThen_eq_Inr)
  from save_prepareD [OF b] have session: "bu_sessionId b = sid" and saved: "bu_markedAt b = now"
    "list_all2 saved_as entries (bu_entries b)" "distinct (map sd_studentId entries)" by (auto dest: findSessionByIdD)
  from submit_prepareD [OF s] have sdb: "s \<in> set (adb_sessions db)" "ses_id s = sid" using findSessionByIdD by blast+
  note c = commit_submit [OF sdb(1), of "[]" scope now', folded q, unfolded run fst_conv snd_conv sdb(2)]
  have db2: "r2 = Inr ()" "db2 = bulkUpsertEntries b newIds db1" using run(2) by (simp_all add: p)
  from d(1) obtain i where i: "i < length entries" "entries ! i = d" by (metis in_set_conv_nth)
  have len: "length (bu_entries b) = length entries" using saved(2) by (simp add: list_all2_lengthD)
  let ?u = "bu_entries b ! i"
  have u: "saved_as d ?u" using list_all2_nthD [OF saved(2) i(1)] i(2) by simp
  have students: "map de_studentId (bu_entries b) = map sd_studentId entries"
    using saved(2) by (induction rule: list_all2_induct) (simp_all add: saved_as_def)
  have "(?u, newIds ! i) \<in> set (zip (bu_entries b) newIds)" using i(1) len d(2) by (auto simp: set_zip)
  moreover have "map (\<lambda>x. de_studentId (fst x)) (zip (bu_entries b) newIds) = map sd_studentId entries"
    using students len d(2) map_fst_zip_take [of "bu_entries b" newIds] by (simp flip: map_map [unfolded o_def])
  ultimately obtain e where e: "e \<in> set (adb_entries db2)" "holds_values b ?u e"
    using fold_upsert_holds [of ?u "newIds ! i"] saved(3) unfolding db2(2) bulkUpsertEntries_def by force
  have e_eq: "ent_sessionId e = sid" "ent_studentId e = sd_studentId d" "ent_markedAt e = Some now" "ec_status e = de_status ?u"
    using holds_valuesD [OF e(2)] session u saved(1) by (simp_all add: saved_as_def)
  have "adb_sessions db2 = adb_sessions db1" by (simp add: db2(2) bulkUpsertEntries_def)
  with c db2(1) e(1) e_eq u show ?thesis unfolding saved_as_def by metis
qed

theorem saved_after_submission_witness:
  "\<exists>db1 db2. att_commit [] (pending_of (SubmitSession ''b'')) roll_call_db = (Inr (), db1) \<and>
     att_commit [''2''] (pending_of (SaveEntries ''b'' absent_again)) db1 = (Inr (), db2) \<and>
     (\<exists>s \<in> set (adb_sessions db2). ses_id s = ''b'' \<and> ses_status s = Session_SUBMITTED) \<and>
     (\<exists>e \<in> set (adb_entries db2). ent_sessionId e = ''b'' \<and> ent_studentId e = ''x'' \<and> ec_status e = ABSENT)"
proof -
  obtain r1 db1 r2 db2 where run: "att_commit [] (pending_of (SubmitSession ''b'')) roll_call_db = (r1, db1)"
    "att_commit [''2''] (pending_of (SaveEntries ''b'' absent_again)) db1 = (r2, db2)" by (metis prod.exhaust)
  from saved_after_submission [OF example_save example_submit roll_call_ids(2) run, of "hd absent_again"] run show ?thesis
    by (auto simp: absent_again_def)
qed

section \<open>One entry per student\<close>

text \<open>C28. However requests interleave, a session never has two entries for the same student.\<close>

theorem one_entry_per_student:
  assumes "(att_step parse)\<^sup>*\<^sup>* s s'" "distinct (map entry_key (adb_entries (asys_db s)))"
    and "e \<in> set (adb_entries (asys_db s'))" "e' \<in> set (adb_entries (asys_db s'))" "entry_key e = entry_key e'"
  shows "e = e'"
proof -
  have "one_entry (asys_db s')" using reachable_one_entry [OF assms(1)] assms(2) by (simp add: one_entry_def)
  then have "inj_on entry_key (set (adb_entries (asys_db s')))" by (simp add: one_entry_def distinct_map)
  from inj_onD [OF this assms(5,3,4)] show ?thesis .
qed

definition saved_twice_db :: AttendanceDb where
  "saved_twice_db = (let p = pending_of (SaveEntries ''b'' absent_again)
     in snd (att_commit [''3''] p (snd (att_commit [''2''] p roll_call_db))))"

lemma saved_twice_reachable:
  "(att_step (\<lambda>_. None))\<^sup>*\<^sup>* \<lparr>asys_db = roll_call_db, asys_pending = []\<rparr> \<lparr>asys_db = saved_twice_db, asys_pending = []\<rparr>"
proof -
  let ?p = "pending_of (SaveEntries ''b'' absent_again)"
  let ?s = "\<lambda>db ps. \<lparr>asys_db = db, asys_pending = ps\<rparr>"
  let ?d = "snd (att_commit [''2''] ?p roll_call_db)"
  have start: "att_step (\<lambda>_. None) (?s roll_call_db ps) (?s roll_call_db (ps @ [?p]))" for ps
    using att_begin [of "\<lambda>_. None" roll_call_caller 7 "SaveEntries ''b'' absent_again" "?s roll_call_db ps" ?p,
      unfolded AttendanceSystem.select_convs, OF example_save] by simp
  have "(att_step (\<lambda>_. None))\<^sup>*\<^sup>* (?s roll_call_db []) (?s roll_call_db [?p])" using start [of "[]"] by auto
  also have "att_step (\<lambda>_. None) (?s roll_call_db [?p]) (?s roll_call_db [?p, ?p])" using start [of "[?p]"] by simp
  also (rtranclp.rtrancl_into_rtrancl) have "att_step (\<lambda>_. None) (?s roll_call_db [?p, ?p]) (?s ?d [?p])"
    using att_finish [of ?p "?s roll_call_db [?p, ?p]" "[''2'']" _ ?d "\<lambda>_. None"] by (simp add: prod_eq_iff)
  also (rtranclp.rtrancl_into_rtrancl) have "att_step (\<lambda>_. None) (?s ?d [?p]) (?s saved_twice_db [])"
    using att_finish [of ?p "?s ?d [?p]" "[''3'']" _ saved_twice_db "\<lambda>_. None"]
    by (simp add: prod_eq_iff saved_twice_db_def Let_def)
  finally (rtranclp.rtrancl_into_rtrancl) show ?thesis .
qed

theorem one_entry_per_student_witness:
  "\<exists>e. {e' \<in> set (adb_entries saved_twice_db). entry_key e' = (''s'', ''b'', ''x'')} = {e}"
proof -
  have "\<exists>e \<in> set (adb_entries saved_twice_db). entry_key e = (''s'', ''b'', ''x'')" by code_simp
  then obtain e where e: "e \<in> set (adb_entries saved_twice_db)" "entry_key e = (''s'', ''b'', ''x'')" by blast
  have "e' = e" if "e' \<in> set (adb_entries saved_twice_db)" "entry_key e' = (''s'', ''b'', ''x'')" for e'
    using one_entry_per_student [OF saved_twice_reachable] roll_call_ids(3) that e by (simp add: one_entry_def)
  with e show ?thesis by blast
qed

end
