(* ===== verification/Behavior_Domain.thy ===== *)
theory Behavior_Domain
  imports Enum_Values
begin

text \<open>
  Domain rules of behavior records and their review
  (\<open>src/src/modules/behavior/domain/behavior-records-domain.ts\<close> and \<open>behavior-review-domain.ts\<close>): enum
  normalisation, the guards of the record's state machine, category defaults, and the points and reasons of
  the ledger. Numbers that reach an \<open>isInteger\<close> check are rationals.
\<close>

section \<open>Enums\<close>

datatype BehaviorRecordType = Behavior_POSITIVE | Behavior_NEGATIVE

fun BehaviorRecordType_name :: "BehaviorRecordType \<Rightarrow> string" where
  "BehaviorRecordType_name Behavior_POSITIVE = ''POSITIVE''"
| "BehaviorRecordType_name Behavior_NEGATIVE = ''NEGATIVE''"

datatype BehaviorSeverity = Severity_LOW | Severity_MEDIUM | Severity_HIGH | Severity_CRITICAL

fun BehaviorSeverity_name :: "BehaviorSeverity \<Rightarrow> string" where
  "BehaviorSeverity_name Severity_LOW = ''LOW''"
| "BehaviorSeverity_name Severity_MEDIUM = ''MEDIUM''"
| "BehaviorSeverity_name Severity_HIGH = ''HIGH''"
| "BehaviorSeverity_name Severity_CRITICAL = ''CRITICAL''"

datatype BehaviorRecordStatus =
  Record_DRAFT | Record_SUBMITTED | Record_APPROVED | Record_REJECTED | Record_CANCELLED

fun BehaviorRecordStatus_name :: "BehaviorRecordStatus \<Rightarrow> string" where
  "BehaviorRecordStatus_name Record_DRAFT = ''DRAFT''"
| "BehaviorRecordStatus_name Record_SUBMITTED = ''SUBMITTED''"
| "BehaviorRecordStatus_name Record_APPROVED = ''APPROVED''"
| "BehaviorRecordStatus_name Record_REJECTED = ''REJECTED''"
| "BehaviorRecordStatus_name Record_CANCELLED = ''CANCELLED''"

datatype BehaviorPointLedgerEntryType = Ledger_AWARD | Ledger_PENALTY | Ledger_REVERSAL

fun BehaviorPointLedgerEntryType_name :: "BehaviorPointLedgerEntryType \<Rightarrow> string" where
  "BehaviorPointLedgerEntryType_name Ledger_AWARD = ''AWARD''"
| "BehaviorPointLedgerEntryType_name Ledger_PENALTY = ''PENALTY''"
| "BehaviorPointLedgerEntryType_name Ledger_REVERSAL = ''REVERSAL''"

section \<open>Exceptions\<close>

definition BehaviorCategoryInactiveException :: "(string \<times> detail) list \<Rightarrow> js_exception" where
  "BehaviorCategoryInactiveException details =
     DomainException ''behavior.category.inactive'' ''Behavior category is inactive'' 409 details"

definition BehaviorRecordInvalidStatusTransitionException :: "(string \<times> detail) list \<Rightarrow> js_exception" where
  "BehaviorRecordInvalidStatusTransitionException details =
     DomainException ''behavior.record.invalid_status_transition''
       ''Behavior record status transition is invalid'' 409 details"

definition BehaviorRecordAlreadySubmittedException :: "(string \<times> detail) list \<Rightarrow> js_exception" where
  "BehaviorRecordAlreadySubmittedException details =
     DomainException ''behavior.record.already_submitted'' ''Behavior record is already submitted'' 409 details"

definition BehaviorRecordAlreadyReviewedException :: "(string \<times> detail) list \<Rightarrow> js_exception" where
  "BehaviorRecordAlreadyReviewedException details =
     DomainException ''behavior.record.already_reviewed'' ''Behavior record is already reviewed'' 409 details"

definition BehaviorRecordCancelledException :: "(string \<times> detail) list \<Rightarrow> js_exception" where
  "BehaviorRecordCancelledException details =
     DomainException ''behavior.record.cancelled'' ''Behavior record is cancelled'' 409 details"

definition BehaviorRecordPointsInvalidException :: "(string \<times> detail) list \<Rightarrow> js_exception" where
  "BehaviorRecordPointsInvalidException details =
     DomainException ''behavior.record.points_invalid'' ''Behavior record points are invalid'' 422 details"

definition BehaviorRecordTypeMismatchException :: "(string \<times> detail) list \<Rightarrow> js_exception" where
  "BehaviorRecordTypeMismatchException details =
     DomainException ''behavior.record.type_mismatch'' ''Behavior record type does not match its category'' 422 details"

definition BehaviorRecordOutsideTermException :: "(string \<times> detail) list \<Rightarrow> js_exception" where
  "BehaviorRecordOutsideTermException details =
     DomainException ''behavior.record.outside_term'' ''Behavior record date is outside the selected term'' 422 details"

definition BehaviorScopeInvalidException :: "(string \<times> detail) list \<Rightarrow> js_exception" where
  "BehaviorScopeInvalidException details =
     DomainException ''behavior.scope.invalid'' ''Behavior scope is invalid'' 422 details"

definition BehaviorRecordNotSubmittedException :: "(string \<times> detail) list \<Rightarrow> js_exception" where
  "BehaviorRecordNotSubmittedException details =
     DomainException ''behavior.record.not_submitted'' ''Behavior record must be submitted first'' 409 details"

definition BehaviorPointsDuplicateSourceException :: "(string \<times> detail) list \<Rightarrow> js_exception" where
  "BehaviorPointsDuplicateSourceException details =
     DomainException ''behavior.points.duplicate_source''
       ''Behavior points have already been recorded for source'' 409 details"

section \<open>Normalisation\<close>

definition BEHAVIOR_TYPE_ALIASES :: "(string \<times> string) list" where
  "BEHAVIOR_TYPE_ALIASES = [(''positive'', ''POSITIVE''), (''negative'', ''NEGATIVE'')]"

definition BEHAVIOR_SEVERITY_ALIASES :: "(string \<times> string) list" where
  "BEHAVIOR_SEVERITY_ALIASES =
     [(''low'', ''LOW''), (''medium'', ''MEDIUM''), (''high'', ''HIGH''), (''critical'', ''CRITICAL'')]"

definition BEHAVIOR_STATUS_ALIASES :: "(string \<times> string) list" where
  "BEHAVIOR_STATUS_ALIASES =
     [(''draft'', ''DRAFT''), (''submitted'', ''SUBMITTED''), (''approved'', ''APPROVED''),
      (''rejected'', ''REJECTED''), (''cancelled'', ''CANCELLED'')]"

text \<open>This module's copy of \<open>normalizeEnumValue\<close> has a fallback for a missing value and no exception of
  its own.\<close>

definition normalizeBehaviorEnumValue ::
  "js_value option \<Rightarrow> (string \<times> string) list \<Rightarrow> string list \<Rightarrow> string \<Rightarrow> string option \<Rightarrow> js_value result" where
  "normalizeBehaviorEnumValue input aliases values field fallback =
     (if normalizeNullableText input = None \<and> fallback \<noteq> None then Inr (JStr (the fallback))
      else normalizeEnumValue input aliases values field None)"

definition normalizeBehaviorRecordType :: "js_value option \<Rightarrow> js_value result" where
  "normalizeBehaviorRecordType input =
     normalizeBehaviorEnumValue input BEHAVIOR_TYPE_ALIASES [''POSITIVE'', ''NEGATIVE''] ''type'' None"

definition normalizeBehaviorSeverity :: "js_value option \<Rightarrow> js_value result" where
  "normalizeBehaviorSeverity input =
     normalizeBehaviorEnumValue input BEHAVIOR_SEVERITY_ALIASES [''LOW'', ''MEDIUM'', ''HIGH'', ''CRITICAL'']
       ''severity'' (Some ''LOW'')"

definition normalizeBehaviorRecordStatus :: "js_value option \<Rightarrow> js_value result" where
  "normalizeBehaviorRecordStatus input =
     normalizeBehaviorEnumValue input BEHAVIOR_STATUS_ALIASES
       [''DRAFT'', ''SUBMITTED'', ''APPROVED'', ''REJECTED'', ''CANCELLED''] ''status'' None"

section \<open>Content and points\<close>

record BehaviorRecordContentFields =
  bc_titleEn :: "string option"
  bc_titleAr :: "string option"
  bc_noteEn :: "string option"
  bc_noteAr :: "string option"

definition assertBehaviorRecordContentPresent :: "'a BehaviorRecordContentFields_scheme \<Rightarrow> unit result" where
  "assertBehaviorRecordContentPresent input =
     (if trimmed_or_null (bc_titleEn input) = None \<and> trimmed_or_null (bc_titleAr input) = None \<and>
         trimmed_or_null (bc_noteEn input) = None \<and> trimmed_or_null (bc_noteAr input) = None
      then Inl (ValidationDomainException ''Behavior record title or note is required''
             [(''fields'', DStrs [''titleEn'', ''titleAr'', ''noteEn'', ''noteAr''])])
      else Inr ())"

text \<open>The two checks of points differ in the name of the field only.\<close>

definition points_compatible :: "string \<Rightarrow> js_value \<Rightarrow> rat \<Rightarrow> unit result" where
  "points_compatible field recordType points =
     andThen (normalizeBehaviorRecordType (Some recordType)) (\<lambda>type.
       if \<not> number_isInteger points
       then Inl (BehaviorRecordPointsInvalidException [(''field'', DStr field), (''points'', DNum points)])
       else if type = JStr ''POSITIVE'' \<and> points < 0
       then Inl (BehaviorRecordPointsInvalidException
              [(''field'', DStr field), (''type'', detail_of_js_value type), (''points'', DNum points),
               (''rule'', DStr ''positive_records_require_non_negative_points'')])
       else if type = JStr ''NEGATIVE'' \<and> points > 0
       then Inl (BehaviorRecordPointsInvalidException
              [(''field'', DStr field), (''type'', detail_of_js_value type), (''points'', DNum points),
               (''rule'', DStr ''negative_records_require_non_positive_points'')])
       else Inr ())"

definition assertBehaviorRecordPointsCompatible :: "js_value \<Rightarrow> rat option \<Rightarrow> unit result" where
  "assertBehaviorRecordPointsCompatible type points =
     points_compatible ''points'' type (case points of None \<Rightarrow> 0 | Some n \<Rightarrow> n)"

definition assertBehaviorApprovalPointsValid :: "js_value \<Rightarrow> rat \<Rightarrow> unit result" where
  "assertBehaviorApprovalPointsValid type effectivePoints = points_compatible ''pointsOverride'' type effectivePoints"

section \<open>Categories\<close>

record BehaviorRecordCategoryDefaults =
  cat_id :: string
  cat_type :: BehaviorRecordType
  cat_defaultSeverity :: BehaviorSeverity
  cat_defaultPoints :: int
  cat_isActive :: bool

definition assertBehaviorRecordCategoryCompatible :: "js_value \<Rightarrow> js_value \<Rightarrow> string option \<Rightarrow> unit result" where
  "assertBehaviorRecordCategoryCompatible categoryTypeIn recordTypeIn categoryId =
     andThen (normalizeBehaviorRecordType (Some categoryTypeIn)) (\<lambda>categoryType.
     andThen (normalizeBehaviorRecordType (Some recordTypeIn)) (\<lambda>recordType.
       if categoryType \<noteq> recordType
       then Inl (BehaviorRecordTypeMismatchException
              [(''categoryId'', detail_of_str_option categoryId), (''categoryType'', detail_of_js_value categoryType),
               (''recordType'', detail_of_js_value recordType)])
       else Inr ()))"

definition assertBehaviorRecordCategoryActive :: "'a BehaviorRecordCategoryDefaults_scheme option \<Rightarrow> unit result" where
  "assertBehaviorRecordCategoryActive category =
     (case category of
        None \<Rightarrow> Inr ()
      | Some c \<Rightarrow> if \<not> cat_isActive c
                  then Inl (BehaviorCategoryInactiveException [(''categoryId'', DStr (cat_id c))]) else Inr ())"

record BehaviorRecordDefaults =
  bd_type :: js_value
  bd_severity :: js_value
  bd_points :: rat

definition category_type :: "'a BehaviorRecordCategoryDefaults_scheme \<Rightarrow> js_value" where
  "category_type c = JStr (BehaviorRecordType_name (cat_type c))"

definition deriveBehaviorRecordDefaultsFromCategory ::
  "'a BehaviorRecordCategoryDefaults_scheme option \<Rightarrow> string option \<Rightarrow> string option \<Rightarrow> rat option \<Rightarrow>
   BehaviorRecordDefaults result" where
  "deriveBehaviorRecordDefaultsFromCategory category type severity points =
     andThen (if truthy type then map_sum id Some (normalizeBehaviorRecordType (map_option JStr type))
              else (case category of
                      Some c \<Rightarrow> map_sum id Some (normalizeBehaviorRecordType (Some (category_type c)))
                    | None \<Rightarrow> Inr None)) (\<lambda>chosen.
       case chosen of
         None \<Rightarrow> Inl (ValidationDomainException ''Behavior record type is required'' [(''field'', DStr ''type'')])
       | Some recordType \<Rightarrow>
           andThen (case category of
                      None \<Rightarrow> Inr ()
                    | Some c \<Rightarrow> andThen (assertBehaviorRecordCategoryActive (Some c)) (\<lambda>_.
                        assertBehaviorRecordCategoryCompatible (category_type c) recordType (Some (cat_id c)))) (\<lambda>_.
           andThen (if truthy severity then normalizeBehaviorSeverity (map_option JStr severity)
                    else (case category of
                            Some c \<Rightarrow> normalizeBehaviorSeverity (Some (JStr (BehaviorSeverity_name (cat_defaultSeverity c))))
                          | None \<Rightarrow> Inr (JStr ''LOW''))) (\<lambda>recordSeverity.
             Inr \<lparr>bd_type = recordType, bd_severity = recordSeverity,
                  bd_points = (case points of
                     Some n \<Rightarrow> n
                   | None \<Rightarrow> (case category of Some c \<Rightarrow> of_int (cat_defaultPoints c) | None \<Rightarrow> 0))\<rparr>)))"

section \<open>The state machine\<close>

definition isBehaviorRecordDraft :: "js_value \<Rightarrow> bool result" where
  "isBehaviorRecordDraft status =
     andThen (normalizeBehaviorRecordStatus (Some status)) (\<lambda>n. Inr (n = JStr ''DRAFT''))"

definition isBehaviorRecordSubmitted :: "js_value \<Rightarrow> bool result" where
  "isBehaviorRecordSubmitted status =
     andThen (normalizeBehaviorRecordStatus (Some status)) (\<lambda>n. Inr (n = JStr ''SUBMITTED''))"

definition isBehaviorRecordTerminalForTask4 :: "js_value \<Rightarrow> bool result" where
  "isBehaviorRecordTerminalForTask4 status =
     andThen (normalizeBehaviorRecordStatus (Some status)) (\<lambda>n. Inr (n \<in> {JStr ''APPROVED'', JStr ''REJECTED''}))"

definition isBehaviorReviewedStatus :: "js_value \<Rightarrow> bool result" where
  "isBehaviorReviewedStatus status = isBehaviorRecordTerminalForTask4 status"

text \<open>The last three checks of the update, submit and cancel guards.\<close>

definition not_allowed :: "string \<Rightarrow> js_value \<Rightarrow> unit result" where
  "not_allowed action n =
     (if n = JStr ''CANCELLED'' then Inl (BehaviorRecordCancelledException [(''status'', detail_of_js_value n)])
      else andThen (isBehaviorRecordTerminalForTask4 n) (\<lambda>terminal.
        if terminal then Inl (BehaviorRecordAlreadyReviewedException [(''status'', detail_of_js_value n)])
        else Inl (BehaviorRecordInvalidStatusTransitionException
               [(''status'', detail_of_js_value n), (''action'', DStr action)])))"

definition assertBehaviorRecordCanUpdate :: "js_value \<Rightarrow> unit result" where
  "assertBehaviorRecordCanUpdate status =
     andThen (normalizeBehaviorRecordStatus (Some status)) (\<lambda>n.
     andThen (isBehaviorRecordDraft n) (\<lambda>draft. if draft then Inr () else not_allowed ''update'' n))"

definition assertBehaviorRecordCanSubmit :: "js_value \<Rightarrow> unit result" where
  "assertBehaviorRecordCanSubmit status =
     andThen (normalizeBehaviorRecordStatus (Some status)) (\<lambda>n.
     andThen (isBehaviorRecordDraft n) (\<lambda>draft.
       if draft then Inr ()
       else andThen (isBehaviorRecordSubmitted n) (\<lambda>submitted.
         if submitted then Inl (BehaviorRecordAlreadySubmittedException [(''status'', detail_of_js_value n)])
         else not_allowed ''submit'' n)))"

definition assertBehaviorRecordCanCancel :: "js_value \<Rightarrow> unit result" where
  "assertBehaviorRecordCanCancel status =
     andThen (normalizeBehaviorRecordStatus (Some status)) (\<lambda>n.
       if n = JStr ''DRAFT'' \<or> n = JStr ''SUBMITTED'' then Inr () else not_allowed ''cancel'' n)"

definition assertBehaviorRecordReviewable :: "string \<Rightarrow> js_value \<Rightarrow> unit result" where
  "assertBehaviorRecordReviewable recordId statusIn =
     andThen (normalizeBehaviorRecordStatus (Some statusIn)) (\<lambda>status.
       let details = [(''recordId'', DStr recordId), (''status'', detail_of_js_value status)]
       in if status = JStr ''SUBMITTED'' then Inr ()
          else if status = JStr ''DRAFT'' then Inl (BehaviorRecordNotSubmittedException details)
          else andThen (isBehaviorReviewedStatus status) (\<lambda>reviewed.
            if reviewed then Inl (BehaviorRecordAlreadyReviewedException details)
            else if status = JStr ''CANCELLED'' then Inl (BehaviorRecordCancelledException details)
            else Inl (BehaviorRecordInvalidStatusTransitionException (details @ [(''action'', DStr ''review'')]))))"

definition assertBehaviorRecordApprovable :: "string \<Rightarrow> js_value \<Rightarrow> unit result" where
  "assertBehaviorRecordApprovable = assertBehaviorRecordReviewable"

definition assertBehaviorRecordRejectable :: "string \<Rightarrow> js_value \<Rightarrow> unit result" where
  "assertBehaviorRecordRejectable = assertBehaviorRecordReviewable"

section \<open>Dates\<close>

definition parseBehaviorIsoDate :: "(string \<Rightarrow> int option) \<Rightarrow> string \<Rightarrow> string \<Rightarrow> int result" where
  "parseBehaviorIsoDate parse value field =
     (case parse value of
        None \<Rightarrow> Inl (ValidationDomainException ''Date value is invalid'' [(''field'', DStr field), (''value'', DStr value)])
      | Some t \<Rightarrow> Inr t)"

definition startOfUtcDay :: "int \<Rightarrow> int" where
  "startOfUtcDay t = t - t mod 86400000"

definition endOfUtcDay :: "int \<Rightarrow> int" where
  "endOfUtcDay t = t - t mod 86400000 + 86399999"

record BehaviorTermDateRange =
  bt_id :: string
  bt_startDate :: int
  bt_endDate :: int

definition assertBehaviorOccurredAtInsideTerm :: "int \<Rightarrow> 'a BehaviorTermDateRange_scheme option \<Rightarrow> unit result" where
  "assertBehaviorOccurredAtInsideTerm occurredAt termRange =
     (case termRange of
        None \<Rightarrow> Inr ()
      | Some t \<Rightarrow>
          if occurredAt < startOfUtcDay (bt_startDate t) \<or> occurredAt > endOfUtcDay (bt_endDate t)
          then Inl (BehaviorRecordOutsideTermException
                 [(''termId'', DStr (bt_id t)), (''occurredAt'', DDate occurredAt),
                  (''startDate'', DDate (bt_startDate t)), (''endDate'', DDate (bt_endDate t))])
          else Inr ())"

section \<open>Ledger entries\<close>

definition deriveBehaviorLedgerEntryType :: "js_value \<Rightarrow> BehaviorPointLedgerEntryType result" where
  "deriveBehaviorLedgerEntryType type =
     andThen (normalizeBehaviorRecordType (Some type)) (\<lambda>n.
       Inr (if n = JStr ''POSITIVE'' then Ledger_AWARD else Ledger_PENALTY))"

definition deriveBehaviorEffectivePoints :: "int \<Rightarrow> int option \<Rightarrow> int" where
  "deriveBehaviorEffectivePoints recordPoints pointsOverride =
     (case pointsOverride of None \<Rightarrow> recordPoints | Some n \<Rightarrow> n)"

definition buildBehaviorLedgerReason ::
  "js_value \<Rightarrow> string option \<Rightarrow> string option \<Rightarrow> string option \<Rightarrow> string option \<Rightarrow>
   (string option \<times> string option) result" where
  "buildBehaviorLedgerReason typeIn titleEnIn titleArIn reviewNoteEnIn reviewNoteArIn =
     (let reviewNoteEn = trimmed_or_null reviewNoteEnIn; reviewNoteAr = trimmed_or_null reviewNoteArIn;
          titleEn = trimmed_or_null titleEnIn; titleAr = trimmed_or_null titleArIn
      in andThen (normalizeBehaviorRecordType (Some typeIn)) (\<lambda>n.
           case n of
             JInherited _ \<Rightarrow> Inl (JsError ''normalizeBehaviorRecordType(...).toLowerCase is not a function'')
           | JStr type \<Rightarrow>
               Inr (case reviewNoteEn of
                      Some s \<Rightarrow> Some s
                    | None \<Rightarrow> Some (case titleEn of
                        Some s \<Rightarrow> ''Approved behavior record: '' @ s
                      | None \<Rightarrow> ''Approved '' @ toLowerCase type @ '' behavior record''),
                    case reviewNoteAr of Some s \<Rightarrow> Some s | None \<Rightarrow> titleAr)))"

section \<open>Review queue summary\<close>

record BehaviorReviewQueueSummary =
  qs_total :: int
  qs_submitted :: int
  qs_approved :: int
  qs_rejected :: int
  qs_cancelled :: int
  qs_positive :: int
  qs_negative :: int

fun summarize_queue ::
  "BehaviorReviewQueueSummary \<Rightarrow> (js_value \<times> js_value) list \<Rightarrow> BehaviorReviewQueueSummary result" where
  "summarize_queue summary [] = Inr summary"
| "summarize_queue summary ((typeIn, statusIn) # records) =
     andThen (normalizeBehaviorRecordStatus (Some statusIn)) (\<lambda>status.
     andThen (normalizeBehaviorRecordType (Some typeIn)) (\<lambda>type.
       summarize_queue (summary\<lparr>
         qs_submitted := qs_submitted summary + of_bool (status = JStr ''SUBMITTED''),
         qs_approved := qs_approved summary + of_bool (status = JStr ''APPROVED''),
         qs_rejected := qs_rejected summary + of_bool (status = JStr ''REJECTED''),
         qs_cancelled := qs_cancelled summary + of_bool (status = JStr ''CANCELLED''),
         qs_positive := qs_positive summary + of_bool (type = JStr ''POSITIVE''),
         qs_negative := qs_negative summary + of_bool (type = JStr ''NEGATIVE'')\<rparr>) records))"

definition summarizeBehaviorReviewQueue :: "(js_value \<times> js_value) list \<Rightarrow> BehaviorReviewQueueSummary result" where
  "summarizeBehaviorReviewQueue records =
     summarize_queue \<lparr>qs_total = int (length records), qs_submitted = 0, qs_approved = 0, qs_rejected = 0,
       qs_cancelled = 0, qs_positive = 0, qs_negative = 0\<rparr> records"

section \<open>Stored values are normal\<close>

lemma normalize_type_name [simp]:
  "normalizeBehaviorRecordType (Some (JStr (BehaviorRecordType_name t))) = Inr (JStr (BehaviorRecordType_name t))"
  by (cases t; simp; code_simp)

lemma normalize_severity_name [simp]:
  "normalizeBehaviorSeverity (Some (JStr (BehaviorSeverity_name s))) = Inr (JStr (BehaviorSeverity_name s))"
  by (cases s; simp; code_simp)

lemma normalize_record_status_name [simp]:
  "normalizeBehaviorRecordStatus (Some (JStr (BehaviorRecordStatus_name s))) = Inr (JStr (BehaviorRecordStatus_name s))"
  by (cases s; simp; code_simp)

lemma record_names_inject [simp]:
  "BehaviorRecordType_name t = BehaviorRecordType_name t' \<longleftrightarrow> t = t'"
  "BehaviorSeverity_name v = BehaviorSeverity_name v' \<longleftrightarrow> v = v'"
  "BehaviorRecordStatus_name s = BehaviorRecordStatus_name s' \<longleftrightarrow> s = s'"
  subgoal by (cases t; cases t') simp_all
  subgoal by (cases v; cases v') simp_all
  subgoal by (cases s; cases s') simp_all
  done

text \<open>The same for the literals that the definitions compare with.\<close>

lemmas normalize_status_literals [simp] =
  normalize_record_status_name [of Record_DRAFT, unfolded BehaviorRecordStatus_name.simps]
  normalize_record_status_name [of Record_SUBMITTED, unfolded BehaviorRecordStatus_name.simps]
  normalize_record_status_name [of Record_APPROVED, unfolded BehaviorRecordStatus_name.simps]
  normalize_record_status_name [of Record_REJECTED, unfolded BehaviorRecordStatus_name.simps]
  normalize_record_status_name [of Record_CANCELLED, unfolded BehaviorRecordStatus_name.simps]

lemmas normalize_type_literals [simp] =
  normalize_type_name [of Behavior_POSITIVE, unfolded BehaviorRecordType_name.simps]
  normalize_type_name [of Behavior_NEGATIVE, unfolded BehaviorRecordType_name.simps]

section \<open>What the guards accept\<close>

lemmas guard_defs = isBehaviorRecordDraft_def isBehaviorRecordSubmitted_def isBehaviorRecordTerminalForTask4_def
  isBehaviorReviewedStatus_def not_allowed_def

lemma can_update_iff: "assertBehaviorRecordCanUpdate (JStr (BehaviorRecordStatus_name st)) = Inr () \<longleftrightarrow> st = Record_DRAFT"
  by (cases st) (simp_all add: assertBehaviorRecordCanUpdate_def guard_defs)

lemma can_submit_iff: "assertBehaviorRecordCanSubmit (JStr (BehaviorRecordStatus_name st)) = Inr () \<longleftrightarrow> st = Record_DRAFT"
  by (cases st) (simp_all add: assertBehaviorRecordCanSubmit_def guard_defs)

lemma can_cancel_iff:
  "assertBehaviorRecordCanCancel (JStr (BehaviorRecordStatus_name st)) = Inr () \<longleftrightarrow>
     st = Record_DRAFT \<or> st = Record_SUBMITTED"
  by (cases st) (simp_all add: assertBehaviorRecordCanCancel_def guard_defs)

lemma reviewable_iff:
  "assertBehaviorRecordReviewable i (JStr (BehaviorRecordStatus_name st)) = Inr () \<longleftrightarrow> st = Record_SUBMITTED"
  by (cases st) (simp_all add: assertBehaviorRecordReviewable_def guard_defs)

text \<open>Points fit the type of a record when a positive record does not lose and a negative one does not
  gain points.\<close>

fun points_fit :: "BehaviorRecordType \<Rightarrow> int \<Rightarrow> bool" where
  "points_fit Behavior_POSITIVE n \<longleftrightarrow> 0 \<le> n"
| "points_fit Behavior_NEGATIVE n \<longleftrightarrow> n \<le> 0"

lemma points_compatible_iff:
  "points_compatible field (JStr (BehaviorRecordType_name t)) (of_int n) = Inr () \<longleftrightarrow> points_fit t n"
  by (cases t) (auto simp: points_compatible_def number_isInteger_of_int)

end
