(* ===== verification/Behavior_Store.thy ===== *)
theory Behavior_Store
  imports Behavior_Domain School_Tables
begin

text \<open>
  The behavior tables and their transactions
  (\<open>infrastructure/behavior-records.repository.ts\<close>, \<open>infrastructure/behavior-review.repository.ts\<close>). A
  write is one transaction: a function from the tables to an exception or a result with the new tables.
  Reads see the undeleted rows of the caller's school. Writes go through the unscoped client and name the
  school themselves. Foreign keys are not modelled: no operation here deletes a row.
\<close>

section \<open>Tables\<close>

record BehaviorCategoryRow = BehaviorRecordCategoryDefaults +
  cat_schoolId :: string
  cat_deletedAt :: "int option"

record BehaviorTermRow = BehaviorTermDateRange +
  bt_schoolId :: string
  bt_academicYearId :: string
  bt_deletedAt :: "int option"

record BehaviorEnrollmentRow =
  ben_id :: string
  ben_schoolId :: string
  ben_studentId :: string
  ben_academicYearId :: string
  ben_termId :: "string option"
  ben_active :: bool
  ben_enrolledAt :: int
  ben_createdAt :: int
  ben_deletedAt :: "int option"

record BehaviorRecord = BehaviorRecordContentFields +
  br_id :: string
  br_schoolId :: string
  br_academicYearId :: string
  br_termId :: "string option"
  br_studentId :: string
  br_enrollmentId :: "string option"
  br_categoryId :: "string option"
  br_type :: BehaviorRecordType
  br_severity :: BehaviorSeverity
  br_status :: BehaviorRecordStatus
  br_points :: int
  br_occurredAt :: int
  br_createdById :: string
  br_submittedById :: "string option"
  br_submittedAt :: "int option"
  br_reviewedById :: "string option"
  br_reviewedAt :: "int option"
  br_cancelledById :: "string option"
  br_cancelledAt :: "int option"
  br_reviewNoteEn :: "string option"
  br_reviewNoteAr :: "string option"
  br_cancellationReasonEn :: "string option"
  br_cancellationReasonAr :: "string option"
  br_metadata :: "json_object option"
  br_deletedAt :: "int option"

text \<open>The metadata of an approval's ledger entry: the source, the points before and after an override,
  and the reviewer's metadata when they were given.\<close>

record LedgerMetadata =
  lm_source :: string
  lm_pointsOverride :: "(int \<times> int) option"
  lm_reviewMetadata :: "json_object option option"

record BehaviorPointLedger =
  bl_id :: string
  bl_schoolId :: string
  bl_academicYearId :: string
  bl_termId :: "string option"
  bl_studentId :: string
  bl_enrollmentId :: "string option"
  bl_recordId :: string
  bl_categoryId :: "string option"
  bl_entryType :: BehaviorPointLedgerEntryType
  bl_amount :: int
  bl_reasonEn :: "string option"
  bl_reasonAr :: "string option"
  bl_actorId :: string
  bl_occurredAt :: int
  bl_metadata :: LedgerMetadata

record BehaviorAuditInput =
  ba_actorId :: string
  ba_userType :: string
  ba_organizationId :: string
  ba_schoolId :: string
  ba_module :: string
  ba_action :: string
  ba_resourceType :: string
  ba_resourceId :: string
  ba_outcome :: string
  ba_before :: "json_object option"
  ba_after :: json_object

record BehaviorDb =
  bdb_years :: "AcademicYearRow list"
  bdb_terms :: "BehaviorTermRow list"
  bdb_students :: "StudentRow list"
  bdb_enrollments :: "BehaviorEnrollmentRow list"
  bdb_categories :: "BehaviorCategoryRow list"
  bdb_records :: "BehaviorRecord list"
  bdb_ledger :: "BehaviorPointLedger list"
  bdb_audit :: "BehaviorAuditInput list"

section \<open>Reads\<close>

definition findBehaviorRecordById :: "string \<Rightarrow> string \<Rightarrow> BehaviorDb \<Rightarrow> BehaviorRecord option" where
  "findBehaviorRecordById school recordId db =
     findFirst (\<lambda>r. br_id r = recordId \<and> br_schoolId r = school \<and> br_deletedAt r = None) (bdb_records db)"

definition findReviewRecordById :: "string \<Rightarrow> string \<Rightarrow> BehaviorDb \<Rightarrow> BehaviorRecord option" where
  "findReviewRecordById school recordId db =
     findFirst (\<lambda>r. br_id r = recordId \<and> br_schoolId r = school \<and> br_deletedAt r = None) (bdb_records db)"

definition findBehaviorYear :: "string \<Rightarrow> string \<Rightarrow> BehaviorDb \<Rightarrow> AcademicYearRow option" where
  "findBehaviorYear school academicYearId db =
     findFirst (\<lambda>y. year_id y = academicYearId \<and> year_schoolId y = school \<and> year_deletedAt y = None) (bdb_years db)"

definition findBehaviorTerm :: "string \<Rightarrow> string \<Rightarrow> BehaviorDb \<Rightarrow> BehaviorTermRow option" where
  "findBehaviorTerm school termId db =
     findFirst (\<lambda>t. bt_id t = termId \<and> bt_schoolId t = school \<and> bt_deletedAt t = None) (bdb_terms db)"

definition findBehaviorStudent :: "string \<Rightarrow> string \<Rightarrow> BehaviorDb \<Rightarrow> StudentRow option" where
  "findBehaviorStudent school studentId db =
     findFirst (\<lambda>s. student_id s = studentId \<and> student_schoolId s = school \<and> student_deletedAt s = None)
       (bdb_students db)"

definition findEnrollmentById :: "string \<Rightarrow> string \<Rightarrow> BehaviorDb \<Rightarrow> BehaviorEnrollmentRow option" where
  "findEnrollmentById school enrollmentId db =
     findFirst (\<lambda>e. ben_id e = enrollmentId \<and> ben_schoolId e = school \<and> ben_deletedAt e = None) (bdb_enrollments db)"

definition findCategoryById :: "string \<Rightarrow> string \<Rightarrow> BehaviorDb \<Rightarrow> BehaviorCategoryRow option" where
  "findCategoryById school categoryId db =
     findFirst (\<lambda>c. cat_id c = categoryId \<and> cat_schoolId c = school \<and> cat_deletedAt c = None) (bdb_categories db)"

text \<open>\<open>orderBy: \{ termId: 'desc' \}\<close>: PostgreSQL puts nulls first when it sorts downwards.\<close>

definition nulls_first_desc :: "string option \<Rightarrow> string option \<Rightarrow> int" where
  "nulls_first_desc a b =
     (case (a, b) of (None, None) \<Rightarrow> 0 | (None, Some _) \<Rightarrow> -1 | (Some _, None) \<Rightarrow> 1 | (Some x, Some y) \<Rightarrow> string_compare y x)"

definition findBehaviorEnrollmentForStudent ::
  "string \<Rightarrow> string \<Rightarrow> string \<Rightarrow> string option \<Rightarrow> BehaviorDb \<Rightarrow> BehaviorEnrollmentRow option" where
  "findBehaviorEnrollmentForStudent school studentId academicYearId termId db =
     (case js_sort (\<lambda>a b. cmp_or (nulls_first_desc (ben_termId a) (ben_termId b))
                           (cmp_or (ben_enrolledAt b - ben_enrolledAt a)
                             (cmp_or (ben_createdAt b - ben_createdAt a) (string_compare (ben_id a) (ben_id b)))))
             (filter (\<lambda>e. ben_schoolId e = school \<and> ben_deletedAt e = None \<and> ben_studentId e = studentId \<and>
                          ben_academicYearId e = academicYearId \<and> ben_active e \<and>
                          (truthy termId \<longrightarrow> ben_termId e = termId \<or> ben_termId e = None)) (bdb_enrollments db)) of
        [] \<Rightarrow> None
      | e # _ \<Rightarrow> Some e)"

text \<open>The relations \<open>record.category\<close> and \<open>record.term\<close>, which a read selects with the record and does not
  filter.\<close>

definition record_category :: "BehaviorDb \<Rightarrow> BehaviorRecord \<Rightarrow> BehaviorCategoryRow option" where
  "record_category db r =
     Option.bind (br_categoryId r) (\<lambda>i. findFirst (\<lambda>c. cat_id c = i \<and> cat_schoolId c = br_schoolId r) (bdb_categories db))"

definition record_term :: "BehaviorDb \<Rightarrow> BehaviorRecord \<Rightarrow> BehaviorTermRow option" where
  "record_term db r =
     Option.bind (br_termId r) (\<lambda>i. findFirst (\<lambda>t. bt_id t = i \<and> bt_schoolId t = br_schoolId r) (bdb_terms db))"

section \<open>Writes of records\<close>

definition createBehaviorAuditLog :: "BehaviorAuditInput \<Rightarrow> BehaviorDb \<Rightarrow> BehaviorDb" where
  "createBehaviorAuditLog entry db = db\<lparr>bdb_audit := bdb_audit db @ [entry]\<rparr>"

definition findRecordInTransaction :: "string \<Rightarrow> string \<Rightarrow> string \<Rightarrow> BehaviorDb \<Rightarrow> BehaviorRecord result" where
  "findRecordInTransaction message schoolId recordId db =
     (case findFirst (\<lambda>r. br_id r = recordId \<and> br_schoolId r = schoolId \<and> br_deletedAt r = None) (bdb_records db) of
        None \<Rightarrow> Inl (JsError message)
      | Some r \<Rightarrow> Inr r)"

text \<open>The columns of a new record are given except for the id, which the database generates, and the
  school; the primary key is the only constraint.\<close>

definition createRecord ::
  "string \<Rightarrow> string \<Rightarrow> BehaviorRecord \<Rightarrow> (BehaviorRecord \<Rightarrow> BehaviorAuditInput) \<Rightarrow> BehaviorDb \<Rightarrow>
   (BehaviorRecord \<times> BehaviorDb) result" where
  "createRecord newId schoolId data buildAuditEntry db =
     (if \<exists>r \<in> set (bdb_records db). br_id r = newId then Inl (PrismaError ''P2002'')
      else
        let db1 = db\<lparr>bdb_records := bdb_records db @ [data\<lparr>br_id := newId, br_schoolId := schoolId\<rparr>]\<rparr>
        in andThen (findRecordInTransaction ''Behavior record mutation result was not found'' schoolId newId db1)
             (\<lambda>r. Inr (r, createBehaviorAuditLog (buildAuditEntry r) db1)))"

text \<open>\<open>data\<close>: the assignments to columns the request makes, in order.\<close>

type_synonym record_update = "BehaviorRecord \<Rightarrow> BehaviorRecord"

definition apply_updates :: "record_update list \<Rightarrow> BehaviorRecord \<Rightarrow> BehaviorRecord" where
  "apply_updates data r = fold (\<lambda>f x. f x) data r"

definition updateRecord ::
  "string \<Rightarrow> string \<Rightarrow> record_update list \<Rightarrow> (BehaviorRecord \<Rightarrow> BehaviorAuditInput) \<Rightarrow> BehaviorDb \<Rightarrow>
   (BehaviorRecord \<times> BehaviorDb) result" where
  "updateRecord schoolId recordId data buildAuditEntry db =
     (let db1 = (if length data > 0
                 then db\<lparr>bdb_records := snd (updateMany
                        (\<lambda>r. br_id r = recordId \<and> br_schoolId r = schoolId \<and> br_deletedAt r = None)
                        (apply_updates data) (bdb_records db))\<rparr>
                 else db)
      in andThen (findRecordInTransaction ''Behavior record mutation result was not found'' schoolId recordId db1)
           (\<lambda>r. Inr (r, createBehaviorAuditLog (buildAuditEntry r) db1)))"

definition submitRecord ::
  "string \<Rightarrow> string \<Rightarrow> record_update list \<Rightarrow> (BehaviorRecord \<Rightarrow> BehaviorAuditInput) \<Rightarrow> BehaviorDb \<Rightarrow>
   (BehaviorRecord \<times> BehaviorDb) result" where
  "submitRecord = updateRecord"

definition cancelRecord ::
  "string \<Rightarrow> string \<Rightarrow> record_update list \<Rightarrow> (BehaviorRecord \<Rightarrow> BehaviorAuditInput) \<Rightarrow> BehaviorDb \<Rightarrow>
   (BehaviorRecord \<times> BehaviorDb) result" where
  "cancelRecord = updateRecord"

section \<open>Reviews\<close>

definition reviewable_row :: "string \<Rightarrow> string \<Rightarrow> BehaviorRecord \<Rightarrow> bool" where
  "reviewable_row schoolId recordId r \<longleftrightarrow> br_id r = recordId \<and> br_schoolId r = schoolId \<and>
     br_status r = Record_SUBMITTED \<and> br_deletedAt r = None"

definition no_longer_submitted :: "string \<Rightarrow> js_exception" where
  "no_longer_submitted recordId = BehaviorRecordInvalidStatusTransitionException
     [(''recordId'', DStr recordId), (''expectedStatus'', DStr ''SUBMITTED'')]"

text \<open>The constraints of the ledger: the primary key, and the partial unique index
  \<open>behavior_point_ledger_one_effective_entry_per_record\<close> on school and record for awards and penalties.\<close>

definition effective_entry :: "BehaviorPointLedger \<Rightarrow> bool" where
  "effective_entry l \<longleftrightarrow> bl_entryType l = Ledger_AWARD \<or> bl_entryType l = Ledger_PENALTY"

definition violates_ledger_index :: "BehaviorPointLedger \<Rightarrow> BehaviorPointLedger list \<Rightarrow> bool" where
  "violates_ledger_index new rows \<longleftrightarrow> (\<exists>l \<in> set rows. bl_id l = bl_id new \<or>
     effective_entry new \<and> effective_entry l \<and> bl_schoolId l = bl_schoolId new \<and> bl_recordId l = bl_recordId new)"

definition findPointLedgerInTransaction :: "string \<Rightarrow> string \<Rightarrow> BehaviorDb \<Rightarrow> BehaviorPointLedger result" where
  "findPointLedgerInTransaction schoolId ledgerId db =
     (case findFirst (\<lambda>l. bl_id l = ledgerId \<and> bl_schoolId l = schoolId) (bdb_ledger db) of
        None \<Rightarrow> Inl (JsError ''Behavior point ledger mutation result was not found'')
      | Some l \<Rightarrow> Inr l)"

definition approveRecordWithPointLedger ::
  "string \<Rightarrow> string \<Rightarrow> string \<Rightarrow> record_update list \<Rightarrow> BehaviorPointLedger \<Rightarrow>
   (BehaviorRecord \<Rightarrow> BehaviorPointLedger \<Rightarrow> BehaviorAuditInput) \<Rightarrow> BehaviorDb \<Rightarrow> (BehaviorRecord \<times> BehaviorDb) result" where
  "approveRecordWithPointLedger newId schoolId recordId recordData ledgerData buildAuditEntry db =
     (let (count, rows) = updateMany (reviewable_row schoolId recordId) (apply_updates recordData) (bdb_records db);
          row = ledgerData\<lparr>bl_id := newId, bl_schoolId := schoolId\<rparr>
      in if count = 0 then Inl (no_longer_submitted recordId)
         else if violates_ledger_index row (bdb_ledger db) then Inl (PrismaError ''P2002'')
         else
           let db1 = db\<lparr>bdb_records := rows, bdb_ledger := bdb_ledger db @ [row]\<rparr>
           in andThen (findPointLedgerInTransaction schoolId newId db1) (\<lambda>ledger.
              andThen (findRecordInTransaction ''Behavior review mutation result was not found'' schoolId recordId db1) (\<lambda>r.
                Inr (r, createBehaviorAuditLog (buildAuditEntry r ledger) db1))))"

definition rejectRecord ::
  "string \<Rightarrow> string \<Rightarrow> record_update list \<Rightarrow> (BehaviorRecord \<Rightarrow> BehaviorAuditInput) \<Rightarrow> BehaviorDb \<Rightarrow>
   (BehaviorRecord \<times> BehaviorDb) result" where
  "rejectRecord schoolId recordId recordData buildAuditEntry db =
     (let (count, rows) = updateMany (reviewable_row schoolId recordId) (apply_updates recordData) (bdb_records db)
      in if count = 0 then Inl (no_longer_submitted recordId)
         else
           let db1 = db\<lparr>bdb_records := rows\<rparr>
           in andThen (findRecordInTransaction ''Behavior review mutation result was not found'' schoolId recordId db1)
                (\<lambda>r. Inr (r, createBehaviorAuditLog (buildAuditEntry r) db1)))"

end
