(* ===== verification/Interleaving.thy ===== *)
theory Interleaving
  imports Moazez_Prelude
begin

text \<open>
  Interface of a component whose requests read and check first and write later, on tables that other
  requests may have changed in between: \<open>start\<close> relates the tables to a request that has passed its
  checks on them, \<open>finish\<close> is its write. \<open>isolated\<close> runs a request without interruption, \<open>interleaved\<close>
  keeps any number of requests in progress.
\<close>

inductive isolated :: "('db \<Rightarrow> 'p \<Rightarrow> bool) \<Rightarrow> ('p \<Rightarrow> 'db \<Rightarrow> 'db \<Rightarrow> bool) \<Rightarrow> 'db \<Rightarrow> 'db \<Rightarrow> bool" for start finish where
  isolated: "start db p \<Longrightarrow> finish p db db' \<Longrightarrow> isolated start finish db db'"

inductive interleaved ::
  "('db \<Rightarrow> 'p \<Rightarrow> bool) \<Rightarrow> ('p \<Rightarrow> 'db \<Rightarrow> 'db \<Rightarrow> bool) \<Rightarrow> 'db \<times> 'p list \<Rightarrow> 'db \<times> 'p list \<Rightarrow> bool"
  for start finish where
  begins: "start db p \<Longrightarrow> interleaved start finish (db, ps) (db, ps @ [p])"
| finishes: "p \<in> set ps \<Longrightarrow> finish p db db' \<Longrightarrow> interleaved start finish (db, ps) (db', remove1 p ps)"

inductive_cases isolatedE: "isolated start finish db db'"
inductive_cases interleavedE: "interleaved start finish s s'"

text \<open>A property of the tables that every write of a checked request keeps, when what the request has checked
  (\<open>sound\<close>) is not undone by the writes of other requests, holds in every reachable state.\<close>

locale stable_invariant =
  fixes start :: "'db \<Rightarrow> 'p \<Rightarrow> bool" and finish :: "'p \<Rightarrow> 'db \<Rightarrow> 'db \<Rightarrow> bool"
    and inv :: "'db \<Rightarrow> bool" and sound :: "'db \<Rightarrow> 'p \<Rightarrow> bool"
  assumes begin_sound: "inv db \<Longrightarrow> start db p \<Longrightarrow> sound db p"
    and write_inv: "inv db \<Longrightarrow> sound db p \<Longrightarrow> finish p db db' \<Longrightarrow> inv db'"
    and write_stable: "inv db \<Longrightarrow> sound db p \<Longrightarrow> finish p db db' \<Longrightarrow> sound db q \<Longrightarrow> sound db' q"
begin

lemma step_kept:
  assumes "interleaved start finish (db, ps) (db', ps')" "inv db" "\<forall>p \<in> set ps. sound db p"
  shows "inv db' \<and> (\<forall>p \<in> set ps'. sound db' p)"
  using assms(1)
proof cases
  case (begins p)
  then show ?thesis using assms begin_sound [of db p] by auto
next
  case (finishes p)
  then show ?thesis using assms write_inv [of db p db'] write_stable [of db p db'] set_remove1_subset [of p ps] by auto
qed

lemma reachable_kept:
  assumes "(interleaved start finish)\<^sup>*\<^sup>* (db, ps) s" "inv db" "\<forall>p \<in> set ps. sound db p"
  shows "inv (fst s) \<and> (\<forall>p \<in> set (snd s). sound (fst s) p)"
  using assms
proof (induction rule: rtranclp_induct)
  case (step t u)
  then show ?case using step_kept [of "fst t" "snd t" "fst u" "snd u"] by auto
qed simp

lemma isolated_inv: "isolated start finish db db' \<Longrightarrow> inv db \<Longrightarrow> inv db'"
  by (erule isolatedE) (metis begin_sound write_inv)

end

text \<open>The case in which what a request carries does not refer to the tables.\<close>

locale request_invariant =
  fixes start :: "'db \<Rightarrow> 'p \<Rightarrow> bool" and finish :: "'p \<Rightarrow> 'db \<Rightarrow> 'db \<Rightarrow> bool"
    and inv :: "'db \<Rightarrow> bool" and sound :: "'p \<Rightarrow> bool"
  assumes start_sound: "inv db \<Longrightarrow> start db p \<Longrightarrow> sound p"
    and finish_inv: "inv db \<Longrightarrow> sound p \<Longrightarrow> finish p db db' \<Longrightarrow> inv db'"

sublocale request_invariant \<subseteq> stable_invariant start finish inv "\<lambda>_. sound"
  by unfold_locales (use start_sound finish_inv in blast)+

text \<open>A property that only requests in isolation keep.\<close>

locale isolated_invariant =
  fixes start :: "'db \<Rightarrow> 'p \<Rightarrow> bool" and finish :: "'p \<Rightarrow> 'db \<Rightarrow> 'db \<Rightarrow> bool" and inv :: "'db \<Rightarrow> bool"
  assumes run_inv: "inv db \<Longrightarrow> start db p \<Longrightarrow> finish p db db' \<Longrightarrow> inv db'"
begin

lemma isolated_runs_inv: "(isolated start finish)\<^sup>*\<^sup>* db db' \<Longrightarrow> inv db \<Longrightarrow> inv db'"
  by (induction rule: rtranclp_induct) (auto elim!: isolatedE intro: run_inv)

end

end
