(* ===== verification/Behavior_Requests.thy ===== *)
theory Behavior_Requests
  imports Behavior_Store Interleaving
begin

text \<open>
  The use cases that change behavior records (\<open>application/behavior-records.use-cases.ts\<close>,
  \<open>application/behavior-review.use-cases.ts\<close>), each split where it opens its transaction. A nested object of
  an audit entry is written with dotted keys.
\<close>

section \<open>Scope\<close>

record BehaviorScope =
  bsc_actorId :: string
  bsc_userType :: string
  bsc_organizationId :: string
  bsc_schoolId :: string
  bsc_roleId :: string

definition requireBehaviorScope :: "RequestContext option \<Rightarrow> BehaviorScope result" where
  "requireBehaviorScope ctx =
     (case Option.bind ctx rc_actor of
        None \<Rightarrow> Inl TokenInvalidException
      | Some actor \<Rightarrow>
          (case Option.bind ctx rc_activeMembership of
             None \<Rightarrow> Inl ScopeMissingException
           | Some m \<Rightarrow>
               if \<not> truthy (am_schoolId m) then Inl ScopeMissingException
               else Inr \<lparr>bsc_actorId = actor_id actor, bsc_userType = actor_userType actor,
                         bsc_organizationId = am_organizationId m,
                         bsc_schoolId = the (am_schoolId m), bsc_roleId = am_roleId m\<rparr>))"

section \<open>Required rows\<close>

definition requireBehaviorRecord :: "string \<Rightarrow> string \<Rightarrow> BehaviorDb \<Rightarrow> BehaviorRecord result" where
  "requireBehaviorRecord school recordId db =
     found (NotFoundDomainException ''Behavior record not found'' [(''recordId'', DStr recordId)])
       (findBehaviorRecordById school recordId db)"

definition findReviewRecordOrThrow :: "string \<Rightarrow> string \<Rightarrow> BehaviorDb \<Rightarrow> BehaviorRecord result" where
  "findReviewRecordOrThrow school recordId db =
     found (NotFoundDomainException ''Behavior record not found'' [(''recordId'', DStr recordId)])
       (findReviewRecordById school recordId db)"

definition requireAcademicYear :: "string \<Rightarrow> string \<Rightarrow> BehaviorDb \<Rightarrow> AcademicYearRow result" where
  "requireAcademicYear school academicYearId db =
     found (NotFoundDomainException ''Academic year not found'' [(''academicYearId'', DStr academicYearId)])
       (findBehaviorYear school academicYearId db)"

definition requireTerm :: "string \<Rightarrow> string \<Rightarrow> BehaviorDb \<Rightarrow> BehaviorTermRow result" where
  "requireTerm school termId db =
     found (NotFoundDomainException ''Term not found'' [(''termId'', DStr termId)]) (findBehaviorTerm school termId db)"

definition requireStudent :: "string \<Rightarrow> string \<Rightarrow> BehaviorDb \<Rightarrow> StudentRow result" where
  "requireStudent school studentId db =
     found (NotFoundDomainException ''Student not found'' [(''studentId'', DStr studentId)])
       (findBehaviorStudent school studentId db)"

definition requireEnrollment :: "string \<Rightarrow> string \<Rightarrow> BehaviorDb \<Rightarrow> BehaviorEnrollmentRow result" where
  "requireEnrollment school enrollmentId db =
     found (NotFoundDomainException ''Enrollment not found'' [(''enrollmentId'', DStr enrollmentId)])
       (findEnrollmentById school enrollmentId db)"

definition requireCategory :: "string \<Rightarrow> string \<Rightarrow> BehaviorDb \<Rightarrow> BehaviorCategoryRow result" where
  "requireCategory school categoryId db =
     found (NotFoundDomainException ''Behavior category not found'' [(''categoryId'', DStr categoryId)])
       (findCategoryById school categoryId db)"

definition assertEnrollmentMatchesScope ::
  "BehaviorEnrollmentRow \<Rightarrow> string option \<Rightarrow> string option \<Rightarrow> string option \<Rightarrow> unit result" where
  "assertEnrollmentMatchesScope enrollment studentId academicYearId termId =
     (let invalid = (\<lambda>field. Inl (BehaviorScopeInvalidException
            [(''enrollmentId'', DStr (ben_id enrollment)), (''studentId'', detail_of_str_option studentId),
             (''academicYearId'', detail_of_str_option academicYearId), (''termId'', detail_of_str_option termId),
             (''field'', DStr field)]))
      in if truthy studentId \<and> Some (ben_studentId enrollment) \<noteq> studentId then invalid ''studentId''
         else if truthy academicYearId \<and> Some (ben_academicYearId enrollment) \<noteq> academicYearId
         then invalid ''academicYearId''
         else if truthy termId \<and> truthy (ben_termId enrollment) \<and> ben_termId enrollment \<noteq> termId
         then invalid ''termId''
         else Inr ())"

section \<open>Audit entries\<close>

definition behavior_audit ::
  "BehaviorScope \<Rightarrow> string \<Rightarrow> string \<Rightarrow> json_object option \<Rightarrow> json_object \<Rightarrow> BehaviorAuditInput" where
  "behavior_audit scope action recordId before after =
     \<lparr>ba_actorId = bsc_actorId scope, ba_userType = bsc_userType scope,
      ba_organizationId = bsc_organizationId scope, ba_schoolId = bsc_schoolId scope, ba_module = ''behavior'',
      ba_action = action, ba_resourceType = ''behavior_record'', ba_resourceId = recordId,
      ba_outcome = ''SUCCESS'', ba_before = before, ba_after = after\<rparr>"

definition summarizeBehaviorRecordForAudit :: "BehaviorRecord \<Rightarrow> json_object" where
  "summarizeBehaviorRecordForAudit r =
     [(''studentId'', DStr (br_studentId r)), (''enrollmentId'', detail_of_str_option (br_enrollmentId r)),
      (''academicYearId'', DStr (br_academicYearId r)), (''termId'', detail_of_str_option (br_termId r)),
      (''categoryId'', detail_of_str_option (br_categoryId r)),
      (''type'', DStr (BehaviorRecordType_name (br_type r))),
      (''severity'', DStr (BehaviorSeverity_name (br_severity r))), (''points'', DInt (br_points r)),
      (''status'', DStr (BehaviorRecordStatus_name (br_status r))), (''occurredAt'', DDate (br_occurredAt r))]"

definition status_change :: "BehaviorRecord \<Rightarrow> BehaviorRecord \<Rightarrow> json_object" where
  "status_change before r =
     [(''statusBefore'', DStr (BehaviorRecordStatus_name (br_status before))),
      (''statusAfter'', DStr (BehaviorRecordStatus_name (br_status r)))]"

definition buildBehaviorRecordAuditEntry ::
  "BehaviorScope \<Rightarrow> string \<Rightarrow> BehaviorRecord option \<Rightarrow> json_object \<Rightarrow> BehaviorRecord \<Rightarrow> BehaviorAuditInput" where
  "buildBehaviorRecordAuditEntry scope action before extraMetadata r =
     behavior_audit scope action (br_id r) (map_option summarizeBehaviorRecordForAudit before)
       (summarizeBehaviorRecordForAudit r @ (case before of None \<Rightarrow> [] | Some b \<Rightarrow> status_change b r) @ extraMetadata)"

definition buildBehaviorReviewAuditEntry ::
  "BehaviorScope \<Rightarrow> string \<Rightarrow> BehaviorRecord \<Rightarrow> int option \<Rightarrow> string option \<Rightarrow> string option \<Rightarrow> bool \<Rightarrow>
   BehaviorRecord \<Rightarrow> BehaviorPointLedger option \<Rightarrow> BehaviorAuditInput" where
  "buildBehaviorReviewAuditEntry scope action before effectivePoints reviewNoteEn reviewNoteAr metadataProvided r ledger =
     behavior_audit scope action (br_id r) (Some (summarizeBehaviorRecordForAudit before))
       (summarizeBehaviorRecordForAudit r @
        [(''pointsBefore'', DInt (br_points before)), (''effectivePoints'', detail_of_int_option effectivePoints)] @
        status_change before r @
        [(''ledgerEntryId'', detail_of_str_option (map_option bl_id ledger)),
         (''ledgerEntryType'', detail_of_str_option
            (map_option (\<lambda>l. BehaviorPointLedgerEntryType_name (bl_entryType l)) ledger)),
         (''reviewNotePresence.en'', DBool (truthy reviewNoteEn)),
         (''reviewNotePresence.ar'', DBool (truthy reviewNoteAr)),
         (''metadataProvided'', DBool metadataProvided)])"

section \<open>Creating a record\<close>

record CreateBehaviorRecordDto = BehaviorRecordContentFields +
  cb_academicYearId :: string
  cb_termId :: "string option"
  cb_studentId :: string
  cb_enrollmentId :: "string option"
  cb_categoryId :: "string option"
  cb_type :: "string option"
  cb_severity :: "string option"
  cb_points :: "int option"
  cb_occurredAt :: string
  cb_metadata :: "json_object option"

text \<open>An enum column: Prisma rejects a value that is not in the enum.\<close>

definition type_column :: "js_value \<Rightarrow> BehaviorRecordType result" where
  "type_column v =
     (if v = JStr ''POSITIVE'' then Inr Behavior_POSITIVE
      else if v = JStr ''NEGATIVE'' then Inr Behavior_NEGATIVE
      else Inl (JsError ''PrismaClientValidationError''))"

definition severity_column :: "js_value \<Rightarrow> BehaviorSeverity result" where
  "severity_column v =
     (if v = JStr ''LOW'' then Inr Severity_LOW
      else if v = JStr ''MEDIUM'' then Inr Severity_MEDIUM
      else if v = JStr ''HIGH'' then Inr Severity_HIGH
      else if v = JStr ''CRITICAL'' then Inr Severity_CRITICAL
      else Inl (JsError ''PrismaClientValidationError''))"

definition normalizeRecordContent :: "'a BehaviorRecordContentFields_scheme \<Rightarrow> BehaviorRecordContentFields" where
  "normalizeRecordContent input =
     \<lparr>bc_titleEn = trimmed_or_null (bc_titleEn input), bc_titleAr = trimmed_or_null (bc_titleAr input),
      bc_noteEn = trimmed_or_null (bc_noteEn input), bc_noteAr = trimmed_or_null (bc_noteAr input)\<rparr>"

definition optionally :: "('a \<Rightarrow> 'b result) \<Rightarrow> 'a option \<Rightarrow> 'b option result" where
  "optionally f x = (case x of None \<Rightarrow> Inr None | Some y \<Rightarrow> map_sum id Some (f y))"

definition if_truthy :: "string option \<Rightarrow> string option" where
  "if_truthy s = (if truthy s then s else None)"

definition buildCreateBehaviorRecordInput ::
  "(string \<Rightarrow> int option) \<Rightarrow> BehaviorScope \<Rightarrow> CreateBehaviorRecordDto \<Rightarrow> BehaviorDb \<Rightarrow> BehaviorRecord result" where
  "buildCreateBehaviorRecordInput parse scope command db =
     (let school = bsc_schoolId scope in
      andThen (requireAcademicYear school (cb_academicYearId command) db) (\<lambda>_.
      andThen (optionally (\<lambda>i. requireTerm school i db) (if_truthy (cb_termId command))) (\<lambda>trm.
      andThen (case trm of
                 None \<Rightarrow> Inr ()
               | Some t \<Rightarrow> if bt_academicYearId t \<noteq> cb_academicYearId command
                           then Inl (BehaviorScopeInvalidException
                                  [(''academicYearId'', DStr (cb_academicYearId command)), (''termId'', DStr (bt_id t))])
                           else Inr ()) (\<lambda>_.
      andThen (requireStudent school (cb_studentId command) db) (\<lambda>_.
      andThen (if truthy (cb_enrollmentId command)
               then map_sum id Some (requireEnrollment school (the (cb_enrollmentId command)) db)
               else Inr (findBehaviorEnrollmentForStudent school (cb_studentId command) (cb_academicYearId command)
                           (cb_termId command) db)) (\<lambda>enrollment.
      andThen (case enrollment of
                 None \<Rightarrow> Inr ()
               | Some e \<Rightarrow> assertEnrollmentMatchesScope e (Some (cb_studentId command))
                            (Some (cb_academicYearId command)) (cb_termId command)) (\<lambda>_.
      andThen (optionally (\<lambda>i. requireCategory school i db) (if_truthy (cb_categoryId command))) (\<lambda>category.
      andThen (deriveBehaviorRecordDefaultsFromCategory category (cb_type command) (cb_severity command)
                 (map_option of_int (cb_points command))) (\<lambda>defaults.
      andThen (parseBehaviorIsoDate parse (cb_occurredAt command) ''occurredAt'') (\<lambda>occurredAt.
      andThen (assertBehaviorOccurredAtInsideTerm occurredAt trm) (\<lambda>_.
      let content = normalizeRecordContent command in
      andThen (assertBehaviorRecordContentPresent content) (\<lambda>_.
      andThen (assertBehaviorRecordPointsCompatible (bd_type defaults) (Some (bd_points defaults))) (\<lambda>_.
      andThen (type_column (bd_type defaults)) (\<lambda>type.
      andThen (severity_column (bd_severity defaults)) (\<lambda>severity.
        Inr \<lparr>bc_titleEn = bc_titleEn content, bc_titleAr = bc_titleAr content, bc_noteEn = bc_noteEn content,
             bc_noteAr = bc_noteAr content, br_id = '''', br_schoolId = school,
             br_academicYearId = cb_academicYearId command, br_termId = cb_termId command,
             br_studentId = cb_studentId command, br_enrollmentId = map_option ben_id enrollment,
             br_categoryId = map_option cat_id category, br_type = type, br_severity = severity,
             br_status = Record_DRAFT, br_points = \<lfloor>bd_points defaults\<rfloor>, br_occurredAt = occurredAt,
             br_createdById = bsc_actorId scope, br_submittedById = None, br_submittedAt = None,
             br_reviewedById = None, br_reviewedAt = None, br_cancelledById = None, br_cancelledAt = None,
             br_reviewNoteEn = None, br_reviewNoteAr = None, br_cancellationReasonEn = None,
             br_cancellationReasonAr = None, br_metadata = cb_metadata command,
             br_deletedAt = None\<rparr>)))))))))))))))"

section \<open>Updating a record\<close>

text \<open>An absent key is \<open>None\<close>; a key with the value null is \<open>Some None\<close>.\<close>

record UpdateBehaviorRecordDto =
  ub_categoryId :: "string option option"
  ub_type :: "string option option"
  ub_severity :: "string option option"
  ub_titleEn :: "string option option"
  ub_titleAr :: "string option option"
  ub_noteEn :: "string option option"
  ub_noteAr :: "string option option"
  ub_points :: "int option option"
  ub_occurredAt :: "string option option"
  ub_metadata :: "json_object option option"

text \<open>The value of a key when it is there, otherwise the default of a newly chosen category, otherwise
  what the record has.\<close>

definition next_value :: "'a result option \<Rightarrow> bool \<Rightarrow> 'b option \<Rightarrow> ('b \<Rightarrow> 'a result) \<Rightarrow> 'a \<Rightarrow> 'a result" where
  "next_value given categoryChanged category chosen existing =
     (case given of
        Some v \<Rightarrow> v
      | None \<Rightarrow> (if categoryChanged then (case category of Some c \<Rightarrow> chosen c | None \<Rightarrow> Inr existing) else Inr existing))"

definition next_text :: "string option option \<Rightarrow> string option \<Rightarrow> string option" where
  "next_text given existing = (case given of Some v \<Rightarrow> trimmed_or_null v | None \<Rightarrow> existing)"

definition when_given :: "'a option \<Rightarrow> record_update \<Rightarrow> record_update list" where
  "when_given given f = (if given \<noteq> None then [f] else [])"

definition buildUpdateBehaviorRecordInput ::
  "(string \<Rightarrow> int option) \<Rightarrow> string \<Rightarrow> BehaviorRecord \<Rightarrow> UpdateBehaviorRecordDto \<Rightarrow> BehaviorDb \<Rightarrow>
   record_update list result" where
  "buildUpdateBehaviorRecordInput parse school existing command db =
     andThen (case ub_categoryId command of
                None \<Rightarrow> Inr (record_category db existing)
              | Some i \<Rightarrow>
                  if \<not> truthy i
                  then Inl (ValidationDomainException ''Behavior category id is invalid'' [(''field'', DStr ''categoryId'')])
                  else map_sum id Some (requireCategory school (the i) db)) (\<lambda>category.
     let categoryChanged = ub_categoryId command \<noteq> None in
     andThen (next_value (map_option (\<lambda>t. normalizeBehaviorRecordType (map_option JStr t)) (ub_type command))
                categoryChanged category (\<lambda>c. normalizeBehaviorRecordType (Some (category_type c)))
                (JStr (BehaviorRecordType_name (br_type existing)))) (\<lambda>nextType.
     andThen (next_value (map_option (\<lambda>s. normalizeBehaviorSeverity (map_option JStr s)) (ub_severity command))
                categoryChanged category
                (\<lambda>c. normalizeBehaviorSeverity (Some (JStr (BehaviorSeverity_name (cat_defaultSeverity c)))))
                (JStr (BehaviorSeverity_name (br_severity existing)))) (\<lambda>nextSeverity.
     andThen (next_value (map_option (\<lambda>n. Inr (case n of None \<Rightarrow> 0 | Some k \<Rightarrow> k)) (ub_points command))
                categoryChanged category (\<lambda>c. Inr (cat_defaultPoints c)) (br_points existing)) (\<lambda>nextPoints.
     andThen (case category of
                None \<Rightarrow> Inr ()
              | Some c \<Rightarrow> andThen (assertBehaviorRecordCategoryActive (Some c)) (\<lambda>_.
                  assertBehaviorRecordCategoryCompatible (category_type c) nextType (Some (cat_id c)))) (\<lambda>_.
     let content = \<lparr>bc_titleEn = next_text (ub_titleEn command) (bc_titleEn existing),
                    bc_titleAr = next_text (ub_titleAr command) (bc_titleAr existing),
                    bc_noteEn = next_text (ub_noteEn command) (bc_noteEn existing),
                    bc_noteAr = next_text (ub_noteAr command) (bc_noteAr existing)\<rparr> in
     andThen (assertBehaviorRecordContentPresent content) (\<lambda>_.
     andThen (assertBehaviorRecordPointsCompatible nextType (Some (of_int nextPoints))) (\<lambda>_.
     andThen (case ub_occurredAt command of
                None \<Rightarrow> Inr (br_occurredAt existing)
              | Some None \<Rightarrow> Inr 0
              | Some (Some s) \<Rightarrow> parseBehaviorIsoDate parse s ''occurredAt'') (\<lambda>occurredAt.
     andThen (assertBehaviorOccurredAtInsideTerm occurredAt (record_term db existing)) (\<lambda>_.
     andThen (type_column nextType) (\<lambda>type.
     andThen (severity_column nextSeverity) (\<lambda>severity.
       Inr ((if categoryChanged then [\<lambda>r. r\<lparr>br_categoryId := map_option cat_id category\<rparr>] else []) @
            (if ub_type command \<noteq> None \<or> categoryChanged then [\<lambda>r. r\<lparr>br_type := type\<rparr>] else []) @
            (if ub_severity command \<noteq> None \<or> categoryChanged then [\<lambda>r. r\<lparr>br_severity := severity\<rparr>] else []) @
            (if ub_points command \<noteq> None \<or> categoryChanged then [\<lambda>r. r\<lparr>br_points := nextPoints\<rparr>] else []) @
            when_given (ub_titleEn command) (\<lambda>r. r\<lparr>bc_titleEn := bc_titleEn content\<rparr>) @
            when_given (ub_titleAr command) (\<lambda>r. r\<lparr>bc_titleAr := bc_titleAr content\<rparr>) @
            when_given (ub_noteEn command) (\<lambda>r. r\<lparr>bc_noteEn := bc_noteEn content\<rparr>) @
            when_given (ub_noteAr command) (\<lambda>r. r\<lparr>bc_noteAr := bc_noteAr content\<rparr>) @
            when_given (ub_occurredAt command) (\<lambda>r. r\<lparr>br_occurredAt := occurredAt\<rparr>) @
            when_given (ub_metadata command) (\<lambda>r. r\<lparr>br_metadata := the (ub_metadata command)\<rparr>)))))))))))))"

section \<open>Submitting and cancelling\<close>

definition validateSubmittableBehaviorRecord :: "string \<Rightarrow> BehaviorRecord \<Rightarrow> BehaviorDb \<Rightarrow> unit result" where
  "validateSubmittableBehaviorRecord school r db =
     andThen (assertBehaviorRecordContentPresent r) (\<lambda>_.
     andThen (if truthy (br_categoryId r)
              then
                let category = findCategoryById school (the (br_categoryId r)) db
                in andThen (assertBehaviorRecordCategoryActive category) (\<lambda>_.
                     case category of
                       None \<Rightarrow> Inl (BehaviorScopeInvalidException [(''categoryId'', detail_of_str_option (br_categoryId r))])
                     | Some c \<Rightarrow> assertBehaviorRecordCategoryCompatible (category_type c)
                                  (JStr (BehaviorRecordType_name (br_type r))) (Some (cat_id c)))
              else Inr ()) (\<lambda>_.
       assertBehaviorRecordPointsCompatible (JStr (BehaviorRecordType_name (br_type r))) (Some (of_int (br_points r)))))"

definition submit_data :: "int \<Rightarrow> string \<Rightarrow> record_update list" where
  "submit_data now actorId =
     [\<lambda>r. r\<lparr>br_status := Record_SUBMITTED\<rparr>, \<lambda>r. r\<lparr>br_submittedAt := Some now\<rparr>,
      \<lambda>r. r\<lparr>br_submittedById := Some actorId\<rparr>]"

record CancelBehaviorRecordDto =
  cc_reasonEn :: "string option"
  cc_reasonAr :: "string option"
  cc_metadata :: "json_object option option"

definition cancel_data :: "int \<Rightarrow> string \<Rightarrow> CancelBehaviorRecordDto \<Rightarrow> record_update list" where
  "cancel_data now actorId command =
     [\<lambda>r. r\<lparr>br_status := Record_CANCELLED\<rparr>, \<lambda>r. r\<lparr>br_cancelledAt := Some now\<rparr>,
      \<lambda>r. r\<lparr>br_cancelledById := Some actorId\<rparr>,
      \<lambda>r. r\<lparr>br_cancellationReasonEn := trimmed_or_null (cc_reasonEn command)\<rparr>,
      \<lambda>r. r\<lparr>br_cancellationReasonAr := trimmed_or_null (cc_reasonAr command)\<rparr>] @
     when_given (cc_metadata command) (\<lambda>r. r\<lparr>br_metadata := the (cc_metadata command)\<rparr>)"

section \<open>Reviewing\<close>

record ApproveBehaviorRecordDto =
  ab_reviewNoteEn :: "string option"
  ab_reviewNoteAr :: "string option"
  ab_pointsOverride :: "int option option"
  ab_metadata :: "json_object option option"

definition assertReviewCategoryActive :: "string \<Rightarrow> BehaviorRecord \<Rightarrow> BehaviorDb \<Rightarrow> unit result" where
  "assertReviewCategoryActive school r db =
     (if \<not> truthy (br_categoryId r) then Inr ()
      else
        let inactive = Inl (BehaviorCategoryInactiveException [(''categoryId'', detail_of_str_option (br_categoryId r))])
        in case findCategoryById school (the (br_categoryId r)) db of
             None \<Rightarrow> inactive
           | Some c \<Rightarrow> if cat_isActive c then Inr () else inactive)"

definition buildApprovalLedgerMetadata :: "ApproveBehaviorRecordDto \<Rightarrow> int \<Rightarrow> int \<Rightarrow> LedgerMetadata" where
  "buildApprovalLedgerMetadata command pointsBefore effectivePoints =
     \<lparr>lm_source = ''behavior_record_approval'',
      lm_pointsOverride = (if ab_pointsOverride command \<noteq> None then Some (pointsBefore, effectivePoints) else None),
      lm_reviewMetadata = ab_metadata command\<rparr>"

definition review_data ::
  "BehaviorRecordStatus \<Rightarrow> int \<Rightarrow> string \<Rightarrow> string option \<Rightarrow> string option \<Rightarrow> record_update list" where
  "review_data status now actorId noteEn noteAr =
     [\<lambda>r. r\<lparr>br_status := status\<rparr>, \<lambda>r. r\<lparr>br_reviewedAt := Some now\<rparr>, \<lambda>r. r\<lparr>br_reviewedById := Some actorId\<rparr>,
      \<lambda>r. r\<lparr>br_reviewNoteEn := noteEn\<rparr>, \<lambda>r. r\<lparr>br_reviewNoteAr := noteAr\<rparr>]"

section \<open>Requests in progress\<close>

datatype beh_request =
    CreateRecord CreateBehaviorRecordDto
  | UpdateRecord string UpdateBehaviorRecordDto
  | SubmitRecord string
  | CancelRecord string CancelBehaviorRecordDto
  | ApproveRecord string ApproveBehaviorRecordDto
  | RejectRecord string ApproveBehaviorRecordDto

datatype beh_pending =
    BCreate string BehaviorRecord "BehaviorRecord \<Rightarrow> BehaviorAuditInput"
  | BUpdate string string "record_update list" "BehaviorRecord \<Rightarrow> BehaviorAuditInput"
  | BSubmit string string "record_update list" "BehaviorRecord \<Rightarrow> BehaviorAuditInput"
  | BCancel string string "record_update list" "BehaviorRecord \<Rightarrow> BehaviorAuditInput"
  | BApprove string string "record_update list" BehaviorPointLedger
      "BehaviorRecord \<Rightarrow> BehaviorPointLedger \<Rightarrow> BehaviorAuditInput"
  | BReject string string "record_update list" "BehaviorRecord \<Rightarrow> BehaviorAuditInput"

definition CreateBehaviorRecordUseCase_prepare ::
  "(string \<Rightarrow> int option) \<Rightarrow> RequestContext option \<Rightarrow> CreateBehaviorRecordDto \<Rightarrow> BehaviorDb \<Rightarrow> beh_pending result" where
  "CreateBehaviorRecordUseCase_prepare parse ctx command db =
     andThen (requireBehaviorScope ctx) (\<lambda>scope.
     andThen (buildCreateBehaviorRecordInput parse scope command db) (\<lambda>data.
       Inr (BCreate (bsc_schoolId scope) data (buildBehaviorRecordAuditEntry scope ''behavior.record.create'' None []))))"

definition UpdateBehaviorRecordUseCase_prepare ::
  "(string \<Rightarrow> int option) \<Rightarrow> RequestContext option \<Rightarrow> string \<Rightarrow> UpdateBehaviorRecordDto \<Rightarrow> BehaviorDb \<Rightarrow>
   beh_pending result" where
  "UpdateBehaviorRecordUseCase_prepare parse ctx recordId command db =
     andThen (requireBehaviorScope ctx) (\<lambda>scope.
     andThen (requireBehaviorRecord (bsc_schoolId scope) recordId db) (\<lambda>existing.
     andThen (assertBehaviorRecordCanUpdate (JStr (BehaviorRecordStatus_name (br_status existing)))) (\<lambda>_.
     andThen (buildUpdateBehaviorRecordInput parse (bsc_schoolId scope) existing command db) (\<lambda>data.
       Inr (BUpdate (bsc_schoolId scope) (br_id existing) data
              (buildBehaviorRecordAuditEntry scope ''behavior.record.update'' (Some existing) []))))))"

definition SubmitBehaviorRecordUseCase_prepare ::
  "RequestContext option \<Rightarrow> int \<Rightarrow> string \<Rightarrow> BehaviorDb \<Rightarrow> beh_pending result" where
  "SubmitBehaviorRecordUseCase_prepare ctx now recordId db =
     andThen (requireBehaviorScope ctx) (\<lambda>scope.
     andThen (requireBehaviorRecord (bsc_schoolId scope) recordId db) (\<lambda>existing.
     andThen (assertBehaviorRecordCanSubmit (JStr (BehaviorRecordStatus_name (br_status existing)))) (\<lambda>_.
     andThen (validateSubmittableBehaviorRecord (bsc_schoolId scope) existing db) (\<lambda>_.
       Inr (BSubmit (bsc_schoolId scope) (br_id existing) (submit_data now (bsc_actorId scope))
              (buildBehaviorRecordAuditEntry scope ''behavior.record.submit'' (Some existing) []))))))"

definition CancelBehaviorRecordUseCase_prepare ::
  "RequestContext option \<Rightarrow> int \<Rightarrow> string \<Rightarrow> CancelBehaviorRecordDto \<Rightarrow> BehaviorDb \<Rightarrow> beh_pending result" where
  "CancelBehaviorRecordUseCase_prepare ctx now recordId command db =
     andThen (requireBehaviorScope ctx) (\<lambda>scope.
     andThen (requireBehaviorRecord (bsc_schoolId scope) recordId db) (\<lambda>existing.
     andThen (assertBehaviorRecordCanCancel (JStr (BehaviorRecordStatus_name (br_status existing)))) (\<lambda>_.
       Inr (BCancel (bsc_schoolId scope) (br_id existing) (cancel_data now (bsc_actorId scope) command)
              (buildBehaviorRecordAuditEntry scope ''behavior.record.cancel'' (Some existing)
                 [(''cancellationReasonProvided'', DBool (truthy (trimmed_or_null (cc_reasonEn command)) \<or>
                     truthy (trimmed_or_null (cc_reasonAr command))))])))))"

definition ApproveBehaviorRecordUseCase_prepare ::
  "RequestContext option \<Rightarrow> int \<Rightarrow> string \<Rightarrow> ApproveBehaviorRecordDto \<Rightarrow> BehaviorDb \<Rightarrow> beh_pending result" where
  "ApproveBehaviorRecordUseCase_prepare ctx now recordId command db =
     andThen (requireBehaviorScope ctx) (\<lambda>scope.
     andThen (findReviewRecordOrThrow (bsc_schoolId scope) recordId db) (\<lambda>existing.
     andThen (assertBehaviorRecordApprovable (br_id existing) (JStr (BehaviorRecordStatus_name (br_status existing)))) (\<lambda>_.
     andThen (assertReviewCategoryActive (bsc_schoolId scope) existing db) (\<lambda>_.
     let type = JStr (BehaviorRecordType_name (br_type existing));
         effectivePoints = deriveBehaviorEffectivePoints (br_points existing) (Option.bind (ab_pointsOverride command) id);
         noteEn = trimmed_or_null (ab_reviewNoteEn command); noteAr = trimmed_or_null (ab_reviewNoteAr command)
     in andThen (assertBehaviorApprovalPointsValid type (of_int effectivePoints)) (\<lambda>_.
        andThen (deriveBehaviorLedgerEntryType type) (\<lambda>entryType.
        andThen (buildBehaviorLedgerReason type (bc_titleEn existing) (bc_titleAr existing) noteEn noteAr)
          (\<lambda>(reasonEn, reasonAr).
          Inr (BApprove (bsc_schoolId scope) (br_id existing)
                 (review_data Record_APPROVED now (bsc_actorId scope) noteEn noteAr @
                  when_given (ab_pointsOverride command) (\<lambda>r. r\<lparr>br_points := effectivePoints\<rparr>) @
                  when_given (ab_metadata command) (\<lambda>r. r\<lparr>br_metadata := the (ab_metadata command)\<rparr>))
                 \<lparr>bl_id = '''', bl_schoolId = bsc_schoolId scope, bl_academicYearId = br_academicYearId existing,
                  bl_termId = br_termId existing, bl_studentId = br_studentId existing,
                  bl_enrollmentId = br_enrollmentId existing, bl_recordId = br_id existing,
                  bl_categoryId = br_categoryId existing, bl_entryType = entryType, bl_amount = effectivePoints,
                  bl_reasonEn = reasonEn, bl_reasonAr = reasonAr, bl_actorId = bsc_actorId scope,
                  bl_occurredAt = now,
                  bl_metadata = buildApprovalLedgerMetadata command (br_points existing) effectivePoints\<rparr>
                 (\<lambda>r l. buildBehaviorReviewAuditEntry scope ''behavior.record.approve'' existing
                    (Some effectivePoints) noteEn noteAr (ab_metadata command \<noteq> None) r (Some l))))))))))"

definition RejectBehaviorRecordUseCase_prepare ::
  "RequestContext option \<Rightarrow> int \<Rightarrow> string \<Rightarrow> ApproveBehaviorRecordDto \<Rightarrow> BehaviorDb \<Rightarrow> beh_pending result" where
  "RejectBehaviorRecordUseCase_prepare ctx now recordId command db =
     andThen (requireBehaviorScope ctx) (\<lambda>scope.
     andThen (findReviewRecordOrThrow (bsc_schoolId scope) recordId db) (\<lambda>existing.
     andThen (assertBehaviorRecordRejectable (br_id existing) (JStr (BehaviorRecordStatus_name (br_status existing)))) (\<lambda>_.
     let noteEn = trimmed_or_null (ab_reviewNoteEn command); noteAr = trimmed_or_null (ab_reviewNoteAr command)
     in Inr (BReject (bsc_schoolId scope) (br_id existing)
               (review_data Record_REJECTED now (bsc_actorId scope) noteEn noteAr @
                when_given (ab_metadata command) (\<lambda>r. r\<lparr>br_metadata := the (ab_metadata command)\<rparr>))
               (\<lambda>r. buildBehaviorReviewAuditEntry scope ''behavior.record.reject'' existing None noteEn noteAr
                  (ab_metadata command \<noteq> None) r None)))))"

fun beh_prepare ::
  "(string \<Rightarrow> int option) \<Rightarrow> RequestContext option \<Rightarrow> int \<Rightarrow> beh_request \<Rightarrow> BehaviorDb \<Rightarrow> beh_pending result" where
  "beh_prepare parse ctx now (CreateRecord command) db = CreateBehaviorRecordUseCase_prepare parse ctx command db"
| "beh_prepare parse ctx now (UpdateRecord rid command) db = UpdateBehaviorRecordUseCase_prepare parse ctx rid command db"
| "beh_prepare parse ctx now (SubmitRecord rid) db = SubmitBehaviorRecordUseCase_prepare ctx now rid db"
| "beh_prepare parse ctx now (CancelRecord rid command) db = CancelBehaviorRecordUseCase_prepare ctx now rid command db"
| "beh_prepare parse ctx now (ApproveRecord rid command) db = ApproveBehaviorRecordUseCase_prepare ctx now rid command db"
| "beh_prepare parse ctx now (RejectRecord rid command) db = RejectBehaviorRecordUseCase_prepare ctx now rid command db"

text \<open>The transaction of a request; an approval catches the violation of a unique index.\<close>

fun beh_commit :: "string \<Rightarrow> beh_pending \<Rightarrow> BehaviorDb \<Rightarrow> (BehaviorRecord \<times> BehaviorDb) result" where
  "beh_commit newId (BCreate school data audit) db = createRecord newId school data audit db"
| "beh_commit newId (BUpdate school rid data audit) db = updateRecord school rid data audit db"
| "beh_commit newId (BSubmit school rid data audit) db = submitRecord school rid data audit db"
| "beh_commit newId (BCancel school rid data audit) db = cancelRecord school rid data audit db"
| "beh_commit newId (BApprove school rid data ledger audit) db =
     (case approveRecordWithPointLedger newId school rid data ledger audit db of
        Inl error \<Rightarrow> Inl (if error = PrismaError ''P2002''
                          then BehaviorPointsDuplicateSourceException [(''recordId'', DStr rid)] else error)
      | Inr r \<Rightarrow> Inr r)"
| "beh_commit newId (BReject school rid data audit) db = rejectRecord school rid data audit db"

text \<open>The two relations of the interface: a request that has passed its checks, and its transaction, which
  leaves the tables as they are when it throws.\<close>

definition beh_start :: "(string \<Rightarrow> int option) \<Rightarrow> BehaviorDb \<Rightarrow> beh_pending \<Rightarrow> bool" where
  "beh_start parse db p \<longleftrightarrow> (\<exists>ctx now req. beh_prepare parse ctx now req db = Inr p)"

definition beh_finish :: "beh_pending \<Rightarrow> BehaviorDb \<Rightarrow> BehaviorDb \<Rightarrow> bool" where
  "beh_finish p db db' \<longleftrightarrow>
     (\<exists>newId. case beh_commit newId p db of Inl e \<Rightarrow> db' = db | Inr (r, db1) \<Rightarrow> db' = db1)"

end
