(* ===== verification/Behavior_Theorems.thy ===== *)
theory Behavior_Theorems
  imports Behavior_Requests Lifecycle
begin

text \<open>
  The guarantees of behavior records: what the point ledger holds however requests interleave, that ledger
  and records agree when they do not, and where they come apart.
\<close>

section \<open>An example\<close>

text \<open>A submitted positive record of one student, worth five points.\<close>

definition submitted_record :: BehaviorRecord where
  "submitted_record = \<lparr>bc_titleEn = Some ''helpful'', bc_titleAr = None, bc_noteEn = None, bc_noteAr = None,
     br_id = ''r'', br_schoolId = ''s'', br_academicYearId = ''y'', br_termId = None, br_studentId = ''x'',
     br_enrollmentId = None, br_categoryId = None, br_type = Behavior_POSITIVE, br_severity = Severity_LOW,
     br_status = Record_SUBMITTED, br_points = 5, br_occurredAt = 0, br_createdById = ''u'', br_submittedById = None,
     br_submittedAt = None, br_reviewedById = None, br_reviewedAt = None, br_cancelledById = None, br_cancelledAt = None,
     br_reviewNoteEn = None, br_reviewNoteAr = None, br_cancellationReasonEn = None, br_cancellationReasonAr = None,
     br_metadata = None, br_deletedAt = None\<rparr>"

definition behavior_db :: BehaviorDb where
  "behavior_db = \<lparr>bdb_years = [], bdb_terms = [], bdb_students = [], bdb_enrollments = [], bdb_categories = [],
     bdb_records = [submitted_record], bdb_ledger = [], bdb_audit = []\<rparr>"

definition behavior_caller :: "RequestContext option" where
  "behavior_caller = Some \<lparr>rc_requestId = ''q'', rc_actor = Some \<lparr>actor_id = ''u'', actor_userType = ''STAFF''\<rparr>,
     rc_activeMembership = Some \<lparr>am_membershipId = ''m'', am_schoolId = Some ''s'', am_organizationId = ''o'',
       am_roleId = ''k'', am_permissions = []\<rparr>,
     rc_bypass = \<lparr>bypassSchoolScope = False, includeSoftDeleted = False\<rparr>\<rparr>"

definition approve_with_seven :: ApproveBehaviorRecordDto where
  "approve_with_seven = \<lparr>ab_reviewNoteEn = None, ab_reviewNoteAr = None, ab_pointsOverride = Some (Some 7), ab_metadata = None\<rparr>"

definition behavior_approval :: beh_pending where
  "behavior_approval = projr (beh_prepare (\<lambda>_. None) behavior_caller 9 (ApproveRecord ''r'' approve_with_seven) behavior_db)"

definition behavior_cancellation :: beh_pending where
  "behavior_cancellation = projr (beh_prepare (\<lambda>_. None) behavior_caller 9
     (CancelRecord ''r'' \<lparr>cc_reasonEn = None, cc_reasonAr = None, cc_metadata = None\<rparr>) behavior_db)"

definition behavior_approved_db :: BehaviorDb where
  "behavior_approved_db = snd (projr (beh_commit ''l'' behavior_approval behavior_db))"

lemma not_isl_projr: "\<not> isl x \<Longrightarrow> x = Inr (projr x)"
  by (cases x) simp_all

lemma behavior_approval_prepared:
  "beh_prepare (\<lambda>_. None) behavior_caller 9 (ApproveRecord ''r'' approve_with_seven) behavior_db = Inr behavior_approval"
  unfolding behavior_approval_def by (rule not_isl_projr) code_simp

lemma behavior_cancellation_prepared:
  "beh_prepare (\<lambda>_. None) behavior_caller 9 (CancelRecord ''r'' \<lparr>cc_reasonEn = None, cc_reasonAr = None, cc_metadata = None\<rparr>)
     behavior_db = Inr behavior_cancellation"
  unfolding behavior_cancellation_def by (rule not_isl_projr) code_simp

lemma behavior_approval_committed:
  "\<exists>r. beh_commit ''l'' behavior_approval behavior_db = Inr (r, behavior_approved_db)"
proof -
  have "beh_commit ''l'' behavior_approval behavior_db = Inr (projr (beh_commit ''l'' behavior_approval behavior_db))"
    by (rule not_isl_projr) code_simp
  then show ?thesis unfolding behavior_approved_db_def by (metis prod.collapse)
qed

lemma behavior_example_start: "beh_start (\<lambda>_. None) behavior_db behavior_approval"
  unfolding beh_start_def using behavior_approval_prepared by blast

lemma behavior_example_finish: "beh_finish behavior_approval behavior_db behavior_approved_db"
proof -
  obtain r where "beh_commit ''l'' behavior_approval behavior_db = Inr (r, behavior_approved_db)"
    using behavior_approval_committed by blast
  then show ?thesis unfolding beh_finish_def by (intro exI [of _ "''l''"]) simp
qed

section \<open>Updates of records\<close>

text \<open>What no request ever changes in a record.\<close>

abbreviation record_core :: "BehaviorRecord \<Rightarrow> string \<times> string \<times> string \<times> int option" where
  "record_core r \<equiv> (br_id r, br_schoolId r, br_studentId r, br_deletedAt r)"

definition keeps :: "(BehaviorRecord \<Rightarrow> 'a) \<Rightarrow> record_update list \<Rightarrow> bool" where
  "keeps g data \<longleftrightarrow> (\<forall>f \<in> set data. \<forall>r. g (f r) = g r)"

lemma apply_updates_keep: "keeps g data \<Longrightarrow> g (apply_updates data r) = g r"
  unfolding apply_updates_def keeps_def by (induction data arbitrary: r) simp_all

lemma apply_updates_simps [simp]:
  "apply_updates [] r = r" "apply_updates (f # fs) r = apply_updates fs (f r)"
  "apply_updates (fs @ gs) r = apply_updates gs (apply_updates fs r)"
  by (simp_all add: apply_updates_def)

lemma keeps_simps [simp]:
  "keeps g []" "keeps g (f # fs) \<longleftrightarrow> (\<forall>r. g (f r) = g r) \<and> keeps g fs"
  "keeps g (fs @ gs) \<longleftrightarrow> keeps g fs \<and> keeps g gs"
  "keeps g (when_given x f) \<longleftrightarrow> x = None \<or> (\<forall>r. g (f r) = g r)"
  by (auto simp: keeps_def when_given_def)

lemma apply_when_given: "apply_updates (when_given x f) r = (if x = None then r else f r)"
  by (simp add: when_given_def)

section \<open>Requests that have passed their checks\<close>

definition live_row :: "BehaviorDb \<Rightarrow> string \<Rightarrow> string \<Rightarrow> BehaviorRecord \<Rightarrow> bool" where
  "live_row db school rid r \<longleftrightarrow>
     r \<in> set (bdb_records db) \<and> br_id r = rid \<and> br_schoolId r = school \<and> br_deletedAt r = None"

lemma requireBehaviorRecordD:
  "requireBehaviorRecord school rid db = Inr r \<Longrightarrow> live_row db school (br_id r) r"
  by (auto simp: requireBehaviorRecord_def found_def findBehaviorRecordById_def live_row_def
      split: option.splits dest!: findFirst_SomeD)

lemma findReviewRecordD:
  "findReviewRecordOrThrow school rid db = Inr r \<Longrightarrow> live_row db school (br_id r) r"
  by (auto simp: findReviewRecordOrThrow_def found_def findReviewRecordById_def live_row_def
      split: option.splits dest!: findFirst_SomeD)

lemma update_input_keeps:
  assumes "buildUpdateBehaviorRecordInput parse school existing command db = Inr data"
  shows "keeps record_core data \<and> keeps br_status data"
  using assms unfolding buildUpdateBehaviorRecordInput_def Let_def
  by (elim andThen_eq_Inr [THEN iffD1, elim_format] exE conjE) (auto simp: andThen_eq_Inr)

fun entry_type_of :: "BehaviorRecordType \<Rightarrow> BehaviorPointLedgerEntryType" where
  "entry_type_of Behavior_POSITIVE = Ledger_AWARD"
| "entry_type_of Behavior_NEGATIVE = Ledger_PENALTY"

text \<open>What the checks of a request have established about the tables they were made on.\<close>

fun checked :: "BehaviorDb \<Rightarrow> beh_pending \<Rightarrow> bool" where
  "checked db (BCreate school data audit) \<longleftrightarrow> br_status data = Record_DRAFT \<and> br_deletedAt data = None"
| "checked db (BUpdate school rid data audit) \<longleftrightarrow>
     (\<exists>r. live_row db school rid r \<and> br_status r = Record_DRAFT) \<and> keeps record_core data \<and> keeps br_status data"
| "checked db (BSubmit school rid data audit) \<longleftrightarrow>
     (\<exists>r. live_row db school rid r \<and> br_status r = Record_DRAFT) \<and> keeps record_core data \<and>
     (\<forall>x. br_status (apply_updates data x) = Record_SUBMITTED)"
| "checked db (BCancel school rid data audit) \<longleftrightarrow>
     (\<exists>r. live_row db school rid r \<and> (br_status r = Record_DRAFT \<or> br_status r = Record_SUBMITTED)) \<and>
     keeps record_core data \<and> (\<forall>x. br_status (apply_updates data x) = Record_CANCELLED)"
| "checked db (BApprove school rid data ledger audit) \<longleftrightarrow>
     keeps record_core data \<and> (\<forall>x. br_status (apply_updates data x) = Record_APPROVED) \<and>
     (\<exists>r. live_row db school rid r \<and> br_status r = Record_SUBMITTED \<and> bl_recordId ledger = rid \<and>
        bl_studentId ledger = br_studentId r \<and> bl_amount ledger = br_points (apply_updates data r) \<and>
        bl_entryType ledger = entry_type_of (br_type r) \<and> points_fit (br_type r) (bl_amount ledger))"
| "checked db (BReject school rid data audit) \<longleftrightarrow>
     (\<exists>r. live_row db school rid r \<and> br_status r = Record_SUBMITTED) \<and> keeps record_core data \<and>
     (\<forall>x. br_status (apply_updates data x) = Record_REJECTED)"

lemma create_checked:
  assumes "CreateBehaviorRecordUseCase_prepare parse ctx command db = Inr p"
  shows "checked db p"
  using assms
  by (auto simp: CreateBehaviorRecordUseCase_prepare_def buildCreateBehaviorRecordInput_def Let_def andThen_eq_Inr)

lemma update_checked:
  assumes "UpdateBehaviorRecordUseCase_prepare parse ctx rid command db = Inr p"
  shows "checked db p"
  using assms
  by (auto simp: UpdateBehaviorRecordUseCase_prepare_def andThen_eq_Inr can_update_iff
      dest!: requireBehaviorRecordD update_input_keeps)

lemma submit_checked:
  assumes "SubmitBehaviorRecordUseCase_prepare ctx now rid db = Inr p"
  shows "checked db p"
  using assms
  by (auto simp: SubmitBehaviorRecordUseCase_prepare_def andThen_eq_Inr can_submit_iff submit_data_def
      dest!: requireBehaviorRecordD)

lemma cancel_checked:
  assumes "CancelBehaviorRecordUseCase_prepare ctx now rid command db = Inr p"
  shows "checked db p"
  using assms
  by (auto simp: CancelBehaviorRecordUseCase_prepare_def andThen_eq_Inr can_cancel_iff cancel_data_def
      apply_when_given dest!: requireBehaviorRecordD)

lemma reject_checked:
  assumes "RejectBehaviorRecordUseCase_prepare ctx now rid command db = Inr p"
  shows "checked db p"
  using assms
  by (auto simp: RejectBehaviorRecordUseCase_prepare_def andThen_eq_Inr assertBehaviorRecordRejectable_def
      reviewable_iff review_data_def apply_when_given Let_def dest!: findReviewRecordD)

lemma ledger_entry_type: "deriveBehaviorLedgerEntryType (JStr (BehaviorRecordType_name t)) = Inr (entry_type_of t)"
  by (cases t) (simp_all add: deriveBehaviorLedgerEntryType_def)

lemma approve_checked:
  assumes "ApproveBehaviorRecordUseCase_prepare ctx now rid command db = Inr p"
  shows "checked db p"
proof -
  from assms obtain scope r where r: "findReviewRecordOrThrow (bsc_schoolId scope) rid db = Inr r"
    "br_status r = Record_SUBMITTED"
    and rest: "(let type = JStr (BehaviorRecordType_name (br_type r));
         effectivePoints = deriveBehaviorEffectivePoints (br_points r) (Option.bind (ab_pointsOverride command) id);
         noteEn = trimmed_or_null (ab_reviewNoteEn command); noteAr = trimmed_or_null (ab_reviewNoteAr command)
     in andThen (assertBehaviorApprovalPointsValid type (of_int effectivePoints)) (\<lambda>_.
        andThen (deriveBehaviorLedgerEntryType type) (\<lambda>entryType.
        andThen (buildBehaviorLedgerReason type (bc_titleEn r) (bc_titleAr r) noteEn noteAr) (\<lambda>(reasonEn, reasonAr).
          Inr (BApprove (bsc_schoolId scope) (br_id r)
                 (review_data Record_APPROVED now (bsc_actorId scope) noteEn noteAr @
                  when_given (ab_pointsOverride command) (\<lambda>r. r\<lparr>br_points := effectivePoints\<rparr>) @
                  when_given (ab_metadata command) (\<lambda>r. r\<lparr>br_metadata := the (ab_metadata command)\<rparr>))
                 \<lparr>bl_id = [], bl_schoolId = bsc_schoolId scope, bl_academicYearId = br_academicYearId r,
                  bl_termId = br_termId r, bl_studentId = br_studentId r,
                  bl_enrollmentId = br_enrollmentId r, bl_recordId = br_id r,
                  bl_categoryId = br_categoryId r, bl_entryType = entryType, bl_amount = effectivePoints,
                  bl_reasonEn = reasonEn, bl_reasonAr = reasonAr, bl_actorId = bsc_actorId scope,
                  bl_occurredAt = now,
                  bl_metadata = buildApprovalLedgerMetadata command (br_points r) effectivePoints\<rparr>
                 (\<lambda>x l. buildBehaviorReviewAuditEntry scope ''behavior.record.approve'' r
                    (Some effectivePoints) noteEn noteAr (ab_metadata command \<noteq> None) x (Some l))))))) = Inr p"
    unfolding ApproveBehaviorRecordUseCase_prepare_def assertBehaviorRecordApprovable_def andThen_eq_Inr
    by (elim exE conjE) (simp add: reviewable_iff)
  define n where "n = deriveBehaviorEffectivePoints (br_points r) (Option.bind (ab_pointsOverride command) id)"
  have n: "n = br_points (if ab_pointsOverride command = None then r else r\<lparr>br_points := n\<rparr>)"
    by (simp add: n_def deriveBehaviorEffectivePoints_def)
  note live = findReviewRecordD [OF r(1)]
  from rest show ?thesis
    unfolding Let_def n_def [symmetric] assertBehaviorApprovalPointsValid_def andThen_eq_Inr
    using live r(2) n
    by (elim exE conjE)
      (force simp: points_compatible_iff ledger_entry_type review_data_def apply_when_given split: prod.splits)
qed

lemma beh_start_checked: "beh_start parse db p \<Longrightarrow> checked db p"
  unfolding beh_start_def
proof (elim exE)
  fix ctx now req
  assume "beh_prepare parse ctx now req db = Inr p"
  then show "checked db p"
    by (cases req) (auto dest: create_checked update_checked submit_checked cancel_checked approve_checked reject_checked)
qed

section \<open>The ledger however requests interleave\<close>

text \<open>An award does not take points and a penalty does not give any.\<close>

definition entry_sign :: "BehaviorPointLedger \<Rightarrow> bool" where
  "entry_sign l \<longleftrightarrow> (case bl_entryType l of
     Ledger_AWARD \<Rightarrow> 0 \<le> bl_amount l | Ledger_PENALTY \<Rightarrow> bl_amount l \<le> 0 | Ledger_REVERSAL \<Rightarrow> True)"

abbreviation ledger_key :: "BehaviorPointLedger \<Rightarrow> string \<times> string" where
  "ledger_key l \<equiv> (bl_schoolId l, bl_recordId l)"

definition ledger_ok :: "BehaviorPointLedger list \<Rightarrow> BehaviorDb \<Rightarrow> bool" where
  "ledger_ok booked db \<longleftrightarrow> (\<exists>new. bdb_ledger db = booked @ new) \<and>
     distinct (map ledger_key (filter effective_entry (bdb_ledger db))) \<and> (\<forall>l \<in> set (bdb_ledger db). entry_sign l)"

fun sound_pending :: "beh_pending \<Rightarrow> bool" where
  "sound_pending (BApprove school rid data ledger audit) \<longleftrightarrow> entry_sign ledger"
| "sound_pending _ \<longleftrightarrow> True"

lemma checked_sound: "checked db p \<Longrightarrow> sound_pending p"
proof (cases p)
  case (BApprove school rid data ledger audit)
  assume "checked db p"
  then obtain t where "bl_entryType ledger = entry_type_of t" "points_fit t (bl_amount ledger)" by (auto simp: BApprove)
  then show ?thesis by (cases t) (simp_all add: BApprove entry_sign_def)
qed simp_all

text \<open>A transaction appends at most one entry, and only when the unique index allows it.\<close>

lemma approve_ledger:
  assumes "approveRecordWithPointLedger newId school rid data ledger audit db = Inr (r, db')"
  shows "(\<exists>x \<in> set (bdb_records db). reviewable_row school rid x) \<and>
    bdb_records db' = map (\<lambda>x. if reviewable_row school rid x then apply_updates data x else x) (bdb_records db) \<and>
    bdb_ledger db' = bdb_ledger db @ [ledger\<lparr>bl_id := newId, bl_schoolId := school\<rparr>] \<and>
    \<not> violates_ledger_index (ledger\<lparr>bl_id := newId, bl_schoolId := school\<rparr>) (bdb_ledger db)"
  using assms
  by (auto simp: approveRecordWithPointLedger_def updateMany_def Let_def andThen_eq_Inr createBehaviorAuditLog_def
      filter_empty_conv split: if_splits)

lemma commit_ledger:
  assumes "beh_commit newId p db = Inr (r, db')"
  shows "bdb_ledger db' = bdb_ledger db \<or> (\<exists>school rid data ledger audit. p = BApprove school rid data ledger audit \<and>
    approveRecordWithPointLedger newId school rid data ledger audit db = Inr (r, db'))"
  using assms
  by (cases p) (auto simp: createRecord_def submitRecord_def cancelRecord_def updateRecord_def rejectRecord_def
      Let_def andThen_eq_Inr createBehaviorAuditLog_def split: if_splits prod.splits sum.splits)

lemma append_entry_ok:
  assumes "ledger_ok booked db" "entry_sign l" "\<not> violates_ledger_index l (bdb_ledger db)" "bdb_ledger db' = bdb_ledger db @ [l]"
  shows "ledger_ok booked db'"
  using assms by (auto simp: ledger_ok_def violates_ledger_index_def)

interpretation ledger: request_invariant "beh_start parse" beh_finish "ledger_ok booked" sound_pending
  for parse and booked
proof
  fix db p
  show "beh_start parse db p \<Longrightarrow> sound_pending p" by (blast dest: beh_start_checked checked_sound)
next
  fix db db' p
  assume ok: "ledger_ok booked db" and s: "sound_pending p" and "beh_finish p db db'"
  then obtain newId where f: "case beh_commit newId p db of Inl e \<Rightarrow> db' = db | Inr (r, db1) \<Rightarrow> db' = db1"
    by (auto simp: beh_finish_def)
  show "ledger_ok booked db'"
  proof (cases "beh_commit newId p db")
    case (Inr x)
    then obtain r where c: "beh_commit newId p db = Inr (r, db')" using f by (cases x) auto
    from commit_ledger [OF c] show ?thesis
    proof
      assume "bdb_ledger db' = bdb_ledger db"
      then show ?thesis using ok by (simp add: ledger_ok_def)
    next
      assume "\<exists>school rid data ledger audit. p = BApprove school rid data ledger audit \<and>
        approveRecordWithPointLedger newId school rid data ledger audit db = Inr (r, db')"
      then obtain school rid data ledger audit where p: "p = BApprove school rid data ledger audit"
        and a: "approveRecordWithPointLedger newId school rid data ledger audit db = Inr (r, db')" by blast
      have "entry_sign (ledger\<lparr>bl_id := newId, bl_schoolId := school\<rparr>)" using s by (simp add: p entry_sign_def split: BehaviorPointLedgerEntryType.splits)
      with approve_ledger [OF a] show ?thesis by (blast intro: append_entry_ok [OF ok])
    qed
  qed (use f ok in simp)
qed

lemma behavior_example_reached:
  "(interleaved (beh_start (\<lambda>_. None)) beh_finish)\<^sup>*\<^sup>* (behavior_db, []) (behavior_approved_db, [])"
proof (rule converse_rtranclp_into_rtranclp)
  show "interleaved (beh_start (\<lambda>_. None)) beh_finish (behavior_db, []) (behavior_db, [behavior_approval])"
    using begins [of "beh_start (\<lambda>_. None)" behavior_db behavior_approval beh_finish "[]", OF behavior_example_start]
    by (simp only: append_Nil)
  have "interleaved (beh_start (\<lambda>_. None)) beh_finish (behavior_db, [behavior_approval])
     (behavior_approved_db, remove1 behavior_approval [behavior_approval])"
    by (rule finishes [of behavior_approval "[behavior_approval]" beh_finish behavior_db behavior_approved_db
      "beh_start (\<lambda>_. None)"]) (simp_all only: list.set insert_iff behavior_example_finish simp_thms)
  then show "(interleaved (beh_start (\<lambda>_. None)) beh_finish)\<^sup>*\<^sup>* (behavior_db, [behavior_approval]) (behavior_approved_db, [])"
    by (simp only: remove1.simps simp_thms if_True r_into_rtranclp)
qed

text \<open>C31. However requests interleave, the ledger of behavior points only grows, holds at most one award or
  penalty for a record, and every award gives and every penalty takes points, if that was so before.\<close>

theorem behavior_points_booked_once:
  assumes "(interleaved (beh_start parse) beh_finish)\<^sup>*\<^sup>* (db, []) (db', ps)"
    and "distinct (map ledger_key (filter effective_entry (bdb_ledger db)))" "list_all entry_sign (bdb_ledger db)"
  shows "(\<exists>new. bdb_ledger db' = bdb_ledger db @ new) \<and>
    distinct (map ledger_key (filter effective_entry (bdb_ledger db'))) \<and> list_all entry_sign (bdb_ledger db')"
proof -
  have "ledger_ok (bdb_ledger db) db" using assms(2,3) by (simp add: ledger_ok_def list_all_iff)
  from ledger.reachable_kept [OF assms(1) this] show ?thesis by (simp add: ledger_ok_def list_all_iff)
qed

theorem behavior_points_booked_once_witness:
  "(\<exists>new. bdb_ledger behavior_approved_db = bdb_ledger behavior_db @ new) \<and>
   distinct (map ledger_key (filter effective_entry (bdb_ledger behavior_approved_db)))"
proof -
  have reached: "(interleaved (beh_start (\<lambda>_. None)) beh_finish)\<^sup>*\<^sup>* (behavior_db, []) (behavior_approved_db, [])"
    by (rule behavior_example_reached)
  have empty: "bdb_ledger behavior_db = []" by (simp add: behavior_db_def)
  from behavior_points_booked_once [OF reached] show ?thesis unfolding empty by simp
qed

section \<open>Ledger and records in isolation\<close>

definition booked :: "BehaviorDb \<Rightarrow> BehaviorRecord \<Rightarrow> BehaviorPointLedger list" where
  "booked db r = filter (\<lambda>l. effective_entry l \<and> ledger_key l = (br_schoolId r, br_id r)) (bdb_ledger db)"

text \<open>The books are balanced: an approved record has one entry, for its student and with its points, every
  other record has none, and every entry has its record.\<close>

definition balanced_record :: "BehaviorDb \<Rightarrow> BehaviorRecord \<Rightarrow> bool" where
  "balanced_record db r \<longleftrightarrow>
     (if br_status r = Record_APPROVED
      then \<exists>l. booked db r = [l] \<and> bl_amount l = br_points r \<and> bl_studentId l = br_studentId r
      else booked db r = [])"

definition balanced :: "BehaviorDb \<Rightarrow> bool" where
  "balanced db \<longleftrightarrow> distinct (map br_id (bdb_records db)) \<and> (\<forall>r \<in> set (bdb_records db). balanced_record db r) \<and>
     (\<forall>l \<in> set (bdb_ledger db). effective_entry l \<longrightarrow>
        ledger_key l \<in> (\<lambda>r. (br_schoolId r, br_id r)) ` set (bdb_records db))"

lemma balanced_same_id:
  assumes "balanced db" "r \<in> set (bdb_records db)" "r' \<in> set (bdb_records db)" "br_id r = br_id r'"
  shows "r = r'"
  using assms inj_onD [of br_id "set (bdb_records db)"] by (auto simp: balanced_def distinct_map)

text \<open>Records keep their place, id and school, and a new entry has its record.\<close>

lemma balanced_map:
  assumes bal: "balanced db" and led: "bdb_ledger db' = bdb_ledger db @ new"
    and rec: "bdb_records db' = map g (bdb_records db)"
    and g: "\<And>r. r \<in> set (bdb_records db) \<Longrightarrow> br_id (g r) = br_id r \<and> br_schoolId (g r) = br_schoolId r"
    and each: "\<And>r. r \<in> set (bdb_records db) \<Longrightarrow> balanced_record db' (g r)"
    and new: "\<forall>l \<in> set new. ledger_key l \<in> (\<lambda>r. (br_schoolId r, br_id r)) ` set (bdb_records db)"
  shows "balanced db'"
proof -
  have "map br_id (bdb_records db') = map br_id (bdb_records db)" using g by (simp add: rec)
  then have "distinct (map br_id (bdb_records db'))" using bal by (simp add: balanced_def)
  moreover have keys: "(\<lambda>r. (br_schoolId r, br_id r)) ` set (bdb_records db') = (\<lambda>r. (br_schoolId r, br_id r)) ` set (bdb_records db)"
    unfolding rec set_map image_image using g by (intro image_cong refl) simp
  moreover have "\<forall>r \<in> set (bdb_records db'). balanced_record db' r" using each by (simp add: rec)
  moreover have "\<forall>l \<in> set (bdb_ledger db'). effective_entry l \<longrightarrow>
      ledger_key l \<in> (\<lambda>r. (br_schoolId r, br_id r)) ` set (bdb_records db')"
    unfolding keys led using bal new by (auto simp: balanced_def)
  ultimately show ?thesis unfolding balanced_def by blast
qed

text \<open>Changing one record that is not approved into one that is not approved either.\<close>

lemma balanced_change:
  assumes bal: "balanced db" and led: "bdb_ledger db' = bdb_ledger db"
    and rec: "bdb_records db' = map (\<lambda>r. if q r then f r else r) (bdb_records db)"
    and f: "\<And>r. r \<in> set (bdb_records db) \<Longrightarrow> q r \<Longrightarrow> record_core (f r) = record_core r \<and>
      br_status r \<noteq> Record_APPROVED \<and> br_status (f r) \<noteq> Record_APPROVED"
  shows "balanced db'"
proof (rule balanced_map [OF bal _ rec, where new = "[]"])
  fix r
  assume r: "r \<in> set (bdb_records db)"
  let ?g = "\<lambda>r. if q r then f r else r"
  show keep: "br_id (?g r) = br_id r \<and> br_schoolId (?g r) = br_schoolId r" using f [OF r] by auto
  have "balanced_record db r" using bal r by (simp add: balanced_def)
  moreover have "booked db' (?g r) = booked db r" using keep by (simp add: booked_def led)
  ultimately show "balanced_record db' (?g r)" using f [OF r] by (auto simp: balanced_record_def)
qed (simp_all add: led)

text \<open>Approving one record with an entry for its points.\<close>

lemma balanced_approve:
  assumes bal: "balanced db" and led: "bdb_ledger db' = bdb_ledger db @ [l]"
    and rec: "bdb_records db' = map (\<lambda>r. if q r then f r else r) (bdb_records db)"
    and x: "x \<in> set (bdb_records db)" "\<And>r. r \<in> set (bdb_records db) \<Longrightarrow> q r \<longleftrightarrow> r = x"
    and fx: "record_core (f x) = record_core x" "br_status x \<noteq> Record_APPROVED" "br_status (f x) = Record_APPROVED"
    and l: "effective_entry l" "ledger_key l = (br_schoolId x, br_id x)" "bl_amount l = br_points (f x)"
      "bl_studentId l = br_studentId x"
  shows "balanced db'"
proof (rule balanced_map [OF bal led rec])
  show "\<forall>k \<in> set [l]. ledger_key k \<in> (\<lambda>r. (br_schoolId r, br_id r)) ` set (bdb_records db)" using l(2) x(1) by auto
next
  fix r
  assume r: "r \<in> set (bdb_records db)"
  let ?g = "\<lambda>r. if q r then f r else r"
  show keep: "br_id (?g r) = br_id r \<and> br_schoolId (?g r) = br_schoolId r" using x(2) [OF r] fx(1) by auto
  have b: "balanced_record db r" using bal r by (simp add: balanced_def)
  show "balanced_record db' (?g r)"
  proof (cases "r = x")
    case True
    with b fx(2) have "booked db r = []" by (simp add: balanced_record_def)
    then have "booked db' (?g r) = [l]" using keep l(1,2) True by (simp add: booked_def led)
    then show ?thesis using x(2) [OF r] True fx l(3,4) by (simp add: balanced_record_def)
  next
    case False
    then have "br_id r \<noteq> br_id x" using balanced_same_id [OF bal r x(1)] by blast
    then have "booked db' r = booked db r" using l(2) by (simp add: booked_def led)
    then show ?thesis using b x(2) [OF r] False by (simp add: balanced_record_def)
  qed
qed

lemma balanced_create:
  assumes bal: "balanced db" and led: "bdb_ledger db' = bdb_ledger db" and rec: "bdb_records db' = bdb_records db @ [x]"
    and x: "br_id x \<notin> br_id ` set (bdb_records db)" "br_status x \<noteq> Record_APPROVED"
  shows "balanced db'"
proof -
  have same: "booked db' r = booked db r" for r by (simp add: booked_def led)
  have "booked db x = []"
  proof -
    have "ledger_key l \<noteq> (br_schoolId x, br_id x)" if "l \<in> set (bdb_ledger db)" "effective_entry l" for l
    proof -
      from bal that obtain r where "r \<in> set (bdb_records db)" "bl_recordId l = br_id r" by (auto simp: balanced_def)
      then show ?thesis using x(1) by (metis image_eqI prod.inject)
    qed
    then show ?thesis by (auto simp: booked_def filter_empty_conv)
  qed
  then have "balanced_record db' x" using x(2) same by (simp add: balanced_record_def)
  moreover have "balanced_record db' r" if "r \<in> set (bdb_records db)" for r
    using bal that same by (simp add: balanced_def balanced_record_def)
  ultimately show ?thesis using bal x(1) unfolding balanced_def led rec by auto
qed

lemma updateRecord_effect:
  assumes "updateRecord school rid data audit db = Inr (r, db')"
  shows "bdb_ledger db' = bdb_ledger db \<and> bdb_records db' =
    map (\<lambda>r. if br_id r = rid \<and> br_schoolId r = school \<and> br_deletedAt r = None then apply_updates data r else r) (bdb_records db)"
proof -
  let ?q = "\<lambda>r. br_id r = rid \<and> br_schoolId r = school \<and> br_deletedAt r = None"
  define rows where "rows = map (\<lambda>r. if ?q r then apply_updates data r else r) (bdb_records db)"
  have one: "(if length data > 0 then db\<lparr>bdb_records := snd (updateMany ?q (apply_updates data) (bdb_records db))\<rparr> else db)
      = db\<lparr>bdb_records := rows\<rparr>"
  proof (cases data)
    case Nil
    have "rows = map (\<lambda>r. r) (bdb_records db)" unfolding rows_def Nil by (intro map_cong refl) simp
    then have "rows = bdb_records db" by simp
    then show ?thesis using Nil by simp
  qed (simp add: rows_def updateMany_def)
  from assms show ?thesis unfolding updateRecord_def one Let_def andThen_eq_Inr
    by (auto simp: createBehaviorAuditLog_def rows_def [symmetric])
qed

lemma rejectRecord_effect:
  assumes "rejectRecord school rid data audit db = Inr (r, db')"
  shows "bdb_ledger db' = bdb_ledger db \<and>
    bdb_records db' = map (\<lambda>r. if reviewable_row school rid r then apply_updates data r else r) (bdb_records db)"
  using assms
  by (auto simp: rejectRecord_def Let_def andThen_eq_Inr createBehaviorAuditLog_def updateMany_def split: if_splits)

lemma createRecord_effect:
  assumes "createRecord newId school data audit db = Inr (r, db')"
  shows "bdb_ledger db' = bdb_ledger db \<and> newId \<notin> br_id ` set (bdb_records db) \<and>
    bdb_records db' = bdb_records db @ [data\<lparr>br_id := newId, br_schoolId := school\<rparr>]"
  using assms
  by (auto simp: createRecord_def Let_def andThen_eq_Inr createBehaviorAuditLog_def split: if_splits)

text \<open>A change of the record its checks saw, when nothing has happened since.\<close>

lemma balanced_update:
  assumes bal: "balanced db" and up: "updateRecord school rid data audit db = Inr (r, db')"
    and x: "live_row db school rid x" "br_status x \<noteq> Record_APPROVED"
    and data: "keeps record_core data" "br_status (apply_updates data x) \<noteq> Record_APPROVED"
  shows "balanced db'"
proof (rule balanced_change [OF bal])
  show "bdb_ledger db' = bdb_ledger db" using updateRecord_effect [OF up] by (rule conjunct1)
  show "bdb_records db' = map (\<lambda>r. if br_id r = rid \<and> br_schoolId r = school \<and> br_deletedAt r = None
      then apply_updates data r else r) (bdb_records db)" using updateRecord_effect [OF up] by (rule conjunct2)
next
  fix y
  assume y: "y \<in> set (bdb_records db)" "br_id y = rid \<and> br_schoolId y = school \<and> br_deletedAt y = None"
  have "x \<in> set (bdb_records db)" "br_id x = rid" using x(1) by (simp_all add: live_row_def)
  with balanced_same_id [OF bal y(1), of x] y(2) have "y = x" by simp
  then show "record_core (apply_updates data y) = record_core y \<and> br_status y \<noteq> Record_APPROVED \<and>
      br_status (apply_updates data y) \<noteq> Record_APPROVED"
    using x(2) data(2) apply_updates_keep [OF data(1), of y] by simp
qed

lemma balanced_commit:
  assumes bal: "balanced db" and "checked db p" and c: "beh_commit newId p db = Inr (r, db')"
  shows "balanced db'"
proof (cases p)
  case (BCreate school data audit)
  with assms createRecord_effect [of newId school data audit db r db'] show ?thesis
    by (intro balanced_create [OF bal]) auto
next
  case (BUpdate school rid data audit)
  with assms obtain x where "live_row db school rid x" "br_status x = Record_DRAFT" "keeps record_core data" "keeps br_status data"
    by auto
  with c show ?thesis by (intro balanced_update [OF bal]) (auto simp: BUpdate apply_updates_keep)
next
  case (BSubmit school rid data audit)
  with assms obtain x where "live_row db school rid x" "br_status x = Record_DRAFT" "keeps record_core data"
    "\<forall>x. br_status (apply_updates data x) = Record_SUBMITTED" by auto
  with c show ?thesis by (intro balanced_update [OF bal]) (auto simp: BSubmit submitRecord_def)
next
  case (BCancel school rid data audit)
  with assms obtain x where "live_row db school rid x" "br_status x \<noteq> Record_APPROVED" "keeps record_core data"
    "\<forall>x. br_status (apply_updates data x) = Record_CANCELLED" by auto
  with c show ?thesis by (intro balanced_update [OF bal]) (auto simp: BCancel cancelRecord_def)
next
  case (BReject school rid data audit)
  with assms have "keeps record_core data" "\<forall>x. br_status (apply_updates data x) = Record_REJECTED"
    "rejectRecord school rid data audit db = Inr (r, db')" by auto
  with rejectRecord_effect [of school rid data audit db r db'] apply_updates_keep [of record_core data] show ?thesis
    by (intro balanced_change [OF bal, of db' "reviewable_row school rid" "apply_updates data"]) (auto simp: reviewable_row_def)
next
  case (BApprove school rid data ledger audit)
  with assms obtain x where x: "live_row db school rid x" "br_status x = Record_SUBMITTED"
    and l: "bl_recordId ledger = rid" "bl_studentId ledger = br_studentId x" "bl_amount ledger = br_points (apply_updates data x)"
      "bl_entryType ledger = entry_type_of (br_type x)"
    and data: "keeps record_core data" "br_status (apply_updates data x) = Record_APPROVED" by auto
  from c BApprove have "approveRecordWithPointLedger newId school rid data ledger audit db = Inr (r, db')"
    by (auto split: sum.splits)
  note eff = approve_ledger [OF this]
  have only: "reviewable_row school rid y \<longleftrightarrow> y = x" if "y \<in> set (bdb_records db)" for y
    using x that balanced_same_id [OF bal that] by (auto simp: live_row_def reviewable_row_def)
  have "entry_type_of t = Ledger_AWARD \<or> entry_type_of t = Ledger_PENALTY" for t by (cases t) simp_all
  then have "effective_entry (ledger\<lparr>bl_id := newId, bl_schoolId := school\<rparr>)" using l(4) by (simp add: effective_entry_def)
  with eff x l data only apply_updates_keep [OF data(1), of x] show ?thesis
    by (intro balanced_approve [OF bal, of db' "ledger\<lparr>bl_id := newId, bl_schoolId := school\<rparr>" "reviewable_row school rid"
      "apply_updates data" x]) (auto simp: live_row_def)
qed

interpretation books: isolated_invariant "beh_start parse" beh_finish balanced for parse
proof
  fix db db' p
  assume "balanced db" "beh_start parse db p" "beh_finish p db db'"
  then obtain newId where f: "case beh_commit newId p db of Inl e \<Rightarrow> db' = db | Inr (r, db1) \<Rightarrow> db' = db1"
    by (auto simp: beh_finish_def)
  show "balanced db'"
  proof (cases "beh_commit newId p db")
    case (Inr x)
    then obtain r where "beh_commit newId p db = Inr (r, db')" using f by (cases x) auto
    with balanced_commit [OF \<open>balanced db\<close> beh_start_checked [OF \<open>beh_start parse db p\<close>]] show ?thesis .
  qed (use f \<open>balanced db\<close> in simp)
qed

lemma sum_by_key:
  fixes f :: "'a \<Rightarrow> int"
  assumes "distinct ks" "key ` set xs \<subseteq> set ks"
  shows "sum_list (map f xs) = sum_list (map (\<lambda>k. sum_list (map f (filter (\<lambda>x. key x = k) xs))) ks)"
  using assms(2)
proof (induction xs)
  case (Cons x xs)
  have "sum_list (map (\<lambda>k. sum_list (map f (filter (\<lambda>x. key x = k) (x # xs)))) ks) =
    sum_list (map (\<lambda>k. (if key x = k then f x else 0) + sum_list (map f (filter (\<lambda>x. key x = k) xs))) ks)"
    by (intro arg_cong [where f = sum_list] map_cong refl) simp
  also have "\<dots> = f x + sum_list (map f xs)"
    using Cons assms(1) by (simp add: sum_list_addf sum_list_distinct_conv_sum_set)
  finally show ?case by simp
qed simp

definition student_ledger_points :: "BehaviorDb \<Rightarrow> string \<Rightarrow> string \<Rightarrow> int" where
  "student_ledger_points db school student = sum_list (map bl_amount (filter
     (\<lambda>l. effective_entry l \<and> bl_schoolId l = school \<and> bl_studentId l = student) (bdb_ledger db)))"

definition student_record_points :: "BehaviorDb \<Rightarrow> string \<Rightarrow> string \<Rightarrow> int" where
  "student_record_points db school student = sum_list (map br_points (filter
     (\<lambda>r. br_status r = Record_APPROVED \<and> br_schoolId r = school \<and> br_studentId r = student) (bdb_records db)))"

lemma balanced_points:
  assumes bal: "balanced db"
  shows "student_ledger_points db school student = student_record_points db school student"
proof -
  let ?ls = "filter (\<lambda>l. effective_entry l \<and> bl_schoolId l = school \<and> bl_studentId l = student) (bdb_ledger db)"
  let ?key = "\<lambda>r. (br_schoolId r, br_id r)"
  have ids: "distinct (map br_id (bdb_records db))" using bal by (simp add: balanced_def)
  then have "distinct (map ?key (bdb_records db))" by (auto simp: distinct_map inj_on_def)
  moreover have "ledger_key ` set ?ls \<subseteq> set (map ?key (bdb_records db))" using bal by (force simp: balanced_def)
  ultimately have "student_ledger_points db school student =
      sum_list (map (\<lambda>k. sum_list (map bl_amount (filter (\<lambda>l. ledger_key l = k) ?ls))) (map ?key (bdb_records db)))"
    unfolding student_ledger_points_def by (rule sum_by_key)
  also have "\<dots> = sum_list (map (\<lambda>r. sum_list (map bl_amount (filter (\<lambda>l. bl_schoolId l = school \<and>
      bl_studentId l = student) (booked db r)))) (bdb_records db))"
    unfolding map_map o_def booked_def filter_filter
    by (intro arg_cong [where f = sum_list] map_cong filter_cong refl) auto
  also have "\<dots> = sum_list (map (\<lambda>r. if br_status r = Record_APPROVED \<and> br_schoolId r = school \<and>
      br_studentId r = student then br_points r else 0) (bdb_records db))"
  proof (intro arg_cong [where f = sum_list] map_cong refl)
    fix r
    assume "r \<in> set (bdb_records db)"
    then have b: "balanced_record db r" using bal by (simp add: balanced_def)
    have "bl_schoolId l = br_schoolId r" if "l \<in> set (booked db r)" for l using that by (simp add: booked_def)
    with b show "sum_list (map bl_amount (filter (\<lambda>l. bl_schoolId l = school \<and> bl_studentId l = student) (booked db r))) =
      (if br_status r = Record_APPROVED \<and> br_schoolId r = school \<and> br_studentId r = student then br_points r else 0)"
      by (auto simp: balanced_record_def split: if_splits)
  qed
  also have "\<dots> = student_record_points db school student"
    unfolding student_record_points_def by (simp add: sum_list_map_filter')
  finally show ?thesis .
qed

text \<open>C32. When requests do not interleave, ledger and records agree: whatever records are created, edited,
  submitted, cancelled, approved (with or without other points) and rejected, the points the ledger holds for
  a student are the points of the student's approved records.\<close>

theorem behavior_points_match_records:
  assumes "(isolated (beh_start parse) beh_finish)\<^sup>*\<^sup>* db db'" "balanced db"
  shows "student_ledger_points db' school student = student_record_points db' school student"
  using books.isolated_runs_inv [OF assms] by (rule balanced_points)

theorem behavior_points_match_records_witness:
  "student_ledger_points behavior_approved_db ''s'' ''x'' = student_record_points behavior_approved_db ''s'' ''x'' \<and>
   student_ledger_points behavior_approved_db ''s'' ''x'' = 7"
proof
  have "isolated (beh_start (\<lambda>_. None)) beh_finish behavior_db behavior_approved_db"
    using behavior_example_start behavior_example_finish by (rule isolated)
  moreover have "balanced behavior_db"
    by (simp add: balanced_def balanced_record_def booked_def behavior_db_def submitted_record_def)
  ultimately show "student_ledger_points behavior_approved_db ''s'' ''x'' = student_record_points behavior_approved_db ''s'' ''x''"
    by (intro behavior_points_match_records [OF r_into_rtranclp])
  show "student_ledger_points behavior_approved_db ''s'' ''x'' = 7" by code_simp
qed

section \<open>A cancellation that comes after an approval\<close>

lemma prepare_checked: "beh_prepare parse ctx now req db = Inr p \<Longrightarrow> checked db p"
  using beh_start_checked by (fastforce simp: beh_start_def)

lemma found_record_id:
  "requireBehaviorRecord school rid db = Inr r \<Longrightarrow> br_id r = rid"
  "findReviewRecordOrThrow school rid db = Inr r \<Longrightarrow> br_id r = rid"
  by (auto simp: requireBehaviorRecord_def findReviewRecordOrThrow_def found_def findBehaviorRecordById_def
      findReviewRecordById_def split: option.splits dest!: findFirst_SomeD)

lemma approve_shape:
  assumes "ApproveBehaviorRecordUseCase_prepare ctx now rid command db = Inr p"
  shows "\<exists>school data ledger audit. p = BApprove school rid data ledger audit"
  using assms unfolding ApproveBehaviorRecordUseCase_prepare_def Let_def andThen_eq_Inr
  by (elim exE conjE) (auto split: prod.splits dest: found_record_id(2))

lemma cancel_shape:
  assumes "CancelBehaviorRecordUseCase_prepare ctx now rid command db = Inr p"
  shows "\<exists>school data audit. p = BCancel school rid data audit \<and> data \<noteq> []"
  using assms unfolding CancelBehaviorRecordUseCase_prepare_def andThen_eq_Inr
  by (elim exE conjE) (auto simp: cancel_data_def dest: found_record_id(1))

lemma updateRecord_succeeds:
  assumes x: "live_row db school rid x" and data: "keeps record_core data" "\<forall>y. br_status (apply_updates data y) = st"
    and "data \<noteq> []"
  shows "\<exists>r db'. updateRecord school rid data audit db = Inr (r, db') \<and> br_id r = rid \<and> br_status r = st \<and>
    r \<in> set (bdb_records db') \<and> bdb_ledger db' = bdb_ledger db"
proof -
  let ?q = "\<lambda>r. br_id r = rid \<and> br_schoolId r = school \<and> br_deletedAt r = None"
  define rows where "rows = map (\<lambda>r. if ?q r then apply_updates data r else r) (bdb_records db)"
  have core: "br_id (apply_updates data y) = br_id y" "br_schoolId (apply_updates data y) = br_schoolId y"
    "br_deletedAt (apply_updates data y) = br_deletedAt y" for y using apply_updates_keep [OF data(1), of y] by simp_all
  have "apply_updates data x \<in> set rows" "?q (apply_updates data x)"
    using x core by (auto simp: rows_def live_row_def)
  from findFirst_ex [OF this(1), of ?q, OF this(2)] obtain r where r: "findFirst ?q rows = Some r" by blast
  have "r \<in> set rows" "?q r" using findFirst_SomeD [OF r] by auto
  then have "br_status r = st" using data(2) by (auto simp: rows_def split: if_splits)
  moreover have "updateRecord school rid data audit db = Inr (r, createBehaviorAuditLog (audit r) (db\<lparr>bdb_records := rows\<rparr>))"
    using assms(4) r by (simp add: updateRecord_def findRecordInTransaction_def updateMany_def rows_def)
  ultimately show ?thesis using \<open>r \<in> set rows\<close> \<open>?q r\<close> by (auto simp: createBehaviorAuditLog_def)
qed

text \<open>C33. A cancellation is not guarded by the status when it writes: if an approval and a cancellation of
  the same submitted record have both passed their checks and the approval commits first, the cancellation
  succeeds too. The record ends cancelled while its points stay in the ledger.\<close>

theorem cancelled_record_keeps_points:
  assumes approve: "beh_prepare parse ctx now (ApproveRecord rid a) db = Inr p"
    and cancel: "beh_prepare parse ctx' now' (CancelRecord rid c) db = Inr q"
    and ids: "distinct (map br_id (bdb_records db))" and run: "beh_commit i p db = Inr (r1, db1)"
  shows "\<exists>r2 db2. beh_commit j q db1 = Inr (r2, db2) \<and> br_id r2 = rid \<and> br_status r2 = Record_CANCELLED \<and>
    r2 \<in> set (bdb_records db2) \<and> (\<exists>l \<in> set (bdb_ledger db2). effective_entry l \<and> bl_recordId l = rid)"
proof -
  obtain school data ledger audit where p: "p = BApprove school rid data ledger audit"
    using approve_shape approve by (metis beh_prepare.simps(5))
  obtain school' data' audit' where q: "q = BCancel school' rid data' audit'" and ne: "data' \<noteq> []"
    using cancel_shape cancel by (metis beh_prepare.simps(4))
  from prepare_checked [OF approve] obtain x where x: "live_row db school rid x" "br_status x = Record_SUBMITTED"
    and l: "bl_recordId ledger = rid" "bl_entryType ledger = entry_type_of (br_type x)" and data: "keeps record_core data"
    by (auto simp: p)
  from prepare_checked [OF cancel] obtain y where y: "live_row db school' rid y" and data': "keeps record_core data'"
    "\<forall>x. br_status (apply_updates data' x) = Record_CANCELLED" by (auto simp: q)
  have "y = x" using ids x(1) y inj_onD [of br_id "set (bdb_records db)" y x] by (simp add: live_row_def distinct_map)
  then have school: "school' = school" using x(1) y by (simp add: live_row_def)
  from run have "approveRecordWithPointLedger i school rid data ledger audit db = Inr (r1, db1)"
    by (auto simp: p split: sum.splits)
  note eff = approve_ledger [OF this]
  have "reviewable_row school rid x" using x by (simp add: live_row_def reviewable_row_def)
  then have "apply_updates data x \<in> set (bdb_records db1)" using eff x(1) by (force simp: live_row_def)
  then have "live_row db1 school rid (apply_updates data x)"
    using x(1) apply_updates_keep [OF data, of x] by (simp add: live_row_def)
  from updateRecord_succeeds [OF this data' ne, of audit'] obtain r2 db2 where
    "updateRecord school rid data' audit' db1 = Inr (r2, db2)" "br_id r2 = rid" "br_status r2 = Record_CANCELLED"
    "r2 \<in> set (bdb_records db2)" "bdb_ledger db2 = bdb_ledger db1" by blast
  moreover have "entry_type_of t = Ledger_AWARD \<or> entry_type_of t = Ledger_PENALTY" for t by (cases t) simp_all
  ultimately show ?thesis using eff l school by (auto simp: q cancelRecord_def effective_entry_def)
qed

theorem cancelled_record_keeps_points_witness:
  "\<exists>r2 db2. beh_commit ''z'' behavior_cancellation behavior_approved_db = Inr (r2, db2) \<and>
     br_status r2 = Record_CANCELLED \<and> (\<exists>l \<in> set (bdb_ledger db2). bl_recordId l = ''r'')"
proof -
  obtain r where "beh_commit ''l'' behavior_approval behavior_db = Inr (r, behavior_approved_db)"
    using behavior_approval_committed by blast
  from cancelled_record_keeps_points [OF behavior_approval_prepared behavior_cancellation_prepared _ this, of "''z''"]
  show ?thesis by (fastforce simp: behavior_db_def)
qed

end
