(* ===== verification/Js_Number.thy ===== *)
theory Js_Number
  imports Moazez_Prelude "HOL-Library.Log_Nat"
begin

text \<open>
  Arithmetic on JavaScript numbers. A finite number is the rational it denotes, and every operation
  rounds its exact result to the nearest number with a 53 bit significand, ties to even
  (\<open>fl\<close>). The exponent is unbounded: the marks, weights and percentages of the program are far from
  the range where a double overflows or loses precision. \<open>Math.round\<close> is exact.
\<close>

section \<open>Rounding to a double\<close>

text \<open>The exponent \<open>e\<close> of a positive \<open>x\<close>: \<open>2 ^ e \<le> x < 2 ^ (e + 1)\<close>.\<close>

definition binade :: "rat \<Rightarrow> int" where
  "binade x =
     (let (a, b) = quotient_of x; e = bitlen a - bitlen b
      in if 2 powi e \<le> x then e else e - 1)"

definition round_half_even :: "rat \<Rightarrow> int" where
  "round_half_even x =
     (let d = x - of_int \<lfloor>x\<rfloor>
      in if d < 1 / 2 \<or> (d = 1 / 2 \<and> even \<lfloor>x\<rfloor>) then \<lfloor>x\<rfloor> else \<lfloor>x\<rfloor> + 1)"

definition ulp :: "rat \<Rightarrow> rat" where
  "ulp x = 2 powi (binade \<bar>x\<bar> - 52)"

definition fl :: "rat \<Rightarrow> rat" where
  "fl x = (if x = 0 then 0 else of_int (round_half_even (x / ulp x)) * ulp x)"

definition js_add :: "rat \<Rightarrow> rat \<Rightarrow> rat" where
  "js_add x y = fl (x + y)"

definition js_mul :: "rat \<Rightarrow> rat \<Rightarrow> rat" where
  "js_mul x y = fl (x * y)"

definition js_div :: "rat \<Rightarrow> rat \<Rightarrow> rat" where
  "js_div x y = fl (x / y)"

definition math_round :: "rat \<Rightarrow> rat" where
  "math_round x = of_int \<lfloor>x + 1 / 2\<rfloor>"

definition NUMBER_EPSILON :: rat where
  "NUMBER_EPSILON = 1 / 2 ^ 52"

section \<open>Number(text)\<close>

text \<open>\<open>None\<close> stands for \<open>NaN\<close> and the infinities, which the callers tell apart from the finite numbers only.\<close>

definition digit_of :: "nat \<Rightarrow> char \<Rightarrow> int option" where
  "digit_of base c =
     (let v = (if char_digit c then digit_value c
               else int (of_char (char_lower c)) - 87)
      in if (char_digit c \<or> (97 \<le> (of_char (char_lower c) :: nat) \<and> (of_char (char_lower c) :: nat) \<le> 122)) \<and> v < int base
         then Some v else None)"

definition digits_in :: "nat \<Rightarrow> string \<Rightarrow> int option" where
  "digits_in base ds =
     (if ds = [] \<or> (\<exists>c \<in> set ds. digit_of base c = None) then None
      else Some (foldl (\<lambda>n d. n * int base + the (digit_of base d)) 0 ds))"

fun signed :: "string \<Rightarrow> int \<times> string" where
  "signed (c # cs) = (if c = CHR ''-'' then (-1, cs) else if c = CHR ''+'' then (1, cs) else (1, c # cs))"
| "signed [] = (1, [])"

text \<open>The part of a decimal literal from its exponent on.\<close>

fun exponent_part :: "string \<Rightarrow> int option" where
  "exponent_part [] = Some 0"
| "exponent_part (c # cs) =
     (if char_lower c = CHR ''e''
      then (let (s, ds) = signed cs in map_option (\<lambda>n. s * n) (digits_in 10 ds))
      else None)"

definition unsigned_decimal :: "string \<Rightarrow> rat option" where
  "unsigned_decimal cs =
     (let whole = takeWhile char_digit cs; rest = dropWhile char_digit cs;
          (fraction, tail) = (case rest of
             [] \<Rightarrow> ([], [])
           | c # ds \<Rightarrow> if c = CHR ''.'' then (takeWhile char_digit ds, dropWhile char_digit ds) else ([], rest))
      in if whole = [] \<and> fraction = [] then None
         else map_option (\<lambda>e. of_int (decimal_value (whole @ fraction)) * 10 powi (e - int (length fraction)))
                (exponent_part tail))"

definition with_prefix :: "string \<Rightarrow> nat option" where
  "with_prefix cs =
     (if take 2 (toLowerCase cs) = ''0x'' then Some 16
      else if take 2 (toLowerCase cs) = ''0o'' then Some 8
      else if take 2 (toLowerCase cs) = ''0b'' then Some 2 else None)"

definition js_Number :: "string \<Rightarrow> rat option" where
  "js_Number text =
     (let cs = js_trim text;
          exact = (if cs = [] then Some 0
                   else case with_prefix cs of
                     Some base \<Rightarrow> map_option of_int (digits_in base (drop 2 cs))
                   | None \<Rightarrow> (let (s, ds) = signed cs in map_option (\<lambda>x. of_int s * x) (unsigned_decimal ds)))
      in case exact of
           None \<Rightarrow> None
         | Some x \<Rightarrow> if x = 0 then Some 0
                     else if 1024 \<le> binade \<bar>fl x\<bar> then None else Some (fl x))"

section \<open>The exponent\<close>

lemma bitlen_pos_bounds: "0 < a \<Longrightarrow> 2 powi (bitlen a - 1) \<le> (of_int a :: rat) \<and> (of_int a :: rat) < 2 powi bitlen a"
proof -
  assume a: "0 < a"
  then have b: "2 ^ nat (bitlen a - 1) \<le> a" "a < 2 ^ nat (bitlen a)" using bitlen_bounds by auto
  have p: "0 < bitlen a" using a bitlen_nonneg [of a] bitlen_eq_zero_iff [of a] by linarith
  have "(2::rat) ^ nat (bitlen a - 1) \<le> of_int a" "(of_int a :: rat) < 2 ^ nat (bitlen a)"
    using b of_int_le_iff [of "2 ^ nat (bitlen a - 1)" a] of_int_less_iff [of a "2 ^ nat (bitlen a)"] by simp_all
  then show ?thesis using p by (simp add: power_int_def)
qed

lemma binade_bounds:
  assumes "0 < x"
  shows "2 powi binade x \<le> x \<and> x < 2 powi (binade x + 1)"
proof -
  obtain a b where q: "quotient_of x = (a, b)" by fastforce
  have b: "0 < b" and x: "x = of_int a / of_int b" using q quotient_of_denom_pos quotient_of_div by blast+
  with assms have a: "0 < a" by (simp add: zero_less_divide_iff)
  define e where "e = bitlen a - bitlen b"
  have "x < 2 powi bitlen a / 2 powi (bitlen b - 1)"
    unfolding x using bitlen_pos_bounds [OF a] bitlen_pos_bounds [OF b] a b
    by (intro frac_less) auto
  then have upper: "x < 2 powi (e + 1)" by (simp add: e_def flip: power_int_diff) (simp add: algebra_simps)
  have "2 powi (bitlen a - 1) / 2 powi bitlen b \<le> x"
    unfolding x using bitlen_pos_bounds [OF a] bitlen_pos_bounds [OF b] a b
    by (intro frac_le) auto
  then have lower: "2 powi (e - 1) \<le> x" by (simp add: e_def flip: power_int_diff) (simp add: algebra_simps)
  show ?thesis using upper lower by (auto simp: binade_def q Let_def simp flip: e_def)
qed

lemma binade_le_iff: "0 < x \<Longrightarrow> e \<le> binade x \<longleftrightarrow> 2 powi e \<le> x"
proof
  assume x: "0 < x" and "e \<le> binade x"
  then have "(2::rat) powi e \<le> 2 powi binade x" by (intro power_int_increasing) auto
  then show "2 powi e \<le> x" using binade_bounds [OF x] by linarith
next
  assume x: "0 < x" and "2 powi e \<le> x"
  then have "(2::rat) powi e < 2 powi (binade x + 1)" using binade_bounds [OF x] by linarith
  then show "e \<le> binade x" using power_int_increasing [of "binade x + 1" e "2::rat"] by linarith
qed

lemma binade_mono: "0 < x \<Longrightarrow> x \<le> y \<Longrightarrow> binade x \<le> binade y"
  using binade_bounds [of x] by (simp add: binade_le_iff)

lemma ulp_pos [simp]: "0 < ulp x" "0 \<le> ulp x" "ulp x \<noteq> 0"
  by (simp_all add: ulp_def)

section \<open>Rounding is monotone\<close>

lemma round_half_even_int [simp]: "round_half_even (of_int n) = n"
  by (simp add: round_half_even_def)

lemma round_half_even_numerals [simp]:
  "round_half_even 0 = 0" "round_half_even (numeral k) = numeral k"
  using round_half_even_int [of 0] round_half_even_int [of "numeral k"] by simp_all

lemma round_half_even_bounds: "\<lfloor>x\<rfloor> \<le> round_half_even x \<and> round_half_even x \<le> \<lfloor>x\<rfloor> + 1"
  by (simp add: round_half_even_def Let_def)

lemma round_half_even_mono: "x \<le> y \<Longrightarrow> round_half_even x \<le> round_half_even y"
proof (cases "\<lfloor>x\<rfloor> = \<lfloor>y\<rfloor>")
  case True
  assume "x \<le> y"
  then show ?thesis using True by (auto simp: round_half_even_def Let_def)
next
  case False
  assume "x \<le> y"
  then have "\<lfloor>x\<rfloor> + 1 \<le> \<lfloor>y\<rfloor>" using False floor_mono [of x y] by linarith
  then show ?thesis using round_half_even_bounds [of x] round_half_even_bounds [of y] by linarith
qed

lemma round_half_even_minus: "round_half_even (- x) = - round_half_even x"
proof (cases "x = of_int \<lfloor>x\<rfloor>")
  case True
  then show ?thesis by (metis of_int_minus round_half_even_int)
next
  case False
  then have "\<lfloor>- x\<rfloor> = - \<lfloor>x\<rfloor> - 1" by (simp add: floor_minus ceiling_altdef)
  then show ?thesis using False by (auto simp: round_half_even_def Let_def)
qed

lemma fl_0 [simp]: "fl 0 = 0"
  by (simp add: fl_def)

lemma fl_minus: "fl (- x) = - fl x"
  by (simp add: fl_def ulp_def round_half_even_minus)

lemma fl_nonneg: "0 \<le> x \<Longrightarrow> 0 \<le> fl x"
  using round_half_even_mono [of "of_int 0" "x / ulp x"] divide_nonneg_pos [of x "ulp x"]
  by (simp add: fl_def less_imp_le)

lemma scaled_bounds:
  assumes "0 < x"
  shows "2 ^ 52 \<le> x / ulp x" and "x / ulp x < 2 ^ 53"
proof -
  have "2 powi binade x = 2 ^ 52 * ulp x" "2 powi (binade x + 1) = 2 ^ 53 * ulp x"
    using assms by (simp_all add: ulp_def power_int_diff power_int_add)
  then show "2 ^ 52 \<le> x / ulp x" "x / ulp x < 2 ^ 53"
    using binade_bounds [OF assms] by (simp_all add: field_simps)
qed

lemma fl_mono_pos:
  assumes "0 < x" "x \<le> y"
  shows "fl x \<le> fl y"
proof (cases "binade x = binade y")
  case True
  then have "ulp x = ulp y" using assms by (simp add: ulp_def)
  then have "round_half_even (x / ulp x) \<le> round_half_even (y / ulp y)"
    using assms by (intro round_half_even_mono) (simp add: divide_right_mono less_imp_le)
  then show ?thesis using assms \<open>ulp x = ulp y\<close> by (simp add: fl_def)
next
  case False
  then have less: "binade x + 1 \<le> binade y" using binade_mono [OF assms] by linarith
  have y: "0 < y" using assms by simp
  have "round_half_even (x / ulp x) \<le> 2 ^ 53"
    using round_half_even_mono [of "x / ulp x" "of_int (2 ^ 53)"] scaled_bounds(2) [OF assms(1)] by simp
  then have "of_int (round_half_even (x / ulp x)) \<le> (2 ^ 53 :: rat)"
    using of_int_le_iff [of "round_half_even (x / ulp x)" "2 ^ 53"] by simp
  then have "fl x \<le> 2 ^ 53 * ulp x" using assms by (simp add: fl_def)
  also have "\<dots> = 2 powi (binade x + 1)" using assms by (simp add: ulp_def power_int_diff power_int_add)
  also have "\<dots> \<le> 2 powi binade y" using less by (intro power_int_increasing) auto
  also have "\<dots> = 2 ^ 52 * ulp y" using y by (simp add: ulp_def power_int_diff)
  also have "\<dots> \<le> fl y"
  proof -
    have "2 ^ 52 \<le> round_half_even (y / ulp y)"
      using round_half_even_mono [of "of_int (2 ^ 52)" "y / ulp y"] scaled_bounds(1) [OF y] by simp
    then have "(2 ^ 52 :: rat) \<le> of_int (round_half_even (y / ulp y))"
      using of_int_le_iff [of "2 ^ 52" "round_half_even (y / ulp y)"] by simp
    then show ?thesis using y by (simp add: fl_def)
  qed
  finally show ?thesis .
qed

lemma fl_mono: "x \<le> y \<Longrightarrow> fl x \<le> fl y"
proof -
  assume le: "x \<le> y"
  consider "0 < x" | "x \<le> 0" "0 \<le> y" | "y < 0" using le by linarith
  then show ?thesis
  proof cases
    case 1
    then show ?thesis using le by (rule fl_mono_pos)
  next
    case 2
    then show ?thesis using fl_nonneg [of y] fl_nonneg [of "- x"] by (simp add: fl_minus)
  next
    case 3
    then show ?thesis using fl_mono_pos [of "- y" "- x"] le by (simp add: fl_minus)
  qed
qed

lemmas js_op_defs = js_add_def js_mul_def js_div_def

lemma js_add_mono: "x \<le> x' \<Longrightarrow> y \<le> y' \<Longrightarrow> js_add x y \<le> js_add x' y'"
  by (simp add: js_add_def fl_mono)

lemma js_mul_mono: "0 \<le> y \<Longrightarrow> x \<le> x' \<Longrightarrow> js_mul x y \<le> js_mul x' y"
  by (simp add: js_mul_def fl_mono mult_right_mono)

lemma js_div_mono: "0 < y \<Longrightarrow> x \<le> x' \<Longrightarrow> js_div x y \<le> js_div x' y"
  by (simp add: js_div_def fl_mono divide_right_mono)

lemma math_round_mono: "x \<le> y \<Longrightarrow> math_round x \<le> math_round y"
  by (simp add: math_round_def floor_mono)

section \<open>Exact results\<close>

text \<open>A multiple of a power of two below \<open>2 ^ 53\<close> units is a double.\<close>

lemma fl_scaled_below:
  assumes "\<bar>n\<bar> < 2 ^ 53"
  shows "fl (of_int n * 2 powi k) = of_int n * 2 powi k"
proof (cases "n = 0")
  case False
  define x where "x = \<bar>of_int n * 2 powi k :: rat\<bar>"
  have x: "0 < x" using False by (simp add: x_def)
  have "\<bar>of_int n\<bar> < (2 ^ 53 :: rat)" using assms of_int_less_iff [of "\<bar>n\<bar>" "2 ^ 53", where 'a = rat] by simp
  then have "x < 2 powi (k + 53)" by (simp add: x_def abs_mult power_int_add)
  then have "\<not> k + 53 \<le> binade x" using binade_le_iff [OF x] by simp
  then obtain m where m: "k = binade x - 52 + int m" using zle_iff_zadd [of "binade x - 52" k] by auto
  have u: "2 powi k = 2 ^ m * ulp (of_int n * 2 powi k)"
    unfolding ulp_def x_def [symmetric] by (subst m) (simp add: power_int_add)
  have "of_int n * 2 powi k / ulp (of_int n * 2 powi k) = of_int (n * 2 ^ m)"
    by (subst u) simp
  then have "fl (of_int n * 2 powi k) = of_int (n * 2 ^ m) * ulp (of_int n * 2 powi k)"
    unfolding fl_def using False by (simp only: round_half_even_int) simp
  also have "\<dots> = of_int n * 2 powi k" by (subst (2) u) simp
  finally show ?thesis .
qed simp

lemma fl_scaled_int:
  assumes "\<bar>n\<bar> \<le> 2 ^ 53"
  shows "fl (of_int n * 2 powi k) = of_int n * 2 powi k"
proof (cases "\<bar>n\<bar> = 2 ^ 53")
  case True
  then have n: "n = 2 ^ 53 \<or> n = - (2 ^ 53)" by linarith
  have "fl (of_int (sgn n) * 2 powi (k + 53)) = of_int (sgn n) * 2 powi (k + 53)"
    by (rule fl_scaled_below) (simp add: sgn_if)
  moreover have "of_int (sgn n) * 2 powi (k + 53) = (of_int n * 2 powi k :: rat)"
    using n by (auto simp: power_int_add)
  ultimately show ?thesis by simp
next
  case False
  then show ?thesis using assms by (intro fl_scaled_below) linarith
qed

lemma fl_int: "\<bar>n\<bar> \<le> 2 ^ 53 \<Longrightarrow> fl (of_int n) = of_int n"
  using fl_scaled_int [of n 0] by simp

section \<open>Dividing by a whole number\<close>

text \<open>The quotient of a double and a whole number is never rounded up to the next whole number.\<close>

lemma round_half_even_below: "x < of_int n - 1 / 2 \<Longrightarrow> round_half_even x \<le> n - 1"
proof -
  assume x: "x < of_int n - 1 / 2"
  then have "x < of_int n" by simp
  then have "\<lfloor>x\<rfloor> < n" by (simp only: floor_less_iff)
  then have "\<lfloor>x\<rfloor> \<le> n - 1" by simp
  then show ?thesis using round_half_even_bounds [of x] x
    by (cases "\<lfloor>x\<rfloor> = n - 1") (auto simp: round_half_even_def Let_def)
qed

lemma ulp_divides_int:
  assumes "0 < x" "x < 2 ^ 52"
  obtains m where "1 = of_int m * ulp x" "0 < m"
proof -
  have "\<not> 52 \<le> binade x" using assms binade_le_iff [of x 52] by simp
  then obtain j where j: "52 - binade x = int j" using nonneg_int_cases [of "52 - binade x"] by auto
  have "binade x - 52 = - int j" using j by linarith
  then have "ulp x = 2 powi (- int j)" using assms by (simp add: ulp_def)
  then have "1 = of_int (2 ^ j) * ulp x" by (simp add: power_int_minus)
  then show ?thesis using that [of "2 ^ j"] by simp
qed

lemma fl_below_int:
  assumes y: "y \<le> of_int m * (1 - 1 / 2 ^ 53)" and m: "0 < m" "m < 2 ^ 52"
  shows "fl y < of_int m"
proof -
  define z where "z = (of_int m * (1 - 1 / 2 ^ 53) :: rat)"
  have m': "0 < (of_int m :: rat)" "of_int m < (2 ^ 52 :: rat)" using m of_int_less_iff [of m "2 ^ 52", where 'a = rat] by simp_all
  have z: "0 < z" "z < of_int m" using m' by (simp_all add: z_def field_simps)
  then have "z < 2 ^ 52" using m' by linarith
  then obtain k where k: "1 = of_int k * ulp z" "0 < k" using ulp_divides_int [OF z(1)] by blast
  have mu: "of_int (m * k) * ulp z = of_int m" using k(1) [symmetric] by (simp add: mult.assoc)
  then have M: "of_int m / ulp z = of_int (m * k)" by (simp add: divide_eq_eq)
  have "2 ^ 52 \<le> z / ulp z" by (rule scaled_bounds) (rule z)
  also have "\<dots> < of_int m / ulp z" using z by (intro divide_strict_right_mono) auto
  finally have "2 ^ 52 < (of_int (m * k) :: rat)" unfolding M .
  moreover have "z / ulp z = of_int (m * k) * (1 - 1 / 2 ^ 53)"
  proof -
    have "z / ulp z = of_int m * (1 - 1 / 2 ^ 53) / ulp z" by (simp only: z_def [symmetric])
    also have "\<dots> = of_int m / ulp z * (1 - 1 / 2 ^ 53)" by (rule times_divide_eq_left [symmetric])
    finally show ?thesis unfolding M .
  qed
  ultimately have "z / ulp z < of_int (m * k) - 1 / 2" by simp
  then have "of_int (round_half_even (z / ulp z)) \<le> (of_int (m * k - 1) :: rat)"
    using round_half_even_below [of "z / ulp z" "m * k"] by linarith
  then have "fl z \<le> of_int (m * k - 1) * ulp z" using z by (simp add: fl_def)
  also have "\<dots> < of_int m" unfolding mu [symmetric] by simp
  finally show ?thesis using fl_mono [OF y] by (simp add: z_def)
qed

lemma double_below_int:
  assumes c: "fl c = c" "0 < c" "c < of_int n" and n: "n < 2 ^ 52"
  shows "c \<le> of_int n * (1 - 1 / 2 ^ 53)"
proof -
  define q where "q = round_half_even (c / ulp c)"
  have cq: "of_int q * ulp c = c" using c by (simp add: fl_def q_def)
  have n': "(of_int n :: rat) < 2 ^ 52" using n of_int_less_iff [of n "2 ^ 52", where 'a = rat] by simp
  then obtain k where k: "1 = of_int k * ulp c" "0 < k" using ulp_divides_int [of c] c by auto
  have nu: "of_int (n * k) * ulp c = of_int n" using k(1) [symmetric] by (simp add: mult.assoc)
  have "of_int q * ulp c < of_int (n * k) * ulp c" unfolding cq nu by (rule c)
  then have "(of_int q :: rat) < of_int (n * k)" by simp
  then have "q < n * k" by (simp only: of_int_less_iff)
  then have "q \<le> n * k - 1" by simp
  then have "(of_int q :: rat) \<le> of_int (n * k - 1)" by (simp only: of_int_le_iff)
  then have "of_int q * ulp c \<le> of_int (n * k - 1) * ulp c" by (intro mult_right_mono) auto
  also have "\<dots> = of_int n - ulp c" unfolding nu [symmetric] by (simp add: algebra_simps)
  finally have gap: "c \<le> of_int n - ulp c" unfolding cq .
  show ?thesis
  proof (cases "of_int n \<le> 2 ^ 53 * ulp c")
    case True
    then show ?thesis using gap by (simp add: field_simps)
  next
    case False
    have "of_int q * ulp c < 2 ^ 53 * ulp c" unfolding cq using scaled_bounds(2) [OF c(2)] by (simp add: pos_divide_less_eq)
    then have "(of_int q :: rat) < of_int (2 ^ 53)" by simp
    then have "q < 2 ^ 53" by (simp only: of_int_less_iff)
    then have "q \<le> 2 ^ 53 - 1" by simp
    then have "(of_int q :: rat) \<le> of_int (2 ^ 53 - 1)" by (simp only: of_int_le_iff)
    then have "of_int q * ulp c \<le> of_int (2 ^ 53 - 1) * ulp c" by (intro mult_right_mono) auto
    then have "c \<le> (2 ^ 53 - 1) * ulp c" unfolding cq by simp
    also have "\<dots> = 2 ^ 53 * ulp c * (1 - 1 / 2 ^ 53)" by (simp add: field_simps)
    also have "\<dots> \<le> of_int n * (1 - 1 / 2 ^ 53)" using False by (intro mult_right_mono) auto
    finally show ?thesis .
  qed
qed

lemma floor_js_div:
  assumes c: "fl c = c" "0 \<le> c" and s: "0 < s" and bound: "c + of_int s < 2 ^ 52"
  shows "\<lfloor>js_div c (of_int s)\<rfloor> = \<lfloor>c / of_int s\<rfloor>"
proof (cases "c = 0")
  case False
  define n where "n = \<lfloor>c / of_int s\<rfloor>"
  have s': "1 \<le> (of_int s :: rat)" using s of_int_le_iff [of 1 s, where 'a = rat] by simp
  have n: "of_int n \<le> c / of_int s" "c / of_int s < of_int (n + 1)" "0 \<le> n"
    using c s by (simp_all add: n_def) linarith
  have N: "of_int (n * s) \<le> c" "c < of_int ((n + 1) * s)" using n s' by (simp_all add: field_simps)
  have "(of_int ((n + 1) * s) :: rat) < of_int (2 ^ 52)" using N(1) bound by (simp add: algebra_simps)
  then have small: "(n + 1) * s < 2 ^ 52" by (simp only: of_int_less_iff)
  moreover have "n + 1 \<le> (n + 1) * s" using n(3) s by simp
  ultimately have n1: "n + 1 < 2 ^ 52" by linarith
  have "of_int n \<le> js_div c (of_int s)"
    using fl_mono [OF n(1)] fl_int [of n] n(3) n1 by (simp add: js_div_def)
  moreover have "js_div c (of_int s) < of_int (n + 1)" unfolding js_div_def
  proof (rule fl_below_int)
    show "c / of_int s \<le> of_int (n + 1) * (1 - 1 / 2 ^ 53)"
      using double_below_int [OF c(1) _ N(2) small] c(2) False s' by (simp add: field_simps)
  qed (use n(3) n1 in auto)
  ultimately show ?thesis unfolding n_def [symmetric] by (intro floor_unique) simp_all
qed (simp add: js_div_def)

end
