(* ===== verification/Grade_Calculation.thy ===== *)
theory Grade_Calculation
  imports Js_Number
begin

text \<open>
  Marks, percentages and grades (\<open>src/src/modules/grades/shared/domain/grade-calculation.ts\<close>), computed
  in double arithmetic: a cell of the gradebook, the weighted final percentage of a student, the pass
  decision, and the distribution of percentages over buckets.
\<close>

section \<open>Numbers of the gradebook\<close>

text \<open>\<open>number | string | { toNumber } | null | undefined\<close>: a number is \<open>None\<close> when it is not finite, the
  object with \<open>toNumber\<close> is a database decimal.\<close>

datatype GradeNumericValue =
    NumberValue "rat option"
  | TextValue string
  | DecimalValue rat
  | NullValue
  | UndefinedValue

fun toGradeNumber :: "GradeNumericValue \<Rightarrow> rat option" where
  "toGradeNumber (NumberValue n) = n"
| "toGradeNumber (TextValue s) = (if s = [] then None else js_Number s)"
| "toGradeNumber (DecimalValue d) = Some (fl d)"
| "toGradeNumber NullValue = None"
| "toGradeNumber UndefinedValue = None"

text \<open>A \<open>number | null\<close> handed on as a value.\<close>

definition nullable :: "rat option \<Rightarrow> GradeNumericValue" where
  "nullable n = (case n of None \<Rightarrow> NullValue | Some x \<Rightarrow> NumberValue (Some x))"

lemma toGradeNumber_nullable [simp]: "toGradeNumber (nullable n) = n"
  by (cases n) (simp_all add: nullable_def)

section \<open>Enumerations\<close>

datatype GradeItemStatus = Item_ENTERED | Item_MISSING | Item_ABSENT

fun GradeItemStatus_name :: "GradeItemStatus \<Rightarrow> string" where
  "GradeItemStatus_name Item_ENTERED = ''ENTERED''"
| "GradeItemStatus_name Item_MISSING = ''MISSING''"
| "GradeItemStatus_name Item_ABSENT = ''ABSENT''"

datatype GradeRoundingMode = Rounding_NONE | Rounding_DECIMAL_0 | Rounding_DECIMAL_1 | Rounding_DECIMAL_2

fun GradeRoundingMode_name :: "GradeRoundingMode \<Rightarrow> string" where
  "GradeRoundingMode_name Rounding_NONE = ''NONE''"
| "GradeRoundingMode_name Rounding_DECIMAL_0 = ''DECIMAL_0''"
| "GradeRoundingMode_name Rounding_DECIMAL_1 = ''DECIMAL_1''"
| "GradeRoundingMode_name Rounding_DECIMAL_2 = ''DECIMAL_2''"

definition normalizeItemStatus :: "string \<Rightarrow> GradeItemStatus" where
  "normalizeItemStatus status =
     (let normalized = toUpperCase (js_trim status)
      in if normalized = ''ENTERED'' then Item_ENTERED
         else if normalized = ''ABSENT'' then Item_ABSENT else Item_MISSING)"

lemma normalizeItemStatus_name [simp]: "normalizeItemStatus (GradeItemStatus_name s) = s"
proof (cases s)
  case Item_ENTERED
  show ?thesis unfolding Item_ENTERED by code_simp
next
  case Item_MISSING
  show ?thesis unfolding Item_MISSING by code_simp
next
  case Item_ABSENT
  show ?thesis unfolding Item_ABSENT by code_simp
qed

section \<open>Cells\<close>

record GradeCalculationRule =
  gr_passMark :: GradeNumericValue
  gr_rounding :: string

record GradeCalculationCellInput =
  gc_status :: string
  gc_score :: GradeNumericValue
  gc_maxScore :: GradeNumericValue
  gc_weight :: GradeNumericValue

record CalculatedGradeCell =
  cg_percent :: "rat option"
  cg_weightedContribution :: "rat option"

definition calculateAssessmentPercent :: "GradeNumericValue \<Rightarrow> GradeNumericValue \<Rightarrow> rat option" where
  "calculateAssessmentPercent score maxScore =
     (case (toGradeNumber score, toGradeNumber maxScore) of
        (Some s, Some m) \<Rightarrow> if m \<le> 0 then None else Some (js_mul (js_div s m) 100)
      | _ \<Rightarrow> None)"

definition calculateWeightedContribution :: "GradeNumericValue \<Rightarrow> GradeNumericValue \<Rightarrow> rat option" where
  "calculateWeightedContribution percent weight =
     (case (toGradeNumber percent, toGradeNumber weight) of
        (Some p, Some w) \<Rightarrow> Some (js_div (js_mul p w) 100)
      | _ \<Rightarrow> None)"

definition rounding_factor :: "string \<Rightarrow> rat" where
  "rounding_factor normalized =
     (if normalized = ''DECIMAL_0'' then 1 else if normalized = ''DECIMAL_1'' then 10 else 100)"

definition applyRounding :: "GradeNumericValue \<Rightarrow> string \<Rightarrow> rat option" where
  "applyRounding v rounding =
     (case toGradeNumber v of
        None \<Rightarrow> None
      | Some x \<Rightarrow>
          let normalized = toUpperCase (js_trim rounding)
          in if normalized = ''NONE'' then Some x
             else let factor = rounding_factor normalized
                  in Some (js_div (math_round (js_mul (js_add x NUMBER_EPSILON) factor)) factor))"

definition calculateGradeCell :: "GradeCalculationCellInput \<Rightarrow> GradeCalculationRule \<Rightarrow> CalculatedGradeCell" where
  "calculateGradeCell cell rule =
     (if normalizeItemStatus (gc_status cell) \<noteq> Item_ENTERED
      then \<lparr>cg_percent = None, cg_weightedContribution = None\<rparr>
      else
        let percent = calculateAssessmentPercent (gc_score cell) (gc_maxScore cell);
            contribution = calculateWeightedContribution (nullable percent) (gc_weight cell)
        in \<lparr>cg_percent = applyRounding (nullable percent) (gr_rounding rule),
            cg_weightedContribution = applyRounding (nullable contribution) (gr_rounding rule)\<rparr>)"

section \<open>The final percentage of a student\<close>

record StudentFinalCalculation =
  sf_finalPercent :: "rat option"
  sf_completedWeight :: rat
  sf_hasEnteredScores :: bool
  sf_totalEnteredCount :: int
  sf_missingCount :: int
  sf_absentCount :: int

record final_sums =
  rawFinalPercent :: rat
  rawCompletedWeight :: rat
  enteredCount :: int
  missingSum :: int
  absentSum :: int

text \<open>One iteration of the loop over the cells.\<close>

definition add_cell :: "final_sums \<Rightarrow> GradeCalculationCellInput \<Rightarrow> final_sums" where
  "add_cell st cell =
     (case normalizeItemStatus (gc_status cell) of
        Item_MISSING \<Rightarrow> st\<lparr>missingSum := missingSum st + 1\<rparr>
      | Item_ABSENT \<Rightarrow> st\<lparr>absentSum := absentSum st + 1\<rparr>
      | Item_ENTERED \<Rightarrow>
          (case calculateWeightedContribution
                  (nullable (calculateAssessmentPercent (gc_score cell) (gc_maxScore cell))) (gc_weight cell) of
             None \<Rightarrow> st
           | Some contribution \<Rightarrow>
               st\<lparr>rawFinalPercent := js_add (rawFinalPercent st) contribution,
                  rawCompletedWeight := js_add (rawCompletedWeight st)
                    (case toGradeNumber (gc_weight cell) of None \<Rightarrow> 0 | Some w \<Rightarrow> w),
                  enteredCount := enteredCount st + 1\<rparr>))"

definition calculateStudentFinalPercent ::
  "GradeCalculationCellInput list \<Rightarrow> GradeCalculationRule \<Rightarrow> StudentFinalCalculation" where
  "calculateStudentFinalPercent cells rule =
     (let st = foldl add_cell \<lparr>rawFinalPercent = 0, rawCompletedWeight = 0, enteredCount = 0,
                               missingSum = 0, absentSum = 0\<rparr> cells;
          hasEnteredScores = 0 < enteredCount st
      in \<lparr>sf_finalPercent = (if hasEnteredScores
            then applyRounding (NumberValue (Some (rawFinalPercent st))) (gr_rounding rule) else None),
          sf_completedWeight =
            (case applyRounding (NumberValue (Some (rawCompletedWeight st))) (gr_rounding rule) of
               None \<Rightarrow> 0 | Some w \<Rightarrow> w),
          sf_hasEnteredScores = hasEnteredScores, sf_totalEnteredCount = enteredCount st,
          sf_missingCount = missingSum st, sf_absentCount = absentSum st\<rparr>)"

datatype GradebookStudentStatus = Passing | Failing | Incomplete

definition deriveGradebookStudentStatus ::
  "GradeNumericValue \<Rightarrow> bool \<Rightarrow> GradeCalculationRule \<Rightarrow> GradebookStudentStatus" where
  "deriveGradebookStudentStatus finalPercent hasEnteredScores rule =
     (if \<not> hasEnteredScores then Incomplete
      else
        let final = (case toGradeNumber finalPercent of None \<Rightarrow> 0 | Some x \<Rightarrow> x);
            passMark = (case toGradeNumber (gr_passMark rule) of None \<Rightarrow> 50 | Some x \<Rightarrow> x)
        in if final \<ge> passMark then Passing else Failing)"

section \<open>Distribution\<close>

record DistributionBucket =
  db_from :: int
  db_to :: int
  db_count :: int

definition clampInteger :: "rat option \<Rightarrow> int \<Rightarrow> int \<Rightarrow> int" where
  "clampInteger v mn mx =
     (case v of None \<Rightarrow> mn
      | Some x \<Rightarrow> min (max (if 0 \<le> x then \<lfloor>x\<rfloor> else \<lceil>x\<rceil>) mn) mx)"

text \<open>The loop that creates the buckets. Its step is at least 5.\<close>

function make_buckets :: "int \<Rightarrow> int \<Rightarrow> DistributionBucket list" where
  "make_buckets sz start =
     (if start < 100 \<and> 0 < sz
      then \<lparr>db_from = start, db_to = min (start + sz - 1) 100, db_count = 0\<rparr> # make_buckets sz (start + sz)
      else [])"
  by pat_completeness auto
termination by (relation "measure (\<lambda>(_, start). nat (100 - start))") auto

declare make_buckets.simps [simp del]

text \<open>\<open>buckets[index].count += 1\<close> throws when there is no bucket with that index.\<close>

definition count_value ::
  "int \<Rightarrow> DistributionBucket list \<Rightarrow> GradeNumericValue \<Rightarrow> DistributionBucket list result" where
  "count_value sz buckets v =
     (case toGradeNumber v of
        None \<Rightarrow> Inr buckets
      | Some x \<Rightarrow>
          let clamped = min (max x 0) 100;
              index = (if clamped \<ge> 100 then int (length buckets) - 1 else \<lfloor>js_div clamped (of_int sz)\<rfloor>);
              i = nat index
          in if index < 0 \<or> length buckets \<le> i then Inl (JsError ''TypeError'')
             else Inr (buckets[i := (buckets ! i)\<lparr>db_count := db_count (buckets ! i) + 1\<rparr>]))"

fun count_values ::
  "int \<Rightarrow> DistributionBucket list \<Rightarrow> GradeNumericValue list \<Rightarrow> DistributionBucket list result" where
  "count_values sz buckets [] = Inr buckets"
| "count_values sz buckets (v # vs) = andThen (count_value sz buckets v) (\<lambda>bs. count_values sz bs vs)"

definition buildDistributionBuckets :: "GradeNumericValue list \<Rightarrow> rat option \<Rightarrow> DistributionBucket list result" where
  "buildDistributionBuckets vals bucketSize =
     (let sz = clampInteger bucketSize 5 50;
          buckets = make_buckets sz 0;
          buckets' = (if buckets \<noteq> [] then butlast buckets @ [(last buckets)\<lparr>db_to := 100\<rparr>] else buckets)
      in count_values sz buckets' vals)"

section \<open>Better marks never make a grade worse\<close>

lemma applyRounding_mono:
  assumes "x \<le> y"
  shows "\<exists>x' y'. applyRounding (NumberValue (Some x)) r = Some x' \<and>
    applyRounding (NumberValue (Some y)) r = Some y' \<and> x' \<le> y'"
proof -
  have "0 < rounding_factor f" for f by (simp add: rounding_factor_def)
  then have "js_div (math_round (js_mul (js_add x NUMBER_EPSILON) (rounding_factor f))) (rounding_factor f)
      \<le> js_div (math_round (js_mul (js_add y NUMBER_EPSILON) (rounding_factor f))) (rounding_factor f)" for f
    using assms by (intro js_div_mono math_round_mono js_mul_mono js_add_mono) (auto intro: less_imp_le)
  then show ?thesis using assms by (simp add: applyRounding_def Let_def)
qed

text \<open>The same cell with a mark that is at least as good.\<close>

definition improved :: "GradeCalculationCellInput \<Rightarrow> GradeCalculationCellInput \<Rightarrow> bool" where
  "improved c c' \<longleftrightarrow> gc_status c' = gc_status c \<and> gc_maxScore c' = gc_maxScore c \<and> gc_weight c' = gc_weight c \<and>
     rel_option (\<le>) (toGradeNumber (gc_score c)) (toGradeNumber (gc_score c'))"

definition better_sums :: "final_sums \<Rightarrow> final_sums \<Rightarrow> bool" where
  "better_sums st st' \<longleftrightarrow> rawFinalPercent st \<le> rawFinalPercent st' \<and> rawCompletedWeight st' = rawCompletedWeight st \<and>
     enteredCount st' = enteredCount st \<and> missingSum st' = missingSum st \<and> absentSum st' = absentSum st"

lemma improved_percent:
  assumes "improved c c'"
  shows "rel_option (\<le>) (calculateAssessmentPercent (gc_score c) (gc_maxScore c))
    (calculateAssessmentPercent (gc_score c') (gc_maxScore c'))"
proof -
  have s: "rel_option (\<le>) (toGradeNumber (gc_score c)) (toGradeNumber (gc_score c'))"
    and m: "gc_maxScore c' = gc_maxScore c" using assms by (auto simp: improved_def)
  show ?thesis
    using s by (cases "toGradeNumber (gc_maxScore c)"; cases "toGradeNumber (gc_score c)")
      (auto simp: calculateAssessmentPercent_def m option_rel_Some1 intro!: js_mul_mono js_div_mono)
qed

lemma add_cell_better:
  assumes "improved c c'" "better_sums st st'" "\<forall>w. toGradeNumber (gc_weight c) = Some w \<longrightarrow> 0 \<le> w"
  shows "better_sums (add_cell st c) (add_cell st' c')"
proof -
  have w: "gc_weight c' = gc_weight c" "gc_status c' = gc_status c" using assms(1) by (auto simp: improved_def)
  show ?thesis
  proof (cases "calculateAssessmentPercent (gc_score c) (gc_maxScore c)")
    case None
    then show ?thesis using improved_percent [OF assms(1)] assms(2)
      by (auto simp: add_cell_def w better_sums_def calculateWeightedContribution_def split: GradeItemStatus.splits)
  next
    case (Some p)
    with improved_percent [OF assms(1)] obtain p' where p': "calculateAssessmentPercent (gc_score c') (gc_maxScore c') = Some p'" "p \<le> p'"
      by (auto simp: option_rel_Some1)
    have "js_div (js_mul p v) 100 \<le> js_div (js_mul p' v) 100" if "toGradeNumber (gc_weight c) = Some v" for v
      using that assms(3) p'(2) by (intro js_div_mono js_mul_mono) auto
    then show ?thesis using Some p' assms(2)
      by (auto simp: add_cell_def w better_sums_def calculateWeightedContribution_def
        split: GradeItemStatus.splits option.splits intro: js_add_mono)
  qed
qed

lemma foldl_add_cell_better:
  "list_all2 improved cs cs' \<Longrightarrow> better_sums st st' \<Longrightarrow>
   \<forall>c \<in> set cs. \<forall>w. toGradeNumber (gc_weight c) = Some w \<longrightarrow> 0 \<le> w \<Longrightarrow>
   better_sums (foldl add_cell st cs) (foldl add_cell st' cs')"
proof (induction cs cs' arbitrary: st st' rule: list_all2_induct)
  case (Cons c cs c' cs')
  then show ?case using add_cell_better [of c c' st st'] by simp
qed simp

text \<open>C40. Raising marks never lowers a grade, rounding errors of the arithmetic included: when every cell of a
  student keeps its assessment and status and has at least the same mark, the final percentage does not
  decrease, a student who passed still passes, and the completed weight and the counts stay the same.\<close>

theorem better_marks_never_lower_a_grade:
  assumes "list_all2 improved cells cells'"
    and "\<forall>c \<in> set cells. \<forall>w. toGradeNumber (gc_weight c) = Some w \<longrightarrow> 0 \<le> w"
  shows "let old = calculateStudentFinalPercent cells rule; new = calculateStudentFinalPercent cells' rule
    in rel_option (\<le>) (sf_finalPercent old) (sf_finalPercent new) \<and>
       (deriveGradebookStudentStatus (nullable (sf_finalPercent old)) (sf_hasEnteredScores old) rule = Passing \<longrightarrow>
        deriveGradebookStudentStatus (nullable (sf_finalPercent new)) (sf_hasEnteredScores new) rule = Passing) \<and>
       sf_completedWeight new = sf_completedWeight old \<and> sf_totalEnteredCount new = sf_totalEnteredCount old \<and>
       sf_missingCount new = sf_missingCount old \<and> sf_absentCount new = sf_absentCount old"
proof -
  define z where "z = \<lparr>rawFinalPercent = 0, rawCompletedWeight = 0, enteredCount = 0, missingSum = 0, absentSum = 0\<rparr>"
  define st where "st = foldl add_cell z cells"
  define st' where "st' = foldl add_cell z cells'"
  have b: "better_sums st st'"
    unfolding st_def st'_def by (rule foldl_add_cell_better [OF assms(1) _ assms(2)]) (simp add: better_sums_def)
  then obtain x y where r: "applyRounding (NumberValue (Some (rawFinalPercent st))) (gr_rounding rule) = Some x"
    "applyRounding (NumberValue (Some (rawFinalPercent st'))) (gr_rounding rule) = Some y" "x \<le> y"
    using applyRounding_mono [of "rawFinalPercent st" "rawFinalPercent st'" "gr_rounding rule"]
    by (auto simp: better_sums_def)
  from b have eqs: "rawCompletedWeight st' = rawCompletedWeight st" "enteredCount st' = enteredCount st"
    "missingSum st' = missingSum st" "absentSum st' = absentSum st" by (simp_all add: better_sums_def)
  show ?thesis
    unfolding calculateStudentFinalPercent_def Let_def z_def [symmetric] st_def [symmetric] st'_def [symmetric]
    using r by (cases "0 < enteredCount st") (simp_all add: eqs deriveGradebookStudentStatus_def)
qed

text \<open>A student with an exam of weight 50 and an absence from one of weight 30.\<close>

definition example_rule :: GradeCalculationRule where
  "example_rule = \<lparr>gr_passMark = DecimalValue 30, gr_rounding = ''DECIMAL_2''\<rparr>"

definition example_cells :: "rat \<Rightarrow> GradeCalculationCellInput list" where
  "example_cells mark =
     [\<lparr>gc_status = ''ENTERED'', gc_score = NumberValue (Some mark), gc_maxScore = DecimalValue 80, gc_weight = DecimalValue 50\<rparr>,
      \<lparr>gc_status = ''ABSENT'', gc_score = NullValue, gc_maxScore = DecimalValue 20, gc_weight = DecimalValue 30\<rparr>]"

theorem better_marks_never_lower_a_grade_witness:
  "rel_option (\<le>) (sf_finalPercent (calculateStudentFinalPercent (example_cells 40) example_rule))
    (sf_finalPercent (calculateStudentFinalPercent (example_cells 60) example_rule)) \<and>
   sf_finalPercent (calculateStudentFinalPercent (example_cells 60) example_rule) = Some (75 / 2)"
proof (rule conjI)
  have "list_all2 improved (example_cells 40) (example_cells 60)" by (simp add: example_cells_def improved_def)
  moreover have "\<forall>c \<in> set (example_cells 40). \<forall>w. toGradeNumber (gc_weight c) = Some w \<longrightarrow> 0 \<le> w"
    by (simp add: example_cells_def fl_nonneg)
  ultimately show "rel_option (\<le>) (sf_finalPercent (calculateStudentFinalPercent (example_cells 40) example_rule))
    (sf_finalPercent (calculateStudentFinalPercent (example_cells 60) example_rule))"
    using better_marks_never_lower_a_grade [of "example_cells 40" "example_cells 60" example_rule] by (simp only: Let_def)
  show "sf_finalPercent (calculateStudentFinalPercent (example_cells 60) example_rule) = Some (75 / 2)" by code_simp
qed

section \<open>Grades stay within their weight\<close>

text \<open>Whole numbers survive the arithmetic: the epsilon added before rounding is too small to matter.\<close>

lemma fl_small_int: "0 \<le> k \<Longrightarrow> k \<le> 10000 \<Longrightarrow> fl (of_int k) = of_int k"
  by (rule fl_int) simp

lemma fl_with_fraction:
  assumes "0 \<le> k" "k \<le> 10000" "0 \<le> j" "j \<le> 256"
  shows "fl (of_int k + of_int j / 256) = of_int k + of_int j / 256"
proof -
  have e: "(of_int k + of_int j / 256 :: rat) = of_int (k * 256 + j) * 2 powi (- 8)"
    by (simp add: power_int_minus field_simps)
  show ?thesis unfolding e using assms by (intro fl_scaled_int) simp
qed

lemma round_whole:
  assumes k: "0 \<le> k" "k \<le> 100" and f: "f = (1::int) \<or> f = 10 \<or> f = 100"
  shows "js_div (math_round (js_mul (js_add (of_int k) NUMBER_EPSILON) (of_int f))) (of_int f) = of_int k"
proof -
  have f': "1 \<le> f" "f \<le> 100" using f by auto
  have kf: "0 \<le> k * f" "k * f \<le> 10000" using k f' mult_mono [of k 100 f 100] by auto
  define s where "s = js_add (of_int k) NUMBER_EPSILON"
  have "of_int k \<le> s" unfolding s_def js_add_def
    using fl_mono [of "of_int k" "of_int k + NUMBER_EPSILON"] fl_small_int [of k] k by (simp add: NUMBER_EPSILON_def)
  moreover have "s \<le> of_int k + 1 / 256" unfolding s_def js_add_def
    using fl_mono [of "of_int k + NUMBER_EPSILON" "of_int k + of_int 1 / 256"] fl_with_fraction [of k 1] k
    by (simp add: NUMBER_EPSILON_def)
  ultimately have s: "of_int (k * f) \<le> s * of_int f" "s * of_int f \<le> of_int (k * f) + of_int f / 256"
    using f' mult_right_mono [of "of_int k" s "of_int f"] mult_right_mono [of s "of_int k + 1 / 256" "of_int f"]
    by (simp_all add: algebra_simps)
  define t where "t = js_mul s (of_int f)"
  have "of_int (k * f) \<le> t" unfolding t_def js_mul_def using fl_mono [OF s(1)] fl_small_int [OF kf] by simp
  moreover have "t \<le> of_int (k * f) + of_int f / 256"
    unfolding t_def js_mul_def using fl_mono [OF s(2)] fl_with_fraction [OF kf, of f] f' by simp
  ultimately have "\<lfloor>t + 1 / 2\<rfloor> = k * f" using f' by (intro floor_unique) (simp_all add: field_simps)
  then have "math_round t = of_int (k * f)" by (simp add: math_round_def)
  then show ?thesis using k f' unfolding s_def t_def by (simp add: js_div_def fl_small_int)
qed

lemma applyRounding_whole:
  assumes "0 \<le> k" "k \<le> 100"
  shows "applyRounding (NumberValue (Some (of_int k))) r = Some (of_int k)"
proof -
  have "\<exists>f. rounding_factor n = of_int f \<and> (f = 1 \<or> f = 10 \<or> f = 100)" for n
    by (auto simp: rounding_factor_def)
  then obtain f where "rounding_factor (toUpperCase (js_trim r)) = of_int f" "f = 1 \<or> f = 10 \<or> f = 100" by blast
  then show ?thesis using round_whole [OF assms, of f] by (simp add: applyRounding_def Let_def)
qed

lemma percent_in_range:
  assumes "calculateAssessmentPercent s m = Some p" "toGradeNumber s = Some x" "toGradeNumber m = Some y" "0 \<le> x" "x \<le> y"
  shows "0 \<le> p \<and> p \<le> 100"
proof -
  have p: "p = js_mul (js_div x y) 100" "0 < y" using assms(1-3) by (auto simp: calculateAssessmentPercent_def split: if_splits)
  have "0 \<le> js_div x y" using assms p by (simp add: js_div_def fl_nonneg)
  moreover have "js_div x y \<le> 1"
    using js_div_mono [OF p(2) assms(5)] p(2) fl_small_int [of 1] by (simp add: js_div_def)
  ultimately show ?thesis
    using js_mul_mono [of 100 "js_div x y" 1] fl_small_int [of 100] unfolding p(1) by (simp add: js_mul_def fl_nonneg)
qed

lemma contribution_in_range:
  assumes "calculateWeightedContribution (nullable (Some p)) w = Some c" "toGradeNumber w = Some (of_int k)"
    "0 \<le> p" "p \<le> 100" "0 \<le> k" "k \<le> 100"
  shows "0 \<le> c \<and> c \<le> of_int k"
proof -
  have c: "c = js_div (js_mul p (of_int k)) 100" using assms(1,2) by (simp add: calculateWeightedContribution_def)
  have "js_mul p (of_int k) \<le> js_mul 100 (of_int k)" using assms by (intro js_mul_mono) auto
  also have "\<dots> = of_int (100 * k)" using fl_small_int [of "100 * k"] assms by (simp add: js_mul_def)
  finally have "c \<le> js_div (of_int (100 * k)) 100" unfolding c by (intro js_div_mono) auto
  also have "\<dots> = of_int k" using fl_small_int [of k] assms by (simp add: js_div_def)
  finally show ?thesis using assms by (simp add: c js_div_def js_mul_def fl_nonneg)
qed

text \<open>A mark between 0 and the maximum of its assessment, and a weight of whole percent.\<close>

definition mark_in_range :: "GradeCalculationCellInput \<Rightarrow> bool" where
  "mark_in_range c \<longleftrightarrow> (case (toGradeNumber (gc_score c), toGradeNumber (gc_maxScore c)) of
     (Some x, Some y) \<Rightarrow> 0 \<le> x \<and> x \<le> y | _ \<Rightarrow> True)"

definition whole_weight :: "GradeCalculationCellInput \<Rightarrow> int \<Rightarrow> bool" where
  "whole_weight c k \<longleftrightarrow> toGradeNumber (gc_weight c) = Some (of_int k) \<and> 0 \<le> k"

definition within_weight :: "final_sums \<Rightarrow> int \<Rightarrow> bool" where
  "within_weight st n \<longleftrightarrow> (\<exists>k. 0 \<le> k \<and> k \<le> n \<and> rawCompletedWeight st = of_int k \<and>
     0 \<le> rawFinalPercent st \<and> rawFinalPercent st \<le> of_int k)"

lemma add_cell_within:
  assumes st: "within_weight st n" and c: "mark_in_range c" "whole_weight c k" and n: "n + k \<le> 100"
  shows "within_weight (add_cell st c) (n + k)"
proof -
  obtain j where j: "0 \<le> j" "j \<le> n" "rawCompletedWeight st = of_int j" "0 \<le> rawFinalPercent st" "rawFinalPercent st \<le> of_int j"
    using st by (auto simp: within_weight_def)
  have k: "toGradeNumber (gc_weight c) = Some (of_int k)" "0 \<le> k" "k \<le> 100" using c n j by (auto simp: whole_weight_def)
  have keep: "within_weight st (n + k)" using j k by (auto simp: within_weight_def)
  show ?thesis
  proof (cases "normalizeItemStatus (gc_status c)")
    case Item_ENTERED
    show ?thesis
    proof (cases "calculateAssessmentPercent (gc_score c) (gc_maxScore c)")
      case None
      then show ?thesis using Item_ENTERED keep by (simp add: add_cell_def calculateWeightedContribution_def)
    next
      case (Some p)
      then obtain x y where "toGradeNumber (gc_score c) = Some x" "toGradeNumber (gc_maxScore c) = Some y"
        by (auto simp: calculateAssessmentPercent_def split: option.splits)
      then have p: "0 \<le> p" "p \<le> 100" using percent_in_range [OF Some] c(1) by (auto simp: mark_in_range_def)
      obtain d where d: "calculateWeightedContribution (nullable (Some p)) (gc_weight c) = Some d"
        using k(1) by (simp add: calculateWeightedContribution_def)
      have d': "0 \<le> d" "d \<le> of_int k" using contribution_in_range [OF d k(1) p k(2,3)] by auto
      have "js_add (rawFinalPercent st) d \<le> of_int (j + k)"
        using js_add_mono [OF j(5) d'(2)] fl_small_int [of "j + k"] j k n by (simp add: js_add_def)
      moreover have "0 \<le> js_add (rawFinalPercent st) d" using j d' by (simp add: js_add_def fl_nonneg)
      moreover have "js_add (rawCompletedWeight st) (of_int k) = of_int (j + k)"
        using fl_small_int [of "j + k"] j k n by (simp add: js_add_def)
      ultimately show ?thesis using Item_ENTERED Some d j k
        by (auto simp: add_cell_def within_weight_def intro!: exI [of _ "j + k"])
    qed
  qed (use keep in \<open>auto simp: add_cell_def within_weight_def\<close>)
qed

lemma whole_weights_nonneg: "list_all2 whole_weight cs ks \<Longrightarrow> 0 \<le> sum_list ks"
  by (induction rule: list_all2_induct) (auto simp: whole_weight_def)

lemma foldl_add_cell_within:
  "list_all2 whole_weight cs ks \<Longrightarrow> \<forall>c \<in> set cs. mark_in_range c \<Longrightarrow> within_weight st n \<Longrightarrow> n + sum_list ks \<le> 100 \<Longrightarrow>
   within_weight (foldl add_cell st cs) (n + sum_list ks)"
proof (induction cs ks arbitrary: st n rule: list_all2_induct)
  case (Cons c cs k ks)
  have "0 \<le> sum_list ks" using Cons.hyps(2) by (rule whole_weights_nonneg)
  then have "within_weight (add_cell st c) (n + k)" using Cons.prems Cons.hyps by (intro add_cell_within) auto
  from Cons.IH [OF _ this] Cons.prems show ?case by (simp add: add.assoc)
qed simp

text \<open>C39. The final percentage stays within the weight that was graded: when the marks are within their
  assessments and the weights are whole percent that add up to at most 100, the completed weight is a whole
  number of at most that sum, and the final percentage lies between 0 and the completed weight. The double
  arithmetic and every rounding mode are included.\<close>

theorem final_percent_within_weight:
  assumes "list_all2 whole_weight cells ks" "sum_list ks \<le> 100" "\<forall>c \<in> set cells. mark_in_range c"
  shows "let final = calculateStudentFinalPercent cells rule
    in (\<exists>k. sf_completedWeight final = of_int k \<and> 0 \<le> k \<and> k \<le> sum_list ks) \<and>
       (\<forall>p. sf_finalPercent final = Some p \<longrightarrow> 0 \<le> p \<and> p \<le> sf_completedWeight final)"
proof -
  define z where "z = \<lparr>rawFinalPercent = 0, rawCompletedWeight = 0, enteredCount = 0, missingSum = 0, absentSum = 0\<rparr>"
  define st where "st = foldl add_cell z cells"
  have "within_weight z 0" by (simp add: z_def within_weight_def)
  then have "within_weight st (0 + sum_list ks)"
    unfolding st_def using assms by (intro foldl_add_cell_within) auto
  then obtain k where k: "0 \<le> k" "k \<le> sum_list ks" "rawCompletedWeight st = of_int k"
    "0 \<le> rawFinalPercent st" "rawFinalPercent st \<le> of_int k" by (auto simp: within_weight_def)
  have r: "applyRounding (NumberValue (Some (of_int k))) (gr_rounding rule) = Some (of_int k)"
    "applyRounding (NumberValue (Some 0)) (gr_rounding rule) = Some 0"
    using applyRounding_whole [of k] applyRounding_whole [of 0] k assms(2) by auto
  obtain x where x: "applyRounding (NumberValue (Some (rawFinalPercent st))) (gr_rounding rule) = Some x" "0 \<le> x" "x \<le> of_int k"
    using applyRounding_mono [OF k(4), of "gr_rounding rule"] applyRounding_mono [OF k(5), of "gr_rounding rule"] r by auto
  show ?thesis
    unfolding calculateStudentFinalPercent_def Let_def z_def [symmetric] st_def [symmetric]
    using x k r by simp
qed

lemma example_weights: "list_all2 whole_weight (example_cells m) [50, 30]"
  using fl_small_int [of 50] fl_small_int [of 30] by (simp add: example_cells_def whole_weight_def)

theorem final_percent_within_weight_witness:
  "\<exists>k. sf_completedWeight (calculateStudentFinalPercent (example_cells 60) example_rule) = of_int k \<and> 0 \<le> k \<and> k \<le> 80"
proof -
  have "mark_in_range c" if "c \<in> set (example_cells 60)" for c
    using that fl_small_int [of 80] by (auto simp: example_cells_def mark_in_range_def)
  then show ?thesis
    using final_percent_within_weight [OF example_weights, of 60 example_rule] by (simp add: Let_def)
qed

section \<open>Every grade falls into one bucket\<close>

text \<open>The buckets are the multiples of the size below 100, and the last one is closed at 100.\<close>

definition bucket_count :: "int \<Rightarrow> nat" where
  "bucket_count sz = nat (99 div sz + 1)"

definition bucket_at :: "int \<Rightarrow> nat \<Rightarrow> DistributionBucket" where
  "bucket_at sz i = \<lparr>db_from = int i * sz,
     db_to = (if Suc i = bucket_count sz then 100 else int (Suc i) * sz - 1), db_count = 0\<rparr>"

lemma clamp_size: "5 \<le> clampInteger v 5 50 \<and> clampInteger v 5 50 \<le> 50"
  by (simp add: clampInteger_def split: option.split)

lemma bucket_index_less: "0 < sz \<Longrightarrow> i < bucket_count sz \<longleftrightarrow> int i * sz < 100"
proof -
  assume sz: "0 < sz"
  have "i < bucket_count sz \<longleftrightarrow> int i < 99 div sz + 1" by (simp add: bucket_count_def zless_nat_eq_int_zless)
  also have "\<dots> \<longleftrightarrow> int i \<le> 99 div sz" by linarith
  also have "\<dots> \<longleftrightarrow> int i * sz \<le> 99"
  proof
    assume "int i \<le> 99 div sz"
    then have "int i * sz \<le> 99 div sz * sz" using sz by (intro mult_right_mono) auto
    also have "\<dots> \<le> 99" using minus_mod_eq_div_mult [of 99 sz] pos_mod_sign [OF sz, of 99] by linarith
    finally show "int i * sz \<le> 99" .
  next
    assume "int i * sz \<le> 99"
    then show "int i \<le> 99 div sz" using zdiv_mono1 [of "int i * sz" 99 sz] sz by simp
  qed
  finally show ?thesis by auto
qed

lemma make_buckets_from:
  assumes "0 < sz" "i \<le> bucket_count sz"
  shows "make_buckets sz (int i * sz) =
    map (\<lambda>j. \<lparr>db_from = int j * sz, db_to = min (int j * sz + sz - 1) 100, db_count = 0\<rparr>) [i..<bucket_count sz]"
  using assms(2)
proof (induction rule: inc_induct)
  case base
  then show ?case using bucket_index_less [OF assms(1), of "bucket_count sz"] by (subst make_buckets.simps) simp
next
  case (step n)
  then have "int n * sz < 100" using bucket_index_less [OF assms(1)] by blast
  moreover have "int n * sz + sz = int (Suc n) * sz" by (simp add: algebra_simps)
  ultimately show ?case using step assms(1) by (subst make_buckets.simps) (simp add: upt_conv_Cons)
qed

lemma initial_buckets:
  assumes "0 < sz" "sz \<le> 50"
  shows "(let buckets = make_buckets sz 0
    in if buckets \<noteq> [] then butlast buckets @ [(last buckets)\<lparr>db_to := 100\<rparr>] else buckets) =
    map (bucket_at sz) [0..<bucket_count sz]"
proof -
  obtain n where n: "bucket_count sz = Suc n" using bucket_index_less [OF assms(1), of 0] by (cases "bucket_count sz") auto
  have "int (Suc j) * sz - 1 \<le> 100" if "j < n" for j
  proof -
    have "Suc j < bucket_count sz" using that n by simp
    then have "int (Suc j) * sz < 100" using bucket_index_less [OF assms(1)] by blast
    then show ?thesis by linarith
  qed
  then have "min (int j * sz + sz - 1) 100 = int (Suc j) * sz - 1" if "j < n" for j
    using that by (fastforce simp: algebra_simps min_def)
  then show ?thesis using make_buckets_from [OF assms(1), of 0] n by (simp add: bucket_at_def Let_def)
qed

text \<open>A percentage, clamped to 0 to 100, lies in a bucket.\<close>

definition in_bucket :: "DistributionBucket \<Rightarrow> rat \<Rightarrow> bool" where
  "in_bucket b x \<longleftrightarrow> (let c = min (max x 0) 100
     in of_int (db_from b) \<le> c \<and> (db_to b = 100 \<or> c < of_int (db_to b + 1)))"

definition bucket_index :: "int \<Rightarrow> rat \<Rightarrow> int" where
  "bucket_index sz x = (let c = min (max x 0) 100
     in if c \<ge> 100 then int (bucket_count sz) - 1 else \<lfloor>js_div c (of_int sz)\<rfloor>)"

lemma bucket_at_100: "0 < sz \<Longrightarrow> sz \<le> 50 \<Longrightarrow> i < bucket_count sz \<Longrightarrow> db_to (bucket_at sz i) = 100 \<longleftrightarrow> Suc i = bucket_count sz"
  using bucket_index_less [of sz "Suc i"] by (auto simp: bucket_at_def)

lemma bucket_index_exact:
  assumes sz: "0 < sz" "sz \<le> 50" and x: "fl x = x"
  shows "0 \<le> bucket_index sz x \<and> bucket_index sz x < int (bucket_count sz) \<and>
    (\<forall>i < bucket_count sz. in_bucket (bucket_at sz i) x \<longleftrightarrow> int i = bucket_index sz x)"
proof -
  define c where "c = min (max x 0) 100"
  have n: "0 < bucket_count sz" using bucket_index_less [OF sz(1), of 0] by simp
  have sz': "0 < (of_int sz :: rat)" using sz by simp
  show ?thesis
  proof (cases "c \<ge> 100")
    case True
    then have c: "c = 100" by (simp add: c_def)
    have "of_int (int i * sz) < (100 :: rat)" if "i < bucket_count sz" for i
    proof -
      have "int i * sz < 100" using bucket_index_less [OF sz(1)] that by blast
      then show ?thesis using of_int_less_iff [of "int i * sz" 100, where 'a = rat] by simp
    qed
    moreover have "\<not> 100 < (1 + int i) * sz" if "i < bucket_count sz" "Suc i \<noteq> bucket_count sz" for i
      using bucket_index_less [OF sz(1), of "Suc i"] that by auto
    ultimately show ?thesis using n bucket_at_100 [OF sz]
      by (auto simp: bucket_index_def in_bucket_def c_def [symmetric] Let_def c bucket_at_def less_imp_le)
  next
    case False
    then have c: "0 \<le> c" "c < 100" "fl c = c" using x by (auto simp: c_def min_def max_def)
    define q where "q = \<lfloor>c / of_int sz\<rfloor>"
    have "bucket_index sz x = q" using False floor_js_div [OF c(3,1) sz(1)] c sz
      by (simp add: bucket_index_def c_def [symmetric] Let_def q_def)
    moreover have q0: "0 \<le> q" using c sz by (simp add: q_def)
    moreover have "of_int q \<le> c / of_int sz" "c / of_int sz < of_int (q + 1)"
      using floor_correct [of "c / of_int sz"] by (simp_all add: q_def)
    then have q: "of_int (q * sz) \<le> c" "c < of_int ((q + 1) * sz)"
      using sz' by (simp_all add: pos_le_divide_eq pos_divide_less_eq)
    moreover have "q < int (bucket_count sz)"
    proof -
      have "(of_int (q * sz) :: rat) < of_int 100" using q(1) c(2) by simp
      then have "q * sz < 100" by (simp only: of_int_less_iff)
      then show ?thesis using bucket_index_less [OF sz(1), of "nat q"] q0 by auto
    qed
    moreover have "in_bucket (bucket_at sz i) x \<longleftrightarrow> int i = q" if i: "i < bucket_count sz" for i
    proof -
      have "in_bucket (bucket_at sz i) x \<longleftrightarrow> of_int (int i * sz) \<le> c \<and> c < of_int (int (Suc i) * sz)"
      proof (cases "Suc i = bucket_count sz")
        case True
        then have "\<not> int (Suc i) * sz < 100" using bucket_index_less [OF sz(1), of "Suc i"] by simp
        then have "(of_int 100 :: rat) \<le> of_int (int (Suc i) * sz)" by (simp only: of_int_le_iff)
        then have "c < of_int (int (Suc i) * sz)" using c by (simp only: of_int_numeral)
        then show ?thesis using bucket_at_100 [OF sz i] True by (simp add: in_bucket_def c_def [symmetric] Let_def bucket_at_def)
      next
        case False
        then show ?thesis using bucket_at_100 [OF sz i] by (simp add: in_bucket_def c_def [symmetric] Let_def bucket_at_def)
      qed
      also have "\<dots> \<longleftrightarrow> of_int (int i) \<le> c / of_int sz \<and> c / of_int sz < of_int (int i) + 1"
        using sz' by (simp add: field_simps)
      also have "\<dots> \<longleftrightarrow> int i = q" unfolding q_def by (auto simp: floor_eq_iff eq_commute [of "int i"])
      finally show ?thesis .
    qed
    ultimately show ?thesis by blast
  qed
qed

text \<open>How many of the values fall into a bucket.\<close>

definition grades_in :: "DistributionBucket \<Rightarrow> GradeNumericValue list \<Rightarrow> int" where
  "grades_in b vs = int (length (filter (\<lambda>v. \<exists>x. toGradeNumber v = Some x \<and> in_bucket b x) vs))"

lemma count_value_index:
  "length buckets = bucket_count sz \<Longrightarrow> toGradeNumber v = Some x \<Longrightarrow> bucket_index sz x = int k \<Longrightarrow> k < bucket_count sz \<Longrightarrow>
   count_value sz buckets v = Inr (buckets[k := (buckets ! k)\<lparr>db_count := db_count (buckets ! k) + 1\<rparr>])"
  unfolding count_value_def bucket_index_def Let_def by (simp only: option.case) simp

lemma count_values_exact:
  assumes sz: "0 < sz" "sz \<le> 50"
  shows "\<forall>v \<in> set vs. \<forall>x. toGradeNumber v = Some x \<longrightarrow> fl x = x \<Longrightarrow> length ns = bucket_count sz \<Longrightarrow>
    count_values sz (map2 (\<lambda>i n. (bucket_at sz i)\<lparr>db_count := n\<rparr>) [0..<bucket_count sz] ns) vs =
    Inr (map2 (\<lambda>i n. (bucket_at sz i)\<lparr>db_count := n + grades_in (bucket_at sz i) vs\<rparr>) [0..<bucket_count sz] ns)"
proof (induction vs arbitrary: ns)
  case Nil
  then show ?case by (simp add: grades_in_def)
next
  case (Cons v vs)
  show ?case
  proof (cases "toGradeNumber v")
    case None
    then show ?thesis using Cons by (simp add: count_value_def grades_in_def)
  next
    case (Some x)
    define k where "k = nat (bucket_index sz x)"
    have fx: "fl x = x" using Cons.prems Some by simp
    note ix = bucket_index_exact [OF sz fx]
    have k: "bucket_index sz x = int k" "k < bucket_count sz" using ix by (auto simp: k_def)
    have inb: "in_bucket (bucket_at sz i) x \<longleftrightarrow> i = k" if "i < bucket_count sz" for i using ix that k by auto
    let ?bs = "map2 (\<lambda>i n. (bucket_at sz i)\<lparr>db_count := n\<rparr>) [0..<bucket_count sz]"
    have "count_value sz (?bs ns) v = Inr (?bs (ns[k := ns ! k + 1]))"
    proof -
      have "count_value sz (?bs ns) v = Inr ((?bs ns)[k := (?bs ns ! k)\<lparr>db_count := db_count (?bs ns ! k) + 1\<rparr>])"
        using k Cons.prems(2) Some by (intro count_value_index) simp_all
      also have "\<dots> = Inr (?bs (ns[k := ns ! k + 1]))" using k Cons.prems(2)
        by (auto intro!: nth_equalityI simp: nth_list_update)
      finally show ?thesis .
    qed
    moreover have "count_values sz (?bs (ns[k := ns ! k + 1])) vs =
      Inr (map2 (\<lambda>i n. (bucket_at sz i)\<lparr>db_count := n + grades_in (bucket_at sz i) vs\<rparr>) [0..<bucket_count sz] (ns[k := ns ! k + 1]))"
      using Cons.prems by (intro Cons.IH) auto
    moreover have "map2 (\<lambda>i n. (bucket_at sz i)\<lparr>db_count := n + grades_in (bucket_at sz i) vs\<rparr>) [0..<bucket_count sz] (ns[k := ns ! k + 1]) =
      map2 (\<lambda>i n. (bucket_at sz i)\<lparr>db_count := n + grades_in (bucket_at sz i) (v # vs)\<rparr>) [0..<bucket_count sz] ns"
      using k Cons.prems(2) by (auto intro!: nth_equalityI simp: nth_list_update grades_in_def Some inb)
    ultimately show ?thesis by simp
  qed
qed

text \<open>The distribution of grades is exact: it never fails, its buckets are the consecutive ranges of the
  requested size from 0, the last one closed at 100, each bucket counts the percentages, clamped to 0 to 100,
  that lie in its range, although the index is computed in double arithmetic, and every percentage lies in
  exactly one bucket.\<close>

theorem distribution_exact:
  assumes "\<forall>v \<in> set vals. \<forall>x. toGradeNumber v = Some x \<longrightarrow> fl x = x"
  shows "\<exists>buckets sz. buildDistributionBuckets vals bucketSize = Inr buckets \<and> sz = clampInteger bucketSize 5 50 \<and>
    map db_from buckets = map (\<lambda>i. int i * sz) [0..<nat (99 div sz + 1)] \<and>
    map db_to buckets = map (\<lambda>i. int (Suc i) * sz - 1) [0..<nat (99 div sz)] @ [100] \<and>
    (\<forall>b \<in> set buckets. db_count b = grades_in b vals) \<and>
    (\<forall>v \<in> set vals. \<forall>x. toGradeNumber v = Some x \<longrightarrow> (\<exists>!i. i < length buckets \<and> in_bucket (buckets ! i) x))"
proof -
  define sz where "sz = clampInteger bucketSize 5 50"
  have sz: "0 < sz" "sz \<le> 50" using clamp_size [of bucketSize] by (auto simp: sz_def)
  define n where "n = bucket_count sz"
  define bs where "bs = map (\<lambda>i. (bucket_at sz i)\<lparr>db_count := grades_in (bucket_at sz i) vals\<rparr>) [0..<n]"
  have zero: "map (bucket_at sz) [0..<n] = map2 (\<lambda>i k. (bucket_at sz i)\<lparr>db_count := k\<rparr>) [0..<n] (replicate n 0)"
    by (rule nth_equalityI) (simp_all add: bucket_at_def)
  have final: "bs = map2 (\<lambda>i k. (bucket_at sz i)\<lparr>db_count := k + grades_in (bucket_at sz i) vals\<rparr>) [0..<n] (replicate n 0)"
    unfolding bs_def by (rule nth_equalityI) simp_all
  have build: "buildDistributionBuckets vals bucketSize = Inr bs"
  proof -
    have "buildDistributionBuckets vals bucketSize = count_values sz (map (bucket_at sz) [0..<n]) vals"
      unfolding buildDistributionBuckets_def sz_def [symmetric] n_def initial_buckets [OF sz, symmetric] by (simp only: Let_def)
    also have "\<dots> = Inr bs" unfolding zero final unfolding n_def
      by (rule count_values_exact [OF sz assms]) simp
    finally show ?thesis .
  qed
  have same: "in_bucket (b\<lparr>db_count := k\<rparr>) x \<longleftrightarrow> in_bucket b x" for b k x by (simp add: in_bucket_def)
  have n1: "n = Suc (nat (99 div sz))" using sz by (simp add: n_def bucket_count_def nat_add_distrib pos_imp_zdiv_nonneg_iff)
  have froms: "map db_from bs = map (\<lambda>i. int i * sz) [0..<nat (99 div sz + 1)]"
    by (simp add: bs_def bucket_at_def n_def bucket_count_def)
  have tos: "map db_to bs = map (\<lambda>i. int (Suc i) * sz - 1) [0..<nat (99 div sz)] @ [100]"
    unfolding bs_def by (simp add: bucket_at_def n_def [symmetric] n1)
  have counts: "\<forall>b \<in> set bs. db_count b = grades_in b vals" by (auto simp: bs_def grades_in_def same)
  have "\<exists>!i. i < length bs \<and> in_bucket (bs ! i) x" if "fl x = x" for x
  proof (rule ex1I [of _ "nat (bucket_index sz x)"])
    have nth: "in_bucket (bs ! i) x \<longleftrightarrow> int i = bucket_index sz x" if "i < n" for i
      using that bucket_index_exact [OF sz \<open>fl x = x\<close>] by (simp add: bs_def same n_def)
    then show "nat (bucket_index sz x) < length bs \<and> in_bucket (bs ! nat (bucket_index sz x)) x"
      using bucket_index_exact [OF sz \<open>fl x = x\<close>] by (simp add: bs_def n_def nat_less_iff)
    show "i = nat (bucket_index sz x)" if "i < length bs \<and> in_bucket (bs ! i) x" for i
    proof -
      have "i < n" using that by (simp add: bs_def)
      then have "int i = bucket_index sz x" using nth that by blast
      then show ?thesis by simp
    qed
  qed
  then have one: "\<forall>v \<in> set vals. \<forall>x. toGradeNumber v = Some x \<longrightarrow> (\<exists>!i. i < length bs \<and> in_bucket (bs ! i) x)"
    using assms by blast
  show ?thesis
    by (rule exI [of _ bs], rule exI [of _ sz]) (intro conjI build sz_def froms tos counts one)
qed

theorem distribution_exact_witness:
  "\<exists>buckets. buildDistributionBuckets [NumberValue (Some 100), NullValue, NumberValue (Some 30)] (Some 30) = Inr buckets \<and>
     map db_count buckets = [0, 1, 0, 1]"
proof -
  have "\<forall>v \<in> set [NumberValue (Some 100), NullValue, NumberValue (Some 30)]. \<forall>x. toGradeNumber v = Some x \<longrightarrow> fl x = x"
    using fl_small_int [of 100] fl_small_int [of 30] by simp
  from distribution_exact [OF this, of "Some 30"] obtain buckets where
    "buildDistributionBuckets [NumberValue (Some 100), NullValue, NumberValue (Some 30)] (Some 30) = Inr buckets" by blast
  moreover have "map_sum id (map db_count)
      (buildDistributionBuckets [NumberValue (Some 100), NullValue, NumberValue (Some 30)] (Some 30)) = Inr [0, 1, 0, 1]"
    by code_simp
  ultimately show ?thesis by simp
qed

end
