(* ===== verification/Grade_Domain.thy ===== *)
theory Grade_Domain
  imports Grade_Calculation Enum_Values School_Tables
begin

text \<open>
  Rules of assessments, marks and grading rules: the enums of the schema, scopes
  (\<open>shared/domain/grade-scope.ts\<close>), the workflow (\<open>shared/domain/grade-workflow.ts\<close>), marks
  (\<open>shared/domain/grade-item-validation.ts\<close>, \<open>assessments/domain/grade-item-entry-domain.ts\<close>), assessments
  (\<open>assessments/domain/grade-assessment-domain.ts\<close>) and rules (\<open>rules/domain/grade-rule-domain.ts\<close>) of
  \<open>src/src/modules/grades\<close>.
\<close>

section \<open>Enumerations\<close>

datatype GradeScopeType = Scope_SCHOOL | Scope_STAGE | Scope_GRADE | Scope_SECTION | Scope_CLASSROOM

fun GradeScopeType_name :: "GradeScopeType \<Rightarrow> string" where
  "GradeScopeType_name Scope_SCHOOL = ''SCHOOL''"
| "GradeScopeType_name Scope_STAGE = ''STAGE''"
| "GradeScopeType_name Scope_GRADE = ''GRADE''"
| "GradeScopeType_name Scope_SECTION = ''SECTION''"
| "GradeScopeType_name Scope_CLASSROOM = ''CLASSROOM''"

datatype GradeAssessmentType =
  Type_QUIZ | Type_MONTH_EXAM | Type_MIDTERM | Type_TERM_EXAM | Type_ASSIGNMENT | Type_FINAL | Type_PRACTICAL

datatype GradeAssessmentDeliveryMode = Mode_SCORE_ONLY | Mode_QUESTION_BASED

fun GradeAssessmentDeliveryMode_name :: "GradeAssessmentDeliveryMode \<Rightarrow> string" where
  "GradeAssessmentDeliveryMode_name Mode_SCORE_ONLY = ''SCORE_ONLY''"
| "GradeAssessmentDeliveryMode_name Mode_QUESTION_BASED = ''QUESTION_BASED''"

datatype GradeAssessmentApprovalStatus = Approval_DRAFT | Approval_PUBLISHED | Approval_APPROVED

fun GradeAssessmentApprovalStatus_name :: "GradeAssessmentApprovalStatus \<Rightarrow> string" where
  "GradeAssessmentApprovalStatus_name Approval_DRAFT = ''DRAFT''"
| "GradeAssessmentApprovalStatus_name Approval_PUBLISHED = ''PUBLISHED''"
| "GradeAssessmentApprovalStatus_name Approval_APPROVED = ''APPROVED''"

datatype GradeRuleScale = Scale_PERCENTAGE

section \<open>Exceptions\<close>

definition GradeAssessmentInvalidScopeException :: "(string \<times> detail) list \<Rightarrow> js_exception" where
  "GradeAssessmentInvalidScopeException details =
     DomainException ''grades.assessment.invalid_scope'' ''Assessment scope is invalid'' 422 details"

definition GradeTermClosedException :: "(string \<times> detail) list \<Rightarrow> js_exception" where
  "GradeTermClosedException details =
     DomainException ''grades.term.closed'' ''Term is closed for grade modifications'' 409 details"

definition GradeItemScoreOutOfRangeException :: "(string \<times> detail) list \<Rightarrow> js_exception" where
  "GradeItemScoreOutOfRangeException details =
     DomainException ''grades.item.out_of_range'' ''Score is out of the allowed range'' 422 details"

definition GradeRuleConflictException :: "(string \<times> detail) list \<Rightarrow> js_exception" where
  "GradeRuleConflictException details =
     DomainException ''grades.rule.conflict'' ''A grading rule already exists for this scope'' 409 details"

definition GradebookNoEnrollmentException :: "(string \<times> detail) list \<Rightarrow> js_exception" where
  "GradebookNoEnrollmentException details =
     DomainException ''grades.gradebook.no_enrollment'' ''Student has no enrollment for this gradebook context'' 422 details"

definition GradeAssessmentLockedException :: "(string \<times> detail) list \<Rightarrow> js_exception" where
  "GradeAssessmentLockedException details =
     DomainException ''grades.assessment.locked'' ''Assessment is locked'' 409 details"

definition GradeAssessmentNotPublishedException :: "(string \<times> detail) list \<Rightarrow> js_exception" where
  "GradeAssessmentNotPublishedException details =
     DomainException ''grades.assessment.not_published'' ''Assessment must be published first'' 409 details"

definition GradeAssessmentNotApprovedException :: "(string \<times> detail) list \<Rightarrow> js_exception" where
  "GradeAssessmentNotApprovedException details =
     DomainException ''grades.assessment.not_approved'' ''Assessment must be approved first'' 409 details"

definition GradeAssessmentAlreadyPublishedException :: "(string \<times> detail) list \<Rightarrow> js_exception" where
  "GradeAssessmentAlreadyPublishedException details =
     DomainException ''grades.assessment.already_published'' ''Assessment is already published'' 409 details"

definition GradeAssessmentAlreadyApprovedException :: "(string \<times> detail) list \<Rightarrow> js_exception" where
  "GradeAssessmentAlreadyApprovedException details =
     DomainException ''grades.assessment.already_approved'' ''Assessment is already approved'' 409 details"

definition GradeAssessmentAlreadyLockedException :: "(string \<times> detail) list \<Rightarrow> js_exception" where
  "GradeAssessmentAlreadyLockedException details =
     DomainException ''grades.assessment.already_locked'' ''Assessment is already locked'' 409 details"

definition GradeAssessmentInvalidStatusTransitionException :: "(string \<times> detail) list \<Rightarrow> js_exception" where
  "GradeAssessmentInvalidStatusTransitionException details =
     DomainException ''grades.assessment.invalid_status_transition'' ''Assessment status transition is invalid'' 409 details"

section \<open>Scopes\<close>

definition SPRINT_4A_GRADE_SCOPE_TYPES :: "string list" where
  "SPRINT_4A_GRADE_SCOPE_TYPES = [''SCHOOL'', ''STAGE'', ''GRADE'', ''SECTION'', ''CLASSROOM'']"

definition GRADE_SCOPE_TYPE_ALIASES :: "(string \<times> string) list" where
  "GRADE_SCOPE_TYPE_ALIASES =
     [(''school'', ''SCHOOL''), (''stage'', ''STAGE''), (''grade'', ''GRADE''), (''section'', ''SECTION''),
      (''classroom'', ''CLASSROOM'')]"

text \<open>The alias table is an object literal, so its members of \<open>Object.prototype\<close> are found_by_id, too.\<close>

definition normalizeGradeScopeType :: "js_value option \<Rightarrow> js_value result" where
  "normalizeGradeScopeType input =
     (case normalizeNullableText input of
        None \<Rightarrow> Inl (GradeAssessmentInvalidScopeException [(''field'', DStr ''scopeType'')])
      | Some normalized \<Rightarrow>
          (case alias_get GRADE_SCOPE_TYPE_ALIASES (toLowerCase normalized) of
             Some alias \<Rightarrow> Inr alias
           | None \<Rightarrow>
               let enumValue = toUpperCase normalized
               in if enumValue \<in> set SPRINT_4A_GRADE_SCOPE_TYPES then Inr (JStr enumValue)
                  else Inl (GradeAssessmentInvalidScopeException
                         [(''field'', DStr ''scopeType''), (''value'', case input of None \<Rightarrow> DNull | Some v \<Rightarrow> detail_of_js_value v)])))"

text \<open>The case a \<open>switch\<close> over the enum takes: none for a value outside the enum.\<close>

definition switch_scope :: "js_value \<Rightarrow> GradeScopeType option" where
  "switch_scope v =
     (if v = JStr ''SCHOOL'' then Some Scope_SCHOOL
      else if v = JStr ''STAGE'' then Some Scope_STAGE
      else if v = JStr ''GRADE'' then Some Scope_GRADE
      else if v = JStr ''SECTION'' then Some Scope_SECTION
      else if v = JStr ''CLASSROOM'' then Some Scope_CLASSROOM else None)"

record NormalizedGradeScope =
  gs_scopeType :: GradeScopeType
  gs_scopeKey :: string
  gs_stageId :: "string option"
  gs_gradeId :: "string option"
  gs_sectionId :: "string option"
  gs_classroomId :: "string option"

record ResolveGradeScopeInput =
  gi_schoolId :: "string option"
  gi_scopeType :: "js_value option"
  gi_scopeId :: "string option"
  gi_scopeKey :: "string option"
  gi_stageId :: "string option"
  gi_gradeId :: "string option"
  gi_sectionId :: "string option"
  gi_classroomId :: "string option"

fun firstPresent :: "string option list \<Rightarrow> string option" where
  "firstPresent [] = None"
| "firstPresent (v # vs) =
     (case trimmed_or_null v of Some normalized \<Rightarrow> Some normalized | None \<Rightarrow> firstPresent vs)"

definition requireScopeKey :: "GradeScopeType \<Rightarrow> string \<Rightarrow> string option list \<Rightarrow> string result" where
  "requireScopeKey scopeType field candidates =
     (case firstPresent candidates of
        None \<Rightarrow> Inl (GradeAssessmentInvalidScopeException
                  [(''scopeType'', DStr (GradeScopeType_name scopeType)), (''field'', DStr field)])
      | Some scopeKey \<Rightarrow> Inr scopeKey)"

fun resolveScopeKey :: "GradeScopeType \<Rightarrow> ResolveGradeScopeInput \<Rightarrow> string result" where
  "resolveScopeKey Scope_SCHOOL input =
     Inr (case firstPresent [gi_schoolId input, gi_scopeId input, gi_scopeKey input] of None \<Rightarrow> ''school'' | Some k \<Rightarrow> k)"
| "resolveScopeKey Scope_STAGE input =
     requireScopeKey Scope_STAGE ''stageId'' [gi_stageId input, gi_scopeId input, gi_scopeKey input]"
| "resolveScopeKey Scope_GRADE input =
     requireScopeKey Scope_GRADE ''gradeId'' [gi_gradeId input, gi_scopeId input, gi_scopeKey input]"
| "resolveScopeKey Scope_SECTION input =
     requireScopeKey Scope_SECTION ''sectionId'' [gi_sectionId input, gi_scopeId input, gi_scopeKey input]"
| "resolveScopeKey Scope_CLASSROOM input =
     requireScopeKey Scope_CLASSROOM ''classroomId'' [gi_classroomId input, gi_scopeId input, gi_scopeKey input]"

definition assertSupportedSprint4AScope :: "js_value \<Rightarrow> js_value result" where
  "assertSupportedSprint4AScope scopeType =
     andThen (normalizeGradeScopeType (Some scopeType)) (\<lambda>normalized.
       if normalized \<notin> JStr ` set SPRINT_4A_GRADE_SCOPE_TYPES
       then Inl (GradeAssessmentInvalidScopeException [(''scopeType'', detail_of_js_value scopeType)])
       else Inr normalized)"

text \<open>For a value outside the enum \<open>getScopeSpecificField\<close> returns \<open>undefined\<close>, whose fields cannot be read.\<close>

definition resolveGradeScopeInput :: "ResolveGradeScopeInput \<Rightarrow> NormalizedGradeScope result" where
  "resolveGradeScopeInput input =
     andThen (normalizeGradeScopeType (gi_scopeType input)) (\<lambda>v.
     andThen (assertSupportedSprint4AScope v) (\<lambda>_.
     case switch_scope v of
       None \<Rightarrow> Inl (JsError ''TypeError'')
     | Some scopeType \<Rightarrow>
         andThen (resolveScopeKey scopeType input) (\<lambda>scopeKey.
           Inr \<lparr>gs_scopeType = scopeType, gs_scopeKey = scopeKey,
                gs_stageId = (if scopeType = Scope_STAGE then Some scopeKey else trimmed_or_null (gi_stageId input)),
                gs_gradeId = (if scopeType = Scope_GRADE then Some scopeKey else trimmed_or_null (gi_gradeId input)),
                gs_sectionId = (if scopeType = Scope_SECTION then Some scopeKey else trimmed_or_null (gi_sectionId input)),
                gs_classroomId =
                  (if scopeType = Scope_CLASSROOM then Some scopeKey else trimmed_or_null (gi_classroomId input))\<rparr>)))"

section \<open>Workflow\<close>

definition normalizeAssessmentApprovalStatus :: "string \<Rightarrow> GradeAssessmentApprovalStatus result" where
  "normalizeAssessmentApprovalStatus input =
     (let normalized = toUpperCase (js_trim input)
      in if normalized = ''DRAFT'' then Inr Approval_DRAFT
         else if normalized = ''PUBLISHED'' then Inr Approval_PUBLISHED
         else if normalized = ''APPROVED'' then Inr Approval_APPROVED
         else Inl (ValidationDomainException ''Assessment approval status is invalid''
                [(''field'', DStr ''approvalStatus''), (''value'', DStr input)]))"

definition normalizeDeliveryMode :: "string \<Rightarrow> GradeAssessmentDeliveryMode result" where
  "normalizeDeliveryMode input =
     (let normalized = toUpperCase (js_trim input)
      in if normalized = ''SCORE_ONLY'' then Inr Mode_SCORE_ONLY
         else if normalized = ''QUESTION_BASED'' then Inr Mode_QUESTION_BASED
         else Inl (ValidationDomainException ''Assessment delivery mode is invalid''
                [(''field'', DStr ''deliveryMode''), (''value'', DStr input)]))"

definition isAssessmentLocked :: "int option \<Rightarrow> bool option \<Rightarrow> bool" where
  "isAssessmentLocked lockedAt isLocked \<longleftrightarrow> lockedAt \<noteq> None \<or> isLocked = Some True"

definition canInStatus :: "GradeAssessmentApprovalStatus \<Rightarrow> string \<Rightarrow> int option \<Rightarrow> bool option \<Rightarrow> bool result" where
  "canInStatus expected approvalStatus lockedAt isLocked =
     (if isAssessmentLocked lockedAt isLocked then Inr False
      else andThen (normalizeAssessmentApprovalStatus approvalStatus) (\<lambda>status. Inr (status = expected)))"

definition canPublishAssessment :: "string \<Rightarrow> int option \<Rightarrow> bool option \<Rightarrow> bool result" where
  "canPublishAssessment = canInStatus Approval_DRAFT"

definition canApproveAssessment :: "string \<Rightarrow> int option \<Rightarrow> bool option \<Rightarrow> bool result" where
  "canApproveAssessment = canInStatus Approval_PUBLISHED"

definition canLockAssessment :: "string \<Rightarrow> int option \<Rightarrow> bool option \<Rightarrow> bool result" where
  "canLockAssessment = canInStatus Approval_APPROVED"

definition isScoreOnlyDeliveryMode :: "string \<Rightarrow> bool result" where
  "isScoreOnlyDeliveryMode deliveryMode =
     andThen (normalizeDeliveryMode deliveryMode) (\<lambda>mode. Inr (mode = Mode_SCORE_ONLY))"

definition assertScoreOnlyDeliveryMode ::
  "string \<Rightarrow> string option \<Rightarrow> (string \<times> detail) list \<Rightarrow> unit result" where
  "assertScoreOnlyDeliveryMode deliveryMode message details =
     andThen (normalizeDeliveryMode deliveryMode) (\<lambda>mode.
       if mode \<noteq> Mode_SCORE_ONLY
       then Inl (ValidationDomainException
              (case message of None \<Rightarrow> ''Assessment delivery mode must be score-only'' | Some m \<Rightarrow> m)
              ((''deliveryMode'', DStr (GradeAssessmentDeliveryMode_name mode)) # details))
       else Inr ())"

record GradeTermWritableLike =
  gt_id :: string
  gt_isActive :: "bool option"
  gt_closedAt :: "int option"

definition assertGradeTermWritable :: "'a GradeTermWritableLike_scheme \<Rightarrow> unit result" where
  "assertGradeTermWritable trm =
     (if gt_isActive trm = Some False \<or> gt_closedAt trm \<noteq> None
      then Inl (GradeTermClosedException [(''termId'', DStr (gt_id trm))]) else Inr ())"

section \<open>Marks\<close>

definition detail_of_numeric :: "GradeNumericValue \<Rightarrow> detail" where
  "detail_of_numeric v =
     (case v of
        NumberValue (Some x) \<Rightarrow> DNum x
      | NumberValue None \<Rightarrow> DNull
      | TextValue s \<Rightarrow> DStr s
      | DecimalValue d \<Rightarrow> DNum d
      | NullValue \<Rightarrow> DNull
      | UndefinedValue \<Rightarrow> DUndefined)"

text \<open>\<open>Number(v)\<close>\<close>

fun js_to_number :: "GradeNumericValue \<Rightarrow> rat option" where
  "js_to_number (NumberValue n) = n"
| "js_to_number (TextValue s) = js_Number s"
| "js_to_number (DecimalValue d) = Some (fl d)"
| "js_to_number NullValue = Some 0"
| "js_to_number UndefinedValue = None"

definition normalizeGradeItemStatus :: "string option \<Rightarrow> GradeItemStatus result" where
  "normalizeGradeItemStatus input =
     (let normalized = toUpperCase (js_trim (case input of None \<Rightarrow> [] | Some s \<Rightarrow> s))
      in if normalized = ''ENTERED'' then Inr Item_ENTERED
         else if normalized = ''MISSING'' then Inr Item_MISSING
         else if normalized = ''ABSENT'' then Inr Item_ABSENT
         else Inl (ValidationDomainException ''Grade item status is invalid''
                [(''field'', DStr ''status''), (''value'', detail_of_str_option input)]))"

definition isScoreMissing :: "GradeNumericValue \<Rightarrow> bool" where
  "isScoreMissing v \<longleftrightarrow> v = UndefinedValue \<or> v = NullValue \<or> v = TextValue []"

definition toFiniteNumber :: "GradeNumericValue \<Rightarrow> string \<Rightarrow> rat result" where
  "toFiniteNumber v field =
     (if isScoreMissing v then Inl (GradeItemScoreOutOfRangeException [(''field'', DStr field)])
      else case js_to_number v of
        None \<Rightarrow> Inl (GradeItemScoreOutOfRangeException [(''field'', DStr field), (''value'', detail_of_numeric v)])
      | Some x \<Rightarrow> Inr x)"

definition validateScoreWithinRange :: "GradeNumericValue \<Rightarrow> GradeNumericValue \<Rightarrow> unit result" where
  "validateScoreWithinRange score maxScore =
     andThen (toFiniteNumber score ''score'') (\<lambda>s.
     andThen (toFiniteNumber maxScore ''maxScore'') (\<lambda>m.
       if m < 0 \<or> s < 0 \<or> s > m
       then Inl (GradeItemScoreOutOfRangeException [(''score'', DNum s), (''maxScore'', DNum m)])
       else Inr ()))"

definition validateGradeItemStatusAndScore ::
  "string option \<Rightarrow> GradeNumericValue \<Rightarrow> GradeNumericValue \<Rightarrow> GradeItemStatus result" where
  "validateGradeItemStatusAndScore status score maxScore =
     andThen (normalizeGradeItemStatus status) (\<lambda>normalizedStatus.
       if normalizedStatus = Item_ENTERED \<and> isScoreMissing score
       then Inl (ValidationDomainException ''Entered grade items require a score''
              [(''status'', DStr (GradeItemStatus_name normalizedStatus)), (''field'', DStr ''score'')])
       else andThen (if \<not> isScoreMissing score \<and> \<not> isScoreMissing maxScore
                     then validateScoreWithinRange score maxScore else Inr ()) (\<lambda>_.
         Inr normalizedStatus))"

record GradeItemEntryCommand =
  ge_studentId :: "string option"
  ge_status :: "string option"
  ge_score :: GradeNumericValue
  ge_comment :: "string option"

record NormalizedGradeItemEntryPayload =
  gp_status :: GradeItemStatus
  gp_score :: "rat option"
  gp_comment :: "string option"

text \<open>\<open>Number(command.score)\<close> is not finite for no accepted command; the value is then \<open>None\<close>.\<close>

definition normalizeGradeItemEntryPayload ::
  "GradeItemEntryCommand \<Rightarrow> GradeNumericValue \<Rightarrow> NormalizedGradeItemEntryPayload result" where
  "normalizeGradeItemEntryPayload command maxScore =
     andThen (normalizeGradeItemStatus (ge_status command)) (\<lambda>status.
       let comment = trimmed_or_null (ge_comment command)
       in if status \<noteq> Item_ENTERED then Inr \<lparr>gp_status = status, gp_score = None, gp_comment = comment\<rparr>
          else andThen (validateGradeItemStatusAndScore (Some (GradeItemStatus_name status)) (ge_score command) maxScore) (\<lambda>_.
            Inr \<lparr>gp_status = status, gp_score = js_to_number (ge_score command), gp_comment = comment\<rparr>))"

text \<open>The ids that occur again, each once, in the order of their second occurrence.\<close>

fun duplicate_ids :: "GradeItemEntryCommand list \<Rightarrow> string list \<Rightarrow> string list \<Rightarrow> string list" where
  "duplicate_ids [] seen duplicates = duplicates"
| "duplicate_ids (item # items) seen duplicates =
     (case ge_studentId item of
        None \<Rightarrow> duplicate_ids items seen duplicates
      | Some i \<Rightarrow>
          if i = [] then duplicate_ids items seen duplicates
          else if i \<in> set seen
          then duplicate_ids items seen (if i \<in> set duplicates then duplicates else duplicates @ [i])
          else duplicate_ids items (i # seen) duplicates)"

definition assertNoDuplicateStudentIds :: "GradeItemEntryCommand list \<Rightarrow> unit result" where
  "assertNoDuplicateStudentIds items =
     (let duplicates = duplicate_ids items [] []
      in if duplicates \<noteq> []
         then Inl (ValidationDomainException ''Duplicate student ids are not allowed in bulk grade entry''
                [(''field'', DStr ''items.studentId''), (''duplicateStudentIds'', DStrs duplicates)])
         else Inr ())"

definition validateBulkGradeItemPayload ::
  "GradeItemEntryCommand list \<Rightarrow> GradeNumericValue \<Rightarrow> (string \<times> NormalizedGradeItemEntryPayload) list result" where
  "validateBulkGradeItemPayload items maxScore =
     andThen (assertNoDuplicateStudentIds items) (\<lambda>_.
     mapR (\<lambda>item.
       if \<not> truthy (ge_studentId item)
       then Inl (ValidationDomainException ''Student id is required'' [(''field'', DStr ''studentId'')])
       else andThen (normalizeGradeItemEntryPayload item maxScore) (\<lambda>p. Inr (the (ge_studentId item), p))) items)"

section \<open>Assessments\<close>

record AssessmentCrudLike =
  ga_approvalStatus :: GradeAssessmentApprovalStatus
  ga_deliveryMode :: GradeAssessmentDeliveryMode
  ga_maxScore :: rat
  ga_lockedAt :: "int option"

definition approval_status :: "'a AssessmentCrudLike_scheme \<Rightarrow> GradeAssessmentApprovalStatus result" where
  "approval_status a = normalizeAssessmentApprovalStatus (GradeAssessmentApprovalStatus_name (ga_approvalStatus a))"

definition detail_of_approval :: "GradeAssessmentApprovalStatus \<Rightarrow> (string \<times> detail) list" where
  "detail_of_approval status = [(''approvalStatus'', DStr (GradeAssessmentApprovalStatus_name status))]"

definition validateAssessmentWeight :: "GradeNumericValue \<Rightarrow> rat result" where
  "validateAssessmentWeight v =
     (let invalid = Inl (ValidationDomainException ''Assessment weight must be greater than 0 and at most 100''
            [(''field'', DStr ''weight''), (''value'', detail_of_numeric v)])
      in case js_to_number v of
           None \<Rightarrow> invalid
         | Some weight \<Rightarrow> if weight \<le> 0 \<or> weight > 100 then invalid else Inr weight)"

definition validateAssessmentMaxScore :: "GradeNumericValue \<Rightarrow> rat result" where
  "validateAssessmentMaxScore v =
     (let invalid = Inl (ValidationDomainException ''Assessment max score must be greater than 0''
            [(''field'', DStr ''maxScore''), (''value'', detail_of_numeric v)])
      in case js_to_number v of
           None \<Rightarrow> invalid
         | Some maxScore \<Rightarrow> if maxScore \<le> 0 then invalid else Inr maxScore)"

definition normalizeAssessmentType :: "string \<Rightarrow> GradeAssessmentType result" where
  "normalizeAssessmentType input =
     (case map_of [(''QUIZ'', Type_QUIZ), (''MONTH_EXAM'', Type_MONTH_EXAM), (''MIDTERM'', Type_MIDTERM),
        (''TERM_EXAM'', Type_TERM_EXAM), (''ASSIGNMENT'', Type_ASSIGNMENT), (''FINAL'', Type_FINAL),
        (''PRACTICAL'', Type_PRACTICAL)] (toUpperCase (js_trim input)) of
        Some t \<Rightarrow> Inr t
      | None \<Rightarrow> Inl (ValidationDomainException ''Assessment type is invalid''
                  [(''field'', DStr ''type''), (''value'', DStr input)]))"

definition normalizeScoreOnlyDeliveryMode :: "string option \<Rightarrow> GradeAssessmentDeliveryMode result" where
  "normalizeScoreOnlyDeliveryMode input =
     andThen (normalizeDeliveryMode (case input of None \<Rightarrow> ''SCORE_ONLY'' | Some m \<Rightarrow> m)) (\<lambda>mode.
     andThen (assertScoreOnlyDeliveryMode (GradeAssessmentDeliveryMode_name mode)
        (Some ''Use the question-based assessment creation endpoint for question-based assessments'')
        [(''field'', DStr ''deliveryMode''), (''deliveryMode'', DStr (GradeAssessmentDeliveryMode_name mode)),
         (''expectedEndpoint'', DStr ''/api/v1/grades/assessments/question-based'')]) (\<lambda>_.
       Inr mode))"

definition assertScoreOnlyAssessment :: "'a AssessmentCrudLike_scheme \<Rightarrow> unit result" where
  "assertScoreOnlyAssessment a =
     assertScoreOnlyDeliveryMode (GradeAssessmentDeliveryMode_name (ga_deliveryMode a)) None []"

definition assertAssessmentMutableForCrud :: "'a AssessmentCrudLike_scheme \<Rightarrow> unit result" where
  "assertAssessmentMutableForCrud a =
     (if isAssessmentLocked (ga_lockedAt a) None then Inl (GradeAssessmentLockedException [])
      else andThen (approval_status a) (\<lambda>status.
        if status \<noteq> Approval_DRAFT
        then Inl (GradeAssessmentInvalidStatusTransitionException (detail_of_approval (ga_approvalStatus a)))
        else Inr ()))"

definition assertAssessmentDeletableForCrud :: "'a AssessmentCrudLike_scheme \<Rightarrow> unit result" where
  "assertAssessmentDeletableForCrud = assertAssessmentMutableForCrud"

definition validateWorkflowMaxScore :: "'a AssessmentCrudLike_scheme \<Rightarrow> unit result" where
  "validateWorkflowMaxScore a = andThen (validateAssessmentMaxScore (DecimalValue (ga_maxScore a))) (\<lambda>_. Inr ())"

definition assertPublishableAssessment :: "'a AssessmentCrudLike_scheme \<Rightarrow> unit result" where
  "assertPublishableAssessment a =
     andThen (assertScoreOnlyAssessment a) (\<lambda>_.
     andThen (validateWorkflowMaxScore a) (\<lambda>_.
     if isAssessmentLocked (ga_lockedAt a) None then Inl (GradeAssessmentLockedException [])
     else andThen (approval_status a) (\<lambda>status.
       case status of
         Approval_DRAFT \<Rightarrow> Inr ()
       | Approval_PUBLISHED \<Rightarrow> Inl (GradeAssessmentAlreadyPublishedException (detail_of_approval status))
       | Approval_APPROVED \<Rightarrow> Inl (GradeAssessmentAlreadyApprovedException (detail_of_approval status)))))"

definition assertApprovableAssessment :: "'a AssessmentCrudLike_scheme \<Rightarrow> unit result" where
  "assertApprovableAssessment a =
     andThen (validateWorkflowMaxScore a) (\<lambda>_.
     if isAssessmentLocked (ga_lockedAt a) None then Inl (GradeAssessmentLockedException [])
     else andThen (approval_status a) (\<lambda>status.
       case status of
         Approval_PUBLISHED \<Rightarrow> Inr ()
       | Approval_DRAFT \<Rightarrow> Inl (GradeAssessmentNotPublishedException (detail_of_approval status))
       | Approval_APPROVED \<Rightarrow> Inl (GradeAssessmentAlreadyApprovedException (detail_of_approval status))))"

definition assertLockableAssessment :: "'a AssessmentCrudLike_scheme \<Rightarrow> unit result" where
  "assertLockableAssessment a =
     (if isAssessmentLocked (ga_lockedAt a) None then Inl (GradeAssessmentAlreadyLockedException [])
      else andThen (approval_status a) (\<lambda>status.
        if status = Approval_APPROVED then Inr ()
        else Inl (GradeAssessmentNotApprovedException (detail_of_approval status))))"

text \<open>The UTC day of a date, as its first millisecond.\<close>

definition dateOnlyEpoch :: "int \<Rightarrow> int" where
  "dateOnlyEpoch date = date div 86400000 * 86400000"

record AssessmentCrudTermLike = GradeTermWritableLike +
  gt_startDate :: "int option"
  gt_endDate :: "int option"

definition assertDateInsideTerm :: "int \<Rightarrow> 'a AssessmentCrudTermLike_scheme \<Rightarrow> unit result" where
  "assertDateInsideTerm date trm =
     (case (gt_startDate trm, gt_endDate trm) of
        (Some startDate, Some endDate) \<Rightarrow>
          if dateOnlyEpoch date < dateOnlyEpoch startDate \<or> dateOnlyEpoch date > dateOnlyEpoch endDate
          then Inl (ValidationDomainException ''Assessment date must be inside the term''
                 [(''field'', DStr ''date''), (''termId'', DStr (gt_id trm)), (''startDate'', DDate (dateOnlyEpoch startDate)),
                  (''endDate'', DDate (dateOnlyEpoch endDate)), (''date'', DDate (dateOnlyEpoch date))])
          else Inr ()
      | _ \<Rightarrow> Inr ())"

definition buildAssessmentScopePayload :: "ResolveGradeScopeInput \<Rightarrow> NormalizedGradeScope result" where
  "buildAssessmentScopePayload = resolveGradeScopeInput"

definition assertWeightBudget :: "rat \<Rightarrow> rat \<Rightarrow> unit result" where
  "assertWeightBudget currentWeightTotal nextWeight =
     (let nextTotal = js_add currentWeightTotal nextWeight
      in if nextTotal > js_add 100 NUMBER_EPSILON
         then Inl (ValidationDomainException ''Assessment weight budget cannot exceed 100 for this subject and scope''
                [(''field'', DStr ''weight''), (''currentWeightTotal'', DNum currentWeightTotal),
                 (''nextWeight'', DNum nextWeight), (''nextTotal'', DNum nextTotal), (''maxTotal'', DNum 100)])
         else Inr ())"

definition assertNoGradeItemsForProtectedAssessmentChange :: "nat \<Rightarrow> string list \<Rightarrow> unit result" where
  "assertNoGradeItemsForProtectedAssessmentChange gradeItemCount changedFields =
     (if gradeItemCount = 0 \<or> changedFields = [] then Inr ()
      else Inl (GradeAssessmentInvalidStatusTransitionException
             [(''reason'', DStr ''grade_items_exist''), (''changedFields'', DStrs changedFields),
              (''gradeItemCount'', DInt (int gradeItemCount))]))"

definition areScopesEqual :: "NormalizedGradeScope \<Rightarrow> NormalizedGradeScope \<Rightarrow> bool" where
  "areScopesEqual first second \<longleftrightarrow> first = second"

section \<open>Marks of an assessment\<close>

definition assertAssessmentNotLockedForGradeEntry :: "'a AssessmentCrudLike_scheme \<Rightarrow> unit result" where
  "assertAssessmentNotLockedForGradeEntry a =
     (if isAssessmentLocked (ga_lockedAt a) None then Inl (GradeAssessmentLockedException []) else Inr ())"

definition assertAssessmentPublishedOrApprovedForGradeEntry :: "'a AssessmentCrudLike_scheme \<Rightarrow> unit result" where
  "assertAssessmentPublishedOrApprovedForGradeEntry a =
     andThen (approval_status a) (\<lambda>status.
       if status = Approval_PUBLISHED \<or> status = Approval_APPROVED then Inr ()
       else Inl (GradeAssessmentNotPublishedException (detail_of_approval status)))"

definition assertAssessmentAcceptsGradeItems ::
  "'a AssessmentCrudLike_scheme \<Rightarrow> 'b GradeTermWritableLike_scheme \<Rightarrow> unit result" where
  "assertAssessmentAcceptsGradeItems a trm =
     andThen (normalizeDeliveryMode (GradeAssessmentDeliveryMode_name (ga_deliveryMode a))) (\<lambda>mode.
     andThen (assertScoreOnlyDeliveryMode (GradeAssessmentDeliveryMode_name (ga_deliveryMode a))
        (Some ''Direct grade item entry is only supported for score-only assessments'')
        [(''deliveryMode'', DStr (GradeAssessmentDeliveryMode_name mode)),
         (''reason'', DStr ''question_based_uses_submissions_review_sync'')]) (\<lambda>_.
     andThen (assertAssessmentNotLockedForGradeEntry a) (\<lambda>_.
     andThen (assertAssessmentPublishedOrApprovedForGradeEntry a) (\<lambda>_.
       assertGradeTermWritable trm))))"

section \<open>Grading rules\<close>

definition assertWritableTerm :: "'a GradeTermWritableLike_scheme \<Rightarrow> unit result" where
  "assertWritableTerm trm =
     (if gt_isActive trm \<noteq> Some True then Inl (GradeTermClosedException [(''termId'', DStr (gt_id trm))]) else Inr ())"

definition assertRuleWriteScopeAllowed :: "js_value option \<Rightarrow> js_value result" where
  "assertRuleWriteScopeAllowed scopeType =
     andThen (normalizeGradeScopeType scopeType) (\<lambda>normalized.
       if normalized \<noteq> JStr ''SCHOOL'' \<and> normalized \<noteq> JStr ''GRADE''
       then Inl (GradeAssessmentInvalidScopeException
              [(''scopeType'', detail_of_js_value normalized), (''allowedWriteScopes'', DStrs [''SCHOOL'', ''GRADE''])])
       else Inr normalized)"

record NormalizedGradeRuleWriteScope =
  rs_scopeType :: GradeScopeType
  rs_scopeKey :: string
  rs_gradeId :: "string option"

definition normalizeRuleScopeForWrite ::
  "string \<Rightarrow> js_value option \<Rightarrow> string option \<Rightarrow> string option \<Rightarrow> NormalizedGradeRuleWriteScope result" where
  "normalizeRuleScopeForWrite schoolId scopeType scopeId gradeId =
     andThen (assertRuleWriteScopeAllowed scopeType) (\<lambda>normalized.
       if normalized = JStr ''SCHOOL''
       then Inr \<lparr>rs_scopeType = Scope_SCHOOL, rs_scopeKey = schoolId, rs_gradeId = None\<rparr>
       else case firstPresent [gradeId, scopeId] of
         None \<Rightarrow> Inl (GradeAssessmentInvalidScopeException
                   [(''scopeType'', detail_of_js_value normalized), (''field'', DStr ''gradeId'')])
       | Some g \<Rightarrow> Inr \<lparr>rs_scopeType = Scope_GRADE, rs_scopeKey = g, rs_gradeId = Some g\<rparr>)"

definition validatePassMark :: "GradeNumericValue \<Rightarrow> rat result" where
  "validatePassMark v =
     (let invalid = Inl (ValidationDomainException ''Pass mark must be between 0 and 100''
            [(''field'', DStr ''passMark''), (''value'', detail_of_numeric v)])
      in case js_to_number v of
           None \<Rightarrow> invalid
         | Some passMark \<Rightarrow> if passMark < 0 \<or> passMark > 100 then invalid else Inr passMark)"

definition normalizeGradeRuleScale :: "string option \<Rightarrow> GradeRuleScale result" where
  "normalizeGradeRuleScale input =
     (if toUpperCase (js_trim (case input of None \<Rightarrow> ''PERCENTAGE'' | Some s \<Rightarrow> s)) = ''PERCENTAGE'' then Inr Scale_PERCENTAGE
      else Inl (ValidationDomainException ''Grading scale is invalid''
             [(''field'', DStr ''gradingScale''), (''value'', detail_of_str_option input)]))"

definition normalizeGradeRoundingMode :: "string option \<Rightarrow> GradeRoundingMode result" where
  "normalizeGradeRoundingMode input =
     (case map_of [(''NONE'', Rounding_NONE), (''DECIMAL_0'', Rounding_DECIMAL_0), (''DECIMAL_1'', Rounding_DECIMAL_1),
        (''DECIMAL_2'', Rounding_DECIMAL_2)] (toUpperCase (js_trim (case input of None \<Rightarrow> ''DECIMAL_2'' | Some s \<Rightarrow> s))) of
        Some mode \<Rightarrow> Inr mode
      | None \<Rightarrow> Inl (ValidationDomainException ''Grade rounding mode is invalid''
                  [(''field'', DStr ''rounding''), (''value'', detail_of_str_option input)]))"

section \<open>Lemmas\<close>

lemma approval_status_row [simp]: "approval_status a = Inr (ga_approvalStatus a)"
proof -
  have "normalizeAssessmentApprovalStatus (GradeAssessmentApprovalStatus_name st) = Inr st" for st
  proof (cases st)
    case Approval_DRAFT
    show ?thesis unfolding Approval_DRAFT by code_simp
  next
    case Approval_PUBLISHED
    show ?thesis unfolding Approval_PUBLISHED by code_simp
  next
    case Approval_APPROVED
    show ?thesis unfolding Approval_APPROVED by code_simp
  qed
  then show ?thesis by (simp add: approval_status_def)
qed

lemma normalizeDeliveryMode_name [simp]:
  "normalizeDeliveryMode (GradeAssessmentDeliveryMode_name m) = Inr m"
proof (cases m)
  case Mode_SCORE_ONLY
  show ?thesis unfolding Mode_SCORE_ONLY by code_simp
next
  case Mode_QUESTION_BASED
  show ?thesis unfolding Mode_QUESTION_BASED by code_simp
qed

lemma normalizeGradeItemStatus_name [simp]:
  "normalizeGradeItemStatus (Some (GradeItemStatus_name st)) = Inr st"
proof (cases st)
  case Item_ENTERED
  show ?thesis unfolding Item_ENTERED by code_simp
next
  case Item_MISSING
  show ?thesis unfolding Item_MISSING by code_simp
next
  case Item_ABSENT
  show ?thesis unfolding Item_ABSENT by code_simp
qed

lemma mutable_iff: "assertAssessmentMutableForCrud a = Inr () \<longleftrightarrow> ga_lockedAt a = None \<and> ga_approvalStatus a = Approval_DRAFT"
  by (simp add: assertAssessmentMutableForCrud_def isAssessmentLocked_def)

lemma max_score_ok: "0 < m \<Longrightarrow> 0 < fl m \<Longrightarrow> validateAssessmentMaxScore (DecimalValue m) = Inr (fl m)"
  by (simp add: validateAssessmentMaxScore_def)

lemma publishable_iff:
  "assertPublishableAssessment a = Inr () \<longleftrightarrow> ga_deliveryMode a = Mode_SCORE_ONLY \<and> 0 < fl (ga_maxScore a) \<and>
     ga_lockedAt a = None \<and> ga_approvalStatus a = Approval_DRAFT"
  by (cases "ga_approvalStatus a")
    (auto simp: assertPublishableAssessment_def assertScoreOnlyAssessment_def assertScoreOnlyDeliveryMode_def
      validateWorkflowMaxScore_def validateAssessmentMaxScore_def isAssessmentLocked_def Let_def)

lemma approvable_iff:
  "assertApprovableAssessment a = Inr () \<longleftrightarrow> 0 < fl (ga_maxScore a) \<and> ga_lockedAt a = None \<and> ga_approvalStatus a = Approval_PUBLISHED"
  by (cases "ga_approvalStatus a")
    (auto simp: assertApprovableAssessment_def validateWorkflowMaxScore_def validateAssessmentMaxScore_def isAssessmentLocked_def Let_def)

lemma lockable_iff:
  "assertLockableAssessment a = Inr () \<longleftrightarrow> ga_lockedAt a = None \<and> ga_approvalStatus a = Approval_APPROVED"
  by (simp add: assertLockableAssessment_def isAssessmentLocked_def)

lemma accepts_items_iff:
  "assertAssessmentAcceptsGradeItems a trm = Inr () \<longleftrightarrow> ga_deliveryMode a = Mode_SCORE_ONLY \<and> ga_lockedAt a = None \<and>
     ga_approvalStatus a \<noteq> Approval_DRAFT \<and> assertGradeTermWritable trm = Inr ()"
  by (cases "ga_approvalStatus a")
    (auto simp: assertAssessmentAcceptsGradeItems_def assertScoreOnlyDeliveryMode_def isAssessmentLocked_def
      assertAssessmentNotLockedForGradeEntry_def assertAssessmentPublishedOrApprovedForGradeEntry_def)

text \<open>An accepted mark has a number between 0 and the maximum exactly when the student was graded.\<close>

lemma accepted_mark:
  assumes "normalizeGradeItemEntryPayload command (DecimalValue m) = Inr p"
  shows "if gp_status p = Item_ENTERED then \<exists>x. gp_score p = Some x \<and> 0 \<le> x \<and> x \<le> fl m else gp_score p = None"
proof (cases "normalizeGradeItemStatus (ge_status command)")
  case (Inl e)
  then show ?thesis using assms by (simp add: normalizeGradeItemEntryPayload_def)
next
  case (Inr st)
  show ?thesis
  proof (cases "st = Item_ENTERED")
    case False
    then show ?thesis using assms Inr by (auto simp: normalizeGradeItemEntryPayload_def)
  next
    case True
    then have p: "gp_status p = Item_ENTERED" "gp_score p = js_to_number (ge_score command)"
      and v: "\<exists>s. validateGradeItemStatusAndScore (Some ''ENTERED'') (ge_score command) (DecimalValue m) = Inr s"
      using assms Inr by (auto simp: normalizeGradeItemEntryPayload_def andThen_eq_Inr)
    from v have "\<not> isScoreMissing (ge_score command)" "validateScoreWithinRange (ge_score command) (DecimalValue m) = Inr ()"
      using normalizeGradeItemStatus_name [of Item_ENTERED]
      by (auto simp: validateGradeItemStatusAndScore_def andThen_eq_Inr isScoreMissing_def split: if_splits)
    then show ?thesis using p
      by (auto simp: validateScoreWithinRange_def toFiniteNumber_def andThen_eq_Inr isScoreMissing_def split: if_splits option.splits)
  qed
qed

end
