(* ===== verification/Grade_Store.thy ===== *)
theory Grade_Store
  imports Grade_Domain
begin

text \<open>
  Tables of the grades module and the operations of its repositories: access to assessments and marks
  (\<open>assessments/infrastructure/grades-resource-access.ts\<close>), assessments
  (\<open>grades-assessments.repository.ts\<close>), marks (\<open>grades-assessment-items.repository.ts\<close>) and grading rules
  (\<open>rules/infrastructure/grades-rules.repository.ts\<close>). A row carries the columns of its relations that the
  queries select. The scoped client restricts every read and write to the school of the caller, and reads
  to rows that are not deleted.
\<close>

section \<open>Tables\<close>

text \<open>The table of terms has no column \<open>closedAt\<close>: the field \<open>gt_closedAt\<close> of a row is \<open>None\<close>.\<close>

record GradeTermRow = AssessmentCrudTermLike +
  gtr_schoolId :: string
  gtr_academicYearId :: string
  gtr_deletedAt :: "int option"

record GradeSubjectRow =
  sj_id :: string
  sj_schoolId :: string
  sj_deletedAt :: "int option"

record GradeStageRow =
  sg_id :: string
  sg_schoolId :: string
  sg_deletedAt :: "int option"

record GradeGradeRow =
  gg_id :: string
  gg_schoolId :: string
  gg_stageId :: string
  gg_deletedAt :: "int option"

record GradeSectionRow =
  ss_id :: string
  ss_schoolId :: string
  ss_gradeId :: string
  ss_stageId :: string
  ss_deletedAt :: "int option"

record GradeClassroomRow =
  cr_id :: string
  cr_schoolId :: string
  cr_sectionId :: string
  cr_gradeId :: string
  cr_stageId :: string
  cr_sectionDeletedAt :: "int option"
  cr_gradeDeletedAt :: "int option"
  cr_deletedAt :: "int option"

record GradeEnrollmentRow =
  en_id :: string
  en_schoolId :: string
  en_studentId :: string
  en_academicYearId :: string
  en_termId :: "string option"
  en_classroom :: GradeClassroomRow
  en_status :: string
  en_enrolledAt :: int
  en_createdAt :: int
  en_endedAt :: "int option"
  en_deletedAt :: "int option"
  en_studentUserId :: "string option"
  en_studentStatus :: string
  en_studentDeletedAt :: "int option"

record GradeAllocationRow =
  tal_schoolId :: string
  tal_teacherUserId :: string
  tal_termId :: string
  tal_academicYearId :: string
  tal_subjectId :: string
  tal_classroomId :: string
  tal_sectionId :: string
  tal_gradeId :: string
  tal_stageId :: string
  tal_teacherUserType :: string
  tal_teacherDeletedAt :: "int option"
  tal_subjectDeletedAt :: "int option"
  tal_classroomDeletedAt :: "int option"
  tal_sectionDeletedAt :: "int option"
  tal_gradeDeletedAt :: "int option"
  tal_stageDeletedAt :: "int option"
  tal_termDeletedAt :: "int option"

text \<open>A permission of a membership, joined with the rows its query reads.\<close>

record LiveGrantRow =
  lg_membershipId :: string
  lg_userId :: string
  lg_organizationId :: string
  lg_roleId :: string
  lg_permission :: string
  lg_schoolId :: string
  lg_schoolOrganizationId :: string
  lg_membershipUserType :: string
  lg_userUserType :: string
  lg_membershipSchoolId :: "string option"
  lg_membershipStatus :: string
  lg_membershipEndedAt :: "int option"
  lg_membershipDeletedAt :: "int option"
  lg_userStatus :: string
  lg_userDeletedAt :: "int option"
  lg_roleSchoolId :: "string option"
  lg_roleDeletedAt :: "int option"
  lg_schoolStatus :: string
  lg_schoolDeletedAt :: "int option"
  lg_organizationStatus :: string
  lg_organizationDeletedAt :: "int option"

record GradeAssessment = AssessmentCrudLike +
  as_id :: string
  as_schoolId :: string
  as_academicYearId :: string
  as_termId :: string
  as_subjectId :: string
  as_scope :: NormalizedGradeScope
  as_titleEn :: "string option"
  as_titleAr :: "string option"
  as_type :: GradeAssessmentType
  as_date :: int
  as_weight :: rat
  as_expectedTimeMinutes :: "int option"
  as_publishedAt :: "int option"
  as_publishedById :: "string option"
  as_approvedAt :: "int option"
  as_approvedById :: "string option"
  as_lockedById :: "string option"
  as_createdById :: "string option"
  as_deletedAt :: "int option"

record GradeItem =
  it_id :: string
  it_schoolId :: string
  it_termId :: string
  it_assessmentId :: string
  it_studentId :: string
  it_enrollmentId :: "string option"
  it_score :: "rat option"
  it_status :: GradeItemStatus
  it_comment :: "string option"
  it_enteredById :: "string option"
  it_enteredAt :: "int option"

record GradeRule =
  ru_id :: string
  ru_schoolId :: string
  ru_academicYearId :: string
  ru_termId :: string
  ru_scopeType :: GradeScopeType
  ru_scopeKey :: string
  ru_gradeId :: "string option"
  ru_gradingScale :: GradeRuleScale
  ru_passMark :: rat
  ru_rounding :: GradeRoundingMode

record GradeAuditInput =
  gau_actorId :: string
  gau_userType :: string
  gau_organizationId :: string
  gau_schoolId :: string
  gau_module :: string
  gau_action :: string
  gau_resourceType :: string
  gau_resourceId :: string
  gau_outcome :: string
  gau_before :: "(string \<times> detail) list option"
  gau_after :: "(string \<times> detail) list"

record GradeDb =
  gdb_years :: "AcademicYearRow list"
  gdb_terms :: "GradeTermRow list"
  gdb_subjects :: "GradeSubjectRow list"
  gdb_stages :: "GradeStageRow list"
  gdb_grades :: "GradeGradeRow list"
  gdb_sections :: "GradeSectionRow list"
  gdb_classrooms :: "GradeClassroomRow list"
  gdb_students :: "StudentRow list"
  gdb_enrollments :: "GradeEnrollmentRow list"
  gdb_allocations :: "GradeAllocationRow list"
  gdb_grants :: "LiveGrantRow list"
  gdb_assessments :: "GradeAssessment list"
  gdb_submissions :: "(string \<times> string) list"
  gdb_items :: "GradeItem list"
  gdb_rules :: "GradeRule list"
  gdb_audit :: "GradeAuditInput list"

text \<open>A decimal column with two places.\<close>

definition decimal_column :: "rat \<Rightarrow> rat" where
  "decimal_column x = of_int \<lfloor>x * 100 + 1 / 2\<rfloor> / 100"

text \<open>The columns \<open>Decimal(5, 2)\<close> and \<open>Decimal(7, 2)\<close> of an assessment; the database refuses larger values.\<close>

definition decimals_fit :: "GradeAssessment \<Rightarrow> bool" where
  "decimals_fit a \<longleftrightarrow> \<bar>as_weight a\<bar> < 1000 \<and> \<bar>ga_maxScore a\<bar> < 100000"

section \<open>The caller\<close>

record GradesScope =
  gsc_actorId :: string
  gsc_userType :: string
  gsc_organizationId :: string
  gsc_schoolId :: string
  gsc_roleId :: string
  gsc_membershipId :: string

text \<open>\<open>requireGradesScope\<close>, with the id of the membership, which \<open>assertGradeLiveMutationPermission\<close> reads
  from the same context.\<close>

definition requireGradesScope :: "RequestContext option \<Rightarrow> GradesScope result" where
  "requireGradesScope ctx =
     (case Option.bind ctx rc_actor of
        None \<Rightarrow> Inl TokenInvalidException
      | Some actor \<Rightarrow>
          (case Option.bind ctx rc_activeMembership of
             None \<Rightarrow> Inl ScopeMissingException
           | Some m \<Rightarrow>
               if \<not> truthy (am_schoolId m) then Inl ScopeMissingException
               else Inr \<lparr>gsc_actorId = actor_id actor, gsc_userType = actor_userType actor,
                         gsc_organizationId = am_organizationId m,
                         gsc_schoolId = the (am_schoolId m), gsc_roleId = am_roleId m,
                         gsc_membershipId = am_membershipId m\<rparr>))"

section \<open>Access\<close>

definition live_grant :: "GradesScope \<Rightarrow> string \<Rightarrow> LiveGrantRow \<Rightarrow> bool" where
  "live_grant scope permission g \<longleftrightarrow>
     lg_schoolId g = gsc_schoolId scope \<and> lg_schoolOrganizationId g = lg_organizationId g \<and>
     lg_membershipId g = gsc_membershipId scope \<and> lg_userId g = gsc_actorId scope \<and>
     lg_organizationId g = gsc_organizationId scope \<and> lg_roleId g = gsc_roleId scope \<and>
     lg_membershipUserType g = gsc_userType scope \<and> lg_userUserType g = gsc_userType scope \<and>
     (lg_membershipSchoolId g = Some (lg_schoolId g) \<or>
      lg_membershipSchoolId g = None \<and> lg_membershipUserType g = ''ORGANIZATION_USER'') \<and>
     lg_membershipStatus g = ''ACTIVE'' \<and> lg_membershipEndedAt g = None \<and> lg_membershipDeletedAt g = None \<and>
     lg_userStatus g = ''ACTIVE'' \<and> lg_userDeletedAt g = None \<and> lg_roleDeletedAt g = None \<and>
     (lg_roleSchoolId g = None \<or> lg_roleSchoolId g = Some (lg_schoolId g)) \<and> lg_permission g = permission \<and>
     lg_schoolDeletedAt g = None \<and> lg_organizationDeletedAt g = None \<and>
     lg_schoolStatus g = ''ACTIVE'' \<and> lg_organizationStatus g = ''ACTIVE''"

definition assertGradeLiveMutationPermission :: "GradesScope \<Rightarrow> string \<Rightarrow> GradeDb \<Rightarrow> unit result" where
  "assertGradeLiveMutationPermission scope permission db =
     (if gsc_membershipId scope = [] \<or> findFirst (live_grant scope permission) (gdb_grants db) = None
      then Inl (NotFoundDomainException ''Resource not found_by_id'' []) else Inr ())"

definition ownedAllocationWhere :: "string \<Rightarrow> GradeAllocationRow \<Rightarrow> bool" where
  "ownedAllocationWhere teacherUserId al \<longleftrightarrow>
     tal_teacherUserId al = teacherUserId \<and> tal_teacherUserType al = ''TEACHER'' \<and> tal_teacherDeletedAt al = None \<and>
     tal_subjectDeletedAt al = None \<and> tal_classroomDeletedAt al = None \<and> tal_sectionDeletedAt al = None \<and>
     tal_gradeDeletedAt al = None \<and> tal_stageDeletedAt al = None \<and> tal_termDeletedAt al = None"

definition teacherScopes :: "GradesScope \<Rightarrow> GradeDb \<Rightarrow> GradeAllocationRow list" where
  "teacherScopes scope db =
     filter (\<lambda>al. tal_schoolId al = gsc_schoolId scope \<and> ownedAllocationWhere (gsc_actorId scope) al) (gdb_allocations db)"

definition allocation_scopes :: "GradesScope \<Rightarrow> GradeAllocationRow \<Rightarrow> (GradeScopeType \<times> string) list" where
  "allocation_scopes scope al =
     [(Scope_SCHOOL, gsc_schoolId scope), (Scope_STAGE, tal_stageId al), (Scope_GRADE, tal_gradeId al),
      (Scope_SECTION, tal_sectionId al), (Scope_CLASSROOM, tal_classroomId al)]"

definition assessmentScope :: "GradesScope \<Rightarrow> GradeAllocationRow \<Rightarrow> GradeAssessment \<Rightarrow> bool" where
  "assessmentScope scope al a \<longleftrightarrow>
     as_termId a = tal_termId al \<and> as_academicYearId a = tal_academicYearId al \<and> as_subjectId a = tal_subjectId al \<and>
     as_deletedAt a = None \<and> (gs_scopeType (as_scope a), gs_scopeKey (as_scope a)) \<in> set (allocation_scopes scope al)"

definition gradeAssessmentAccessWhere :: "GradesScope \<Rightarrow> bool \<Rightarrow> GradeDb \<Rightarrow> GradeAssessment \<Rightarrow> bool" where
  "gradeAssessmentAccessWhere scope studentAdapterRead db a =
     (if gsc_userType scope = ''SCHOOL_USER'' \<or> gsc_userType scope = ''ORGANIZATION_USER'' then True
      else if gsc_userType scope = ''TEACHER'' then \<exists>al \<in> set (teacherScopes scope db). assessmentScope scope al a
      else if gsc_userType scope = ''STUDENT'' \<and> studentAdapterRead then as_deletedAt a = None
      else False)"

text \<open>A scoped read of an assessment.\<close>

definition visible_assessment :: "GradesScope \<Rightarrow> string \<Rightarrow> GradeAssessment \<Rightarrow> bool" where
  "visible_assessment scope assessmentId a \<longleftrightarrow>
     as_id a = assessmentId \<and> as_schoolId a = gsc_schoolId scope \<and> as_deletedAt a = None"

definition assertGradeAssessmentAccess :: "GradesScope \<Rightarrow> string \<Rightarrow> GradeDb \<Rightarrow> unit result" where
  "assertGradeAssessmentAccess scope assessmentId db =
     (if findFirst (\<lambda>a. visible_assessment scope assessmentId a \<and> gradeAssessmentAccessWhere scope False db a)
           (gdb_assessments db) = None
      then Inl (NotFoundDomainException ''Grade assessment not found_by_id'' []) else Inr ())"

definition lockGradeAssessmentMutation :: "GradesScope \<Rightarrow> string \<Rightarrow> GradeDb \<Rightarrow> unit result" where
  "lockGradeAssessmentMutation scope assessmentId db =
     andThen (assertGradeAssessmentAccess scope assessmentId db) (\<lambda>_.
       if findFirst (visible_assessment scope assessmentId) (gdb_assessments db) = None
       then Inl (NotFoundDomainException ''Resource not found_by_id'' []) else Inr ())"

definition gradeEnrollmentAccessWhere :: "GradesScope \<Rightarrow> string \<Rightarrow> GradeDb \<Rightarrow> GradeEnrollmentRow \<Rightarrow> bool" where
  "gradeEnrollmentAccessWhere scope assessmentId db e =
     (if gsc_userType scope = ''STUDENT'' then en_studentUserId e = Some (gsc_actorId scope)
      else if gsc_userType scope \<noteq> ''TEACHER'' then True
      else
        let allocations = teacherScopes scope db
        in case findFirst (\<lambda>a. visible_assessment scope assessmentId a \<and> (\<exists>al \<in> set allocations. assessmentScope scope al a))
                  (gdb_assessments db) of
             None \<Rightarrow> False
           | Some a \<Rightarrow>
               let classroomIds = map tal_classroomId (filter (\<lambda>al.
                     tal_termId al = as_termId a \<and> tal_subjectId al = as_subjectId a \<and>
                     (gs_scopeType (as_scope a), gs_scopeKey (as_scope a)) \<in> set (allocation_scopes scope al)) allocations)
               in cr_id (en_classroom e) \<in> set classroomIds \<and> en_academicYearId e = as_academicYearId a)"

definition assertGradeItemWriteAccess :: "GradesScope \<Rightarrow> string \<Rightarrow> string \<Rightarrow> string option \<Rightarrow> GradeDb \<Rightarrow> unit result" where
  "assertGradeItemWriteAccess scope assessmentId studentId enrollmentId db =
     andThen (assertGradeAssessmentAccess scope assessmentId db) (\<lambda>_.
       if findFirst (\<lambda>e. (case enrollmentId of None \<Rightarrow> True | Some i \<Rightarrow> en_id e = i) \<and> en_studentId e = studentId \<and>
             en_schoolId e = gsc_schoolId scope \<and> en_deletedAt e = None \<and> en_status e = ''ACTIVE'' \<and> en_endedAt e = None \<and>
             gradeEnrollmentAccessWhere scope assessmentId db e) (gdb_enrollments db) = None
       then Inl (NotFoundDomainException ''Grade item not found_by_id'' []) else Inr ())"

section \<open>Reading\<close>

definition findGradeYear :: "GradesScope \<Rightarrow> string \<Rightarrow> GradeDb \<Rightarrow> AcademicYearRow option" where
  "findGradeYear scope i db =
     findFirst (\<lambda>r. year_id r = i \<and> year_schoolId r = gsc_schoolId scope \<and> year_deletedAt r = None) (gdb_years db)"

definition findGradeTerm :: "GradesScope \<Rightarrow> string \<Rightarrow> GradeDb \<Rightarrow> GradeTermRow option" where
  "findGradeTerm scope i db =
     findFirst (\<lambda>r. gt_id r = i \<and> gtr_schoolId r = gsc_schoolId scope \<and> gtr_deletedAt r = None) (gdb_terms db)"

definition findSubject :: "GradesScope \<Rightarrow> string \<Rightarrow> GradeDb \<Rightarrow> GradeSubjectRow option" where
  "findSubject scope i db =
     findFirst (\<lambda>r. sj_id r = i \<and> sj_schoolId r = gsc_schoolId scope \<and> sj_deletedAt r = None) (gdb_subjects db)"

definition findStage :: "GradesScope \<Rightarrow> string \<Rightarrow> GradeDb \<Rightarrow> GradeStageRow option" where
  "findStage scope i db =
     findFirst (\<lambda>r. sg_id r = i \<and> sg_schoolId r = gsc_schoolId scope \<and> sg_deletedAt r = None) (gdb_stages db)"

definition findGrade :: "GradesScope \<Rightarrow> string \<Rightarrow> GradeDb \<Rightarrow> GradeGradeRow option" where
  "findGrade scope i db =
     findFirst (\<lambda>r. gg_id r = i \<and> gg_schoolId r = gsc_schoolId scope \<and> gg_deletedAt r = None) (gdb_grades db)"

definition findSectionWithGrade :: "GradesScope \<Rightarrow> string \<Rightarrow> GradeDb \<Rightarrow> GradeSectionRow option" where
  "findSectionWithGrade scope i db =
     findFirst (\<lambda>r. ss_id r = i \<and> ss_schoolId r = gsc_schoolId scope \<and> ss_deletedAt r = None) (gdb_sections db)"

definition findClassroomWithGrade :: "GradesScope \<Rightarrow> string \<Rightarrow> GradeDb \<Rightarrow> GradeClassroomRow option" where
  "findClassroomWithGrade scope i db =
     findFirst (\<lambda>r. cr_id r = i \<and> cr_schoolId r = gsc_schoolId scope \<and> cr_deletedAt r = None) (gdb_classrooms db)"

definition findAssessmentById :: "GradesScope \<Rightarrow> string \<Rightarrow> GradeDb \<Rightarrow> GradeAssessment option" where
  "findAssessmentById scope assessmentId db =
     findFirst (\<lambda>a. visible_assessment scope assessmentId a \<and> gradeAssessmentAccessWhere scope False db a) (gdb_assessments db)"

definition countGradeItemsForAssessment :: "GradesScope \<Rightarrow> string \<Rightarrow> GradeDb \<Rightarrow> nat" where
  "countGradeItemsForAssessment scope assessmentId db =
     length (filter (\<lambda>i. it_assessmentId i = assessmentId \<and> it_schoolId i = gsc_schoolId scope) (gdb_items db))"

definition countSubmissionsForAssessment :: "GradesScope \<Rightarrow> string \<Rightarrow> GradeDb \<Rightarrow> nat" where
  "countSubmissionsForAssessment scope assessmentId db =
     length (filter (\<lambda>x. x = (gsc_schoolId scope, assessmentId)) (gdb_submissions db))"

text \<open>The assessments that share a budget, and the sum of their weights as a number.\<close>

definition same_budget :: "string \<Rightarrow> string \<Rightarrow> string \<Rightarrow> string \<Rightarrow> GradeScopeType \<Rightarrow> string \<Rightarrow> GradeAssessment \<Rightarrow> bool" where
  "same_budget school academicYearId termId subjectId scopeType scopeKey a \<longleftrightarrow>
     as_schoolId a = school \<and> as_academicYearId a = academicYearId \<and> as_termId a = termId \<and> as_subjectId a = subjectId \<and>
     gs_scopeType (as_scope a) = scopeType \<and> gs_scopeKey (as_scope a) = scopeKey \<and> as_deletedAt a = None"

definition sumAssessmentWeights ::
  "GradesScope \<Rightarrow> string \<Rightarrow> string \<Rightarrow> string \<Rightarrow> GradeScopeType \<Rightarrow> string \<Rightarrow> string option \<Rightarrow> GradeDb \<Rightarrow> rat" where
  "sumAssessmentWeights scope academicYearId termId subjectId scopeType scopeKey excludeAssessmentId db =
     fl (sum_list (map as_weight (filter (\<lambda>a.
       same_budget (gsc_schoolId scope) academicYearId termId subjectId scopeType scopeKey a \<and>
       (if truthy excludeAssessmentId then Some (as_id a) \<noteq> excludeAssessmentId else True)) (gdb_assessments db))))"

section \<open>Writing assessments\<close>

definition findMutationResult_assessment :: "GradesScope \<Rightarrow> string \<Rightarrow> bool \<Rightarrow> GradeDb \<Rightarrow> GradeAssessment result" where
  "findMutationResult_assessment scope assessmentId withDeleted db =
     (case findFirst (\<lambda>a. as_id a = assessmentId \<and> as_schoolId a = gsc_schoolId scope \<and> (withDeleted \<or> as_deletedAt a = None))
            (gdb_assessments db) of
        None \<Rightarrow> Inl (JsError ''Updated grade assessment was not found_by_id'')
      | Some a \<Rightarrow> Inr a)"

definition createAssessment :: "string \<Rightarrow> GradesScope \<Rightarrow> GradeAssessment \<Rightarrow> GradeDb \<Rightarrow> (GradeAssessment \<times> GradeDb) result" where
  "createAssessment newId scope data db =
     (if newId \<in> as_id ` set (gdb_assessments db) then Inl (PrismaError ''P2002'')
      else let row = data\<lparr>as_id := newId, as_weight := decimal_column (as_weight data),
                    ga_maxScore := decimal_column (ga_maxScore data), as_date := dateOnlyEpoch (as_date data)\<rparr>;
          db' = db\<lparr>gdb_assessments := gdb_assessments db @ [row]\<rparr>
      in if \<not> decimals_fit row then Inl (PrismaError ''P2020'')
         else andThen (assertGradeAssessmentAccess scope newId db') (\<lambda>_. Inr (row, db')))"

type_synonym assessment_update = "GradeAssessment \<Rightarrow> GradeAssessment"

text \<open>\<open>updateMany\<close> by id, within the school. A transaction that throws leaves the tables as they were.\<close>

definition write_assessment :: "GradesScope \<Rightarrow> string \<Rightarrow> bool \<Rightarrow> assessment_update \<Rightarrow> GradeDb \<Rightarrow> GradeDb" where
  "write_assessment scope assessmentId onlyLive f db =
     db\<lparr>gdb_assessments := snd (updateMany (\<lambda>a. as_id a = assessmentId \<and> as_schoolId a = gsc_schoolId scope \<and>
          (onlyLive \<longrightarrow> as_deletedAt a = None)) f (gdb_assessments db))\<rparr>"

definition overflows :: "GradesScope \<Rightarrow> string \<Rightarrow> GradeDb \<Rightarrow> bool" where
  "overflows scope assessmentId db \<longleftrightarrow>
     (\<exists>a \<in> set (gdb_assessments db). as_id a = assessmentId \<and> as_schoolId a = gsc_schoolId scope \<and> \<not> decimals_fit a)"

text \<open>\<open>valid\<close> says that the client accepts the types of the data.\<close>

definition updateAssessment ::
  "GradesScope \<Rightarrow> string \<Rightarrow> bool \<Rightarrow> assessment_update \<Rightarrow> GradeDb \<Rightarrow> (GradeAssessment \<times> GradeDb) result" where
  "updateAssessment scope assessmentId valid data db =
     andThen (assertGradeAssessmentAccess scope assessmentId db) (\<lambda>_.
     let db' = write_assessment scope assessmentId False data db
     in if \<not> valid then Inl (JsError ''PrismaClientValidationError'')
        else if overflows scope assessmentId db' then Inl (PrismaError ''P2020'')
        else andThen (assertGradeAssessmentAccess scope assessmentId db') (\<lambda>_.
        andThen (findMutationResult_assessment scope assessmentId False db') (\<lambda>a. Inr (a, db'))))"

text \<open>\<open>assertQuestionBasedAssessmentPublishable\<close> of \<open>grade-assessment-question-publish-domain.ts\<close>\<close>

definition assertQuestionBasedAssessmentPublishable :: "GradeAssessment \<Rightarrow> unit result" where
  "assertQuestionBasedAssessmentPublishable a =
     andThen (normalizeDeliveryMode (GradeAssessmentDeliveryMode_name (ga_deliveryMode a))) (\<lambda>mode.
     if mode \<noteq> Mode_QUESTION_BASED
     then Inl (ValidationDomainException ''Assessment must be question-based for question publish validation''
            [(''assessmentId'', DStr (as_id a)), (''deliveryMode'', DStr (GradeAssessmentDeliveryMode_name (ga_deliveryMode a)))])
     else
       andThen (validateAssessmentMaxScore (DecimalValue (ga_maxScore a))) (\<lambda>_.
       if isAssessmentLocked (ga_lockedAt a) None
       then Inl (GradeAssessmentLockedException [(''assessmentId'', DStr (as_id a))])
       else andThen (approval_status a) (\<lambda>status.
         let details = (''assessmentId'', DStr (as_id a)) # detail_of_approval status
         in case status of
              Approval_DRAFT \<Rightarrow> Inr ()
            | Approval_PUBLISHED \<Rightarrow> Inl (GradeAssessmentAlreadyPublishedException details)
            | Approval_APPROVED \<Rightarrow> Inl (GradeAssessmentAlreadyApprovedException details))))"

text \<open>The relation \<open>term\<close> of an assessment: its foreign key names a term of the school.\<close>

definition assessment_term :: "GradeAssessment \<Rightarrow> GradeDb \<Rightarrow> GradeTermRow option" where
  "assessment_term a db = findFirst (\<lambda>t. gt_id t = as_termId a \<and> gtr_schoolId t = as_schoolId a) (gdb_terms db)"

text \<open>Publishing checks again under a lock of the row. \<open>questions_ready\<close> stands for the validation of the
  questions of a question-based assessment.\<close>

definition publishAssessment ::
  "(GradeAssessment \<Rightarrow> unit result) \<Rightarrow> GradesScope \<Rightarrow> string \<Rightarrow> assessment_update \<Rightarrow> GradeDb \<Rightarrow>
   (GradeAssessment \<times> GradeDb) result" where
  "publishAssessment questions_ready scope assessmentId data db =
     andThen (assertGradeLiveMutationPermission scope ''grades.assessments.publish'' db) (\<lambda>_.
     andThen (lockGradeAssessmentMutation scope assessmentId db) (\<lambda>_.
     case findFirst (visible_assessment scope assessmentId) (gdb_assessments db) of
       None \<Rightarrow> Inl (NotFoundDomainException ''Resource not found_by_id'' [])
     | Some a \<Rightarrow>
         (case assessment_term a db of
            None \<Rightarrow> Inl (JsError ''TypeError'')
          | Some trm \<Rightarrow>
              andThen (assertGradeTermWritable trm) (\<lambda>_.
              andThen (if ga_deliveryMode a = Mode_QUESTION_BASED
                       then andThen (assertQuestionBasedAssessmentPublishable a) (\<lambda>_. questions_ready a)
                       else assertPublishableAssessment a) (\<lambda>_.
              let db' = write_assessment scope assessmentId True data db
              in andThen (findMutationResult_assessment scope assessmentId False db') (\<lambda>u. Inr (u, db')))))))"

definition advanceAssessment ::
  "GradesScope \<Rightarrow> string \<Rightarrow> assessment_update \<Rightarrow> GradeDb \<Rightarrow> (GradeAssessment \<times> GradeDb) result" where
  "advanceAssessment scope assessmentId data db =
     andThen (assertGradeAssessmentAccess scope assessmentId db) (\<lambda>_.
     let db' = write_assessment scope assessmentId True data db
     in andThen (findMutationResult_assessment scope assessmentId False db') (\<lambda>a. Inr (a, db')))"

definition approveAssessment ::
  "GradesScope \<Rightarrow> string \<Rightarrow> assessment_update \<Rightarrow> GradeDb \<Rightarrow> (GradeAssessment \<times> GradeDb) result" where
  "approveAssessment = advanceAssessment"

definition lockAssessment ::
  "GradesScope \<Rightarrow> string \<Rightarrow> assessment_update \<Rightarrow> GradeDb \<Rightarrow> (GradeAssessment \<times> GradeDb) result" where
  "lockAssessment = advanceAssessment"

definition softDeleteAssessment :: "int \<Rightarrow> GradesScope \<Rightarrow> string \<Rightarrow> GradeDb \<Rightarrow> (GradeAssessment \<times> GradeDb) result" where
  "softDeleteAssessment now scope assessmentId db =
     andThen (assertGradeAssessmentAccess scope assessmentId db) (\<lambda>_.
     let db' = write_assessment scope assessmentId False (\<lambda>a. a\<lparr>as_deletedAt := Some now\<rparr>) db
     in andThen (findMutationResult_assessment scope assessmentId True db') (\<lambda>a. Inr (a, db')))"

section \<open>Writing marks\<close>

record GradeItemUpsertPayload = NormalizedGradeItemEntryPayload +
  gu_schoolId :: string
  gu_termId :: string
  gu_assessmentId :: string
  gu_studentId :: string
  gu_enrollmentId :: "string option"
  gu_enteredById :: "string option"
  gu_enteredAt :: int

definition buildGradeItemUpdateInput :: "GradeItemUpsertPayload \<Rightarrow> GradeItem \<Rightarrow> GradeItem" where
  "buildGradeItemUpdateInput input i =
     i\<lparr>it_termId := gu_termId input, it_enrollmentId := gu_enrollmentId input,
       it_score := map_option decimal_column (gp_score input), it_status := gp_status input,
       it_comment := gp_comment input, it_enteredById := gu_enteredById input, it_enteredAt := Some (gu_enteredAt input)\<rparr>"

definition buildGradeItemCreateInput :: "string \<Rightarrow> GradeItemUpsertPayload \<Rightarrow> GradeItem" where
  "buildGradeItemCreateInput newId input =
     \<lparr>it_id = newId, it_schoolId = gu_schoolId input, it_termId = gu_termId input, it_assessmentId = gu_assessmentId input,
      it_studentId = gu_studentId input, it_enrollmentId = gu_enrollmentId input,
      it_score = map_option decimal_column (gp_score input), it_status = gp_status input, it_comment = gp_comment input,
      it_enteredById = gu_enteredById input, it_enteredAt = Some (gu_enteredAt input)\<rparr>"

text \<open>\<open>upsert\<close> on the unique key of school, assessment and student. The ids of new rows are given.\<close>

definition item_key :: "GradeItem \<Rightarrow> string \<times> string \<times> string" where
  "item_key i = (it_schoolId i, it_assessmentId i, it_studentId i)"

definition payload_key :: "GradeItemUpsertPayload \<Rightarrow> string \<times> string \<times> string" where
  "payload_key input = (gu_schoolId input, gu_assessmentId input, gu_studentId input)"

definition upsert_item :: "string \<Rightarrow> GradeItemUpsertPayload \<Rightarrow> GradeItem list \<Rightarrow> GradeItem list" where
  "upsert_item newId input items =
     (if \<exists>i \<in> set items. item_key i = payload_key input
      then map (\<lambda>i. if item_key i = payload_key input then buildGradeItemUpdateInput input i else i) items
      else items @ [buildGradeItemCreateInput newId input])"

definition score_fits :: "GradeItemUpsertPayload \<Rightarrow> bool" where
  "score_fits input \<longleftrightarrow> (case gp_score input of None \<Rightarrow> True | Some x \<Rightarrow> \<bar>decimal_column x\<bar> < 100000)"

definition upsertGradeItem :: "string \<Rightarrow> GradesScope \<Rightarrow> GradeItemUpsertPayload \<Rightarrow> GradeDb \<Rightarrow> GradeDb result" where
  "upsertGradeItem newId scope input db =
     andThen (assertGradeItemWriteAccess scope (gu_assessmentId input) (gu_studentId input) (gu_enrollmentId input) db) (\<lambda>_.
       if \<not> score_fits input then Inl (PrismaError ''P2020'')
       else Inr (db\<lparr>gdb_items := upsert_item newId input (gdb_items db)\<rparr>))"

fun bulkUpsertGradeItems :: "(string \<times> GradeItemUpsertPayload) list \<Rightarrow> GradesScope \<Rightarrow> GradeDb \<Rightarrow> GradeDb result" where
  "bulkUpsertGradeItems [] scope db = Inr db"
| "bulkUpsertGradeItems ((newId, input) # inputs) scope db =
     andThen (upsertGradeItem newId scope input db) (bulkUpsertGradeItems inputs scope)"

text \<open>The row an \<open>upsert\<close> returns.\<close>

definition upserted_item :: "GradeItemUpsertPayload \<Rightarrow> GradeDb \<Rightarrow> GradeItem option" where
  "upserted_item input db = findFirst (\<lambda>i. item_key i = payload_key input) (gdb_items db)"

definition active_enrollment :: "GradeEnrollmentRow \<Rightarrow> bool" where
  "active_enrollment e \<longleftrightarrow>
     en_studentDeletedAt e = None \<and> en_studentStatus e = ''ACTIVE'' \<and>
     en_deletedAt e = None \<and> en_status e = ''ACTIVE'' \<and> en_endedAt e = None"

definition gradeItemAccessWhere :: "GradesScope \<Rightarrow> GradeDb \<Rightarrow> GradeItem \<Rightarrow> bool" where
  "gradeItemAccessWhere scope db i =
     (if gsc_userType scope = ''SCHOOL_USER'' \<or> gsc_userType scope = ''ORGANIZATION_USER'' then True
      else if gsc_userType scope = ''STUDENT''
      then (\<exists>e \<in> set (gdb_enrollments db). en_studentId e = it_studentId i \<and> active_enrollment e \<and>
              en_studentUserId e = Some (gsc_actorId scope)) \<and>
           (\<exists>a \<in> set (gdb_assessments db). as_id a = it_assessmentId i \<and> as_deletedAt a = None)
      else if gsc_userType scope \<noteq> ''TEACHER'' then False
      else \<exists>al \<in> set (teacherScopes scope db).
             (\<exists>a \<in> set (gdb_assessments db). as_id a = it_assessmentId i \<and> assessmentScope scope al a) \<and>
             (\<exists>e \<in> set (gdb_enrollments db). en_studentId e = it_studentId i \<and> active_enrollment e \<and>
                cr_id (en_classroom e) = tal_classroomId al \<and> en_academicYearId e = tal_academicYearId al \<and>
                (en_termId e = Some (tal_termId al) \<or> en_termId e = None)))"

definition findGradeItemByAssessmentAndStudent :: "GradesScope \<Rightarrow> string \<Rightarrow> string \<Rightarrow> GradeDb \<Rightarrow> GradeItem option" where
  "findGradeItemByAssessmentAndStudent scope assessmentId studentId db =
     findFirst (\<lambda>i. it_schoolId i = gsc_schoolId scope \<and> gradeItemAccessWhere scope db i \<and>
       it_assessmentId i = assessmentId \<and> it_studentId i = studentId) (gdb_items db)"

section \<open>Enrollments in the scope of an assessment\<close>

definition buildAssessmentScopeClassroomWhere :: "GradeAssessment \<Rightarrow> GradeClassroomRow \<Rightarrow> bool" where
  "buildAssessmentScopeClassroomWhere a c =
     (let sc = as_scope a; key = (\<lambda>i. case i of None \<Rightarrow> gs_scopeKey sc | Some x \<Rightarrow> x)
      in case gs_scopeType sc of
           Scope_SCHOOL \<Rightarrow> cr_deletedAt c = None
         | Scope_STAGE \<Rightarrow> cr_deletedAt c = None \<and> cr_sectionDeletedAt c = None \<and> cr_gradeDeletedAt c = None \<and>
             cr_stageId c = key (gs_stageId sc)
         | Scope_GRADE \<Rightarrow> cr_deletedAt c = None \<and> cr_sectionDeletedAt c = None \<and> cr_gradeId c = key (gs_gradeId sc)
         | Scope_SECTION \<Rightarrow> cr_deletedAt c = None \<and> cr_sectionId c = key (gs_sectionId sc)
         | Scope_CLASSROOM \<Rightarrow> cr_deletedAt c = None \<and> cr_id c = key (gs_classroomId sc))"

definition buildEnrollmentScopeWhere :: "GradesScope \<Rightarrow> GradeAssessment \<Rightarrow> string list \<Rightarrow> GradeEnrollmentRow \<Rightarrow> bool" where
  "buildEnrollmentScopeWhere scope a studentIds e \<longleftrightarrow>
     en_schoolId e = gsc_schoolId scope \<and> en_deletedAt e = None \<and> en_academicYearId e = as_academicYearId a \<and>
     en_studentId e \<in> set studentIds \<and> en_status e = ''ACTIVE'' \<and>
     (en_termId e = Some (as_termId a) \<or> en_termId e = None) \<and>
     en_studentStatus e = ''ACTIVE'' \<and> en_studentDeletedAt e = None \<and> buildAssessmentScopeClassroomWhere a (en_classroom e)"

text \<open>Latest enrollment first, then latest creation.\<close>

definition latest_enrollment_first :: "GradeEnrollmentRow \<Rightarrow> GradeEnrollmentRow \<Rightarrow> int" where
  "latest_enrollment_first e e' = cmp_or (number_compare (en_enrolledAt e') (en_enrolledAt e)) (number_compare (en_createdAt e') (en_createdAt e))"

definition findStudentEnrollmentsForAssessmentScope ::
  "GradesScope \<Rightarrow> GradeAssessment \<Rightarrow> string list \<Rightarrow> GradeDb \<Rightarrow> GradeEnrollmentRow list" where
  "findStudentEnrollmentsForAssessmentScope scope a studentIds db =
     js_sort latest_enrollment_first (filter (\<lambda>e. buildEnrollmentScopeWhere scope a studentIds e \<and>
       gradeEnrollmentAccessWhere scope (as_id a) db e) (gdb_enrollments db))"

definition findStudentEnrollmentForAssessmentScope ::
  "GradesScope \<Rightarrow> GradeAssessment \<Rightarrow> string \<Rightarrow> GradeDb \<Rightarrow> GradeEnrollmentRow option" where
  "findStudentEnrollmentForAssessmentScope scope a studentId db =
     findFirst (\<lambda>_. True) (findStudentEnrollmentsForAssessmentScope scope a [studentId] db)"

definition findStudentForGradeEntry :: "GradesScope \<Rightarrow> string \<Rightarrow> GradeDb \<Rightarrow> StudentRow option" where
  "findStudentForGradeEntry scope studentId db =
     findFirst (\<lambda>s. student_id s = studentId \<and> student_schoolId s = gsc_schoolId scope \<and> student_deletedAt s = None) (gdb_students db)"

section \<open>Writing rules\<close>

definition findRuleByUniqueScope ::
  "GradesScope \<Rightarrow> string \<Rightarrow> string \<Rightarrow> GradeScopeType \<Rightarrow> string \<Rightarrow> GradeDb \<Rightarrow> GradeRule option" where
  "findRuleByUniqueScope scope academicYearId termId scopeType scopeKey db =
     findFirst (\<lambda>r. ru_schoolId r = gsc_schoolId scope \<and> ru_academicYearId r = academicYearId \<and> ru_termId r = termId \<and>
       ru_scopeType r = scopeType \<and> ru_scopeKey r = scopeKey) (gdb_rules db)"

definition findSchoolRule :: "GradesScope \<Rightarrow> string \<Rightarrow> string \<Rightarrow> string \<Rightarrow> GradeDb \<Rightarrow> GradeRule option" where
  "findSchoolRule scope academicYearId termId schoolId db = findRuleByUniqueScope scope academicYearId termId Scope_SCHOOL schoolId db"

definition findGradeRule :: "GradesScope \<Rightarrow> string \<Rightarrow> string \<Rightarrow> string \<Rightarrow> GradeDb \<Rightarrow> GradeRule option" where
  "findGradeRule scope academicYearId termId gradeId db = findRuleByUniqueScope scope academicYearId termId Scope_GRADE gradeId db"

definition findRuleById :: "GradesScope \<Rightarrow> string \<Rightarrow> GradeDb \<Rightarrow> GradeRule option" where
  "findRuleById scope ruleId db = findFirst (\<lambda>r. ru_id r = ruleId \<and> ru_schoolId r = gsc_schoolId scope) (gdb_rules db)"

definition rule_key :: "GradeRule \<Rightarrow> string \<times> string \<times> string \<times> GradeScopeType \<times> string" where
  "rule_key r = (ru_schoolId r, ru_academicYearId r, ru_termId r, ru_scopeType r, ru_scopeKey r)"

text \<open>The unique index over school, year, term, scope type and scope key.\<close>

definition createRule :: "string \<Rightarrow> GradeRule \<Rightarrow> GradeDb \<Rightarrow> (GradeRule \<times> GradeDb) result" where
  "createRule newId data db =
     (if rule_key data \<in> rule_key ` set (gdb_rules db) then Inl (PrismaError ''P2002'')
      else let row = data\<lparr>ru_id := newId, ru_passMark := decimal_column (ru_passMark data)\<rparr>
           in Inr (row, db\<lparr>gdb_rules := gdb_rules db @ [row]\<rparr>))"

definition updateRule :: "GradesScope \<Rightarrow> string \<Rightarrow> (GradeRule \<Rightarrow> GradeRule) \<Rightarrow> GradeDb \<Rightarrow> (GradeRule \<times> GradeDb) result" where
  "updateRule scope ruleId data db =
     (let db' = db\<lparr>gdb_rules := snd (updateMany (\<lambda>r. ru_id r = ruleId \<and> ru_schoolId r = gsc_schoolId scope) data (gdb_rules db))\<rparr>
      in case findRuleById scope ruleId db' of
           None \<Rightarrow> Inl (JsError ''Grade rule update failed'')
         | Some r \<Rightarrow> Inr (r, db'))"

text \<open>\<open>upsertRule\<close> in two parts: the rule it finds, and its write, an update of that rule or a new row.\<close>

definition upsertRule_find :: "GradesScope \<Rightarrow> GradeRule \<Rightarrow> GradeDb \<Rightarrow> GradeRule option" where
  "upsertRule_find scope data db =
     findRuleByUniqueScope scope (ru_academicYearId data) (ru_termId data) (ru_scopeType data) (ru_scopeKey data) db"

definition upsertRule_write ::
  "string \<Rightarrow> GradesScope \<Rightarrow> GradeRule option \<Rightarrow> GradeRule \<Rightarrow> GradeDb \<Rightarrow> (GradeRule \<times> GradeDb) result" where
  "upsertRule_write newId scope earlier data db =
     (case earlier of
        Some r \<Rightarrow> updateRule scope (ru_id r) (\<lambda>x. x\<lparr>ru_gradingScale := ru_gradingScale data,
                    ru_passMark := decimal_column (ru_passMark data), ru_rounding := ru_rounding data,
                    ru_gradeId := ru_gradeId data\<rparr>) db
      | None \<Rightarrow> createRule newId data db)"

end
