(* ===== verification/Grade_Requests.thy ===== *)
theory Grade_Requests
  imports Grade_Store Interleaving
begin

text \<open>
  The use cases that change assessments, marks and grading rules
  (\<open>src/src/modules/grades/assessments/application\<close>, \<open>src/src/modules/grades/rules/application\<close>), each split
  where it starts to write. The audit entry, which the code writes after the transaction, belongs to the
  second half. \<open>parse\<close> stands for reading a date from text, \<open>questions_ready\<close> for the validation of the
  questions of a question-based assessment.
\<close>

section \<open>Context of an assessment\<close>

definition resolveAssessmentAcademicYearId :: "string option \<Rightarrow> string option \<Rightarrow> string result" where
  "resolveAssessmentAcademicYearId academicYearId yearId =
     (let i = (case academicYearId of Some y \<Rightarrow> Some y | None \<Rightarrow> yearId)
      in if truthy i then Inr (the i)
         else Inl (ValidationDomainException ''Academic year is required''
                [(''field'', DStr ''academicYearId''), (''aliases'', DStrs [''yearId''])]))"

definition validateAssessmentAcademicContext :: "GradesScope \<Rightarrow> string \<Rightarrow> string \<Rightarrow> GradeDb \<Rightarrow> GradeTermRow result" where
  "validateAssessmentAcademicContext scope academicYearId termId db =
     (if findGradeYear scope academicYearId db = None
      then Inl (NotFoundDomainException ''Academic year not found_by_id'' [(''academicYearId'', DStr academicYearId)])
      else
        let missing = Inl (NotFoundDomainException ''Term not found_by_id''
              [(''academicYearId'', DStr academicYearId), (''termId'', DStr termId)])
        in case findGradeTerm scope termId db of
             None \<Rightarrow> missing
           | Some t \<Rightarrow> if gtr_academicYearId t \<noteq> academicYearId then missing else Inr t)"

definition validateAssessmentSubject :: "GradesScope \<Rightarrow> string \<Rightarrow> GradeDb \<Rightarrow> unit result" where
  "validateAssessmentSubject scope subjectId db =
     (if findSubject scope subjectId db = None
      then Inl (NotFoundDomainException ''Subject not found_by_id'' [(''subjectId'', DStr subjectId)]) else Inr ())"

record ScopeCommand =
  sc_scopeType :: "js_value option"
  sc_scopeId :: "string option"
  sc_stageId :: "string option"
  sc_gradeId :: "string option"
  sc_sectionId :: "string option"
  sc_classroomId :: "string option"

definition requireMatchingScopeId :: "string \<Rightarrow> string option \<Rightarrow> string option \<Rightarrow> string result" where
  "requireMatchingScopeId field specificId scopeId =
     (if truthy specificId \<and> truthy scopeId \<and> specificId \<noteq> scopeId
      then Inl (ValidationDomainException ''Scope id aliases do not match''
             [(''field'', DStr field), (''scopeId'', detail_of_str_option scopeId), (field, detail_of_str_option specificId)])
      else
        let v = (case specificId of Some x \<Rightarrow> Some x | None \<Rightarrow> scopeId)
        in if truthy v then Inr (the v) else Inl (GradeAssessmentInvalidScopeException [(''field'', DStr field)]))"

definition assertOptionalParent :: "string \<Rightarrow> string option \<Rightarrow> string \<Rightarrow> unit result" where
  "assertOptionalParent field provided actual =
     (if truthy provided \<and> provided \<noteq> Some actual
      then Inl (ValidationDomainException ''Assessment context parent ids do not match the selected scope''
             [(''field'', DStr field)])
      else Inr ())"

definition scope_input :: "string \<Rightarrow> js_value \<Rightarrow> string option \<Rightarrow> ResolveGradeScopeInput" where
  "scope_input schoolId scopeType stageId =
     \<lparr>gi_schoolId = Some schoolId, gi_scopeType = Some scopeType, gi_scopeId = None, gi_scopeKey = None,
      gi_stageId = stageId, gi_gradeId = None, gi_sectionId = None, gi_classroomId = None\<rparr>"

definition found_by_id :: "string \<Rightarrow> string \<Rightarrow> string \<Rightarrow> 'a option \<Rightarrow> 'a result" where
  "found_by_id message field i x =
     (case x of None \<Rightarrow> Inl (NotFoundDomainException message [(field, DStr i)]) | Some y \<Rightarrow> Inr y)"

text \<open>The result is \<open>None\<close>, that is \<open>undefined\<close>, when the type is none of the enum.\<close>

definition resolveAssessmentScopeForWrite ::
  "GradesScope \<Rightarrow> string \<Rightarrow> ScopeCommand \<Rightarrow> GradeDb \<Rightarrow> NormalizedGradeScope option result" where
  "resolveAssessmentScopeForWrite scope schoolId input db =
     andThen (normalizeGradeScopeType (sc_scopeType input)) (\<lambda>v.
     case switch_scope v of
       None \<Rightarrow> Inr None
     | Some Scope_SCHOOL \<Rightarrow>
         (if truthy (sc_scopeId input) \<and> sc_scopeId input \<noteq> Some schoolId
          then Inl (NotFoundDomainException ''School not found_by_id'' [(''schoolId'', detail_of_str_option (sc_scopeId input))])
          else map_sum id Some (buildAssessmentScopePayload (scope_input schoolId v None)))
     | Some Scope_STAGE \<Rightarrow>
         andThen (requireMatchingScopeId ''stageId'' (sc_stageId input) (sc_scopeId input)) (\<lambda>stageId.
         andThen (found_by_id ''Stage not found_by_id'' ''stageId'' stageId (findStage scope stageId db)) (\<lambda>_.
           map_sum id Some (buildAssessmentScopePayload (scope_input schoolId v (Some stageId)))))
     | Some Scope_GRADE \<Rightarrow>
         andThen (requireMatchingScopeId ''gradeId'' (sc_gradeId input) (sc_scopeId input)) (\<lambda>gradeId.
         andThen (found_by_id ''Grade not found_by_id'' ''gradeId'' gradeId (findGrade scope gradeId db)) (\<lambda>g.
         andThen (assertOptionalParent ''stageId'' (sc_stageId input) (gg_stageId g)) (\<lambda>_.
           Inr (Some \<lparr>gs_scopeType = Scope_GRADE, gs_scopeKey = gg_id g, gs_stageId = Some (gg_stageId g),
                      gs_gradeId = Some (gg_id g), gs_sectionId = None, gs_classroomId = None\<rparr>))))
     | Some Scope_SECTION \<Rightarrow>
         andThen (requireMatchingScopeId ''sectionId'' (sc_sectionId input) (sc_scopeId input)) (\<lambda>sectionId.
         andThen (found_by_id ''Section not found_by_id'' ''sectionId'' sectionId (findSectionWithGrade scope sectionId db)) (\<lambda>s.
         andThen (assertOptionalParent ''gradeId'' (sc_gradeId input) (ss_gradeId s)) (\<lambda>_.
         andThen (assertOptionalParent ''stageId'' (sc_stageId input) (ss_stageId s)) (\<lambda>_.
           Inr (Some \<lparr>gs_scopeType = Scope_SECTION, gs_scopeKey = ss_id s, gs_stageId = Some (ss_stageId s),
                      gs_gradeId = Some (ss_gradeId s), gs_sectionId = Some (ss_id s), gs_classroomId = None\<rparr>)))))
     | Some Scope_CLASSROOM \<Rightarrow>
         andThen (requireMatchingScopeId ''classroomId'' (sc_classroomId input) (sc_scopeId input)) (\<lambda>classroomId.
         andThen (found_by_id ''Classroom not found_by_id'' ''classroomId'' classroomId (findClassroomWithGrade scope classroomId db)) (\<lambda>c.
         andThen (assertOptionalParent ''sectionId'' (sc_sectionId input) (cr_sectionId c)) (\<lambda>_.
         andThen (assertOptionalParent ''gradeId'' (sc_gradeId input) (cr_gradeId c)) (\<lambda>_.
         andThen (assertOptionalParent ''stageId'' (sc_stageId input) (cr_stageId c)) (\<lambda>_.
           Inr (Some \<lparr>gs_scopeType = Scope_CLASSROOM, gs_scopeKey = cr_id c, gs_stageId = Some (cr_stageId c),
                      gs_gradeId = Some (cr_gradeId c), gs_sectionId = Some (cr_sectionId c), gs_classroomId = Some (cr_id c)\<rparr>)))))))"

text \<open>Reading a field of \<open>undefined\<close>.\<close>

definition deref :: "'a option \<Rightarrow> 'a result" where
  "deref x = (case x of None \<Rightarrow> Inl (JsError ''TypeError'') | Some y \<Rightarrow> Inr y)"

definition parseAssessmentDate :: "(string \<Rightarrow> int option) \<Rightarrow> string \<Rightarrow> string \<Rightarrow> int result" where
  "parseAssessmentDate parse v field =
     (case parse v of
        None \<Rightarrow> Inl (ValidationDomainException ''Assessment date is invalid'' [(''field'', DStr field), (''value'', DStr v)])
      | Some d \<Rightarrow> Inr d)"

definition assertAssessmentWeightBudget ::
  "GradesScope \<Rightarrow> string \<Rightarrow> string \<Rightarrow> string \<Rightarrow> NormalizedGradeScope \<Rightarrow> rat \<Rightarrow> string option \<Rightarrow> GradeDb \<Rightarrow> unit result" where
  "assertAssessmentWeightBudget scope academicYearId termId subjectId target nextWeight excludeAssessmentId db =
     assertWeightBudget (sumAssessmentWeights scope academicYearId termId subjectId (gs_scopeType target)
       (gs_scopeKey target) excludeAssessmentId db) nextWeight"

section \<open>Creating an assessment\<close>

record CreateGradeAssessmentDto =
  ca_academicYearId :: "string option"
  ca_yearId :: "string option"
  ca_termId :: string
  ca_subjectId :: string
  ca_scope :: ScopeCommand
  ca_title :: "string option"
  ca_titleEn :: "string option"
  ca_titleAr :: "string option"
  ca_type :: string
  ca_deliveryMode :: "string option"
  ca_date :: string
  ca_weight :: GradeNumericValue
  ca_maxScore :: GradeNumericValue
  ca_expectedTimeMinutes :: "int option"

text \<open>\<open>buildCreateAssessmentData\<close> and \<open>buildCreateQuestionBasedAssessmentData\<close> differ in the delivery mode.\<close>

definition buildCreateAssessmentData ::
  "(string \<Rightarrow> int option) \<Rightarrow> bool \<Rightarrow> GradesScope \<Rightarrow> string \<Rightarrow> CreateGradeAssessmentDto \<Rightarrow> NormalizedGradeScope option \<Rightarrow>
   GradeAssessment result" where
  "buildCreateAssessmentData parse questionBased scope academicYearId command target =
     andThen (validateAssessmentWeight (ca_weight command)) (\<lambda>weight.
     andThen (validateAssessmentMaxScore (ca_maxScore command)) (\<lambda>maxScore.
     andThen (parseAssessmentDate parse (ca_date command) ''date'') (\<lambda>date.
     andThen (deref target) (\<lambda>sc.
     andThen (normalizeAssessmentType (ca_type command)) (\<lambda>type.
     andThen (if questionBased then Inr Mode_QUESTION_BASED else normalizeScoreOnlyDeliveryMode (ca_deliveryMode command)) (\<lambda>mode.
       Inr \<lparr>ga_approvalStatus = Approval_DRAFT, ga_deliveryMode = mode, ga_maxScore = maxScore, ga_lockedAt = None,
            as_id = [], as_schoolId = gsc_schoolId scope, as_academicYearId = academicYearId,
            as_termId = ca_termId command, as_subjectId = ca_subjectId command, as_scope = sc,
            as_titleEn = trimmed_or_null (case ca_titleEn command of Some t \<Rightarrow> Some t | None \<Rightarrow> ca_title command),
            as_titleAr = trimmed_or_null (ca_titleAr command), as_type = type, as_date = date, as_weight = weight,
            as_expectedTimeMinutes = ca_expectedTimeMinutes command, as_publishedAt = None, as_publishedById = None,
            as_approvedAt = None, as_approvedById = None, as_lockedById = None,
            as_createdById = Some (gsc_actorId scope), as_deletedAt = None\<rparr>))))))"

definition validateCreateAssessmentValues :: "GradeAssessment \<Rightarrow> GradeTermRow \<Rightarrow> unit result" where
  "validateCreateAssessmentValues a trm =
     andThen (assertGradeTermWritable trm) (\<lambda>_.
     andThen (validateAssessmentWeight (NumberValue (Some (as_weight a)))) (\<lambda>_.
     andThen (validateAssessmentMaxScore (NumberValue (Some (ga_maxScore a)))) (\<lambda>_.
       assertDateInsideTerm (as_date a) trm)))"

definition CreateGradeAssessmentUseCase_prepare ::
  "(string \<Rightarrow> int option) \<Rightarrow> bool \<Rightarrow> RequestContext option \<Rightarrow> CreateGradeAssessmentDto \<Rightarrow> GradeDb \<Rightarrow>
   (GradesScope \<times> GradeAssessment) result" where
  "CreateGradeAssessmentUseCase_prepare parse questionBased ctx command db =
     andThen (requireGradesScope ctx) (\<lambda>scope.
     andThen (resolveAssessmentAcademicYearId (ca_academicYearId command) (ca_yearId command)) (\<lambda>academicYearId.
     andThen (validateAssessmentAcademicContext scope academicYearId (ca_termId command) db) (\<lambda>trm.
     andThen (validateAssessmentSubject scope (ca_subjectId command) db) (\<lambda>_.
     andThen (resolveAssessmentScopeForWrite scope (gsc_schoolId scope) (ca_scope command) db) (\<lambda>sc.
     andThen (buildCreateAssessmentData parse questionBased scope academicYearId command sc) (\<lambda>data.
     andThen (validateCreateAssessmentValues data trm) (\<lambda>_.
     andThen (assertAssessmentWeightBudget scope academicYearId (ca_termId command) (ca_subjectId command) (as_scope data)
        (as_weight data) None db) (\<lambda>_.
       Inr (scope, data)))))))))"

section \<open>Changing an assessment\<close>

text \<open>An absent key is \<open>None\<close>; a key with the value null is \<open>Some None\<close>.\<close>

record UpdateGradeAssessmentDto =
  ua_subjectId :: "string option option"
  ua_scopeType :: "string option option"
  ua_scopeId :: "string option option"
  ua_stageId :: "string option option"
  ua_gradeId :: "string option option"
  ua_sectionId :: "string option option"
  ua_classroomId :: "string option option"
  ua_title :: "string option option"
  ua_titleEn :: "string option option"
  ua_titleAr :: "string option option"
  ua_type :: "string option option"
  ua_date :: "string option option"
  ua_weight :: GradeNumericValue
  ua_maxScore :: GradeNumericValue
  ua_expectedTimeMinutes :: "int option option"

definition hasScopePatch :: "UpdateGradeAssessmentDto \<Rightarrow> bool" where
  "hasScopePatch command \<longleftrightarrow>
     ua_scopeType command \<noteq> None \<or> ua_scopeId command \<noteq> None \<or> ua_stageId command \<noteq> None \<or> ua_gradeId command \<noteq> None \<or>
     ua_sectionId command \<noteq> None \<or> ua_classroomId command \<noteq> None"

text \<open>\<open>hasOwn(command, key) ? command[key] : existing\<close> and \<open>command[key] ?? existing\<close>\<close>

definition given_or :: "'a option option \<Rightarrow> 'a option \<Rightarrow> 'a option" where
  "given_or given existing = (case given of Some v \<Rightarrow> v | None \<Rightarrow> existing)"

definition nullish_or :: "'a option option \<Rightarrow> 'a \<Rightarrow> 'a" where
  "nullish_or given existing = (case given of Some (Some v) \<Rightarrow> v | _ \<Rightarrow> existing)"

definition resolveNextAssessmentScopeInput :: "GradeAssessment \<Rightarrow> UpdateGradeAssessmentDto \<Rightarrow> ScopeCommand" where
  "resolveNextAssessmentScopeInput existing command =
     \<lparr>sc_scopeType = Some (JStr (nullish_or (ua_scopeType command) (GradeScopeType_name (gs_scopeType (as_scope existing))))),
      sc_scopeId = given_or (ua_scopeId command) None,
      sc_stageId = given_or (ua_stageId command) (gs_stageId (as_scope existing)),
      sc_gradeId = given_or (ua_gradeId command) (gs_gradeId (as_scope existing)),
      sc_sectionId = given_or (ua_sectionId command) (gs_sectionId (as_scope existing)),
      sc_classroomId = given_or (ua_classroomId command) (gs_classroomId (as_scope existing))\<rparr>"

definition existingAssessmentScope :: "GradeAssessment \<Rightarrow> NormalizedGradeScope" where
  "existingAssessmentScope a = as_scope a"

text \<open>\<open>new Date(null)\<close> is the epoch.\<close>

definition parse_date_value :: "(string \<Rightarrow> int option) \<Rightarrow> string option \<Rightarrow> int result" where
  "parse_date_value parse v = (case v of None \<Rightarrow> Inr 0 | Some s \<Rightarrow> parseAssessmentDate parse s ''date'')"

definition detectProtectedAssessmentChanges :: "GradeAssessment \<Rightarrow> string \<Rightarrow> NormalizedGradeScope \<Rightarrow> rat \<Rightarrow> string list" where
  "detectProtectedAssessmentChanges existing nextSubjectId nextScope nextMaxScore =
     (if as_subjectId existing \<noteq> nextSubjectId then [''subjectId''] else []) @
     (if \<not> areScopesEqual (existingAssessmentScope existing) nextScope then [''scope''] else []) @
     (if fl (ga_maxScore existing) \<noteq> nextMaxScore then [''maxScore''] else [])"

definition assertProtectedChangesAllowed :: "nat \<Rightarrow> string list \<Rightarrow> unit result" where
  "assertProtectedChangesAllowed = assertNoGradeItemsForProtectedAssessmentChange"

definition shouldValidateWeightBudget :: "GradeAssessment \<Rightarrow> string \<Rightarrow> NormalizedGradeScope \<Rightarrow> rat \<Rightarrow> bool" where
  "shouldValidateWeightBudget existing nextSubjectId nextScope nextWeight \<longleftrightarrow>
     as_subjectId existing \<noteq> nextSubjectId \<or> \<not> areScopesEqual (existingAssessmentScope existing) nextScope \<or>
     fl (as_weight existing) \<noteq> nextWeight"

text \<open>The object \<open>data\<close>: an absent key is \<open>None\<close>. The six keys of the scope come together.\<close>

record UpdateGradeAssessmentData =
  pd_subjectId :: "string option option"
  pd_scope :: "NormalizedGradeScope option"
  pd_titleEn :: "string option option"
  pd_titleAr :: "string option option"
  pd_type :: "GradeAssessmentType option"
  pd_date :: "int option"
  pd_weight :: "rat option"
  pd_maxScore :: "rat option"
  pd_expectedTimeMinutes :: "int option option"

definition empty_data :: UpdateGradeAssessmentData where
  "empty_data = \<lparr>pd_subjectId = None, pd_scope = None, pd_titleEn = None, pd_titleAr = None, pd_type = None, pd_date = None,
     pd_weight = None, pd_maxScore = None, pd_expectedTimeMinutes = None\<rparr>"

definition when_defined :: "GradeNumericValue \<Rightarrow> rat result \<Rightarrow> rat option result" where
  "when_defined v x = (if v = UndefinedValue then Inr None else map_sum id Some x)"

definition buildUpdateAssessmentData ::
  "(string \<Rightarrow> int option) \<Rightarrow> UpdateGradeAssessmentDto \<Rightarrow> NormalizedGradeScope option \<Rightarrow> UpdateGradeAssessmentData result" where
  "buildUpdateAssessmentData parse command target =
     andThen (case ua_type command of
                None \<Rightarrow> Inr None
              | Some t \<Rightarrow> map_sum id Some (normalizeAssessmentType (case t of None \<Rightarrow> ''null'' | Some s \<Rightarrow> s))) (\<lambda>type.
     andThen (case ua_date command of
                None \<Rightarrow> Inr None
              | Some d \<Rightarrow> map_sum id Some (parse_date_value parse d)) (\<lambda>date.
     andThen (when_defined (ua_weight command) (validateAssessmentWeight (ua_weight command))) (\<lambda>weight.
     andThen (when_defined (ua_maxScore command) (validateAssessmentMaxScore (ua_maxScore command))) (\<lambda>maxScore.
       Inr \<lparr>pd_subjectId = ua_subjectId command, pd_scope = target,
            pd_titleEn = (if ua_titleEn command \<noteq> None \<or> ua_title command \<noteq> None
              then Some (trimmed_or_null (case given_or (ua_titleEn command) None of
                          Some t \<Rightarrow> Some t | None \<Rightarrow> given_or (ua_title command) None)) else None),
            pd_titleAr = map_option trimmed_or_null (ua_titleAr command), pd_type = type, pd_date = date,
            pd_weight = weight, pd_maxScore = maxScore, pd_expectedTimeMinutes = ua_expectedTimeMinutes command\<rparr>))))"

definition given :: "'v option \<Rightarrow> 'v \<Rightarrow> 'v" where
  "given v d = (case v of None \<Rightarrow> d | Some x \<Rightarrow> x)"

text \<open>Writing the keys. The client refuses a subject of null.\<close>

definition valid_data :: "UpdateGradeAssessmentData \<Rightarrow> bool" where
  "valid_data data \<longleftrightarrow> pd_subjectId data \<noteq> Some None"

definition apply_data :: "UpdateGradeAssessmentData \<Rightarrow> assessment_update" where
  "apply_data data a =
     a\<lparr>as_subjectId := nullish_or (pd_subjectId data) (as_subjectId a), as_scope := given (pd_scope data) (as_scope a),
       as_titleEn := given (pd_titleEn data) (as_titleEn a), as_titleAr := given (pd_titleAr data) (as_titleAr a),
       as_type := given (pd_type data) (as_type a), as_date := given (map_option dateOnlyEpoch (pd_date data)) (as_date a),
       as_weight := given (map_option decimal_column (pd_weight data)) (as_weight a),
       ga_maxScore := given (map_option decimal_column (pd_maxScore data)) (ga_maxScore a),
       as_expectedTimeMinutes := given (pd_expectedTimeMinutes data) (as_expectedTimeMinutes a)\<rparr>"

text \<open>The existing row and the data to write.\<close>

definition UpdateGradeAssessmentUseCase_prepare ::
  "(string \<Rightarrow> int option) \<Rightarrow> RequestContext option \<Rightarrow> string \<Rightarrow> UpdateGradeAssessmentDto \<Rightarrow> GradeDb \<Rightarrow>
   (GradesScope \<times> GradeAssessment \<times> UpdateGradeAssessmentData) result" where
  "UpdateGradeAssessmentUseCase_prepare parse ctx assessmentId command db =
     andThen (requireGradesScope ctx) (\<lambda>scope.
     andThen (found_by_id ''Grade assessment not found_by_id'' ''assessmentId'' assessmentId (findAssessmentById scope assessmentId db)) (\<lambda>existing.
     andThen (assertAssessmentMutableForCrud existing) (\<lambda>_.
     andThen (validateAssessmentAcademicContext scope (as_academicYearId existing) (as_termId existing) db) (\<lambda>trm.
     andThen (assertGradeTermWritable trm) (\<lambda>_.
     let nextSubjectId = nullish_or (ua_subjectId command) (as_subjectId existing)
     in andThen (if nextSubjectId \<noteq> as_subjectId existing then validateAssessmentSubject scope nextSubjectId db else Inr ()) (\<lambda>_.
     andThen (if hasScopePatch command
              then resolveAssessmentScopeForWrite scope (as_schoolId existing) (resolveNextAssessmentScopeInput existing command) db
              else Inr (Some (existingAssessmentScope existing))) (\<lambda>target.
     andThen (if truthy (given_or (ua_date command) None)
              then parseAssessmentDate parse (the (given_or (ua_date command) None)) ''date'' else Inr (as_date existing)) (\<lambda>nextDate.
     andThen (if ua_weight command = UndefinedValue then Inr (fl (as_weight existing))
              else validateAssessmentWeight (ua_weight command)) (\<lambda>nextWeight.
     andThen (if ua_maxScore command = UndefinedValue then Inr (fl (ga_maxScore existing))
              else validateAssessmentMaxScore (ua_maxScore command)) (\<lambda>nextMaxScore.
     andThen (assertDateInsideTerm nextDate trm) (\<lambda>_.
     andThen (deref target) (\<lambda>nextScope.
     andThen (assertProtectedChangesAllowed (countGradeItemsForAssessment scope (as_id existing) db)
        (detectProtectedAssessmentChanges existing nextSubjectId nextScope nextMaxScore)) (\<lambda>_.
     andThen (if shouldValidateWeightBudget existing nextSubjectId nextScope nextWeight
              then assertAssessmentWeightBudget scope (as_academicYearId existing) (as_termId existing) nextSubjectId nextScope
                     nextWeight (Some (as_id existing)) db
              else Inr ()) (\<lambda>_.
     andThen (buildUpdateAssessmentData parse command (if hasScopePatch command then Some nextScope else None)) (\<lambda>data.
       Inr (scope, existing, data))))))))))))))))"

section \<open>The workflow of an assessment\<close>

definition require_assessment :: "RequestContext option \<Rightarrow> string \<Rightarrow> GradeDb \<Rightarrow> (GradesScope \<times> GradeAssessment) result" where
  "require_assessment ctx assessmentId db =
     andThen (requireGradesScope ctx) (\<lambda>scope.
     andThen (found_by_id ''Grade assessment not found_by_id'' ''assessmentId'' assessmentId (findAssessmentById scope assessmentId db)) (\<lambda>existing.
       Inr (scope, existing)))"

definition DeleteGradeAssessmentUseCase_prepare ::
  "RequestContext option \<Rightarrow> string \<Rightarrow> GradeDb \<Rightarrow> (GradesScope \<times> GradeAssessment) result" where
  "DeleteGradeAssessmentUseCase_prepare ctx assessmentId db =
     andThen (require_assessment ctx assessmentId db) (\<lambda>(scope, existing).
     andThen (assertAssessmentDeletableForCrud existing) (\<lambda>_.
     andThen (validateAssessmentAcademicContext scope (as_academicYearId existing) (as_termId existing) db) (\<lambda>trm.
     andThen (assertGradeTermWritable trm) (\<lambda>_.
     let gradeItemCount = countGradeItemsForAssessment scope (as_id existing) db;
         submissionCount = countSubmissionsForAssessment scope (as_id existing) db
     in if gradeItemCount > 0
        then Inl (GradeAssessmentInvalidStatusTransitionException
               [(''reason'', DStr ''grade_items_exist''), (''gradeItemCount'', DInt (int gradeItemCount))])
        else if submissionCount > 0
        then Inl (GradeAssessmentInvalidStatusTransitionException
               [(''reason'', DStr ''submissions_exist''), (''submissionCount'', DInt (int submissionCount))])
        else Inr (scope, existing)))))"

definition PublishGradeAssessmentUseCase_prepare ::
  "(GradeAssessment \<Rightarrow> unit result) \<Rightarrow> RequestContext option \<Rightarrow> string \<Rightarrow> GradeDb \<Rightarrow> (GradesScope \<times> GradeAssessment) result" where
  "PublishGradeAssessmentUseCase_prepare questions_ready ctx assessmentId db =
     andThen (require_assessment ctx assessmentId db) (\<lambda>(scope, existing).
     andThen (normalizeDeliveryMode (GradeAssessmentDeliveryMode_name (ga_deliveryMode existing))) (\<lambda>deliveryMode.
     andThen (if deliveryMode = Mode_SCORE_ONLY then assertPublishableAssessment existing
              else assertQuestionBasedAssessmentPublishable existing) (\<lambda>_.
     andThen (validateAssessmentAcademicContext scope (as_academicYearId existing) (as_termId existing) db) (\<lambda>trm.
     andThen (assertGradeTermWritable trm) (\<lambda>_.
     andThen (if deliveryMode = Mode_QUESTION_BASED then questions_ready existing else Inr ()) (\<lambda>_.
       Inr (scope, existing)))))))"

definition ApproveGradeAssessmentUseCase_prepare ::
  "RequestContext option \<Rightarrow> string \<Rightarrow> GradeDb \<Rightarrow> (GradesScope \<times> GradeAssessment) result" where
  "ApproveGradeAssessmentUseCase_prepare ctx assessmentId db =
     andThen (require_assessment ctx assessmentId db) (\<lambda>(scope, existing).
     andThen (assertApprovableAssessment existing) (\<lambda>_.
     andThen (validateAssessmentAcademicContext scope (as_academicYearId existing) (as_termId existing) db) (\<lambda>trm.
     andThen (assertGradeTermWritable trm) (\<lambda>_.
       Inr (scope, existing)))))"

definition LockGradeAssessmentUseCase_prepare ::
  "RequestContext option \<Rightarrow> string \<Rightarrow> GradeDb \<Rightarrow> (GradesScope \<times> GradeAssessment) result" where
  "LockGradeAssessmentUseCase_prepare ctx assessmentId db =
     andThen (require_assessment ctx assessmentId db) (\<lambda>(scope, existing).
     andThen (assertLockableAssessment existing) (\<lambda>_.
     andThen (validateAssessmentAcademicContext scope (as_academicYearId existing) (as_termId existing) db) (\<lambda>trm.
     andThen (assertGradeTermWritable trm) (\<lambda>_.
       Inr (scope, existing)))))"

definition publish_data :: "int \<Rightarrow> GradesScope \<Rightarrow> assessment_update" where
  "publish_data now scope a =
     a\<lparr>ga_approvalStatus := Approval_PUBLISHED, as_publishedAt := Some now, as_publishedById := Some (gsc_actorId scope)\<rparr>"

definition approve_data :: "int \<Rightarrow> GradesScope \<Rightarrow> assessment_update" where
  "approve_data now scope a =
     a\<lparr>ga_approvalStatus := Approval_APPROVED, as_approvedAt := Some now, as_approvedById := Some (gsc_actorId scope)\<rparr>"

definition lock_data :: "int \<Rightarrow> GradesScope \<Rightarrow> assessment_update" where
  "lock_data now scope a = a\<lparr>ga_lockedAt := Some now, as_lockedById := Some (gsc_actorId scope)\<rparr>"

section \<open>Marks\<close>

text \<open>The switch over the scope of the assessment is on its row.\<close>

definition isEnrollmentInsideAssessmentScope :: "GradeAssessment \<Rightarrow> GradeEnrollmentRow \<Rightarrow> bool" where
  "isEnrollmentInsideAssessmentScope a e =
     (case gs_scopeType (as_scope a) of
        Scope_SCHOOL \<Rightarrow> True
      | Scope_STAGE \<Rightarrow> Some (cr_stageId (en_classroom e)) = gs_stageId (as_scope a)
      | Scope_GRADE \<Rightarrow> Some (cr_gradeId (en_classroom e)) = gs_gradeId (as_scope a)
      | Scope_SECTION \<Rightarrow> Some (cr_sectionId (en_classroom e)) = gs_sectionId (as_scope a)
      | Scope_CLASSROOM \<Rightarrow> Some (cr_id (en_classroom e)) = gs_classroomId (as_scope a))"

definition validateStudentWithinAssessmentScope :: "GradeAssessment \<Rightarrow> GradeEnrollmentRow \<Rightarrow> unit result" where
  "validateStudentWithinAssessmentScope a e =
     (let none = Inl (GradebookNoEnrollmentException
            [(''assessmentId'', DStr (as_id a)), (''studentId'', DStr (en_studentId e))])
      in if en_academicYearId e \<noteq> as_academicYearId a \<or> (truthy (en_termId e) \<and> en_termId e \<noteq> Some (as_termId a)) then none
         else if \<not> isEnrollmentInsideAssessmentScope a e then none else Inr ())"

definition buildGradeItemUpsertPayload ::
  "GradeAssessment \<Rightarrow> string \<Rightarrow> string option \<Rightarrow> NormalizedGradeItemEntryPayload \<Rightarrow> string option \<Rightarrow> int \<Rightarrow> GradeItemUpsertPayload" where
  "buildGradeItemUpsertPayload a studentId enrollmentId normalized enteredById enteredAt =
     \<lparr>gp_status = gp_status normalized, gp_score = gp_score normalized, gp_comment = gp_comment normalized,
      gu_schoolId = as_schoolId a, gu_termId = as_termId a, gu_assessmentId = as_id a, gu_studentId = studentId,
      gu_enrollmentId = enrollmentId, gu_enteredById = enteredById, gu_enteredAt = enteredAt\<rparr>"

definition no_enrollment :: "GradesScope \<Rightarrow> GradeAssessment \<Rightarrow> string \<Rightarrow> js_exception" where
  "no_enrollment scope a studentId =
     (if gsc_userType scope = ''TEACHER'' then NotFoundDomainException ''Student not found_by_id'' []
      else GradebookNoEnrollmentException [(''assessmentId'', DStr (as_id a)), (''studentId'', DStr studentId)])"

definition item_payload ::
  "GradesScope \<Rightarrow> int \<Rightarrow> GradeAssessment \<Rightarrow> string \<Rightarrow> GradeEnrollmentRow option \<Rightarrow> NormalizedGradeItemEntryPayload result \<Rightarrow>
   GradeItemUpsertPayload result" where
  "item_payload scope now a studentId enrollment normalized =
     (case enrollment of
        None \<Rightarrow> Inl (no_enrollment scope a studentId)
      | Some e \<Rightarrow>
          andThen (validateStudentWithinAssessmentScope a e) (\<lambda>_.
          andThen normalized (\<lambda>p.
            Inr (buildGradeItemUpsertPayload a studentId (Some (en_id e)) p (Some (gsc_actorId scope)) now))))"

definition require_assessment_for_items ::
  "RequestContext option \<Rightarrow> string \<Rightarrow> GradeDb \<Rightarrow> (GradesScope \<times> GradeAssessment) result" where
  "require_assessment_for_items ctx assessmentId db =
     andThen (require_assessment ctx assessmentId db) (\<lambda>(scope, a).
     andThen (deref (assessment_term a db)) (\<lambda>trm.
     andThen (assertAssessmentAcceptsGradeItems a trm) (\<lambda>_.
       Inr (scope, a))))"

definition UpsertGradeAssessmentItemUseCase_prepare ::
  "RequestContext option \<Rightarrow> int \<Rightarrow> string \<Rightarrow> string \<Rightarrow> GradeItemEntryCommand \<Rightarrow> GradeDb \<Rightarrow>
   (GradesScope \<times> GradeItem option \<times> GradeItemUpsertPayload) result" where
  "UpsertGradeAssessmentItemUseCase_prepare ctx now assessmentId studentId command db =
     andThen (require_assessment_for_items ctx assessmentId db) (\<lambda>(scope, a).
     andThen (found_by_id ''Student not found_by_id'' ''studentId'' studentId (findStudentForGradeEntry scope studentId db)) (\<lambda>_.
     andThen (item_payload scope now a studentId (findStudentEnrollmentForAssessmentScope scope a studentId db)
        (normalizeGradeItemEntryPayload command (DecimalValue (ga_maxScore a)))) (\<lambda>payload.
       Inr (scope, findGradeItemByAssessmentAndStudent scope (as_id a) studentId db, payload))))"

text \<open>Bulk entry collects the enrollments in a \<open>Map\<close> by student, so a later one replaces an earlier one.\<close>

definition enrollment_of :: "GradeEnrollmentRow list \<Rightarrow> string \<Rightarrow> GradeEnrollmentRow option" where
  "enrollment_of enrollments studentId = jm_get (jm_of_entries (map (\<lambda>e. (en_studentId e, e)) enrollments)) studentId"

definition BulkUpsertGradeAssessmentItemsUseCase_prepare ::
  "RequestContext option \<Rightarrow> int \<Rightarrow> string \<Rightarrow> GradeItemEntryCommand list \<Rightarrow> GradeDb \<Rightarrow>
   (GradesScope \<times> GradeAssessment \<times> GradeItemUpsertPayload list \<times> GradeEnrollmentRow list) result" where
  "BulkUpsertGradeAssessmentItemsUseCase_prepare ctx now assessmentId items db =
     andThen (require_assessment_for_items ctx assessmentId db) (\<lambda>(scope, a).
     andThen (validateBulkGradeItemPayload items (DecimalValue (ga_maxScore a))) (\<lambda>normalizedItems.
     let studentIds = map fst normalizedItems;
         missingStudentIds = filter (\<lambda>i. findStudentForGradeEntry scope i db = None) studentIds
     in if missingStudentIds \<noteq> []
        then Inl (NotFoundDomainException ''Student not found_by_id'' [(''studentIds'', DStrs missingStudentIds)])
        else
          let enrollments = findStudentEnrollmentsForAssessmentScope scope a studentIds db
          in andThen (mapR (\<lambda>(studentId, p). item_payload scope now a studentId (enrollment_of enrollments studentId) (Inr p))
               normalizedItems) (\<lambda>payloads.
               Inr (scope, a, payloads, enrollments))))"


section \<open>Audit entries\<close>

fun GradeAssessmentType_name :: "GradeAssessmentType \<Rightarrow> string" where
  "GradeAssessmentType_name Type_QUIZ = ''QUIZ''"
| "GradeAssessmentType_name Type_MONTH_EXAM = ''MONTH_EXAM''"
| "GradeAssessmentType_name Type_MIDTERM = ''MIDTERM''"
| "GradeAssessmentType_name Type_TERM_EXAM = ''TERM_EXAM''"
| "GradeAssessmentType_name Type_ASSIGNMENT = ''ASSIGNMENT''"
| "GradeAssessmentType_name Type_FINAL = ''FINAL''"
| "GradeAssessmentType_name Type_PRACTICAL = ''PRACTICAL''"

definition summarizeAssessmentForAudit :: "GradeAssessment \<Rightarrow> (string \<times> detail) list" where
  "summarizeAssessmentForAudit a =
     [(''academicYearId'', DStr (as_academicYearId a)), (''termId'', DStr (as_termId a)),
      (''subjectId'', DStr (as_subjectId a)), (''scopeType'', DStr (GradeScopeType_name (gs_scopeType (as_scope a)))),
      (''scopeKey'', DStr (gs_scopeKey (as_scope a))), (''stageId'', detail_of_str_option (gs_stageId (as_scope a))),
      (''gradeId'', detail_of_str_option (gs_gradeId (as_scope a))),
      (''sectionId'', detail_of_str_option (gs_sectionId (as_scope a))),
      (''classroomId'', detail_of_str_option (gs_classroomId (as_scope a))),
      (''titleEn'', detail_of_str_option (as_titleEn a)), (''titleAr'', detail_of_str_option (as_titleAr a)),
      (''type'', DStr (GradeAssessmentType_name (as_type a))),
      (''deliveryMode'', DStr (GradeAssessmentDeliveryMode_name (ga_deliveryMode a))), (''date'', DDate (as_date a)),
      (''weight'', DNum (fl (as_weight a))), (''maxScore'', DNum (fl (ga_maxScore a))),
      (''expectedTimeMinutes'', case as_expectedTimeMinutes a of None \<Rightarrow> DNull | Some n \<Rightarrow> DInt n),
      (''approvalStatus'', DStr (GradeAssessmentApprovalStatus_name (ga_approvalStatus a))),
      (''publishedAt'', detail_of_date_option (as_publishedAt a)), (''publishedById'', detail_of_str_option (as_publishedById a)),
      (''approvedAt'', detail_of_date_option (as_approvedAt a)), (''approvedById'', detail_of_str_option (as_approvedById a)),
      (''lockedAt'', detail_of_date_option (ga_lockedAt a)), (''lockedById'', detail_of_str_option (as_lockedById a)),
      (''createdById'', detail_of_str_option (as_createdById a)), (''deletedAt'', detail_of_date_option (as_deletedAt a))]"

definition grade_audit ::
  "GradesScope \<Rightarrow> string \<Rightarrow> string \<Rightarrow> string \<Rightarrow> (string \<times> detail) list option \<Rightarrow> (string \<times> detail) list \<Rightarrow> GradeAuditInput" where
  "grade_audit scope action resourceType resourceId before after =
     \<lparr>gau_actorId = gsc_actorId scope, gau_userType = gsc_userType scope, gau_organizationId = gsc_organizationId scope,
      gau_schoolId = gsc_schoolId scope, gau_module = ''grades'', gau_action = action, gau_resourceType = resourceType,
      gau_resourceId = resourceId, gau_outcome = ''SUCCESS'', gau_before = before, gau_after = after\<rparr>"

text \<open>The summary of the questions that publishing adds for a question-based assessment is left out.\<close>

definition buildAssessmentAuditEntry ::
  "GradesScope \<Rightarrow> string \<Rightarrow> GradeAssessment option \<Rightarrow> GradeAssessment \<Rightarrow> GradeAuditInput" where
  "buildAssessmentAuditEntry scope action before a =
     grade_audit scope action ''grade_assessment'' (as_id a) (map_option summarizeAssessmentForAudit before)
       (summarizeAssessmentForAudit a)"

definition summarizeGradeItemForAudit :: "GradeItem \<Rightarrow> (string \<times> detail) list" where
  "summarizeGradeItemForAudit i =
     [(''id'', DStr (it_id i)), (''termId'', DStr (it_termId i)), (''assessmentId'', DStr (it_assessmentId i)),
      (''studentId'', DStr (it_studentId i)), (''enrollmentId'', detail_of_str_option (it_enrollmentId i)),
      (''score'', case it_score i of None \<Rightarrow> DNull | Some x \<Rightarrow> DNum (fl x)),
      (''status'', DStr (GradeItemStatus_name (it_status i))), (''comment'', detail_of_str_option (it_comment i)),
      (''enteredById'', detail_of_str_option (it_enteredById i)), (''enteredAt'', detail_of_date_option (it_enteredAt i))]"

definition buildGradeItemAuditEntry :: "GradesScope \<Rightarrow> GradeItem option \<Rightarrow> GradeItem \<Rightarrow> GradeAuditInput" where
  "buildGradeItemAuditEntry scope before i =
     grade_audit scope ''grades.item.update'' ''grade_item'' (it_id i) (map_option summarizeGradeItemForAudit before)
       (summarizeGradeItemForAudit i)"

definition buildBulkGradeItemsAuditEntry ::
  "GradesScope \<Rightarrow> GradeAssessment \<Rightarrow> GradeEnrollmentRow list \<Rightarrow> string list \<Rightarrow> GradeAuditInput" where
  "buildBulkGradeItemsAuditEntry scope a enrollments studentIds =
     grade_audit scope ''grades.items.bulk_update'' ''grade_assessment'' (as_id a) None
       [(''assessmentId'', DStr (as_id a)), (''affectedStudentIds'', DStrs studentIds),
        (''affectedEnrollmentIds'', DStrs (map en_id enrollments)), (''count'', DInt (int (length studentIds)))]"

definition summarizeRuleForAudit :: "GradeRule \<Rightarrow> (string \<times> detail) list" where
  "summarizeRuleForAudit r =
     [(''academicYearId'', DStr (ru_academicYearId r)), (''termId'', DStr (ru_termId r)),
      (''scopeType'', DStr (GradeScopeType_name (ru_scopeType r))), (''scopeKey'', DStr (ru_scopeKey r)),
      (''gradeId'', detail_of_str_option (ru_gradeId r)), (''gradingScale'', DStr ''PERCENTAGE''),
      (''passMark'', DNum (fl (ru_passMark r))), (''rounding'', DStr (GradeRoundingMode_name (ru_rounding r)))]"

definition rule_audit :: "GradesScope \<Rightarrow> string \<Rightarrow> GradeRule option \<Rightarrow> GradeRule \<Rightarrow> GradeAuditInput" where
  "rule_audit scope action before r =
     grade_audit scope action ''grade_rule'' (ru_id r) (map_option summarizeRuleForAudit before) (summarizeRuleForAudit r)"

section \<open>Grading rules\<close>

record UpsertGradeRuleDto =
  ur_academicYearId :: "string option"
  ur_yearId :: "string option"
  ur_termId :: string
  ur_scopeType :: string
  ur_scopeId :: "string option"
  ur_gradeId :: "string option"
  ur_passMark :: GradeNumericValue
  ur_gradingScale :: "string option"
  ur_rounding :: "string option"

text \<open>\<open>validateAcademicRuleContext\<close> looks the year and the term up as \<open>validateAssessmentAcademicContext\<close> does.\<close>

definition validateAcademicRuleContext :: "GradesScope \<Rightarrow> string \<Rightarrow> string \<Rightarrow> GradeDb \<Rightarrow> GradeTermRow result" where
  "validateAcademicRuleContext scope academicYearId termId db =
     (if findGradeYear scope academicYearId db = None
      then Inl (NotFoundDomainException ''Academic year not found_by_id'' [(''academicYearId'', DStr academicYearId)])
      else
        let missing = Inl (NotFoundDomainException ''Term not found_by_id''
              [(''termId'', DStr termId), (''academicYearId'', DStr academicYearId)])
        in case findGradeTerm scope termId db of
             None \<Rightarrow> missing
           | Some t \<Rightarrow> if gtr_academicYearId t \<noteq> academicYearId then missing else Inr t)"

definition buildRuleCreateData :: "GradesScope \<Rightarrow> UpsertGradeRuleDto \<Rightarrow> GradeDb \<Rightarrow> GradeRule result" where
  "buildRuleCreateData scope command db =
     andThen (resolveAssessmentAcademicYearId (ur_academicYearId command) (ur_yearId command)) (\<lambda>academicYearId.
     andThen (validateAcademicRuleContext scope academicYearId (ur_termId command) db) (\<lambda>trm.
     andThen (assertWritableTerm trm) (\<lambda>_.
     andThen (normalizeRuleScopeForWrite (gsc_schoolId scope) (Some (JStr (ur_scopeType command))) (ur_scopeId command)
        (ur_gradeId command)) (\<lambda>ruleScope.
     andThen (if truthy (rs_gradeId ruleScope)
              then andThen (found_by_id ''Grade not found_by_id'' ''gradeId'' (the (rs_gradeId ruleScope))
                     (findGrade scope (the (rs_gradeId ruleScope)) db)) (\<lambda>_. Inr ())
              else Inr ()) (\<lambda>_.
     andThen (normalizeGradeRuleScale (ur_gradingScale command)) (\<lambda>scale.
     andThen (validatePassMark (ur_passMark command)) (\<lambda>passMark.
     andThen (normalizeGradeRoundingMode (ur_rounding command)) (\<lambda>rounding.
       Inr \<lparr>ru_id = [], ru_schoolId = gsc_schoolId scope, ru_academicYearId = academicYearId,
            ru_termId = ur_termId command, ru_scopeType = rs_scopeType ruleScope, ru_scopeKey = rs_scopeKey ruleScope,
            ru_gradeId = rs_gradeId ruleScope, ru_gradingScale = scale, ru_passMark = passMark, ru_rounding = rounding\<rparr>))))))))"

record UpdateGradeRuleDto =
  pr_passMark :: GradeNumericValue
  pr_gradingScale :: "string option option"
  pr_rounding :: "string option option"

definition buildRuleUpdateData :: "UpdateGradeRuleDto \<Rightarrow> (GradeRule \<Rightarrow> GradeRule) result" where
  "buildRuleUpdateData command =
     andThen (if pr_passMark command = UndefinedValue then Inr id
              else andThen (validatePassMark (pr_passMark command)) (\<lambda>p. Inr (\<lambda>r. r\<lparr>ru_passMark := decimal_column p\<rparr>))) (\<lambda>f.
     andThen (case pr_gradingScale command of
                None \<Rightarrow> Inr id
              | Some s \<Rightarrow> andThen (normalizeGradeRuleScale s) (\<lambda>scale. Inr (\<lambda>r. r\<lparr>ru_gradingScale := scale\<rparr>))) (\<lambda>g.
     andThen (case pr_rounding command of
                None \<Rightarrow> Inr id
              | Some s \<Rightarrow> andThen (normalizeGradeRoundingMode s) (\<lambda>mode. Inr (\<lambda>r. r\<lparr>ru_rounding := mode\<rparr>))) (\<lambda>h.
       Inr (h \<circ> g \<circ> f))))"

text \<open>The write of the rule and the audit entry share one \<open>try\<close>, which turns a violated unique index into a
  conflict.\<close>

definition UpsertGradeRuleUseCase_prepare ::
  "RequestContext option \<Rightarrow> UpsertGradeRuleDto \<Rightarrow> GradeDb \<Rightarrow> (GradesScope \<times> GradeRule option \<times> GradeRule) result" where
  "UpsertGradeRuleUseCase_prepare ctx command db =
     andThen (requireGradesScope ctx) (\<lambda>scope.
     andThen (buildRuleCreateData scope command db) (\<lambda>data.
       Inr (scope, upsertRule_find scope data db, data)))"

definition UpdateGradeRuleUseCase_prepare ::
  "RequestContext option \<Rightarrow> string \<Rightarrow> UpdateGradeRuleDto \<Rightarrow> GradeDb \<Rightarrow>
   (GradesScope \<times> GradeRule \<times> (GradeRule \<Rightarrow> GradeRule)) result" where
  "UpdateGradeRuleUseCase_prepare ctx ruleId command db =
     andThen (requireGradesScope ctx) (\<lambda>scope.
     andThen (found_by_id ''Grade rule not found_by_id'' ''ruleId'' ruleId (findRuleById scope ruleId db)) (\<lambda>existing.
     let missing = Inl (NotFoundDomainException ''Term not found_by_id''
           [(''termId'', DStr (ru_termId existing)), (''academicYearId'', DStr (ru_academicYearId existing))])
     in case findGradeTerm scope (ru_termId existing) db of
          None \<Rightarrow> missing
        | Some trm \<Rightarrow>
            if gtr_academicYearId trm \<noteq> ru_academicYearId existing then missing
            else andThen (assertWritableTerm trm) (\<lambda>_.
                 andThen (buildRuleUpdateData command) (\<lambda>data.
                   Inr (scope, existing, data)))))"

definition rule_conflict :: "GradeRule \<Rightarrow> js_exception \<Rightarrow> js_exception" where
  "rule_conflict data error =
     (if error = PrismaError ''P2002''
      then GradeRuleConflictException
             [(''academicYearId'', DStr (ru_academicYearId data)), (''termId'', DStr (ru_termId data)),
              (''scopeType'', DStr (GradeScopeType_name (ru_scopeType data))), (''scopeKey'', DStr (ru_scopeKey data))]
      else error)"

end
