(* ===== verification/Grade_System.thy ===== *)
theory Grade_System
  imports Grade_Requests
begin

text \<open>
  Requests on assessments, marks and grading rules as two steps: \<open>grade_prepare\<close> runs the checks of a use case
  on the tables, \<open>grade_commit\<close> its transaction and its audit entry. \<open>newId\<close> gives the ids of new rows.
\<close>

datatype grade_request =
    CreateAssessment bool CreateGradeAssessmentDto
  | UpdateAssessment string UpdateGradeAssessmentDto
  | DeleteAssessment string
  | PublishAssessment string
  | ApproveAssessment string
  | LockAssessment string
  | EnterMark string string GradeItemEntryCommand
  | EnterMarks string "GradeItemEntryCommand list"
  | UpsertRule UpsertGradeRuleDto
  | UpdateRule string UpdateGradeRuleDto

datatype grade_pending =
    GCreate GradesScope GradeAssessment
  | GUpdate GradesScope GradeAssessment UpdateGradeAssessmentData
  | GDelete GradesScope int GradeAssessment
  | GPublish GradesScope int GradeAssessment
  | GApprove GradesScope int GradeAssessment
  | GLock GradesScope int GradeAssessment
  | GMark GradesScope "GradeItem option" GradeItemUpsertPayload
  | GMarks GradesScope GradeAssessment "GradeItemUpsertPayload list" "GradeEnrollmentRow list"
  | GUpsertRule GradesScope "GradeRule option" GradeRule
  | GUpdateRule GradesScope GradeRule "GradeRule \<Rightarrow> GradeRule"

fun grade_prepare ::
  "(string \<Rightarrow> int option) \<Rightarrow> (GradeAssessment \<Rightarrow> unit result) \<Rightarrow> RequestContext option \<Rightarrow> int \<Rightarrow> grade_request \<Rightarrow> GradeDb \<Rightarrow>
   grade_pending result" where
  "grade_prepare parse ready ctx now (CreateAssessment questionBased command) db =
     andThen (CreateGradeAssessmentUseCase_prepare parse questionBased ctx command db) (\<lambda>(scope, data). Inr (GCreate scope data))"
| "grade_prepare parse ready ctx now (UpdateAssessment i command) db =
     andThen (UpdateGradeAssessmentUseCase_prepare parse ctx i command db) (\<lambda>(scope, existing, data).
       Inr (GUpdate scope existing data))"
| "grade_prepare parse ready ctx now (DeleteAssessment i) db =
     andThen (DeleteGradeAssessmentUseCase_prepare ctx i db) (\<lambda>(scope, existing). Inr (GDelete scope now existing))"
| "grade_prepare parse ready ctx now (PublishAssessment i) db =
     andThen (PublishGradeAssessmentUseCase_prepare ready ctx i db) (\<lambda>(scope, existing). Inr (GPublish scope now existing))"
| "grade_prepare parse ready ctx now (ApproveAssessment i) db =
     andThen (ApproveGradeAssessmentUseCase_prepare ctx i db) (\<lambda>(scope, existing). Inr (GApprove scope now existing))"
| "grade_prepare parse ready ctx now (LockAssessment i) db =
     andThen (LockGradeAssessmentUseCase_prepare ctx i db) (\<lambda>(scope, existing). Inr (GLock scope now existing))"
| "grade_prepare parse ready ctx now (EnterMark i studentId command) db =
     andThen (UpsertGradeAssessmentItemUseCase_prepare ctx now i studentId command db) (\<lambda>(scope, before, payload).
       Inr (GMark scope before payload))"
| "grade_prepare parse ready ctx now (EnterMarks i commands) db =
     andThen (BulkUpsertGradeAssessmentItemsUseCase_prepare ctx now i commands db) (\<lambda>(scope, a, payloads, enrollments).
       Inr (GMarks scope a payloads enrollments))"
| "grade_prepare parse ready ctx now (UpsertRule command) db =
     andThen (UpsertGradeRuleUseCase_prepare ctx command db) (\<lambda>(scope, earlier, data). Inr (GUpsertRule scope earlier data))"
| "grade_prepare parse ready ctx now (UpdateRule i command) db =
     andThen (UpdateGradeRuleUseCase_prepare ctx i command db) (\<lambda>(scope, existing, data). Inr (GUpdateRule scope existing data))"

definition createGradeAuditLog :: "GradeAuditInput \<Rightarrow> GradeDb \<Rightarrow> GradeDb" where
  "createGradeAuditLog entry db = db\<lparr>gdb_audit := gdb_audit db @ [entry]\<rparr>"

definition grade_audited ::
  "GradesScope \<Rightarrow> string \<Rightarrow> GradeAssessment option \<Rightarrow> (GradeAssessment \<times> GradeDb) result \<Rightarrow> GradeDb result" where
  "grade_audited scope action before written =
     andThen written (\<lambda>(a, db). Inr (createGradeAuditLog (buildAssessmentAuditEntry scope action before a) db))"

fun grade_commit ::
  "(GradeAssessment \<Rightarrow> unit result) \<Rightarrow> (nat \<Rightarrow> string) \<Rightarrow> grade_pending \<Rightarrow> GradeDb \<Rightarrow> GradeDb result" where
  "grade_commit ready newId (GCreate scope data) db =
     grade_audited scope ''grades.assessment.create'' None (createAssessment (newId 0) scope data db)"
| "grade_commit ready newId (GUpdate scope existing data) db =
     (if data = empty_data then Inr db
      else grade_audited scope ''grades.assessment.update'' (Some existing)
             (updateAssessment scope (as_id existing) (valid_data data) (apply_data data) db))"
| "grade_commit ready newId (GDelete scope now existing) db =
     grade_audited scope ''grades.assessment.delete'' (Some existing) (softDeleteAssessment now scope (as_id existing) db)"
| "grade_commit ready newId (GPublish scope now existing) db =
     grade_audited scope ''grades.assessment.publish'' (Some existing)
       (publishAssessment ready scope (as_id existing) (publish_data now scope) db)"
| "grade_commit ready newId (GApprove scope now existing) db =
     grade_audited scope ''grades.assessment.approve'' (Some existing)
       (approveAssessment scope (as_id existing) (approve_data now scope) db)"
| "grade_commit ready newId (GLock scope now existing) db =
     grade_audited scope ''grades.assessment.lock'' (Some existing)
       (lockAssessment scope (as_id existing) (lock_data now scope) db)"
| "grade_commit ready newId (GMark scope before payload) db =
     andThen (upsertGradeItem (newId 0) scope payload db) (\<lambda>db'.
     case upserted_item payload db' of
       None \<Rightarrow> Inr db'
     | Some item \<Rightarrow> Inr (createGradeAuditLog (buildGradeItemAuditEntry scope before item) db'))"
| "grade_commit ready newId (GMarks scope a payloads enrollments) db =
     andThen (bulkUpsertGradeItems (zip (map newId [0..<length payloads]) payloads) scope db) (\<lambda>db'.
       Inr (createGradeAuditLog (buildBulkGradeItemsAuditEntry scope a enrollments (map gu_studentId payloads)) db'))"
| "grade_commit ready newId (GUpsertRule scope earlier data) db =
     (case upsertRule_write (newId 0) scope earlier data db of
        Inl error \<Rightarrow> Inl (rule_conflict data error)
      | Inr (r, db') \<Rightarrow> Inr (createGradeAuditLog (rule_audit scope
          (if earlier = None then ''grades.rule.create'' else ''grades.rule.update'') earlier r) db'))"
| "grade_commit ready newId (GUpdateRule scope existing data) db =
     andThen (updateRule scope (ru_id existing) data db) (\<lambda>(r, db').
       Inr (createGradeAuditLog (rule_audit scope ''grades.rule.update'' (Some existing) r) db'))"

text \<open>The two relations of the interface. A request that throws leaves the tables as they are.\<close>

definition grade_start :: "(string \<Rightarrow> int option) \<Rightarrow> (GradeAssessment \<Rightarrow> unit result) \<Rightarrow> GradeDb \<Rightarrow> grade_pending \<Rightarrow> bool" where
  "grade_start parse ready db p \<longleftrightarrow> (\<exists>ctx now req. grade_prepare parse ready ctx now req db = Inr p)"

definition grade_finish :: "(GradeAssessment \<Rightarrow> unit result) \<Rightarrow> grade_pending \<Rightarrow> GradeDb \<Rightarrow> GradeDb \<Rightarrow> bool" where
  "grade_finish ready p db db' \<longleftrightarrow>
     (\<exists>newId. case grade_commit ready newId p db of Inl e \<Rightarrow> db' = db | Inr db1 \<Rightarrow> db' = db1)"

end
