(* ===== verification/Grade_Invariants.thy ===== *)
theory Grade_Invariants
  imports Grade_System
begin

text \<open>
  Invariants of the grade tables: weights stay within their budget and marks within the maximum of their
  assessment. The first part relates decimal columns to numbers and the check of the budget to exact sums, the
  second shows which changes of a row keep the invariants.
\<close>

section \<open>Decimal columns and numbers\<close>

definition hundredth :: "rat \<Rightarrow> bool" where
  "hundredth x \<longleftrightarrow> x * 100 \<in> \<int>"

lemma hundredthE: "hundredth x \<Longrightarrow> (\<And>n. x = of_int n / 100 \<Longrightarrow> P) \<Longrightarrow> P"
  by (auto simp: hundredth_def Ints_def)

lemma hundredth_of_int [simp]: "hundredth (of_int n / 100)" "hundredth 0" "hundredth 100"
  by (simp_all add: hundredth_def)

lemma hundredth_closed: "hundredth x \<Longrightarrow> hundredth y \<Longrightarrow> hundredth (x + y)" "hundredth x \<Longrightarrow> hundredth y \<Longrightarrow> hundredth (x - y)"
  by (simp_all add: hundredth_def distrib_right left_diff_distrib)

lemma hundredth_sum_list: "(\<And>x. x \<in> set xs \<Longrightarrow> hundredth x) \<Longrightarrow> hundredth (sum_list xs)"
  by (induction xs) (simp_all add: hundredth_closed)

lemma hundredth_decimal_column [simp]: "hundredth (decimal_column x)"
  by (simp add: decimal_column_def)

lemma decimal_column_mono: "x \<le> y \<Longrightarrow> decimal_column x \<le> decimal_column y"
  unfolding decimal_column_def by (intro divide_right_mono) (simp_all add: floor_mono)

lemma decimal_column_0 [simp]: "decimal_column 0 = 0"
  using floor_unique [of 0 "1 / 2 :: rat"] by (simp add: decimal_column_def)

lemma decimal_column_nonneg: "0 \<le> x \<Longrightarrow> 0 \<le> decimal_column x"
  using decimal_column_mono [of 0 x] by simp

lemma decimal_column_near:
  assumes "hundredth x" "x - 1 / 256 \<le> y" "y \<le> x + 1 / 256"
  shows "decimal_column y = x"
  using assms(1)
proof (rule hundredthE)
  fix n
  assume n: "x = of_int n / 100"
  then have "\<lfloor>y * 100 + 1 / 2\<rfloor> = n" using assms(2,3) by (intro floor_unique) (simp_all add: n field_simps)
  then show ?thesis by (simp add: decimal_column_def n)
qed

lemma decimal_column_hundredth [simp]: "hundredth x \<Longrightarrow> decimal_column x = x"
  by (rule decimal_column_near) simp_all

lemma two_powi_10: "(2 :: rat) powi (- 10) = 1 / 1024"
  by (simp add: power_int_minus)

lemma fl_near:
  assumes "0 \<le> x" "x \<le> 2 ^ 40"
  shows "x - 1 / 1024 \<le> fl x" "fl x \<le> x + 1 / 1024"
proof -
  define n where "n = \<lfloor>x * 1024\<rfloor>"
  have n: "of_int n \<le> x * 1024" "x * 1024 < of_int n + 1" using floor_correct [of "x * 1024"] by (simp_all add: n_def)
  have "(of_int n :: rat) \<le> of_int (2 ^ 50)" using n(1) assms(2) by simp
  then have "n \<le> 2 ^ 50" by (simp only: of_int_le_iff)
  moreover have "0 \<le> n" using assms(1) by (simp add: n_def)
  ultimately have "\<bar>n\<bar> \<le> 2 ^ 53" "\<bar>n + 1\<bar> \<le> 2 ^ 53" by simp_all
  from this [THEN fl_scaled_int, of "- 10"]
  have e: "fl (of_int n / 1024) = of_int n / 1024" "fl (of_int (n + 1) / 1024) = of_int (n + 1) / 1024"
    unfolding two_powi_10 times_divide_eq_right mult_1_right .
  have "fl (of_int n / 1024) \<le> fl x" "fl x \<le> fl (of_int (n + 1) / 1024)" using n by (auto intro!: fl_mono simp: field_simps)
  then show "x - 1 / 1024 \<le> fl x" "fl x \<le> x + 1 / 1024" unfolding e using n by simp_all
qed

lemma decimal_column_fl:
  assumes "hundredth x" "0 \<le> x" "x \<le> 2 ^ 40"
  shows "decimal_column (fl x) = x"
  using fl_near [OF assms(2,3)] by (intro decimal_column_near assms(1)) simp_all

section \<open>The budget of weights\<close>

lemma weight_limit: "js_add 100 NUMBER_EPSILON < fl (100 + 1 / 512)"
proof -
  have "js_add 100 NUMBER_EPSILON \<le> fl (of_int 102401 * 2 powi (- 10))"
    unfolding js_add_def by (intro fl_mono) (simp add: NUMBER_EPSILON_def power_int_minus)
  also have "\<dots> < fl (of_int 102402 * 2 powi (- 10))" by (subst (1 2) fl_scaled_int) (simp_all add: power_int_minus)
  also have "\<dots> = fl (100 + 1 / 512)" by (simp add: power_int_minus)
  finally show ?thesis .
qed

lemma budget_check:
  assumes "assertWeightBudget (fl S) w = Inr ()" "hundredth S" "0 \<le> S" "S \<le> 2 ^ 40"
  shows "S + decimal_column w \<le> 100"
proof -
  have "fl (fl S + w) \<le> js_add 100 NUMBER_EPSILON"
    using assms(1) by (auto simp: assertWeightBudget_def js_add_def Let_def split: if_splits)
  then have "\<not> 100 + 1 / 512 \<le> fl S + w" using weight_limit fl_mono [of "100 + 1 / 512" "fl S + w"] by linarith
  then have "w \<le> (100 - S) + 1 / 256" using fl_near [OF assms(3,4)] by simp
  then have "decimal_column w \<le> decimal_column ((100 - S) + 1 / 256)" by (rule decimal_column_mono)
  also have "\<dots> = 100 - S" by (rule decimal_column_near) (simp_all add: hundredth_closed assms(2))
  finally show ?thesis by simp
qed

section \<open>The invariants\<close>

definition budget_total :: "string \<Rightarrow> string \<Rightarrow> string \<Rightarrow> string \<Rightarrow> GradeScopeType \<Rightarrow> string \<Rightarrow> GradeDb \<Rightarrow> rat" where
  "budget_total school academicYearId termId subjectId scopeType scopeKey db =
     sum_list (map as_weight (filter (same_budget school academicYearId termId subjectId scopeType scopeKey) (gdb_assessments db)))"

definition mark_sound :: "GradeAssessment \<Rightarrow> GradeItem \<Rightarrow> bool" where
  "mark_sound a i \<longleftrightarrow>
     (if it_status i = Item_ENTERED then \<exists>x. it_score i = Some x \<and> 0 \<le> x \<and> x \<le> ga_maxScore a else it_score i = None)"

definition row_sound :: "GradeAssessment \<Rightarrow> bool" where
  "row_sound a \<longleftrightarrow> hundredth (as_weight a) \<and> 0 \<le> as_weight a \<and> as_weight a \<le> 100 \<and>
     hundredth (ga_maxScore a) \<and> 0 \<le> ga_maxScore a \<and> ga_maxScore a < 100000"

definition item_sound :: "GradeDb \<Rightarrow> GradeItem \<Rightarrow> bool" where
  "item_sound db i \<longleftrightarrow> (\<exists>a \<in> set (gdb_assessments db). as_id a = it_assessmentId i \<and> as_schoolId a = it_schoolId i \<and> mark_sound a i)"

definition grades_sound :: "GradeDb \<Rightarrow> bool" where
  "grades_sound db \<longleftrightarrow>
     distinct (map as_id (gdb_assessments db)) \<and> (\<forall>a \<in> set (gdb_assessments db). row_sound a) \<and>
     (\<forall>school y t s ty k. budget_total school y t s ty k db \<le> 100) \<and> (\<forall>i \<in> set (gdb_items db). item_sound db i)"

lemma grades_soundD:
  assumes "grades_sound db"
  shows "distinct (map as_id (gdb_assessments db))" "a \<in> set (gdb_assessments db) \<Longrightarrow> row_sound a"
    "budget_total school y t s ty k db \<le> 100" "i \<in> set (gdb_items db) \<Longrightarrow> item_sound db i"
  using assms by (auto simp: grades_sound_def)

lemma assessment_id_unique:
  "grades_sound db \<Longrightarrow> a \<in> set (gdb_assessments db) \<Longrightarrow> b \<in> set (gdb_assessments db) \<Longrightarrow> as_id a = as_id b \<Longrightarrow> a = b"
  using inj_onD [of as_id "set (gdb_assessments db)"] by (auto simp: grades_sound_def distinct_map)

text \<open>The rows of a budget, without one of them.\<close>

definition rest_total :: "(GradeAssessment \<Rightarrow> bool) \<Rightarrow> string \<Rightarrow> GradeAssessment list \<Rightarrow> rat" where
  "rest_total p i rows = sum_list (map as_weight (filter (\<lambda>a. p a \<and> as_id a \<noteq> i) rows))"

lemma sum_weights_mono:
  assumes "\<forall>a \<in> set rows. 0 \<le> as_weight a" "\<And>a. p a \<Longrightarrow> q a"
  shows "sum_list (map as_weight (filter p rows)) \<le> sum_list (map as_weight (filter q rows))"
  using assms(1) by (induction rows) (auto simp: assms(2) intro: add_nonneg_nonneg)

lemma split_total:
  assumes "distinct (map as_id rows)" "e \<in> set rows"
  shows "sum_list (map as_weight (filter p rows)) = rest_total p (as_id e) rows + (if p e then as_weight e else 0)"
  using assms
proof (induction rows)
  case (Cons r rows)
  show ?case
  proof (cases "r = e")
    case True
    then have "as_id a \<noteq> as_id e" if "a \<in> set rows" for a
      using Cons.prems(1) imageI [OF that, of as_id] by auto
    then have "filter (\<lambda>a. p a \<and> as_id a \<noteq> as_id e) rows = filter p rows" by (intro filter_cong) auto
    then show ?thesis using True by (simp add: rest_total_def)
  next
    case False
    then have "e \<in> set rows" "as_id r \<noteq> as_id e" using Cons.prems by auto
    then show ?thesis using Cons by (simp add: rest_total_def)
  qed
qed simp

lemma rest_total_update:
  assumes "\<And>a. as_id (f a) = as_id a"
  shows "rest_total p i (map (\<lambda>a. if as_id a = i \<and> q a then f a else a) rows) = rest_total p i rows"
  using assms by (induction rows) (auto simp: rest_total_def)

section \<open>Writing rows\<close>

definition keeps_key :: "assessment_update \<Rightarrow> bool" where
  "keeps_key f \<longleftrightarrow> (\<forall>a. as_id (f a) = as_id a \<and> as_schoolId (f a) = as_schoolId a)"

definition no_items :: "GradeDb \<Rightarrow> GradeAssessment \<Rightarrow> bool" where
  "no_items db e \<longleftrightarrow> (\<forall>i \<in> set (gdb_items db). \<not> (it_assessmentId i = as_id e \<and> it_schoolId i = as_schoolId e))"

text \<open>Replacing one row by a sound one, whose weight fits its budget, and whose maximum stays when it has marks.\<close>

lemma replace_sound:
  assumes sound: "grades_sound db" and e: "e \<in> set (gdb_assessments db)" "q e" and f: "keeps_key f"
    and new: "row_sound (f e)" "ga_maxScore (f e) = ga_maxScore e \<or> no_items db e"
    and budget: "\<And>school y t s ty k. same_budget school y t s ty k (f e) \<Longrightarrow>
      rest_total (same_budget school y t s ty k) (as_id e) (gdb_assessments db) + as_weight (f e) \<le> 100"
    and db': "gdb_assessments db' = map (\<lambda>a. if as_id a = as_id e \<and> q a then f a else a) (gdb_assessments db)"
      "gdb_items db' = gdb_items db"
  shows "grades_sound db'"
proof -
  let ?g = "\<lambda>a. if as_id a = as_id e \<and> q a then f a else a"
  have key: "as_id (?g a) = as_id a" "as_schoolId (?g a) = as_schoolId a" for a using f by (auto simp: keeps_key_def)
  have same: "?g a = (if a = e then f e else a)" if "a \<in> set (gdb_assessments db)" for a
    using assessment_id_unique [OF sound that e(1)] e(2) by auto
  have ids: "distinct (map as_id (gdb_assessments db'))"
    using grades_soundD(1) [OF sound] unfolding db'(1) map_map o_def key .
  have rows: "row_sound a" if "a \<in> set (gdb_assessments db')" for a
  proof -
    from that have "a \<in> ?g ` set (gdb_assessments db)" unfolding db'(1) set_map .
    then obtain b where b: "b \<in> set (gdb_assessments db)" "a = ?g b" by (rule imageE)
    then show ?thesis using grades_soundD(2) [OF sound b(1)] new(1) same [OF b(1)] by (cases "b = e") simp_all
  qed
  have fe: "f e \<in> set (gdb_assessments db')" using e by (force simp: db')
  have fid: "as_id (f e) = as_id e" using f by (simp add: keeps_key_def)
  have "budget_total school y t s ty k db' \<le> 100" for school y t s ty k
  proof -
    let ?p = "same_budget school y t s ty k"
    have rest: "rest_total ?p (as_id e) (gdb_assessments db') = rest_total ?p (as_id e) (gdb_assessments db)"
      unfolding db' using f by (intro rest_total_update) (simp add: keeps_key_def)
    have "rest_total ?p (as_id e) (gdb_assessments db) \<le> budget_total school y t s ty k db"
      unfolding rest_total_def budget_total_def using grades_soundD(2) [OF sound]
      by (intro sum_weights_mono) (auto simp: row_sound_def)
    also have "\<dots> \<le> 100" by (rule grades_soundD(3) [OF sound])
    finally show ?thesis
      using split_total [OF ids fe, of ?p] budget [of school y t s ty k] fid rest by (simp add: budget_total_def)
  qed
  moreover have "item_sound db' i" if i: "i \<in> set (gdb_items db')" for i
  proof -
    obtain a where a: "a \<in> set (gdb_assessments db)" "as_id a = it_assessmentId i" "as_schoolId a = it_schoolId i" "mark_sound a i"
      using grades_soundD(4) [OF sound] i by (auto simp: db' item_sound_def)
    have "a = e \<Longrightarrow> ga_maxScore (f e) = ga_maxScore e" using new(2) i a(2,3) by (auto simp: no_items_def db'(2))
    then have "mark_sound (?g a) i" using same [OF a(1)] a(4) by (cases "a = e") (simp_all add: mark_sound_def)
    moreover have "?g a \<in> set (gdb_assessments db')" using a(1) unfolding db'(1) set_map by (rule imageI)
    moreover have "as_id (?g a) = it_assessmentId i" "as_schoolId (?g a) = it_schoolId i" using key [of a] a(2,3) by metis+
    ultimately show ?thesis unfolding item_sound_def by blast
  qed
  ultimately show ?thesis using ids rows by (auto simp: grades_sound_def)
qed

text \<open>A write that keeps the group, the weight and the maximum of a live row, or deletes it.\<close>

lemma same_row_sound:
  assumes sound: "grades_sound db" and e: "e \<in> set (gdb_assessments db)" "q e" "as_deletedAt e = None" and f: "keeps_key f"
    and same: "as_weight (f e) = as_weight e" "ga_maxScore (f e) = ga_maxScore e"
      "\<And>school y t s ty k. same_budget school y t s ty k (f e) \<Longrightarrow> same_budget school y t s ty k e"
    and db': "gdb_assessments db' = map (\<lambda>a. if as_id a = as_id e \<and> q a then f a else a) (gdb_assessments db)"
      "gdb_items db' = gdb_items db"
  shows "grades_sound db'"
proof (rule replace_sound [OF sound e(1,2) f _ _ _ db'])
  show "row_sound (f e)" using grades_soundD(2) [OF sound e(1)] same by (simp add: row_sound_def)
  fix school y t s ty k
  assume "same_budget school y t s ty k (f e)"
  then have "same_budget school y t s ty k e" by (rule same)
  then show "rest_total (same_budget school y t s ty k) (as_id e) (gdb_assessments db) + as_weight (f e) \<le> 100"
    using split_total [OF grades_soundD(1) [OF sound] e(1), of "same_budget school y t s ty k"]
      grades_soundD(3) [OF sound, of school y t s ty k] same by (simp add: budget_total_def)
qed (use same in simp)

lemma append_sound:
  assumes sound: "grades_sound db" and row: "row_sound r" "as_id r \<notin> as_id ` set (gdb_assessments db)"
    and budget: "\<And>school y t s ty k. same_budget school y t s ty k r \<Longrightarrow> budget_total school y t s ty k db + as_weight r \<le> 100"
    and db': "gdb_assessments db' = gdb_assessments db @ [r]" "gdb_items db' = gdb_items db"
  shows "grades_sound db'"
proof -
  have "budget_total school y t s ty k db' \<le> 100" for school y t s ty k
    using budget [of school y t s ty k] grades_soundD(3) [OF sound, of school y t s ty k]
    by (auto simp: budget_total_def db')
  moreover have "item_sound db' i" if "i \<in> set (gdb_items db')" for i
    using grades_soundD(4) [OF sound] that by (auto simp: item_sound_def db')
  ultimately show ?thesis using grades_soundD(1,2) [OF sound] row by (auto simp: grades_sound_def db')
qed

end
