(* ===== verification/Grade_Preservation.thy ===== *)
theory Grade_Preservation
  imports Grade_Invariants
begin

text \<open>
  Requests keep the invariants of the grade tables: what a request carries once it has passed its checks, and
  that its write keeps \<open>grades_sound\<close> when it runs on the tables it was checked on.
\<close>

section \<open>What a checked request carries\<close>

definition found_row :: "GradeDb \<Rightarrow> GradesScope \<Rightarrow> GradeAssessment \<Rightarrow> bool" where
  "found_row db scope e \<longleftrightarrow> e \<in> set (gdb_assessments db) \<and> as_schoolId e = gsc_schoolId scope \<and> as_deletedAt e = None"

definition in_budget :: "GradeDb \<Rightarrow> GradesScope \<Rightarrow> GradeAssessment \<Rightarrow> rat \<Rightarrow> string option \<Rightarrow> bool" where
  "in_budget db scope a w excluded \<longleftrightarrow>
     assertWeightBudget (sumAssessmentWeights scope (as_academicYearId a) (as_termId a) (as_subjectId a)
       (gs_scopeType (as_scope a)) (gs_scopeKey (as_scope a)) excluded db) w = Inr ()"

definition payload_sound :: "GradeDb \<Rightarrow> GradeItemUpsertPayload \<Rightarrow> bool" where
  "payload_sound db p \<longleftrightarrow>
     (\<exists>a \<in> set (gdb_assessments db). as_id a = gu_assessmentId p \<and> as_schoolId a = gu_schoolId p \<and>
        (if gp_status p = Item_ENTERED then \<exists>x. gp_score p = Some x \<and> 0 \<le> x \<and> x \<le> fl (ga_maxScore a) else gp_score p = None))"

definition same_group :: "GradeAssessment \<Rightarrow> GradeAssessment \<Rightarrow> bool" where
  "same_group a b \<longleftrightarrow> as_subjectId a = as_subjectId b \<and> as_scope a = as_scope b"

text \<open>The part of a row that no update of the draft touches.\<close>

definition fixed_part where
  "fixed_part a = (as_id a, as_schoolId a, as_academicYearId a, as_termId a, as_deletedAt a)"

fun grade_checked :: "GradeDb \<Rightarrow> grade_pending \<Rightarrow> bool" where
  "grade_checked db (GCreate scope data) \<longleftrightarrow>
     as_schoolId data = gsc_schoolId scope \<and> 0 < as_weight data \<and> as_weight data \<le> 100 \<and> 0 < ga_maxScore data \<and>
     in_budget db scope data (as_weight data) None"
| "grade_checked db (GUpdate scope e data) \<longleftrightarrow>
     found_row db scope e \<and> (\<forall>a. fixed_part (apply_data data a) = fixed_part a) \<and>
     (\<exists>w. (as_weight (apply_data data e) = as_weight e \<and> w = fl (as_weight e) \<or>
           as_weight (apply_data data e) = decimal_column w \<and> 0 < w \<and> w \<le> 100) \<and>
          (in_budget db scope (apply_data data e) w (Some (as_id e)) \<or> same_group (apply_data data e) e \<and> w = fl (as_weight e))) \<and>
     (\<exists>m. (ga_maxScore (apply_data data e) = ga_maxScore e \<or> ga_maxScore (apply_data data e) = decimal_column m \<and> 0 < m) \<and>
          (no_items db e \<or> m = fl (ga_maxScore e)))"
| "grade_checked db (GDelete scope now e) \<longleftrightarrow> found_row db scope e"
| "grade_checked db (GPublish scope now e) \<longleftrightarrow> found_row db scope e"
| "grade_checked db (GApprove scope now e) \<longleftrightarrow> found_row db scope e"
| "grade_checked db (GLock scope now e) \<longleftrightarrow> found_row db scope e"
| "grade_checked db (GMark scope before payload) \<longleftrightarrow> payload_sound db payload"
| "grade_checked db (GMarks scope a payloads enrollments) \<longleftrightarrow> (\<forall>p \<in> set payloads. payload_sound db p)"
| "grade_checked db (GUpsertRule scope earlier data) \<longleftrightarrow> True"
| "grade_checked db (GUpdateRule scope existing data) \<longleftrightarrow> True"

lemma found_assessment:
  assumes "found_by_id m f i (findAssessmentById scope i db) = Inr e"
  shows "found_row db scope e" "as_id e = i"
  using assms by (auto simp: found_by_id_def findAssessmentById_def visible_assessment_def found_row_def
      split: option.splits dest!: findFirst_SomeD)

lemma require_assessment_found:
  assumes "require_assessment ctx i db = Inr (scope, e)"
  shows "found_row db scope e" "as_id e = i"
  using assms found_assessment by (auto simp: require_assessment_def andThen_eq_Inr)

lemma validated_number:
  "validateAssessmentWeight v = Inr w \<Longrightarrow> 0 < w \<and> w \<le> 100"
  "validateAssessmentMaxScore v = Inr w \<Longrightarrow> 0 < w"
  by (auto simp: validateAssessmentWeight_def validateAssessmentMaxScore_def Let_def split: option.splits if_splits)

lemma assessment_create_checked:
  assumes "CreateGradeAssessmentUseCase_prepare parse questionBased ctx command db = Inr (scope, data)"
  shows "grade_checked db (GCreate scope data)"
  using assms unfolding CreateGradeAssessmentUseCase_prepare_def andThen_eq_Inr buildCreateAssessmentData_def
  by (elim exE conjE) (auto simp: in_budget_def assertAssessmentWeightBudget_def dest!: validated_number)

lemma workflow_checked:
  "DeleteGradeAssessmentUseCase_prepare ctx i db = Inr (scope, e) \<Longrightarrow> found_row db scope e"
  "PublishGradeAssessmentUseCase_prepare ready ctx i db = Inr (scope, e) \<Longrightarrow> found_row db scope e"
  "ApproveGradeAssessmentUseCase_prepare ctx i db = Inr (scope, e) \<Longrightarrow> found_row db scope e"
  "LockGradeAssessmentUseCase_prepare ctx i db = Inr (scope, e) \<Longrightarrow> found_row db scope e"
  unfolding DeleteGradeAssessmentUseCase_prepare_def PublishGradeAssessmentUseCase_prepare_def
    ApproveGradeAssessmentUseCase_prepare_def LockGradeAssessmentUseCase_prepare_def andThen_eq_Inr
  by (auto split: prod.splits if_splits simp: andThen_eq_Inr Let_def dest: require_assessment_found(1))

text \<open>The effect of the data of an update.\<close>

lemma update_effect:
  assumes "buildUpdateAssessmentData parse command target = Inr data"
  shows "as_subjectId (apply_data data a) = nullish_or (ua_subjectId command) (as_subjectId a)"
    "as_scope (apply_data data a) = given target (as_scope a)"
    "if ua_weight command = UndefinedValue then as_weight (apply_data data a) = as_weight a
     else \<exists>w. validateAssessmentWeight (ua_weight command) = Inr w \<and> as_weight (apply_data data a) = decimal_column w"
    "if ua_maxScore command = UndefinedValue then ga_maxScore (apply_data data a) = ga_maxScore a
     else \<exists>m. validateAssessmentMaxScore (ua_maxScore command) = Inr m \<and> ga_maxScore (apply_data data a) = decimal_column m"
proof -
  have fields: "pd_subjectId data = ua_subjectId command" "pd_scope data = target"
    "when_defined (ua_weight command) (validateAssessmentWeight (ua_weight command)) = Inr (pd_weight data)"
    "when_defined (ua_maxScore command) (validateAssessmentMaxScore (ua_maxScore command)) = Inr (pd_maxScore data)"
    using assms unfolding buildUpdateAssessmentData_def andThen_eq_Inr by auto
  show "as_subjectId (apply_data data a) = nullish_or (ua_subjectId command) (as_subjectId a)"
    "as_scope (apply_data data a) = given target (as_scope a)" using fields by (simp_all add: apply_data_def)
  show "if ua_weight command = UndefinedValue then as_weight (apply_data data a) = as_weight a
     else \<exists>w. validateAssessmentWeight (ua_weight command) = Inr w \<and> as_weight (apply_data data a) = decimal_column w"
    using fields(3) by (cases "validateAssessmentWeight (ua_weight command)")
      (auto simp: when_defined_def apply_data_def given_def dest: sym split: if_splits)
  show "if ua_maxScore command = UndefinedValue then ga_maxScore (apply_data data a) = ga_maxScore a
     else \<exists>m. validateAssessmentMaxScore (ua_maxScore command) = Inr m \<and> ga_maxScore (apply_data data a) = decimal_column m"
    using fields(4) by (cases "validateAssessmentMaxScore (ua_maxScore command)")
      (auto simp: when_defined_def apply_data_def given_def dest: sym split: if_splits)
qed

lemma apply_data_fixed: "fixed_part (apply_data data a) = fixed_part a"
  by (simp add: fixed_part_def apply_data_def)

lemma no_items_count: "found_row db scope e \<Longrightarrow> countGradeItemsForAssessment scope (as_id e) db = 0 \<Longrightarrow> no_items db e"
  by (auto simp: countGradeItemsForAssessment_def no_items_def found_row_def filter_empty_conv)

lemma assessment_update_checked:
  assumes "UpdateGradeAssessmentUseCase_prepare parse ctx i command db = Inr (scope, e, data)"
  shows "grade_checked db (GUpdate scope e data)"
proof -
  let ?new = "apply_data data e"
  obtain nextScope w m where e: "found_row db scope e"
    and w: "if ua_weight command = UndefinedValue then w = fl (as_weight e) else validateAssessmentWeight (ua_weight command) = Inr w"
    and m: "if ua_maxScore command = UndefinedValue then m = fl (ga_maxScore e) else validateAssessmentMaxScore (ua_maxScore command) = Inr m"
    and protected: "assertProtectedChangesAllowed (countGradeItemsForAssessment scope (as_id e) db)
        (detectProtectedAssessmentChanges e (nullish_or (ua_subjectId command) (as_subjectId e)) nextScope m) = Inr ()"
    and budget: "shouldValidateWeightBudget e (nullish_or (ua_subjectId command) (as_subjectId e)) nextScope w \<longrightarrow>
        assertAssessmentWeightBudget scope (as_academicYearId e) (as_termId e) (nullish_or (ua_subjectId command) (as_subjectId e))
          nextScope w (Some (as_id e)) db = Inr ()"
    and scope: "hasScopePatch command \<or> nextScope = as_scope e"
    and data: "buildUpdateAssessmentData parse command (if hasScopePatch command then Some nextScope else None) = Inr data"
    using assms unfolding UpdateGradeAssessmentUseCase_prepare_def andThen_eq_Inr Let_def
    by (elim exE conjE) (auto dest: found_assessment simp: deref_def existingAssessmentScope_def split: option.splits if_splits)
  have new: "as_subjectId ?new = nullish_or (ua_subjectId command) (as_subjectId e)" "as_scope ?new = nextScope"
    using update_effect(1,2) [OF data, of e] scope by (auto simp: given_def)
  have keep: "as_academicYearId ?new = as_academicYearId e" "as_termId ?new = as_termId e"
    using apply_data_fixed [of data e] by (simp_all add: fixed_part_def)
  have "in_budget db scope ?new w (Some (as_id e)) \<or> same_group ?new e \<and> w = fl (as_weight e)"
    using budget new keep by (auto simp: in_budget_def same_group_def shouldValidateWeightBudget_def
        assertAssessmentWeightBudget_def areScopesEqual_def existingAssessmentScope_def)
  moreover have "as_weight ?new = as_weight e \<and> w = fl (as_weight e) \<or> as_weight ?new = decimal_column w \<and> 0 < w \<and> w \<le> 100"
    using update_effect(3) [OF data, of e] w validated_number(1) by (auto split: if_splits)
  moreover have "ga_maxScore ?new = ga_maxScore e \<or> ga_maxScore ?new = decimal_column m \<and> 0 < m"
    using update_effect(4) [OF data, of e] m validated_number(2) by (auto split: if_splits)
  moreover have "no_items db e \<or> m = fl (ga_maxScore e)"
    using protected no_items_count [OF e] by (auto simp: assertProtectedChangesAllowed_def
        assertNoGradeItemsForProtectedAssessmentChange_def detectProtectedAssessmentChanges_def split: if_splits)
  ultimately show ?thesis using e apply_data_fixed by auto
qed

lemma items_assessment_found:
  assumes "require_assessment_for_items ctx i db = Inr (scope, a)"
  shows "found_row db scope a" "as_id a = i"
  using assms require_assessment_found unfolding require_assessment_for_items_def andThen_eq_Inr
  by (auto simp: andThen_eq_Inr)

lemma item_payload_sound:
  assumes "item_payload scope now a studentId enrollment n = Inr p" "found_row db scope a"
    and "\<And>q. n = Inr q \<Longrightarrow>
      (if gp_status q = Item_ENTERED then \<exists>x. gp_score q = Some x \<and> 0 \<le> x \<and> x \<le> fl (ga_maxScore a) else gp_score q = None)"
  shows "payload_sound db p" "gu_assessmentId p = as_id a" "gu_studentId p = studentId"
  using assms by (auto simp: item_payload_def andThen_eq_Inr buildGradeItemUpsertPayload_def payload_sound_def found_row_def
      split: option.splits)

lemma mark_checked:
  assumes "UpsertGradeAssessmentItemUseCase_prepare ctx now i studentId command db = Inr (scope, before, p)"
  shows "payload_sound db p"
  using assms unfolding UpsertGradeAssessmentItemUseCase_prepare_def andThen_eq_Inr
  by (auto simp: andThen_eq_Inr dest!: items_assessment_found(1) intro: item_payload_sound(1) accepted_mark)

lemma mapR_source: "mapR f xs = Inr ys \<Longrightarrow> y \<in> set ys \<Longrightarrow> \<exists>x \<in> set xs. f x = Inr y"
  unfolding mapR_Inr_iff list_all2_conv_all_nth in_set_conv_nth by fastforce

lemma marks_checked:
  assumes "BulkUpsertGradeAssessmentItemsUseCase_prepare ctx now i commands db = Inr (scope, a, payloads, enrollments)"
    and p: "p \<in> set payloads"
  shows "payload_sound db p"
proof -
  obtain ps where a: "found_row db scope a"
    and ps: "validateBulkGradeItemPayload commands (DecimalValue (ga_maxScore a)) = Inr ps"
    and out: "mapR (\<lambda>(studentId, q). item_payload scope now a studentId (enrollment_of enrollments studentId) (Inr q)) ps = Inr payloads"
    using assms(1) unfolding BulkUpsertGradeAssessmentItemsUseCase_prepare_def andThen_eq_Inr Let_def
    by (auto simp: andThen_eq_Inr dest!: items_assessment_found(1) split: if_splits)
  from mapR_source [OF out p] obtain studentId q where q: "(studentId, q) \<in> set ps"
    and pay: "item_payload scope now a studentId (enrollment_of enrollments studentId) (Inr q) = Inr p"
    by auto
  from ps have "mapR (\<lambda>item. if \<not> truthy (ge_studentId item)
       then Inl (ValidationDomainException ''Student id is required'' [(''field'', DStr ''studentId'')])
       else andThen (normalizeGradeItemEntryPayload item (DecimalValue (ga_maxScore a))) (\<lambda>p. Inr (the (ge_studentId item), p)))
     commands = Inr ps" by (simp add: validateBulkGradeItemPayload_def andThen_eq_Inr)
  from mapR_source [OF this q] obtain command where "normalizeGradeItemEntryPayload command (DecimalValue (ga_maxScore a)) = Inr q"
    by (auto simp: andThen_eq_Inr split: if_splits)
  from accepted_mark [OF this] show ?thesis by (intro item_payload_sound(1) [OF pay a]) auto
qed

lemma grade_start_checked: "grade_start parse ready db p \<Longrightarrow> grade_checked db p"
proof -
  assume "grade_start parse ready db p"
  then obtain ctx now req where "grade_prepare parse ready ctx now req db = Inr p" by (auto simp: grade_start_def)
  then show ?thesis
    by (cases req) (auto simp: andThen_eq_Inr simp del: grade_checked.simps(1,2) dest: assessment_create_checked assessment_update_checked
        workflow_checked mark_checked marks_checked split: prod.splits)
qed

section \<open>Every write keeps the invariants\<close>

lemma sound_cong:
  "gdb_assessments db' = gdb_assessments db \<Longrightarrow> gdb_items db' = gdb_items db \<Longrightarrow> grades_sound db' \<longleftrightarrow> grades_sound db"
  by (simp add: grades_sound_def budget_total_def item_sound_def)

lemma sound_audit [simp]: "grades_sound (createGradeAuditLog entry db) \<longleftrightarrow> grades_sound db"
  by (rule sound_cong) (simp_all add: createGradeAuditLog_def)

lemma grade_audited_Inr: "grade_audited scope action before r = Inr db' \<Longrightarrow> \<exists>a db1 entry. r = Inr (a, db1) \<and> db' = createGradeAuditLog entry db1"
  by (auto simp: grade_audited_def andThen_eq_Inr)

lemma rest_total_bounds:
  assumes "grades_sound db"
  shows "0 \<le> rest_total p i (gdb_assessments db)" "hundredth (rest_total p i (gdb_assessments db))"
  using grades_soundD(2) [OF assms] unfolding rest_total_def
  by (auto intro!: sum_list_nonneg hundredth_sum_list simp: row_sound_def)

lemma budget_total_bounds:
  assumes "grades_sound db"
  shows "0 \<le> budget_total school y t s ty k db" "hundredth (budget_total school y t s ty k db)"
  using grades_soundD(2) [OF assms] unfolding budget_total_def
  by (auto intro!: sum_list_nonneg hundredth_sum_list simp: row_sound_def)

lemma create_sound:
  assumes sound: "grades_sound db" and checked: "grade_checked db (GCreate scope data)"
    and run: "createAssessment newId scope data db = Inr (a, db')"
  shows "grades_sound db'"
proof -
  let ?row = "data\<lparr>as_id := newId, as_weight := decimal_column (as_weight data),
    ga_maxScore := decimal_column (ga_maxScore data), as_date := dateOnlyEpoch (as_date data)\<rparr>"
  have new: "newId \<notin> as_id ` set (gdb_assessments db)" "decimals_fit ?row" and db': "db' = db\<lparr>gdb_assessments := gdb_assessments db @ [?row]\<rparr>"
    using run by (auto simp: createAssessment_def Let_def andThen_eq_Inr split: if_splits)
  have w: "0 < as_weight data" "as_weight data \<le> 100" "0 < ga_maxScore data" and school: "as_schoolId data = gsc_schoolId scope"
    and b: "in_budget db scope data (as_weight data) None" using checked by simp_all
  show ?thesis
  proof (rule append_sound [OF sound, of ?row])
    show "row_sound ?row" using w new(2) decimal_column_mono [OF w(2)] decimal_column_nonneg [of "as_weight data"]
        decimal_column_nonneg [of "ga_maxScore data"] by (simp add: row_sound_def decimals_fit_def)
    fix school y t s ty k
    assume g: "same_budget school y t s ty k ?row"
    have "assertWeightBudget (fl (budget_total school y t s ty k db)) (as_weight data) = Inr ()"
      using b g \<open>as_schoolId data = gsc_schoolId scope\<close>
      by (simp add: in_budget_def sumAssessmentWeights_def budget_total_def same_budget_def cong: filter_cong)
    from budget_check [OF this] show "budget_total school y t s ty k db + as_weight ?row \<le> 100"
      using budget_total_bounds [OF sound] grades_soundD(3) [OF sound, of school y t s ty k] by simp
  qed (use new db' in simp_all)
qed

lemma rest_total_le_excluded:
  assumes "grades_sound db"
  shows "rest_total (same_budget (gsc_schoolId scope) y t s ty k) i (gdb_assessments db) \<le>
    sum_list (map as_weight (filter (\<lambda>a. same_budget (gsc_schoolId scope) y t s ty k a \<and>
      (if truthy (Some i) then Some (as_id a) \<noteq> Some i else True)) (gdb_assessments db)))"
  unfolding rest_total_def using grades_soundD(2) [OF assms] by (intro sum_weights_mono) (auto simp: row_sound_def)

lemma update_budget:
  assumes sound: "grades_sound db" and e: "found_row db scope e"
    and b: "in_budget db scope a w (Some (as_id e))" and g: "same_budget (gsc_schoolId scope) y t s ty k a"
  shows "rest_total (same_budget (gsc_schoolId scope) y t s ty k) (as_id e) (gdb_assessments db) + decimal_column w \<le> 100"
proof -
  let ?S = "sum_list (map as_weight (filter (\<lambda>a. same_budget (gsc_schoolId scope) y t s ty k a \<and>
      (if truthy (Some (as_id e)) then Some (as_id a) \<noteq> Some (as_id e) else True)) (gdb_assessments db)))"
  have rows: "row_sound x" if "x \<in> set (gdb_assessments db)" for x using grades_soundD(2) [OF sound that] .
  have "?S \<le> budget_total (gsc_schoolId scope) y t s ty k db"
    unfolding budget_total_def using rows by (intro sum_weights_mono) (auto simp: row_sound_def)
  then have S: "?S \<le> 100" using grades_soundD(3) [OF sound, of "gsc_schoolId scope" y t s ty k] by linarith
  have "0 \<le> ?S" "hundredth ?S" using rows by (auto intro!: sum_list_nonneg hundredth_sum_list simp: row_sound_def)
  moreover have "assertWeightBudget (fl ?S) w = Inr ()"
    using b g unfolding in_budget_def sumAssessmentWeights_def same_budget_def by auto
  ultimately have "?S + decimal_column w \<le> 100" using S by (intro budget_check) simp_all
  then show ?thesis using rest_total_le_excluded [OF sound, of scope y t s ty k "as_id e"] by linarith
qed

lemma update_sound:
  assumes sound: "grades_sound db" and checked: "grade_checked db (GUpdate scope e data)"
    and run: "updateAssessment scope (as_id e) valid (apply_data data) db = Inr (a, db')"
  shows "grades_sound db'"
proof -
  let ?f = "apply_data data" and ?q = "\<lambda>a. as_schoolId a = gsc_schoolId scope \<and> (False \<longrightarrow> as_deletedAt a = None)"
  have e: "found_row db scope e" using checked by simp
  then have row: "row_sound e" and eq: "e \<in> set (gdb_assessments db)" "?q e" using grades_soundD(2) [OF sound] by (auto simp: found_row_def)
  have keep: "keeps_key ?f" and fp: "fixed_part (?f e) = fixed_part e" using apply_data_fixed by (auto simp: keeps_key_def fixed_part_def)
  have db': "db' = write_assessment scope (as_id e) False ?f db" and fits: "\<not> overflows scope (as_id e) db'"
    using run by (auto simp: updateAssessment_def Let_def andThen_eq_Inr split: if_splits)
  have w0: "decimal_column (fl (as_weight e)) = as_weight e" and m0: "decimal_column (fl (ga_maxScore e)) = ga_maxScore e"
    using row by (simp_all add: decimal_column_fl row_sound_def)
  obtain w m where ws: "as_weight (?f e) = as_weight e \<and> w = fl (as_weight e) \<or>
      as_weight (?f e) = decimal_column w \<and> 0 < w \<and> w \<le> 100"
    and b: "in_budget db scope (?f e) w (Some (as_id e)) \<or> same_group (?f e) e \<and> w = fl (as_weight e)"
    and ms: "ga_maxScore (?f e) = ga_maxScore e \<or> ga_maxScore (?f e) = decimal_column m \<and> 0 < m"
    and items: "no_items db e \<or> m = fl (ga_maxScore e)"
    using checked unfolding grade_checked.simps by blast
  have w: "as_weight (?f e) = decimal_column w" "as_weight (?f e) \<le> 100" "0 \<le> as_weight (?f e)"
    using ws w0 row decimal_column_mono [of w 100] decimal_column_nonneg [of w] by (auto simp: row_sound_def)
  have m: "hundredth (ga_maxScore (?f e))" "0 \<le> ga_maxScore (?f e)" "ga_maxScore (?f e) = ga_maxScore e \<or> no_items db e"
    using ms items m0 row decimal_column_nonneg [of m] by (auto simp: row_sound_def)
  have "?f e \<in> set (gdb_assessments db')" using eq by (force simp: db' write_assessment_def updateMany_def)
  then have "decimals_fit (?f e)" using fits eq keep by (auto simp: overflows_def keeps_key_def)
  then have new: "row_sound (?f e)" using w m by (simp add: row_sound_def decimals_fit_def)
  show ?thesis
  proof (rule replace_sound [OF sound eq(1), of ?q ?f, OF eq(2) keep new m(3)])
    fix school y t s ty k
    assume g: "same_budget school y t s ty k (?f e)"
    then have school: "school = gsc_schoolId scope" using eq(2) keep by (auto simp: same_budget_def keeps_key_def)
    from b show "rest_total (same_budget school y t s ty k) (as_id e) (gdb_assessments db) + as_weight (?f e) \<le> 100"
    proof
      assume "in_budget db scope (?f e) w (Some (as_id e))"
      then show ?thesis using update_budget [OF sound e _ g [unfolded school]] w(1) school by simp
    next
      assume same: "same_group (?f e) e \<and> w = fl (as_weight e)"
      then have "same_budget school y t s ty k e" using g fp by (simp add: same_budget_def same_group_def fixed_part_def)
      then show ?thesis using split_total [OF grades_soundD(1) [OF sound] eq(1), of "same_budget school y t s ty k"]
          grades_soundD(3) [OF sound, of school y t s ty k] w(1) w0 same by (simp add: budget_total_def)
    qed
  qed (simp_all add: db' write_assessment_def updateMany_def)
qed

lemma workflow_sound:
  assumes sound: "grades_sound db" and e: "found_row db scope e" and f: "keeps_key f"
    and same: "as_weight (f e) = as_weight e" "ga_maxScore (f e) = ga_maxScore e"
      "\<And>school y t s ty k. same_budget school y t s ty k (f e) \<Longrightarrow> same_budget school y t s ty k e"
  shows "grades_sound (write_assessment scope (as_id e) onlyLive f db)"
  using e same_row_sound [OF sound, of e "\<lambda>a. as_schoolId a = gsc_schoolId scope \<and> (onlyLive \<longrightarrow> as_deletedAt a = None)" f
      "write_assessment scope (as_id e) onlyLive f db"] f same
  by (auto simp: found_row_def write_assessment_def updateMany_def)

lemma item_written_sound:
  assumes sound: "grades_sound db" and p: "payload_sound db p"
  shows "grades_sound (db\<lparr>gdb_items := upsert_item newId p (gdb_items db)\<rparr>)"
proof -
  obtain a where a: "a \<in> set (gdb_assessments db)" "as_id a = gu_assessmentId p" "as_schoolId a = gu_schoolId p"
    and score: "if gp_status p = Item_ENTERED then \<exists>x. gp_score p = Some x \<and> 0 \<le> x \<and> x \<le> fl (ga_maxScore a) else gp_score p = None"
    using p by (auto simp: payload_sound_def)
  have m: "decimal_column (fl (ga_maxScore a)) = ga_maxScore a"
    using grades_soundD(2) [OF sound a(1)] by (simp add: decimal_column_fl row_sound_def)
  have new: "item_sound db i" if "item_key i = payload_key p" "it_status i = gp_status p"
    "it_score i = map_option decimal_column (gp_score p)" for i
  proof -
    have "mark_sound a i" using score that m decimal_column_mono [of _ "fl (ga_maxScore a)"] decimal_column_nonneg
      by (auto simp: mark_sound_def split: if_splits)
    then show ?thesis using a that(1) by (auto simp: item_sound_def item_key_def payload_key_def)
  qed
  have "item_sound db (buildGradeItemUpdateInput p i)" if "item_key i = payload_key p" for i
    using that by (intro new) (simp_all add: buildGradeItemUpdateInput_def item_key_def)
  moreover have "item_sound db (buildGradeItemCreateInput newId p)"
    by (intro new) (simp_all add: buildGradeItemCreateInput_def item_key_def payload_key_def)
  ultimately have "item_sound db i" if "i \<in> set (upsert_item newId p (gdb_items db))" for i
    using that grades_soundD(4) [OF sound] by (auto simp: upsert_item_def split: if_splits)
  then show ?thesis using sound by (simp add: grades_sound_def budget_total_def item_sound_def)
qed

lemma items_written_sound:
  assumes "bulkUpsertGradeItems ps scope db = Inr db'" "grades_sound db" "\<forall>p \<in> snd ` set ps. payload_sound db p"
  shows "grades_sound db'"
  using assms
proof (induction ps scope db rule: bulkUpsertGradeItems.induct)
  case (2 newId input inputs scope db)
  let ?db = "db\<lparr>gdb_items := upsert_item newId input (gdb_items db)\<rparr>"
  have "bulkUpsertGradeItems inputs scope ?db = Inr db'" "upsertGradeItem newId scope input db = Inr ?db"
    using "2.prems"(1) by (auto simp: upsertGradeItem_def andThen_eq_Inr split: if_splits)
  moreover have "grades_sound ?db" using item_written_sound "2.prems" by simp
  moreover have "\<forall>p \<in> snd ` set inputs. payload_sound ?db p" using "2.prems"(3) by (auto simp: payload_sound_def)
  ultimately show ?case using "2.IH" by blast
qed simp

lemma advance_written: "advanceAssessment scope i f db = Inr (a, db') \<Longrightarrow> db' = write_assessment scope i True f db"
  by (auto simp: advanceAssessment_def Let_def andThen_eq_Inr)

lemma publish_written: "publishAssessment ready scope i f db = Inr (a, db') \<Longrightarrow> db' = write_assessment scope i True f db"
  by (auto simp: publishAssessment_def Let_def andThen_eq_Inr split: option.splits)

lemma delete_written:
  "softDeleteAssessment now scope i db = Inr (a, db') \<Longrightarrow> db' = write_assessment scope i False (\<lambda>a. a\<lparr>as_deletedAt := Some now\<rparr>) db"
  by (auto simp: softDeleteAssessment_def Let_def andThen_eq_Inr)

lemma keeps_key_data [simp]:
  "keeps_key (publish_data now scope)" "keeps_key (approve_data now scope)" "keeps_key (lock_data now scope)"
  "keeps_key (\<lambda>a. a\<lparr>as_deletedAt := d\<rparr>)"
  by (simp_all add: keeps_key_def publish_data_def approve_data_def lock_data_def)

lemma workflow_data_sound:
  assumes "grades_sound db" "found_row db scope e"
  shows "grades_sound (write_assessment scope (as_id e) True (publish_data now scope) db)"
    "grades_sound (write_assessment scope (as_id e) True (approve_data now scope) db)"
    "grades_sound (write_assessment scope (as_id e) True (lock_data now scope) db)"
    "grades_sound (write_assessment scope (as_id e) False (\<lambda>a. a\<lparr>as_deletedAt := Some now\<rparr>) db)"
  by (rule workflow_sound [OF assms];
      simp add: keeps_key_def publish_data_def approve_data_def lock_data_def same_budget_def)+

lemma rules_only:
  "updateRule scope i f db = Inr (r, db') \<Longrightarrow> gdb_assessments db' = gdb_assessments db \<and> gdb_items db' = gdb_items db"
  "createRule newId data db = Inr (r, db') \<Longrightarrow> gdb_assessments db' = gdb_assessments db \<and> gdb_items db' = gdb_items db"
  by (auto simp: updateRule_def createRule_def Let_def split: option.splits if_splits)

lemma commit_sound:
  assumes "grades_sound db" "grade_checked db p" "grade_commit ready newId p db = Inr db'"
  shows "grades_sound db'"
proof (cases p)
  case (GCreate scope data)
  then show ?thesis using assms create_sound by (auto dest!: grade_audited_Inr simp del: grade_checked.simps)
next
  case (GUpdate scope e data)
  then show ?thesis using assms update_sound by (auto dest!: grade_audited_Inr simp del: grade_checked.simps split: if_splits)
next
  case (GDelete scope now e)
  then show ?thesis using assms workflow_data_sound by (auto dest!: grade_audited_Inr delete_written)
next
  case (GPublish scope now e)
  then show ?thesis using assms workflow_data_sound by (auto dest!: grade_audited_Inr publish_written)
next
  case (GApprove scope now e)
  then show ?thesis using assms workflow_data_sound by (auto simp: approveAssessment_def dest!: grade_audited_Inr advance_written)
next
  case (GLock scope now e)
  then show ?thesis using assms workflow_data_sound by (auto simp: lockAssessment_def dest!: grade_audited_Inr advance_written)
next
  case (GMark scope before payload)
  then show ?thesis using assms item_written_sound
    by (auto simp: upsertGradeItem_def andThen_eq_Inr split: option.splits if_splits)
next
  case (GMarks scope a payloads enrollments)
  then show ?thesis using assms by (auto simp: andThen_eq_Inr dest!: items_written_sound dest: set_zip_rightD)
next
  case (GUpsertRule scope earlier data)
  then obtain r db1 entry where r: "upsertRule_write (newId 0) scope earlier data db = Inr (r, db1)" and db': "db' = createGradeAuditLog entry db1"
    using assms(3) by (auto split: sum.splits)
  have "gdb_assessments db1 = gdb_assessments db \<and> gdb_items db1 = gdb_items db"
    using r rules_only by (cases earlier) (auto simp: upsertRule_write_def)
  then show ?thesis using assms(1) sound_cong [of db1 db] db' by simp
next
  case (GUpdateRule scope existing data)
  then obtain r db1 entry where r: "updateRule scope (ru_id existing) data db = Inr (r, db1)" and db': "db' = createGradeAuditLog entry db1"
    using assms(3) by (auto simp: andThen_eq_Inr)
  then show ?thesis using assms(1) sound_cong [of db1 db] rules_only(1) by simp
qed

interpretation sound_grades: isolated_invariant "grade_start parse ready" "grade_finish ready'" grades_sound
proof
  fix db p db'
  assume "grades_sound db" "grade_start parse ready db p" "grade_finish ready' p db db'"
  then show "grades_sound db'"
    using commit_sound [of db p ready' _ db'] grade_start_checked [of parse ready db p] unfolding grade_finish_def
    by (auto split: sum.splits) (metis Inl_Inr_False obj_sumE)
qed

end
