(* ===== verification/Grade_Examples.thy ===== *)
theory Grade_Examples
  imports Grade_Preservation
begin

text \<open>
  A small school for the concrete instances of the properties: one draft and one approved assessment of the same
  subject, one enrolled student, and a school user who may publish.
\<close>

definition example_term :: GradeTermRow where
  "example_term = \<lparr>gt_id = ''t'', gt_isActive = Some True, gt_closedAt = None, gt_startDate = None, gt_endDate = None,
     gtr_schoolId = ''s'', gtr_academicYearId = ''y'', gtr_deletedAt = None\<rparr>"

definition example_room :: GradeClassroomRow where
  "example_room = \<lparr>cr_id = ''c'', cr_schoolId = ''s'', cr_sectionId = ''b'', cr_gradeId = ''g'', cr_stageId = ''e'',
     cr_sectionDeletedAt = None, cr_gradeDeletedAt = None, cr_deletedAt = None\<rparr>"

definition example_enrollment :: GradeEnrollmentRow where
  "example_enrollment = \<lparr>en_id = ''n'', en_schoolId = ''s'', en_studentId = ''x'', en_academicYearId = ''y'', en_termId = Some ''t'',
     en_classroom = example_room, en_status = ''ACTIVE'', en_enrolledAt = 0, en_createdAt = 0, en_endedAt = None, en_deletedAt = None,
     en_studentUserId = None, en_studentStatus = ''ACTIVE'', en_studentDeletedAt = None\<rparr>"

definition example_grant :: LiveGrantRow where
  "example_grant = \<lparr>lg_membershipId = ''m'', lg_userId = ''u'', lg_organizationId = ''o'', lg_roleId = ''r'',
     lg_permission = ''grades.assessments.publish'', lg_schoolId = ''s'', lg_schoolOrganizationId = ''o'',
     lg_membershipUserType = ''SCHOOL_USER'', lg_userUserType = ''SCHOOL_USER'', lg_membershipSchoolId = Some ''s'',
     lg_membershipStatus = ''ACTIVE'', lg_membershipEndedAt = None, lg_membershipDeletedAt = None, lg_userStatus = ''ACTIVE'',
     lg_userDeletedAt = None, lg_roleSchoolId = None, lg_roleDeletedAt = None, lg_schoolStatus = ''ACTIVE'', lg_schoolDeletedAt = None,
     lg_organizationStatus = ''ACTIVE'', lg_organizationDeletedAt = None\<rparr>"

definition example_scope :: NormalizedGradeScope where
  "example_scope = \<lparr>gs_scopeType = Scope_SCHOOL, gs_scopeKey = ''s'', gs_stageId = None, gs_gradeId = None, gs_sectionId = None,
     gs_classroomId = None\<rparr>"

definition example_assessment :: "string \<Rightarrow> GradeAssessmentApprovalStatus \<Rightarrow> rat \<Rightarrow> GradeAssessment" where
  "example_assessment i status w = \<lparr>ga_approvalStatus = status, ga_deliveryMode = Mode_SCORE_ONLY, ga_maxScore = 20, ga_lockedAt = None,
     as_id = i, as_schoolId = ''s'', as_academicYearId = ''y'', as_termId = ''t'', as_subjectId = ''k'', as_scope = example_scope,
     as_titleEn = None, as_titleAr = None, as_type = Type_QUIZ, as_date = 0, as_weight = w, as_expectedTimeMinutes = None,
     as_publishedAt = (if status = Approval_DRAFT then None else Some 1), as_publishedById = None,
     as_approvedAt = (if status = Approval_APPROVED then Some 2 else None), as_approvedById = None, as_lockedById = None,
     as_createdById = None, as_deletedAt = None\<rparr>"

definition example_grades :: GradeDb where
  "example_grades = \<lparr>gdb_years = [\<lparr>year_id = ''y'', year_schoolId = ''s'', year_deletedAt = None\<rparr>], gdb_terms = [example_term],
     gdb_subjects = [\<lparr>sj_id = ''k'', sj_schoolId = ''s'', sj_deletedAt = None\<rparr>], gdb_stages = [], gdb_grades = [], gdb_sections = [],
     gdb_classrooms = [example_room], gdb_students = [\<lparr>student_id = ''x'', student_schoolId = ''s'', student_deletedAt = None\<rparr>],
     gdb_enrollments = [example_enrollment], gdb_allocations = [], gdb_grants = [example_grant],
     gdb_assessments = [example_assessment ''d'' Approval_DRAFT 10, example_assessment ''a'' Approval_APPROVED 20],
     gdb_submissions = [], gdb_items = [], gdb_rules = [], gdb_audit = []\<rparr>"

definition example_caller :: GradesScope where
  "example_caller = \<lparr>gsc_actorId = ''u'', gsc_userType = ''SCHOOL_USER'', gsc_organizationId = ''o'', gsc_schoolId = ''s'',
     gsc_roleId = ''r'', gsc_membershipId = ''m''\<rparr>"

definition example_context :: "RequestContext option" where
  "example_context = Some \<lparr>rc_requestId = ''q'', rc_actor = Some \<lparr>actor_id = ''u'', actor_userType = ''SCHOOL_USER''\<rparr>,
     rc_activeMembership = Some \<lparr>am_membershipId = ''m'', am_schoolId = Some ''s'', am_organizationId = ''o'', am_roleId = ''r'',
       am_permissions = []\<rparr>,
     rc_bypass = \<lparr>bypassSchoolScope = False, includeSoftDeleted = False\<rparr>\<rparr>"

definition example_create :: CreateGradeAssessmentDto where
  "example_create = \<lparr>ca_academicYearId = Some ''y'', ca_yearId = None, ca_termId = ''t'', ca_subjectId = ''k'',
     ca_scope = \<lparr>sc_scopeType = Some (JStr ''school''), sc_scopeId = None, sc_stageId = None, sc_gradeId = None, sc_sectionId = None,
       sc_classroomId = None\<rparr>,
     ca_title = Some ''Quiz'', ca_titleEn = None, ca_titleAr = None, ca_type = ''quiz'', ca_deliveryMode = None, ca_date = [],
     ca_weight = NumberValue (Some 60), ca_maxScore = NumberValue (Some 20), ca_expectedTimeMinutes = None\<rparr>"

definition example_new :: GradeAssessment where
  "example_new = (example_assessment [] Approval_DRAFT 60)\<lparr>as_titleEn := Some ''Quiz'', as_createdById := Some ''u''\<rparr>"

definition example_mark :: GradeItemEntryCommand where
  "example_mark = \<lparr>ge_studentId = Some ''x'', ge_status = Some ''entered'', ge_score = NumberValue (Some 15), ge_comment = None\<rparr>"

definition example_payload :: GradeItemUpsertPayload where
  "example_payload = \<lparr>gp_status = Item_ENTERED, gp_score = Some 15, gp_comment = None, gu_schoolId = ''s'', gu_termId = ''t'',
     gu_assessmentId = ''a'', gu_studentId = ''x'', gu_enrollmentId = Some ''n'', gu_enteredById = Some ''u'', gu_enteredAt = 7\<rparr>"

abbreviation no_check :: "GradeAssessment \<Rightarrow> unit result" where
  "no_check \<equiv> \<lambda>_. Inr ()"

lemma example_caller_scope: "requireGradesScope example_context = Inr example_caller"
  by code_simp

lemma example_create_checked:
  "CreateGradeAssessmentUseCase_prepare (\<lambda>_. Some 0) False example_context example_create example_grades =
     Inr (example_caller, example_new)"
  by code_simp

lemma example_create_prepared:
  "grade_prepare (\<lambda>_. Some 0) no_check example_context 5 (CreateAssessment False example_create) example_grades =
     Inr (GCreate example_caller example_new)"
  by (simp add: example_create_checked)

lemma example_mark_checked:
  "UpsertGradeAssessmentItemUseCase_prepare example_context 7 ''a'' ''x'' example_mark example_grades =
     Inr (example_caller, None, example_payload)"
  by code_simp

lemma example_mark_prepared:
  "grade_prepare (\<lambda>_. Some 0) no_check example_context 7 (EnterMark ''a'' ''x'' example_mark) example_grades =
     Inr (GMark example_caller None example_payload)"
  by (simp add: example_mark_checked)

lemma example_mark_access:
  "assertGradeItemWriteAccess example_caller ''a'' ''x'' (Some ''n'') example_grades = Inr ()"
  by code_simp

lemma example_grant_live:
  "assertGradeLiveMutationPermission example_caller ''grades.assessments.publish'' example_grades = Inr ()"
  by code_simp

lemma example_fl: "fl 20 = 20"
  using fl_small_int [of 20] by simp

end
