(* ===== verification/Grade_Theorems.thy ===== *)
theory Grade_Theorems
  imports Grade_Examples
begin

text \<open>
  Properties of requests on assessments and marks. When requests do not interleave, weights stay within their
  budget and marks within their maximum; under every interleaving an assessment only moves forward, from draft
  to lock. Two races are shown: one exceeds the budget, one writes a mark after the lock. Publishing, approving
  and locking in turn complete an assessment.
\<close>

section \<open>The workflow moves forward\<close>

definition workflow_rank :: "GradeAssessment \<Rightarrow> nat" where
  "workflow_rank a =
     (if ga_lockedAt a \<noteq> None then 3
      else case ga_approvalStatus a of Approval_DRAFT \<Rightarrow> 0 | Approval_PUBLISHED \<Rightarrow> 1 | Approval_APPROVED \<Rightarrow> 2)"

text \<open>A locked assessment is approved, an approved one was approved and published by somebody at some time, and
  so on.\<close>

definition steps_taken :: "GradeAssessment \<Rightarrow> bool" where
  "steps_taken a \<longleftrightarrow>
     (ga_lockedAt a = None \<or> ga_approvalStatus a = Approval_APPROVED) \<and>
     (ga_approvalStatus a \<noteq> Approval_APPROVED \<or> as_approvedAt a \<noteq> None) \<and>
     (ga_approvalStatus a = Approval_DRAFT \<or> as_publishedAt a \<noteq> None)"

definition rows_forward :: "GradeAssessment list \<Rightarrow> GradeAssessment list \<Rightarrow> bool" where
  "rows_forward xs ys \<longleftrightarrow> (\<forall>a \<in> set xs. \<exists>b \<in> set ys. as_id b = as_id a \<and> workflow_rank a \<le> workflow_rank b)"

definition workflow_sound_from :: "GradeDb \<Rightarrow> GradeDb \<Rightarrow> bool" where
  "workflow_sound_from db0 db \<longleftrightarrow>
     distinct (map as_id (gdb_assessments db)) \<and> (\<forall>a \<in> set (gdb_assessments db). steps_taken a) \<and>
     rows_forward (gdb_assessments db0) (gdb_assessments db)"

fun rank_checked :: "GradeDb \<Rightarrow> grade_pending \<Rightarrow> bool" where
  "rank_checked db (GCreate scope data) \<longleftrightarrow> ga_lockedAt data = None \<and> ga_approvalStatus data = Approval_DRAFT"
| "rank_checked db (GApprove scope now e) \<longleftrightarrow> (\<exists>a \<in> set (gdb_assessments db). as_id a = as_id e \<and> 1 \<le> workflow_rank a)"
| "rank_checked db (GLock scope now e) \<longleftrightarrow> (\<exists>a \<in> set (gdb_assessments db). as_id a = as_id e \<and> 2 \<le> workflow_rank a)"
| "rank_checked db _ \<longleftrightarrow> True"

lemma rank_approved: "steps_taken a \<Longrightarrow> 2 \<le> workflow_rank a \<longleftrightarrow> ga_approvalStatus a = Approval_APPROVED"
  by (auto simp: workflow_rank_def steps_taken_def split: GradeAssessmentApprovalStatus.splits)

lemma rank_published: "steps_taken a \<Longrightarrow> 1 \<le> workflow_rank a \<longleftrightarrow> ga_approvalStatus a \<noteq> Approval_DRAFT"
  by (auto simp: workflow_rank_def steps_taken_def split: GradeAssessmentApprovalStatus.splits)

lemma rows_forward_refl: "rows_forward xs xs"
  by (auto simp: rows_forward_def)

lemma rows_forward_trans: "rows_forward xs ys \<Longrightarrow> rows_forward ys zs \<Longrightarrow> rows_forward xs zs"
  unfolding rows_forward_def by (metis order_trans)

text \<open>A write that moves every row it changes forward.\<close>

lemma forward_write:
  assumes sound: "workflow_sound_from db0 db" and f: "keeps_key f"
    and rows: "\<And>a. a \<in> set (gdb_assessments db) \<Longrightarrow> as_id a = i \<Longrightarrow> q a \<Longrightarrow>
      steps_taken (f a) \<and> workflow_rank a \<le> workflow_rank (f a)"
    and db': "gdb_assessments db' = map (\<lambda>a. if as_id a = i \<and> q a then f a else a) (gdb_assessments db)"
  shows "workflow_sound_from db0 db' \<and> rows_forward (gdb_assessments db) (gdb_assessments db')"
proof -
  let ?g = "\<lambda>a. if as_id a = i \<and> q a then f a else a"
  have key: "as_id (?g a) = as_id a" for a using f by (simp add: keeps_key_def)
  have g: "steps_taken (?g a)" "workflow_rank a \<le> workflow_rank (?g a)" if "a \<in> set (gdb_assessments db)" for a
    using rows [OF that] sound that by (auto simp: workflow_sound_from_def)
  have forward: "rows_forward (gdb_assessments db) (gdb_assessments db')" unfolding rows_forward_def
  proof
    fix a
    assume a: "a \<in> set (gdb_assessments db)"
    then have "?g a \<in> set (gdb_assessments db')" unfolding db' set_map by (rule imageI)
    then show "\<exists>b \<in> set (gdb_assessments db'). as_id b = as_id a \<and> workflow_rank a \<le> workflow_rank b"
      using key [of a] g(2) [OF a] by blast
  qed
  moreover have "distinct (map as_id (gdb_assessments db'))"
    using sound unfolding workflow_sound_from_def db' map_map o_def key by blast
  moreover have "steps_taken b" if "b \<in> set (gdb_assessments db')" for b
  proof -
    from that have "b \<in> ?g ` set (gdb_assessments db)" unfolding db' set_map .
    then obtain a where "a \<in> set (gdb_assessments db)" "b = ?g a" by (rule imageE)
    then show ?thesis using g(1) by simp
  qed
  ultimately show ?thesis using sound rows_forward_trans unfolding workflow_sound_from_def by blast
qed

lemma forward_same:
  "workflow_sound_from db0 db \<Longrightarrow> gdb_assessments db' = gdb_assessments db \<Longrightarrow>
   workflow_sound_from db0 db' \<and> rows_forward (gdb_assessments db) (gdb_assessments db')"
  by (simp add: workflow_sound_from_def rows_forward_refl)

lemma forward_create:
  assumes sound: "workflow_sound_from db0 db" and row: "steps_taken r" "as_id r \<notin> as_id ` set (gdb_assessments db)"
    and db': "gdb_assessments db' = gdb_assessments db @ [r]"
  shows "workflow_sound_from db0 db' \<and> rows_forward (gdb_assessments db) (gdb_assessments db')"
proof -
  have "rows_forward (gdb_assessments db) (gdb_assessments db')" by (auto simp: rows_forward_def db')
  then show ?thesis using sound row rows_forward_trans by (auto simp: workflow_sound_from_def db')
qed

lemma approve_prepared:
  "ApproveGradeAssessmentUseCase_prepare ctx i db = Inr (scope, e) \<Longrightarrow>
     found_row db scope e \<and> as_id e = i \<and> assertApprovableAssessment e = Inr ()"
  unfolding ApproveGradeAssessmentUseCase_prepare_def andThen_eq_Inr
  by (auto simp: andThen_eq_Inr dest: require_assessment_found)

lemma lock_prepared:
  "LockGradeAssessmentUseCase_prepare ctx i db = Inr (scope, e) \<Longrightarrow>
     found_row db scope e \<and> as_id e = i \<and> assertLockableAssessment e = Inr ()"
  unfolding LockGradeAssessmentUseCase_prepare_def andThen_eq_Inr
  by (auto simp: andThen_eq_Inr dest: require_assessment_found)

lemma create_unlocked:
  "CreateGradeAssessmentUseCase_prepare parse questionBased ctx command db = Inr (scope, data) \<Longrightarrow>
     ga_lockedAt data = None \<and> ga_approvalStatus data = Approval_DRAFT"
  unfolding CreateGradeAssessmentUseCase_prepare_def andThen_eq_Inr buildCreateAssessmentData_def by (elim exE conjE) auto

lemma start_ranked: "grade_start parse ready db p \<Longrightarrow> rank_checked db p"
proof -
  assume "grade_start parse ready db p"
  then obtain ctx now req where "grade_prepare parse ready ctx now req db = Inr p" by (auto simp: grade_start_def)
  then show ?thesis
    by (cases req) (auto simp: andThen_eq_Inr approvable_iff lockable_iff found_row_def workflow_rank_def
        dest!: create_unlocked approve_prepared lock_prepared split: prod.splits intro!: bexI)
qed

lemma rank_checked_stable:
  assumes "rank_checked db p" "rows_forward (gdb_assessments db) (gdb_assessments db')"
  shows "rank_checked db' p"
  using assms unfolding rows_forward_def by (cases p) (auto; metis order_trans)+

lemma publish_guard:
  assumes "publishAssessment ready scope i f db = Inr (a, db')" "distinct (map as_id (gdb_assessments db))"
    and b: "b \<in> set (gdb_assessments db)" "as_id b = i"
  shows "ga_approvalStatus b = Approval_DRAFT \<and> ga_lockedAt b = None"
proof -
  obtain x where x: "findFirst (visible_assessment scope i) (gdb_assessments db) = Some x"
    and ok: "if ga_deliveryMode x = Mode_QUESTION_BASED then assertQuestionBasedAssessmentPublishable x = Inr ()
      else assertPublishableAssessment x = Inr ()"
    using assms(1) by (auto simp: publishAssessment_def Let_def andThen_eq_Inr split: option.splits if_splits)
  have "x \<in> set (gdb_assessments db)" "as_id x = i" using findFirst_SomeD [OF x] by (auto simp: visible_assessment_def)
  then have "x = b" using assms(2) b inj_onD [of as_id "set (gdb_assessments db)" x b] by (simp add: distinct_map)
  moreover have "ga_approvalStatus x = Approval_DRAFT \<and> ga_lockedAt x = None"
    using ok by (cases "ga_approvalStatus x") (auto simp: publishable_iff assertQuestionBasedAssessmentPublishable_def Let_def
        andThen_eq_Inr isAssessmentLocked_def split: if_splits)
  ultimately show ?thesis by simp
qed

lemma same_row: "workflow_sound_from db0 db \<Longrightarrow> a \<in> set (gdb_assessments db) \<Longrightarrow> b \<in> set (gdb_assessments db) \<Longrightarrow> as_id a = as_id b \<Longrightarrow> a = b"
  using inj_onD [of as_id "set (gdb_assessments db)" a b] by (simp add: workflow_sound_from_def distinct_map)

text \<open>A write through \<open>write_assessment\<close>.\<close>

lemma forward_assessment:
  assumes "workflow_sound_from db0 db" "keeps_key f"
    and "\<And>a. a \<in> set (gdb_assessments db) \<Longrightarrow> as_id a = i \<Longrightarrow> steps_taken (f a) \<and> workflow_rank a \<le> workflow_rank (f a)"
  shows "workflow_sound_from db0 (write_assessment scope i onlyLive f db) \<and>
    rows_forward (gdb_assessments db) (gdb_assessments (write_assessment scope i onlyLive f db))"
  by (rule forward_write [OF assms(1,2), of i "\<lambda>a. as_schoolId a = gsc_schoolId scope \<and> (onlyLive \<longrightarrow> as_deletedAt a = None)"])
    (use assms(3) in \<open>auto simp: write_assessment_def updateMany_def\<close>)

lemma audit_rows [simp]: "gdb_assessments (createGradeAuditLog entry db) = gdb_assessments db"
  by (simp add: createGradeAuditLog_def)

lemma workflow_audit [simp]: "workflow_sound_from db0 (createGradeAuditLog entry db) \<longleftrightarrow> workflow_sound_from db0 db"
  by (simp add: workflow_sound_from_def)

lemma items_rows: "bulkUpsertGradeItems ps scope db = Inr db' \<Longrightarrow> gdb_assessments db' = gdb_assessments db"
  by (induction ps scope db rule: bulkUpsertGradeItems.induct)
    (auto simp: upsertGradeItem_def andThen_eq_Inr split: if_splits)

lemma rank_data:
  "steps_taken (apply_data data a) = steps_taken a" "workflow_rank (apply_data data a) = workflow_rank a"
  "steps_taken (a\<lparr>as_deletedAt := d\<rparr>) = steps_taken a" "workflow_rank (a\<lparr>as_deletedAt := d\<rparr>) = workflow_rank a"
  by (simp_all add: apply_data_def steps_taken_def workflow_rank_def)

lemma forward_publish:
  assumes sound: "workflow_sound_from db0 db" and run: "publishAssessment ready scope i (publish_data now scope) db = Inr (a, db')"
  shows "workflow_sound_from db0 db' \<and> rows_forward (gdb_assessments db) (gdb_assessments db')"
proof -
  have "steps_taken (publish_data now scope b) \<and> workflow_rank b \<le> workflow_rank (publish_data now scope b)"
    if "b \<in> set (gdb_assessments db)" "as_id b = i" for b
    using publish_guard [OF run _ that] sound by (simp add: workflow_sound_from_def publish_data_def steps_taken_def workflow_rank_def)
  from forward_assessment [OF sound keeps_key_data(1) this] show ?thesis using publish_written [OF run] by simp
qed

lemma forward_approve:
  assumes sound: "workflow_sound_from db0 db" and checked: "x \<in> set (gdb_assessments db)" "as_id x = i" "1 \<le> workflow_rank x"
  shows "workflow_sound_from db0 (write_assessment scope i True (approve_data now scope) db) \<and>
    rows_forward (gdb_assessments db) (gdb_assessments (write_assessment scope i True (approve_data now scope) db))"
proof (rule forward_assessment [OF sound keeps_key_data(2)])
  fix b
  assume b: "b \<in> set (gdb_assessments db)" "as_id b = i"
  then have "x = b" using same_row [OF sound checked(1)] checked(2) by simp
  moreover have "steps_taken b" using sound b(1) by (simp add: workflow_sound_from_def)
  ultimately show "steps_taken (approve_data now scope b) \<and> workflow_rank b \<le> workflow_rank (approve_data now scope b)"
    using checked(3) rank_published [of b]
    by (cases "ga_approvalStatus b") (simp_all add: approve_data_def steps_taken_def workflow_rank_def)
qed

lemma forward_lock:
  assumes sound: "workflow_sound_from db0 db" and checked: "x \<in> set (gdb_assessments db)" "as_id x = i" "2 \<le> workflow_rank x"
  shows "workflow_sound_from db0 (write_assessment scope i True (lock_data now scope) db) \<and>
    rows_forward (gdb_assessments db) (gdb_assessments (write_assessment scope i True (lock_data now scope) db))"
proof (rule forward_assessment [OF sound keeps_key_data(3)])
  fix b
  assume b: "b \<in> set (gdb_assessments db)" "as_id b = i"
  then have "x = b" using same_row [OF sound checked(1)] checked(2) by simp
  moreover have "steps_taken b" using sound b(1) by (simp add: workflow_sound_from_def)
  ultimately show "steps_taken (lock_data now scope b) \<and> workflow_rank b \<le> workflow_rank (lock_data now scope b)"
    using checked(3) rank_approved [of b]
    by (cases "ga_lockedAt b") (auto simp: lock_data_def steps_taken_def workflow_rank_def)
qed

lemma commit_forward:
  assumes sound: "workflow_sound_from db0 db" and checked: "rank_checked db p" and run: "grade_commit ready newId p db = Inr db'"
  shows "workflow_sound_from db0 db' \<and> rows_forward (gdb_assessments db) (gdb_assessments db')"
proof (cases p)
  case (GCreate scope data)
  then obtain a db1 entry where r: "createAssessment (newId 0) scope data db = Inr (a, db1)" and db': "db' = createGradeAuditLog entry db1"
    using run by (auto dest: grade_audited_Inr)
  then have "gdb_assessments db1 = gdb_assessments db @ [a]" "as_id a \<notin> as_id ` set (gdb_assessments db)"
    "ga_lockedAt a = ga_lockedAt data" "ga_approvalStatus a = ga_approvalStatus data"
    by (auto simp: createAssessment_def Let_def andThen_eq_Inr split: if_splits)
  then show ?thesis using forward_create [OF sound, of a db1] checked GCreate db' by (simp add: steps_taken_def)
next
  case (GUpdate scope e data)
  have "keeps_key (apply_data data)" by (simp add: keeps_key_def apply_data_def)
  from forward_assessment [OF sound this, of "as_id e" scope False]
  show ?thesis using sound run GUpdate rank_data
    by (auto simp: updateAssessment_def Let_def andThen_eq_Inr workflow_sound_from_def rows_forward_refl
        dest!: grade_audited_Inr split: if_splits)
next
  case (GDelete scope now e)
  have "keeps_key (\<lambda>a. a\<lparr>as_deletedAt := Some now\<rparr>)" by simp
  from forward_assessment [OF sound this, of "as_id e" scope False]
  show ?thesis using sound run GDelete rank_data
    by (auto simp: workflow_sound_from_def dest!: grade_audited_Inr delete_written)
next
  case (GPublish scope now e)
  then show ?thesis using run forward_publish [OF sound] by (fastforce dest!: grade_audited_Inr)
next
  case (GApprove scope now e)
  then show ?thesis using run checked forward_approve [OF sound]
    by (auto simp: approveAssessment_def dest!: grade_audited_Inr advance_written)
next
  case (GLock scope now e)
  then show ?thesis using run checked forward_lock [OF sound]
    by (auto simp: lockAssessment_def dest!: grade_audited_Inr advance_written)
next
  case (GMark scope before payload)
  then show ?thesis using run forward_same [OF sound] by (auto simp: upsertGradeItem_def andThen_eq_Inr split: option.splits if_splits)
next
  case (GMarks scope a payloads enrollments)
  then show ?thesis using run forward_same [OF sound] items_rows by (auto simp: andThen_eq_Inr)
next
  case (GUpsertRule scope earlier data)
  then show ?thesis using run forward_same [OF sound] rules_only
    by (auto simp: upsertRule_write_def split: sum.splits option.splits)
next
  case (GUpdateRule scope existing data)
  then show ?thesis using run forward_same [OF sound] rules_only(1) by (auto simp: andThen_eq_Inr)
qed

lemma finish_forward:
  assumes "workflow_sound_from db0 db" "rank_checked db p" "grade_finish ready p db db'"
  shows "workflow_sound_from db0 db' \<and> rows_forward (gdb_assessments db) (gdb_assessments db')"
proof -
  obtain newId where "case grade_commit ready newId p db of Inl e \<Rightarrow> db' = db | Inr db1 \<Rightarrow> db' = db1"
    using assms(3) by (auto simp: grade_finish_def)
  then show ?thesis using commit_forward [OF assms(1,2), of ready newId] forward_same [OF assms(1), of db]
    by (cases "grade_commit ready newId p db") auto
qed

interpretation grade_workflow: stable_invariant "grade_start parse ready" "grade_finish ready'" "workflow_sound_from db0" rank_checked
proof
  fix db p db' q
  show "rank_checked db p" if "grade_start parse ready db p" using that by (rule start_ranked)
  assume *: "workflow_sound_from db0 db" "rank_checked db p" "grade_finish ready' p db db'"
  show "workflow_sound_from db0 db'" using finish_forward [OF *] ..
  show "rank_checked db' q" if "rank_checked db q" using finish_forward [OF *] rank_checked_stable [OF that] by blast
qed


section \<open>Weights and marks\<close>

text \<open>C35. When requests do not interleave, the weights of the live assessments of one subject and scope in a
  term never add up to more than 100, although the check adds numbers and the column stores decimals.\<close>

theorem weight_budget_kept:
  assumes "(isolated (grade_start parse ready) (grade_finish ready'))\<^sup>*\<^sup>* db db'" "grades_sound db"
  shows "budget_total school academicYearId termId subjectId scopeType scopeKey db' \<le> 100"
  by (rule grades_soundD(3) [OF sound_grades.isolated_runs_inv [OF assms]])

text \<open>C36. When requests do not interleave, every mark belongs to an assessment of its school, and it has a
  number between zero and the maximum of that assessment exactly when the student was graded: the maximum of an
  assessment with marks cannot change.\<close>

theorem marks_within_maximum:
  assumes "(isolated (grade_start parse ready) (grade_finish ready'))\<^sup>*\<^sup>* db db'" "grades_sound db" "i \<in> set (gdb_items db')"
  shows "\<exists>a \<in> set (gdb_assessments db'). as_id a = it_assessmentId i \<and> as_schoolId a = it_schoolId i \<and>
    (if it_status i = Item_ENTERED then \<exists>x. it_score i = Some x \<and> 0 \<le> x \<and> x \<le> ga_maxScore a else it_score i = None)"
  using grades_soundD(4) [OF sound_grades.isolated_runs_inv [OF assms(1,2)] assms(3)]
  by (auto simp: item_sound_def mark_sound_def)

section \<open>Two requests that exceed the budget\<close>

lemma prepare_started: "grade_prepare parse ready ctx now req db = Inr p \<Longrightarrow> grade_start parse ready db p"
  unfolding grade_start_def by blast

lemma school_user_access:
  "gsc_userType scope = ''SCHOOL_USER'' \<Longrightarrow> a \<in> set (gdb_assessments db) \<Longrightarrow> visible_assessment scope i a \<Longrightarrow>
   assertGradeAssessmentAccess scope i db = Inr ()"
  using findFirst_ex [of a "gdb_assessments db" "\<lambda>a. visible_assessment scope i a \<and> gradeAssessmentAccessWhere scope False db a"]
  by (auto simp: assertGradeAssessmentAccess_def gradeAssessmentAccessWhere_def)

lemma create_succeeds:
  assumes "gsc_userType scope = ''SCHOOL_USER''" "as_schoolId data = gsc_schoolId scope"
    "as_deletedAt data = None" "newId 0 \<notin> as_id ` set (gdb_assessments db)"
    "\<bar>decimal_column (as_weight data)\<bar> < 1000" "\<bar>decimal_column (ga_maxScore data)\<bar> < 100000"
  shows "\<exists>db' r. grade_commit ready newId (GCreate scope data) db = Inr db' \<and> gdb_assessments db' = gdb_assessments db @ [r] \<and>
    as_id r = newId 0 \<and> as_weight r = decimal_column (as_weight data) \<and>
    same_budget school y t s ty k r = same_budget school y t s ty k data"
proof -
  let ?row = "data\<lparr>as_id := newId 0, as_weight := decimal_column (as_weight data),
    ga_maxScore := decimal_column (ga_maxScore data), as_date := dateOnlyEpoch (as_date data)\<rparr>"
  have "assertGradeAssessmentAccess scope (newId 0) (db\<lparr>gdb_assessments := gdb_assessments db @ [?row]\<rparr>) = Inr ()"
    using assms by (intro school_user_access [of _ ?row]) (simp_all add: visible_assessment_def)
  then show ?thesis using assms
    by (auto simp: grade_audited_def createAssessment_def Let_def decimals_fit_def same_budget_def)
qed

text \<open>C38. The budget is checked before the transaction and not again: when two requests to create an assessment
  of the same subject and scope have both passed their checks, both succeed, and their weights are added to the
  total even where it then exceeds 100.\<close>

theorem weight_budget_race:
  assumes "grade_prepare parse ready ctx now (CreateAssessment b c) db = Inr (GCreate scope data)"
    and "grade_prepare parse ready ctx' now' (CreateAssessment b' c') db = Inr (GCreate scope' data')"
    and group: "same_budget school y t s ty k data" "same_budget school y t s ty k data'"
    and users: "gsc_userType scope = ''SCHOOL_USER''" "gsc_userType scope' = ''SCHOOL_USER''"
    and ids: "newId 0 \<notin> as_id ` set (gdb_assessments db)" "newId' 0 \<notin> as_id ` set (gdb_assessments db)" "newId 0 \<noteq> newId' 0"
    and maxima: "ga_maxScore data \<le> 99999" "ga_maxScore data' \<le> 99999"
  shows "\<exists>db1 db2. grade_commit ready newId (GCreate scope data) db = Inr db1 \<and>
    grade_commit ready newId' (GCreate scope' data') db1 = Inr db2 \<and>
    budget_total school y t s ty k db2 =
      budget_total school y t s ty k db + decimal_column (as_weight data) + decimal_column (as_weight data')"
proof -
  have checked: "grade_checked db (GCreate scope data)" "grade_checked db (GCreate scope' data')"
    by (rule assms(1,2) [THEN prepare_started, THEN grade_start_checked])+
  have fit: "\<bar>decimal_column w\<bar> < 1000" if "0 < w" "w \<le> 100" for w
    using that decimal_column_nonneg [of w] decimal_column_mono [of w 100] by simp
  have fit': "\<bar>decimal_column m\<bar> < 100000" if "0 < m" "m \<le> 99999" for m
    using that decimal_column_nonneg [of m] decimal_column_mono [of m 99999] decimal_column_hundredth [of 99999]
    by (simp add: hundredth_def)
  obtain db1 r where r: "grade_commit ready newId (GCreate scope data) db = Inr db1" "gdb_assessments db1 = gdb_assessments db @ [r]"
    "as_id r = newId 0" "as_weight r = decimal_column (as_weight data)" "same_budget school y t s ty k r"
    using create_succeeds [of scope data newId db ready school y t s ty k] users(1) ids(1) checked(1) group(1) maxima(1) fit fit'
    by (auto simp: same_budget_def)
  obtain db2 r' where r': "grade_commit ready newId' (GCreate scope' data') db1 = Inr db2" "gdb_assessments db2 = gdb_assessments db1 @ [r']"
    "as_weight r' = decimal_column (as_weight data')" "same_budget school y t s ty k r'"
    using create_succeeds [of scope' data' newId' db1 ready school y t s ty k] users(2) ids(2,3) checked(2) group(2) maxima(2) fit fit' r(2,3)
    by (auto simp: same_budget_def)
  have "budget_total school y t s ty k db2 =
      budget_total school y t s ty k db + decimal_column (as_weight data) + decimal_column (as_weight data')"
    using r r' by (simp add: budget_total_def)
  then show ?thesis using r(1) r'(1) by blast
qed

section \<open>A mark after the lock\<close>

text \<open>What access to a row and its marks depends on.\<close>

definition access_part where
  "access_part a = (as_id a, as_schoolId a, as_deletedAt a, as_termId a, as_academicYearId a, as_subjectId a, as_scope a)"

lemma findFirst_map:
  "(\<And>x. p (f x) = p x) \<Longrightarrow> findFirst p (map f xs) = map_option f (findFirst p xs)"
  unfolding findFirst_def by (induction xs) simp_all

lemma access_kept:
  assumes g: "\<And>a. access_part (g a) = access_part a" and db': "gdb_assessments db' = map g (gdb_assessments db)"
      "gdb_allocations db' = gdb_allocations db" "gdb_enrollments db' = gdb_enrollments db"
  shows "assertGradeAssessmentAccess scope i db' = assertGradeAssessmentAccess scope i db"
    "gradeEnrollmentAccessWhere scope i db' e = gradeEnrollmentAccessWhere scope i db e"
proof -
  have parts: "visible_assessment scope i (g a) = visible_assessment scope i a" "assessmentScope scope al (g a) = assessmentScope scope al a"
    "as_deletedAt (g a) = as_deletedAt a" "as_termId (g a) = as_termId a" "as_subjectId (g a) = as_subjectId a" "as_scope (g a) = as_scope a"
    "as_academicYearId (g a) = as_academicYearId a" for a al
    using g [of a] by (simp_all add: access_part_def visible_assessment_def assessmentScope_def)
  have ts: "teacherScopes scope db' = teacherScopes scope db" by (simp add: teacherScopes_def db')
  have where_kept: "gradeAssessmentAccessWhere scope b db' (g a) = gradeAssessmentAccessWhere scope b db a" for b a
    by (simp add: gradeAssessmentAccessWhere_def ts parts)
  have same_where: "gradeAssessmentAccessWhere scope b db' a = gradeAssessmentAccessWhere scope b db a" for b a
    by (simp add: gradeAssessmentAccessWhere_def ts)
  show "assertGradeAssessmentAccess scope i db' = assertGradeAssessmentAccess scope i db"
    unfolding assertGradeAssessmentAccess_def using where_kept same_where parts(1) by (simp add: db' findFirst_map)
  show "gradeEnrollmentAccessWhere scope i db' e = gradeEnrollmentAccessWhere scope i db e"
    unfolding gradeEnrollmentAccessWhere_def ts Let_def
    by (simp add: db' findFirst_map parts split: option.split)
qed

lemma write_access_kept:
  assumes g: "\<And>a. access_part (g a) = access_part a" and db': "gdb_assessments db' = map g (gdb_assessments db)"
      "gdb_allocations db' = gdb_allocations db" "gdb_enrollments db' = gdb_enrollments db"
  shows "assertGradeItemWriteAccess scope i student enrollment db' = assertGradeItemWriteAccess scope i student enrollment db"
  unfolding assertGradeItemWriteAccess_def access_kept [OF assms] by (simp add: db')

lemma upsert_present:
  "\<exists>m \<in> set (upsert_item newId p items). item_key m = payload_key p \<and> it_enteredAt m = Some (gu_enteredAt p) \<and>
     it_status m = gp_status p \<and> it_score m = map_option decimal_column (gp_score p)"
proof (cases "\<exists>i \<in> set items. item_key i = payload_key p")
  case True
  then obtain i where i: "i \<in> set items" "item_key i = payload_key p" by blast
  then have "buildGradeItemUpdateInput p i \<in> set (upsert_item newId p items)" by (force simp: upsert_item_def)
  then show ?thesis using i(2) by (intro bexI) (simp_all add: buildGradeItemUpdateInput_def item_key_def)
next
  case False
  then have "set (upsert_item newId p items) = insert (buildGradeItemCreateInput newId p) (set items)" by (simp add: upsert_item_def)
  then show ?thesis by (simp add: buildGradeItemCreateInput_def item_key_def payload_key_def)
qed

lemma mark_payload:
  assumes "UpsertGradeAssessmentItemUseCase_prepare ctx now i student command db = Inr (scope, before, p)"
  shows "gu_assessmentId p = i" "gu_studentId p = student" "gu_enteredAt p = now"
  using assms unfolding UpsertGradeAssessmentItemUseCase_prepare_def andThen_eq_Inr
  by (auto simp: andThen_eq_Inr item_payload_def buildGradeItemUpsertPayload_def dest!: items_assessment_found(2) split: option.splits)

text \<open>The lock of an assessment is checked when a mark is entered, but not in the transaction that writes it:
  when a mark and the lock of its assessment have both passed their checks and the lock commits first, the mark
  is still written whenever it would have been written without the lock.\<close>

theorem mark_written_after_lock:
  assumes mark: "grade_prepare parse ready ctx now (EnterMark i student command) db = Inr p"
    and lock: "grade_prepare parse ready ctx' now' (LockAssessment i) db = Inr q"
    and alone: "grade_commit ready newId p db = Inr db0" and locked: "grade_commit ready newId' q db = Inr db1"
  shows "\<exists>db2. grade_commit ready newId p db1 = Inr db2 \<and>
    (\<exists>a \<in> set (gdb_assessments db2). as_id a = i \<and> ga_lockedAt a = Some now') \<and>
    (\<exists>m \<in> set (gdb_items db2). it_assessmentId m = i \<and> it_studentId m = student \<and> it_enteredAt m = Some now)"
proof -
  obtain scope before payload where p: "p = GMark scope before payload"
    and payload: "gu_assessmentId payload = i" "gu_studentId payload = student" "gu_enteredAt payload = now"
    using mark mark_payload by (auto simp: andThen_eq_Inr)
  obtain scope' e where q: "q = GLock scope' now' e" and e: "found_row db scope' e" "as_id e = i"
    using lock lock_prepared by (auto simp: andThen_eq_Inr)
  let ?g = "\<lambda>a. if as_id a = i \<and> as_schoolId a = gsc_schoolId scope' \<and> as_deletedAt a = None then lock_data now' scope' a else a"
  obtain entry where db1: "db1 = createGradeAuditLog entry (db\<lparr>gdb_assessments := map ?g (gdb_assessments db)\<rparr>)"
    using locked e(2) by (auto simp: q lockAssessment_def write_assessment_def updateMany_def dest!: grade_audited_Inr advance_written)
  have "access_part (?g a) = access_part a" for a by (simp add: access_part_def lock_data_def)
  then have "assertGradeItemWriteAccess scope i student (gu_enrollmentId payload) db1 =
      assertGradeItemWriteAccess scope i student (gu_enrollmentId payload) db"
    by (rule write_access_kept) (simp_all add: db1 createGradeAuditLog_def)
  then have "upsertGradeItem (newId 0) scope payload db1 =
      Inr (db1\<lparr>gdb_items := upsert_item (newId 0) payload (gdb_items db1)\<rparr>)"
    using alone payload by (auto simp: p upsertGradeItem_def andThen_eq_Inr split: if_splits)
  then obtain db2 where run: "grade_commit ready newId p db1 = Inr db2" "gdb_assessments db2 = gdb_assessments db1"
    "gdb_items db2 = upsert_item (newId 0) payload (gdb_items db1)"
    by (cases "upserted_item payload (db1\<lparr>gdb_items := upsert_item (newId 0) payload (gdb_items db1)\<rparr>)")
      (auto simp: p createGradeAuditLog_def)
  have "?g e \<in> set (gdb_assessments db1)" using e(1) by (simp add: db1 found_row_def)
  moreover have "as_id (?g e) = i \<and> ga_lockedAt (?g e) = Some now'" using e by (simp add: lock_data_def found_row_def)
  ultimately show ?thesis using run upsert_present [of "newId 0" payload "gdb_items db1"] payload
    by (auto simp: item_key_def payload_key_def)
qed

section \<open>From draft to lock\<close>

text \<open>A row in a writable term that the caller can see.\<close>

definition open_row :: "GradesScope \<Rightarrow> string \<Rightarrow> GradeDb \<Rightarrow> GradeAssessment \<Rightarrow> bool" where
  "open_row scope i db a \<longleftrightarrow>
     distinct (map as_id (gdb_assessments db)) \<and> a \<in> set (gdb_assessments db) \<and> visible_assessment scope i a \<and>
     (\<exists>trm. validateAssessmentAcademicContext scope (as_academicYearId a) (as_termId a) db = Inr trm \<and> assertGradeTermWritable trm = Inr ())"

lemma distinct_find:
  assumes "distinct (map as_id rows)" "a \<in> set rows" "p a" "\<And>b. p b \<Longrightarrow> as_id b = as_id a"
  shows "findFirst p rows = Some a"
proof -
  obtain b where b: "findFirst p rows = Some b" using findFirst_ex [of a rows p, OF assms(2,3)] by blast
  have "b \<in> set rows" "p b" using findFirst_SomeD [OF b] by simp_all
  then have "b = a" using assms(1,2) assms(4) [of b] inj_onD [of as_id "set rows" b a] by (simp add: distinct_map)
  then show ?thesis using b by simp
qed

lemma open_row_found:
  assumes a: "open_row scope i db a" and user: "gsc_userType scope = ''SCHOOL_USER''"
  shows "findFirst (visible_assessment scope i) (gdb_assessments db) = Some a" "findAssessmentById scope i db = Some a"
    "assertGradeAssessmentAccess scope i db = Inr ()"
proof -
  have all: "gradeAssessmentAccessWhere scope b db x" for b x using user by (simp add: gradeAssessmentAccessWhere_def)
  show f: "findFirst (visible_assessment scope i) (gdb_assessments db) = Some a"
    by (rule distinct_find) (use a in \<open>auto simp: open_row_def visible_assessment_def\<close>)
  then show "findAssessmentById scope i db = Some a" "assertGradeAssessmentAccess scope i db = Inr ()"
    by (simp_all add: findAssessmentById_def assertGradeAssessmentAccess_def all)
qed

lemma context_kept:
  "validateAssessmentAcademicContext scope y t (createGradeAuditLog entry (write_assessment scope i b f db)) =
   validateAssessmentAcademicContext scope y t db"
  by (simp add: validateAssessmentAcademicContext_def findGradeYear_def findGradeTerm_def write_assessment_def createGradeAuditLog_def)

lemma open_row_written:
  assumes a: "open_row scope i db a" and user: "gsc_userType scope = ''SCHOOL_USER''"
    and f: "\<And>x. access_part (f x) = access_part x"
  shows "open_row scope i (createGradeAuditLog entry (write_assessment scope i True f db)) (f a)"
    "findMutationResult_assessment scope i False (write_assessment scope i True f db) = Inr (f a)"
proof -
  let ?rows = "gdb_assessments (write_assessment scope i True f db)"
  have parts: "as_id (f x) = as_id x" "as_schoolId (f x) = as_schoolId x" "as_deletedAt (f x) = as_deletedAt x"
    "as_academicYearId (f x) = as_academicYearId x" "as_termId (f x) = as_termId x" for x using f [of x] by (simp_all add: access_part_def)
  have v: "as_id a = i" "as_schoolId a = gsc_schoolId scope" "as_deletedAt a = None" using a by (simp_all add: open_row_def visible_assessment_def)
  have "map as_id ?rows = map as_id (gdb_assessments db)" by (simp add: write_assessment_def updateMany_def parts)
  then have d: "distinct (map as_id ?rows)" using a by (simp only: open_row_def)
  have "a \<in> set (gdb_assessments db)" using a by (simp add: open_row_def)
  then have mem: "f a \<in> set ?rows" using v by (force simp: write_assessment_def updateMany_def)
  show "open_row scope i (createGradeAuditLog entry (write_assessment scope i True f db)) (f a)"
    using d mem v a unfolding open_row_def audit_rows context_kept by (simp add: visible_assessment_def parts)
  show "findMutationResult_assessment scope i False (write_assessment scope i True f db) = Inr (f a)"
    using distinct_find [OF d mem, of "\<lambda>a. as_id a = i \<and> as_schoolId a = gsc_schoolId scope \<and> (False \<or> as_deletedAt a = None)"] v
    by (simp add: findMutationResult_assessment_def parts)
qed

lemma access_data [simp]:
  "access_part (publish_data now scope x) = access_part x" "access_part (approve_data now scope x) = access_part x"
  "access_part (lock_data now scope x) = access_part x"
  by (simp_all add: access_part_def publish_data_def approve_data_def lock_data_def)

lemma publish_succeeds:
  assumes ctx: "requireGradesScope ctx = Inr scope" and user: "gsc_userType scope = ''SCHOOL_USER''" and a: "open_row scope i db a"
    and draft: "ga_deliveryMode a = Mode_SCORE_ONLY" "0 < fl (ga_maxScore a)" "ga_lockedAt a = None" "ga_approvalStatus a = Approval_DRAFT"
    and grant: "assertGradeLiveMutationPermission scope ''grades.assessments.publish'' db = Inr ()"
    and trm: "assessment_term a db = Some trm" "assertGradeTermWritable trm = Inr ()"
  shows "\<exists>p db'. grade_prepare parse ready ctx now (PublishAssessment i) db = Inr p \<and> grade_commit ready newId p db = Inr db' \<and>
    open_row scope i db' (publish_data now scope a)"
proof -
  have ok: "assertPublishableAssessment a = Inr ()" using draft by (simp add: publishable_iff)
  have i: "as_id a = i" using a by (simp add: open_row_def visible_assessment_def)
  obtain t where t: "validateAssessmentAcademicContext scope (as_academicYearId a) (as_termId a) db = Inr t" "assertGradeTermWritable t = Inr ()"
    using a by (auto simp: open_row_def)
  have "grade_prepare parse ready ctx now (PublishAssessment i) db = Inr (GPublish scope now a)"
    using ok draft t open_row_found(2) [OF a user] ctx
    by (simp add: PublishGradeAssessmentUseCase_prepare_def require_assessment_def found_by_id_def)
  moreover have "grade_commit ready newId (GPublish scope now a) db =
      Inr (createGradeAuditLog (buildAssessmentAuditEntry scope ''grades.assessment.publish'' (Some a) (publish_data now scope a))
        (write_assessment scope i True (publish_data now scope) db))"
    using ok draft trm grant open_row_found [OF a user] open_row_written(2) [where f = "publish_data now scope", OF a user access_data(1)] i
    by (simp add: publishAssessment_def grade_audited_def lockGradeAssessmentMutation_def Let_def)
  ultimately show ?thesis using open_row_written(1) [where f = "publish_data now scope", OF a user access_data(1)] by blast
qed

lemma approve_succeeds:
  assumes ctx: "requireGradesScope ctx = Inr scope" and user: "gsc_userType scope = ''SCHOOL_USER''" and a: "open_row scope i db a"
    and published: "0 < fl (ga_maxScore a)" "ga_lockedAt a = None" "ga_approvalStatus a = Approval_PUBLISHED"
  shows "\<exists>p db'. grade_prepare parse ready ctx now (ApproveAssessment i) db = Inr p \<and> grade_commit ready newId p db = Inr db' \<and>
    open_row scope i db' (approve_data now scope a)"
proof -
  have ok: "assertApprovableAssessment a = Inr ()" using published by (simp add: approvable_iff)
  have i: "as_id a = i" using a by (simp add: open_row_def visible_assessment_def)
  obtain t where t: "validateAssessmentAcademicContext scope (as_academicYearId a) (as_termId a) db = Inr t" "assertGradeTermWritable t = Inr ()"
    using a by (auto simp: open_row_def)
  have "grade_prepare parse ready ctx now (ApproveAssessment i) db = Inr (GApprove scope now a)"
    using ok t open_row_found(2) [OF a user] ctx
    by (simp add: ApproveGradeAssessmentUseCase_prepare_def require_assessment_def found_by_id_def)
  moreover have "grade_commit ready newId (GApprove scope now a) db =
      Inr (createGradeAuditLog (buildAssessmentAuditEntry scope ''grades.assessment.approve'' (Some a) (approve_data now scope a))
        (write_assessment scope i True (approve_data now scope) db))"
    using open_row_found(3) [OF a user] open_row_written(2) [where f = "approve_data now scope", OF a user access_data(2)] i
    by (simp add: approveAssessment_def advanceAssessment_def grade_audited_def Let_def)
  ultimately show ?thesis using open_row_written(1) [where f = "approve_data now scope", OF a user access_data(2)] by blast
qed

lemma lock_succeeds:
  assumes ctx: "requireGradesScope ctx = Inr scope" and user: "gsc_userType scope = ''SCHOOL_USER''" and a: "open_row scope i db a"
    and approved: "ga_lockedAt a = None" "ga_approvalStatus a = Approval_APPROVED"
  shows "\<exists>p db'. grade_prepare parse ready ctx now (LockAssessment i) db = Inr p \<and> grade_commit ready newId p db = Inr db' \<and>
    open_row scope i db' (lock_data now scope a)"
proof -
  have ok: "assertLockableAssessment a = Inr ()" using approved by (simp add: lockable_iff)
  have i: "as_id a = i" using a by (simp add: open_row_def visible_assessment_def)
  obtain t where t: "validateAssessmentAcademicContext scope (as_academicYearId a) (as_termId a) db = Inr t" "assertGradeTermWritable t = Inr ()"
    using a by (auto simp: open_row_def)
  have "grade_prepare parse ready ctx now (LockAssessment i) db = Inr (GLock scope now a)"
    using ok t open_row_found(2) [OF a user] ctx
    by (simp add: LockGradeAssessmentUseCase_prepare_def require_assessment_def found_by_id_def)
  moreover have "grade_commit ready newId (GLock scope now a) db =
      Inr (createGradeAuditLog (buildAssessmentAuditEntry scope ''grades.assessment.lock'' (Some a) (lock_data now scope a))
        (write_assessment scope i True (lock_data now scope) db))"
    using open_row_found(3) [OF a user] open_row_written(2) [where f = "lock_data now scope", OF a user access_data(3)] i
    by (simp add: lockAssessment_def advanceAssessment_def grade_audited_def Let_def)
  ultimately show ?thesis using open_row_written(1) [where f = "lock_data now scope", OF a user access_data(3)] by blast
qed


section \<open>Instances\<close>

lemma one_grade_request:
  assumes "grade_prepare parse ready ctx now req db = Inr p" "grade_commit ready' newId p db = Inr db'"
  shows "(interleaved (grade_start parse ready) (grade_finish ready'))\<^sup>*\<^sup>* (db, []) (db', [])"
    "(isolated (grade_start parse ready) (grade_finish ready'))\<^sup>*\<^sup>* db db'"
proof -
  let ?start = "grade_start parse ready" and ?finish = "grade_finish ready'"
  have s: "?start db p" by (rule prepare_started) fact
  have f: "?finish p db db'" unfolding grade_finish_def using assms(2) by (intro exI [of _ newId]) simp
  have "interleaved ?start ?finish (db, []) (db, [] @ [p])" by (rule begins [of ?start, OF s])
  moreover have "interleaved ?start ?finish (db, [p]) (db', remove1 p [p])"
    by (rule finishes [of p "[p]" ?finish db db' ?start, OF _ f]) simp
  ultimately show "(interleaved ?start ?finish)\<^sup>*\<^sup>* (db, []) (db', [])" by simp
  show "(isolated ?start ?finish)\<^sup>*\<^sup>* db db'" using isolated [of ?start db p ?finish db', OF s f] by blast
qed

lemma example_sound: "grades_sound example_grades"
proof -
  have "budget_total school y t s ty k example_grades \<le> 100" for school y t s ty k
    by (simp add: budget_total_def example_grades_def example_assessment_def)
  then show ?thesis
    by (simp add: grades_sound_def row_sound_def example_grades_def example_assessment_def hundredth_def)
qed

lemma example_open:
  "open_row example_caller ''d'' example_grades (example_assessment ''d'' Approval_DRAFT 10)"
  by (simp add: open_row_def example_grades_def visible_assessment_def example_caller_def example_assessment_def example_term_def
      validateAssessmentAcademicContext_def findGradeYear_def findGradeTerm_def findFirst_def assertGradeTermWritable_def)

lemma example_draft:
  "gsc_userType example_caller = ''SCHOOL_USER''" "ga_deliveryMode (example_assessment i st w) = Mode_SCORE_ONLY"
  "0 < fl (ga_maxScore (example_assessment i st w))" "ga_lockedAt (example_assessment i st w) = None"
  "ga_approvalStatus (example_assessment i st w) = st"
  "assessment_term (example_assessment i st w) example_grades = Some example_term" "assertGradeTermWritable example_term = Inr ()"
  by (simp_all add: example_caller_def example_assessment_def example_fl assessment_term_def example_grades_def example_term_def
      findFirst_def assertGradeTermWritable_def)

lemmas example_publish =
  publish_succeeds [OF example_caller_scope example_draft(1) example_open example_draft(2,3,4,5) example_grant_live example_draft(6,7)]


lemma example_created:
  "\<exists>db'. grade_commit no_check (\<lambda>_. ''n'') (GCreate example_caller example_new) example_grades = Inr db' \<and>
     budget_total ''s'' ''y'' ''t'' ''k'' Scope_SCHOOL ''s'' db' = 90"
proof -
  obtain db' r where "grade_commit no_check (\<lambda>_. ''n'') (GCreate example_caller example_new) example_grades = Inr db'"
    "gdb_assessments db' = gdb_assessments example_grades @ [r]" "as_weight r = decimal_column 60"
    "same_budget ''s'' ''y'' ''t'' ''k'' Scope_SCHOOL ''s'' r"
    using create_succeeds [of example_caller example_new "\<lambda>_. ''n''" example_grades no_check "''s''" "''y''" "''t''" "''k''" Scope_SCHOOL "''s''"]
    by (auto simp: example_caller_def example_new_def example_assessment_def example_grades_def example_scope_def same_budget_def
        decimal_column_hundredth hundredth_def)
  then show ?thesis
    by (auto simp: budget_total_def example_grades_def example_assessment_def example_scope_def same_budget_def hundredth_def)
qed

theorem weight_budget_kept_witness:
  "\<exists>db'. (isolated (grade_start (\<lambda>_. Some 0) no_check) (grade_finish no_check))\<^sup>*\<^sup>* example_grades db' \<and>
     budget_total ''s'' ''y'' ''t'' ''k'' Scope_SCHOOL ''s'' db' = 90 \<and>
     budget_total ''s'' ''y'' ''t'' ''k'' Scope_SCHOOL ''s'' db' \<le> 100"
proof -
  obtain db' where c: "grade_commit no_check (\<lambda>_. ''n'') (GCreate example_caller example_new) example_grades = Inr db'"
    "budget_total ''s'' ''y'' ''t'' ''k'' Scope_SCHOOL ''s'' db' = 90" using example_created by blast
  note run = one_grade_request(2) [OF example_create_prepared c(1)]
  from weight_budget_kept [OF run example_sound] run c(2) show ?thesis by blast
qed

lemma example_mark_committed:
  "\<exists>db'. grade_commit no_check (\<lambda>_. ''i'') (GMark example_caller None example_payload) example_grades = Inr db' \<and>
     gdb_items db' = [buildGradeItemCreateInput ''i'' example_payload]"
  using example_mark_access
  by (simp add: upsertGradeItem_def score_fits_def example_payload_def example_grades_def upsert_item_def hundredth_def
      createGradeAuditLog_def split: option.split)

theorem marks_within_maximum_witness:
  "\<exists>db' i. (isolated (grade_start (\<lambda>_. Some 0) no_check) (grade_finish no_check))\<^sup>*\<^sup>* example_grades db' \<and> i \<in> set (gdb_items db') \<and>
     it_status i = Item_ENTERED \<and>
     (\<exists>a \<in> set (gdb_assessments db'). as_id a = it_assessmentId i \<and> (\<exists>x. it_score i = Some x \<and> 0 \<le> x \<and> x \<le> ga_maxScore a))"
proof -
  let ?i = "buildGradeItemCreateInput ''i'' example_payload"
  obtain db' where c: "grade_commit no_check (\<lambda>_. ''i'') (GMark example_caller None example_payload) example_grades = Inr db'"
    "gdb_items db' = [?i]" using example_mark_committed by blast
  have st: "it_status ?i = Item_ENTERED" by (simp add: buildGradeItemCreateInput_def example_payload_def)
  note run = one_grade_request(2) [OF example_mark_prepared c(1)]
  have "?i \<in> set (gdb_items db')" using c(2) by simp
  from marks_within_maximum [OF run example_sound this] st show ?thesis using run \<open>?i \<in> set (gdb_items db')\<close> by auto
qed

theorem weight_budget_race_witness:
  "\<exists>db1 db2. grade_commit no_check (\<lambda>_. ''n'') (GCreate example_caller example_new) example_grades = Inr db1 \<and>
     grade_commit no_check (\<lambda>_. ''o'') (GCreate example_caller example_new) db1 = Inr db2 \<and>
     100 < budget_total ''s'' ''y'' ''t'' ''k'' Scope_SCHOOL ''s'' db2"
proof -
  have group: "same_budget ''s'' ''y'' ''t'' ''k'' Scope_SCHOOL ''s'' example_new"
    by (simp add: same_budget_def example_new_def example_assessment_def example_scope_def)
  have t: "budget_total ''s'' ''y'' ''t'' ''k'' Scope_SCHOOL ''s'' example_grades = 30"
    by (simp add: budget_total_def example_grades_def example_assessment_def example_scope_def same_budget_def)
  have w: "decimal_column (as_weight example_new) = 60" "ga_maxScore example_new \<le> 99999"
    by (simp_all add: example_new_def example_assessment_def hundredth_def)
  have ids: "''n'' \<notin> as_id ` set (gdb_assessments example_grades)" "''o'' \<notin> as_id ` set (gdb_assessments example_grades)"
    "''n'' \<noteq> ''o''" by (simp_all add: example_grades_def example_assessment_def)
  from weight_budget_race [OF example_create_prepared example_create_prepared group group example_draft(1) example_draft(1),
      of "\<lambda>_. ''n''" "\<lambda>_. ''o''", OF ids w(2) w(2)]
  show ?thesis unfolding t w by auto
qed

theorem mark_written_after_lock_witness:
  "\<exists>q db1 db2. grade_prepare (\<lambda>_. Some 0) no_check example_context 8 (LockAssessment ''a'') example_grades = Inr q \<and>
     grade_commit no_check (\<lambda>_. ''i'') q example_grades = Inr db1 \<and>
     grade_commit no_check (\<lambda>_. ''i'') (GMark example_caller None example_payload) db1 = Inr db2 \<and>
     (\<exists>a \<in> set (gdb_assessments db2). as_id a = ''a'' \<and> ga_lockedAt a = Some 8) \<and>
     (\<exists>m \<in> set (gdb_items db2). it_assessmentId m = ''a'' \<and> it_studentId m = ''x'' \<and> it_enteredAt m = Some 7)"
proof -
  have "open_row example_caller ''a'' example_grades (example_assessment ''a'' Approval_APPROVED 20)"
    by (simp add: open_row_def example_grades_def visible_assessment_def example_caller_def example_assessment_def example_term_def
        validateAssessmentAcademicContext_def findGradeYear_def findGradeTerm_def findFirst_def assertGradeTermWritable_def)
  from lock_succeeds [OF example_caller_scope example_draft(1) this example_draft(4,5)] obtain q db1 where
    lock: "grade_prepare (\<lambda>_. Some 0) no_check example_context 8 (LockAssessment ''a'') example_grades = Inr q"
      "grade_commit no_check (\<lambda>_. ''i'') q example_grades = Inr db1" by blast
  obtain db0 where "grade_commit no_check (\<lambda>_. ''i'') (GMark example_caller None example_payload) example_grades = Inr db0"
    using example_mark_committed by blast
  from mark_written_after_lock [OF example_mark_prepared lock(1) this lock(2)] show ?thesis using lock by blast
qed


end
