(* ===== verification/Byte_Buffers.thy ===== *)
theory Byte_Buffers
  imports Moazez_Prelude "HOL-Library.Word"
begin

text \<open>
  Node buffers as the proof content checks read them, and the checksum of a PNG chunk
  (\<open>createCrc32Table\<close> and \<open>crc32\<close> of \<open>domain/reinforcement-proof-content.ts\<close>). A byte is an \<open>8 word\<close>; the
  bitwise operators of JavaScript work on 32 bits, so a checksum in progress is a \<open>32 word\<close>. A read
  outside the buffer raises, as \<open>readUInt32BE\<close> does.
\<close>

unbundle bit_operations_syntax

type_synonym byte = "8 word"
type_synonym buffer = "byte list"

section \<open>Reading a buffer\<close>

definition out_of_range :: js_exception where
  "out_of_range = JsError ''ERR_OUT_OF_RANGE''"

definition subarray :: "buffer \<Rightarrow> nat \<Rightarrow> nat \<Rightarrow> buffer" where
  "subarray buf start stop = take (stop - start) (drop start buf)"

fun big_endian :: "buffer \<Rightarrow> nat" where
  "big_endian [] = 0"
| "big_endian (b # bs) = unat b * 256 ^ length bs + big_endian bs"

definition readUInt16BE :: "buffer \<Rightarrow> nat \<Rightarrow> nat result" where
  "readUInt16BE buf offset =
     (if offset + 2 \<le> length buf then Inr (big_endian (subarray buf offset (offset + 2))) else Inl out_of_range)"

definition readUInt32BE :: "buffer \<Rightarrow> nat \<Rightarrow> nat result" where
  "readUInt32BE buf offset =
     (if offset + 4 \<le> length buf then Inr (big_endian (subarray buf offset (offset + 4))) else Inl out_of_range)"

text \<open>\<open>toString('ascii')\<close> clears the high bit of every byte; \<open>Buffer.from(text, 'ascii')\<close> of an ASCII text.\<close>

definition ascii_text :: "buffer \<Rightarrow> string" where
  "ascii_text bs = map (\<lambda>b. char_of (unat (b AND 127))) bs"

definition ascii_bytes :: "string \<Rightarrow> buffer" where
  "ascii_bytes s = map of_char s"

section \<open>The checksum\<close>

definition CRC32_POLYNOMIAL :: "32 word" where
  "CRC32_POLYNOMIAL = 0xedb88320"

text \<open>One turn of the inner loop of \<open>createCrc32Table\<close>.\<close>

definition crc_bit :: "32 word \<Rightarrow> 32 word" where
  "crc_bit crc = (if crc AND 1 \<noteq> 0 then CRC32_POLYNOMIAL XOR drop_bit 1 crc else drop_bit 1 crc)"

definition createCrc32Table :: "32 word list" where
  "createCrc32Table = map (\<lambda>v. (crc_bit ^^ 8) (of_nat v)) [0..<256]"

definition crc_byte :: "32 word list \<Rightarrow> 32 word \<Rightarrow> byte \<Rightarrow> 32 word" where
  "crc_byte table crc b = table ! unat ((crc XOR ucast b) AND 0xff) XOR drop_bit 8 crc"

definition crc32 :: "buffer \<Rightarrow> nat" where
  "crc32 bytes = unat (foldl (crc_byte createCrc32Table) 0xffffffff bytes XOR 0xffffffff)"

text \<open>The definition of the checksum in the PNG specification: a shift register that takes the bits of
  the message one by one, the lowest bit of a byte first.\<close>

definition register_step :: "32 word \<Rightarrow> bool \<Rightarrow> 32 word" where
  "register_step r m =
     (let shifted = drop_bit 1 r in if bit r 0 \<noteq> m then CRC32_POLYNOMIAL XOR shifted else shifted)"

definition message_bits :: "buffer \<Rightarrow> bool list" where
  "message_bits bytes = concat (map (\<lambda>b. map (bit b) [0..<8]) bytes)"

definition crc32_reference :: "buffer \<Rightarrow> nat" where
  "crc32_reference bytes = unat (foldl register_step 0xffffffff (message_bits bytes) XOR 0xffffffff)"

section \<open>Lemmas on buffers\<close>

lemma big_endian_append: "big_endian (xs @ ys) = big_endian xs * 256 ^ length ys + big_endian ys"
  by (induction xs) (auto simp: algebra_simps power_add)

lemma big_endian_bound: "big_endian bs < 256 ^ length bs"
proof (induction bs)
  case (Cons b bs)
  have "unat b < 256" using unsigned_less [of b, where 'a = nat] by simp
  then have "(unat b + 1) * 256 ^ length bs \<le> 256 * 256 ^ length bs" by (intro mult_le_mono1) simp
  then have "unat b * 256 ^ length bs + 256 ^ length bs \<le> 256 * 256 ^ length bs" by (simp only: add_mult_distrib mult_1)
  with Cons have "unat b * 256 ^ length bs + big_endian bs < 256 * 256 ^ length bs" by linarith
  then show ?case by simp
qed simp

lemma length_subarray [simp]: "length (subarray buf i j) = min (length buf - i) (j - i)"
  by (simp add: subarray_def)

lemma read_in_range [simp]:
  "offset + 2 \<le> length buf \<Longrightarrow> readUInt16BE buf offset = Inr (big_endian (subarray buf offset (offset + 2)))"
  "offset + 4 \<le> length buf \<Longrightarrow> readUInt32BE buf offset = Inr (big_endian (subarray buf offset (offset + 4)))"
  by (simp_all add: readUInt16BE_def readUInt32BE_def)

section \<open>One bit of the register\<close>

lemma crc_bit_bit: "bit (crc_bit x) n = ((bit x 0 \<and> bit CRC32_POLYNOMIAL n) \<noteq> bit x (Suc n))"
proof -
  have "x AND 1 \<noteq> 0 \<longleftrightarrow> bit x 0"
    by (simp add: and_one_eq bit_0 odd_iff_mod_2_eq_one)
  then show ?thesis by (auto simp: crc_bit_def bit_xor_iff bit_drop_bit_eq)
qed

lemma crc_bit_xor: "crc_bit (x XOR y) = crc_bit x XOR crc_bit y"
  by (rule bit_eqI) (auto simp: crc_bit_bit bit_xor_iff)

lemma crc_bits_xor: "(crc_bit ^^ n) (x XOR y) = (crc_bit ^^ n) x XOR (crc_bit ^^ n) y"
  by (induction n) (simp_all add: crc_bit_xor)

lemma polynomial_top: "bit CRC32_POLYNOMIAL 31"
  by (simp add: CRC32_POLYNOMIAL_def)

lemma crc_bit_eq_0: "crc_bit x = 0 \<Longrightarrow> x = 0"
proof (rule bit_eqI)
  fix n
  assume z: "crc_bit x = 0"
  have b: "(bit x 0 \<and> bit CRC32_POLYNOMIAL m) = bit x (Suc m)" for m
    using crc_bit_bit [of x m] z by auto
  have "\<not> bit x 32" using bit_imp_le_length [of x 32] by auto
  then have "\<not> bit x 0" using b [of 31] polynomial_top by auto
  then show "bit x n = bit (0 :: 32 word) n" using b [of "n - 1"] by (cases n) auto
qed

lemma crc_bits_eq_0: "(crc_bit ^^ n) x = 0 \<Longrightarrow> x = 0"
  by (induction n arbitrary: x) (auto simp: funpow_swap1 dest: crc_bit_eq_0)

lemma crc_bits_0 [simp]: "(crc_bit ^^ n) 0 = 0"
  by (induction n) (simp_all add: crc_bit_def)

lemma word_xor_eq_0: "x XOR y = 0 \<Longrightarrow> x = (y :: 'a::len word)"
  by (rule bit_eqI) (metis bit_0_eq bit_xor_iff bot_apply bot_bool_def)

lemma word_xor_cancel:
  "x XOR z = y XOR z \<Longrightarrow> x = (y :: 'a::len word)" "z XOR x = z XOR y \<Longrightarrow> x = y"
  by (rule bit_eqI, use bit_xor_iff [of x z] bit_xor_iff [of y z] in metis)
    (rule bit_eqI, use bit_xor_iff [of z x] bit_xor_iff [of z y] in metis)

lemma crc_bits_inj: "(crc_bit ^^ n) x = (crc_bit ^^ n) y \<Longrightarrow> x = y"
  using crc_bits_eq_0 [of n "x XOR y"] by (simp add: crc_bits_xor word_xor_eq_0)

text \<open>A register whose low bits are clear is only shifted.\<close>

lemma crc_bit_even: "\<not> bit x 0 \<Longrightarrow> crc_bit x = drop_bit 1 x"
  by (rule bit_eqI) (simp add: crc_bit_bit bit_drop_bit_eq)

lemma crc_bits_shift: "\<forall>i < n. \<not> bit x i \<Longrightarrow> (crc_bit ^^ n) x = drop_bit n x"
proof (induction n arbitrary: x)
  case (Suc n)
  have "(crc_bit ^^ Suc n) x = (crc_bit ^^ n) (drop_bit 1 x)"
    using Suc.prems crc_bit_even [of x] by (simp add: funpow_swap1)
  also have "\<dots> = drop_bit n (drop_bit 1 x)"
    by (rule Suc.IH) (use Suc.prems in \<open>auto simp: bit_drop_bit_eq\<close>)
  finally show ?case by simp
qed simp

section \<open>One byte of the message\<close>

lemma crc_byte_bits: "crc_byte createCrc32Table crc b = (crc_bit ^^ 8) (crc XOR ucast b)"
proof -
  define x where "x = crc XOR (ucast b :: 32 word)"
  define i where "i = unat (x AND 0xff)"
  have i: "i < 256"
  proof -
    have "x AND 0xff \<le> 0xff" by (rule word_and_le1)
    then show ?thesis by (simp add: i_def word_le_nat_alt)
  qed
  have "(crc_bit ^^ 8) x = (crc_bit ^^ 8) (take_bit 8 x XOR push_bit 8 (drop_bit 8 x))"
    by (rule arg_cong [where f = "crc_bit ^^ 8"], rule bit_eqI) (auto simp: bit_simps)
  also have "\<dots> = (crc_bit ^^ 8) (take_bit 8 x) XOR drop_bit 8 (push_bit 8 (drop_bit 8 x))"
    by (simp only: crc_bits_xor) (subst (2) crc_bits_shift, auto simp: bit_simps)
  also have "drop_bit 8 (push_bit 8 (drop_bit 8 x)) = drop_bit 8 crc"
    by (rule bit_eqI) (auto simp: x_def bit_simps dest: bit_imp_le_length)
  also have "take_bit 8 x = of_nat i" by (simp add: i_def take_bit_eq_mask mask_numeral)
  also have "(crc_bit ^^ 8) (of_nat i) = createCrc32Table ! i"
    using i by (simp add: createCrc32Table_def)
  finally show ?thesis by (simp add: crc_byte_def x_def i_def)
qed

lemma register_step_bit: "register_step r m = crc_bit (r XOR of_bool m)"
  by (rule bit_eqI) (auto simp: register_step_def Let_def crc_bit_bit bit_simps)

lemma register_bits:
  "n \<le> 8 \<Longrightarrow> foldl register_step r (map (bit (b :: byte)) [0..<n]) = (crc_bit ^^ n) (r XOR take_bit n (ucast b))"
proof (induction n)
  case (Suc n)
  let ?w = "ucast b :: 32 word" and ?m = "of_bool (bit b n) :: 32 word"
  have "foldl register_step r (map (bit b) [0..<Suc n]) = crc_bit ((crc_bit ^^ n) (r XOR take_bit n ?w) XOR ?m)"
    using Suc.IH Suc.prems by (simp add: register_step_bit [where m = "bit b n"] del: of_bool_eq_iff)
  also have "?m = (crc_bit ^^ n) (push_bit n ?m)"
    using Suc.prems by (subst crc_bits_shift) (auto simp: bit_simps intro!: bit_eqI)
  also have "(crc_bit ^^ n) (r XOR take_bit n ?w) XOR \<dots> = (crc_bit ^^ n) (r XOR (take_bit n ?w XOR push_bit n ?m))"
    by (simp add: crc_bits_xor ac_simps)
  also have "take_bit n ?w XOR push_bit n ?m = take_bit (Suc n) ?w"
    using Suc.prems by (intro bit_eqI) (auto simp: bit_simps less_Suc_eq)
  finally show ?case by simp
qed simp

lemma register_byte: "foldl register_step r (map (bit b) [0..<8]) = crc_byte createCrc32Table r b"
proof -
  have "take_bit 8 (ucast b :: 32 word) = ucast b"
    by (rule bit_eqI) (auto simp: bit_simps dest: bit_imp_le_length)
  then show ?thesis by (simp add: register_bits crc_byte_bits)
qed

lemma register_message: "foldl register_step r (message_bits bytes) = foldl (crc_byte createCrc32Table) r bytes"
  by (induction bytes arbitrary: r) (simp_all add: message_bits_def register_byte del: upt_Suc)

section \<open>Bursts\<close>

text \<open>Up to four bytes enter the register like one word.\<close>

fun little_endian :: "buffer \<Rightarrow> 32 word" where
  "little_endian [] = 0"
| "little_endian (b # bs) = ucast b XOR push_bit 8 (little_endian bs)"

lemma little_endian_bits: "bit (little_endian bs) n \<Longrightarrow> n < 8 * length bs"
proof (induction bs arbitrary: n)
  case (Cons b bs)
  show ?case
  proof (cases "n < 8")
    case False
    then have "bit (little_endian bs) (n - 8)"
      using Cons.prems bit_imp_le_length [of b n] by (auto simp: bit_simps)
    with Cons.IH [of "n - 8"] show ?thesis using False by simp
  qed simp
qed simp

lemma crc_word:
  "length bs \<le> 4 \<Longrightarrow> foldl (crc_byte createCrc32Table) s bs = (crc_bit ^^ (8 * length bs)) (s XOR little_endian bs)"
proof (induction bs arbitrary: s)
  case (Cons b bs)
  have "drop_bit 8 (push_bit 8 (little_endian bs)) = little_endian bs"
    using Cons.prems by (intro bit_eqI) (auto simp: bit_simps dest: little_endian_bits)
  then have up: "(crc_bit ^^ 8) (push_bit 8 (little_endian bs)) = little_endian bs"
    by (subst crc_bits_shift) (auto simp: bit_simps)
  have "foldl (crc_byte createCrc32Table) s (b # bs) =
      (crc_bit ^^ (8 * length bs)) ((crc_bit ^^ 8) (s XOR ucast b) XOR little_endian bs)"
    using Cons.IH Cons.prems by (simp add: crc_byte_bits [of s b])
  also have "\<dots> = (crc_bit ^^ (8 * length bs)) ((crc_bit ^^ 8) (s XOR little_endian (b # bs)))"
    using up by (simp only: little_endian.simps crc_bits_xor [of 8] xor.assoc)
  also have "\<dots> = (crc_bit ^^ (8 * length (b # bs))) (s XOR little_endian (b # bs))"
    by (simp only: length_Cons mult_Suc_right funpow_add comp_apply add.commute [of 8])
  finally show ?case .
qed simp

lemma little_endian_inj:
  "length as = length bs \<Longrightarrow> length as \<le> 4 \<Longrightarrow> little_endian as = little_endian bs \<Longrightarrow> as = bs"
proof (induction as bs rule: list_induct2)
  case (Cons a as b bs)
  have len: "length as \<le> 3" "length bs \<le> 3" using Cons by simp_all
  have bits: "bit (little_endian (a # as)) n = bit (little_endian (b # bs)) n" for n using Cons.prems by simp
  have "a = b"
  proof (rule bit_word_eqI)
    fix n assume "n < LENGTH(8)"
    with bits [of n] show "bit a n = bit b n" by (auto simp: bit_simps)
  qed
  moreover have "little_endian as = little_endian bs"
  proof (rule bit_word_eqI)
    fix n assume n: "n < LENGTH(32)"
    show "bit (little_endian as) n = bit (little_endian bs) n"
    proof (cases "n + 8 < 32")
      case True
      then show ?thesis using bits [of "n + 8"] bit_imp_le_length [of a "n + 8"] bit_imp_le_length [of b "n + 8"]
        by (auto simp: bit_simps)
    next
      case False
      then show ?thesis using len little_endian_bits [of as n] little_endian_bits [of bs n] by auto
    qed
  qed
  ultimately show ?case using Cons.IH len by simp
qed simp

lemma crc_run_inj:
  "foldl (crc_byte createCrc32Table) s bs = foldl (crc_byte createCrc32Table) t bs \<Longrightarrow> s = t"
proof (induction bs arbitrary: s t)
  case (Cons b bs)
  then have "(crc_bit ^^ 8) (s XOR ucast b) = (crc_bit ^^ 8) (t XOR ucast b)"
    by (auto simp: crc_byte_bits [symmetric])
  then show "s = t" by (blast dest: crc_bits_inj word_xor_cancel)
qed simp

text \<open>A change of up to four bytes in a row always changes the checksum.\<close>

lemma crc32_burst:
  assumes "length a = length b" "length a \<le> 4" "crc32 (p @ a @ s) = crc32 (p @ b @ s)"
  shows "a = b"
proof -
  let ?run = "foldl (crc_byte createCrc32Table)"
  have "?run (0xffffffff) (p @ a @ s) = ?run (0xffffffff) (p @ b @ s)"
    using assms(3) by (auto simp: crc32_def simp flip: word_unat_eq_iff dest: word_xor_cancel)
  then have "?run (?run (0xffffffff) p) a = ?run (?run (0xffffffff) p) b"
    by (auto dest: crc_run_inj)
  then have "?run (0xffffffff) p XOR little_endian a = ?run (0xffffffff) p XOR little_endian b"
    using assms(1,2) by (auto simp: crc_word dest: crc_bits_inj)
  then have "little_endian a = little_endian b"
    by (rule word_xor_cancel)
  with assms(1,2) show ?thesis by (rule little_endian_inj)
qed

text \<open>C15. The table-driven checksum of the code is the checksum of the PNG specification, computed bit by bit.\<close>

theorem crc32_is_specified: "crc32 bytes = crc32_reference bytes"
  by (simp add: crc32_def crc32_reference_def register_message)

end
