(* ===== verification/Proof_Content.thy ===== *)
theory Proof_Content
  imports Byte_Buffers Js_Number
begin

text \<open>
  Detection of the file format of an uploaded proof from its first bytes
  (\<open>src/src/modules/reinforcement/reviews/domain/reinforcement-proof-content.ts\<close>). Reads that could leave the buffer
  are values of type \<open>result\<close>; \<open>buf ! i\<close> is used where the code has compared \<open>i\<close> with the length before.
\<close>

section \<open>PNG\<close>

definition PNG_SIGNATURE :: buffer where
  "PNG_SIGNATURE = [0x89, 0x50, 0x4e, 0x47, 0x0d, 0x0a, 0x1a, 0x0a]"

definition PNG_IHDR :: buffer where
  "PNG_IHDR = ascii_bytes ''IHDR''"

definition PNG_ALLOWED_BIT_DEPTHS_BY_COLOR_TYPE :: "(nat \<times> nat list) list" where
  "PNG_ALLOWED_BIT_DEPTHS_BY_COLOR_TYPE =
     [(0, [1, 2, 4, 8, 16]), (2, [8, 16]), (3, [1, 2, 4, 8]), (4, [8, 16]), (6, [8, 16])]"

definition isStructurallyValidPngPrefix :: "buffer \<Rightarrow> bool result" where
  "isStructurallyValidPngPrefix buf =
     (if length buf < 33 \<or> subarray buf 0 8 \<noteq> PNG_SIGNATURE then Inr False
      else andThen (readUInt32BE buf 8) (\<lambda>chunkLength.
        if chunkLength \<noteq> 13 then Inr False
        else if subarray buf 12 16 \<noteq> PNG_IHDR then Inr False
        else andThen (readUInt32BE buf 16) (\<lambda>width. andThen (readUInt32BE buf 20) (\<lambda>height.
          if width = 0 \<or> height = 0 then Inr False
          else
            let bitDepth = unat (buf ! 24); colorType = unat (buf ! 25); compressionMethod = unat (buf ! 26);
                filterMethod = unat (buf ! 27); interlaceMethod = unat (buf ! 28)
            in if \<not> (case map_of PNG_ALLOWED_BIT_DEPTHS_BY_COLOR_TYPE colorType of
                         None \<Rightarrow> False | Some allowedBitDepths \<Rightarrow> bitDepth \<in> set allowedBitDepths) then Inr False
               else if compressionMethod \<noteq> 0 \<or> filterMethod \<noteq> 0 then Inr False
               else if interlaceMethod \<noteq> 0 \<and> interlaceMethod \<noteq> 1 then Inr False
               else andThen (readUInt32BE buf 29) (\<lambda>expectedCrc. Inr (expectedCrc = crc32 (subarray buf 12 29)))))))"

section \<open>JPEG\<close>

definition JPEG_SOF_MARKERS :: "byte list" where
  "JPEG_SOF_MARKERS = [0xc0, 0xc1, 0xc2, 0xc3, 0xc5, 0xc6, 0xc7, 0xc9, 0xca, 0xcb, 0xcd, 0xce, 0xcf]"

text \<open>\<open>while (offset < buffer.length && buffer[offset] === 0xff) offset += 1\<close>\<close>

definition skip_fill :: "buffer \<Rightarrow> nat \<Rightarrow> nat" where
  "skip_fill buf offset = offset + length (takeWhile (\<lambda>b. b = 0xff) (drop offset buf))"

lemma skip_fill_ge: "offset \<le> skip_fill buf offset"
  by (simp add: skip_fill_def)

lemma andThen_cong [fundef_cong]:
  "m = m' \<Longrightarrow> (\<And>x. m' = Inr x \<Longrightarrow> f x = g x) \<Longrightarrow> andThen m f = andThen m' g"
  by (cases m') simp_all

function jpeg_scan :: "buffer \<Rightarrow> nat \<Rightarrow> bool result" where
  "jpeg_scan buf offset =
     (if \<not> offset < length buf then Inr False
      else if buf ! offset \<noteq> 0xff then Inr False
      else
        let at_marker = skip_fill buf offset
        in if at_marker \<ge> length buf then Inr False
           else
             let marker = buf ! at_marker; pos = at_marker + 1
             in if marker = 0x00 \<or> marker = 0xd8 \<or> marker = 0xd9 then Inr False
                else if marker = 0x01 \<or> (0xd0 \<le> marker \<and> marker \<le> 0xd7) then jpeg_scan buf pos
                else if marker = 0xda then Inr False
                else if length buf - pos < 2 then Inr False
                else andThen (readUInt16BE buf pos) (\<lambda>segmentLength.
                  if segmentLength < 2 \<or> pos + segmentLength > length buf then Inr False
                  else if marker \<in> set JPEG_SOF_MARKERS
                  then (if segmentLength < 8 then Inr False
                        else andThen (readUInt16BE buf (pos + 3)) (\<lambda>height.
                          if height > 0 then andThen (readUInt16BE buf (pos + 5)) (\<lambda>width. Inr (width > 0)) else Inr False))
                  else jpeg_scan buf (pos + segmentLength)))"
  by pat_completeness auto
termination
proof (relation "measure (\<lambda>(buf, offset). length buf - offset)", goal_cases)
  case (2 buf offset j marker pos)
  from 2(1,3,6) skip_fill_ge [of offset buf] have "offset < length buf" "offset < pos" by simp_all
  then show ?case by simp
next
  case (3 buf offset j marker pos segmentLength)
  from 3(1,3,6) skip_fill_ge [of offset buf] have "offset < length buf" "offset < pos + segmentLength" by simp_all
  then show ?case by simp
qed simp

declare jpeg_scan.simps [simp del]

definition isStructurallyValidJpegPrefix :: "buffer \<Rightarrow> bool result" where
  "isStructurallyValidJpegPrefix buf =
     (if length buf < 4 \<or> buf ! 0 \<noteq> 0xff \<or> buf ! 1 \<noteq> 0xd8 then Inr False else jpeg_scan buf 2)"

section \<open>PDF\<close>

definition hasPdfHeader :: "buffer \<Rightarrow> bool" where
  "hasPdfHeader buf =
     (if length buf < 8 then False
      else
        let text = ascii_text (subarray buf 0 8)
        in take 5 text = ''%PDF-'' \<and> text ! 5 \<in> {CHR ''1'', CHR ''2''} \<and> text ! 6 = CHR ''.'' \<and> char_digit (text ! 7))"

section \<open>ISO base media files\<close>

definition ACCEPTED_VIDEO_MP4_BRANDS :: "string list" where
  "ACCEPTED_VIDEO_MP4_BRANDS = [''isom'', ''iso2'', ''mp41'', ''mp42'', ''avc1'', ''M4V '']"

text \<open>\<open>for (let offset = 16; offset + 4 <= boxSize; offset += 4)\<close>\<close>

definition compatible_brands :: "buffer \<Rightarrow> nat \<Rightarrow> string list" where
  "compatible_brands buf boxSize =
     map (\<lambda>k. ascii_text (subarray buf (16 + 4 * k) (16 + 4 * k + 4))) [0..<(boxSize - 16) div 4]"

definition detectIsoBmffMime :: "buffer \<Rightarrow> string option result" where
  "detectIsoBmffMime buf =
     (if length buf < 16 \<or> ascii_text (subarray buf 4 8) \<noteq> ''ftyp'' then Inr None
      else andThen (readUInt32BE buf 0) (\<lambda>boxSize.
        if boxSize < 16 \<or> boxSize > length buf \<or> boxSize mod 4 \<noteq> 0 then Inr None
        else
          let brands = ascii_text (subarray buf 8 12) # compatible_brands buf boxSize
          in if ''qt  '' \<in> set brands then Inr (Some ''video/quicktime'')
             else if \<exists>brand \<in> set brands. take 2 brand = ''3g'' \<and> (brand ! 2 = CHR ''p'' \<or> brand ! 2 = CHR ''2'')
             then Inr (Some ''video/3gpp'')
             else if ''M4A '' \<in> set brands \<and> \<not> (\<exists>brand \<in> set brands. brand \<in> set [''M4V '', ''avc1''])
             then Inr (Some ''audio/mp4'')
             else if \<exists>brand \<in> set brands. brand \<in> set ACCEPTED_VIDEO_MP4_BRANDS then Inr (Some ''video/mp4'')
             else Inr None))"

section \<open>EBML\<close>

text \<open>\<open>while (length <= 8 && (first & marker) === 0)\<close>: the length and the marker when the loop ends.\<close>

function vint_marker :: "byte \<Rightarrow> nat \<Rightarrow> byte \<Rightarrow> nat \<times> byte" where
  "vint_marker first len marker =
     (if len \<le> 8 \<and> first AND marker = 0 then vint_marker first (len + 1) (drop_bit 1 marker) else (len, marker))"
  by pat_completeness auto
termination
  by (relation "measure (\<lambda>(_, len, _). 9 - len)") auto

declare vint_marker.simps [simp del]

definition MAX_SAFE_INTEGER :: int where
  "MAX_SAFE_INTEGER = 2 ^ 53 - 1"

text \<open>The value is a JavaScript number: eight bytes may exceed what a double holds exactly.\<close>

definition readEbmlVint :: "buffer \<Rightarrow> nat \<Rightarrow> bool \<Rightarrow> (nat \<times> nat) option" where
  "readEbmlVint buf offset preserveMarker =
     (if \<not> offset < length buf \<or> buf ! offset = 0 then None
      else
        let first = buf ! offset; (len, marker) = vint_marker first 1 0x80
        in if len > 8 \<or> offset + len > length buf then None
           else
             let start = (if preserveMarker then first else first AND (marker - 1));
                 result = foldl (\<lambda>v b. js_add (js_mul v 256) (of_nat (unat b))) (of_nat (unat start))
                           (subarray buf (offset + 1) (offset + len))
             in if \<bar>result\<bar> \<le> of_int MAX_SAFE_INTEGER then Some (len, nat \<lfloor>result\<rfloor>) else None)"

lemma vint_marker_len: "len \<le> fst (vint_marker first len marker)"
  by (induction first len marker rule: vint_marker.induct) (subst vint_marker.simps, auto)

lemma readEbmlVint_len: "readEbmlVint buf offset preserveMarker = Some (len, v) \<Longrightarrow> 1 \<le> len \<and> offset + len \<le> length buf"
  using vint_marker_len [of 1 "buf ! offset" "0x80"]
  by (auto simp: readEbmlVint_def Let_def split: if_splits prod.splits)

text \<open>A sum above \<open>2 ^ 53\<close> would be rounded, to a number that is still far beyond the end of the header, which
  is all that it is compared with.\<close>

function ebml_scan :: "buffer \<Rightarrow> nat \<Rightarrow> nat \<Rightarrow> string option" where
  "ebml_scan buf headerEnd offset =
     (if \<not> offset < headerEnd then None
      else case readEbmlVint buf offset True of
        None \<Rightarrow> None
      | Some (idLength, i) \<Rightarrow>
          (case readEbmlVint buf (offset + idLength) False of
             None \<Rightarrow> None
           | Some (sizeLength, valueSize) \<Rightarrow>
               let pos = offset + idLength + sizeLength; valueEnd = pos + valueSize
               in if valueEnd > headerEnd then None
                  else if i = 0x4282
                  then (let docType = toLowerCase (ascii_text (subarray buf pos valueEnd))
                        in if docType = ''webm'' then Some ''video/webm''
                           else if docType = ''matroska'' then Some ''video/x-matroska'' else None)
                  else ebml_scan buf headerEnd valueEnd))"
  by pat_completeness auto
termination
  by (relation "measure (\<lambda>(_, headerEnd, offset). headerEnd - offset)") (auto dest!: readEbmlVint_len)

declare ebml_scan.simps [simp del]

definition detectEbmlMime :: "buffer \<Rightarrow> string option" where
  "detectEbmlMime buf =
     (if subarray buf 0 4 \<noteq> [0x1a, 0x45, 0xdf, 0xa3] then None
      else case readEbmlVint buf 4 False of
        None \<Rightarrow> None
      | Some (rootLength, rootSize) \<Rightarrow>
          let offset = 4 + rootLength in ebml_scan buf (min (length buf) (offset + rootSize)) offset)"

section \<open>Detection\<close>

definition detectReinforcementProofMime :: "buffer \<Rightarrow> string option result" where
  "detectReinforcementProofMime prefix =
     andThen (isStructurallyValidPngPrefix prefix) (\<lambda>png.
     if png then Inr (Some ''image/png'')
     else andThen (isStructurallyValidJpegPrefix prefix) (\<lambda>jpeg.
     if jpeg then Inr (Some ''image/jpeg'')
     else if hasPdfHeader prefix then Inr (Some ''application/pdf'')
     else andThen (detectIsoBmffMime prefix) (\<lambda>isoBmffMime.
     if isoBmffMime \<noteq> None then Inr isoBmffMime
     else
       let ebmlMime = detectEbmlMime prefix
       in if ebmlMime \<noteq> None then Inr ebmlMime
          else if ascii_text (subarray prefix 0 6) = ''GIF87a'' \<or> ascii_text (subarray prefix 0 6) = ''GIF89a''
          then Inr (Some ''image/gif'')
          else if ascii_text (subarray prefix 0 4) = ''RIFF'' \<and> ascii_text (subarray prefix 8 12) = ''WEBP''
          then Inr (Some ''image/webp'')
          else if subarray prefix 0 4 = [0x50, 0x4b, 0x03, 0x04] \<or> subarray prefix 0 4 = [0x50, 0x4b, 0x05, 0x06]
          then Inr (Some ''application/zip'')
          else if ascii_text (subarray prefix 0 3) = ''ID3'' \<or>
                  (length prefix \<ge> 2 \<and> prefix ! 0 = 0xff \<and> (prefix ! 1) AND 0xe0 = 0xe0)
          then Inr (Some ''audio/mpeg'')
          else Inr None)))"

end
