(* ===== verification/Proof_Formats.thy ===== *)
theory Proof_Formats
  imports Proof_Content
begin

text \<open>
  What the detection of \<open>Proof_Content\<close> accepts: it never reads outside the buffer, the JPEG scanner accepts
  exactly the headers of a grammar, and the checksum of a PNG header tells apart headers that differ in four bytes.
\<close>

section \<open>Parts of a buffer\<close>

lemma subarray_drop: "subarray (drop p buf) i j = subarray buf (p + i) (p + j)"
  by (simp add: subarray_def add.commute)

lemma subarray_append:
  "length xs \<le> i \<Longrightarrow> subarray (xs @ ys) i j = subarray ys (i - length xs) (j - length xs)"
  "i \<le> j \<Longrightarrow> j \<le> length xs \<Longrightarrow> subarray (xs @ ys) i j = subarray xs i j"
  by (simp_all add: subarray_def)

definition big_endian_16 :: "nat \<Rightarrow> buffer" where
  "big_endian_16 n = [of_nat (n div 256), of_nat (n mod 256)]"

lemma big_endian_16_read: "n < 65536 \<Longrightarrow> big_endian (big_endian_16 n) = n"
  by (simp add: big_endian_16_def unat_of_nat less_mult_imp_div_less)

lemma read_big_endian_16: "big_endian_16 (big_endian [a, b]) = [a, b]"
proof -
  have "unat b < 256" using unsigned_less [of b, where 'a = nat] by simp
  then show ?thesis by (simp add: big_endian_16_def)
qed

lemma length_big_endian_16 [simp]: "length (big_endian_16 n) = 2"
  by (simp add: big_endian_16_def)

lemma drop_plus: "drop (i + j) xs = drop j (drop i xs)"
  by (simp add: add.commute)

text \<open>The height and the width of a frame header.\<close>

lemma frame_size:
  assumes "6 \<le> length payload"
  shows "subarray (big_endian_16 k @ payload @ rest) 3 5 = subarray payload 1 3"
    and "subarray (big_endian_16 k @ payload @ rest) 5 7 = subarray payload 3 5"
  using assms subarray_append(1) [of "big_endian_16 k" 3 "payload @ rest" 5]
    subarray_append(1) [of "big_endian_16 k" 5 "payload @ rest" 7]
    subarray_append(2) [of 1 3 payload rest] subarray_append(2) [of 3 5 payload rest] by simp_all

section \<open>JPEG headers\<close>

definition standalone_marker :: "byte \<Rightarrow> bool" where
  "standalone_marker m \<longleftrightarrow> m = 0x01 \<or> (0xd0 \<le> m \<and> m \<le> 0xd7)"

definition frame_marker :: "byte \<Rightarrow> bool" where
  "frame_marker m \<longleftrightarrow> m \<in> set JPEG_SOF_MARKERS"

text \<open>The markers of the other segments: neither fill, stuffing, start or end of image, start of scan.\<close>

definition segment_marker :: "byte \<Rightarrow> bool" where
  "segment_marker m \<longleftrightarrow>
     m \<notin> {0x00, 0xd8, 0xd9, 0xda, 0xff} \<and> \<not> standalone_marker m \<and> \<not> frame_marker m"

text \<open>The bytes after the start of image: segments with their lengths up to a frame header with a size that
  is not zero, every marker after any number of fill bytes.\<close>

inductive jpeg_segments :: "buffer \<Rightarrow> bool" where
  standalone: "0 < n \<Longrightarrow> standalone_marker m \<Longrightarrow> jpeg_segments rest \<Longrightarrow> jpeg_segments (replicate n 0xff @ m # rest)"
| segment: "0 < n \<Longrightarrow> segment_marker m \<Longrightarrow> length payload + 2 < 65536 \<Longrightarrow> jpeg_segments rest \<Longrightarrow>
    jpeg_segments (replicate n 0xff @ m # big_endian_16 (length payload + 2) @ payload @ rest)"
| frame: "0 < n \<Longrightarrow> frame_marker m \<Longrightarrow> length payload + 2 < 65536 \<Longrightarrow> 6 \<le> length payload \<Longrightarrow>
    0 < big_endian (subarray payload 1 3) \<Longrightarrow> 0 < big_endian (subarray payload 3 5) \<Longrightarrow>
    jpeg_segments (replicate n 0xff @ m # big_endian_16 (length payload + 2) @ payload @ rest)"

lemma marker_classes:
  "standalone_marker m \<Longrightarrow> m \<notin> {0x00, 0xd8, 0xd9, 0xff}"
  "frame_marker m \<Longrightarrow> m \<notin> {0x00, 0xd8, 0xd9, 0xda, 0xff} \<and> \<not> standalone_marker m"
  by (auto simp: standalone_marker_def frame_marker_def JPEG_SOF_MARKERS_def)

text \<open>The scanner at a marker.\<close>

lemma skip_fill_at:
  assumes "drop offset buf = replicate n 0xff @ m # tail" "m \<noteq> 0xff"
  shows "skip_fill buf offset = offset + n"
proof -
  have "takeWhile (\<lambda>b. b = 0xff) (replicate n 0xff @ m # tail) = replicate n 0xff"
    using assms(2) by (induction n) auto
  then show ?thesis by (simp add: skip_fill_def assms(1))
qed

lemma buffer_at:
  assumes "drop offset buf = xs @ y # ys"
  shows "offset + length xs < length buf" "buf ! (offset + length xs) = y" "drop (Suc (offset + length xs)) buf = ys"
proof -
  have len: "length buf - offset = length xs + Suc (length ys)" using assms by (metis length_append length_drop length_Cons)
  then show "offset + length xs < length buf" by linarith
  have "buf ! (offset + length xs) = drop offset buf ! length xs" using len by (subst nth_drop) auto
  then show "buf ! (offset + length xs) = y" by (simp add: assms)
  have "drop (Suc (offset + length xs)) buf = drop (Suc (length xs)) (drop offset buf)" by (simp add: add.commute)
  then show "drop (Suc (offset + length xs)) buf = ys" by (simp add: assms)
qed

lemma jpeg_scan_marker:
  assumes at: "drop offset buf = replicate n 0xff @ m # tail" and "0 < n" "m \<noteq> 0xff" and pos: "pos = Suc (offset + n)"
  shows "jpeg_scan buf offset =
    (if m = 0x00 \<or> m = 0xd8 \<or> m = 0xd9 then Inr False
     else if standalone_marker m then jpeg_scan buf pos
     else if m = 0xda then Inr False
     else if length tail < 2 then Inr False
     else
       let segmentLength = big_endian (subarray tail 0 2)
       in if segmentLength < 2 \<or> segmentLength > length tail then Inr False
          else if frame_marker m
          then (if segmentLength < 8 then Inr False
                else Inr (big_endian (subarray tail 3 5) > 0 \<and> big_endian (subarray tail 5 7) > 0))
          else jpeg_scan buf (pos + segmentLength))"
proof -
  note b = buffer_at [OF at, unfolded length_replicate]
  have f: "skip_fill buf offset = offset + n" using at assms(3) by (rule skip_fill_at)
  have "drop offset buf = [] @ 0xff # replicate (n - 1) 0xff @ m # tail"
    using at \<open>0 < n\<close> by (cases n) auto
  from buffer_at [OF this] have o: "offset < length buf" "buf ! offset = 0xff" by simp_all
  have p: "drop pos buf = tail" "pos \<le> length buf" using b pos by auto
  then have len: "length tail = length buf - pos" by (metis length_drop)
  have sub: "subarray buf (pos + i) (pos + j) = subarray tail i j" for i j
    using subarray_drop [of pos buf i j] p by simp
  have two: "length tail \<ge> 2 \<Longrightarrow> readUInt16BE buf pos = Inr (big_endian (subarray tail 0 2))"
    using sub [of 0 2] len by simp
  have h: "k + 2 \<le> length tail \<Longrightarrow> readUInt16BE buf (pos + k) = Inr (big_endian (subarray tail k (k + 2)))" for k
    using sub [of k "k + 2"] len by (simp add: add.assoc)
  show ?thesis
    using two h [of 3] h [of 5] o b(1,2) p(2) len
    by (subst jpeg_scan.simps)
      (auto simp: f Let_def pos [symmetric] standalone_marker_def frame_marker_def)
qed

lemma fill_split:
  assumes "xs \<noteq> []" "hd xs = c" "length (takeWhile (\<lambda>b. b = c) xs) < length xs"
  obtains n m tail where "xs = replicate n c @ m # tail" "0 < n" "m \<noteq> c"
proof -
  let ?fill = "takeWhile (\<lambda>b. b = c) xs" and ?rest = "dropWhile (\<lambda>b. b = c) xs"
  have xs: "xs = ?fill @ ?rest" by simp
  have ne: "?rest \<noteq> []"
  proof
    assume "?rest = []"
    then have "?fill = xs" by (metis append_Nil2 takeWhile_dropWhile_id)
    with assms(3) show False by simp
  qed
  have "?fill = replicate (length ?fill) c"
    by (rule replicate_length_same [symmetric]) (auto dest: set_takeWhileD)
  moreover have "?rest = hd ?rest # tl ?rest" "hd ?rest \<noteq> c"
    using ne hd_dropWhile [OF ne] by simp_all
  ultimately have "xs = replicate (length ?fill) c @ hd ?rest # tl ?rest" by (metis xs)
  moreover have "0 < length ?fill" using assms(1,2) by (cases xs) auto
  ultimately show ?thesis using that \<open>hd ?rest \<noteq> c\<close> by blast
qed

lemma jpeg_scan_starts:
  assumes "jpeg_scan buf offset = Inr True"
  obtains n m tail where "drop offset buf = replicate n 0xff @ m # tail" "0 < n" "m \<noteq> 0xff"
proof -
  have o: "offset < length buf" "buf ! offset = 0xff" "skip_fill buf offset < length buf"
    using assms by (auto simp: jpeg_scan.simps [of buf offset] Let_def split: if_splits)
  then have "drop offset buf \<noteq> []" "hd (drop offset buf) = 0xff" by (simp_all add: hd_drop_conv_nth)
  moreover have "length (takeWhile (\<lambda>b. b = 0xff) (drop offset buf)) < length (drop offset buf)"
    using o by (simp add: skip_fill_def less_diff_conv add.commute)
  ultimately show ?thesis using that by (rule fill_split)
qed

lemma segment_split:
  assumes "2 \<le> length tail" "2 \<le> big_endian (subarray tail 0 2)" "big_endian (subarray tail 0 2) \<le> length tail"
  obtains payload rest where
    "tail = big_endian_16 (length payload + 2) @ payload @ rest" "length payload + 2 = big_endian (subarray tail 0 2)"
    "length payload + 2 < 65536" "rest = drop (length payload + 2) tail"
proof -
  obtain a b xs where t: "tail = [a, b] @ xs" using assms(1) by (cases tail; cases "tl tail") auto
  have k: "big_endian (subarray tail 0 2) = big_endian [a, b]" by (simp add: t subarray_def)
  obtain j where j: "big_endian [a, b] = j + 2" using assms(2) unfolding k by (metis le_Suc_ex add.commute)
  have len: "length (take j xs) = j" using assms(3) unfolding k j by (simp add: t)
  have "[a, b] = big_endian_16 (j + 2)" by (metis j read_big_endian_16)
  then have "tail = big_endian_16 (length (take j xs) + 2) @ take j xs @ drop j xs"
    unfolding len t by simp
  moreover have "length (take j xs) + 2 = big_endian (subarray tail 0 2)" unfolding len k j ..
  moreover have "length (take j xs) + 2 < 65536" using big_endian_bound [of "[a, b]"] unfolding len j by simp
  moreover have "drop j xs = drop (length (take j xs) + 2) tail" unfolding len t by simp
  ultimately show ?thesis by (rule that)
qed

lemma jpeg_scan_sound: "jpeg_scan buf offset = Inr True \<Longrightarrow> jpeg_segments (drop offset buf)"
proof (induction "length buf - offset" arbitrary: offset rule: less_induct)
  case less
  from less.prems obtain n m tail where at: "drop offset buf = replicate n 0xff @ m # tail" "0 < n" "m \<noteq> 0xff"
    by (rule jpeg_scan_starts)
  define pos where "pos = Suc (offset + n)"
  note scan = less.prems [unfolded jpeg_scan_marker [OF at pos_def]]
  have tail: "drop pos buf = tail" "offset < pos" "offset < length buf"
    using buffer_at [OF at(1)] at(2) by (auto simp: pos_def)
  show ?case
  proof (cases "standalone_marker m")
    case True
    then have "jpeg_segments tail" using less.hyps [of pos] scan tail by (auto split: if_splits)
    then show ?thesis using at True by (auto intro: jpeg_segments.standalone)
  next
    case False
    let ?k = "big_endian (subarray tail 0 2)"
    have k: "2 \<le> length tail" "2 \<le> ?k" "?k \<le> length tail" using scan False by (auto simp: Let_def split: if_splits)
    then obtain payload rest where p: "tail = big_endian_16 (length payload + 2) @ payload @ rest"
      "length payload + 2 = ?k" "length payload + 2 < 65536" "rest = drop (length payload + 2) tail"
      by (rule segment_split)
    show ?thesis
    proof (cases "frame_marker m")
      case True
      then have "8 \<le> ?k" "0 < big_endian (subarray tail 3 5)" "0 < big_endian (subarray tail 5 7)"
        using scan False k by (auto simp: Let_def split: if_splits)
      moreover from \<open>8 \<le> ?k\<close> p(2) have "6 \<le> length payload" by simp
      then have "subarray tail 3 5 = subarray payload 1 3" "subarray tail 5 7 = subarray payload 3 5"
        using frame_size p(1) by metis+
      ultimately have "jpeg_segments (replicate n 0xff @ m # big_endian_16 (length payload + 2) @ payload @ rest)"
        using True at(2) p(2,3) by (intro jpeg_segments.frame) simp_all
      then show ?thesis by (simp only: at(1) p(1) [symmetric])
    next
      case seg: False
      have "jpeg_scan buf (pos + ?k) = Inr True" using scan False seg k by (auto simp: Let_def split: if_splits)
      moreover have "drop (pos + ?k) buf = rest" by (simp only: drop_plus tail(1) p(2,4))
      ultimately have "jpeg_segments rest" using less.hyps [of "pos + ?k"] tail by simp
      moreover have "segment_marker m"
        using scan False seg at(3) by (auto simp: segment_marker_def Let_def split: if_splits)
      ultimately have "jpeg_segments (replicate n 0xff @ m # big_endian_16 (length payload + 2) @ payload @ rest)"
        using at(2) p(3) by (intro jpeg_segments.segment)
      then show ?thesis by (simp only: at(1) p(1) [symmetric])
    qed
  qed
qed

lemma jpeg_scan_complete: "jpeg_segments s \<Longrightarrow> drop offset buf = s \<Longrightarrow> jpeg_scan buf offset = Inr True"
proof (induction s arbitrary: offset rule: jpeg_segments.induct)
  case (standalone n m rest)
  then show ?case
    using jpeg_scan_marker [OF standalone.prems _ _ refl] marker_classes(1) [of m] buffer_at(3) [OF standalone.prems] by auto
next
  case (segment n m payload rest)
  let ?tail = "big_endian_16 (length payload + 2) @ payload @ rest"
  have m: "m \<noteq> 0xff" using segment by (simp add: segment_marker_def)
  have k: "big_endian (subarray ?tail 0 2) = length payload + 2"
    using segment(3) by (simp add: subarray_append subarray_def big_endian_16_read)
  have "drop (Suc (offset + n) + (length payload + 2)) buf = rest"
    using buffer_at(3) [OF segment.prems] by (simp only: drop_plus length_replicate) simp
  then have "jpeg_scan buf (Suc (offset + n) + (length payload + 2)) = Inr True" by (rule segment.IH)
  then show ?case
    using segment.hyps jpeg_scan_marker [OF segment.prems _ m refl] k by (auto simp: segment_marker_def Let_def)
next
  case (frame n m payload rest)
  let ?tail = "big_endian_16 (length payload + 2) @ payload @ rest"
  have m: "m \<notin> {0x00, 0xd8, 0xd9, 0xda, 0xff}" "\<not> standalone_marker m" using frame marker_classes(2) by auto
  have k: "big_endian (subarray ?tail 0 2) = length payload + 2"
    using frame(3) by (simp add: subarray_append subarray_def big_endian_16_read)
  show ?case
    using frame.hyps jpeg_scan_marker [OF frame.prems _ _ refl] k m by (auto simp: frame_size Let_def)
qed

text \<open>C14. A buffer is accepted as JPEG exactly when it starts with a start of image marker and a sequence of
  segments of the grammar that reaches a frame header with a size.\<close>

theorem jpeg_prefix_exact:
  "isStructurallyValidJpegPrefix buf = Inr True \<longleftrightarrow> (\<exists>rest. buf = [0xff, 0xd8] @ rest \<and> jpeg_segments rest)"
proof
  assume "isStructurallyValidJpegPrefix buf = Inr True"
  then have "4 \<le> length buf" "buf ! 0 = 0xff" "buf ! 1 = 0xd8" "jpeg_scan buf 2 = Inr True"
    by (auto simp: isStructurallyValidJpegPrefix_def split: if_splits)
  then show "\<exists>rest. buf = [0xff, 0xd8] @ rest \<and> jpeg_segments rest"
    using jpeg_scan_sound [of buf 2] by (cases buf; cases "tl buf") (auto simp: numeral_2_eq_2)
next
  assume "\<exists>rest. buf = [0xff, 0xd8] @ rest \<and> jpeg_segments rest"
  then obtain rest where r: "buf = [0xff, 0xd8] @ rest" "jpeg_segments rest" by blast
  from r(2) have "2 \<le> length rest" by (cases rule: jpeg_segments.cases) (auto simp: Suc_le_eq)
  then show "isStructurallyValidJpegPrefix buf = Inr True"
    using r jpeg_scan_complete [OF r(2), of 2 buf] by (simp add: isStructurallyValidJpegPrefix_def)
qed

section \<open>No read outside the buffer\<close>

lemma png_no_error: "isStructurallyValidPngPrefix buf \<noteq> Inl e"
  by (simp add: isStructurallyValidPngPrefix_def Let_def)

lemma png_total: "\<exists>v. isStructurallyValidPngPrefix buf = Inr v"
  using png_no_error [of buf] by (cases "isStructurallyValidPngPrefix buf") auto

lemma jpeg_scan_total: "jpeg_scan buf offset \<noteq> Inl e"
proof (induction "length buf - offset" arbitrary: offset rule: less_induct)
  case less
  show ?case
  proof (cases "offset < length buf \<and> buf ! offset = 0xff \<and> skip_fill buf offset < length buf")
    case True
    then have "drop offset buf \<noteq> []" "hd (drop offset buf) = 0xff" by (simp_all add: hd_drop_conv_nth)
    moreover have "length (takeWhile (\<lambda>b. b = 0xff) (drop offset buf)) < length (drop offset buf)"
      using True by (simp add: skip_fill_def less_diff_conv add.commute)
    ultimately obtain n m tail where at: "drop offset buf = replicate n 0xff @ m # tail" "0 < n" "m \<noteq> 0xff"
      by (rule fill_split)
    have "jpeg_scan buf (Suc (offset + n) + k) \<noteq> Inl e" for k
      using True by (intro less.hyps) linarith
    from this this [of 0] show ?thesis by (simp add: jpeg_scan_marker [OF at refl] Let_def del: add_Suc)
  next
    case False
    then show ?thesis by (auto simp: jpeg_scan.simps [of buf offset] Let_def)
  qed
qed

lemma jpeg_total: "\<exists>v. isStructurallyValidJpegPrefix buf = Inr v"
  using jpeg_scan_total [of buf 2] by (cases "isStructurallyValidJpegPrefix buf") (auto simp: isStructurallyValidJpegPrefix_def split: if_splits)

lemma iso_total: "\<exists>v. detectIsoBmffMime buf = Inr v"
  by (auto simp: detectIsoBmffMime_def Let_def)

text \<open>The detection answers for every buffer: no read is outside of it, whatever lengths it claims.\<close>

theorem detection_never_raises: "\<exists>mime. detectReinforcementProofMime prefix = Inr mime"
proof -
  obtain p j i where "isStructurallyValidPngPrefix prefix = Inr p" "isStructurallyValidJpegPrefix prefix = Inr j"
    "detectIsoBmffMime prefix = Inr i"
    using png_total [of prefix] jpeg_total [of prefix] iso_total [of prefix] by blast
  then show ?thesis by (simp add: detectReinforcementProofMime_def Let_def)
qed

section \<open>Corrupted PNG headers\<close>

lemma big_endian_inj: "length xs = length ys \<Longrightarrow> big_endian xs = big_endian ys \<Longrightarrow> xs = ys"
proof (induction xs ys rule: list_induct2)
  case (Cons x xs y ys)
  let ?n = "256 ^ length ys :: nat"
  have "unat x * ?n + big_endian xs = unat y * ?n + big_endian ys" "big_endian xs < ?n" "big_endian ys < ?n"
    using Cons.prems Cons.hyps big_endian_bound [of xs] big_endian_bound [of ys] by simp_all
  then have "(unat x * ?n + big_endian xs) div ?n = (unat y * ?n + big_endian ys) div ?n"
    "(unat x * ?n + big_endian xs) mod ?n = (unat y * ?n + big_endian ys) mod ?n" by simp_all
  then have "unat x = unat y" "big_endian xs = big_endian ys"
    using \<open>big_endian xs < ?n\<close> \<open>big_endian ys < ?n\<close> by simp_all
  then show ?case using Cons.IH by (simp add: word_unat_eq_iff)
qed simp

text \<open>The checksum tells buffers apart that agree outside a window of four bytes.\<close>

lemma crc32_window:
  assumes len: "length x = length y" and w: "take i x = take i y" "drop (i + 4) x = drop (i + 4) y"
    and crc: "crc32 x = crc32 y"
  shows "x = y"
proof -
  have parts: "z = take i z @ take 4 (drop i z) @ drop (i + 4) z" for z :: buffer
    by (simp only: drop_plus append_take_drop_id)
  have x: "x = take i x @ take 4 (drop i x) @ drop (i + 4) x" by (rule parts)
  have y: "y = take i x @ take 4 (drop i y) @ drop (i + 4) x" using parts [of y] by (simp only: w)
  have "take 4 (drop i x) = take 4 (drop i y)"
    by (rule crc32_burst [of _ _ "take i x" "drop (i + 4) x"]) (use len crc x y in auto)
  then show ?thesis using x y by metis
qed

lemma png_fields:
  assumes "isStructurallyValidPngPrefix buf = Inr True"
  shows "33 \<le> length buf" "subarray buf 0 8 = PNG_SIGNATURE" "big_endian (subarray buf 8 12) = 13"
    "big_endian (subarray buf 29 33) = crc32 (subarray buf 12 29)"
  using assms by (auto simp: isStructurallyValidPngPrefix_def Let_def split: if_splits)

lemma same_subarrays:
  assumes "subarray x 0 8 = subarray y 0 8" "subarray x 8 12 = subarray y 8 12"
    "subarray x 12 29 = subarray y 12 29" "subarray x 29 33 = subarray y 29 33" "drop 33 x = drop 33 y"
  shows "x = y"
proof -
  have split: "z = subarray z 0 8 @ subarray z 8 12 @ subarray z 12 29 @ subarray z 29 33 @ drop 33 z" for z :: buffer
  proof -
    have "drop k z = take (m - k) (drop k z) @ drop m z" if "k \<le> m" for k m
      using that append_take_drop_id [of "m - k" "drop k z"] by simp
    from this [of 0 8] this [of 8 12] this [of 12 29] this [of 29 33] show ?thesis by (simp add: subarray_def)
  qed
  show ?thesis by (subst split [of x], subst split [of y]) (simp add: assms)
qed

lemma window_subarray:
  assumes "take i x = take i y" "drop (i + 4) x = drop (i + 4) y" "b \<le> i \<or> i + 4 \<le> a"
  shows "subarray x a b = subarray y a b"
proof (cases "b \<le> i")
  case True
  have "subarray z a b = take (b - a) (drop a (take i z))" for z :: buffer
    using True by (simp add: subarray_def drop_take)
  then show ?thesis using assms(1) by metis
next
  case False
  then have "subarray z a b = take (b - a) (drop (a - (i + 4)) (drop (i + 4) z))" for z :: buffer
    using assms(3) by (simp add: subarray_def)
  then show ?thesis using assms(2) by metis
qed

section \<open>Text in a buffer\<close>

text \<open>Decoding as ASCII drops the highest bit of every byte, so a header whose bytes all have that bit set, which no
  reader of the format accepts, passes for a PDF.\<close>

lemma ascii_text_high_bits: "ascii_text (map (\<lambda>b. b OR 128) bs) = ascii_text bs"
proof -
  have "(b OR 128) AND 127 = b AND (127 :: byte)" for b
    by (simp add: bit.conj_disj_distrib2)
  then show ?thesis by (simp add: ascii_text_def)
qed

lemma pdf_header_high_bits: "hasPdfHeader (map (\<lambda>b. b OR 128) bs) = hasPdfHeader bs"
proof -
  have "ascii_text (subarray (map (\<lambda>b. b OR 128) bs) 0 8) = ascii_text (subarray bs 0 8)"
    using ascii_text_high_bits [of "subarray bs 0 8"] by (simp add: subarray_def take_map)
  then show ?thesis by (simp add: hasPdfHeader_def)
qed

lemma high_bits_detected:
  "detectReinforcementProofMime (map (\<lambda>b. b OR 128) (ascii_bytes ''%PDF-1.7'')) = Inr (Some ''application/pdf'')"
  by code_simp

end
