(* ===== verification/Proof_Integers.thy ===== *)
theory Proof_Integers
  imports Proof_Formats
begin

text \<open>
  The variable length integers of an EBML header (\<open>readEbmlVint\<close> of \<open>Proof_Content\<close>). The code accumulates
  the value in a double, which holds no integer above \<open>2 ^ 53\<close> exactly; the check \<open>Number.isSafeInteger\<close> after
  the loop is enough: what is returned is exact, and what a double cannot hold is refused. The last section shows that
  a PNG header with a burst of changed bytes is refused, and applies it to a header.
\<close>

section \<open>The length of an integer\<close>

definition vint_length :: "byte \<Rightarrow> nat" where
  "vint_length first = fst (vint_marker first 1 0x80)"

definition vint_first :: "byte \<Rightarrow> bool" where
  "vint_first first =
     (let (len, marker) = vint_marker first 1 0x80; low = unat (first AND (marker - 1))
      in 1 \<le> len \<and> len \<le> 8 \<and> unat first = 2 ^ (8 - len) + low \<and> low < 2 ^ (8 - len))"

lemma vint_first_all: "first \<noteq> 0 \<Longrightarrow> vint_first first"
proof -
  assume f: "first \<noteq> 0"
  have "list_all (\<lambda>n. vint_first (of_nat n)) [1..<256]" by code_simp
  moreover have "unat first < 256" using unsigned_less [of first, where 'a = nat] by simp
  moreover have "1 \<le> unat first" using f by (simp add: Suc_leI unat_gt_0)
  ultimately have "vint_first (of_nat (unat first))"
    unfolding list_all_iff set_upt by (metis atLeastLessThan_iff)
  then show ?thesis by simp
qed

section \<open>Accumulation in a double\<close>

declare of_nat_unat [simp del]

definition accumulate :: "rat \<Rightarrow> buffer \<Rightarrow> rat" where
  "accumulate = foldl (\<lambda>v b. js_add (js_mul v 256) (of_nat (unat b)))"

lemma accumulate_simps [simp]:
  "accumulate v [] = v" "accumulate v (b # bs) = accumulate (js_add (js_mul v 256) (of_nat (unat b))) bs"
  by (simp_all add: accumulate_def)

lemma fl_nat: "n \<le> 2 ^ 53 \<Longrightarrow> fl (of_nat n) = of_nat n"
  using fl_int [of "int n"] by simp

lemma fl_limit [simp]: "fl 9007199254740992 = 9007199254740992"
  using fl_nat [of "2 ^ 53"] by simp

lemma step_exact:
  assumes "n * 256 + unat b \<le> 2 ^ 53"
  shows "js_add (js_mul (of_nat n) 256) (of_nat (unat b)) = of_nat (n * 256 + unat b)"
proof -
  have "js_mul (of_nat n) 256 = of_nat (n * 256)" using assms fl_nat [of "n * 256"] by (simp add: js_mul_def)
  then show ?thesis using assms fl_nat [of "n * 256 + unat b"] by (simp add: js_add_def)
qed

lemma step_large:
  assumes "2 ^ 53 \<le> v"
  shows "2 ^ 53 \<le> js_add (js_mul v 256) (of_nat (unat b))"
proof -
  have "2 ^ 53 \<le> v * 256" using assms by simp
  then have "fl (of_nat (2 ^ 53)) \<le> js_mul v 256" unfolding js_mul_def by (intro fl_mono) simp
  then have "2 ^ 53 \<le> js_mul v 256 + of_nat (unat b)" by (simp add: fl_nat add_increasing2)
  then have "fl (of_nat (2 ^ 53)) \<le> js_add (js_mul v 256) (of_nat (unat b))" unfolding js_add_def by (intro fl_mono) simp
  then show ?thesis by (simp add: fl_nat)
qed

lemma step_crosses:
  assumes "2 ^ 53 \<le> n * 256 + unat b"
  shows "2 ^ 53 \<le> js_add (js_mul (of_nat n) 256) (of_nat (unat b))"
proof (cases "n * 256 \<le> 2 ^ 53")
  case True
  then have "js_mul (of_nat n) 256 = of_nat (n * 256)" using fl_nat [of "n * 256"] by (simp add: js_mul_def)
  then have "of_nat (2 ^ 53) \<le> js_mul (of_nat n) 256 + of_nat (unat b)"
    using assms by (simp only: of_nat_add [symmetric] of_nat_le_iff)
  then have "fl (of_nat (2 ^ 53)) \<le> js_add (js_mul (of_nat n) 256) (of_nat (unat b))" unfolding js_add_def by (rule fl_mono)
  then show ?thesis by (simp add: fl_nat)
next
  case False
  then have "of_nat (2 ^ 53) \<le> (of_nat (n * 256) :: rat)" unfolding of_nat_le_iff by simp
  then have "fl (of_nat (2 ^ 53)) \<le> js_mul (of_nat n) 256" unfolding js_mul_def by (intro fl_mono) simp
  then have "of_nat (2 ^ 53) \<le> js_mul (of_nat n) 256 + of_nat (unat b)" by (simp add: fl_nat add_increasing2)
  then have "fl (of_nat (2 ^ 53)) \<le> js_add (js_mul (of_nat n) 256) (of_nat (unat b))" unfolding js_add_def by (rule fl_mono)
  then show ?thesis by (simp add: fl_nat)
qed

lemma accumulate_large: "2 ^ 53 \<le> v \<Longrightarrow> 2 ^ 53 \<le> accumulate v bs"
proof (induction bs arbitrary: v)
  case (Cons b bs)
  then show ?case using step_large [of v b] by simp
qed simp

lemma accumulate_value:
  "(n * 256 ^ length bs + big_endian bs < 2 ^ 53 \<longrightarrow>
      accumulate (of_nat n) bs = of_nat (n * 256 ^ length bs + big_endian bs)) \<and>
   (2 ^ 53 \<le> n * 256 ^ length bs + big_endian bs \<longrightarrow> 2 ^ 53 \<le> accumulate (of_nat n) bs)"
proof (induction bs arbitrary: n)
  case Nil
  have "2 ^ 53 \<le> n \<longleftrightarrow> of_nat (2 ^ 53) \<le> (of_nat n :: rat)" by (simp only: of_nat_le_iff)
  then show ?case by simp
next
  case (Cons b bs)
  let ?m = "n * 256 + unat b"
  have total: "n * 256 ^ length (b # bs) + big_endian (b # bs) = ?m * 256 ^ length bs + big_endian bs"
    by (simp add: algebra_simps)
  show ?case
  proof (cases "?m < 2 ^ 53")
    case True
    then show ?thesis using Cons.IH [of ?m] step_exact [of n b] unfolding total by simp
  next
    case False
    then have "2 ^ 53 \<le> ?m * 256 ^ length bs" by (metis mult_le_mono not_less one_le_numeral one_le_power mult.right_neutral)
    moreover have "2 ^ 53 \<le> accumulate (of_nat n) (b # bs)"
      using False step_crosses [of n b] accumulate_large by simp
    ultimately show ?thesis unfolding total by simp
  qed
qed

section \<open>The integer that is read\<close>

lemma readEbmlVint_value:
  assumes "offset < length buf" "buf ! offset \<noteq> 0" and len_def: "len = vint_length (buf ! offset)"
    and v_def: "v = big_endian (subarray buf offset (offset + len)) - (if preserveMarker then 0 else 2 ^ (7 * len))"
  shows "readEbmlVint buf offset preserveMarker =
    (if offset + len \<le> length buf \<and> v < 2 ^ 53 then Some (len, v) else None)"
proof -
  let ?first = "buf ! offset"
  obtain marker where m: "vint_marker ?first 1 0x80 = (len, marker)"
    by (metis len_def vint_length_def prod.collapse)
  let ?low = "unat (?first AND (marker - 1))"
  define start where "start = unat (if preserveMarker then ?first else ?first AND (marker - 1))"
  have f: "1 \<le> len" "len \<le> 8" "unat ?first = 2 ^ (8 - len) + ?low"
    using vint_first_all [OF assms(2)] unfolding vint_first_def m prod.case Let_def by blast+
  show ?thesis
  proof (cases "offset + len \<le> length buf")
    case True
    let ?rest = "subarray buf (offset + 1) (offset + len)"
    have rest: "length ?rest = len - 1" using True f(1) by simp
    have "subarray buf offset (offset + len) = ?first # ?rest"
      using assms(1) f(1) by (simp add: subarray_def take_Cons' flip: Cons_nth_drop_Suc)
    then have be: "big_endian (subarray buf offset (offset + len)) = unat ?first * 256 ^ (len - 1) + big_endian ?rest"
      using rest by simp
    have "2 ^ (8 - len) * 256 ^ (len - 1) = (2 :: nat) ^ (8 - len + 8 * (len - 1))"
      by (simp add: power_add power_mult)
    also have "8 - len + 8 * (len - 1) = 7 * len" using f by simp
    finally have v: "v = start * 256 ^ length ?rest + big_endian ?rest"
      by (auto simp only: v_def start_def be rest f(3) add_mult_distrib split: if_split)
    have acc: "readEbmlVint buf offset preserveMarker =
        (let r = accumulate (of_nat start) ?rest
         in if \<bar>r\<bar> \<le> of_int MAX_SAFE_INTEGER then Some (len, nat \<lfloor>r\<rfloor>) else None)"
      using assms(1,2) True f(2) by (simp add: readEbmlVint_def m accumulate_def start_def Let_def del: One_nat_def)
    show ?thesis
    proof (cases "v < 2 ^ 53")
      case small: True
      then have r: "accumulate (of_nat start) ?rest = of_nat v"
        using accumulate_value [of _ ?rest] unfolding v by blast
      have "of_int (int v) \<le> (of_int MAX_SAFE_INTEGER :: rat)"
        using small unfolding of_int_le_iff by (simp add: MAX_SAFE_INTEGER_def)
      then show ?thesis using True small by (simp add: acc r Let_def del: One_nat_def)
    next
      case False
      then have "2 ^ 53 \<le> accumulate (of_nat start) ?rest"
        using accumulate_value [of _ ?rest] unfolding v by force
      then show ?thesis using False by (simp add: acc Let_def MAX_SAFE_INTEGER_def)
    qed
  next
    case False
    then show ?thesis using assms(1,2) by (simp add: readEbmlVint_def m del: One_nat_def)
  qed
qed

section \<open>Writing an integer\<close>

text \<open>The bytes of an integer of a given length: a one bit after \<open>len - 1\<close> zero bits, then the value.\<close>

fun big_endian_bytes :: "nat \<Rightarrow> nat \<Rightarrow> buffer" where
  "big_endian_bytes 0 n = []"
| "big_endian_bytes (Suc k) n = of_nat (n div 256 ^ k) # big_endian_bytes k n"

definition write_vint :: "nat \<Rightarrow> nat \<Rightarrow> buffer" where
  "write_vint len v = big_endian_bytes len (2 ^ (7 * len) + v)"

lemma length_big_endian_bytes [simp]: "length (big_endian_bytes k n) = k"
  by (induction k) simp_all

lemma big_endian_bytes_value: "big_endian (big_endian_bytes k n) = n mod 256 ^ k"
proof (induction k)
  case (Suc k)
  have "n mod 256 ^ Suc k = n div 256 ^ k mod 256 * 256 ^ k + n mod 256 ^ k"
    using mod_mult2_eq [of n "256 ^ k" 256] by (simp add: mult.commute)
  then show ?case using Suc by (simp add: unat_of_nat)
qed simp

lemma vint_length_unique:
  assumes "first \<noteq> 0" "1 \<le> len" "len \<le> 8" "2 ^ (8 - len) \<le> unat first" "unat first < 2 ^ (9 - len)"
  shows "vint_length first = len"
proof -
  obtain l m where m: "vint_marker first 1 0x80 = (l, m)" by fastforce
  have f: "1 \<le> l" "l \<le> 8" "unat first = 2 ^ (8 - l) + unat (first AND (m - 1))" "unat (first AND (m - 1)) < 2 ^ (8 - l)"
    using vint_first_all [OF assms(1)] unfolding vint_first_def m prod.case Let_def by blast+
  then have "unat first < 2 ^ Suc (8 - l)" "2 ^ (8 - l) \<le> unat first" by simp_all
  then have "(2 :: nat) ^ (8 - len) < 2 ^ Suc (8 - l)" "(2 :: nat) ^ (8 - l) < 2 ^ (9 - len)" using assms by linarith+
  then have "8 - len < Suc (8 - l)" "8 - l < 9 - len"
    by (simp_all only: power_less_imp_less_exp [of "2 :: nat", simplified one_less_numeral_iff semiring_norm simp_thms])
  with assms(2,3) f(1,2) have "l = len" by linarith
  then show ?thesis by (simp add: vint_length_def m del: One_nat_def)
qed

text \<open>C17. What is written is read back, for every length and every value that fits, wherever it stands in a
  buffer, up to the largest integer the caller can use; a larger value is refused.\<close>

theorem vint_roundtrip:
  assumes "1 \<le> len" "len \<le> 8" "v < 2 ^ (7 * len)"
  shows "readEbmlVint (before @ write_vint len v @ after) (length before) False =
    (if v < 2 ^ 53 then Some (len, v) else None)"
proof -
  let ?n = "2 ^ (7 * len) + v" and ?buf = "before @ write_vint len v @ after"
  obtain k where k: "len = Suc k" using assms(1) by (cases len) auto
  have p: "(2 :: nat) ^ (7 * len) = 2 ^ (8 - len) * 256 ^ k"
  proof -
    have "2 ^ (8 - len) * 256 ^ k = (2 :: nat) ^ (8 - len + 8 * k)" by (simp add: power_add power_mult)
    also have "8 - len + 8 * k = 7 * len" using assms(2) k by simp
    finally show ?thesis by simp
  qed
  have "?n < 2 * (2 ^ (8 - len) * 256 ^ k)" "2 ^ (8 - len) * 256 ^ k \<le> ?n" using assms(3) p by simp_all
  then have d: "?n div 256 ^ k < 2 * 2 ^ (8 - len)" "2 ^ (8 - len) \<le> ?n div 256 ^ k"
    by (simp_all add: less_mult_imp_div_less less_eq_div_iff_mult_less_eq)
  have e: "(2 :: nat) * 2 ^ (8 - len) = 2 ^ (9 - len)" "(2 :: nat) ^ (9 - len) \<le> 2 ^ 8"
    using assms(1,2) power_increasing [of "9 - len" 8 "2 :: nat"] by (simp_all add: Suc_diff_le flip: power_Suc)
  have first: "?buf ! length before = of_nat (?n div 256 ^ k)" by (simp add: write_vint_def k nth_append)
  moreover have u: "unat (of_nat (?n div 256 ^ k) :: byte) = ?n div 256 ^ k"
    using d e by (simp add: unat_of_nat)
  ultimately have "vint_length (?buf ! length before) = len" "?buf ! length before \<noteq> 0"
    using vint_length_unique [of "?buf ! length before" len] assms d e
    by (auto simp: unat_eq_zero [symmetric] simp del: unat_eq_zero)
  moreover have "subarray ?buf (length before) (length before + len) = write_vint len v"
    by (simp add: subarray_def write_vint_def)
  moreover have "big_endian (write_vint len v) = ?n"
  proof -
    have "?n div 256 ^ k < 256" using d(1) e by simp
    then have "?n < 256 ^ len" by (simp add: k div_less_iff_less_mult)
    then show ?thesis by (simp add: write_vint_def big_endian_bytes_value)
  qed
  ultimately show ?thesis
    using assms(1) by (subst readEbmlVint_value) (auto simp: write_vint_def k)
qed

theorem vint_roundtrip_witness: "readEbmlVint ([0xec] @ write_vint 2 500 @ [0]) (length [0xec :: byte]) False = Some (2, 500)"
  by (subst vint_roundtrip) simp_all

section \<open>A changed header\<close>

text \<open>C16. When up to four bytes of an accepted PNG header change, within the checked chunk or within its
  checksum, the header is not accepted any more.\<close>

theorem png_corruption_detected:
  assumes valid: "isStructurallyValidPngPrefix x = Inr True"
    and window: "length y = length x" "take i y = take i x" "drop (i + 4) y = drop (i + 4) x"
    and inside: "i + 4 \<le> 29 \<or> i = 29" and changed: "y \<noteq> x"
  shows "isStructurallyValidPngPrefix y = Inr False"
proof (rule ccontr)
  assume "isStructurallyValidPngPrefix y \<noteq> Inr False"
  then have y: "isStructurallyValidPngPrefix y = Inr True" using png_total [of y] by (metis (full_types))
  note fx = png_fields [OF valid] and fy = png_fields [OF y]
  note w = window_subarray [OF window(2,3)]
  have head: "subarray y 0 8 = subarray x 0 8" "subarray y 8 12 = subarray x 8 12"
    using fx fy by (auto intro!: big_endian_inj)
  have end33: "drop 33 y = drop 33 x"
    using arg_cong [OF window(3), of "drop (33 - (i + 4))"] inside by auto
  have "subarray y 12 29 = subarray x 12 29 \<and> subarray y 29 33 = subarray x 29 33"
  proof (cases "i = 29")
    case True
    then show ?thesis using w [of 29 12] fx fy by (auto intro!: big_endian_inj)
  next
    case False
    then have i: "i + 4 \<le> 29" using inside by simp
    then have crc: "subarray y 29 33 = subarray x 29 33" using w [of 33 29] by simp
    then have "crc32 (subarray y 12 29) = crc32 (subarray x 12 29)" using fx fy by simp
    moreover have "take (i - 12) (subarray y 12 29) = take (i - 12) (subarray x 12 29)"
      using w [of "12 + (i - 12)" 12] i by (cases "12 \<le> i") (auto simp: subarray_def min_def)
    moreover have "drop (i - 12 + 4) (subarray y 12 29) = drop (i - 12 + 4) (subarray x 12 29)"
      using w [of 29 "12 + (i - 12 + 4)"] i by (auto simp: subarray_def drop_take add.commute)
    ultimately show ?thesis using crc window(1) by (auto intro!: crc32_window [where i = "i - 12"])
  qed
  then show False using same_subarrays head end33 changed by metis
qed

text \<open>The smallest header of a true colour image of one pixel.\<close>

definition png_chunk :: buffer where
  "png_chunk = PNG_IHDR @ [0, 0, 0, 1, 0, 0, 0, 1, 8, 2, 0, 0, 0]"

definition png_header :: buffer where
  "png_header = PNG_SIGNATURE @ [0, 0, 0, 13] @ png_chunk @ big_endian_bytes 4 (crc32 png_chunk)"

lemma png_header_valid: "isStructurallyValidPngPrefix png_header = Inr True"
proof -
  have crc: "subarray png_header 12 29 = png_chunk" "subarray png_header 29 33 = big_endian_bytes 4 (crc32 png_chunk)"
    by (simp_all add: subarray_def png_header_def png_chunk_def PNG_SIGNATURE_def PNG_IHDR_def ascii_bytes_def)
  have bound: "crc32 png_chunk < 256 ^ 4" unfolding crc32_def using unsigned_less [where 'a = nat and 'b = 32] by (rule less_le_trans) simp
  have parts: "subarray png_header 0 8 = PNG_SIGNATURE" "subarray png_header 8 12 = [0, 0, 0, 13]" "subarray png_header 12 16 = PNG_IHDR"
    "subarray png_header 16 20 = [0, 0, 0, 1]" "subarray png_header 20 24 = [0, 0, 0, 1]" "drop 24 (take 29 png_header) = [8, 2, 0, 0, 0]"
    "length png_header = 33"
    by (simp_all add: subarray_def png_header_def png_chunk_def PNG_SIGNATURE_def PNG_IHDR_def ascii_bytes_def)
  have nth: "png_header ! 24 = 8" "png_header ! 25 = 2" "png_header ! 26 = 0" "png_header ! 27 = 0" "png_header ! 28 = 0"
    by (simp_all add: png_header_def png_chunk_def PNG_SIGNATURE_def PNG_IHDR_def ascii_bytes_def)
  show ?thesis
    using bound by (simp add: isStructurallyValidPngPrefix_def parts nth crc big_endian_bytes_value Let_def
        PNG_ALLOWED_BIT_DEPTHS_BY_COLOR_TYPE_def)
qed

text \<open>The header with a width of two pixels instead of one.\<close>

theorem png_corruption_detected_witness: "isStructurallyValidPngPrefix (png_header[19 := 2]) = Inr False"
proof (rule png_corruption_detected [OF png_header_valid, where i = 16])
  show "png_header[19 := 2] \<noteq> png_header"
    by (simp add: png_header_def png_chunk_def PNG_SIGNATURE_def PNG_IHDR_def ascii_bytes_def)
qed (simp_all add: take_update_cancel drop_update_cancel)

end
