(* ===== verification/Review_Domain.thy ===== *)
theory Review_Domain
  imports Enum_Values Js_Number
begin

text \<open>
  Domain rules of reinforcement submissions and their reviews
  (\<open>src/src/modules/reinforcement/reviews/domain/reinforcement-review-domain.ts\<close>). A status column holds a value of
  its enum; the code normalises it like any text before it compares it, and so does the model.
\<close>

section \<open>Enums\<close>

datatype ReinforcementTaskStatus = Task_NOT_COMPLETED | Task_IN_PROGRESS | Task_UNDER_REVIEW | Task_COMPLETED | Task_CANCELLED

fun ReinforcementTaskStatus_name :: "ReinforcementTaskStatus \<Rightarrow> string" where
  "ReinforcementTaskStatus_name Task_NOT_COMPLETED = ''NOT_COMPLETED''"
| "ReinforcementTaskStatus_name Task_IN_PROGRESS = ''IN_PROGRESS''"
| "ReinforcementTaskStatus_name Task_UNDER_REVIEW = ''UNDER_REVIEW''"
| "ReinforcementTaskStatus_name Task_COMPLETED = ''COMPLETED''"
| "ReinforcementTaskStatus_name Task_CANCELLED = ''CANCELLED''"

datatype ReinforcementSubmissionStatus = Sub_PENDING | Sub_SUBMITTED | Sub_APPROVED | Sub_REJECTED

fun ReinforcementSubmissionStatus_name :: "ReinforcementSubmissionStatus \<Rightarrow> string" where
  "ReinforcementSubmissionStatus_name Sub_PENDING = ''PENDING''"
| "ReinforcementSubmissionStatus_name Sub_SUBMITTED = ''SUBMITTED''"
| "ReinforcementSubmissionStatus_name Sub_APPROVED = ''APPROVED''"
| "ReinforcementSubmissionStatus_name Sub_REJECTED = ''REJECTED''"

datatype ReinforcementReviewOutcome = Outcome_APPROVED | Outcome_REJECTED

fun ReinforcementReviewOutcome_name :: "ReinforcementReviewOutcome \<Rightarrow> string" where
  "ReinforcementReviewOutcome_name Outcome_APPROVED = ''APPROVED''"
| "ReinforcementReviewOutcome_name Outcome_REJECTED = ''REJECTED''"

datatype ReinforcementProofType = Proof_IMAGE | Proof_VIDEO | Proof_DOCUMENT | Proof_NONE

fun ReinforcementProofType_name :: "ReinforcementProofType \<Rightarrow> string" where
  "ReinforcementProofType_name Proof_IMAGE = ''IMAGE''"
| "ReinforcementProofType_name Proof_VIDEO = ''VIDEO''"
| "ReinforcementProofType_name Proof_DOCUMENT = ''DOCUMENT''"
| "ReinforcementProofType_name Proof_NONE = ''NONE''"

section \<open>Exceptions\<close>

definition ReinforcementSubmissionAlreadySubmittedException :: "(string \<times> detail) list \<Rightarrow> js_exception" where
  "ReinforcementSubmissionAlreadySubmittedException details =
     DomainException ''reinforcement.submission.already_submitted'' ''Submission is already submitted'' 409 details"

definition ReinforcementReviewNotSubmittedException :: "(string \<times> detail) list \<Rightarrow> js_exception" where
  "ReinforcementReviewNotSubmittedException details =
     DomainException ''reinforcement.review.not_submitted'' ''Submission must be submitted before review'' 409 details"

definition ReinforcementTaskCancelledException :: "(string \<times> detail) list \<Rightarrow> js_exception" where
  "ReinforcementTaskCancelledException details =
     DomainException ''reinforcement.task.cancelled'' ''Reinforcement task is cancelled'' 409 details"

definition ReinforcementProofMimeNotAllowedException :: "(string \<times> detail) list \<Rightarrow> js_exception" where
  "ReinforcementProofMimeNotAllowedException details =
     DomainException ''reinforcement.proof.mime_not_allowed''
       ''The proof file type is not allowed for this stage'' 415 details"

section \<open>Normalisation\<close>

definition SUBMISSION_STATUS_ALIASES :: "(string \<times> string) list" where
  "SUBMISSION_STATUS_ALIASES =
     [(''pending'', ''PENDING''), (''submitted'', ''SUBMITTED''), (''approved'', ''APPROVED''), (''rejected'', ''REJECTED'')]"

definition REVIEW_OUTCOME_ALIASES :: "(string \<times> string) list" where
  "REVIEW_OUTCOME_ALIASES =
     [(''approved'', ''APPROVED''), (''approve'', ''APPROVED''), (''rejected'', ''REJECTED''), (''reject'', ''REJECTED'')]"

definition normalizeSubmissionStatus :: "js_value option \<Rightarrow> js_value result" where
  "normalizeSubmissionStatus input =
     normalizeEnumValue input SUBMISSION_STATUS_ALIASES [''PENDING'', ''SUBMITTED'', ''APPROVED'', ''REJECTED'']
       ''status'' None"

definition normalizeReviewOutcome :: "js_value option \<Rightarrow> js_value result" where
  "normalizeReviewOutcome input =
     normalizeEnumValue input REVIEW_OUTCOME_ALIASES [''APPROVED'', ''REJECTED''] ''outcome'' None"

definition normalizeTaskStatus :: "js_value option \<Rightarrow> js_value result" where
  "normalizeTaskStatus input =
     normalizeEnumValue input
       [(''pending'', ''NOT_COMPLETED''), (''not_completed'', ''NOT_COMPLETED''), (''notcompleted'', ''NOT_COMPLETED''),
        (''in_progress'', ''IN_PROGRESS''), (''inprogress'', ''IN_PROGRESS''), (''under_review'', ''UNDER_REVIEW''),
        (''underreview'', ''UNDER_REVIEW''), (''completed'', ''COMPLETED''), (''cancel'', ''CANCELLED''),
        (''cancelled'', ''CANCELLED'')]
       [''NOT_COMPLETED'', ''IN_PROGRESS'', ''UNDER_REVIEW'', ''COMPLETED'', ''CANCELLED''] ''assignment.status'' None"

definition normalizeProofType :: "js_value option \<Rightarrow> js_value result" where
  "normalizeProofType input =
     normalizeEnumValue input
       [(''image'', ''IMAGE''), (''video'', ''VIDEO''), (''document'', ''DOCUMENT''), (''none'', ''NONE'')]
       [''IMAGE'', ''VIDEO'', ''DOCUMENT'', ''NONE''] ''proofType'' None"

text \<open>The normalised value of a column.\<close>

definition task_status :: "ReinforcementTaskStatus \<Rightarrow> js_value result" where
  "task_status st = normalizeTaskStatus (Some (JStr (ReinforcementTaskStatus_name st)))"

definition submission_status :: "ReinforcementSubmissionStatus \<Rightarrow> js_value result" where
  "submission_status st = normalizeSubmissionStatus (Some (JStr (ReinforcementSubmissionStatus_name st)))"

lemma task_status [simp, code]: "task_status st = Inr (JStr (ReinforcementTaskStatus_name st))"
  by (cases st; hypsubst; code_simp)

lemma submission_status [simp, code]: "submission_status st = Inr (JStr (ReinforcementSubmissionStatus_name st))"
  by (cases st; hypsubst; code_simp)

lemma proof_type [simp]:
  "normalizeProofType (Some (JStr (ReinforcementProofType_name t))) = Inr (JStr (ReinforcementProofType_name t))"
  by (cases t; hypsubst; code_simp)

section \<open>Guards\<close>

record TaskState =
  ts_id :: string
  ts_status :: ReinforcementTaskStatus
  ts_deletedAt :: "int option"

record AssignmentReviewStateLike =
  as_state_id :: string
  as_state_status :: ReinforcementTaskStatus
  as_state_task :: "TaskState option"

record StageReviewStateLike =
  st_id :: string
  st_taskId :: string
  st_proofType :: ReinforcementProofType
  st_deletedAt :: "int option"

definition assertTaskActive :: "TaskState option \<Rightarrow> (string \<times> detail) list \<Rightarrow> unit result" where
  "assertTaskActive task details =
     (case task of
        None \<Rightarrow> Inr ()
      | Some t \<Rightarrow>
          let cancelled = Inl (ReinforcementTaskCancelledException ((''taskId'', DStr (ts_id t)) # details))
          in if ts_deletedAt t \<noteq> None then cancelled
             else andThen (task_status (ts_status t)) (\<lambda>s. if s = JStr ''CANCELLED'' then cancelled else Inr ()))"

definition assertAssignmentCanSubmit :: "AssignmentReviewStateLike \<Rightarrow> unit result" where
  "assertAssignmentCanSubmit assignment =
     andThen (assertTaskActive (as_state_task assignment) [(''assignmentId'', DStr (as_state_id assignment))]) (\<lambda>_.
     andThen (task_status (as_state_status assignment)) (\<lambda>s.
       if s = JStr ''CANCELLED''
       then Inl (ReinforcementTaskCancelledException [(''assignmentId'', DStr (as_state_id assignment))])
       else Inr ()))"

text \<open>The id and the status of the submission.\<close>

definition assertSubmissionCanBeSubmitted :: "(string \<times> ReinforcementSubmissionStatus) option \<Rightarrow> unit result" where
  "assertSubmissionCanBeSubmitted submission =
     (case submission of
        None \<Rightarrow> Inr ()
      | Some (i, st) \<Rightarrow>
          andThen (submission_status st) (\<lambda>status.
            if status = JStr ''PENDING'' \<or> status = JStr ''REJECTED'' then Inr ()
            else Inl (ReinforcementSubmissionAlreadySubmittedException
                   [(''submissionId'', DStr i), (''status'', detail_of_js_value status)])))"

definition assertStageBelongsToTask :: "StageReviewStateLike \<Rightarrow> string \<Rightarrow> unit result" where
  "assertStageBelongsToTask stage taskId =
     (if st_deletedAt stage \<noteq> None \<or> st_taskId stage \<noteq> taskId
      then Inl (ValidationDomainException ''Stage does not belong to the task''
             [(''stageId'', DStr (st_id stage)), (''taskId'', DStr taskId)])
      else Inr ())"

text \<open>The arguments are the fields of the submission: its id, status and task id, and its relations, of which
  only the task may be missing in other callers.\<close>

definition assertSubmissionReviewable ::
  "string \<Rightarrow> ReinforcementSubmissionStatus \<Rightarrow> string \<Rightarrow> TaskState option \<Rightarrow> AssignmentReviewStateLike option \<Rightarrow>
   StageReviewStateLike option \<Rightarrow> unit result" where
  "assertSubmissionReviewable submissionId st taskId task assignment stage =
     andThen (submission_status st) (\<lambda>status.
     if status \<noteq> JStr ''SUBMITTED''
     then Inl (ReinforcementReviewNotSubmittedException
            [(''submissionId'', DStr submissionId), (''status'', detail_of_js_value status)])
     else
       let t = (if task \<noteq> None then task else Option.bind assignment as_state_task)
       in andThen (assertTaskActive t [(''submissionId'', DStr submissionId)]) (\<lambda>_.
          andThen (case assignment of
                     None \<Rightarrow> Inr ()
                   | Some a \<Rightarrow> andThen (task_status (as_state_status a)) (\<lambda>s.
                       if s = JStr ''CANCELLED''
                       then Inl (ReinforcementTaskCancelledException [(''assignmentId'', DStr (as_state_id a))])
                       else Inr ())) (\<lambda>_.
            case stage of None \<Rightarrow> Inr () | Some s \<Rightarrow> assertStageBelongsToTask s taskId)))"

definition assertReviewNoteForRejection :: "string option \<Rightarrow> string option \<Rightarrow> unit result" where
  "assertReviewNoteForRejection note noteAr =
     (if truthy (trimmed_or_null note) \<or> truthy (trimmed_or_null noteAr) then Inr ()
      else Inl (ValidationDomainException ''Rejecting a submission requires a note''
             [(''field'', DStr ''note''), (''aliases'', DStrs [''noteAr''])]))"

definition assertProofPayloadMatchesProofType :: "ReinforcementProofType \<Rightarrow> string option \<Rightarrow> unit result" where
  "assertProofPayloadMatchesProofType proofType proofFileId =
     andThen (normalizeProofType (Some (JStr (ReinforcementProofType_name proofType)))) (\<lambda>t.
     if t = JStr ''NONE'' then Inr ()
     else if \<not> truthy (trimmed_or_null proofFileId)
     then Inl (ValidationDomainException ''Proof file is required for this stage''
            [(''field'', DStr ''proofFileId''), (''proofType'', detail_of_js_value t)])
     else Inr ())"

fun REINFORCEMENT_PROOF_MIME_TYPES :: "ReinforcementProofType \<Rightarrow> string list" where
  "REINFORCEMENT_PROOF_MIME_TYPES Proof_NONE = []"
| "REINFORCEMENT_PROOF_MIME_TYPES Proof_IMAGE = [''image/jpeg'', ''image/png'']"
| "REINFORCEMENT_PROOF_MIME_TYPES Proof_VIDEO = [''video/mp4'', ''video/webm'']"
| "REINFORCEMENT_PROOF_MIME_TYPES Proof_DOCUMENT = [''application/pdf'']"

definition assertDeclaredProofMimeAllowed :: "ReinforcementProofType \<Rightarrow> string \<Rightarrow> unit result" where
  "assertDeclaredProofMimeAllowed proofType mimeType =
     andThen (normalizeProofType (Some (JStr (ReinforcementProofType_name proofType)))) (\<lambda>t.
     if t = JStr ''NONE'' then Inr ()
     else
       let normalizedMimeType = map_option toLowerCase (trimmed_or_null (Some mimeType));
           allowedMimeTypes = REINFORCEMENT_PROOF_MIME_TYPES proofType
       in if \<not> truthy normalizedMimeType \<or> the normalizedMimeType \<notin> set allowedMimeTypes
          then Inl (ReinforcementProofMimeNotAllowedException
                 [(''proofType'', detail_of_js_value t), (''mimeType'', detail_of_str_option normalizedMimeType),
                  (''allowedMimeTypes'', DStrs allowedMimeTypes)])
          else Inr ())"

section \<open>Progress\<close>

definition calculateAssignmentProgress :: "string list \<Rightarrow> string list \<Rightarrow> int" where
  "calculateAssignmentProgress activeStages approvedStages =
     (let activeStageIds = js_unique activeStages
      in if length activeStageIds = 0 then 0
         else
           let approvedCount = length (js_unique (filter (\<lambda>s. s \<in> set activeStageIds) approvedStages))
           in \<lfloor>math_round (js_mul (js_div (of_nat approvedCount) (of_nat (length activeStageIds))) 100)\<rfloor>)"

definition deriveAssignmentStatusAfterSubmit :: "ReinforcementTaskStatus \<Rightarrow> ReinforcementTaskStatus result" where
  "deriveAssignmentStatusAfterSubmit st =
     andThen (task_status st) (\<lambda>s. Inr (if s = JStr ''CANCELLED'' then Task_CANCELLED
       else if s = JStr ''COMPLETED'' then Task_COMPLETED else Task_UNDER_REVIEW))"

definition deriveAssignmentStatusAfterApprove ::
  "ReinforcementTaskStatus \<Rightarrow> int \<Rightarrow> nat \<Rightarrow> ReinforcementTaskStatus result" where
  "deriveAssignmentStatusAfterApprove st progress activeStageCount =
     andThen (task_status st) (\<lambda>s. Inr (if s = JStr ''CANCELLED'' then Task_CANCELLED
       else if s = JStr ''COMPLETED'' then Task_COMPLETED
       else if activeStageCount > 0 \<and> progress \<ge> 100 then Task_COMPLETED else Task_IN_PROGRESS))"

definition deriveAssignmentStatusAfterReject :: "ReinforcementTaskStatus \<Rightarrow> ReinforcementTaskStatus result" where
  "deriveAssignmentStatusAfterReject st =
     andThen (task_status st) (\<lambda>s. Inr (if s = JStr ''CANCELLED'' then Task_CANCELLED
       else if s = JStr ''COMPLETED'' then Task_COMPLETED else Task_IN_PROGRESS))"

end
