(* ===== verification/Review_Store.thy ===== *)
theory Review_Store
  imports Review_Domain Reinforcement_Context
begin

text \<open>
  The tables of reinforcement tasks, their assignments to students, the submissions of the stages of a task
  and their reviews, and the transactions on them
  (\<open>reviews/infrastructure/reinforcement-reviews.repository.ts\<close>, and \<open>cancelTaskAndAssignments\<close> of
  \<open>tasks/infrastructure/reinforcement-tasks.repository.ts\<close>). A write is one transaction: a function from the
  tables to an exception or a result with the new tables. Foreign keys are not modelled: no operation here
  deletes a row.
\<close>

section \<open>Tables\<close>

record ReinforcementTask =
  rt_id :: string
  rt_schoolId :: string
  rt_academicYearId :: string
  rt_termId :: string
  rt_subjectId :: "string option"
  rt_source :: string
  rt_status :: ReinforcementTaskStatus
  rt_rewardType :: "string option"
  rt_rewardValue :: "rat option"
  rt_dueDate :: "int option"
  rt_assignedById :: "string option"
  rt_createdById :: "string option"
  rt_cancelledById :: "string option"
  rt_cancelledAt :: "int option"
  rt_cancellationReason :: "string option"
  rt_deletedAt :: "int option"

record ReinforcementTaskStage =
  rs_id :: string
  rs_schoolId :: string
  rs_taskId :: string
  rs_sortOrder :: int
  rs_proofType :: ReinforcementProofType
  rs_deletedAt :: "int option"

record ReinforcementAssignment =
  ra_id :: string
  ra_schoolId :: string
  ra_taskId :: string
  ra_academicYearId :: string
  ra_termId :: string
  ra_studentId :: string
  ra_enrollmentId :: string
  ra_status :: ReinforcementTaskStatus
  ra_progress :: int
  ra_assignedAt :: int
  ra_startedAt :: "int option"
  ra_completedAt :: "int option"
  ra_cancelledAt :: "int option"

record ReinforcementSubmission =
  su_id :: string
  su_schoolId :: string
  su_assignmentId :: string
  su_taskId :: string
  su_stageId :: string
  su_studentId :: string
  su_enrollmentId :: string
  su_status :: ReinforcementSubmissionStatus
  su_proofFileId :: "string option"
  su_proofText :: "string option"
  su_submittedById :: "string option"
  su_submittedAt :: "int option"
  su_currentReviewId :: "string option"
  su_reviewedAt :: "int option"
  su_metadata :: "json_object option"

record ReinforcementReview =
  rv_id :: string
  rv_schoolId :: string
  rv_submissionId :: string
  rv_assignmentId :: string
  rv_taskId :: string
  rv_stageId :: string
  rv_studentId :: string
  rv_reviewedById :: string
  rv_outcome :: ReinforcementReviewOutcome
  rv_note :: "string option"
  rv_noteAr :: "string option"
  rv_reviewedAt :: int
  rv_metadata :: "json_object option"

record ProofFile =
  pf_id :: string
  pf_organizationId :: string
  pf_schoolId :: "string option"
  pf_uploaderId :: "string option"
  pf_private :: bool
  pf_mimeType :: string
  pf_sizeBytes :: int
  pf_bucket :: string
  pf_objectKey :: string
  pf_deletedAt :: "int option"

text \<open>Of the targets of a task only their number is used: a target is its task and its school.\<close>

record ReviewDb =
  vdb_tasks :: "ReinforcementTask list"
  vdb_targets :: "(string \<times> string) list"
  vdb_stages :: "ReinforcementTaskStage list"
  vdb_assignments :: "ReinforcementAssignment list"
  vdb_submissions :: "ReinforcementSubmission list"
  vdb_reviews :: "ReinforcementReview list"
  vdb_files :: "ProofFile list"
  vdb_audit :: "RewardAuditLogInput list"

section \<open>Relations\<close>

definition task_of :: "string \<Rightarrow> string \<Rightarrow> ReviewDb \<Rightarrow> ReinforcementTask option" where
  "task_of school taskId db = findFirst (\<lambda>t. rt_id t = taskId \<and> rt_schoolId t = school) (vdb_tasks db)"

definition stage_of :: "string \<Rightarrow> string \<Rightarrow> ReviewDb \<Rightarrow> ReinforcementTaskStage option" where
  "stage_of school stageId db = findFirst (\<lambda>s. rs_id s = stageId \<and> rs_schoolId s = school) (vdb_stages db)"

definition assignment_of :: "string \<Rightarrow> string \<Rightarrow> ReviewDb \<Rightarrow> ReinforcementAssignment option" where
  "assignment_of school assignmentId db =
     findFirst (\<lambda>a. ra_id a = assignmentId \<and> ra_schoolId a = school) (vdb_assignments db)"

text \<open>The relation filter \<open>\{ task: \{ deletedAt: null \} \}\<close>, and the same for a stage.\<close>

definition live_task :: "string \<Rightarrow> string \<Rightarrow> ReviewDb \<Rightarrow> bool" where
  "live_task school taskId db \<longleftrightarrow> (\<exists>t \<in> set (vdb_tasks db). rt_id t = taskId \<and> rt_schoolId t = school \<and> rt_deletedAt t = None)"

definition live_stage :: "string \<Rightarrow> string \<Rightarrow> ReviewDb \<Rightarrow> bool" where
  "live_stage school stageId db \<longleftrightarrow>
     (\<exists>s \<in> set (vdb_stages db). rs_id s = stageId \<and> rs_schoolId s = school \<and> rs_deletedAt s = None)"

section \<open>Reads\<close>

definition findAssignmentForSubmit :: "string \<Rightarrow> string \<Rightarrow> ReviewDb \<Rightarrow> ReinforcementAssignment option" where
  "findAssignmentForSubmit school assignmentId db =
     findFirst (\<lambda>a. ra_id a = assignmentId \<and> ra_schoolId a = school \<and> live_task school (ra_taskId a) db)
       (vdb_assignments db)"

definition findStageForAssignment :: "string \<Rightarrow> string \<Rightarrow> string \<Rightarrow> ReviewDb \<Rightarrow> ReinforcementTaskStage option" where
  "findStageForAssignment school taskId stageId db =
     findFirst (\<lambda>s. rs_id s = stageId \<and> rs_taskId s = taskId \<and> rs_schoolId s = school \<and> rs_deletedAt s = None)
       (vdb_stages db)"

definition findProofFile :: "string \<Rightarrow> string \<Rightarrow> string \<Rightarrow> string \<Rightarrow> ReviewDb \<Rightarrow> ProofFile option" where
  "findProofFile fileId organizationId schoolId uploaderId db =
     (case findFirst (\<lambda>f. pf_id f = fileId \<and> pf_organizationId f = organizationId \<and> pf_schoolId f = Some schoolId \<and>
             pf_uploaderId f = Some uploaderId \<and> pf_private f \<and> pf_deletedAt f = None \<and> pf_sizeBytes f > 0 \<and>
             pf_bucket f \<noteq> [] \<and> pf_objectKey f \<noteq> []) (vdb_files db) of
        None \<Rightarrow> None
      | Some f \<Rightarrow> if js_trim (pf_bucket f) = [] \<or> js_trim (pf_objectKey f) = [] then None else Some f)"

definition findSubmissionByAssignmentStage :: "string \<Rightarrow> string \<Rightarrow> string \<Rightarrow> ReviewDb \<Rightarrow> ReinforcementSubmission option" where
  "findSubmissionByAssignmentStage school assignmentId stageId db =
     findFirst (\<lambda>s. su_assignmentId s = assignmentId \<and> su_stageId s = stageId \<and> su_schoolId s = school)
       (vdb_submissions db)"

definition findSubmissionForReview :: "string \<Rightarrow> string \<Rightarrow> ReviewDb \<Rightarrow> ReinforcementSubmission option" where
  "findSubmissionForReview school submissionId db =
     findFirst (\<lambda>s. su_id s = submissionId \<and> su_schoolId s = school \<and> live_task school (su_taskId s) db \<and>
                    live_stage school (su_stageId s) db) (vdb_submissions db)"

text \<open>The order of the stages does not matter to the caller, which only counts them.\<close>

definition listActiveStagesForTask :: "string \<Rightarrow> string \<Rightarrow> ReviewDb \<Rightarrow> string list" where
  "listActiveStagesForTask school taskId db =
     map rs_id (js_sort (\<lambda>a b. cmp_or (rs_sortOrder a - rs_sortOrder b) (string_compare (rs_id a) (rs_id b)))
       (filter (\<lambda>s. rs_taskId s = taskId \<and> rs_deletedAt s = None \<and> rs_schoolId s = school) (vdb_stages db)))"

definition listApprovedStageIdsForAssignment :: "string \<Rightarrow> string \<Rightarrow> ReviewDb \<Rightarrow> string list" where
  "listApprovedStageIdsForAssignment school assignmentId db =
     map su_stageId (filter (\<lambda>s. su_assignmentId s = assignmentId \<and> su_status s = Sub_APPROVED \<and> su_schoolId s = school)
       (vdb_submissions db))"

section \<open>Submitting a stage\<close>

text \<open>The input of the transaction. Of the assignment and the stage that were read before it uses the fields
  below.\<close>

record SubmitStageInput =
  si_schoolId :: string
  si_assignment :: ReinforcementAssignment
  si_stageId :: string
  si_existingSubmissionId :: "string option"
  si_assignmentStatus :: ReinforcementTaskStatus
  si_proofText :: "string option"
  si_proofFileId :: "string option"
  si_submittedById :: string
  si_submittedAt :: int
  si_metadata :: "json_object option"

definition createSubmission :: "string \<Rightarrow> SubmitStageInput \<Rightarrow> ReviewDb \<Rightarrow> (string \<times> ReviewDb) result" where
  "createSubmission newId input db =
     (if \<exists>s \<in> set (vdb_submissions db). su_id s = newId \<or>
           (su_schoolId s = si_schoolId input \<and> su_assignmentId s = ra_id (si_assignment input) \<and>
            su_stageId s = si_stageId input)
      then Inl (PrismaError ''P2002'')
      else Inr (newId, db\<lparr>vdb_submissions := vdb_submissions db @
        [\<lparr>su_id = newId, su_schoolId = si_schoolId input, su_assignmentId = ra_id (si_assignment input),
          su_taskId = ra_taskId (si_assignment input), su_stageId = si_stageId input,
          su_studentId = ra_studentId (si_assignment input), su_enrollmentId = ra_enrollmentId (si_assignment input),
          su_status = Sub_SUBMITTED, su_proofFileId = si_proofFileId input, su_proofText = si_proofText input,
          su_submittedById = Some (si_submittedById input), su_submittedAt = Some (si_submittedAt input),
          su_currentReviewId = None, su_reviewedAt = None, su_metadata = si_metadata input\<rparr>]\<rparr>))"

definition resubmitted :: "SubmitStageInput \<Rightarrow> ReinforcementSubmission \<Rightarrow> ReinforcementSubmission" where
  "resubmitted input s =
     s\<lparr>su_status := Sub_SUBMITTED, su_proofText := si_proofText input, su_proofFileId := si_proofFileId input,
       su_submittedById := Some (si_submittedById input), su_submittedAt := Some (si_submittedAt input),
       su_reviewedAt := None, su_currentReviewId := None,
       su_metadata := (if si_metadata input = None then su_metadata s else si_metadata input)\<rparr>"

definition can_resubmit :: "string \<Rightarrow> SubmitStageInput \<Rightarrow> ReinforcementSubmission \<Rightarrow> bool" where
  "can_resubmit i input s \<longleftrightarrow> su_id s = i \<and> su_schoolId s = si_schoolId input \<and>
     su_assignmentId s = ra_id (si_assignment input) \<and> su_stageId s = si_stageId input \<and>
     (su_status s = Sub_PENDING \<or> su_status s = Sub_REJECTED)"

definition resubmitExisting :: "string \<Rightarrow> SubmitStageInput \<Rightarrow> ReviewDb \<Rightarrow> string \<times> ReviewDb" where
  "resubmitExisting i input db =
     (i, db\<lparr>vdb_submissions := snd (updateMany (can_resubmit i input) (resubmitted input) (vdb_submissions db))\<rparr>)"

definition findReviewItemInTransaction :: "string \<Rightarrow> string \<Rightarrow> ReviewDb \<Rightarrow> ReinforcementSubmission result" where
  "findReviewItemInTransaction schoolId submissionId db =
     (case findFirst (\<lambda>s. su_id s = submissionId \<and> su_schoolId s = schoolId \<and> live_task schoolId (su_taskId s) db \<and>
              live_stage schoolId (su_stageId s) db) (vdb_submissions db) of
        None \<Rightarrow> Inl (JsError ''Reinforcement review item mutation result was not found'')
      | Some s \<Rightarrow> Inr s)"

definition open_assignment :: "string \<Rightarrow> string \<Rightarrow> ReinforcementAssignment \<Rightarrow> bool" where
  "open_assignment schoolId assignmentId a \<longleftrightarrow>
     ra_id a = assignmentId \<and> ra_schoolId a = schoolId \<and> ra_status a \<noteq> Task_CANCELLED"

definition createOrResubmitSubmission ::
  "string \<Rightarrow> SubmitStageInput \<Rightarrow> ReviewDb \<Rightarrow> (ReinforcementSubmission \<times> ReviewDb) result" where
  "createOrResubmitSubmission newId input db =
     andThen (if truthy (si_existingSubmissionId input)
              then Inr (resubmitExisting (the (si_existingSubmissionId input)) input db)
              else createSubmission newId input db) (\<lambda>(submissionId, db1).
     let db2 = db1\<lparr>vdb_assignments := snd (updateMany
           (open_assignment (si_schoolId input) (ra_id (si_assignment input)))
           (\<lambda>a. a\<lparr>ra_status := si_assignmentStatus input,
                  ra_startedAt := (if ra_startedAt (si_assignment input) \<noteq> None then ra_startedAt (si_assignment input)
                                   else Some (si_submittedAt input))\<rparr>) (vdb_assignments db1))\<rparr>
     in andThen (findReviewItemInTransaction (si_schoolId input) submissionId db2) (\<lambda>s. Inr (s, db2)))"

section \<open>Reviewing a submission\<close>

record ReviewSubmissionInput =
  ri_schoolId :: string
  ri_submission :: ReinforcementSubmission
  ri_reviewedById :: string
  ri_reviewedAt :: int
  ri_note :: "string option"
  ri_noteAr :: "string option"
  ri_assignmentStatus :: ReinforcementTaskStatus
  ri_assignmentProgress :: int
  ri_assignmentCompletedAt :: "int option"
  ri_outcome :: ReinforcementReviewOutcome
  ri_metadata :: "json_object option"

definition reviewed_row :: "ReviewSubmissionInput \<Rightarrow> string \<Rightarrow> ReinforcementSubmission \<Rightarrow> ReinforcementSubmission" where
  "reviewed_row input reviewId s =
     s\<lparr>su_status := (if ri_outcome input = Outcome_APPROVED then Sub_APPROVED else Sub_REJECTED),
       su_reviewedAt := Some (ri_reviewedAt input), su_currentReviewId := Some reviewId\<rparr>"

definition awaiting_review :: "ReviewSubmissionInput \<Rightarrow> ReinforcementSubmission \<Rightarrow> bool" where
  "awaiting_review input s \<longleftrightarrow> su_id s = su_id (ri_submission input) \<and> su_schoolId s = ri_schoolId input \<and>
     su_status s = Sub_SUBMITTED"

definition reviewSubmissionWithOutcome ::
  "string \<Rightarrow> ReviewSubmissionInput \<Rightarrow> ReviewDb \<Rightarrow> (ReinforcementSubmission \<times> ReviewDb) result" where
  "reviewSubmissionWithOutcome newId input db =
     (let s = ri_submission input;
          review = \<lparr>rv_id = newId, rv_schoolId = ri_schoolId input, rv_submissionId = su_id s,
            rv_assignmentId = su_assignmentId s, rv_taskId = su_taskId s, rv_stageId = su_stageId s,
            rv_studentId = su_studentId s, rv_reviewedById = ri_reviewedById input, rv_outcome = ri_outcome input,
            rv_note = ri_note input, rv_noteAr = ri_noteAr input, rv_reviewedAt = ri_reviewedAt input,
            rv_metadata = ri_metadata input\<rparr>
      in if \<exists>r \<in> set (vdb_reviews db). rv_id r = newId then Inl (PrismaError ''P2002'')
         else
           let db1 = db\<lparr>vdb_reviews := vdb_reviews db @ [review],
                 vdb_submissions := snd (updateMany (awaiting_review input) (reviewed_row input newId) (vdb_submissions db)),
                 vdb_assignments := snd (updateMany (open_assignment (ri_schoolId input) (su_assignmentId s))
                   (\<lambda>a. a\<lparr>ra_status := ri_assignmentStatus input, ra_progress := ri_assignmentProgress input,
                          ra_completedAt := (if ri_assignmentCompletedAt input \<noteq> None
                                             then ri_assignmentCompletedAt input else ra_completedAt a)\<rparr>)
                   (vdb_assignments db))\<rparr>
           in andThen (findReviewItemInTransaction (ri_schoolId input) (su_id s) db1) (\<lambda>r. Inr (r, db1)))"

definition approveSubmissionWithReview ::
  "string \<Rightarrow> ReviewSubmissionInput \<Rightarrow> ReviewDb \<Rightarrow> (ReinforcementSubmission \<times> ReviewDb) result" where
  "approveSubmissionWithReview newId input = reviewSubmissionWithOutcome newId (input\<lparr>ri_outcome := Outcome_APPROVED\<rparr>)"

definition rejectSubmissionWithReview ::
  "string \<Rightarrow> ReviewSubmissionInput \<Rightarrow> ReviewDb \<Rightarrow> (ReinforcementSubmission \<times> ReviewDb) result" where
  "rejectSubmissionWithReview newId input = reviewSubmissionWithOutcome newId (input\<lparr>ri_outcome := Outcome_REJECTED\<rparr>)"

section \<open>Cancelling a task\<close>

definition findTaskInTransaction :: "string \<Rightarrow> string \<Rightarrow> ReviewDb \<Rightarrow> ReinforcementTask result" where
  "findTaskInTransaction schoolId taskId db =
     (case findFirst (\<lambda>t. rt_id t = taskId \<and> rt_schoolId t = schoolId \<and> rt_deletedAt t = None) (vdb_tasks db) of
        None \<Rightarrow> Inl (JsError ''Reinforcement task mutation result was not found'')
      | Some t \<Rightarrow> Inr t)"

definition cancelTaskAndAssignments ::
  "string \<Rightarrow> string \<Rightarrow> string \<Rightarrow> string option \<Rightarrow> int \<Rightarrow> ReviewDb \<Rightarrow> (ReinforcementTask \<times> nat \<times> ReviewDb) result" where
  "cancelTaskAndAssignments schoolId taskId actorId reason cancelledAt db =
     (let tasks = snd (updateMany (\<lambda>t. rt_id t = taskId \<and> rt_schoolId t = schoolId \<and> rt_deletedAt t = None)
            (\<lambda>t. t\<lparr>rt_status := Task_CANCELLED, rt_cancelledAt := Some cancelledAt, rt_cancelledById := Some actorId,
                   rt_cancellationReason := reason\<rparr>) (vdb_tasks db));
          (affected, assignments) = updateMany
            (\<lambda>a. ra_taskId a = taskId \<and> ra_schoolId a = schoolId \<and> ra_status a \<notin> {Task_COMPLETED, Task_CANCELLED})
            (\<lambda>a. a\<lparr>ra_status := Task_CANCELLED, ra_cancelledAt := Some cancelledAt\<rparr>) (vdb_assignments db);
          db1 = db\<lparr>vdb_tasks := tasks, vdb_assignments := assignments\<rparr>
      in andThen (findTaskInTransaction schoolId taskId db1) (\<lambda>t. Inr (t, affected, db1)))"

end
