(* ===== verification/Proof_Verifier.thy ===== *)
theory Proof_Verifier
  imports Proof_Content Review_Domain
begin

text \<open>
  The check of an uploaded proof against the object store
  (\<open>src/src/modules/reinforcement/reviews/application/reinforcement-proof-content-verifier.service.ts\<close>). The object store
  is a parameter: what \<open>statObject\<close> and \<open>getObject\<close> answer for a bucket and a key. A stream delivers chunks
  and then ends or fails; a timeout is a failure, of the call or of the stream.
\<close>

section \<open>The object store\<close>

datatype stream_end = Stream_ended | Stream_failed

type_synonym object_stream = "buffer list \<times> stream_end"

text \<open>\<open>None\<close>: the call fails. A size that is not a finite number is \<open>Some None\<close>.\<close>

record ObjectStorage =
  statObject :: "string \<Rightarrow> string \<Rightarrow> rat option option"
  getObject :: "string \<Rightarrow> string \<Rightarrow> object_stream option"

section \<open>Exceptions\<close>

definition ReinforcementProofMimeMismatchException :: "(string \<times> detail) list \<Rightarrow> js_exception" where
  "ReinforcementProofMimeMismatchException details = DomainException ''reinforcement.proof.mime_mismatch''
     ''The declared proof file type does not match its content'' 400 details"

definition ReinforcementProofInvalidContentException :: "(string \<times> detail) list \<Rightarrow> js_exception" where
  "ReinforcementProofInvalidContentException details = DomainException ''reinforcement.proof.invalid_content''
     ''The proof file content is invalid or incomplete'' 400 details"

definition ReinforcementProofVerificationUnavailableException :: js_exception where
  "ReinforcementProofVerificationUnavailableException = DomainException ''reinforcement.proof.verification_unavailable''
     ''Proof file verification is temporarily unavailable'' 503 []"

section \<open>Reading the first bytes\<close>

definition REINFORCEMENT_PROOF_PREFIX_MAX_BYTES :: int where
  "REINFORCEMENT_PROOF_PREFIX_MAX_BYTES = 256 * 1024"

datatype collected = Collected buffer | Truncated | Stream_error

text \<open>The loop over the chunks, with the bytes received so far, and what follows it.\<close>

fun collect_chunks :: "nat \<Rightarrow> buffer \<Rightarrow> buffer list \<Rightarrow> stream_end \<Rightarrow> collected" where
  "collect_chunks targetBytes received [] ending =
     (if ending = Stream_failed then Stream_error
      else if length received < targetBytes then Truncated else Collected received)"
| "collect_chunks targetBytes received (chunk # chunks) ending =
     (let remainingBytes = int targetBytes - int (length received)
      in if remainingBytes \<le> 0
         then (if length received < targetBytes then Truncated else Collected received)
         else
           let accepted = subarray chunk 0 (nat remainingBytes); received' = received @ accepted
           in if length received' \<ge> targetBytes
              then (if length received' < targetBytes then Truncated else Collected received')
              else collect_chunks targetBytes received' chunks ending)"

definition collectPrefix :: "object_stream \<Rightarrow> nat \<Rightarrow> collected" where
  "collectPrefix stream targetBytes = collect_chunks targetBytes [] (fst stream) (snd stream)"

definition readObjectPrefix :: "ObjectStorage \<Rightarrow> string \<Rightarrow> string \<Rightarrow> nat \<Rightarrow> buffer result" where
  "readObjectPrefix storage bucket objectKey targetBytes =
     (case getObject storage bucket objectKey of
        None \<Rightarrow> Inl ReinforcementProofVerificationUnavailableException
      | Some stream \<Rightarrow>
          (case collectPrefix stream targetBytes of
             Collected prefix \<Rightarrow> Inr prefix
           | Truncated \<Rightarrow> Inl (ReinforcementProofInvalidContentException [(''reason'', DStr ''truncated_object'')])
           | Stream_error \<Rightarrow> Inl ReinforcementProofVerificationUnavailableException))"

section \<open>The check\<close>

definition normalizeStorageSize :: "rat option \<Rightarrow> int option" where
  "normalizeStorageSize v =
     (case v of
        None \<Rightarrow> None
      | Some r \<Rightarrow> if \<not> number_isInteger r \<or> \<bar>r\<bar> > of_int MAX_SAFE_INTEGER \<or> r < 0 then None else Some \<lfloor>r\<rfloor>)"

definition verify ::
  "ObjectStorage \<Rightarrow> ReinforcementProofType \<Rightarrow> string \<Rightarrow> string \<Rightarrow> string \<Rightarrow> int \<Rightarrow> unit result" where
  "verify storage proofType declared bucket objectKey expectedSizeBytes =
     andThen (assertDeclaredProofMimeAllowed proofType declared) (\<lambda>_.
     if expectedSizeBytes \<le> 0
     then Inl (ReinforcementProofInvalidContentException [(''reason'', DStr ''empty_object'')])
     else case statObject storage bucket objectKey of
       None \<Rightarrow> Inl ReinforcementProofVerificationUnavailableException
     | Some sz \<Rightarrow>
         (case normalizeStorageSize sz of
            None \<Rightarrow> Inl (ReinforcementProofInvalidContentException [(''reason'', DStr ''empty_object'')])
          | Some actualSizeBytes \<Rightarrow>
              if actualSizeBytes \<le> 0
              then Inl (ReinforcementProofInvalidContentException [(''reason'', DStr ''empty_object'')])
              else if actualSizeBytes \<noteq> expectedSizeBytes
              then Inl (ReinforcementProofInvalidContentException [(''reason'', DStr ''size_mismatch''),
                     (''expectedSizeBytes'', DStr (int_to_string expectedSizeBytes)),
                     (''actualSizeBytes'', DStr (int_to_string actualSizeBytes))])
              else
                andThen (readObjectPrefix storage bucket objectKey
                   (nat (min actualSizeBytes REINFORCEMENT_PROOF_PREFIX_MAX_BYTES))) (\<lambda>prefix.
                andThen (detectReinforcementProofMime prefix) (\<lambda>detected.
                  case detected of
                    None \<Rightarrow> Inl (ReinforcementProofInvalidContentException
                              [(''reason'', DStr ''unrecognized_or_malformed_content'')])
                  | Some detectedMimeType \<Rightarrow>
                      andThen (assertDeclaredProofMimeAllowed proofType detectedMimeType) (\<lambda>_.
                      let declaredMimeType = toLowerCase (js_trim declared)
                      in if detectedMimeType \<noteq> declaredMimeType
                         then Inl (ReinforcementProofMimeMismatchException
                                [(''proofType'', DStr (ReinforcementProofType_name proofType)),
                                 (''declaredMimeType'', DStr declaredMimeType),
                                 (''detectedMimeType'', DStr detectedMimeType)])
                         else Inr ())))))"

section \<open>Lemmas\<close>

text \<open>The first bytes do not depend on how the stream is cut into chunks.\<close>

lemma collect_chunks_exact:
  "length received < targetBytes \<Longrightarrow>
   collect_chunks targetBytes received chunks ending = Collected prefix \<longleftrightarrow>
     targetBytes \<le> length (received @ concat chunks) \<and> prefix = take targetBytes (received @ concat chunks)"
proof (induction chunks arbitrary: received)
  case (Cons chunk chunks)
  define accepted where "accepted = subarray chunk 0 (nat (int targetBytes - int (length received)))"
  have a: "accepted = take (targetBytes - length received) chunk"
    by (simp add: accepted_def subarray_def nat_minus_as_int)
  show ?case
  proof (cases "length (received @ accepted) < targetBytes")
    case True
    then have "accepted = chunk" using Cons.prems by (auto simp: a)
    then show ?thesis using Cons.IH [of "received @ accepted"] Cons.prems True
      by (simp add: accepted_def [symmetric] Let_def)
  next
    case False
    then have "targetBytes - length received \<le> length chunk" using Cons.prems by (auto simp: a)
    then show ?thesis using Cons.prems False by (auto simp: accepted_def [symmetric] Let_def) (auto simp: a)
  qed
qed auto

lemma allowed_mime:
  "assertDeclaredProofMimeAllowed proofType mime = Inr () \<longleftrightarrow>
     proofType = Proof_NONE \<or> toLowerCase (js_trim mime) \<in> set (REINFORCEMENT_PROOF_MIME_TYPES proofType)"
proof -
  have "ReinforcementProofType_name proofType = ''NONE'' \<longleftrightarrow> proofType = Proof_NONE"
    "[] \<notin> set (REINFORCEMENT_PROOF_MIME_TYPES proofType)" by (cases proofType; simp)+
  then show ?thesis
    by (simp add: assertDeclaredProofMimeAllowed_def trimmed_or_null_def Let_def toLowerCase_def)
qed

lemma storage_size:
  "normalizeStorageSize v = Some n \<longleftrightarrow> v = Some (of_int n) \<and> 0 \<le> n \<and> n \<le> MAX_SAFE_INTEGER"
  by (auto simp: normalizeStorageSize_def number_isInteger_def split: option.splits if_splits)

lemma allowed_mime_idem:
  "mime \<in> set (REINFORCEMENT_PROOF_MIME_TYPES proofType) \<Longrightarrow> toLowerCase (js_trim mime) = mime"
  by (cases proofType) (auto, (code_simp)+)

text \<open>The check after the size of the object is known.\<close>

definition content_check :: "ObjectStorage \<Rightarrow> ReinforcementProofType \<Rightarrow> string \<Rightarrow> string \<Rightarrow> string \<Rightarrow> nat \<Rightarrow> bool" where
  "content_check storage proofType mime bucket objectKey n \<longleftrightarrow>
     (\<exists>prefix. readObjectPrefix storage bucket objectKey n = Inr prefix \<and>
        detectReinforcementProofMime prefix = Inr (Some mime)) \<and> assertDeclaredProofMimeAllowed proofType mime = Inr ()"

lemma verify_content:
  assumes "assertDeclaredProofMimeAllowed proofType declared = Inr ()" "0 < expected"
    "statObject storage bucket objectKey = Some (Some (of_int expected))" "expected \<le> MAX_SAFE_INTEGER"
  shows "verify storage proofType declared bucket objectKey expected = Inr () \<longleftrightarrow>
    content_check storage proofType (toLowerCase (js_trim declared)) bucket objectKey
      (nat (min expected REINFORCEMENT_PROOF_PREFIX_MAX_BYTES))"
proof -
  have size: "normalizeStorageSize (Some (of_int expected)) = Some expected"
    using assms(2,4) by (simp add: storage_size)
  show ?thesis
    using assms(1-3)
    by (simp add: verify_def content_check_def size andThen_eq_Inr Let_def split: option.split) (auto split: option.splits)
qed

lemma verify_needs:
  assumes "verify storage proofType declared bucket objectKey expected = Inr ()"
  shows "assertDeclaredProofMimeAllowed proofType declared = Inr ()" "0 < expected"
    "statObject storage bucket objectKey = Some (Some (of_int expected))" "expected \<le> MAX_SAFE_INTEGER"
proof -
  show a: "assertDeclaredProofMimeAllowed proofType declared = Inr ()"
    using assms by (simp add: verify_def andThen_eq_Inr)
  show e: "0 < expected" using assms a by (simp add: verify_def split: if_splits)
  obtain sz where sz: "statObject storage bucket objectKey = Some sz"
    using assms a e by (cases "statObject storage bucket objectKey") (simp_all add: verify_def)
  obtain n where n: "normalizeStorageSize sz = Some n"
    using assms a e sz by (cases "normalizeStorageSize sz") (simp_all add: verify_def)
  have "n = expected" using assms a e sz n by (simp add: verify_def split: if_splits)
  then show "statObject storage bucket objectKey = Some (Some (of_int expected))" "expected \<le> MAX_SAFE_INTEGER"
    using n sz by (simp_all add: storage_size)
qed

lemma readObjectPrefix_exact:
  assumes "0 < n"
  shows "readObjectPrefix storage bucket objectKey n = Inr prefix \<longleftrightarrow>
    (\<exists>chunks ending. getObject storage bucket objectKey = Some (chunks, ending) \<and> n \<le> length (concat chunks) \<and>
      prefix = take n (concat chunks))"
proof (cases "getObject storage bucket objectKey")
  case (Some stream)
  obtain chunks ending where st: "stream = (chunks, ending)" by fastforce
  have c: "collectPrefix stream n = Collected b \<longleftrightarrow> n \<le> length (concat chunks) \<and> b = take n (concat chunks)" for b
    using collect_chunks_exact [of "[]" n] assms by (simp add: collectPrefix_def st)
  have "readObjectPrefix storage bucket objectKey n = Inr prefix \<longleftrightarrow> collectPrefix stream n = Collected prefix"
    by (simp add: readObjectPrefix_def Some split: collected.split)
  then show ?thesis unfolding c by (simp add: Some st)
qed (simp add: readObjectPrefix_def)

lemma declared_then_detected:
  "assertDeclaredProofMimeAllowed proofType declared = Inr () \<Longrightarrow>
   assertDeclaredProofMimeAllowed proofType (toLowerCase (js_trim declared)) = Inr ()"
  unfolding allowed_mime using allowed_mime_idem by metis

text \<open>A proof passes exactly when the declared type is allowed for the stage, the object has the recorded
  size, and its first bytes, however the store delivers them, are of the declared type.\<close>

theorem proof_verification_exact:
  "verify storage proofType declared bucket objectKey expected = Inr () \<longleftrightarrow>
     (let mime = toLowerCase (js_trim declared); n = nat (min expected REINFORCEMENT_PROOF_PREFIX_MAX_BYTES)
      in (proofType = Proof_NONE \<or> mime \<in> set (REINFORCEMENT_PROOF_MIME_TYPES proofType)) \<and>
         0 < expected \<and> expected \<le> MAX_SAFE_INTEGER \<and>
         statObject storage bucket objectKey = Some (Some (of_int expected)) \<and>
         (\<exists>chunks ending. getObject storage bucket objectKey = Some (chunks, ending) \<and> n \<le> length (concat chunks) \<and>
            detectReinforcementProofMime (take n (concat chunks)) = Inr (Some mime)))"
proof (cases "assertDeclaredProofMimeAllowed proofType declared = Inr () \<and> 0 < expected \<and>
    statObject storage bucket objectKey = Some (Some (of_int expected)) \<and> expected \<le> MAX_SAFE_INTEGER")
  case True
  define n where "n = nat (min expected REINFORCEMENT_PROOF_PREFIX_MAX_BYTES)"
  have "0 < n" using True by (simp add: n_def REINFORCEMENT_PROOF_PREFIX_MAX_BYTES_def)
  from True have d: "assertDeclaredProofMimeAllowed proofType declared = Inr ()" "0 < expected"
    "statObject storage bucket objectKey = Some (Some (of_int expected))" "expected \<le> MAX_SAFE_INTEGER" by simp_all
  note d(1) [unfolded allowed_mime]
  then show ?thesis
    unfolding verify_content [OF d] content_check_def n_def [symmetric] readObjectPrefix_exact [OF \<open>0 < n\<close>] Let_def
    using d declared_then_detected [OF d(1)] by blast
next
  case False
  then have "verify storage proofType declared bucket objectKey expected \<noteq> Inr ()" by (blast dest: verify_needs)
  with False show ?thesis unfolding Let_def allowed_mime by blast
qed

end
