(* ===== verification/Review_Requests.thy ===== *)
theory Review_Requests
  imports Review_Store Proof_Verifier Interleaving
begin

text \<open>
  The use cases that submit and review the stages of a task
  (\<open>reviews/application/submit-reinforcement-stage.use-case.ts\<close>, \<open>approve-\<close> and
  \<open>reject-reinforcement-submission.use-case.ts\<close>, \<open>reinforcement-review-use-case.helpers.ts\<close>) and cancel a task
  (\<open>tasks/application/cancel-reinforcement-task.use-case.ts\<close>), each split where it opens its transaction; the
  audit entry, which is written after the transaction, is part of the second half.
\<close>

section \<open>Views of the rows\<close>

definition task_state :: "ReinforcementTask \<Rightarrow> TaskState" where
  "task_state t = \<lparr>ts_id = rt_id t, ts_status = rt_status t, ts_deletedAt = rt_deletedAt t\<rparr>"

definition stage_state :: "ReinforcementTaskStage \<Rightarrow> StageReviewStateLike" where
  "stage_state s = \<lparr>st_id = rs_id s, st_taskId = rs_taskId s, st_proofType = rs_proofType s, st_deletedAt = rs_deletedAt s\<rparr>"

definition assignment_state :: "ReviewDb \<Rightarrow> ReinforcementAssignment \<Rightarrow> AssignmentReviewStateLike" where
  "assignment_state db a = \<lparr>as_state_id = ra_id a, as_state_status = ra_status a,
     as_state_task = map_option task_state (task_of (ra_schoolId a) (ra_taskId a) db)\<rparr>"

section \<open>Audit entries\<close>

definition review_audit ::
  "ReinforcementScope \<Rightarrow> string \<Rightarrow> string \<Rightarrow> string \<Rightarrow> json_object option \<Rightarrow> json_object \<Rightarrow> RewardAuditLogInput" where
  "review_audit scope action resourceType resourceId before after =
     \<lparr>au_actorId = scope_actorId scope, au_userType = scope_userType scope,
      au_organizationId = scope_organizationId scope, au_schoolId = scope_schoolId scope,
      au_module = ''reinforcement'', au_action = action, au_resourceType = resourceType,
      au_resourceId = Some resourceId, au_outcome = ''SUCCESS'', au_before = before, au_after = Some after\<rparr>"

definition submission_detail :: "ReinforcementSubmissionStatus \<Rightarrow> detail" where
  "submission_detail st = DStr (ReinforcementSubmissionStatus_name st)"

definition buildSubmissionAuditEntry ::
  "ReinforcementScope \<Rightarrow> string \<Rightarrow> ReinforcementSubmissionStatus option \<Rightarrow> ReviewDb \<Rightarrow> ReinforcementSubmission \<Rightarrow>
   RewardAuditLogInput" where
  "buildSubmissionAuditEntry scope action beforeStatus db s =
     review_audit scope action ''reinforcement_submission'' (su_id s)
       (map_option (\<lambda>st. [(''status'', submission_detail st)]) beforeStatus)
       [(''submissionId'', DStr (su_id s)), (''assignmentId'', DStr (su_assignmentId s)),
        (''taskId'', DStr (su_taskId s)), (''stageId'', DStr (su_stageId s)), (''studentId'', DStr (su_studentId s)),
        (''proofType'', case stage_of (su_schoolId s) (su_stageId s) db of
           None \<Rightarrow> DUndefined | Some g \<Rightarrow> DStr (ReinforcementProofType_name (rs_proofType g))),
        (''status'', submission_detail (su_status s))]"

definition assignment_details :: "string \<Rightarrow> ReinforcementAssignment option \<Rightarrow> json_object" where
  "assignment_details prefix a =
     (case a of None \<Rightarrow> []
      | Some x \<Rightarrow> [(prefix @ ''AssignmentStatus'', DStr (ReinforcementTaskStatus_name (ra_status x))),
                   (prefix @ ''AssignmentProgress'', DInt (ra_progress x))])"

definition buildReviewAuditEntry ::
  "ReinforcementScope \<Rightarrow> string \<Rightarrow> ReinforcementReviewOutcome \<Rightarrow> ReinforcementSubmission \<Rightarrow>
   ReinforcementAssignment option \<Rightarrow> ReviewDb \<Rightarrow> ReinforcementSubmission \<Rightarrow> RewardAuditLogInput" where
  "buildReviewAuditEntry scope action outcome before beforeAssignment db after =
     review_audit scope action ''reinforcement_review''
       (case su_currentReviewId after of None \<Rightarrow> su_id after | Some i \<Rightarrow> i)
       (Some ([(''submissionId'', DStr (su_id before)), (''submissionStatus'', submission_detail (su_status before))] @
              (case beforeAssignment of None \<Rightarrow> []
               | Some a \<Rightarrow> [(''assignmentStatus'', DStr (ReinforcementTaskStatus_name (ra_status a))),
                            (''assignmentProgress'', DInt (ra_progress a))])))
       ([(''reviewId'', detail_of_str_option (su_currentReviewId after)),
         (''reviewOutcome'', DStr (ReinforcementReviewOutcome_name outcome)), (''submissionId'', DStr (su_id after)),
         (''assignmentId'', DStr (su_assignmentId after)), (''taskId'', DStr (su_taskId after)),
         (''stageId'', DStr (su_stageId after)), (''studentId'', DStr (su_studentId after)),
         (''beforeSubmissionStatus'', submission_detail (su_status before)),
         (''afterSubmissionStatus'', submission_detail (su_status after))] @
        assignment_details ''before'' beforeAssignment @
        assignment_details ''after'' (assignment_of (su_schoolId after) (su_assignmentId after) db))"

definition summarizeTaskForAudit :: "ReviewDb \<Rightarrow> ReinforcementTask \<Rightarrow> json_object" where
  "summarizeTaskForAudit db t =
     [(''academicYearId'', DStr (rt_academicYearId t)), (''termId'', DStr (rt_termId t)),
      (''subjectId'', detail_of_str_option (rt_subjectId t)), (''source'', DStr (rt_source t)),
      (''status'', DStr (ReinforcementTaskStatus_name (rt_status t))),
      (''rewardType'', detail_of_str_option (rt_rewardType t)), (''dueDate'', detail_of_date_option (rt_dueDate t)),
      (''assignedById'', detail_of_str_option (rt_assignedById t)),
      (''createdById'', detail_of_str_option (rt_createdById t)),
      (''cancelledById'', detail_of_str_option (rt_cancelledById t)),
      (''cancelledAt'', detail_of_date_option (rt_cancelledAt t)),
      (''targetCount'', DInt (int (length (filter (\<lambda>g. g = (rt_id t, rt_schoolId t)) (vdb_targets db))))),
      (''stageCount'', DInt (int (length (filter (\<lambda>s. rs_taskId s = rt_id t \<and> rs_schoolId s = rt_schoolId t \<and>
         rs_deletedAt s = None) (vdb_stages db))))),
      (''assignmentCount'', DInt (int (length (filter (\<lambda>a. ra_taskId a = rt_id t \<and> ra_schoolId a = rt_schoolId t)
         (vdb_assignments db)))))]"

definition buildTaskAuditEntry ::
  "ReinforcementScope \<Rightarrow> string \<Rightarrow> json_object \<Rightarrow> json_object \<Rightarrow> ReviewDb \<Rightarrow> ReinforcementTask \<Rightarrow> RewardAuditLogInput" where
  "buildTaskAuditEntry scope action before afterMetadata db t =
     review_audit scope action ''reinforcement_task'' (rt_id t) (Some before) (summarizeTaskForAudit db t @ afterMetadata)"

definition createReviewAuditLog :: "RewardAuditLogInput \<Rightarrow> ReviewDb \<Rightarrow> ReviewDb" where
  "createReviewAuditLog entry db = db\<lparr>vdb_audit := vdb_audit db @ [entry]\<rparr>"

section \<open>Submitting a stage\<close>

record SubmitReinforcementStageDto =
  sd_proofText :: "string option"
  sd_proofFileId :: "string option"
  sd_metadata :: "json_object option"

datatype review_pending =
    PSubmit ReinforcementScope SubmitStageInput "ReinforcementSubmissionStatus option"
  | PApprove ReinforcementScope ReviewSubmissionInput "ReinforcementAssignment option"
  | PReject ReinforcementScope ReviewSubmissionInput "ReinforcementAssignment option"
  | PCancelTask ReinforcementScope string "string option" ReinforcementTaskStatus json_object

definition SubmitReinforcementStageUseCase_prepare ::
  "ObjectStorage \<Rightarrow> RequestContext option \<Rightarrow> int \<Rightarrow> string \<Rightarrow> string \<Rightarrow> SubmitReinforcementStageDto \<Rightarrow> ReviewDb \<Rightarrow>
   review_pending result" where
  "SubmitReinforcementStageUseCase_prepare storage ctx now assignmentId stageId command db =
     andThen (requireReinforcementScope ctx) (\<lambda>scope.
     let school = scope_schoolId scope in
     andThen (found (NotFoundDomainException ''Reinforcement assignment not found'' [(''assignmentId'', DStr assignmentId)])
                (findAssignmentForSubmit school assignmentId db)) (\<lambda>assignment.
     andThen (assertAssignmentCanSubmit (assignment_state db assignment)) (\<lambda>_.
     andThen (found (NotFoundDomainException ''Reinforcement task stage not found''
                [(''assignmentId'', DStr assignmentId), (''stageId'', DStr stageId)])
                (findStageForAssignment school (ra_taskId assignment) stageId db)) (\<lambda>stage.
     andThen (assertStageBelongsToTask (stage_state stage) (ra_taskId assignment)) (\<lambda>_.
     andThen (assertProofPayloadMatchesProofType (rs_proofType stage) (sd_proofFileId command)) (\<lambda>_.
     andThen (if truthy (sd_proofFileId command)
              then
                andThen (found (NotFoundDomainException ''Proof file not found''
                    [(''proofFileId'', detail_of_str_option (sd_proofFileId command))])
                    (findProofFile (the (sd_proofFileId command)) (scope_organizationId scope) school
                       (scope_actorId scope) db)) (\<lambda>proofFile.
                andThen (assertDeclaredProofMimeAllowed (rs_proofType stage) (pf_mimeType proofFile)) (\<lambda>_.
                  if rs_proofType stage \<noteq> Proof_NONE
                  then verify storage (rs_proofType stage) (pf_mimeType proofFile) (pf_bucket proofFile)
                         (pf_objectKey proofFile) (pf_sizeBytes proofFile)
                  else Inr ()))
              else Inr ()) (\<lambda>_.
     let existing = findSubmissionByAssignmentStage school assignmentId stageId db in
     andThen (assertSubmissionCanBeSubmitted (map_option (\<lambda>s. (su_id s, su_status s)) existing)) (\<lambda>_.
     andThen (deriveAssignmentStatusAfterSubmit (ra_status assignment)) (\<lambda>status.
       Inr (PSubmit scope
         \<lparr>si_schoolId = school, si_assignment = assignment, si_stageId = rs_id stage,
          si_existingSubmissionId = map_option su_id existing, si_assignmentStatus = status,
          si_proofText = trimmed_or_null (sd_proofText command),
          si_proofFileId = trimmed_or_null (sd_proofFileId command), si_submittedById = scope_actorId scope,
          si_submittedAt = now, si_metadata = sd_metadata command\<rparr>
         (map_option su_status existing)))))))))))"

section \<open>Reviewing a submission\<close>

record ReviewReinforcementSubmissionDto =
  rd_note :: "string option"
  rd_noteAr :: "string option"

definition findReviewItemOrThrow :: "string \<Rightarrow> string \<Rightarrow> ReviewDb \<Rightarrow> ReinforcementSubmission result" where
  "findReviewItemOrThrow school submissionId db =
     found (NotFoundDomainException ''Reinforcement submission not found'' [(''submissionId'', DStr submissionId)])
       (findSubmissionForReview school submissionId db)"

definition assert_reviewable :: "ReviewDb \<Rightarrow> ReinforcementSubmission \<Rightarrow> unit result" where
  "assert_reviewable db s =
     assertSubmissionReviewable (su_id s) (su_status s) (su_taskId s)
       (map_option task_state (task_of (su_schoolId s) (su_taskId s) db))
       (map_option (assignment_state db) (assignment_of (su_schoolId s) (su_assignmentId s) db))
       (map_option stage_state (stage_of (su_schoolId s) (su_stageId s) db))"

text \<open>\<open>params.submission.assignment\<close> is a required relation: without its row the access raises.\<close>

definition submission_assignment :: "ReviewDb \<Rightarrow> ReinforcementSubmission \<Rightarrow> ReinforcementAssignment result" where
  "submission_assignment db s =
     found (JsError ''Cannot read properties of null'') (assignment_of (su_schoolId s) (su_assignmentId s) db)"

record AssignmentUpdate =
  au_progress :: int
  au_status :: ReinforcementTaskStatus
  au_completedAt :: "int option"
  au_activeStageCount :: nat

definition buildApprovedAssignmentUpdate ::
  "string \<Rightarrow> ReinforcementSubmission \<Rightarrow> int \<Rightarrow> ReviewDb \<Rightarrow> AssignmentUpdate result" where
  "buildApprovedAssignmentUpdate school s now db =
     (let activeStageIds = listActiveStagesForTask school (su_taskId s) db;
          approvedStageIds = listApprovedStageIdsForAssignment school (su_assignmentId s) db;
          progress = calculateAssignmentProgress activeStageIds (approvedStageIds @ [su_stageId s])
      in andThen (submission_assignment db s) (\<lambda>a.
         andThen (deriveAssignmentStatusAfterApprove (ra_status a) progress (length activeStageIds)) (\<lambda>status.
           Inr \<lparr>au_progress = (if ra_status a = Task_COMPLETED then ra_progress a else progress), au_status = status,
                au_completedAt = (if status = Task_COMPLETED
                                  then (if ra_completedAt a \<noteq> None then ra_completedAt a else Some now) else None),
                au_activeStageCount = length activeStageIds\<rparr>)))"

definition buildRejectedAssignmentUpdate ::
  "string \<Rightarrow> ReinforcementSubmission \<Rightarrow> ReviewDb \<Rightarrow> (int \<times> ReinforcementTaskStatus) result" where
  "buildRejectedAssignmentUpdate school s db =
     (let activeStageIds = listActiveStagesForTask school (su_taskId s) db;
          approvedStageIds = listApprovedStageIdsForAssignment school (su_assignmentId s) db;
          progress = calculateAssignmentProgress activeStageIds approvedStageIds
      in andThen (submission_assignment db s) (\<lambda>a.
         andThen (deriveAssignmentStatusAfterReject (ra_status a)) (\<lambda>status.
           Inr (if ra_status a = Task_COMPLETED then ra_progress a else progress, status))))"

definition ApproveReinforcementSubmissionUseCase_prepare ::
  "RequestContext option \<Rightarrow> int \<Rightarrow> string \<Rightarrow> ReviewReinforcementSubmissionDto \<Rightarrow> ReviewDb \<Rightarrow> review_pending result" where
  "ApproveReinforcementSubmissionUseCase_prepare ctx now submissionId command db =
     andThen (requireReinforcementScope ctx) (\<lambda>scope.
     andThen (findReviewItemOrThrow (scope_schoolId scope) submissionId db) (\<lambda>s.
     andThen (assert_reviewable db s) (\<lambda>_.
     andThen (buildApprovedAssignmentUpdate (scope_schoolId scope) s now db) (\<lambda>update.
       Inr (PApprove scope
         \<lparr>ri_schoolId = scope_schoolId scope, ri_submission = s, ri_reviewedById = scope_actorId scope,
          ri_reviewedAt = now, ri_note = trimmed_or_null (rd_note command),
          ri_noteAr = trimmed_or_null (rd_noteAr command), ri_assignmentStatus = au_status update,
          ri_assignmentProgress = au_progress update, ri_assignmentCompletedAt = au_completedAt update,
          ri_outcome = Outcome_APPROVED,
          ri_metadata = Some [(''activeStageCount'', DInt (int (au_activeStageCount update)))]\<rparr>
         (assignment_of (su_schoolId s) (su_assignmentId s) db))))))"

definition RejectReinforcementSubmissionUseCase_prepare ::
  "RequestContext option \<Rightarrow> int \<Rightarrow> string \<Rightarrow> ReviewReinforcementSubmissionDto \<Rightarrow> ReviewDb \<Rightarrow> review_pending result" where
  "RejectReinforcementSubmissionUseCase_prepare ctx now submissionId command db =
     andThen (requireReinforcementScope ctx) (\<lambda>scope.
     andThen (findReviewItemOrThrow (scope_schoolId scope) submissionId db) (\<lambda>s.
     andThen (assert_reviewable db s) (\<lambda>_.
     let note = trimmed_or_null (rd_note command); noteAr = trimmed_or_null (rd_noteAr command) in
     andThen (assertReviewNoteForRejection note noteAr) (\<lambda>_.
     andThen (buildRejectedAssignmentUpdate (scope_schoolId scope) s db) (\<lambda>(progress, status).
       Inr (PReject scope
         \<lparr>ri_schoolId = scope_schoolId scope, ri_submission = s, ri_reviewedById = scope_actorId scope,
          ri_reviewedAt = now, ri_note = note, ri_noteAr = noteAr, ri_assignmentStatus = status,
          ri_assignmentProgress = progress, ri_assignmentCompletedAt = None, ri_outcome = Outcome_REJECTED,
          ri_metadata = None\<rparr>
         (assignment_of (su_schoolId s) (su_assignmentId s) db)))))))"

section \<open>Cancelling a task\<close>

definition findTaskById :: "string \<Rightarrow> string \<Rightarrow> ReviewDb \<Rightarrow> ReinforcementTask option" where
  "findTaskById school taskId db =
     findFirst (\<lambda>t. rt_id t = taskId \<and> rt_schoolId t = school \<and> rt_deletedAt t = None) (vdb_tasks db)"

definition assertTaskCancelable :: "ReinforcementTask \<Rightarrow> unit result" where
  "assertTaskCancelable t =
     andThen (task_status (rt_status t)) (\<lambda>s.
       if s = JStr ''CANCELLED'' then Inl (ReinforcementTaskCancelledException [(''taskId'', DStr (rt_id t))]) else Inr ())"

definition CancelReinforcementTaskUseCase_prepare ::
  "RequestContext option \<Rightarrow> string \<Rightarrow> string option \<Rightarrow> ReviewDb \<Rightarrow> review_pending result" where
  "CancelReinforcementTaskUseCase_prepare ctx taskId reason db =
     andThen (requireReinforcementScope ctx) (\<lambda>scope.
     andThen (found (NotFoundDomainException ''Reinforcement task not found'' [(''taskId'', DStr taskId)])
                (findTaskById (scope_schoolId scope) taskId db)) (\<lambda>existing.
     andThen (assertTaskCancelable existing) (\<lambda>_.
       Inr (PCancelTask scope taskId reason (rt_status existing) (summarizeTaskForAudit db existing)))))"

section \<open>Requests\<close>

datatype review_request =
    SubmitStage string string SubmitReinforcementStageDto
  | ApproveSubmission string ReviewReinforcementSubmissionDto
  | RejectSubmission string ReviewReinforcementSubmissionDto
  | CancelTask string "string option"

fun review_prepare ::
  "ObjectStorage \<Rightarrow> RequestContext option \<Rightarrow> int \<Rightarrow> review_request \<Rightarrow> ReviewDb \<Rightarrow> review_pending result" where
  "review_prepare storage ctx now (SubmitStage assignmentId stageId command) db =
     SubmitReinforcementStageUseCase_prepare storage ctx now assignmentId stageId command db"
| "review_prepare storage ctx now (ApproveSubmission i command) db =
     ApproveReinforcementSubmissionUseCase_prepare ctx now i command db"
| "review_prepare storage ctx now (RejectSubmission i command) db =
     RejectReinforcementSubmissionUseCase_prepare ctx now i command db"
| "review_prepare storage ctx now (CancelTask i reason) db = CancelReinforcementTaskUseCase_prepare ctx i reason db"

fun review_commit :: "string \<Rightarrow> int \<Rightarrow> review_pending \<Rightarrow> ReviewDb \<Rightarrow> ReviewDb result" where
  "review_commit newId now (PSubmit scope input beforeStatus) db =
     andThen (createOrResubmitSubmission newId input db) (\<lambda>(s, db1).
       Inr (createReviewAuditLog (buildSubmissionAuditEntry scope ''reinforcement.submission.submit'' beforeStatus db1 s) db1))"
| "review_commit newId now (PApprove scope input before) db =
     andThen (approveSubmissionWithReview newId input db) (\<lambda>(s, db1).
       Inr (createReviewAuditLog (buildReviewAuditEntry scope ''reinforcement.review.approve'' Outcome_APPROVED
              (ri_submission input) before db1 s) db1))"
| "review_commit newId now (PReject scope input before) db =
     andThen (rejectSubmissionWithReview newId input db) (\<lambda>(s, db1).
       Inr (createReviewAuditLog (buildReviewAuditEntry scope ''reinforcement.review.reject'' Outcome_REJECTED
              (ri_submission input) before db1 s) db1))"
| "review_commit newId now (PCancelTask scope taskId reason beforeStatus summary) db =
     andThen (cancelTaskAndAssignments (scope_schoolId scope) taskId (scope_actorId scope) reason now db)
       (\<lambda>(t, affected, db1).
         Inr (createReviewAuditLog (buildTaskAuditEntry scope ''reinforcement.task.cancel'' summary
           [(''beforeStatus'', DStr (ReinforcementTaskStatus_name beforeStatus)),
            (''afterStatus'', DStr (ReinforcementTaskStatus_name (rt_status t))),
            (''affectedAssignmentCount'', DInt (int affected))] db1 t) db1))"

text \<open>The two relations of the interface: a request that has passed its checks, and its transaction, which
  leaves the tables as they are when it throws.\<close>

definition review_start :: "ObjectStorage \<Rightarrow> ReviewDb \<Rightarrow> review_pending \<Rightarrow> bool" where
  "review_start storage db p \<longleftrightarrow> (\<exists>ctx now req. review_prepare storage ctx now req db = Inr p)"

definition review_finish :: "review_pending \<Rightarrow> ReviewDb \<Rightarrow> ReviewDb \<Rightarrow> bool" where
  "review_finish p db db' \<longleftrightarrow>
     (\<exists>newId now. case review_commit newId now p db of Inl e \<Rightarrow> db' = db | Inr db1 \<Rightarrow> db' = db1)"

end
