(* ===== verification/Review_Progress.thy ===== *)
theory Review_Progress
  imports Review_Requests
begin

text \<open>
  The progress of an assignment (\<open>calculateAssignmentProgress\<close>) as a function of the number of approved stages,
  computed with the rounded division and multiplication of the code, and when it reports a task as complete.
\<close>

section \<open>Counting stages\<close>

definition progress_of :: "nat \<Rightarrow> nat \<Rightarrow> int" where
  "progress_of k n = \<lfloor>math_round (js_mul (js_div (of_nat k) (of_nat n)) 100)\<rfloor>"

lemma progress_by_count:
  "calculateAssignmentProgress active approved =
     (if active = [] then 0 else progress_of (card (set approved \<inter> set active)) (card (set active)))"
proof -
  have count: "length (js_unique xs) = card (set xs)" for xs :: "string list"
    by (metis distinct_card distinct_js_unique set_js_unique)
  have "{s. s \<in> set approved \<and> s \<in> set active} = set approved \<inter> set active" by blast
  then show ?thesis
    by (simp add: calculateAssignmentProgress_def progress_of_def Let_def count)
qed

lemma progress_cong:
  "set active = set active' \<Longrightarrow> set approved \<inter> set active = set approved' \<inter> set active' \<Longrightarrow>
   calculateAssignmentProgress active approved = calculateAssignmentProgress active' approved'"
  by (cases "active = []") (auto simp: progress_by_count)

lemma progress_mono:
  assumes "j \<le> k"
  shows "progress_of j n \<le> progress_of k n"
proof (cases "n = 0")
  case False
  have "js_mul (js_div (of_nat j) (of_nat n)) 100 \<le> js_mul (js_div (of_nat k) (of_nat n)) 100"
    by (intro js_mul_mono js_div_mono) (use assms False in simp_all)
  then show ?thesis unfolding progress_of_def by (intro floor_mono math_round_mono)
qed (simp add: progress_of_def js_div_def)

lemma progress_all:
  assumes "0 < n"
  shows "progress_of n n = 100"
proof -
  have "js_div (of_nat n) (of_nat n) = 1" using assms fl_int [of 1] by (simp add: js_div_def)
  moreover have "\<lfloor>math_round (js_mul 1 100)\<rfloor> = 100" by code_simp
  ultimately show ?thesis by (simp add: progress_of_def)
qed

lemma progress_step: "\<lfloor>math_round (js_mul (js_div 198 199) 100)\<rfloor> = 99"
  by code_simp

lemma progress_part:
  assumes "k < n" "n < 200"
  shows "progress_of k n < 100"
proof -
  have k: "199 * k \<le> 198 * n" using assms by linarith
  have "(of_nat (199 * k) :: rat) \<le> of_nat (198 * n)" using k by (rule of_nat_mono)
  then have "(of_nat k :: rat) / of_nat n \<le> 198 / 199" using assms by (simp add: field_simps)
  then have "js_div (of_nat k) (of_nat n) \<le> js_div 198 199" by (simp add: js_div_def fl_mono)
  then have "js_mul (js_div (of_nat k) (of_nat n)) 100 \<le> js_mul (js_div 198 199) 100" by (intro js_mul_mono) simp
  then have "progress_of k n \<le> \<lfloor>math_round (js_mul (js_div 198 199) 100)\<rfloor>"
    unfolding progress_of_def by (intro floor_mono math_round_mono)
  then show ?thesis by (simp add: progress_step)
qed

lemma progress_complete_iff:
  assumes "card (set active) < 200"
  shows "100 \<le> calculateAssignmentProgress active approved \<longleftrightarrow> active \<noteq> [] \<and> set active \<subseteq> set approved"
proof (cases "active = []")
  case False
  let ?k = "card (set approved \<inter> set active)" and ?n = "card (set active)"
  have n: "0 < ?n" using False by (simp add: card_gt_0_iff)
  have "set active \<subseteq> set approved \<longleftrightarrow> ?k = ?n"
  proof
    assume "?k = ?n"
    then show "set active \<subseteq> set approved" using card_subset_eq [of "set active" "set approved \<inter> set active"] by auto
  qed (simp add: Int_absorb1)
  moreover have "?k \<le> ?n" by (intro card_mono) auto
  ultimately show ?thesis
    using False progress_all [OF n] progress_part [of ?k ?n] assms by (auto simp: progress_by_count order_le_less)
qed (simp add: progress_by_count)

lemma progress_le: "calculateAssignmentProgress active approved \<le> 100"
proof (cases "active = []")
  case False
  have "card (set approved \<inter> set active) \<le> card (set active)" by (intro card_mono) auto
  from progress_mono [OF this, of "card (set active)"] show ?thesis
    using False by (simp add: progress_by_count progress_all card_gt_0_iff)
qed (simp add: progress_by_count)

lemma progress_more_approved:
  "set approved \<subseteq> set approved' \<Longrightarrow> calculateAssignmentProgress active approved \<le> calculateAssignmentProgress active approved'"
  by (auto simp: progress_by_count intro!: progress_mono card_mono)



end
