(* ===== verification/Review_Theorems.thy ===== *)
theory Review_Theorems
  imports Review_Progress
begin

text \<open>
  The guarantees of submissions and reviews: what an approval fixes however requests interleave, that an assignment
  follows the reviews of its stages when they do not, and how two approvals at the same time strand an assignment.
\<close>

lemma filter_key: "distinct (map f xs) \<Longrightarrow> x \<in> set xs \<Longrightarrow> filter (\<lambda>y. f y = f x) xs = [x]"
  by (induction xs) (auto simp: filter_empty_conv rev_image_eqI)

section \<open>The tables after a write\<close>

abbreviation submission_key :: "ReinforcementSubmission \<Rightarrow> string \<times> string \<times> string" where
  "submission_key s \<equiv> (su_schoolId s, su_assignmentId s, su_stageId s)"

text \<open>What no write changes in a submission, an assignment, or a task.\<close>

abbreviation submission_core :: "ReinforcementSubmission \<Rightarrow> string \<times> string \<times> string \<times> string \<times> string \<times> string" where
  "submission_core s \<equiv> (su_id s, su_schoolId s, su_assignmentId s, su_taskId s, su_stageId s, su_studentId s)"

abbreviation assignment_core :: "ReinforcementAssignment \<Rightarrow> string \<times> string \<times> string \<times> string" where
  "assignment_core a \<equiv> (ra_id a, ra_schoolId a, ra_taskId a, ra_studentId a)"

text \<open>A write of submissions: rows that change keep their core, and are neither approved nor of another status
  than \<open>before\<close>; new rows have status \<open>SUBMITTED\<close> and a new id and key.\<close>

definition updates_rows ::
  "(ReinforcementSubmission \<Rightarrow> bool) \<Rightarrow> (ReinforcementSubmission \<Rightarrow> ReinforcementSubmission) \<Rightarrow> ReviewDb \<Rightarrow> ReviewDb \<Rightarrow> bool" where
  "updates_rows q f db db' \<longleftrightarrow> vdb_submissions db' = map (\<lambda>s. if q s then f s else s) (vdb_submissions db) \<and>
     (\<forall>s. submission_core (f s) = submission_core s) \<and> (\<forall>s. q s \<longrightarrow> su_status s \<noteq> Sub_APPROVED)"

definition adds_row :: "ReinforcementSubmission \<Rightarrow> ReviewDb \<Rightarrow> ReviewDb \<Rightarrow> bool" where
  "adds_row s db db' \<longleftrightarrow> vdb_submissions db' = vdb_submissions db @ [s] \<and> su_status s = Sub_SUBMITTED \<and>
     (\<forall>r \<in> set (vdb_submissions db). su_id r \<noteq> su_id s \<and> submission_key r \<noteq> submission_key s)"

lemma createReviewAuditLog_simps [simp]:
  "vdb_submissions (createReviewAuditLog e db) = vdb_submissions db"
  "vdb_assignments (createReviewAuditLog e db) = vdb_assignments db"
  "vdb_tasks (createReviewAuditLog e db) = vdb_tasks db" "vdb_stages (createReviewAuditLog e db) = vdb_stages db"
  "vdb_reviews (createReviewAuditLog e db) = vdb_reviews db"
  by (simp_all add: createReviewAuditLog_def)

lemma review_audit_rows [simp]:
  "updates_rows q f db (createReviewAuditLog e db1) = updates_rows q f db db1"
  "adds_row r db (createReviewAuditLog e db1) = adds_row r db db1"
  by (simp_all add: updates_rows_def adds_row_def)

lemma submit_write:
  assumes "createOrResubmitSubmission i input db = Inr (s, db')"
  shows "vdb_tasks db' = vdb_tasks db \<and> vdb_stages db' = vdb_stages db \<and>
    vdb_assignments db' = map (\<lambda>a. if open_assignment (si_schoolId input) (ra_id (si_assignment input)) a
      then a\<lparr>ra_status := si_assignmentStatus input,
             ra_startedAt := (if ra_startedAt (si_assignment input) \<noteq> None then ra_startedAt (si_assignment input)
                              else Some (si_submittedAt input))\<rparr> else a) (vdb_assignments db) \<and>
    (updates_rows (can_resubmit (the (si_existingSubmissionId input)) input) (resubmitted input) db db' \<or>
     (\<exists>r. adds_row r db db' \<and> submission_key r = (si_schoolId input, ra_id (si_assignment input), si_stageId input) \<and>
          su_taskId r = ra_taskId (si_assignment input)))"
proof (cases "truthy (si_existingSubmissionId input)")
  case True
  then show ?thesis using assms
    by (auto simp: createOrResubmitSubmission_def andThen_eq_Inr resubmitExisting_def updateMany_def updates_rows_def
        can_resubmit_def resubmitted_def Let_def)
next
  case False
  then show ?thesis using assms
    by (auto simp: createOrResubmitSubmission_def andThen_eq_Inr createSubmission_def updateMany_def adds_row_def
        Let_def split: if_splits)
qed

lemma review_write:
  assumes "reviewSubmissionWithOutcome i input db = Inr (s, db')"
  shows "vdb_tasks db' = vdb_tasks db \<and> vdb_stages db' = vdb_stages db \<and>
    vdb_assignments db' = map (\<lambda>a. if open_assignment (ri_schoolId input) (su_assignmentId (ri_submission input)) a
      then a\<lparr>ra_status := ri_assignmentStatus input, ra_progress := ri_assignmentProgress input,
             ra_completedAt := (if ri_assignmentCompletedAt input \<noteq> None
                                then ri_assignmentCompletedAt input else ra_completedAt a)\<rparr> else a) (vdb_assignments db) \<and>
    updates_rows (awaiting_review input) (reviewed_row input i) db db'"
  using assms
  by (auto simp: reviewSubmissionWithOutcome_def Let_def andThen_eq_Inr updateMany_def updates_rows_def
      awaiting_review_def reviewed_row_def split: if_splits)

lemma cancel_write:
  assumes "cancelTaskAndAssignments school taskId actor reason now db = Inr (t, n, db')"
  shows "vdb_submissions db' = vdb_submissions db \<and> vdb_stages db' = vdb_stages db \<and>
    vdb_tasks db' = map (\<lambda>t. if rt_id t = taskId \<and> rt_schoolId t = school \<and> rt_deletedAt t = None
      then t\<lparr>rt_status := Task_CANCELLED, rt_cancelledAt := Some now, rt_cancelledById := Some actor,
             rt_cancellationReason := reason\<rparr> else t) (vdb_tasks db) \<and>
    vdb_assignments db' = map (\<lambda>a. if ra_taskId a = taskId \<and> ra_schoolId a = school \<and>
        ra_status a \<notin> {Task_COMPLETED, Task_CANCELLED}
      then a\<lparr>ra_status := Task_CANCELLED, ra_cancelledAt := Some now\<rparr> else a) (vdb_assignments db)"
  using assms by (auto simp: cancelTaskAndAssignments_def Let_def andThen_eq_Inr updateMany_def)

section \<open>Approved submissions are final\<close>

text \<open>Every write updates rows that are not approved, or adds a row.\<close>

lemma review_commit_rows:
  assumes "review_commit i now p db = Inr db'"
  shows "(\<exists>q f. updates_rows q f db db') \<or> (\<exists>r. adds_row r db db')"
proof (cases p)
  case (PSubmit scope input before)
  with assms obtain s db1 e where "createOrResubmitSubmission i input db = Inr (s, db1)" "db' = createReviewAuditLog e db1"
    by (auto simp: andThen_eq_Inr)
  then show ?thesis using submit_write [of i input db s db1] by auto
next
  case (PApprove scope input before)
  with assms obtain s db1 e where "approveSubmissionWithReview i input db = Inr (s, db1)" "db' = createReviewAuditLog e db1"
    by (auto simp: andThen_eq_Inr)
  then show ?thesis using review_write [of i "input\<lparr>ri_outcome := Outcome_APPROVED\<rparr>" db s db1]
    by (auto simp: approveSubmissionWithReview_def)
next
  case (PReject scope input before)
  with assms obtain s db1 e where "rejectSubmissionWithReview i input db = Inr (s, db1)" "db' = createReviewAuditLog e db1"
    by (auto simp: andThen_eq_Inr)
  then show ?thesis using review_write [of i "input\<lparr>ri_outcome := Outcome_REJECTED\<rparr>" db s db1]
    by (auto simp: rejectSubmissionWithReview_def)
next
  case (PCancelTask scope taskId reason st summary)
  with assms obtain t n db1 e where "cancelTaskAndAssignments (scope_schoolId scope) taskId (scope_actorId scope) reason now db
      = Inr (t, n, db1)" "db' = createReviewAuditLog e db1"
    by (auto simp: andThen_eq_Inr)
  then have "updates_rows (\<lambda>_. False) id db db'"
    using cancel_write [of "scope_schoolId scope" taskId "scope_actorId scope" reason now db t n db1] by (simp add: updates_rows_def)
  then show ?thesis by blast
qed

definition approved_rows :: "ReviewDb \<Rightarrow> ReinforcementSubmission list" where
  "approved_rows db = filter (\<lambda>s. su_status s = Sub_APPROVED) (vdb_submissions db)"

definition approvals_kept :: "ReviewDb \<Rightarrow> ReviewDb \<Rightarrow> bool" where
  "approvals_kept old db \<longleftrightarrow> set (approved_rows old) \<subseteq> set (approved_rows db) \<and>
     distinct (map submission_key (vdb_submissions db)) \<and> distinct (map su_id (vdb_submissions db))"

lemma updates_rows_kept:
  assumes "updates_rows q f db db'" "approvals_kept old db"
  shows "approvals_kept old db'"
proof -
  have "map submission_key (vdb_submissions db') = map submission_key (vdb_submissions db)"
    "map su_id (vdb_submissions db') = map su_id (vdb_submissions db)"
    using assms(1) by (auto simp: updates_rows_def)
  moreover have "set (approved_rows db) \<subseteq> set (approved_rows db')"
    using assms(1) by (force simp: updates_rows_def approved_rows_def)
  ultimately show ?thesis using assms(2) by (auto simp: approvals_kept_def)
qed

lemma adds_row_kept: "adds_row r db db' \<Longrightarrow> approvals_kept old db \<Longrightarrow> approvals_kept old db'"
  by (fastforce simp: adds_row_def approvals_kept_def approved_rows_def)

interpretation approvals: request_invariant "review_start storage" review_finish "approvals_kept old" "\<lambda>_. True" for storage old
proof
  fix db db' p
  assume kept: "approvals_kept old db" and "review_finish p db db'"
  then obtain i now where "case review_commit i now p db of Inl e \<Rightarrow> db' = db | Inr db1 \<Rightarrow> db' = db1"
    by (auto simp: review_finish_def)
  then show "approvals_kept old db'"
    using kept review_commit_rows [of i now p db db'] by (cases "review_commit i now p db") (auto intro: updates_rows_kept adds_row_kept)
qed simp

section \<open>Requests that have passed their checks\<close>

definition reviewable :: "ReviewDb \<Rightarrow> string \<Rightarrow> ReinforcementSubmission \<Rightarrow> bool" where
  "reviewable db school s \<longleftrightarrow> s \<in> set (vdb_submissions db) \<and> su_schoolId s = school \<and> su_status s = Sub_SUBMITTED \<and>
     su_stageId s \<in> set (listActiveStagesForTask school (su_taskId s) db)"

definition reviewed_assignment :: "ReviewDb \<Rightarrow> ReinforcementSubmission \<Rightarrow> ReinforcementAssignment \<Rightarrow> bool" where
  "reviewed_assignment db s a \<longleftrightarrow> a \<in> set (vdb_assignments db) \<and> ra_id a = su_assignmentId s \<and>
     ra_schoolId a = su_schoolId s \<and> ra_status a \<noteq> Task_CANCELLED"

fun review_checked :: "ReviewDb \<Rightarrow> review_pending \<Rightarrow> bool" where
  "review_checked db (PSubmit scope input before) \<longleftrightarrow>
     (let a = si_assignment input in a \<in> set (vdb_assignments db) \<and> ra_schoolId a = si_schoolId input \<and>
        ra_status a \<noteq> Task_CANCELLED \<and> si_stageId input \<in> set (listActiveStagesForTask (si_schoolId input) (ra_taskId a) db) \<and>
        si_assignmentStatus input = (if ra_status a = Task_COMPLETED then Task_COMPLETED else Task_UNDER_REVIEW) \<and>
        (\<forall>r. findSubmissionByAssignmentStage (si_schoolId input) (ra_id a) (si_stageId input) db = Some r \<longrightarrow>
             su_status r \<noteq> Sub_APPROVED))"
| "review_checked db (PApprove scope input before) \<longleftrightarrow>
     (let s = ri_submission input; active = listActiveStagesForTask (ri_schoolId input) (su_taskId s) db;
          approved = listApprovedStageIdsForAssignment (ri_schoolId input) (su_assignmentId s) db;
          progress = calculateAssignmentProgress active (approved @ [su_stageId s])
      in reviewable db (ri_schoolId input) s \<and> (\<exists>a. reviewed_assignment db s a \<and>
         ri_assignmentProgress input = (if ra_status a = Task_COMPLETED then ra_progress a else progress) \<and>
         ri_assignmentStatus input =
           (if ra_status a = Task_COMPLETED \<or> progress \<ge> 100 then Task_COMPLETED else Task_IN_PROGRESS)))"
| "review_checked db (PReject scope input before) \<longleftrightarrow>
     (let s = ri_submission input; active = listActiveStagesForTask (ri_schoolId input) (su_taskId s) db;
          approved = listApprovedStageIdsForAssignment (ri_schoolId input) (su_assignmentId s) db
      in reviewable db (ri_schoolId input) s \<and> (\<exists>a. reviewed_assignment db s a \<and>
         ri_assignmentProgress input =
           (if ra_status a = Task_COMPLETED then ra_progress a else calculateAssignmentProgress active approved) \<and>
         ri_assignmentStatus input = (if ra_status a = Task_COMPLETED then Task_COMPLETED else Task_IN_PROGRESS)))"
| "review_checked db (PCancelTask scope taskId reason st summary) \<longleftrightarrow> True"

lemma name_eq [simp]:
  "ReinforcementTaskStatus_name st = ''CANCELLED'' \<longleftrightarrow> st = Task_CANCELLED"
  "ReinforcementTaskStatus_name st = ''COMPLETED'' \<longleftrightarrow> st = Task_COMPLETED"
  "ReinforcementSubmissionStatus_name x = ''SUBMITTED'' \<longleftrightarrow> x = Sub_SUBMITTED"
  "ReinforcementSubmissionStatus_name x = ''PENDING'' \<longleftrightarrow> x = Sub_PENDING"
  "ReinforcementSubmissionStatus_name x = ''REJECTED'' \<longleftrightarrow> x = Sub_REJECTED"
  by (cases st; cases x; simp)+

lemma set_active_stages: "set (listActiveStagesForTask school taskId db) =
    rs_id ` {s \<in> set (vdb_stages db). rs_taskId s = taskId \<and> rs_deletedAt s = None \<and> rs_schoolId s = school}"
  by (simp add: listActiveStagesForTask_def)

lemma set_approved_stages: "set (listApprovedStageIdsForAssignment school assignmentId db) =
    su_stageId ` {s \<in> set (vdb_submissions db). su_assignmentId s = assignmentId \<and> su_status s = Sub_APPROVED \<and> su_schoolId s = school}"
  by (simp add: listApprovedStageIdsForAssignment_def)

lemma active_length_pos: "0 < length (listActiveStagesForTask school taskId db) \<longleftrightarrow> listActiveStagesForTask school taskId db \<noteq> []"
  by simp

lemma found_eq_Inr [simp]: "found e x = Inr y \<longleftrightarrow> x = Some y"
  by (simp add: found_def split: option.split)

lemma submit_prepared:
  assumes "SubmitReinforcementStageUseCase_prepare storage ctx now assignmentId stageId command db = Inr p"
  shows "review_checked db p"
proof -
  from assms obtain scope a stage status where a: "findAssignmentForSubmit (scope_schoolId scope) assignmentId db = Some a"
    and can: "assertAssignmentCanSubmit (assignment_state db a) = Inr ()"
    and stage: "findStageForAssignment (scope_schoolId scope) (ra_taskId a) stageId db = Some stage"
    and existing: "assertSubmissionCanBeSubmitted (map_option (\<lambda>s. (su_id s, su_status s))
      (findSubmissionByAssignmentStage (scope_schoolId scope) assignmentId stageId db)) = Inr ()"
    and status: "deriveAssignmentStatusAfterSubmit (ra_status a) = Inr status"
    and p: "\<exists>input before. p = PSubmit scope input before \<and> si_schoolId input = scope_schoolId scope \<and>
      si_assignment input = a \<and> si_stageId input = rs_id stage \<and> si_assignmentStatus input = status"
    unfolding SubmitReinforcementStageUseCase_prepare_def Let_def andThen_eq_Inr found_eq_Inr
    by (elim exE conjE) fastforce
  have open_a: "ra_status a \<noteq> Task_CANCELLED"
    using can by (auto simp: assertAssignmentCanSubmit_def andThen_eq_Inr assignment_state_def split: if_splits)
  have status': "status = (if ra_status a = Task_COMPLETED then Task_COMPLETED else Task_UNDER_REVIEW)"
    using status open_a by (auto simp: deriveAssignmentStatusAfterSubmit_def)
  have "a \<in> set (vdb_assignments db)" "ra_schoolId a = scope_schoolId scope" "ra_id a = assignmentId"
    using findFirst_SomeD [OF a [unfolded findAssignmentForSubmit_def]] by auto
  moreover have "stage \<in> set (vdb_stages db)" "rs_id stage = stageId" "rs_taskId stage = ra_taskId a"
    "rs_schoolId stage = scope_schoolId scope" "rs_deletedAt stage = None"
    using findFirst_SomeD [OF stage [unfolded findStageForAssignment_def]] by auto
  moreover have "su_status r \<noteq> Sub_APPROVED" if "findSubmissionByAssignmentStage (scope_schoolId scope) assignmentId stageId db = Some r" for r
    using existing that by (auto simp: assertSubmissionCanBeSubmitted_def split: if_splits)
  ultimately show ?thesis using p open_a status' by (auto simp: Let_def set_active_stages)
qed

lemma assert_reviewableD:
  assumes "assert_reviewable db s = Inr ()"
  shows "su_status s = Sub_SUBMITTED"
    and "stage_of (su_schoolId s) (su_stageId s) db = Some g \<Longrightarrow> rs_deletedAt g = None \<and> rs_taskId g = su_taskId s"
    and "assignment_of (su_schoolId s) (su_assignmentId s) db = Some a \<Longrightarrow> ra_status a \<noteq> Task_CANCELLED"
proof -
  note all = assms [unfolded assert_reviewable_def assertSubmissionReviewable_def Let_def]
  show st: "su_status s = Sub_SUBMITTED" using all by (auto split: if_splits)
  show "rs_deletedAt g = None \<and> rs_taskId g = su_taskId s" if "stage_of (su_schoolId s) (su_stageId s) db = Some g"
    using all that st by (simp add: andThen_eq_Inr assertStageBelongsToTask_def stage_state_def split: if_splits)
  show "ra_status a \<noteq> Task_CANCELLED" if "assignment_of (su_schoolId s) (su_assignmentId s) db = Some a"
    using all that st by (auto simp: andThen_eq_Inr assignment_state_def split: if_splits)
qed

lemma reviewable_row:
  assumes "findReviewItemOrThrow school i db = Inr s" "assert_reviewable db s = Inr ()"
  shows "su_id s = i \<and> reviewable db school s"
proof -
  have s: "s \<in> set (vdb_submissions db)" "su_id s = i" "su_schoolId s = school" "live_stage school (su_stageId s) db"
    using findFirst_SomeD [OF assms(1) [unfolded findReviewItemOrThrow_def found_eq_Inr findSubmissionForReview_def]] by auto
  from s(4) obtain x where x: "x \<in> set (vdb_stages db)" "rs_id x = su_stageId s \<and> rs_schoolId x = school"
    unfolding live_stage_def by blast
  from findFirst_ex [OF x(1), of "\<lambda>x. rs_id x = su_stageId s \<and> rs_schoolId x = school", OF x(2)]
  obtain g where g: "stage_of school (su_stageId s) db = Some g" unfolding stage_of_def by blast
  then have "g \<in> set (vdb_stages db)" "rs_id g = su_stageId s" "rs_schoolId g = school"
    using findFirst_SomeD [OF g [unfolded stage_of_def]] by auto
  moreover have "rs_deletedAt g = None" "rs_taskId g = su_taskId s"
    using assert_reviewableD(2) [OF assms(2)] g s(3) by auto
  ultimately show ?thesis
    using s assert_reviewableD(1) [OF assms(2)] by (auto simp: reviewable_def set_active_stages intro!: rev_image_eqI [of g])
qed

lemma reviewed_assignmentI:
  assumes "assert_reviewable db s = Inr ()" "submission_assignment db s = Inr a"
  shows "reviewed_assignment db s a"
proof -
  have a: "assignment_of (su_schoolId s) (su_assignmentId s) db = Some a"
    using assms(2) by (simp add: submission_assignment_def)
  from findFirst_SomeD [OF this [unfolded assignment_of_def]] assert_reviewableD(3) [OF assms(1) a] show ?thesis
    by (auto simp: reviewed_assignment_def)
qed

lemma approval_prepared:
  assumes "ApproveReinforcementSubmissionUseCase_prepare ctx now i command db = Inr p"
  shows "\<exists>scope input before. p = PApprove scope input before \<and> su_id (ri_submission input) = i \<and> review_checked db p"
proof -
  from assms obtain scope s update where s: "findReviewItemOrThrow (scope_schoolId scope) i db = Inr s" "assert_reviewable db s = Inr ()"
    and update: "buildApprovedAssignmentUpdate (scope_schoolId scope) s now db = Inr update"
    and p: "\<exists>input before. p = PApprove scope input before \<and> ri_submission input = s \<and> ri_schoolId input = scope_schoolId scope \<and>
      ri_assignmentProgress input = au_progress update \<and> ri_assignmentStatus input = au_status update"
    unfolding ApproveReinforcementSubmissionUseCase_prepare_def andThen_eq_Inr by (elim exE conjE) fastforce
  let ?active = "listActiveStagesForTask (scope_schoolId scope) (su_taskId s) db"
  let ?progress = "calculateAssignmentProgress ?active
    (listApprovedStageIdsForAssignment (scope_schoolId scope) (su_assignmentId s) db @ [su_stageId s])"
  note row = reviewable_row [OF s]
  then have "?active \<noteq> []" by (auto simp: reviewable_def)
  obtain a where a: "submission_assignment db s = Inr a"
    using update by (auto simp: buildApprovedAssignmentUpdate_def Let_def andThen_eq_Inr)
  note asg = reviewed_assignmentI [OF s(2) a]
  have "au_progress update = (if ra_status a = Task_COMPLETED then ra_progress a else ?progress)"
    "au_status update = (if ra_status a = Task_COMPLETED \<or> ?progress \<ge> 100 then Task_COMPLETED else Task_IN_PROGRESS)"
    using update a asg \<open>?active \<noteq> []\<close>
    by (auto simp: buildApprovedAssignmentUpdate_def Let_def deriveAssignmentStatusAfterApprove_def reviewed_assignment_def)
  then show ?thesis using p row asg by (auto simp: Let_def)
qed

lemma rejection_prepared:
  assumes "RejectReinforcementSubmissionUseCase_prepare ctx now i command db = Inr p"
  shows "\<exists>scope input before. p = PReject scope input before \<and> su_id (ri_submission input) = i \<and> review_checked db p"
proof -
  from assms obtain scope s progress status where s: "findReviewItemOrThrow (scope_schoolId scope) i db = Inr s"
    "assert_reviewable db s = Inr ()"
    and update: "buildRejectedAssignmentUpdate (scope_schoolId scope) s db = Inr (progress, status)"
    and p: "\<exists>input before. p = PReject scope input before \<and> ri_submission input = s \<and> ri_schoolId input = scope_schoolId scope \<and>
      ri_assignmentProgress input = progress \<and> ri_assignmentStatus input = status"
    unfolding RejectReinforcementSubmissionUseCase_prepare_def andThen_eq_Inr Let_def by (elim exE conjE) (fastforce split: prod.splits)
  obtain a where a: "submission_assignment db s = Inr a"
    using update by (auto simp: buildRejectedAssignmentUpdate_def Let_def andThen_eq_Inr)
  have "progress = (if ra_status a = Task_COMPLETED then ra_progress a else calculateAssignmentProgress
      (listActiveStagesForTask (scope_schoolId scope) (su_taskId s) db)
      (listApprovedStageIdsForAssignment (scope_schoolId scope) (su_assignmentId s) db))"
    "status = (if ra_status a = Task_COMPLETED then Task_COMPLETED else Task_IN_PROGRESS)"
    using update a reviewed_assignmentI [OF s(2) a]
    by (auto simp: buildRejectedAssignmentUpdate_def Let_def deriveAssignmentStatusAfterReject_def reviewed_assignment_def)
  then show ?thesis using p reviewable_row [OF s] reviewed_assignmentI [OF s(2) a] by (auto simp: Let_def)
qed

lemma review_start_checked: "review_start storage db p \<Longrightarrow> review_checked db p"
  unfolding review_start_def
proof (elim exE)
  fix ctx now req
  assume "review_prepare storage ctx now req db = Inr p"
  then show "review_checked db p"
  proof (cases req)
    case (CancelTask i reason)
    then show ?thesis using \<open>review_prepare storage ctx now req db = Inr p\<close>
      by (auto simp: CancelReinforcementTaskUseCase_prepare_def andThen_eq_Inr)
  qed (auto dest: submit_prepared approval_prepared rejection_prepared)
qed

end
