(* ===== verification/Review_Consistency.thy ===== *)
theory Review_Consistency
  imports Review_Theorems
begin

text \<open>
  Assignments follow the reviews of their stages as long as requests do not interleave: the progress and the status of
  an assignment are a function of the set of its approved stages.
\<close>

section \<open>Coherent tables\<close>

abbreviation active_stages :: "ReviewDb \<Rightarrow> ReinforcementAssignment \<Rightarrow> string list" where
  "active_stages db a \<equiv> listActiveStagesForTask (ra_schoolId a) (ra_taskId a) db"

abbreviation approved_stages :: "ReviewDb \<Rightarrow> ReinforcementAssignment \<Rightarrow> string list" where
  "approved_stages db a \<equiv> listApprovedStageIdsForAssignment (ra_schoolId a) (ra_id a) db"

definition follows_reviews :: "ReviewDb \<Rightarrow> ReinforcementAssignment \<Rightarrow> bool" where
  "follows_reviews db a \<longleftrightarrow> ra_status a \<noteq> Task_CANCELLED \<longrightarrow>
     ra_progress a = calculateAssignmentProgress (active_stages db a) (approved_stages db a) \<and>
     (ra_status a = Task_COMPLETED \<longleftrightarrow> 100 \<le> ra_progress a)"

text \<open>The keys of the tables, and the task a submission repeats from its assignment.\<close>

definition keys_ok :: "ReviewDb \<Rightarrow> bool" where
  "keys_ok db \<longleftrightarrow> distinct (map ra_id (vdb_assignments db)) \<and> distinct (map su_id (vdb_submissions db)) \<and>
     distinct (map submission_key (vdb_submissions db)) \<and>
     (\<forall>s \<in> set (vdb_submissions db). \<forall>a \<in> set (vdb_assignments db).
        ra_id a = su_assignmentId s \<and> ra_schoolId a = su_schoolId s \<longrightarrow> su_taskId s = ra_taskId a)"

definition coherent :: "ReviewDb \<Rightarrow> bool" where
  "coherent db \<longleftrightarrow> keys_ok db \<and> (\<forall>a \<in> set (vdb_assignments db). follows_reviews db a)"

lemma distinct_map_eq: "distinct (map f xs) \<Longrightarrow> x \<in> set xs \<Longrightarrow> y \<in> set xs \<Longrightarrow> f x = f y \<Longrightarrow> x = y"
  by (simp add: distinct_map inj_on_def)

lemma same_assignment: "keys_ok db \<Longrightarrow> a \<in> set (vdb_assignments db) \<Longrightarrow> b \<in> set (vdb_assignments db) \<Longrightarrow> ra_id a = ra_id b \<Longrightarrow> a = b"
  unfolding keys_ok_def by (elim conjE) (rule distinct_map_eq)

lemma same_submission:
  assumes "keys_ok db" "r \<in> set (vdb_submissions db)" "s \<in> set (vdb_submissions db)"
  shows "su_id r = su_id s \<Longrightarrow> r = s" "submission_key r = submission_key s \<Longrightarrow> r = s"
  using assms by (auto simp only: keys_ok_def intro: distinct_map_eq)

section \<open>The approved stages after a write\<close>

text \<open>Two tables with the same stages, in which the rows of assignments keep their core.\<close>

definition updates_assignments ::
  "(ReinforcementAssignment \<Rightarrow> bool) \<Rightarrow> (ReinforcementAssignment \<Rightarrow> ReinforcementAssignment) \<Rightarrow> ReviewDb \<Rightarrow> ReviewDb \<Rightarrow> bool" where
  "updates_assignments q f db db' \<longleftrightarrow> vdb_stages db' = vdb_stages db \<and>
     vdb_assignments db' = map (\<lambda>a. if q a then f a else a) (vdb_assignments db) \<and>
     (\<forall>a. assignment_core (f a) = assignment_core a)"

lemma audit_assignments [simp]: "updates_assignments q f db (createReviewAuditLog e db1) = updates_assignments q f db db1"
  by (simp add: updates_assignments_def)

lemma active_same: "vdb_stages db' = vdb_stages db \<Longrightarrow> listActiveStagesForTask school t db' = listActiveStagesForTask school t db"
  by (simp add: listActiveStagesForTask_def)

lemma approved_stages_rows: "set (listApprovedStageIdsForAssignment school i db) =
    su_stageId ` {s \<in> set (approved_rows db). su_assignmentId s = i \<and> su_schoolId s = school}"
  by (auto simp: set_approved_stages approved_rows_def)

lemma approved_rows_update:
  assumes "updates_rows q f db db'" "\<And>s. q s \<Longrightarrow> su_status (f s) \<noteq> Sub_APPROVED"
  shows "set (approved_rows db') = set (approved_rows db)"
proof (intro set_eqI iffI)
  fix s
  assume "s \<in> set (approved_rows db')"
  then obtain r where "r \<in> set (vdb_submissions db)" "s = (if q r then f r else r)" "su_status s = Sub_APPROVED"
    using assms(1) by (auto simp: updates_rows_def approved_rows_def)
  then show "s \<in> set (approved_rows db)" using assms(2) [of r] by (cases "q r") (auto simp: approved_rows_def)
next
  fix s
  assume "s \<in> set (approved_rows db)"
  then show "s \<in> set (approved_rows db')" using assms(1) by (auto simp: updates_rows_def approved_rows_def image_iff)
qed

lemma approved_rows_insert: "adds_row r db db' \<Longrightarrow> set (approved_rows db') = set (approved_rows db)"
  by (auto simp: adds_row_def approved_rows_def)

lemma updated_assignment:
  assumes "updates_assignments q f db db'" "a \<in> set (vdb_assignments db')"
  obtains b where "b \<in> set (vdb_assignments db)" "a = (if q b then f b else b)" "assignment_core a = assignment_core b"
proof -
  obtain b where b: "b \<in> set (vdb_assignments db)" "a = (if q b then f b else b)"
    using assms by (auto simp: updates_assignments_def)
  with assms(1) show thesis by (intro that [of b]) (simp_all add: updates_assignments_def)
qed

lemma updated_submission:
  assumes "updates_rows q f db db'" "s \<in> set (vdb_submissions db')"
  obtains r where "r \<in> set (vdb_submissions db)" "s = (if q r then f r else r)" "submission_core s = submission_core r"
proof -
  obtain r where r: "r \<in> set (vdb_submissions db)" "s = (if q r then f r else r)"
    using assms by (auto simp: updates_rows_def)
  with assms(1) show thesis by (intro that [of r]) (simp_all add: updates_rows_def)
qed

lemma assignment_ids_kept: "updates_assignments q f db db' \<Longrightarrow> map ra_id (vdb_assignments db') = map ra_id (vdb_assignments db)"
  by (simp add: updates_assignments_def)

lemma keys_kept_update:
  assumes w: "updates_assignments p g db db'" "updates_rows q f db db'" and ok: "keys_ok db"
  shows "keys_ok db'"
proof -
  have "map su_id (vdb_submissions db') = map su_id (vdb_submissions db)"
    "map submission_key (vdb_submissions db') = map submission_key (vdb_submissions db)" using w(2) by (simp_all add: updates_rows_def)
  moreover have "su_taskId s = ra_taskId a" if s: "s \<in> set (vdb_submissions db')" and a: "a \<in> set (vdb_assignments db')"
    and eq: "ra_id a = su_assignmentId s" "ra_schoolId a = su_schoolId s" for s a
    by (rule updated_submission [OF w(2) s], rule updated_assignment [OF w(1) a]) (use ok eq in \<open>simp add: keys_ok_def\<close>)
  ultimately show ?thesis using ok assignment_ids_kept [OF w(1)] by (simp add: keys_ok_def)
qed

lemma keys_kept_insert:
  assumes w: "updates_assignments p g db db'" "adds_row r db db'" and ok: "keys_ok db"
    and new: "\<And>a. a \<in> set (vdb_assignments db) \<Longrightarrow> ra_id a = su_assignmentId r \<Longrightarrow> su_taskId r = ra_taskId a"
  shows "keys_ok db'"
proof -
  have "su_taskId s = ra_taskId a" if s: "s \<in> set (vdb_submissions db')" and a: "a \<in> set (vdb_assignments db')"
    and eq: "ra_id a = su_assignmentId s" "ra_schoolId a = su_schoolId s" for s a
  proof (rule updated_assignment [OF w(1) a])
    fix b
    assume "b \<in> set (vdb_assignments db)" "assignment_core a = assignment_core b"
    then show ?thesis using w(2) ok new [of b] s eq by (auto simp: keys_ok_def adds_row_def)
  qed
  moreover have "distinct (map su_id (vdb_submissions db'))" "distinct (map submission_key (vdb_submissions db'))"
    using w(2) ok by (fastforce simp: adds_row_def keys_ok_def)+
  ultimately show ?thesis using ok assignment_ids_kept [OF w(1)] by (simp add: keys_ok_def)
qed

lemma follows_same:
  assumes "follows_reviews db a" "ra_status a \<noteq> Task_CANCELLED" "assignment_core b = assignment_core a"
    and "vdb_stages db' = vdb_stages db" "set (approved_stages db' a) = set (approved_stages db a)"
    and "ra_progress b = ra_progress a" "ra_status b = Task_COMPLETED \<longleftrightarrow> ra_status a = Task_COMPLETED"
  shows "follows_reviews db' b"
proof -
  have "active_stages db' b = active_stages db a" "approved_stages db' b = approved_stages db' a"
    using assms(3) active_same [OF assms(4)] by simp_all
  moreover have "calculateAssignmentProgress (active_stages db a) (approved_stages db' a) =
      calculateAssignmentProgress (active_stages db a) (approved_stages db a)"
    by (rule progress_cong) (simp_all add: assms(5))
  ultimately show ?thesis using assms(1,2,6,7) by (simp add: follows_reviews_def)
qed

lemma follows_kept:
  assumes "updates_assignments q f db db'" "coherent db"
    and approved: "\<And>a. a \<in> set (vdb_assignments db) \<Longrightarrow> \<not> q a \<Longrightarrow> ra_status a \<noteq> Task_CANCELLED \<Longrightarrow>
      set (approved_stages db' a) = set (approved_stages db a)"
    and changed: "\<And>a. a \<in> set (vdb_assignments db) \<Longrightarrow> q a \<Longrightarrow> follows_reviews db' (f a)"
  shows "\<forall>a \<in> set (vdb_assignments db'). follows_reviews db' a"
proof
  fix a
  assume a: "a \<in> set (vdb_assignments db')"
  show "follows_reviews db' a"
  proof (rule updated_assignment [OF assms(1) a])
    fix b
    assume b: "b \<in> set (vdb_assignments db)" "a = (if q b then f b else b)"
    have "follows_reviews db b" using assms(2) b(1) by (simp add: coherent_def)
    moreover have "vdb_stages db' = vdb_stages db" using assms(1) by (simp add: updates_assignments_def)
    ultimately have "follows_reviews db' b" if "\<not> q b" "ra_status b \<noteq> Task_CANCELLED"
      using follows_same [of db b b db'] approved [OF b(1) that] that(2) by blast
    moreover have "follows_reviews db' b" if "ra_status b = Task_CANCELLED" using that by (simp add: follows_reviews_def)
    ultimately show ?thesis using b changed [of b] by (cases "q b") auto
  qed
qed

section \<open>Every write keeps the tables coherent\<close>

lemma submit_assignments:
  assumes "createOrResubmitSubmission i input db = Inr (s, db')"
  shows "updates_assignments (open_assignment (si_schoolId input) (ra_id (si_assignment input)))
    (\<lambda>a. a\<lparr>ra_status := si_assignmentStatus input,
           ra_startedAt := (if ra_startedAt (si_assignment input) \<noteq> None then ra_startedAt (si_assignment input)
                            else Some (si_submittedAt input))\<rparr>) db db'"
  using submit_write [OF assms] by (simp add: updates_assignments_def)

lemma cancel_assignments:
  assumes "cancelTaskAndAssignments school t actor reason now db = Inr (x, n, db')"
  shows "updates_assignments (\<lambda>a. ra_taskId a = t \<and> ra_schoolId a = school \<and> ra_status a \<notin> {Task_COMPLETED, Task_CANCELLED})
    (\<lambda>a. a\<lparr>ra_status := Task_CANCELLED, ra_cancelledAt := Some now\<rparr>) db db' \<and> updates_rows (\<lambda>_. False) id db db'"
  using cancel_write [OF assms] by (simp add: updates_assignments_def updates_rows_def)

lemma submit_coherent:
  assumes ok: "coherent db" and checked: "review_checked db (PSubmit scope input before)"
    and run: "createOrResubmitSubmission i input db = Inr (s, db')"
  shows "coherent db'"
proof -
  let ?a = "si_assignment input"
  let ?q = "open_assignment (si_schoolId input) (ra_id ?a)"
  let ?f = "\<lambda>a. a\<lparr>ra_status := si_assignmentStatus input,
    ra_startedAt := (if ra_startedAt ?a \<noteq> None then ra_startedAt ?a else Some (si_submittedAt input))\<rparr>"
  note w = submit_write [OF run]
  from ok have keys: "keys_ok db" by (simp add: coherent_def)
  have a: "?a \<in> set (vdb_assignments db)" "ra_schoolId ?a = si_schoolId input" "ra_status ?a \<noteq> Task_CANCELLED"
    "si_assignmentStatus input = (if ra_status ?a = Task_COMPLETED then Task_COMPLETED else Task_UNDER_REVIEW)"
    using checked by (auto simp: Let_def)
  note asg = submit_assignments [OF run]
  let ?old = "can_resubmit (the (si_existingSubmissionId input)) input"
  have "keys_ok db' \<and> set (approved_rows db') = set (approved_rows db)"
  proof (cases "updates_rows ?old (resubmitted input) db db'")
    case True
    then show ?thesis using keys_kept_update [OF asg True keys]
      by (intro conjI approved_rows_update [OF True]) (simp_all add: resubmitted_def)
  next
    case False
    with w obtain r where r: "adds_row r db db'" "su_assignmentId r = ra_id ?a" "su_taskId r = ra_taskId ?a" by auto
    have "su_taskId r = ra_taskId b" if "b \<in> set (vdb_assignments db)" "ra_id b = su_assignmentId r" for b
      using same_assignment [OF keys that(1) a(1)] that(2) r by simp
    then show ?thesis using keys_kept_insert [OF asg r(1) keys] approved_rows_insert [OF r(1)] by blast
  qed
  moreover from this have approved: "set (approved_stages db' b) = set (approved_stages db b)" for b
    by (simp add: approved_stages_rows)
  moreover have "follows_reviews db' (?f b)" if "b \<in> set (vdb_assignments db)" "?q b" for b
  proof -
    have b: "b = ?a" using same_assignment [OF keys that(1) a(1)] that(2) by (simp add: open_assignment_def)
    have "follows_reviews db ?a" using ok a(1) by (simp add: coherent_def)
    then show ?thesis unfolding b using a(3,4) approved w by (elim follows_same) simp_all
  qed
  ultimately show ?thesis using follows_kept [OF asg ok] by (simp add: coherent_def)
qed

lemma approved_rows_gain:
  assumes w: "updates_rows (awaiting_review input) (reviewed_row input i) db db'" and keys: "keys_ok db"
    and s: "reviewable db (ri_schoolId input) (ri_submission input)" and out: "ri_outcome input = Outcome_APPROVED"
  shows "set (approved_rows db') = insert (reviewed_row input i (ri_submission input)) (set (approved_rows db))"
proof -
  let ?s = "ri_submission input"
  have s': "?s \<in> set (vdb_submissions db)" "awaiting_review input ?s" using s by (auto simp: reviewable_def awaiting_review_def)
  have only: "r = ?s" if "r \<in> set (vdb_submissions db)" "awaiting_review input r" for r
    using same_submission(1) [OF keys that(1) s'(1)] that(2) by (simp add: awaiting_review_def)
  have "awaiting_review input r \<longleftrightarrow> r = ?s" if "r \<in> set (vdb_submissions db)" for r using only [OF that] s'(2) by blast
  then have rows: "vdb_submissions db' = map (\<lambda>r. if r = ?s then reviewed_row input i ?s else r) (vdb_submissions db)"
    using w by (simp add: updates_rows_def cong: map_cong)
  have st: "su_status (reviewed_row input i ?s) = Sub_APPROVED" using out by (simp add: reviewed_row_def)
  have "x \<in> set (approved_rows db') \<longleftrightarrow> x = reviewed_row input i ?s \<or> x \<in> set (approved_rows db)" for x
  proof (cases "x = reviewed_row input i ?s")
    case True
    then show ?thesis using s'(1) st rows by (auto simp: approved_rows_def image_iff)
  next
    case False
    then have "x \<in> set (vdb_submissions db') \<longleftrightarrow> x \<in> set (vdb_submissions db) \<and> x \<noteq> ?s" using rows by auto
    then show ?thesis using False s by (auto simp: approved_rows_def reviewable_def)
  qed
  then show ?thesis by blast
qed

lemma approve_follows:
  assumes "follows_reviews db a" "ra_status a \<noteq> Task_CANCELLED" "assignment_core b = assignment_core a"
    and "vdb_stages db' = vdb_stages db" "set (approved_stages db' a) = insert stage (set (approved_stages db a))"
    and progress: "progress = calculateAssignmentProgress (active_stages db a) (approved_stages db a @ [stage])"
    and "ra_progress b = (if ra_status a = Task_COMPLETED then ra_progress a else progress)"
    and "ra_status b = (if ra_status a = Task_COMPLETED \<or> progress \<ge> 100 then Task_COMPLETED else Task_IN_PROGRESS)"
  shows "follows_reviews db' b"
proof -
  have same: "active_stages db' b = active_stages db a" "approved_stages db' b = approved_stages db' a"
    using assms(3) active_same [OF assms(4)] by simp_all
  have new: "calculateAssignmentProgress (active_stages db a) (approved_stages db' a) = progress"
    unfolding progress by (rule progress_cong) (simp_all add: assms(5))
  have "calculateAssignmentProgress (active_stages db a) (approved_stages db a) \<le> progress"
    unfolding progress by (rule progress_more_approved) auto
  moreover have "progress \<le> 100" unfolding progress by (rule progress_le)
  ultimately show ?thesis using assms(1,2,7,8) same new by (auto simp: follows_reviews_def)
qed

lemma approved_stages_insert:
  "set (approved_rows db') = insert r (set (approved_rows db)) \<Longrightarrow>
   set (listApprovedStageIdsForAssignment school i db') =
     (if su_assignmentId r = i \<and> su_schoolId r = school
      then insert (su_stageId r) (set (listApprovedStageIdsForAssignment school i db))
      else set (listApprovedStageIdsForAssignment school i db))"
  by (auto simp: approved_stages_rows)

lemma review_assignments:
  assumes "reviewSubmissionWithOutcome i input db = Inr (r, db')"
  shows "updates_assignments (open_assignment (ri_schoolId input) (su_assignmentId (ri_submission input)))
    (\<lambda>a. a\<lparr>ra_status := ri_assignmentStatus input, ra_progress := ri_assignmentProgress input,
           ra_completedAt := (if ri_assignmentCompletedAt input \<noteq> None then ri_assignmentCompletedAt input
                              else ra_completedAt a)\<rparr>) db db'"
  using review_write [OF assms] by (simp add: updates_assignments_def)

text \<open>The assignment a review writes, and the stages its checks were made on.\<close>

lemma reviewed_only:
  assumes "keys_ok db" "reviewable db school s" "reviewed_assignment db s a"
  shows "b \<in> set (vdb_assignments db) \<Longrightarrow> open_assignment school (su_assignmentId s) b \<Longrightarrow> b = a"
    and "active_stages db a = listActiveStagesForTask school (su_taskId s) db"
    and "approved_stages db a = listApprovedStageIdsForAssignment school (su_assignmentId s) db"
proof -
  have a: "a \<in> set (vdb_assignments db)" "ra_id a = su_assignmentId s" "ra_schoolId a = su_schoolId s" "su_schoolId s = school"
    "s \<in> set (vdb_submissions db)" using assms(2,3) by (simp_all add: reviewed_assignment_def reviewable_def)
  then have "su_taskId s = ra_taskId a" using assms(1) by (simp add: keys_ok_def)
  with a show "active_stages db a = listActiveStagesForTask school (su_taskId s) db"
    "approved_stages db a = listApprovedStageIdsForAssignment school (su_assignmentId s) db" by simp_all
  show "b = a" if "b \<in> set (vdb_assignments db)" "open_assignment school (su_assignmentId s) b"
    using same_assignment [OF assms(1) that(1) a(1)] that(2) a(2) by (simp add: open_assignment_def)
qed

lemma approve_coherent:
  assumes ok: "coherent db" and checked: "review_checked db (PApprove scope input before)"
    and run: "approveSubmissionWithReview i input db = Inr (r, db')"
  shows "coherent db'"
proof -
  let ?in = "input\<lparr>ri_outcome := Outcome_APPROVED\<rparr>" and ?s = "ri_submission input"
  note run' = run [unfolded approveSubmissionWithReview_def]
  note w = review_write [OF run'] and asg = review_assignments [OF run', simplified]
  from ok have keys: "keys_ok db" by (simp add: coherent_def)
  let ?new = "calculateAssignmentProgress (listActiveStagesForTask (ri_schoolId input) (su_taskId ?s) db)
    (listApprovedStageIdsForAssignment (ri_schoolId input) (su_assignmentId ?s) db @ [su_stageId ?s])"
  from checked obtain a where s: "reviewable db (ri_schoolId input) ?s" and a: "reviewed_assignment db ?s a"
    and upd: "ri_assignmentProgress input = (if ra_status a = Task_COMPLETED then ra_progress a else ?new)"
    "ri_assignmentStatus input = (if ra_status a = Task_COMPLETED \<or> ?new \<ge> 100 then Task_COMPLETED else Task_IN_PROGRESS)"
    unfolding review_checked.simps Let_def by blast
  note only = reviewed_only [OF keys s a]
  have gain: "set (approved_rows db') = insert (reviewed_row ?in i ?s) (set (approved_rows db))"
    using approved_rows_gain [of ?in i db db'] w keys s by simp
  have "su_schoolId ?s = ri_schoolId input" using s by (simp add: reviewable_def)
  have gain_a: "set (approved_stages db' a) = insert (su_stageId ?s) (set (approved_stages db a))"
    using a by (simp add: approved_stages_insert [OF gain] reviewed_row_def reviewed_assignment_def)
  have same: "set (approved_stages db' b) = set (approved_stages db b)"
    if "b \<in> set (vdb_assignments db)" "\<not> open_assignment (ri_schoolId input) (su_assignmentId ?s) b" "ra_status b \<noteq> Task_CANCELLED" for b
    using that \<open>su_schoolId ?s = ri_schoolId input\<close>
    by (auto simp: approved_stages_insert [OF gain] reviewed_row_def open_assignment_def)
  have "follows_reviews db a" "ra_status a \<noteq> Task_CANCELLED" using ok a by (simp_all add: coherent_def reviewed_assignment_def)
  then have "follows_reviews db' (a\<lparr>ra_status := ri_assignmentStatus input, ra_progress := ri_assignmentProgress input,
      ra_completedAt := c\<rparr>)" for c
    by (rule approve_follows [OF _ _ _ _ gain_a refl]) (use w upd only(2,3) in simp_all)
  then have "follows_reviews db' (b\<lparr>ra_status := ri_assignmentStatus input, ra_progress := ri_assignmentProgress input,
      ra_completedAt := c\<rparr>)" if "b \<in> set (vdb_assignments db)" "open_assignment (ri_schoolId input) (su_assignmentId ?s) b" for b c
    unfolding only(1) [OF that] .
  then have "\<forall>b \<in> set (vdb_assignments db'). follows_reviews db' b"
    by (intro follows_kept [OF asg ok same])
  moreover have "keys_ok db'" using keys_kept_update [OF asg _ keys] w by blast
  ultimately show ?thesis by (simp add: coherent_def)
qed

lemma reject_coherent:
  assumes ok: "coherent db" and checked: "review_checked db (PReject scope input before)"
    and run: "rejectSubmissionWithReview i input db = Inr (r, db')"
  shows "coherent db'"
proof -
  let ?in = "input\<lparr>ri_outcome := Outcome_REJECTED\<rparr>" and ?s = "ri_submission input"
  note run' = run [unfolded rejectSubmissionWithReview_def]
  note w = review_write [OF run'] and asg = review_assignments [OF run', simplified]
  from ok have keys: "keys_ok db" by (simp add: coherent_def)
  let ?same = "calculateAssignmentProgress (listActiveStagesForTask (ri_schoolId input) (su_taskId ?s) db)
    (listApprovedStageIdsForAssignment (ri_schoolId input) (su_assignmentId ?s) db)"
  from checked obtain a where s: "reviewable db (ri_schoolId input) ?s" and a: "reviewed_assignment db ?s a"
    and new: "ri_assignmentProgress input = (if ra_status a = Task_COMPLETED then ra_progress a else ?same)"
    "ri_assignmentStatus input = (if ra_status a = Task_COMPLETED then Task_COMPLETED else Task_IN_PROGRESS)"
    unfolding review_checked.simps Let_def by blast
  note only = reviewed_only [OF keys s a]
  have fol: "follows_reviews db a" "ra_status a \<noteq> Task_CANCELLED" using ok a by (simp_all add: coherent_def reviewed_assignment_def)
  have upd: "ri_assignmentProgress input = ra_progress a"
    "ri_assignmentStatus input = Task_COMPLETED \<longleftrightarrow> ra_status a = Task_COMPLETED"
    using fol new only(2,3) by (simp_all add: follows_reviews_def)
  have "set (approved_rows db') = set (approved_rows db)"
    by (rule approved_rows_update [of "awaiting_review ?in" "reviewed_row ?in i"]) (use w in \<open>simp_all add: reviewed_row_def\<close>)
  then have same: "set (approved_stages db' b) = set (approved_stages db b)" for b by (simp add: approved_stages_rows)
  from fol have "follows_reviews db' (a\<lparr>ra_status := ri_assignmentStatus input, ra_progress := ri_assignmentProgress input,
      ra_completedAt := c\<rparr>)" for c
    by (rule follows_same) (use w upd same in simp_all)
  then have "follows_reviews db' (b\<lparr>ra_status := ri_assignmentStatus input, ra_progress := ri_assignmentProgress input,
      ra_completedAt := c\<rparr>)" if "b \<in> set (vdb_assignments db)" "open_assignment (ri_schoolId input) (su_assignmentId ?s) b" for b c
    unfolding only(1) [OF that] .
  then have "\<forall>b \<in> set (vdb_assignments db'). follows_reviews db' b"
    by (intro follows_kept [OF asg ok same])
  moreover have "keys_ok db'" using keys_kept_update [OF asg _ keys] w by blast
  ultimately show ?thesis by (simp add: coherent_def)
qed

lemma cancel_coherent:
  assumes ok: "coherent db" and run: "cancelTaskAndAssignments school t actor reason now db = Inr (x, n, db')"
  shows "coherent db'"
proof -
  note asg = cancel_assignments [OF run, THEN conjunct1] and rows = cancel_assignments [OF run, THEN conjunct2]
  have "set (approved_stages db' b) = set (approved_stages db b)" for b
    using approved_rows_update [OF rows] by (simp add: approved_stages_rows)
  then have "\<forall>b \<in> set (vdb_assignments db'). follows_reviews db' b"
    by (intro follows_kept [OF asg ok]) (simp_all add: follows_reviews_def)
  then show ?thesis using keys_kept_update [OF asg rows] ok by (simp add: coherent_def)
qed

lemma audit_coherent [simp]: "coherent (createReviewAuditLog e db) = coherent db"
  by (simp add: coherent_def keys_ok_def follows_reviews_def listActiveStagesForTask_def listApprovedStageIdsForAssignment_def)

lemma commit_coherent:
  assumes ok: "coherent db" and checked: "review_checked db p" and run: "review_commit i now p db = Inr db'"
  shows "coherent db'"
proof (cases p)
  case (PSubmit scope input before)
  then show ?thesis using run checked submit_coherent [OF ok] by (auto simp: andThen_eq_Inr simp del: review_checked.simps)
next
  case (PApprove scope input before)
  then show ?thesis using run checked approve_coherent [OF ok] by (auto simp: andThen_eq_Inr simp del: review_checked.simps)
next
  case (PReject scope input before)
  then show ?thesis using run checked reject_coherent [OF ok] by (auto simp: andThen_eq_Inr simp del: review_checked.simps)
next
  case (PCancelTask scope taskId reason st summary)
  then show ?thesis using run cancel_coherent [OF ok] by (auto simp: andThen_eq_Inr)
qed

interpretation reviews: isolated_invariant "review_start storage" review_finish coherent for storage
proof
  fix db db' p
  assume ok: "coherent db" and p: "review_start storage db p" and "review_finish p db db'"
  then obtain i now where "case review_commit i now p db of Inl e \<Rightarrow> db' = db | Inr db1 \<Rightarrow> db' = db1"
    by (auto simp: review_finish_def)
  then show "coherent db'"
    using ok commit_coherent [OF ok review_start_checked [OF p], of i now] by (cases "review_commit i now p db") auto
qed

section \<open>An example\<close>

text \<open>A task of two stages, assigned to one student who has submitted both.\<close>

definition example_submission :: "string \<Rightarrow> string \<Rightarrow> ReinforcementSubmission" where
  "example_submission i stage = \<lparr>su_id = i, su_schoolId = ''s'', su_assignmentId = ''a'', su_taskId = ''t'', su_stageId = stage,
     su_studentId = ''x'', su_enrollmentId = ''e'', su_status = Sub_SUBMITTED, su_proofFileId = None, su_proofText = None,
     su_submittedById = Some ''u'', su_submittedAt = Some 1, su_currentReviewId = None, su_reviewedAt = None,
     su_metadata = None\<rparr>"

definition example_stage :: "string \<Rightarrow> int \<Rightarrow> ReinforcementTaskStage" where
  "example_stage i order = \<lparr>rs_id = i, rs_schoolId = ''s'', rs_taskId = ''t'', rs_sortOrder = order, rs_proofType = Proof_NONE,
     rs_deletedAt = None\<rparr>"

definition example_assignment :: ReinforcementAssignment where
  "example_assignment = \<lparr>ra_id = ''a'', ra_schoolId = ''s'', ra_taskId = ''t'', ra_academicYearId = ''y'', ra_termId = ''m'',
     ra_studentId = ''x'', ra_enrollmentId = ''e'', ra_status = Task_UNDER_REVIEW, ra_progress = 0, ra_assignedAt = 0,
     ra_startedAt = Some 1, ra_completedAt = None, ra_cancelledAt = None\<rparr>"

definition review_db :: ReviewDb where
  "review_db = \<lparr>vdb_tasks = [\<lparr>rt_id = ''t'', rt_schoolId = ''s'', rt_academicYearId = ''y'', rt_termId = ''m'', rt_subjectId = None,
       rt_source = ''TEACHER'', rt_status = Task_NOT_COMPLETED, rt_rewardType = None, rt_rewardValue = None, rt_dueDate = None,
       rt_assignedById = None, rt_createdById = None, rt_cancelledById = None, rt_cancelledAt = None,
       rt_cancellationReason = None, rt_deletedAt = None\<rparr>],
     vdb_targets = [], vdb_stages = [example_stage ''g1'' 1, example_stage ''g2'' 2],
     vdb_assignments = [example_assignment],
     vdb_submissions = [example_submission ''u1'' ''g1'', example_submission ''u2'' ''g2''],
     vdb_reviews = [], vdb_files = [], vdb_audit = []\<rparr>"

definition review_caller :: "RequestContext option" where
  "review_caller = Some \<lparr>rc_requestId = ''q'', rc_actor = Some \<lparr>actor_id = ''u'', actor_userType = ''STAFF''\<rparr>,
     rc_activeMembership = Some \<lparr>am_membershipId = ''m'', am_schoolId = Some ''s'', am_organizationId = ''o'',
       am_roleId = ''k'', am_permissions = []\<rparr>,
     rc_bypass = \<lparr>bypassSchoolScope = False, includeSoftDeleted = False\<rparr>\<rparr>"

definition no_objects :: ObjectStorage where
  "no_objects = \<lparr>statObject = (\<lambda>bucket objectKey. None), getObject = (\<lambda>bucket objectKey. None)\<rparr>"

definition no_note :: ReviewReinforcementSubmissionDto where
  "no_note = \<lparr>rd_note = None, rd_noteAr = None\<rparr>"

lemma not_isl_result: "\<not> isl x \<Longrightarrow> x = Inr (projr x)"
  by (cases x) simp_all

text \<open>The same with the first stage approved: one approval completes the assignment.\<close>

definition half_db :: ReviewDb where
  "half_db = review_db\<lparr>vdb_submissions := [example_submission ''u1'' ''g1''\<lparr>su_status := Sub_APPROVED\<rparr>, example_submission ''u2'' ''g2''],
     vdb_assignments := [example_assignment\<lparr>ra_status := Task_IN_PROGRESS, ra_progress := 50\<rparr>]\<rparr>"

lemma example_stages: "listActiveStagesForTask ''s'' ''t'' review_db = [''g1'', ''g2'']" "listActiveStagesForTask ''s'' ''t'' half_db = [''g1'', ''g2'']"
  by code_simp+

lemma example_coherent: "coherent review_db" "coherent half_db"
proof -
  have "keys_ok review_db" "keys_ok half_db"
    by (simp_all add: keys_ok_def half_db_def review_db_def example_submission_def example_assignment_def)
  moreover have "calculateAssignmentProgress [''g1'', ''g2''] [] = 0" "calculateAssignmentProgress [''g1'', ''g2''] [''g1''] = 50"
    by code_simp+
  moreover have "listApprovedStageIdsForAssignment ''s'' ''a'' review_db = []"
    "listApprovedStageIdsForAssignment ''s'' ''a'' half_db = [''g1'']" by code_simp+
  moreover have "vdb_assignments review_db = [example_assignment]"
    "vdb_assignments half_db = [example_assignment\<lparr>ra_status := Task_IN_PROGRESS, ra_progress := 50\<rparr>]"
    by (simp_all add: review_db_def half_db_def)
  ultimately show "coherent review_db" "coherent half_db"
    using example_stages by (simp_all add: coherent_def follows_reviews_def example_assignment_def)
qed

text \<open>The approvals of the second submission with the first approved, and of each with neither approved.\<close>

definition caller_scope :: ReinforcementScope where
  "caller_scope = \<lparr>scope_actorId = ''u'', scope_userType = ''STAFF'', scope_organizationId = ''o'', scope_schoolId = ''s'',
     scope_roleId = ''k''\<rparr>"

definition approval_input ::
  "ReinforcementSubmission \<Rightarrow> ReinforcementTaskStatus \<Rightarrow> int \<Rightarrow> int option \<Rightarrow> ReviewSubmissionInput" where
  "approval_input s st progress completed = \<lparr>ri_schoolId = ''s'', ri_submission = s, ri_reviewedById = ''u'', ri_reviewedAt = 9,
     ri_note = None, ri_noteAr = None, ri_assignmentStatus = st, ri_assignmentProgress = progress,
     ri_assignmentCompletedAt = completed, ri_outcome = Outcome_APPROVED, ri_metadata = Some [(''activeStageCount'', DInt 2)]\<rparr>"

definition last_approval :: review_pending where
  "last_approval = PApprove caller_scope (approval_input (example_submission ''u2'' ''g2'') Task_COMPLETED 100 (Some 9))
     (Some (example_assignment\<lparr>ra_status := Task_IN_PROGRESS, ra_progress := 50\<rparr>))"

definition half_approval :: "string \<Rightarrow> string \<Rightarrow> review_pending" where
  "half_approval i stage = PApprove caller_scope (approval_input (example_submission i stage) Task_IN_PROGRESS 50 None)
     (Some example_assignment)"

text \<open>The tables after such a transaction.\<close>

definition written :: "string \<Rightarrow> review_pending \<Rightarrow> ReviewDb \<Rightarrow> ReviewDb" where
  "written i p db = projr (review_commit i 9 p db)"

lemma example_prepared:
  "ApproveReinforcementSubmissionUseCase_prepare review_caller 9 ''u2'' no_note half_db = Inr last_approval"
  "ApproveReinforcementSubmissionUseCase_prepare review_caller 9 ''u1'' no_note review_db = Inr (half_approval ''u1'' ''g1'')"
  "ApproveReinforcementSubmissionUseCase_prepare review_caller 9 ''u2'' no_note review_db = Inr (half_approval ''u2'' ''g2'')"
  by code_simp+

abbreviation completed_db :: ReviewDb where
  "completed_db \<equiv> written ''r2'' last_approval half_db"

lemma last_committed: "review_commit ''r2'' 9 last_approval half_db = Inr completed_db"
  unfolding written_def by (rule not_isl_result) code_simp

lemma isolated_approval:
  assumes "ApproveReinforcementSubmissionUseCase_prepare ctx now i command db = Inr p" "review_commit j now' p db = Inr db'"
  shows "isolated (review_start storage) review_finish db db'"
proof (rule isolated)
  show "review_start storage db p"
    unfolding review_start_def using assms(1) by (intro exI [of _ ctx] exI [of _ now] exI [of _ "ApproveSubmission i command"]) simp
  show "review_finish p db db'" unfolding review_finish_def using assms(2) by (intro exI [of _ j] exI [of _ now']) simp
qed

lemma isolated_interleaved:
  assumes "isolated start finish db db'"
  shows "(interleaved start finish)\<^sup>*\<^sup>* (db, []) (db', [])"
proof -
  from assms obtain p where p: "start db p" "finish p db db'" by (auto elim: isolatedE)
  have "interleaved start finish (db, []) (db, [p])" using begins [of start db p finish "[]"] p(1) by simp
  moreover have "interleaved start finish (db, [p]) (db', [])" using finishes [of p "[p]" finish db db' start] p(2) by simp
  ultimately show ?thesis by (meson r_into_rtranclp rtranclp_trans)
qed

lemma example_run: "isolated (review_start storage) review_finish half_db completed_db"
  by (rule isolated_approval [OF example_prepared(1) last_committed])



section \<open>Assignments follow their reviews\<close>

text \<open>C6. Without interleaving an assignment says what its reviews say: whatever stages students submit and resubmit
  and reviewers approve and reject, and whatever tasks are cancelled, the progress stored in an assignment that is not
  cancelled is the one computed from its approved stages, and (for tasks of fewer than two hundred stages) it is
  completed exactly when the task has a stage and all its active stages are approved.\<close>

theorem assignment_follows_reviews:
  assumes "(isolated (review_start storage) review_finish)\<^sup>*\<^sup>* db db'" "coherent db"
    and "a \<in> set (vdb_assignments db')" "ra_status a \<noteq> Task_CANCELLED" "card (set (active_stages db' a)) < 200"
  shows "ra_progress a = calculateAssignmentProgress (active_stages db' a) (approved_stages db' a) \<and>
    (ra_status a = Task_COMPLETED \<longleftrightarrow> active_stages db' a \<noteq> [] \<and> set (active_stages db' a) \<subseteq> set (approved_stages db' a))"
  using reviews.isolated_runs_inv [OF assms(1,2)] assms(3,4) progress_complete_iff [OF assms(5), of "approved_stages db' a"]
  by (simp add: coherent_def follows_reviews_def)

theorem assignment_follows_reviews_witness:
  "map ra_status (vdb_assignments completed_db) = [Task_COMPLETED] \<and> map ra_progress (vdb_assignments completed_db) = [100]"
proof -
  let ?a = "hd (vdb_assignments completed_db)"
  have run: "(isolated (review_start no_objects) review_finish)\<^sup>*\<^sup>* half_db completed_db"
    by (rule r_into_rtranclp, rule example_run)
  have maps: "map ra_status (vdb_assignments completed_db) = [ra_status ?a]" "map ra_progress (vdb_assignments completed_db) = [ra_progress ?a]"
    by code_simp+
  then have "?a \<in> set (vdb_assignments completed_db)" by (cases "vdb_assignments completed_db") simp_all
  moreover have "active_stages completed_db ?a = [''g1'', ''g2'']" by code_simp
  moreover have "approved_stages completed_db ?a = [''g1'', ''g2'']" by code_simp
  moreover have "calculateAssignmentProgress [''g1'', ''g2''] [''g1'', ''g2''] = 100" by code_simp
  moreover have "ra_status ?a \<noteq> Task_CANCELLED" by code_simp
  ultimately show ?thesis
    using assignment_follows_reviews [OF run example_coherent(2), of ?a] by (simp add: card_insert_if maps)
qed

end
