(* ===== verification/Review_Race.thy ===== *)
theory Review_Race
  imports Review_Consistency
begin

text \<open>
  Two reviewers at the same time: the transaction of a review writes the progress and the status that its checks
  computed, so two approvals whose checks both precede the first transaction leave an assignment that no later request
  completes.
\<close>

section \<open>Stranded assignments\<close>

text \<open>All active stages are approved, and the assignment is not completed.\<close>

definition stranded :: "ReinforcementAssignment \<Rightarrow> ReviewDb \<Rightarrow> bool" where
  "stranded a db \<longleftrightarrow> distinct (map submission_key (vdb_submissions db)) \<and>
     (\<forall>s \<in> set (vdb_submissions db). su_assignmentId s = ra_id a \<and> su_schoolId s = ra_schoolId a \<longrightarrow> su_taskId s = ra_taskId a) \<and>
     set (active_stages db a) \<subseteq> set (approved_stages db a) \<and>
     (\<forall>b \<in> set (vdb_assignments db). ra_id b = ra_id a \<longrightarrow> assignment_core b = assignment_core a \<and> ra_status b \<noteq> Task_COMPLETED)"

fun elsewhere :: "ReinforcementAssignment \<Rightarrow> review_pending \<Rightarrow> bool" where
  "elsewhere a (PSubmit scope input before) \<longleftrightarrow> ra_id (si_assignment input) \<noteq> ra_id a"
| "elsewhere a (PApprove scope input before) \<longleftrightarrow> su_assignmentId (ri_submission input) \<noteq> ra_id a"
| "elsewhere a (PReject scope input before) \<longleftrightarrow> su_assignmentId (ri_submission input) \<noteq> ra_id a"
| "elsewhere a (PCancelTask scope taskId reason st summary) \<longleftrightarrow> True"

lemma approved_row:
  assumes "x \<in> set (approved_stages db a)"
  obtains r where "r \<in> set (vdb_submissions db)" "su_status r = Sub_APPROVED"
    "submission_key r = (ra_schoolId a, ra_id a, x)"
  using assms by (auto simp: set_approved_stages)

lemma stranded_same:
  assumes "stranded a db" "r \<in> set (vdb_submissions db)" "s \<in> set (vdb_submissions db)" "submission_key r = submission_key s"
  shows "r = s"
  using assms by (intro distinct_map_eq [of submission_key "vdb_submissions db"]) (simp_all add: stranded_def)

text \<open>No submission of a stranded assignment can be reviewed or replaced.\<close>

lemma stranded_no_review:
  assumes st: "stranded a db" and s: "reviewable db school s" and b: "reviewed_assignment db s b"
  shows "su_assignmentId s \<noteq> ra_id a"
proof
  assume id: "su_assignmentId s = ra_id a"
  have "b \<in> set (vdb_assignments db)" "ra_id b = ra_id a" using b id by (simp_all add: reviewed_assignment_def)
  then have "assignment_core b = assignment_core a" using st unfolding stranded_def by blast
  then have key: "su_schoolId s = ra_schoolId a" "school = ra_schoolId a"
    using s b by (auto simp: reviewed_assignment_def reviewable_def)
  have s': "s \<in> set (vdb_submissions db)" "su_status s = Sub_SUBMITTED" using s by (simp_all add: reviewable_def)
  then have "su_taskId s = ra_taskId a" using st id key by (simp add: stranded_def)
  then have "su_stageId s \<in> set (approved_stages db a)" using s st key by (auto simp: reviewable_def stranded_def)
  then obtain r where r: "r \<in> set (vdb_submissions db)" "su_status r = Sub_APPROVED" "submission_key r = submission_key s"
    using id key by (metis approved_row)
  have "r = s" using stranded_same [OF st r(1) s'(1) r(3)] .
  then show False using r s' by simp
qed

lemma stranded_no_submit:
  assumes st: "stranded a db" and checked: "review_checked db (PSubmit scope input before)"
  shows "ra_id (si_assignment input) \<noteq> ra_id a"
proof
  assume id: "ra_id (si_assignment input) = ra_id a"
  let ?find = "findSubmissionByAssignmentStage (si_schoolId input) (ra_id a) (si_stageId input) db"
  have core: "assignment_core (si_assignment input) = assignment_core a" using st checked id by (auto simp: stranded_def Let_def)
  then have "si_stageId input \<in> set (approved_stages db a)" "si_schoolId input = ra_schoolId a"
    using checked st by (auto simp: stranded_def Let_def)
  then obtain r where r: "r \<in> set (vdb_submissions db)" "su_status r = Sub_APPROVED"
    and key: "submission_key r = (si_schoolId input, ra_id a, si_stageId input)" by (metis approved_row)
  obtain x where x: "?find = Some x"
    unfolding findSubmissionByAssignmentStage_def using findFirst_ex [OF r(1)] key by fastforce
  then have "x \<in> set (vdb_submissions db)" "submission_key x = submission_key r"
    using key findFirst_SomeD [OF x [unfolded findSubmissionByAssignmentStage_def]] by auto
  then have "x = r" by (rule stranded_same [OF st _ r(1)])
  then show False using checked x r id by (simp add: Let_def)
qed

lemma stranded_elsewhere: "stranded a db \<Longrightarrow> review_checked db p \<Longrightarrow> elsewhere a p"
proof (cases p)
  case (PSubmit scope input before)
  assume "stranded a db" "review_checked db p"
  then show ?thesis using stranded_no_submit [of a db] by (simp add: PSubmit del: review_checked.simps)
qed (auto simp: Let_def dest: stranded_no_review)

text \<open>Writes elsewhere, and cancellations, keep an assignment stranded.\<close>

definition harmless :: "ReinforcementAssignment \<Rightarrow> ReviewDb \<Rightarrow> ReviewDb \<Rightarrow> bool" where
  "harmless a db db' \<longleftrightarrow>
     (\<exists>q f. updates_assignments q f db db' \<and> (\<forall>b. q b \<and> ra_id b = ra_id a \<longrightarrow> ra_status (f b) \<noteq> Task_COMPLETED)) \<and>
     ((\<exists>q f. updates_rows q f db db') \<or> (\<exists>r. adds_row r db db' \<and> su_assignmentId r \<noteq> ra_id a))"

lemma audit_harmless [simp]: "harmless a db (createReviewAuditLog e db1) = harmless a db db1"
  by (simp add: harmless_def)

lemma review_harmless:
  assumes "reviewSubmissionWithOutcome i input db = Inr (s, db1)" "su_assignmentId (ri_submission input) \<noteq> ra_id a"
  shows "harmless a db db1"
proof -
  have "\<forall>b. open_assignment (ri_schoolId input) (su_assignmentId (ri_submission input)) b \<and> ra_id b = ra_id a \<longrightarrow> False"
    using assms(2) by (simp add: open_assignment_def)
  then show ?thesis unfolding harmless_def using review_assignments [OF assms(1)] review_write [OF assms(1)] by blast
qed

lemma submit_harmless:
  assumes "createOrResubmitSubmission i input db = Inr (s, db1)" "ra_id (si_assignment input) \<noteq> ra_id a"
  shows "harmless a db db1"
proof -
  have "\<forall>b. open_assignment (si_schoolId input) (ra_id (si_assignment input)) b \<and> ra_id b = ra_id a \<longrightarrow> False"
    using assms(2) by (simp add: open_assignment_def)
  moreover have "(\<exists>q f. updates_rows q f db db1) \<or> (\<exists>r. adds_row r db db1 \<and> su_assignmentId r \<noteq> ra_id a)"
    using submit_write [OF assms(1)] assms(2) by auto
  ultimately show ?thesis unfolding harmless_def using submit_assignments [OF assms(1)] by blast
qed

lemma cancel_harmless:
  assumes "cancelTaskAndAssignments school t actor reason now db = Inr (x, n, db1)"
  shows "harmless a db db1"
  unfolding harmless_def using cancel_assignments [OF assms] by fastforce

lemma elsewhere_write:
  assumes "review_commit i now p db = Inr db'" "elsewhere a p"
  shows "harmless a db db'"
proof (cases p)
  case (PSubmit scope input before)
  with assms show ?thesis by (auto simp: andThen_eq_Inr intro: submit_harmless)
next
  case (PApprove scope input before)
  with assms show ?thesis using review_harmless [of i "input\<lparr>ri_outcome := Outcome_APPROVED\<rparr>" db _ _ a]
    by (auto simp: andThen_eq_Inr approveSubmissionWithReview_def)
next
  case (PReject scope input before)
  with assms show ?thesis using review_harmless [of i "input\<lparr>ri_outcome := Outcome_REJECTED\<rparr>" db _ _ a]
    by (auto simp: andThen_eq_Inr rejectSubmissionWithReview_def)
next
  case (PCancelTask scope taskId reason st summary)
  with assms show ?thesis by (auto simp: andThen_eq_Inr intro: cancel_harmless)
qed

lemma approved_rows_kept:
  assumes "harmless a db db'"
  shows "set (approved_rows db) \<subseteq> set (approved_rows db')"
proof -
  have "set (approved_rows db) \<subseteq> set (approved_rows db')" if "updates_rows q f db db'" for q f
    using that by (auto simp: updates_rows_def approved_rows_def image_iff)
  then show ?thesis using assms approved_rows_insert by (auto simp: harmless_def)
qed

lemma stranded_kept:
  assumes st: "stranded a db" and w: "harmless a db db'"
  shows "stranded a db'"
proof -
  obtain p g where asg: "updates_assignments p g db db'" "\<forall>b. p b \<and> ra_id b = ra_id a \<longrightarrow> ra_status (g b) \<noteq> Task_COMPLETED"
    using w by (auto simp: harmless_def)
  have "set (approved_stages db a) \<subseteq> set (approved_stages db' a)"
    unfolding approved_stages_rows using approved_rows_kept [OF w] by (intro image_mono) blast
  moreover have "active_stages db' a = active_stages db a"
    using asg(1) by (intro active_same) (simp add: updates_assignments_def)
  ultimately have "set (active_stages db' a) \<subseteq> set (approved_stages db' a)" using st unfolding stranded_def by auto
  moreover have "assignment_core b = assignment_core a \<and> ra_status b \<noteq> Task_COMPLETED"
    if b: "b \<in> set (vdb_assignments db')" "ra_id b = ra_id a" for b
  proof (rule updated_assignment [OF asg(1) b(1)])
    fix c
    assume c: "c \<in> set (vdb_assignments db)" "b = (if p c then g c else c)" "assignment_core b = assignment_core c"
    then have "assignment_core c = assignment_core a \<and> ra_status c \<noteq> Task_COMPLETED"
      using st b(2) unfolding stranded_def by auto
    then show ?thesis using c asg(2) by (cases "p c") auto
  qed
  moreover have "distinct (map submission_key (vdb_submissions db')) \<and> (\<forall>s \<in> set (vdb_submissions db').
      su_assignmentId s = ra_id a \<and> su_schoolId s = ra_schoolId a \<longrightarrow> su_taskId s = ra_taskId a)"
    using w unfolding harmless_def
  proof (elim conjE disjE exE)
    fix q f
    assume u: "updates_rows q f db db'"
    then have "map submission_key (vdb_submissions db') = map submission_key (vdb_submissions db)" by (simp add: updates_rows_def)
    moreover have "su_taskId s = ra_taskId a" if s: "s \<in> set (vdb_submissions db')"
      "su_assignmentId s = ra_id a" "su_schoolId s = ra_schoolId a" for s
      by (rule updated_submission [OF u s(1)]) (use st s(2,3) in \<open>simp add: stranded_def\<close>)
    ultimately show ?thesis using st by (simp add: stranded_def)
  next
    fix r
    assume "adds_row r db db'" "su_assignmentId r \<noteq> ra_id a"
    then show ?thesis using st by (fastforce simp: stranded_def adds_row_def)
  qed
  ultimately show ?thesis unfolding stranded_def by blast
qed

interpretation stuck: request_invariant "review_start storage" review_finish "stranded a" "elsewhere a" for storage a
proof
  fix db db' p
  assume "stranded a db" "elsewhere a p" "review_finish p db db'"
  then show "stranded a db'"
    unfolding review_finish_def using elsewhere_write stranded_kept by (fastforce split: sum.splits)
qed (use stranded_elsewhere review_start_checked in blast)

section \<open>Two approvals at the same time\<close>

lemma approval_of:
  assumes "ApproveReinforcementSubmissionUseCase_prepare ctx now i command db = Inr p" "coherent db"
    and "s \<in> set (vdb_submissions db)" "su_id s = i"
  shows "\<exists>scope input before. p = PApprove scope input before \<and> ri_submission input = s \<and> review_checked db p"
proof -
  from approval_prepared [OF assms(1)] obtain scope input before where p: "p = PApprove scope input before"
    "su_id (ri_submission input) = i" "review_checked db p" by blast
  then have "ri_submission input \<in> set (vdb_submissions db)" by (auto simp: Let_def reviewable_def)
  then have "ri_submission input = s" using same_submission(1) [of db _ s] assms(2,3,4) p(2) by (simp add: coherent_def)
  then show ?thesis using p by blast
qed

text \<open>An approval of one of several stages that are not approved does not complete the assignment.\<close>

lemma approval_not_last:
  assumes ok: "coherent db" and a: "a \<in> set (vdb_assignments db)" and few: "card (set (active_stages db a)) < 200"
    and p: "review_checked db (PApprove scope input before)"
    and s: "su_assignmentId (ri_submission input) = ra_id a"
    and x: "x \<in> set (active_stages db a)" "x \<notin> set (approved_stages db a)" "x \<noteq> su_stageId (ri_submission input)"
  shows "ri_assignmentStatus input = Task_IN_PROGRESS"
proof -
  from ok have keys: "keys_ok db" by (simp add: coherent_def)
  let ?progress = "calculateAssignmentProgress (active_stages db a) (approved_stages db a @ [su_stageId (ri_submission input)])"
  from p obtain b where b: "reviewable db (ri_schoolId input) (ri_submission input)" "reviewed_assignment db (ri_submission input) b"
    and st: "ri_assignmentStatus input = (if ra_status b = Task_COMPLETED \<or> 100 \<le> calculateAssignmentProgress
      (listActiveStagesForTask (ri_schoolId input) (su_taskId (ri_submission input)) db)
      (listApprovedStageIdsForAssignment (ri_schoolId input) (su_assignmentId (ri_submission input)) db @
       [su_stageId (ri_submission input)]) then Task_COMPLETED else Task_IN_PROGRESS)"
    unfolding review_checked.simps Let_def by blast
  have ab: "b = a" using same_assignment [OF keys _ a] b(2) s by (simp add: reviewed_assignment_def)
  then have st: "ri_assignmentStatus input = (if ra_status a = Task_COMPLETED \<or> 100 \<le> ?progress then Task_COMPLETED else Task_IN_PROGRESS)"
    using st reviewed_only(2,3) [OF keys b] by simp
  have "follows_reviews db a" "ra_status a \<noteq> Task_CANCELLED" using ok a b(2) ab by (simp_all add: coherent_def reviewed_assignment_def)
  then have "ra_status a \<noteq> Task_COMPLETED"
    using progress_complete_iff [OF few, of "approved_stages db a"] x by (auto simp: follows_reviews_def)
  moreover have "\<not> 100 \<le> ?progress" using x by (auto simp: progress_complete_iff [OF few])
  ultimately show ?thesis using st by simp
qed

lemma approval_effect:
  assumes ok: "keys_ok db" and run: "review_commit i now (PApprove scope input before) db = Inr db'"
    and s: "reviewable db (ri_schoolId input) (ri_submission input)"
  shows "keys_ok db'" "vdb_stages db' = vdb_stages db" "map ra_id (vdb_assignments db') = map ra_id (vdb_assignments db)"
    and "\<exists>r. submission_core r = submission_core (ri_submission input) \<and> set (approved_rows db') = insert r (set (approved_rows db))"
    and "x \<in> set (vdb_submissions db) \<Longrightarrow> su_id x \<noteq> su_id (ri_submission input) \<Longrightarrow> x \<in> set (vdb_submissions db')"
    and "b \<in> set (vdb_assignments db') \<Longrightarrow> \<exists>c \<in> set (vdb_assignments db). assignment_core b = assignment_core c \<and>
      ra_status b = (if open_assignment (ri_schoolId input) (su_assignmentId (ri_submission input)) c
                     then ri_assignmentStatus input else ra_status c)"
proof -
  let ?in = "input\<lparr>ri_outcome := Outcome_APPROVED\<rparr>"
  obtain r db1 e where w: "reviewSubmissionWithOutcome i ?in db = Inr (r, db1)" and db': "db' = createReviewAuditLog e db1"
    using run by (auto simp: andThen_eq_Inr approveSubmissionWithReview_def)
  note asg = review_assignments [OF w] and rows = review_write [OF w]
  have u: "updates_rows (awaiting_review ?in) (reviewed_row ?in i) db db'" using rows db' by simp
  have asg': "updates_assignments (open_assignment (ri_schoolId input) (su_assignmentId (ri_submission input)))
      (\<lambda>a. a\<lparr>ra_status := ri_assignmentStatus input, ra_progress := ri_assignmentProgress input,
           ra_completedAt := (if ri_assignmentCompletedAt input \<noteq> None then ri_assignmentCompletedAt input
                              else ra_completedAt a)\<rparr>) db db'" using asg db' by (simp cong del: if_weak_cong)
  show "map ra_id (vdb_assignments db') = map ra_id (vdb_assignments db)" by (rule assignment_ids_kept [OF asg'])
  show "keys_ok db'" by (rule keys_kept_update [OF asg' u ok])
  show "vdb_stages db' = vdb_stages db" using rows db' by simp
  have "set (approved_rows db') = insert (reviewed_row ?in i (ri_submission input)) (set (approved_rows db))"
    using approved_rows_gain [OF u ok] s by simp
  then show "\<exists>r. submission_core r = submission_core (ri_submission input) \<and> set (approved_rows db') = insert r (set (approved_rows db))"
    by (intro exI [of _ "reviewed_row ?in i (ri_submission input)"]) (simp add: reviewed_row_def)
  show "x \<in> set (vdb_submissions db')" if "x \<in> set (vdb_submissions db)" "su_id x \<noteq> su_id (ri_submission input)"
    using u that by (auto simp: updates_rows_def image_iff awaiting_review_def)
  show "\<exists>c \<in> set (vdb_assignments db). assignment_core b = assignment_core c \<and>
      ra_status b = (if open_assignment (ri_schoolId input) (su_assignmentId (ri_submission input)) c
                     then ri_assignmentStatus input else ra_status c)" if "b \<in> set (vdb_assignments db')"
    using asg' that by (auto simp: updates_assignments_def)
qed

lemma two_approvals_strand:
  assumes ok: "coherent db" and a: "a \<in> set (vdb_assignments db)" and few: "card (set (active_stages db a)) < 200"
    and p: "review_checked db (PApprove scope1 input1 before1)" and q: "review_checked db (PApprove scope2 input2 before2)"
    and s1: "ri_submission input1 = s1" "submission_key s1 = (ra_schoolId a, ra_id a, su_stageId s1)"
    and s2: "ri_submission input2 = s2" "submission_key s2 = (ra_schoolId a, ra_id a, su_stageId s2)" and ne: "su_id s1 \<noteq> su_id s2"
    and rest: "set (active_stages db a) \<subseteq> set (approved_stages db a) \<union> {su_stageId s1, su_stageId s2}"
    and run1: "review_commit k1 t1 (PApprove scope1 input1 before1) db = Inr db1"
    and run2: "review_commit k2 t2 (PApprove scope2 input2 before2) db1 = Inr db2"
  shows "stranded a db2"
proof -
  from ok have keys: "keys_ok db" by (simp add: coherent_def)
  have r1: "reviewable db (ri_schoolId input1) s1" and r2: "reviewable db (ri_schoolId input2) s2"
    using p q s1(1) s2(1) by (auto simp: Let_def)
  have in1: "s1 \<in> set (vdb_submissions db)" "su_status s1 = Sub_SUBMITTED" and in2: "s2 \<in> set (vdb_submissions db)"
    using r1 r2 by (simp_all add: reviewable_def)
  have task: "su_taskId s1 = ra_taskId a" using keys in1(1) a s1(2) by (simp add: keys_ok_def)
  have "su_stageId s1 \<notin> set (approved_stages db a)"
  proof
    assume "su_stageId s1 \<in> set (approved_stages db a)"
    then obtain r where "r \<in> set (vdb_submissions db)" "su_status r = Sub_APPROVED" "submission_key r = submission_key s1"
      using s1(2) by (metis approved_row)
    then show False using same_submission(2) [OF keys _ in1(1), of r] in1(2) by auto
  qed
  moreover have "su_stageId s1 \<in> set (active_stages db a)" using r1 s1(2) task by (simp add: reviewable_def)
  moreover have "su_stageId s1 \<noteq> su_stageId s2" using same_submission(2) [OF keys in1(1) in2] s1(2) s2(2) ne by auto
  ultimately have st: "ri_assignmentStatus input2 = Task_IN_PROGRESS"
    using s2 by (intro approval_not_last [OF ok a few q]) auto
  note e1 = approval_effect [OF keys run1 r1 [folded s1(1)]]
  have "s2 \<in> set (vdb_submissions db1)" using e1(5) [OF in2] s1(1) ne by simp
  then have "reviewable db1 (ri_schoolId input2) (ri_submission input2)"
    using r2 s2(1) active_same [OF e1(2)] by (simp add: reviewable_def)
  note e2 = approval_effect [OF e1(1) run2 this]
  have stages: "vdb_stages db2 = vdb_stages db" using e1(2) e2(2) by simp
  obtain x where x: "submission_core x = submission_core s1" "set (approved_rows db1) = insert x (set (approved_rows db))"
    using e1(4) s1(1) by auto
  obtain y where y: "submission_core y = submission_core s2" "set (approved_rows db2) = insert y (insert x (set (approved_rows db)))"
    using e2(4) s2(1) x(2) by auto
  have "set (approved_stages db2 a) = insert (su_stageId s2) (insert (su_stageId s1) (set (approved_stages db a)))"
    using approved_stages_insert [OF y(2) [folded x(2)]] approved_stages_insert [OF x(2)] x(1) y(1) s1(2) s2(2) by simp
  then have all: "set (active_stages db2 a) \<subseteq> set (approved_stages db2 a)" using rest active_same [OF stages] by auto
  have asg: "assignment_core b = assignment_core a \<and> ra_status b \<noteq> Task_COMPLETED"
    if b: "b \<in> set (vdb_assignments db2)" "ra_id b = ra_id a" for b
  proof -
    obtain c where c: "c \<in> set (vdb_assignments db1)" "assignment_core b = assignment_core c" "ra_status b =
        (if open_assignment (ri_schoolId input2) (su_assignmentId s2) c then Task_IN_PROGRESS else ra_status c)"
      using e2(6) [OF b(1)] st s2(1) by auto
    obtain d where "d \<in> set (vdb_assignments db)" "assignment_core c = assignment_core d" using e1(6) [OF c(1)] by blast
    then have core: "assignment_core c = assignment_core a" using same_assignment [OF keys _ a, of d] c(2) b(2) by auto
    then have "ra_status c = Task_CANCELLED" if "\<not> open_assignment (ri_schoolId input2) (su_assignmentId s2) c"
      using that s2(2) r2 by (auto simp: open_assignment_def reviewable_def)
    then show ?thesis using c(2,3) core by auto
  qed
  have "su_taskId s = ra_taskId a" if s: "s \<in> set (vdb_submissions db2)" "su_assignmentId s = ra_id a" "su_schoolId s = ra_schoolId a" for s
  proof -
    have "ra_id a \<in> set (map ra_id (vdb_assignments db2))" using a e1(3) e2(3) by simp
    then obtain b where b: "b \<in> set (vdb_assignments db2)" "ra_id b = ra_id a" by auto
    then show ?thesis using asg [OF b] e2(1) s by (simp add: keys_ok_def)
  qed
  then show ?thesis using e2(1) all asg by (simp add: stranded_def keys_ok_def)
qed

text \<open>C7. When two approvals of the last two stages of an assignment have both passed their checks before either
  writes, both commit and both stages are approved, yet the assignment is not completed, and it never will be: whatever
  requests follow, in whatever interleaving, all its active stages stay approved, so that no submission of it can be
  reviewed or replaced, and its status stays different from \<open>COMPLETED\<close>.\<close>

theorem parallel_approvals_never_complete:
  assumes "coherent db" "a \<in> set (vdb_assignments db)" "card (set (active_stages db a)) < 200"
    and p: "ApproveReinforcementSubmissionUseCase_prepare ctx1 now1 (su_id s1) command1 db = Inr p"
    and q: "ApproveReinforcementSubmissionUseCase_prepare ctx2 now2 (su_id s2) command2 db = Inr q"
    and in1: "s1 \<in> set (vdb_submissions db)" "submission_key s1 = (ra_schoolId a, ra_id a, su_stageId s1)"
    and in2: "s2 \<in> set (vdb_submissions db)" "submission_key s2 = (ra_schoolId a, ra_id a, su_stageId s2)"
    and "su_id s1 \<noteq> su_id s2" "set (active_stages db a) \<subseteq> set (approved_stages db a) \<union> {su_stageId s1, su_stageId s2}"
    and "review_commit k1 t1 p db = Inr db1" "review_commit k2 t2 q db1 = Inr db2"
    and run: "(interleaved (review_start storage) review_finish)\<^sup>*\<^sup>* (db2, []) (db', ps)"
  shows "set (active_stages db' a) \<subseteq> set (approved_stages db' a) \<and>
    (\<forall>b \<in> set (vdb_assignments db'). ra_id b = ra_id a \<longrightarrow> ra_status b \<noteq> Task_COMPLETED)"
proof -
  obtain scope1 input1 before1 where p': "p = PApprove scope1 input1 before1" "ri_submission input1 = s1" "review_checked db p"
    using approval_of [OF p assms(1) in1(1) refl] by blast
  obtain scope2 input2 before2 where q': "q = PApprove scope2 input2 before2" "ri_submission input2 = s2" "review_checked db q"
    using approval_of [OF q assms(1) in2(1) refl] by blast
  have "stranded a db2"
    using two_approvals_strand [OF assms(1-3) p'(3) [unfolded p'(1)] q'(3) [unfolded q'(1)] p'(2) in1(2) q'(2) in2(2)
      assms(10,11) assms(12) [unfolded p'(1)] assms(13) [unfolded q'(1)]] .
  then show ?thesis using stuck.reachable_kept [OF run, of a] by (simp add: stranded_def)
qed

definition two_approved_db :: ReviewDb where
  "two_approved_db = written ''r2'' (half_approval ''u2'' ''g2'') (written ''r1'' (half_approval ''u1'' ''g1'') review_db)"

theorem parallel_approvals_never_complete_witness:
  "set (active_stages two_approved_db example_assignment) \<subseteq> set (approved_stages two_approved_db example_assignment) \<and>
   map ra_status (vdb_assignments two_approved_db) = [Task_IN_PROGRESS]"
proof
  have run1: "review_commit ''r1'' 9 (half_approval ''u1'' ''g1'') review_db = Inr (written ''r1'' (half_approval ''u1'' ''g1'') review_db)"
    unfolding written_def by (rule not_isl_result) code_simp
  have run2: "review_commit ''r2'' 9 (half_approval ''u2'' ''g2'') (written ''r1'' (half_approval ''u1'' ''g1'') review_db) =
      Inr two_approved_db"
    unfolding two_approved_db_def written_def [of "''r2''"] by (rule not_isl_result) code_simp
  have stages: "active_stages review_db example_assignment = [''g1'', ''g2'']"
    by (simp add: example_stages example_assignment_def)
  show "set (active_stages two_approved_db example_assignment) \<subseteq> set (approved_stages two_approved_db example_assignment)"
    by (rule parallel_approvals_never_complete [OF example_coherent(1) _ _ _ _ _ _ _ _ _ _ run1 run2 rtranclp.rtrancl_refl,
        where a = example_assignment and ?s1.0 = "example_submission ''u1'' ''g1''" and
          ?s2.0 = "example_submission ''u2'' ''g2''", THEN conjunct1])
      (use example_prepared(2,3) stages in \<open>simp_all add: review_db_def example_submission_def example_assignment_def card_insert_if\<close>)
  show "map ra_status (vdb_assignments two_approved_db) = [Task_IN_PROGRESS]" by code_simp
qed

end
