(* ===== verification/Review_Proofs.thy ===== *)
theory Review_Proofs
  imports Review_Consistency
begin

text \<open>
  What a submission says of its proof: the request that submits a stage and the check of the uploaded file against the
  object store, taken together.
\<close>

section \<open>Submissions and their proof\<close>

lemma submit_proof:
  assumes "SubmitReinforcementStageUseCase_prepare storage ctx now assignmentId stageId command db = Inr (PSubmit scope input before)"
  shows "\<exists>taskId stage. findStageForAssignment (scope_schoolId scope) taskId stageId db = Some stage \<and>
    si_stageId input = rs_id stage \<and> si_schoolId input = scope_schoolId scope \<and>
    si_proofFileId input = trimmed_or_null (sd_proofFileId command) \<and>
    assertProofPayloadMatchesProofType (rs_proofType stage) (sd_proofFileId command) = Inr () \<and>
    (truthy (sd_proofFileId command) \<longrightarrow> (\<exists>f. findProofFile (the (sd_proofFileId command)) (scope_organizationId scope)
      (scope_schoolId scope) (scope_actorId scope) db = Some f \<and> (rs_proofType stage \<noteq> Proof_NONE \<longrightarrow>
        verify storage (rs_proofType stage) (pf_mimeType f) (pf_bucket f) (pf_objectKey f) (pf_sizeBytes f) = Inr ())))"
  using assms unfolding SubmitReinforcementStageUseCase_prepare_def Let_def andThen_eq_Inr found_eq_Inr
  by (elim exE conjE) (clarsimp, rule exI, rule exI, rule conjI, assumption, auto simp: andThen_eq_Inr split: if_splits)

lemma proof_required:
  assumes "assertProofPayloadMatchesProofType t fileId = Inr ()" "t \<noteq> Proof_NONE"
  shows "truthy fileId"
proof -
  have "ReinforcementProofType_name t \<noteq> ''NONE''" using assms(2) by (cases t) simp_all
  then have "truthy (trimmed_or_null fileId)"
    using assms(1) by (auto simp: assertProofPayloadMatchesProofType_def split: if_splits)
  moreover have "js_trim [] = []" by code_simp
  ultimately show ?thesis by (cases fileId) (auto simp: trimmed_or_null_def Let_def split: if_splits)
qed

lemma found_proof_file:
  assumes "findProofFile fileId org school uploader db = Some f"
  shows "f \<in> set (vdb_files db) \<and> pf_id f = fileId \<and> pf_organizationId f = org \<and> pf_schoolId f = Some school \<and>
    pf_uploaderId f = Some uploader \<and> pf_private f \<and> pf_deletedAt f = None"
proof -
  obtain g where g: "findFirst (\<lambda>f. pf_id f = fileId \<and> pf_organizationId f = org \<and> pf_schoolId f = Some school \<and>
      pf_uploaderId f = Some uploader \<and> pf_private f \<and> pf_deletedAt f = None \<and> pf_sizeBytes f > 0 \<and>
      pf_bucket f \<noteq> [] \<and> pf_objectKey f \<noteq> []) (vdb_files db) = Some g" "g = f"
    using assms by (auto simp: findProofFile_def split: option.splits if_splits)
  from findFirst_SomeD [OF g(1)] g(2) show ?thesis by simp
qed

lemma verified_content:
  assumes "verify storage t declared bucket objectKey expected = Inr ()" "t \<noteq> Proof_NONE"
  shows "\<exists>chunks ending mime. getObject storage bucket objectKey = Some (chunks, ending) \<and>
    mime \<in> set (REINFORCEMENT_PROOF_MIME_TYPES t) \<and>
    detectReinforcementProofMime (take (nat (min expected REINFORCEMENT_PROOF_PREFIX_MAX_BYTES)) (concat chunks)) = Inr (Some mime)"
proof -
  note needs = verify_needs [OF assms(1)]
  let ?n = "nat (min expected REINFORCEMENT_PROOF_PREFIX_MAX_BYTES)"
  have "0 < ?n" using needs(2) by (simp add: REINFORCEMENT_PROOF_PREFIX_MAX_BYTES_def)
  have "content_check storage t (toLowerCase (js_trim declared)) bucket objectKey ?n"
    using verify_content [OF needs] assms(1) by blast
  then obtain prefix where "readObjectPrefix storage bucket objectKey ?n = Inr prefix"
    "detectReinforcementProofMime prefix = Inr (Some (toLowerCase (js_trim declared)))" by (auto simp: content_check_def)
  moreover have "toLowerCase (js_trim declared) \<in> set (REINFORCEMENT_PROOF_MIME_TYPES t)"
    using needs(1) assms(2) by (simp add: allowed_mime)
  ultimately show ?thesis using readObjectPrefix_exact [OF \<open>0 < ?n\<close>, of storage bucket objectKey prefix] by auto
qed

text \<open>C8. A stage that asks for a proof is not submitted without one. When a request to submit a stage of the school
  passes its checks, the stage is an active one, and unless its proof type is \<open>NONE\<close> the file the student names is a
  private file of the school that the student uploaded, and the first bytes that the object store delivers for it are a
  file of a type the stage allows, whatever type the upload declared.\<close>

theorem submitted_proof_verified:
  assumes "SubmitReinforcementStageUseCase_prepare storage ctx now assignmentId stageId command db = Inr (PSubmit scope input before)"
  shows "\<exists>stage \<in> set (vdb_stages db). rs_id stage = si_stageId input \<and> rs_schoolId stage = si_schoolId input \<and>
    rs_deletedAt stage = None \<and> (rs_proofType stage = Proof_NONE \<or>
    (\<exists>f \<in> set (vdb_files db). sd_proofFileId command = Some (pf_id f) \<and> si_proofFileId input = trimmed_or_null (Some (pf_id f)) \<and>
       pf_schoolId f = Some (si_schoolId input) \<and> pf_uploaderId f = Some (scope_actorId scope) \<and> pf_private f \<and>
       pf_deletedAt f = None \<and> (\<exists>chunks ending mime. getObject storage (pf_bucket f) (pf_objectKey f) = Some (chunks, ending) \<and>
         mime \<in> set (REINFORCEMENT_PROOF_MIME_TYPES (rs_proofType stage)) \<and>
         detectReinforcementProofMime (take (nat (min (pf_sizeBytes f) REINFORCEMENT_PROOF_PREFIX_MAX_BYTES)) (concat chunks)) =
           Inr (Some mime))))"
proof -
  obtain taskId stage where stage: "findStageForAssignment (scope_schoolId scope) taskId stageId db = Some stage"
    and input: "si_stageId input = rs_id stage" "si_schoolId input = scope_schoolId scope"
      "si_proofFileId input = trimmed_or_null (sd_proofFileId command)"
    and need: "assertProofPayloadMatchesProofType (rs_proofType stage) (sd_proofFileId command) = Inr ()"
    and named: "truthy (sd_proofFileId command) \<Longrightarrow> \<exists>f. findProofFile (the (sd_proofFileId command)) (scope_organizationId scope)
      (scope_schoolId scope) (scope_actorId scope) db = Some f \<and> (rs_proofType stage \<noteq> Proof_NONE \<longrightarrow>
        verify storage (rs_proofType stage) (pf_mimeType f) (pf_bucket f) (pf_objectKey f) (pf_sizeBytes f) = Inr ())"
    using submit_proof [OF assms] by blast
  have row: "stage \<in> set (vdb_stages db)" "rs_schoolId stage = scope_schoolId scope" "rs_deletedAt stage = None"
    using findFirst_SomeD [OF stage [unfolded findStageForAssignment_def]] by auto
  show ?thesis
  proof (cases "rs_proofType stage = Proof_NONE")
    case True
    then show ?thesis using row input by auto
  next
    case False
    have t: "truthy (sd_proofFileId command)" by (rule proof_required [OF need False])
    then obtain fileId where fileId: "sd_proofFileId command = Some fileId" by (cases "sd_proofFileId command") auto
    obtain f where f: "findProofFile fileId (scope_organizationId scope) (scope_schoolId scope) (scope_actorId scope) db = Some f"
      "verify storage (rs_proofType stage) (pf_mimeType f) (pf_bucket f) (pf_objectKey f) (pf_sizeBytes f) = Inr ()"
      using named [OF t] fileId False by auto
    show ?thesis
      using row input fileId found_proof_file [OF f(1)] verified_content [OF f(2) False]
      by (intro bexI [of _ stage] conjI disjI2 bexI [of _ f]) simp_all
  qed
qed

text \<open>A stage that asks for a document, and a PDF that the store delivers in two chunks.\<close>

definition document_db :: ReviewDb where
  "document_db = review_db\<lparr>vdb_stages := [example_stage ''g1'' 1\<lparr>rs_proofType := Proof_DOCUMENT\<rparr>], vdb_submissions := [],
     vdb_files := [\<lparr>pf_id = ''f'', pf_organizationId = ''o'', pf_schoolId = Some ''s'', pf_uploaderId = Some ''u'', pf_private = True,
       pf_mimeType = ''application/pdf'', pf_sizeBytes = 8, pf_bucket = ''b'', pf_objectKey = ''k'', pf_deletedAt = None\<rparr>]\<rparr>"

definition pdf_storage :: ObjectStorage where
  "pdf_storage = \<lparr>statObject = (\<lambda>bucket objectKey. Some (Some 8)),
     getObject = (\<lambda>bucket objectKey. Some ([ascii_bytes ''%PDF'', ascii_bytes ''-1.7''], Stream_ended))\<rparr>"

definition document_command :: SubmitReinforcementStageDto where
  "document_command = \<lparr>sd_proofText = None, sd_proofFileId = Some ''f'', sd_metadata = None\<rparr>"

fun is_submit :: "review_pending result \<Rightarrow> bool" where
  "is_submit (Inr (PSubmit scope input before)) = True"
| "is_submit _ = False"

lemma is_submitD: "is_submit r \<Longrightarrow> \<exists>scope input before. r = Inr (PSubmit scope input before)"
  by (cases r rule: is_submit.cases) simp_all

theorem submitted_proof_verified_witness:
  "\<exists>f \<in> set (vdb_files document_db). \<exists>chunks ending. getObject pdf_storage (pf_bucket f) (pf_objectKey f) = Some (chunks, ending) \<and>
     detectReinforcementProofMime (take 8 (concat chunks)) = Inr (Some ''application/pdf'')"
proof -
  have "is_submit (SubmitReinforcementStageUseCase_prepare pdf_storage review_caller 9 ''a'' ''g1'' document_command document_db)"
    by code_simp
  then obtain scope input before where
    "SubmitReinforcementStageUseCase_prepare pdf_storage review_caller 9 ''a'' ''g1'' document_command document_db =
      Inr (PSubmit scope input before)" using is_submitD by blast
  from submitted_proof_verified [OF this] show ?thesis
    by (auto simp: document_db_def example_stage_def REINFORCEMENT_PROOF_PREFIX_MAX_BYTES_def)
qed

end
