(* ===== verification/Spec2Isabelle.thy ===== *)
theory Spec2Isabelle
  imports Timetable_Plan Tenant_Scope Reward_Theorems Attendance_Theorems Behavior_Theorems Grade_Theorems
    Proof_Integers Review_Race Review_Proofs
begin

text \<open>
  Verification of the core of the Moazez school backend, a NestJS application over PostgreSQL and Prisma
  that serves many schools from one database. Source paths are relative to the repository;
  \<open>modules/\<close> stands for \<open>src/src/modules/\<close>.

  \<^bold>\<open>The program and its model.\<close> A request enters through a use case
  (\<open>modules/<module>/application\<close>). The use case reads the request context, loads rows through a
  repository (\<open>modules/<module>/infrastructure\<close>), decides with pure functions
  (\<open>modules/<module>/domain\<close>), writes in a transaction and appends an audit entry. The database client
  adds the school of the caller to every query. The model keeps this division:

    \<^item> a thrown error is a value \<open>Inl\<close> of \<open>js_exception + 'a\<close> (\<open>result\<close> in \<open>Moazez_Prelude\<close>) with the code,
      message, status and details of the source; \<open>andThen\<close> is sequencing, \<open>mapR\<close> and \<open>filterR\<close> are loops that
      may throw;
    \<^item> the tables of a module are one record of lists of rows (\<open>RewardDb\<close>, \<open>AttendanceDb\<close>, \<open>BehaviorDb\<close>,
      \<open>GradeDb\<close>, \<open>ReviewDb\<close>), a row is a record with the columns its queries use, an enum is a datatype;
    \<^item> a use case is split where it starts to write: \<open>X_prepare\<close> reads and checks, the commit function of the
      module runs its transaction. A transaction that throws leaves the tables as they were;
    \<^item> several requests in progress are a list of prepared requests beside the tables: \<open>interleaved\<close> in
      \<open>Interleaving\<close> (and the step relations of \<open>Reward_Requests\<close> and \<open>Attendance_System\<close>) starts or finishes
      any of them at any time, \<open>isolated\<close> runs one at a time. A transaction itself is atomic;
    \<^item> texts are lists of characters, whole numbers are \<open>int\<close>, JavaScript numbers in calculations are rationals
      rounded to 53 bits after every operation (\<open>Js_Number\<close>), decimal columns are rounded to two places
      (\<open>decimal_column\<close>), dates are milliseconds or days.

  \<^bold>\<open>Shared theories.\<close> \<open>Moazez_Prelude\<close>: results, JavaScript strings, stable sorting with a comparator
  (locale \<open>comparator\<close>, interpreted for code unit order and numbers), insertion-ordered maps.
  \<open>Enum_Values\<close>: enum normalisation with alias tables that are object literals. \<open>School_Tables\<close>: \<open>findFirst\<close>,
  \<open>updateMany\<close> and rows several modules read. \<open>Js_Number\<close>: rounding, its monotonicity and the exactness of small
  whole numbers, parsing of numbers. \<open>Lifecycle\<close>: locale of state machines with a rank, interpreted for
  redemptions and excuse requests. \<open>Interleaving\<close>: locales for invariants of requests, \<open>stable_invariant\<close> with
  its special case \<open>request_invariant\<close> (a sublocale) and \<open>isolated_invariant\<close>, interpreted for behavior,
  grades and reviews. \<open>Reinforcement_Context\<close>: caller and audit entry of the reinforcement modules. \<open>Byte_Buffers\<close>:
  buffers as lists of \<open>8 word\<close>, big-endian reads and the CRC-32 of the source on \<open>32 word\<close>, shown equal to the
  shift register of the PNG specification and to detect every burst of up to four bytes.

  \<^bold>\<open>Tenant scope\<close> (\<open>Tenant_Scope\<close>; \<open>src/src/infrastructure/database/school-scope.extension.ts\<close>,
  \<open>src/src/common/context/request-context.ts\<close>): merging of filters, soft deletion, bypass flags. A scoped query
  only reaches rows of the school of the caller; overlapping bypass calls can leave the flag set.

  \<^bold>\<open>Timetable\<close> (\<open>Timetable_Time\<close>, \<open>Timetable_Policy\<close>, \<open>Timetable_Conflicts\<close>, \<open>Timetable_Demand\<close>,
  \<open>Timetable_Generator\<close>, \<open>Timetable_Plan\<close>; \<open>modules/academics/timetable/domain\<close>,
  \<open>modules/academics/rooms/domain\<close>): times, the effective configuration, the conflict report, demand from the
  curriculum, and the branch and bound generator. Generation ends (its recursion is over the tasks, and
  the node budget \<open>MAX_TIMETABLE_GENERATION_SEARCH_NODES\<close> of the source bounds the visited nodes), its plan
  is legal, free of conflicts and, when the budget was not used up, as large as any valid plan. This theory
  joins demand, reconciliation and generation: a plan without unresolved demand meets the curriculum.

  \<^bold>\<open>Reward redemptions\<close> (\<open>Reward_Domain\<close>, \<open>Reward_Store\<close>, \<open>Reward_Requests\<close>, \<open>Reward_Invariants\<close>,
  \<open>Reward_Theorems\<close>; \<open>modules/reinforcement/rewards\<close>): under every interleaving a limited reward is never
  oversold, a redemption moves forward only, and a student has one open redemption of an item.

  \<^bold>\<open>Proof files\<close> (\<open>Proof_Content\<close>, \<open>Proof_Formats\<close>, \<open>Proof_Integers\<close>, \<open>Proof_Verifier\<close>;
  \<open>modules/reinforcement/reviews/domain/reinforcement-proof-content.ts\<close> and the verifier service): detection of the type
  of a file from its first bytes. Detection never reads outside the buffer, its loops end because each turn moves the
  offset forward, the JPEG scanner accepts exactly a grammar of segments (\<open>jpeg_segments\<close>), corrupted PNG headers are
  refused, EBML integers are read back exactly, and a file passes the verifier exactly when size, prefix and declared
  type agree. The object store is the parameter \<open>ObjectStorage\<close>.

  \<^bold>\<open>Submissions and reviews\<close> (\<open>Review_Domain\<close>, \<open>Review_Store\<close>, \<open>Review_Requests\<close>, \<open>Review_Progress\<close>, \<open>Review_Theorems\<close>,
  \<open>Review_Consistency\<close>, \<open>Review_Race\<close>, \<open>Review_Proofs\<close>; \<open>modules/reinforcement/reviews\<close> and the cancellation in
  \<open>modules/reinforcement/tasks\<close>): students submit the stages of a task, reviewers approve or reject them, and the
  assignment follows. An approved submission is final under every interleaving; without interleaving progress and
  completion of an assignment are those of its approved stages; two approvals at the same time strand it. Progress is
  exact below two hundred stages. A stage that asks for a proof is only submitted with a verified file.

  \<^bold>\<open>Attendance\<close> (\<open>Attendance_Policy\<close>, \<open>Attendance_Entries\<close>, \<open>Attendance_Store\<close>, \<open>Attendance_Requests\<close>,
  \<open>Attendance_System\<close>, \<open>Attendance_Theorems\<close>; \<open>modules/attendance\<close>): choice of the policy, thresholds,
  corrections, and the requests of roll call and excuses. An approval excuses exactly what it covers, a
  session has one entry per student; two races are shown in which checks of one request are undone by
  another.

  \<^bold>\<open>Behavior records\<close> (\<open>Behavior_Domain\<close>, \<open>Behavior_Store\<close>, \<open>Behavior_Requests\<close>, \<open>Behavior_Theorems\<close>;
  \<open>modules/behavior\<close>): records, review and the ledger of points. The ledger books a record once under every
  interleaving and agrees with the records when requests do not interleave.

  \<^bold>\<open>Grades\<close> (\<open>Grade_Calculation\<close>, \<open>Grade_Domain\<close>, \<open>Grade_Store\<close>, \<open>Grade_Requests\<close>, \<open>Grade_System\<close>,
  \<open>Grade_Invariants\<close>, \<open>Grade_Preservation\<close>, \<open>Grade_Examples\<close>, \<open>Grade_Theorems\<close>; \<open>modules/grades\<close>):
  percentages and final grades in double arithmetic, assessments with their scopes, weights and workflow, marks,
  grading rules, and the access rules of school users, teachers and students. Better marks never lower a grade
  and a final grade stays within the graded weight. An assessment only moves forward under every
  interleaving and can be completed; the budget of weights and the range of marks hold when requests do not
  interleave, and a race is shown for each check that is not repeated in the transaction.

  \<^bold>\<open>Parameters.\<close> \<open>lc\<close> is the locale comparison of strings, any comparison function. \<open>parse\<close> is
  \<open>new Date(text)\<close>: any partial function from text to milliseconds. \<open>newId\<close> gives the ids of new rows.
  \<open>questions_ready\<close> is the validation of the questions of a question-based assessment
  (\<open>assertQuestionBasedPublishReady\<close>), an arbitrary check that may differ before and in the transaction. The
  audit entry of attendance and grades, which the code writes after the transaction, is part of the commit.

  \<^bold>\<open>Not modelled.\<close> Questions, submissions and answer media of assessments, the gradebook read model and
  listings; homework; creation of reinforcement tasks, their templates, hero journey, XP
  and management of the reward catalog; teacher employment and transfers; the application layer
  of the timetable and the rest of academics; students and admissions; communication and dismissal; portals and
  dashboards; identity, tokens and guards, which rest on third-party cryptography; platform
  administration; files, health and devices; queues, caches and bootstrap; delivery scripts. Presenters, list
  queries and validation decorators of request bodies are left out of the modelled modules, too: the models
  accept every body of the right shape. Of the database, isolation within a transaction and the unique
  indexes named in the definitions are modelled, other constraints are not.
\<close>

section \<open>From the curriculum to the timetable\<close>


definition example_allocation :: TimetableSubjectAllocationRecord where
  "example_allocation = (dm_subjectAllocation example_demand)\<lparr>sa_weeklyHours := 1\<rparr>"

definition example_classroom :: TimetableClassroomRecord where
  "example_classroom = dm_classroom example_demand"

definition example_curriculum :: GenerationInput where
  "example_curriculum = example_input\<lparr>in_demand :=
     reconcileCanonicalTimetableDemand
       (buildCanonicalTimetableDemand string_compare [example_allocation] [example_classroom]
          (in_teacherAllocations example_input))
       (in_existingTermEntries example_input)\<rparr>"


end
